(* ===== verification/Prelude.thy ===== *)
theory Prelude
  imports Main "HOL-Library.AList"
begin

text \<open>
  The vocabulary the components share: Go's time as nanoseconds, the string functions of the
  standard library the code calls, the error values of the stores, and the lemma collections
  that carry the component proofs.

  Strings are lists of bytes, as in Go. Case folding (\<open>strings.ToLower\<close>,
  \<open>strings.EqualFold\<close>) and white space (\<open>strings.TrimSpace\<close>) are modelled on ASCII, with the two
  runes beyond it that fold to ASCII letters; all other bytes compare exactly.
\<close>

named_theorems db_simps "what a table operation does to the lookup of a key"
named_theorems key_simps "injectivity and separation of the table keys"
named_theorems step_simps "the definitions a step of a component unfolds to"

subsection \<open>Time\<close>

text \<open>An instant is its number of nanoseconds since the Unix epoch; a duration is a difference.\<close>

type_synonym gotime = int
type_synonym duration = int

abbreviation nanos_per_sec :: int where
  "nanos_per_sec \<equiv> 1000000000"

definition seconds :: "int \<Rightarrow> duration" where
  "seconds n = n * nanos_per_sec"

definition minutes :: "int \<Rightarrow> duration" where
  "minutes n = n * 60 * nanos_per_sec"

definition hours :: "int \<Rightarrow> duration" where
  "hours n = n * 3600 * nanos_per_sec"

definition unix :: "gotime \<Rightarrow> int" where
  "unix t = t div nanos_per_sec"

text \<open>Go's zero \<open>time.Time\<close>: January 1 of year 1.\<close>

definition zero_time :: gotime where
  "zero_time = - 62135596800 * nanos_per_sec"

lemmas time_defs = seconds_def minutes_def hours_def

lemma unix_mono: "a \<le> b \<Longrightarrow> unix a \<le> unix b"
  by (simp add: unix_def zdiv_mono1)

lemma unix_add_seconds: "unix (t + seconds n) = unix t + n"
  by (simp add: unix_def seconds_def)

lemma unix_add_hours: "unix (t + hours n) = unix t + n * 3600"
proof -
  have "hours n = (n * 3600) * nanos_per_sec"
    by (simp add: hours_def)
  then show ?thesis by (simp add: unix_def)
qed

lemma unix_add_minutes: "unix (t + minutes n) = unix t + n * 60"
proof -
  have "minutes n = (n * 60) * nanos_per_sec"
    by (simp add: minutes_def)
  then show ?thesis by (simp add: unix_def)
qed

subsection \<open>Strings\<close>

text \<open>\<open>strings.HasPrefix\<close>, \<open>strings.TrimPrefix\<close>, \<open>strings.TrimSuffix\<close>.\<close>

fun has_prefix :: "string \<Rightarrow> string \<Rightarrow> bool" where
  "has_prefix s [] = True"
| "has_prefix [] (p # ps) = False"
| "has_prefix (c # cs) (p # ps) = (c = p \<and> has_prefix cs ps)"

definition trim_prefix :: "string \<Rightarrow> string \<Rightarrow> string" where
  "trim_prefix s p = (if has_prefix s p then drop (length p) s else s)"

definition has_suffix :: "string \<Rightarrow> string \<Rightarrow> bool" where
  "has_suffix s p = has_prefix (rev s) (rev p)"

definition trim_suffix :: "string \<Rightarrow> string \<Rightarrow> string" where
  "trim_suffix s p = (if has_suffix s p then take (length s - length p) s else s)"

lemma has_prefix_iff: "has_prefix s p \<longleftrightarrow> (\<exists>r. s = p @ r)"
  by (induction s p rule: has_prefix.induct) auto

lemma has_prefix_append [simp]: "has_prefix (p @ r) p"
  by (auto simp: has_prefix_iff)

lemma has_prefix_app_app [simp]: "has_prefix (p @ s) (p @ r) \<longleftrightarrow> has_prefix s r"
  by (induction p) auto

lemma has_prefix_refl [simp]: "has_prefix p p"
  by (auto simp: has_prefix_iff)

lemma trim_prefix_append [simp]: "trim_prefix (p @ r) p = r"
  by (simp add: trim_prefix_def)

lemma has_suffix_iff: "has_suffix s p \<longleftrightarrow> (\<exists>r. s = r @ p)"
proof
  assume "has_suffix s p"
  then obtain r where "rev s = rev p @ r"
    by (auto simp: has_suffix_def has_prefix_iff)
  then have "s = rev r @ p" by (metis rev_append rev_rev_ident)
  then show "\<exists>r. s = r @ p" ..
qed (auto simp: has_suffix_def)

text \<open>\<open>strings.Cut\<close> at the first occurrence of a byte.\<close>

fun cut :: "char \<Rightarrow> string \<Rightarrow> string \<times> string \<times> bool" where
  "cut c [] = ([], [], False)"
| "cut c (x # xs) =
     (if x = c then ([], xs, True)
      else (case cut c xs of (a, b, f) \<Rightarrow> (x # a, b, f)))"

lemma cut_none: "c \<notin> set s \<Longrightarrow> cut c s = (s, [], False)"
  by (induction s) auto

lemma cut_some: "c \<notin> set a \<Longrightarrow> cut c (a @ c # b) = (a, b, True)"
  by (induction a) auto

lemma cut_eq:
  "cut c s = (a, b, f) \<Longrightarrow> c \<notin> set a \<and> s = (if f then a @ c # b else a) \<and> (\<not> f \<longrightarrow> b = [])"
  by (induction s arbitrary: a b f) (auto split: if_splits prod.splits)

text \<open>\<open>strings.Split\<close> on a one-byte separator: never empty.\<close>

fun split_on :: "char \<Rightarrow> string \<Rightarrow> string list" where
  "split_on c [] = [[]]"
| "split_on c (x # xs) =
     (if x = c then [] # split_on c xs
      else (case split_on c xs of [] \<Rightarrow> [[x]] | y # ys \<Rightarrow> (x # y) # ys))"

lemma split_on_nonempty [simp]: "split_on c s \<noteq> []"
  by (induction s) (auto split: list.splits)

lemma split_on_none: "c \<notin> set s \<Longrightarrow> split_on c s = [s]"
  by (induction s) auto

lemma split_on_append: "c \<notin> set a \<Longrightarrow> split_on c (a @ c # b) = a # split_on c b"
  by (induction a) auto

text \<open>ASCII case folding and white space.\<close>

definition lower_char :: "char \<Rightarrow> char" where
  "lower_char c =
     (let n = of_char c :: nat in if 65 \<le> n \<and> n \<le> 90 then char_of (n + 32) else c)"

text \<open>
  Two runes beyond ASCII fold to ASCII letters: the Kelvin sign U+212A (bytes E2 84 AA, to k, in
  \<open>ToLower\<close> and \<open>EqualFold\<close>) and the long s U+017F (bytes C5 BF, to s, in \<open>EqualFold\<close> only).
\<close>

fun fold_bytes :: "bool \<Rightarrow> string \<Rightarrow> string" where
  "fold_bytes ls (a # b # c # s) =
     (if a = CHR 0xE2 \<and> b = CHR 0x84 \<and> c = CHR 0xAA then CHR ''k'' # fold_bytes ls s
      else if ls \<and> a = CHR 0xC5 \<and> b = CHR 0xBF then CHR ''s'' # fold_bytes ls (c # s)
      else lower_char a # fold_bytes ls (b # c # s))"
| "fold_bytes ls [a, b] =
     (if ls \<and> a = CHR 0xC5 \<and> b = CHR 0xBF then ''s'' else [lower_char a, lower_char b])"
| "fold_bytes ls [a] = [lower_char a]"
| "fold_bytes ls [] = []"

definition to_lower :: "string \<Rightarrow> string" where
  "to_lower s = fold_bytes False s"

definition equal_fold :: "string \<Rightarrow> string \<Rightarrow> bool" where
  "equal_fold a b \<longleftrightarrow> fold_bytes True a = fold_bytes True b"

definition is_space :: "char \<Rightarrow> bool" where
  "is_space c \<longleftrightarrow> (let n = of_char c :: nat in n = 32 \<or> (9 \<le> n \<and> n \<le> 13))"

definition trim_space :: "string \<Rightarrow> string" where
  "trim_space s = rev (dropWhile is_space (rev (dropWhile is_space s)))"

lemma equal_fold_refl [simp]: "equal_fold a a"
  by (simp add: equal_fold_def)

lemma equal_fold_sym: "equal_fold a b \<longleftrightarrow> equal_fold b a"
  by (auto simp: equal_fold_def)

lemma equal_fold_trans: "equal_fold a b \<Longrightarrow> equal_fold b c \<Longrightarrow> equal_fold a c"
  by (simp add: equal_fold_def)

lemma trim_space_Nil [simp]: "trim_space [] = []"
  by (simp add: trim_space_def)

lemma set_trim_space: "set (trim_space s) \<subseteq> set s"
proof
  fix x assume "x \<in> set (trim_space s)"
  then have "x \<in> set (dropWhile is_space (rev (dropWhile is_space s)))"
    by (simp add: trim_space_def)
  then have "x \<in> set (rev (dropWhile is_space s))"
    by (rule set_dropWhileD)
  then have "x \<in> set (dropWhile is_space s)" by simp
  then show "x \<in> set s" by (rule set_dropWhileD)
qed

text \<open>A separator splits a string in only one way when the left parts do not contain it.\<close>

lemma append_sep_inject:
  "c \<notin> set a \<Longrightarrow> c \<notin> set a' \<Longrightarrow> (a @ c # b = a' @ c # b') \<longleftrightarrow> (a = a' \<and> b = b')"
proof (induction a arbitrary: a')
  case Nil
  then show ?case by (cases a') auto
next
  case (Cons x a)
  then show ?case by (cases a') auto
qed

lemma set_map_filter_iff: "y \<in> set (List.map_filter f xs) \<longleftrightarrow> (\<exists>x\<in>set xs. f x = Some y)"
  by (induction xs) (auto simp: List.map_filter_def)

lemma distinct_singleton:
  assumes "distinct xs" and "x \<in> set xs" and "\<And>y. y \<in> set xs \<Longrightarrow> y = x"
  shows "xs = [x]"
proof -
  have s: "set xs = {x}" using assms(2,3) by blast
  then have "length xs = 1" using distinct_card [OF assms(1)] by simp
  then show ?thesis using s by (cases xs) auto
qed

subsection \<open>Errors\<close>

text \<open>
  The error values of the stores. \<open>ErrTransient\<close> stands for any error of the backend other than
  the sentinels (throttling, a network failure); \<open>Wrap\<close> is \<open>fmt.Errorf\<close> with the verb
  \<^verbatim>\<open>%w\<close>, the message without its interpolated values.
\<close>

datatype err =
    ErrNotFound
  | ErrConditionFailed
  | ErrTransient
  | ErrDuplicateEntityID
  | ErrTenantExists
  | ErrMsg string
  | Wrap string err

type_synonym 'a res = "err + 'a"

text \<open>\<open>errors.Is\<close> against a sentinel: the chain of wrapped errors is searched.\<close>

fun errors_is :: "err \<Rightarrow> err \<Rightarrow> bool" where
  "errors_is (Wrap m e) t = (Wrap m e = t \<or> errors_is e t)"
| "errors_is e t = (e = t)"

definition wrap_res :: "string \<Rightarrow> 'a res \<Rightarrow> 'a res" where
  "wrap_res m r = (case r of Inl e \<Rightarrow> Inl (Wrap m e) | Inr x \<Rightarrow> Inr x)"

lemma wrap_res_simps [simp]:
  "wrap_res m (Inl e) = Inl (Wrap m e)"
  "wrap_res m (Inr x) = Inr x"
  by (simp_all add: wrap_res_def)

lemma wrap_res_Inr_iff [simp]: "wrap_res m r = Inr x \<longleftrightarrow> r = Inr x"
  by (cases r) auto

end
