(* ===== verification/Url.thy ===== *)
theory Url
  imports Prelude
begin

text \<open>
  What the gateway uses of Go's \<^verbatim>\<open>net/url\<close>: \<^verbatim>\<open>url.Parse\<close> with its scheme, authority, host and path
  rules, and \<^verbatim>\<open>(*URL).EscapedPath\<close>. The errors of the library are one value, since no caller looks
  at which one it is. The lemmas at the end describe what a successfully parsed host says about
  the raw bytes of the URL, which is what the redirect allow-lists rely on.
\<close>

subsection \<open>Escaping\<close>

datatype enc_mode = EncPath | EncHost | EncZone | EncUser | EncFragment

definition is_letter :: "char \<Rightarrow> bool" where
  "is_letter c \<longleftrightarrow> (let n = of_char c :: nat in (97 \<le> n \<and> n \<le> 122) \<or> (65 \<le> n \<and> n \<le> 90))"

definition is_digit :: "char \<Rightarrow> bool" where
  "is_digit c \<longleftrightarrow> (let n = of_char c :: nat in 48 \<le> n \<and> n \<le> 57)"

definition is_alnum :: "char \<Rightarrow> bool" where
  "is_alnum c \<longleftrightarrow> is_letter c \<or> is_digit c"

definition sub_delims_host :: string where
  "sub_delims_host = [CHR ''!'', CHR ''$'', CHR ''&'', CHR 0x27, CHR ''('', CHR '')'', CHR ''*'',
     CHR ''+'', CHR '','', CHR '';'', CHR ''='', CHR '':'', CHR ''['', CHR '']'', CHR ''<'',
     CHR ''>'', CHR 0x22]"

definition should_escape :: "enc_mode \<Rightarrow> char \<Rightarrow> bool" where
  "should_escape m c =
     (if is_alnum c then False
      else if (m = EncHost \<or> m = EncZone) \<and> c \<in> set sub_delims_host then False
      else if c \<in> set ''-_.~'' then False
      else if c \<in> set ''$&+,/:;=?@'' then
        (case m of
           EncPath \<Rightarrow> c = CHR ''?''
         | EncUser \<Rightarrow> c \<in> set ''@/?:''
         | EncFragment \<Rightarrow> False
         | _ \<Rightarrow> True)
      else if m = EncFragment \<and> c \<in> set ''!()*'' then False
      else True)"

definition unhex :: "char \<Rightarrow> nat option" where
  "unhex c =
     (let n = of_char c :: nat in
      if 48 \<le> n \<and> n \<le> 57 then Some (n - 48)
      else if 97 \<le> n \<and> n \<le> 102 then Some (n - 87)
      else if 65 \<le> n \<and> n \<le> 70 then Some (n - 55)
      else None)"

definition hex_digit :: "nat \<Rightarrow> char" where
  "hex_digit n = ''0123456789ABCDEF'' ! n"

text \<open>\<^verbatim>\<open>unescape\<close>; the percent triples a host may contain are limited as in the library.\<close>

definition bad_triple :: "enc_mode \<Rightarrow> nat \<Rightarrow> nat \<Rightarrow> bool" where
  "bad_triple m h l \<longleftrightarrow>
     (m = EncHost \<and> h < 8 \<and> \<not> (h = 2 \<and> l = 5)) \<or>
     (m = EncZone \<and> \<not> (h = 2 \<and> l = 5) \<and> h * 16 + l \<noteq> 32 \<and>
        should_escape EncHost (char_of (h * 16 + l)))"

definition bad_byte :: "enc_mode \<Rightarrow> char \<Rightarrow> bool" where
  "bad_byte m c \<longleftrightarrow> (m = EncHost \<or> m = EncZone) \<and> (of_char c :: nat) < 128 \<and> should_escape m c"

fun unescape :: "enc_mode \<Rightarrow> string \<Rightarrow> string option" where
  "unescape m [] = Some []"
| "unescape m (c # cs) =
     (if c = CHR ''%'' then
        (case cs of
           a # b # rest \<Rightarrow>
             (case (unhex a, unhex b) of
                (Some h, Some l) \<Rightarrow>
                  if bad_triple m h l then None
                  else map_option ((#) (char_of (h * 16 + l))) (unescape m rest)
              | _ \<Rightarrow> None)
         | _ \<Rightarrow> None)
      else if bad_byte m c then None
      else map_option ((#) c) (unescape m cs))"

fun escape :: "enc_mode \<Rightarrow> string \<Rightarrow> string" where
  "escape m [] = []"
| "escape m (c # cs) =
     (if should_escape m c then
        CHR ''%'' # hex_digit (of_char c div 16) # hex_digit (of_char c mod 16) # escape m cs
      else c # escape m cs)"

definition valid_encoded :: "string \<Rightarrow> bool" where
  "valid_encoded s \<longleftrightarrow>
     list_all (\<lambda>c. c = CHR 0x27 \<or> c \<in> set ''!$&()*+,;=:@[]%'' \<or> \<not> should_escape EncPath c) s"

subsection \<open>Parsing\<close>

record go_url =
  u_scheme :: string
  u_opaque :: string
  u_has_user :: bool
  u_host :: string
  u_path :: string
  u_raw_path :: string
  u_raw_query :: string
  u_fragment :: string

definition empty_url :: go_url where
  "empty_url = \<lparr>u_scheme = [], u_opaque = [], u_has_user = False, u_host = [], u_path = [],
     u_raw_path = [], u_raw_query = [], u_fragment = []\<rparr>"

definition is_ctl :: "char \<Rightarrow> bool" where
  "is_ctl c \<longleftrightarrow> (let n = of_char c :: nat in n < 32 \<or> n = 127)"

text \<open>\<^verbatim>\<open>getScheme\<close>: the scheme and the rest, or an error for a leading colon.\<close>

fun scan_scheme :: "bool \<Rightarrow> string \<Rightarrow> (string \<times> string) option option" where
  "scan_scheme first [] = Some None"
| "scan_scheme first (c # cs) =
     (if is_letter c \<or> (\<not> first \<and> (is_digit c \<or> c \<in> set ''+-.'')) then
        map_option (map_option (\<lambda>(s, r). (c # s, r))) (scan_scheme False cs)
      else if c = CHR '':'' then (if first then None else Some (Some ([], cs)))
      else Some None)"

definition get_scheme :: "string \<Rightarrow> (string \<times> string) option" where
  "get_scheme raw =
     (case scan_scheme True raw of
        None \<Rightarrow> None
      | Some None \<Rightarrow> Some ([], raw)
      | Some (Some (s, r)) \<Rightarrow> Some (s, r))"

definition valid_optional_port :: "string \<Rightarrow> bool" where
  "valid_optional_port p \<longleftrightarrow>
     (case p of [] \<Rightarrow> True | c # ds \<Rightarrow> c = CHR '':'' \<and> list_all (\<lambda>d. is_digit d) ds)"

text \<open>\<^verbatim>\<open>strings.LastIndex\<close> of a byte, as the two parts around it.\<close>

definition last_cut :: "char \<Rightarrow> string \<Rightarrow> (string \<times> string) option" where
  "last_cut c s =
     (if c \<in> set s
      then Some (rev (tl (dropWhile (\<lambda>x. x \<noteq> c) (rev s))), rev (takeWhile (\<lambda>x. x \<noteq> c) (rev s)))
      else None)"

text \<open>The part of a string before the first \<^verbatim>\<open>%25\<close>, and the rest from it.\<close>

fun zone_cut :: "string \<Rightarrow> (string \<times> string) option" where
  "zone_cut [] = None"
| "zone_cut (c # cs) =
     (if has_prefix (c # cs) ''%25'' then Some ([], c # cs)
      else map_option (\<lambda>(a, b). (c # a, b)) (zone_cut cs))"

text \<open>\<^verbatim>\<open>netip.ParseAddr\<close> on an IPv6 address with an optional zone.\<close>

definition v4_octet :: "string \<Rightarrow> bool" where
  "v4_octet s \<longleftrightarrow> s \<noteq> [] \<and> length s \<le> 3 \<and> list_all (\<lambda>c. is_digit c) s \<and>
     (length s = 1 \<or> hd s \<noteq> CHR ''0'') \<and>
     foldl (\<lambda>n c. n * 10 + (of_char c - 48)) 0 s \<le> (255 :: nat)"

definition v4_addr :: "string \<Rightarrow> bool" where
  "v4_addr s \<longleftrightarrow> (let ps = split_on (CHR ''.'') s in length ps = 4 \<and> list_all v4_octet ps)"

definition v6_group :: "string \<Rightarrow> bool" where
  "v6_group s \<longleftrightarrow> s \<noteq> [] \<and> length s \<le> 4 \<and> list_all (\<lambda>c. unhex c \<noteq> None) s"

text \<open>The number of 16-bit groups of a list of fields, the last of which may be an IPv4 address.\<close>

definition v6_fields :: "bool \<Rightarrow> string list \<Rightarrow> nat option" where
  "v6_fields v4ok gs =
     (if list_all v6_group gs then Some (length gs)
      else if v4ok \<and> gs \<noteq> [] \<and> list_all v6_group (butlast gs) \<and> v4_addr (last gs)
        then Some (length gs + 1)
      else None)"

definition v6_side :: "bool \<Rightarrow> string \<Rightarrow> nat option" where
  "v6_side v4ok s = (if s = [] then Some 0 else v6_fields v4ok (split_on (CHR '':'') s))"

fun ellipsis_cut :: "string \<Rightarrow> (string \<times> string) option" where
  "ellipsis_cut (a # b # s) =
     (if a = CHR '':'' \<and> b = CHR '':'' then Some ([], s)
      else map_option (\<lambda>(l, r). (a # l, r)) (ellipsis_cut (b # s)))"
| "ellipsis_cut s = None"

definition v6_addr :: "string \<Rightarrow> bool" where
  "v6_addr s =
     (case ellipsis_cut s of
        None \<Rightarrow> s \<noteq> [] \<and> v6_side True s = Some 8
      | Some (l, r) \<Rightarrow>
          (case (v6_side False l, v6_side True r) of
             (Some m, Some n) \<Rightarrow> m + n \<le> 7
           | _ \<Rightarrow> False))"

definition is_ipv6 :: "string \<Rightarrow> bool" where
  "is_ipv6 s =
     (case cut (CHR ''%'') s of (a, zone, found) \<Rightarrow> v6_addr a \<and> (found \<longrightarrow> zone \<noteq> []))"

definition unescape_literal :: "string \<Rightarrow> string option" where
  "unescape_literal h =
     (case zone_cut h of
        None \<Rightarrow> unescape EncHost h
      | Some (a, z) \<Rightarrow>
          (case (unescape EncHost a, unescape EncZone z) of
             (Some a', Some z') \<Rightarrow> Some (a' @ z')
           | _ \<Rightarrow> None))"

definition parse_host :: "string \<Rightarrow> string option" where
  "parse_host host =
     (if CHR ''['' \<in> set (tl host) then None
      else if has_prefix host ''['' then
        (case last_cut (CHR '']'') (tl host) of
           None \<Rightarrow> None
         | Some (inside, port) \<Rightarrow>
             if \<not> valid_optional_port port then None
             else (case (unescape_literal inside, unescape EncHost port) of
                 (Some h, Some p) \<Rightarrow>
                   if is_ipv6 h then Some (''['' @ h @ '']'' @ p) else None
               | _ \<Rightarrow> None))
      else if \<not> valid_optional_port (dropWhile (\<lambda>c. c \<noteq> CHR '':'') host) then None
      else unescape EncHost host)"

definition valid_userinfo :: "string \<Rightarrow> bool" where
  "valid_userinfo s \<longleftrightarrow>
     list_all (\<lambda>c. is_alnum c \<or> c = CHR 0x27 \<or> c \<in> set ''-._:~!$&()*+,;=%@'') s"

definition parse_authority :: "string \<Rightarrow> (bool \<times> string) option" where
  "parse_authority a =
     (case last_cut (CHR ''@'') a of
        None \<Rightarrow> map_option (Pair False) (parse_host a)
      | Some (ui, h) \<Rightarrow>
          (case parse_host h of
             None \<Rightarrow> None
           | Some host \<Rightarrow>
               if \<not> valid_userinfo ui then None
               else (case cut (CHR '':'') ui of (user, pass, _) \<Rightarrow>
                 if unescape EncUser user = None \<or> unescape EncUser pass = None then None
                 else Some (True, host))))"

definition set_path :: "go_url \<Rightarrow> string \<Rightarrow> go_url option" where
  "set_path u p =
     (case unescape EncPath p of
        None \<Rightarrow> None
      | Some path \<Rightarrow> Some (u\<lparr>u_path := path,
                            u_raw_path := (if p = escape EncPath path then [] else p)\<rparr>))"

definition cut_query :: "string \<Rightarrow> string \<times> string" where
  "cut_query rest = (case cut (CHR ''?'') rest of (a, b, _) \<Rightarrow> (a, b))"

definition split_authority :: "string \<Rightarrow> string \<times> string" where
  "split_authority s = (takeWhile (\<lambda>c. c \<noteq> CHR ''/'') s, dropWhile (\<lambda>c. c \<noteq> CHR ''/'') s)"

definition parse_no_frag :: "string \<Rightarrow> go_url option" where
  "parse_no_frag raw =
     (if list_ex is_ctl raw then None
      else if raw = ''*'' then Some (empty_url\<lparr>u_path := ''*''\<rparr>)
      else case get_scheme raw of
        None \<Rightarrow> None
      | Some (scheme, rest0) \<Rightarrow>
          (case cut_query rest0 of (rest, query) \<Rightarrow>
            let u = empty_url\<lparr>u_scheme := to_lower scheme, u_raw_query := query\<rparr> in
            if \<not> has_prefix rest ''/'' \<and> scheme \<noteq> [] then Some (u\<lparr>u_opaque := rest\<rparr>)
            else if \<not> has_prefix rest ''/'' \<and>
                    CHR '':'' \<in> set (takeWhile (\<lambda>c. c \<noteq> CHR ''/'') rest) then None
            else if (scheme \<noteq> [] \<or> \<not> has_prefix rest ''///'') \<and> has_prefix rest ''//'' then
              (case split_authority (drop 2 rest) of (auth, path) \<Rightarrow>
                case parse_authority auth of
                  None \<Rightarrow> None
                | Some (hasuser, host) \<Rightarrow>
                    set_path (u\<lparr>u_has_user := hasuser, u_host := host\<rparr>) path)
            else set_path u rest))"

definition parse_url :: "string \<Rightarrow> go_url option" where
  "parse_url raw =
     (case cut (CHR ''#'') raw of (u, frag, _) \<Rightarrow>
        case parse_no_frag u of
          None \<Rightarrow> None
        | Some v \<Rightarrow>
            (if frag = [] then Some v
             else map_option (\<lambda>f. v\<lparr>u_fragment := f\<rparr>) (unescape EncFragment frag)))"

definition escaped_path :: "go_url \<Rightarrow> string" where
  "escaped_path u =
     (if u_raw_path u \<noteq> [] \<and> valid_encoded (u_raw_path u) \<and>
         unescape EncPath (u_raw_path u) = Some (u_path u) then u_raw_path u
      else if u_path u = ''*'' then ''*''
      else escape EncPath (u_path u))"

subsection \<open>What a parsed host says about the raw bytes\<close>

lemma scan_scheme_raw:
  "scan_scheme first cs = Some (Some (s, r)) \<Longrightarrow> cs = s @ CHR '':'' # r \<and> (first \<longrightarrow> s \<noteq> [])"
  by (induction first cs arbitrary: s rule: scan_scheme.induct)
    (auto split: if_splits option.splits prod.splits)

lemma get_scheme_raw:
  assumes "get_scheme raw = Some (s, r)"
  shows "(s = [] \<and> r = raw) \<or> (s \<noteq> [] \<and> raw = s @ CHR '':'' # r)"
  using assms scan_scheme_raw [of True raw s r]
  by (auto simp: get_scheme_def split: option.splits)

text \<open>The part of a URL in front of its authority: empty, or a scheme and a colon.\<close>

definition scheme_part :: "string \<Rightarrow> string \<Rightarrow> bool" where
  "scheme_part pre scheme \<longleftrightarrow>
     (pre = [] \<and> scheme = []) \<or> (\<exists>s. s \<noteq> [] \<and> pre = s @ '':'' \<and> scheme = to_lower s)"

lemma set_path_fields:
  "set_path u p = Some v \<Longrightarrow> u_scheme v = u_scheme u \<and> u_has_user v = u_has_user u \<and>
     u_host v = u_host u \<and> u_raw_query v = u_raw_query u"
  by (auto simp: set_path_def split: option.splits)

lemma to_lower_Nil [simp]: "to_lower [] = []"
  by (simp add: to_lower_def)

lemma parse_no_frag_raw:
  assumes "parse_no_frag raw = Some u" and "u_host u \<noteq> []"
  shows "\<exists>pre auth rest. raw = pre @ ''//'' @ auth @ rest \<and> scheme_part pre (u_scheme u) \<and>
    CHR ''/'' \<notin> set auth \<and> CHR ''?'' \<notin> set auth \<and>
    (rest = [] \<or> hd rest \<in> set ''/?'') \<and>
    parse_authority auth = Some (u_has_user u, u_host u)"
proof -
  obtain s r where gs: "get_scheme raw = Some (s, r)"
    using assms by (auto simp: parse_no_frag_def empty_url_def split: if_splits option.splits)
  obtain a b f where cq: "cut (CHR ''?'') r = (a, b, f)" by (cases "cut (CHR ''?'') r") auto
  note ceq = cut_eq [OF cq]
  obtain auth path where sp: "split_authority (drop 2 a) = (auth, path)"
    by (cases "split_authority (drop 2 a)") auto
  let ?u = "empty_url\<lparr>u_scheme := to_lower s, u_raw_query := b\<rparr>"
  have nostar: "raw \<noteq> ''*'' \<and> \<not> list_ex is_ctl raw"
    using assms by (auto simp: parse_no_frag_def empty_url_def split: if_splits)
  have body: "Some u =
    (if \<not> has_prefix a ''/'' \<and> s \<noteq> [] then Some (?u\<lparr>u_opaque := a\<rparr>)
     else if \<not> has_prefix a ''/'' \<and> CHR '':'' \<in> set (takeWhile (\<lambda>c. c \<noteq> CHR ''/'') a) then None
     else if (s \<noteq> [] \<or> \<not> has_prefix a ''///'') \<and> has_prefix a ''//'' then
       (case parse_authority auth of None \<Rightarrow> None
        | Some (hasuser, host) \<Rightarrow> set_path (?u\<lparr>u_has_user := hasuser, u_host := host\<rparr>) path)
     else set_path ?u a)"
    using assms(1) nostar gs cq sp
    by (simp only: parse_no_frag_def cut_query_def Let_def if_False option.case prod.case simp_thms)
  have no_opaque: "\<not> (\<not> has_prefix a ''/'' \<and> s \<noteq> [])"
  proof
    assume "\<not> has_prefix a ''/'' \<and> s \<noteq> []"
    with body have "u = ?u\<lparr>u_opaque := a\<rparr>" by simp
    then show False using assms(2) by (simp add: empty_url_def)
  qed
  have pre2: "has_prefix a ''//'' \<and> (s \<noteq> [] \<or> \<not> has_prefix a ''///'')"
  proof (rule ccontr)
    assume "\<not> ?thesis"
    with body no_opaque have "set_path ?u a = Some u"
      by (metis option.distinct(1))
    then show False using assms(2) by (auto simp: empty_url_def dest: set_path_fields)
  qed
  have pa: "(case parse_authority auth of None \<Rightarrow> None
        | Some (hasuser, host) \<Rightarrow> set_path (?u\<lparr>u_has_user := hasuser, u_host := host\<rparr>) path) = Some u"
    using body no_opaque pre2 by (metis option.distinct(1))
  have "has_prefix a ''//'' \<and> u_scheme u = to_lower s \<and>
      parse_authority auth = Some (u_has_user u, u_host u)"
    using pa pre2 by (auto split: option.splits prod.splits dest!: set_path_fields)
  moreover from this obtain a' where a': "a = ''//'' @ a'"
    unfolding has_prefix_iff by blast
  moreover have "a' = auth @ path" "CHR ''/'' \<notin> set auth" "path = [] \<or> hd path = CHR ''/''"
    using sp a' hd_dropWhile [of "\<lambda>c. c \<noteq> CHR ''/''" a']
    by (auto simp: split_authority_def dest: set_takeWhileD)
  moreover have "CHR ''?'' \<notin> set auth" using calculation ceq by auto
  moreover have "\<exists>pre. scheme_part pre (to_lower s) \<and> raw = pre @ r"
    using get_scheme_raw [OF gs] by (auto simp: scheme_part_def)
  then obtain pre where "scheme_part pre (to_lower s)" "raw = pre @ r" by auto
  moreover from calculation
  have "raw = pre @ ''//'' @ auth @ (path @ (if f then CHR ''?'' # b else []))"
    using ceq by (cases f) auto
  moreover from calculation
  have "path @ (if f then CHR ''?'' # b else []) = [] \<or>
      hd (path @ (if f then CHR ''?'' # b else [])) \<in> set ''/?''"
    by (cases path) auto
  ultimately show ?thesis
    by (intro exI [of _ pre] exI [of _ auth] exI [of _ "path @ (if f then CHR ''?'' # b else [])"])
      (simp del: append_assoc)
qed

lemma parse_url_raw:
  assumes "parse_url raw = Some u" and "u_host u \<noteq> []"
  shows "\<exists>pre auth rest. raw = pre @ ''//'' @ auth @ rest \<and> scheme_part pre (u_scheme u) \<and>
    set auth \<inter> set ''/?#'' = {} \<and> (rest = [] \<or> hd rest \<in> set ''/?#'') \<and>
    parse_authority auth = Some (u_has_user u, u_host u)"
proof -
  obtain a b f where cq: "cut (CHR ''#'') raw = (a, b, f)" by (cases "cut (CHR ''#'') raw") auto
  note ceq = cut_eq [OF cq]
  obtain v where v: "parse_no_frag a = Some v" "u_host v = u_host u" "u_scheme v = u_scheme u"
    "u_has_user v = u_has_user u"
    using assms cq by (auto simp: parse_url_def split: option.splits if_splits)
  then obtain pre auth rest where p: "a = pre @ ''//'' @ auth @ rest"
    "scheme_part pre (u_scheme v)" "CHR ''/'' \<notin> set auth" "CHR ''?'' \<notin> set auth"
    "rest = [] \<or> hd rest \<in> set ''/?''" "parse_authority auth = Some (u_has_user v, u_host v)"
    using parse_no_frag_raw [of a v] assms(2) by auto
  moreover have "set auth \<subseteq> set a" unfolding p(1) by auto
  then have "CHR ''#'' \<notin> set auth" using ceq by blast
  moreover have "raw = pre @ ''//'' @ auth @ (rest @ (if f then CHR ''#'' # b else []))"
    using ceq p(1) by (cases f) auto
  moreover have "rest @ (if f then CHR ''#'' # b else []) = [] \<or>
      hd (rest @ (if f then CHR ''#'' # b else [])) \<in> set ''/?#''"
    using p(5) by (cases rest) auto
  ultimately show ?thesis
    using v(2-4)
    by (intro exI [of _ pre] exI [of _ auth] exI [of _ "rest @ (if f then CHR ''#'' # b else [])"])
      (simp del: append_assoc)
qed

text \<open>Without userinfo the authority holds no \<^verbatim>\<open>@\<close> and is the host itself.\<close>

lemma parse_authority_no_user:
  "parse_authority auth = Some (False, h) \<Longrightarrow> CHR ''@'' \<notin> set auth \<and> parse_host auth = Some h"
  by (auto simp: parse_authority_def last_cut_def split: option.splits if_splits prod.splits)

end
