(* ===== verification/Codec.thy ===== *)
theory Codec
  imports Url
begin

text \<open>
  The encodings of the Go standard library the protocol handlers read and write:
  \<^verbatim>\<open>url.QueryUnescape\<close> and \<^verbatim>\<open>url.QueryEscape\<close>, and \<^verbatim>\<open>encoding/base64\<close> in its padded standard and
  its unpadded URL alphabet. Decoders are partial, and each decoder inverts its encoder.
\<close>

subsection \<open>Query components\<close>

fun query_unescape :: "string \<Rightarrow> string option" where
  "query_unescape [] = Some []"
| "query_unescape (c # cs) =
     (if c = CHR ''%'' then
        (case cs of
           a # b # rest \<Rightarrow>
             (case (unhex a, unhex b) of
                (Some x, Some y) \<Rightarrow> map_option (\<lambda>r. char_of (x * 16 + y) # r) (query_unescape rest)
              | _ \<Rightarrow> None)
         | _ \<Rightarrow> None)
      else map_option (\<lambda>r. (if c = CHR ''+'' then CHR '' '' else c) # r) (query_unescape cs))"

definition query_escape_char :: "char \<Rightarrow> string" where
  "query_escape_char c =
     (if is_alnum c \<or> c \<in> set ''-_.~'' then [c]
      else if c = CHR '' '' then ''+''
      else [CHR ''%'', hex_digit (of_char c div 16), hex_digit (of_char c mod 16)])"

definition query_escape :: "string \<Rightarrow> string" where
  "query_escape s = concat (map query_escape_char s)"

lemma unhex_hex_digit: "n < 16 \<Longrightarrow> unhex (hex_digit n) = Some n"
proof -
  have "\<forall>n \<in> set [0..<16]. unhex (hex_digit n) = Some n" by code_simp
  then show "n < 16 \<Longrightarrow> unhex (hex_digit n) = Some n" by simp
qed

lemma of_char_lt: "(of_char c :: nat) < 256"
  by (metis UNIV_I image_eqI nat_of_char_less_256)

lemma char_digits: "char_of ((of_char c :: nat) div 16 * 16 + of_char c mod 16) = c"
  by simp

lemma query_unescape_char: "query_unescape (query_escape_char c @ s) = map_option ((#) c) (query_unescape s)"
proof -
  have h: "unhex (hex_digit ((of_char c :: nat) div 16)) = Some (of_char c div 16)"
    "unhex (hex_digit ((of_char c :: nat) mod 16)) = Some (of_char c mod 16)"
    using of_char_lt [of c] by (simp_all add: unhex_hex_digit less_mult_imp_div_less)
  have p: "\<not> (is_alnum CHR ''%'' \<or> CHR ''%'' \<in> set ''-_.~'')" "\<not> (is_alnum CHR ''+'' \<or> CHR ''+'' \<in> set ''-_.~'')"
    by code_simp+
  consider (plain) "is_alnum c \<or> c \<in> set ''-_.~''" | (space) "\<not> (is_alnum c \<or> c \<in> set ''-_.~'')" "c = CHR '' ''"
    | (hex) "\<not> (is_alnum c \<or> c \<in> set ''-_.~'')" "c \<noteq> CHR '' ''" by blast
  then show ?thesis
  proof cases
    case plain
    then have e: "query_escape_char c = [c]" by (simp only: query_escape_char_def if_True)
    have "c \<noteq> CHR ''%''" "c \<noteq> CHR ''+''" using plain p by blast+
    then show ?thesis by (simp add: e)
  next
    case space
    then have e: "query_escape_char c = ''+''"
      unfolding query_escape_char_def if_not_P [OF space(1)] if_P [OF space(2)] by simp
    show ?thesis unfolding e unfolding space(2) by simp
  next
    case hex
    then have e: "query_escape_char c = [CHR ''%'', hex_digit (of_char c div 16), hex_digit (of_char c mod 16)]"
      unfolding query_escape_char_def if_not_P [OF hex(1)] if_not_P [OF hex(2)] by simp
    show ?thesis by (simp add: e h)
  qed
qed

lemma query_unescape_escape: "query_unescape (query_escape s) = Some s"
  by (induction s) (simp_all add: query_escape_def query_unescape_char)

subsection \<open>Base64\<close>

datatype b64_alphabet = StdAlphabet | UrlAlphabet

definition b64_digits :: "b64_alphabet \<Rightarrow> string" where
  "b64_digits al =
     ''ABCDEFGHIJKLMNOPQRSTUVWXYZabcdefghijklmnopqrstuvwxyz0123456789'' @
     (case al of StdAlphabet \<Rightarrow> ''+/'' | UrlAlphabet \<Rightarrow> ''-_'')"

definition b64_char :: "b64_alphabet \<Rightarrow> nat \<Rightarrow> char" where
  "b64_char al n = b64_digits al ! n"

fun index_of :: "'a \<Rightarrow> 'a list \<Rightarrow> nat option" where
  "index_of x [] = None"
| "index_of x (y # ys) = (if x = y then Some 0 else map_option Suc (index_of x ys))"

definition b64_val :: "b64_alphabet \<Rightarrow> char \<Rightarrow> nat option" where
  "b64_val al c = index_of c (b64_digits al)"

text \<open>Three bytes make four digits; a rest of one or two bytes is padded or not.\<close>

fun b64_encode :: "b64_alphabet \<Rightarrow> bool \<Rightarrow> string \<Rightarrow> string" where
  "b64_encode al pad (a # b # c # s) =
     (let x = of_char a; y = of_char b; z = of_char c
      in b64_char al (x div 4) # b64_char al (x mod 4 * 16 + y div 16) #
         b64_char al (y mod 16 * 4 + z div 64) # b64_char al (z mod 64) # b64_encode al pad s)"
| "b64_encode al pad [a, b] =
     (let x = of_char a; y = of_char b
      in [b64_char al (x div 4), b64_char al (x mod 4 * 16 + y div 16), b64_char al (y mod 16 * 4)] @
         (if pad then ''='' else []))"
| "b64_encode al pad [a] =
     (let x = of_char a
      in [b64_char al (x div 4), b64_char al (x mod 4 * 16)] @ (if pad then ''=='' else []))"
| "b64_encode al pad [] = []"

text \<open>The bytes of up to four digits; the unused low bits of the last one are ignored, as in Go.\<close>

definition b64_bytes :: "nat list \<Rightarrow> string" where
  "b64_bytes ds =
     (case ds of
        [a, b, c, e] \<Rightarrow> [char_of (a * 4 + b div 16), char_of (b mod 16 * 16 + c div 4), char_of (c mod 4 * 64 + e)]
      | [a, b, c] \<Rightarrow> [char_of (a * 4 + b div 16), char_of (b mod 16 * 16 + c div 4)]
      | [a, b] \<Rightarrow> [char_of (a * 4 + b div 16)]
      | _ \<Rightarrow> [])"

fun b64_quanta :: "b64_alphabet \<Rightarrow> bool \<Rightarrow> string \<Rightarrow> string option" where
  "b64_quanta al pad (a # b # c # e # s) =
     (case (b64_val al a, b64_val al b, b64_val al c, b64_val al e) of
        (Some w, Some x, Some y, Some z) \<Rightarrow> map_option ((@) (b64_bytes [w, x, y, z])) (b64_quanta al pad s)
      | (Some w, Some x, Some y, None) \<Rightarrow>
          if pad \<and> e = CHR ''='' \<and> s = [] then Some (b64_bytes [w, x, y]) else None
      | (Some w, Some x, None, _) \<Rightarrow>
          if pad \<and> c = CHR ''='' \<and> e = CHR ''='' \<and> s = [] then Some (b64_bytes [w, x]) else None
      | _ \<Rightarrow> None)"
| "b64_quanta al pad [a, b, c] =
     (case (b64_val al a, b64_val al b, b64_val al c) of
        (Some w, Some x, Some y) \<Rightarrow> if pad then None else Some (b64_bytes [w, x, y])
      | _ \<Rightarrow> None)"
| "b64_quanta al pad [a, b] =
     (case (b64_val al a, b64_val al b) of
        (Some w, Some x) \<Rightarrow> if pad then None else Some (b64_bytes [w, x])
      | _ \<Rightarrow> None)"
| "b64_quanta al pad [a] = None"
| "b64_quanta al pad [] = Some []"

text \<open>Line breaks are skipped wherever they stand.\<close>

definition b64_decode :: "b64_alphabet \<Rightarrow> bool \<Rightarrow> string \<Rightarrow> string option" where
  "b64_decode al pad s = b64_quanta al pad (filter (\<lambda>c. c \<noteq> CHR 0x0A \<and> c \<noteq> CHR 0x0D) s)"

subsection \<open>The round trip\<close>

lemma b64_digit:
  "n < 64 \<Longrightarrow> b64_val al (b64_char al n) = Some n \<and> b64_char al n \<noteq> CHR 0x0A \<and> b64_char al n \<noteq> CHR 0x0D \<and>
     b64_char al n \<noteq> CHR ''.'' \<and> b64_char al n \<noteq> CHR ''=''"
proof -
  have "\<forall>n \<in> set [0..<64]. b64_val al (b64_char al n) = Some n \<and> b64_char al n \<noteq> CHR 0x0A \<and>
      b64_char al n \<noteq> CHR 0x0D \<and> b64_char al n \<noteq> CHR ''.'' \<and> b64_char al n \<noteq> CHR ''=''"
    by (cases al) (simp_all only:, code_simp+)
  then show "n < 64 \<Longrightarrow> ?thesis" by simp
qed

lemma b64_pad_val [simp]: "b64_val al CHR ''='' = None"
  by (cases al) (simp_all only:, code_simp+)

lemma div_mod_pack:
  fixes a b n :: nat
  assumes "b < n"
  shows "(a * n + b) div n = a" "(a * n + b) mod n = b"
  using assms by simp_all

lemma b64_split3:
  fixes x y z :: nat
  assumes "x < 256" "y < 256" "z < 256"
  shows "x div 4 < 64" "x mod 4 * 16 + y div 16 < 64" "y mod 16 * 4 + z div 64 < 64" "z mod 64 < 64"
    "x mod 4 * 16 < 64" "y mod 16 * 4 < 64"
    "x div 4 * 4 + (x mod 4 * 16 + y div 16) div 16 = x"
    "(x mod 4 * 16 + y div 16) mod 16 * 16 + (y mod 16 * 4 + z div 64) div 4 = y"
    "(y mod 16 * 4 + z div 64) mod 4 * 64 + z mod 64 = z"
    "x div 4 * 4 + (x mod 4 * 16) div 16 = x"
    "(x mod 4 * 16 + y div 16) mod 16 * 16 + (y mod 16 * 4) div 4 = y"
proof -
  have l: "y div 16 < 16" "z div 64 < 4" using assms by (simp_all add: less_mult_imp_div_less)
  note p = div_mod_pack [OF l(1)] div_mod_pack [OF l(2)]
  show "x div 4 * 4 + (x mod 4 * 16 + y div 16) div 16 = x"
    "(x mod 4 * 16 + y div 16) mod 16 * 16 + (y mod 16 * 4 + z div 64) div 4 = y"
    "(y mod 16 * 4 + z div 64) mod 4 * 64 + z mod 64 = z"
    "x div 4 * 4 + (x mod 4 * 16) div 16 = x"
    "(x mod 4 * 16 + y div 16) mod 16 * 16 + (y mod 16 * 4) div 4 = y"
    unfolding p by simp_all
  show "x div 4 < 64" using assms by (simp add: less_mult_imp_div_less)
  show "z mod 64 < 64" by simp
  have "x mod 4 < 4" "y mod 16 < 16" by simp_all
  then show "x mod 4 * 16 + y div 16 < 64" "y mod 16 * 4 + z div 64 < 64"
    "x mod 4 * 16 < 64" "y mod 16 * 4 < 64"
    using l by linarith+
qed

lemma b64_quanta_four:
  "w < 64 \<Longrightarrow> x < 64 \<Longrightarrow> y < 64 \<Longrightarrow> z < 64 \<Longrightarrow>
   b64_quanta al pad (b64_char al w # b64_char al x # b64_char al y # b64_char al z # s) =
     map_option ((@) (b64_bytes [w, x, y, z])) (b64_quanta al pad s)"
  by (simp add: b64_digit)

lemma b64_quanta_three:
  "w < 64 \<Longrightarrow> x < 64 \<Longrightarrow> y < 64 \<Longrightarrow>
   b64_quanta al pad ([b64_char al w, b64_char al x, b64_char al y] @ (if pad then ''='' else [])) =
     Some (b64_bytes [w, x, y])"
  by (simp add: b64_digit)

lemma b64_quanta_two:
  "w < 64 \<Longrightarrow> x < 64 \<Longrightarrow>
   b64_quanta al pad ([b64_char al w, b64_char al x] @ (if pad then ''=='' else [])) = Some (b64_bytes [w, x])"
  by (simp add: b64_digit)

lemma b64_quanta_encode: "b64_quanta al pad (b64_encode al pad s) = Some s"
proof (induction al pad s rule: b64_encode.induct)
  case (1 al pad a b c s)
  note r = b64_split3 [of "of_char a" "of_char b" "of_char c", OF of_char_lt of_char_lt of_char_lt]
  have "b64_bytes [of_char a div 4, of_char a mod 4 * 16 + of_char b div 16,
      of_char b mod 16 * 4 + of_char c div 64, of_char c mod 64] = [a, b, c]"
    by (simp only: b64_bytes_def list.case r char_of_char)
  then show ?case
    unfolding b64_encode.simps Let_def b64_quanta_four [OF r(1-4)]
    using 1 [OF refl refl refl] by simp
next
  case (2 al pad a b)
  note r = b64_split3 [of "of_char a" "of_char b" "of_char b", OF of_char_lt of_char_lt of_char_lt]
  have "b64_bytes [of_char a div 4, of_char a mod 4 * 16 + of_char b div 16, of_char b mod 16 * 4] = [a, b]"
    by (simp only: b64_bytes_def list.case r char_of_char)
  then show ?case unfolding b64_encode.simps Let_def b64_quanta_three [OF r(1,2,6)] by simp
next
  case (3 al pad a)
  note r = b64_split3 [of "of_char a" "of_char a" "of_char a", OF of_char_lt of_char_lt of_char_lt]
  have "b64_bytes [of_char a div 4, of_char a mod 4 * 16] = [a]"
    by (simp only: b64_bytes_def list.case r char_of_char)
  then show ?case unfolding b64_encode.simps Let_def b64_quanta_two [OF r(1,5)] by simp
qed simp

lemma set_b64_encode: "set (b64_encode al pad s) \<subseteq> b64_char al ` {..<64} \<union> {CHR ''=''}"
proof (induction al pad s rule: b64_encode.induct)
  case (1 al pad a b c s)
  note r = b64_split3 [of "of_char a" "of_char b" "of_char c", OF of_char_lt of_char_lt of_char_lt]
  show ?case
    unfolding b64_encode.simps Let_def using r(1-4) 1 [OF refl refl refl] by simp
next
  case (2 al pad a b)
  note r = b64_split3 [of "of_char a" "of_char b" "of_char b", OF of_char_lt of_char_lt of_char_lt]
  show ?case unfolding b64_encode.simps Let_def using r(1,2,6) by auto
next
  case (3 al pad a)
  note r = b64_split3 [of "of_char a" "of_char a" "of_char a", OF of_char_lt of_char_lt of_char_lt]
  show ?case unfolding b64_encode.simps Let_def using r(1,5) by auto
qed simp

lemma b64_encode_chars:
  assumes "c \<in> set (b64_encode al pad s)"
  shows "c \<noteq> CHR 0x0A \<and> c \<noteq> CHR 0x0D \<and> c \<noteq> CHR ''.''"
proof -
  have "c = CHR ''='' \<or> (\<exists>n<64. c = b64_char al n)" using subsetD [OF set_b64_encode assms] by auto
  then show ?thesis
  proof
    assume "\<exists>n<64. c = b64_char al n"
    then obtain n where n: "n < 64" "c = b64_char al n" by blast
    then show ?thesis using b64_digit [OF n(1), of al] n(2) by simp
  qed simp
qed

lemma b64_decode_encode: "b64_decode al pad (b64_encode al pad s) = Some s"
proof -
  have "filter (\<lambda>c. c \<noteq> CHR 0x0A \<and> c \<noteq> CHR 0x0D) (b64_encode al pad s) = b64_encode al pad s"
    using b64_encode_chars [of _ al pad s] by (auto simp: filter_id_conv)
  then show ?thesis by (simp add: b64_decode_def b64_quanta_encode)
qed

end
