(* ===== verification/TenantModel.thy ===== *)
theory TenantModel
  imports Url
begin

text \<open>
  The configuration data of \<^verbatim>\<open>internal/tenant\<close>: tenants, identity sources, applications, their SAML
  and OIDC settings and claim mappings (\<^verbatim>\<open>model.go\<close>), the NameID formats (\<^verbatim>\<open>nameid.go\<close>), how a
  request names its tenant (\<^verbatim>\<open>resolver.go\<close>), the default tenant (\<^verbatim>\<open>defaults.go\<close>), and the two
  allow-list checks of an application.
\<close>

subsection \<open>Records\<close>

record tenant =
  t_slug :: string
  t_display_name :: string
  t_plan :: string
  t_domain :: string
  t_status :: string
  t_max_apps :: int
  t_max_auths_per_month :: int
  t_kms_key_id :: string
  t_kms_key_arn :: string
  t_created_at :: gotime
  t_updated_at :: gotime
  t_default_session_duration_sec :: int
  t_default_sign_response :: bool
  t_default_sign_assertion :: bool
  t_default_name_id_format :: string
  t_default_id_token_lifetime_sec :: int
  t_default_access_token_lifetime_sec :: int
  t_default_scopes :: "string list"
  t_onboarding_state :: string
  t_capability_map :: "(string \<times> bool) list"

record identity_source =
  s_id :: string
  s_tenant_slug :: string
  s_display_name :: string
  s_type :: string
  s_pool_id :: string
  s_region :: string
  s_domain :: string
  s_client_id :: string
  s_status :: string
  s_created_at :: gotime
  s_updated_at :: gotime
  s_role_arn :: string
  s_external_id :: string
  s_secret_arn :: string

record application =
  a_id :: string
  a_tenant_slug :: string
  a_display_name :: string
  a_protocol :: string
  a_source_id :: string
  a_status :: string
  a_created_at :: gotime
  a_updated_at :: gotime
  a_custom_login_url :: string
  a_trusted_login_redirect_uris :: "string list"

record saml_config =
  sc_entity_id :: string
  sc_acs_url :: string
  sc_acs_urls :: "string list"
  sc_metadata_url :: string
  sc_signing_cert_pem :: string
  sc_encryption_cert_pem :: string
  sc_name_id_format :: string
  sc_name_id_source :: string
  sc_sign_response :: bool
  sc_sign_assertion :: bool
  sc_encrypt_assertion :: bool
  sc_want_authn_requests_signed :: bool
  sc_allow_idp_initiated :: bool
  sc_slo_url :: string
  sc_session_duration_sec :: int
  sc_clock_skew_sec :: int
  sc_allow_insecure_sha1 :: bool

record claim_mapping =
  cm_name :: string
  cm_source_type :: string
  cm_source_attribute :: string
  cm_target_attribute :: string
  cm_required :: bool
  cm_default_value :: string

record role_mapping =
  rm_cognito_group :: string
  rm_mapped_value :: string

record oidc_config =
  oc_client_secret :: string
  oc_redirect_uris :: "string list"
  oc_post_logout_redirect_uris :: "string list"
  oc_grant_types :: "string list"
  oc_response_types :: "string list"
  oc_scopes :: "string list"
  oc_token_endpoint_auth_method :: string
  oc_id_token_lifetime_sec :: int
  oc_access_token_lifetime_sec :: int
  oc_refresh_token_lifetime_sec :: int

subsection \<open>Bounds\<close>

definition session_duration_min_sec :: int where "session_duration_min_sec = 300"
definition session_duration_max_sec :: int where "session_duration_max_sec = 86400"
definition clock_skew_min_sec :: int where "clock_skew_min_sec = 0"
definition clock_skew_max_sec :: int where "clock_skew_max_sec = 600"
definition token_lifetime_min_sec :: int where "token_lifetime_min_sec = 60"
definition token_lifetime_max_sec :: int where "token_lifetime_max_sec = 86400"

lemmas bound_defs = session_duration_min_sec_def session_duration_max_sec_def
  clock_skew_min_sec_def clock_skew_max_sec_def token_lifetime_min_sec_def token_lifetime_max_sec_def

subsection \<open>NameID formats and mapping kinds\<close>

definition nif_email :: string where
  "nif_email = ''urn:oasis:names:tc:SAML:1.1:nameid-format:emailAddress''"
definition nif_persistent :: string where
  "nif_persistent = ''urn:oasis:names:tc:SAML:2.0:nameid-format:persistent''"
definition nif_transient :: string where
  "nif_transient = ''urn:oasis:names:tc:SAML:2.0:nameid-format:transient''"
definition nif_unspecified :: string where
  "nif_unspecified = ''urn:oasis:names:tc:SAML:1.1:nameid-format:unspecified''"

lemmas nif_defs = nif_email_def nif_persistent_def nif_transient_def nif_unspecified_def

definition name_id_format_by_key :: "(string \<times> string) list" where
  "name_id_format_by_key =
     [(''email'', nif_email), (''emailaddress'', nif_email), (''persistent'', nif_persistent),
      (''transient'', nif_transient), (''unspecified'', nif_unspecified),
      (to_lower nif_email, nif_email), (to_lower nif_persistent, nif_persistent),
      (to_lower nif_transient, nif_transient), (to_lower nif_unspecified, nif_unspecified)]"

definition canonical_name_id_format :: "string \<Rightarrow> string" where
  "canonical_name_id_format v =
     (let key = to_lower (trim_space v) in
      if key = [] then nif_unspecified
      else case map_of name_id_format_by_key key of Some urn \<Rightarrow> urn | None \<Rightarrow> v)"

definition is_cognito_source :: "string \<Rightarrow> bool" where
  "is_cognito_source ty \<longleftrightarrow> ty = ''cognito'' \<or> ty = ''attribute''"

subsection \<open>The tenant of a request, the default tenant\<close>

definition extract_from_path :: "string \<Rightarrow> string res" where
  "extract_from_path path =
     (if \<not> has_prefix path ''/t/'' then Inl (ErrMsg ''path does not contain tenant prefix'')
      else let slug = fst (cut (CHR ''/'') (trim_prefix path ''/t/'')) in
        if slug = [] then Inl (ErrMsg ''empty tenant slug in path'') else Inr slug)"

text \<open>A JWT claim is a string or a value of another JSON type.\<close>

datatype claim_value = CStr string | CBool bool | CList "claim_value list" | COther

definition extract_from_claims :: "(string \<Rightarrow> claim_value option) \<Rightarrow> string res" where
  "extract_from_claims claims =
     (case claims ''custom:tenant_id'' of
        Some (CStr v) \<Rightarrow>
          if v \<noteq> [] then Inr v else Inl (ErrMsg ''missing custom:tenant_id in JWT claims'')
      | _ \<Rightarrow> Inl (ErrMsg ''missing custom:tenant_id in JWT claims''))"

definition default_slug :: string where "default_slug = ''default''"

definition new_default_tenant :: tenant where
  "new_default_tenant = \<lparr>t_slug = default_slug, t_display_name = ''Default Tenant'',
     t_plan = ''standard'', t_domain = [], t_status = ''active'', t_max_apps = 10,
     t_max_auths_per_month = 10000, t_kms_key_id = [], t_kms_key_arn = [],
     t_created_at = zero_time, t_updated_at = zero_time,
     t_default_session_duration_sec = 3600, t_default_sign_response = True,
     t_default_sign_assertion = True, t_default_name_id_format = ''email'',
     t_default_id_token_lifetime_sec = 3600, t_default_access_token_lifetime_sec = 3600,
     t_default_scopes = [''openid'', ''email'', ''profile''], t_onboarding_state = [],
     t_capability_map = []\<rparr>"

subsection \<open>The allow-lists of an application\<close>

definition has_custom_login :: "application \<Rightarrow> bool" where
  "has_custom_login a \<longleftrightarrow> trim_space (a_custom_login_url a) \<noteq> []"

definition path_within_boundary :: "string \<Rightarrow> string \<Rightarrow> bool" where
  "path_within_boundary p a \<longleftrightarrow>
     (a = [] \<or> a = ''/'' \<or>
      (let base = trim_suffix a ''/'' in p = base \<or> has_prefix p (base @ ''/'')))"

definition redirect_entry_matches :: "go_url \<Rightarrow> string \<Rightarrow> bool" where
  "redirect_entry_matches cu entry \<longleftrightarrow>
     (let allowed = trim_space entry in
      allowed \<noteq> [] \<and>
      (case parse_url allowed of
         None \<Rightarrow> False
       | Some au \<Rightarrow>
           \<not> u_has_user au \<and> u_host au \<noteq> [] \<and> equal_fold (u_scheme au) ''https'' \<and>
           equal_fold (u_host cu) (u_host au) \<and>
           path_within_boundary (escaped_path cu) (escaped_path au)))"

definition is_trusted_login_redirect :: "application \<Rightarrow> string \<Rightarrow> bool" where
  "is_trusted_login_redirect a cand \<longleftrightarrow>
     (let candidate = trim_space cand in
      candidate \<noteq> [] \<and>
      (case parse_url candidate of
         None \<Rightarrow> False
       | Some cu \<Rightarrow>
           equal_fold (u_scheme cu) ''https'' \<and> \<not> u_has_user cu \<and> u_host cu \<noteq> [] \<and>
           list_ex (redirect_entry_matches cu) (a_trusted_login_redirect_uris a)))"

definition parse_origin :: "string \<Rightarrow> (string \<times> string) option" where
  "parse_origin origin =
     (if origin = [] then None
      else case parse_url origin of
        None \<Rightarrow> None
      | Some u \<Rightarrow>
          if u_has_user u \<or> u_host u = [] \<or> u_opaque u \<noteq> [] then None
          else if \<not> equal_fold (u_scheme u) ''https'' then None
          else if (u_path u \<noteq> [] \<and> u_path u \<noteq> ''/'') \<or> u_raw_query u \<noteq> [] \<or> u_fragment u \<noteq> []
            then None
          else Some (u_scheme u, u_host u))"

definition origin_entry_matches :: "string \<Rightarrow> string \<Rightarrow> string \<Rightarrow> bool" where
  "origin_entry_matches o_scheme o_host entry \<longleftrightarrow>
     (let raw = trim_space entry in
      raw \<noteq> [] \<and>
      (case parse_url raw of
         None \<Rightarrow> False
       | Some au \<Rightarrow>
           \<not> (u_has_user au \<or> u_host au = [] \<or> \<not> equal_fold (u_scheme au) ''https'') \<and>
           equal_fold (u_scheme au) o_scheme \<and> equal_fold (u_host au) o_host))"

definition is_trusted_browser_origin :: "application \<Rightarrow> string \<Rightarrow> bool" where
  "is_trusted_browser_origin a origin \<longleftrightarrow>
     (case parse_origin (trim_space origin) of
        None \<Rightarrow> False
      | Some (o_scheme, o_host) \<Rightarrow>
          list_ex (origin_entry_matches o_scheme o_host)
            ((let u = trim_space (a_custom_login_url a) in if u \<noteq> [] then [u] else [])
               @ a_trusted_login_redirect_uris a))"

subsection \<open>What the checks promise\<close>

text \<open>
  A string is an https URL for a host when its bytes are a scheme equal to https, \<^verbatim>\<open>://\<close>, an
  authority without userinfo that decodes to the host, and nothing or a path, query or fragment.
\<close>

definition https_host_of :: "string \<Rightarrow> string \<Rightarrow> bool" where
  "https_host_of raw h \<longleftrightarrow>
     (\<exists>sch auth rest. raw = sch @ ''://'' @ auth @ rest \<and> equal_fold (to_lower sch) ''https'' \<and>
        set auth \<inter> set ''/?#@'' = {} \<and> (rest = [] \<or> hd rest \<in> set ''/?#'') \<and>
        parse_host auth = Some h)"

lemma https_host_of_parse:
  assumes p: "parse_url raw = Some u" and h: "u_host u \<noteq> []" and nu: "\<not> u_has_user u"
    and sc: "equal_fold (u_scheme u) ''https''"
  shows "https_host_of raw (u_host u)"
proof -
  obtain pre auth rest where r: "raw = pre @ ''//'' @ auth @ rest" "scheme_part pre (u_scheme u)"
    "set auth \<inter> set ''/?#'' = {}" "rest = [] \<or> hd rest \<in> set ''/?#''"
    "parse_authority auth = Some (u_has_user u, u_host u)"
    using parse_url_raw [OF p h] by blast
  have "\<not> equal_fold [] ''https''" by code_simp
  with r(2) sc obtain s where s: "pre = s @ '':''" "u_scheme u = to_lower s"
    by (auto simp: scheme_part_def)
  have a: "CHR ''@'' \<notin> set auth" "parse_host auth = Some (u_host u)"
    using parse_authority_no_user [of auth "u_host u"] r(5) nu by auto
  have "raw = s @ ''://'' @ auth @ rest" using r(1) s(1) by simp
  moreover have "set auth \<inter> set ''/?#@'' = {}" using r(3) a(1) by auto
  ultimately show ?thesis
    using r(4) a(2) s(2) sc unfolding https_host_of_def by metis
qed

lemma redirect_entry_matches_host:
  assumes "redirect_entry_matches cu entry"
  shows "\<exists>h. https_host_of (trim_space entry) h \<and> equal_fold (u_host cu) h"
  using assms by (auto simp: redirect_entry_matches_def Let_def split: option.splits
      intro!: https_host_of_parse)

lemma origin_entry_matches_host:
  assumes "origin_entry_matches sch h entry"
  shows "\<exists>h'. https_host_of (trim_space entry) h' \<and> equal_fold h' h"
  using assms by (auto simp: origin_entry_matches_def Let_def split: option.splits
      intro!: https_host_of_parse)

lemma parse_origin_host: "parse_origin r = Some (sch, h) \<Longrightarrow> https_host_of r h"
  by (auto simp: parse_origin_def split: option.splits if_splits intro!: https_host_of_parse)

lemma canonical_urns:
  "canonical_name_id_format nif_email = nif_email \<and>
   canonical_name_id_format nif_persistent = nif_persistent \<and>
   canonical_name_id_format nif_transient = nif_transient \<and>
   canonical_name_id_format nif_unspecified = nif_unspecified"
  by code_simp

lemma canonical_cases:
  "canonical_name_id_format v \<in> {nif_email, nif_persistent, nif_transient, nif_unspecified} \<or>
   canonical_name_id_format v = v"
proof -
  have "urn \<in> {nif_email, nif_persistent, nif_transient, nif_unspecified}"
    if "map_of name_id_format_by_key k = Some urn" for k urn
    using map_of_SomeD [OF that] unfolding name_id_format_by_key_def set_simps insert_iff prod.inject by blast
  then show ?thesis
    unfolding canonical_name_id_format_def Let_def by (auto split: option.split)
qed

subsection \<open>Properties\<close>

text \<open>C6: A login redirect target that passes the allow-list check is an https URL without userinfo
  whose authority, up to its delimiter in the raw bytes, decodes to the host and port of one of the
  allow-listed entries. Neither a longer host name nor a host hidden behind userinfo passes.\<close>

theorem trusted_redirect_host:
  assumes "is_trusted_login_redirect a cand"
  shows "\<exists>entry \<in> set (a_trusted_login_redirect_uris a). \<exists>h h'.
    https_host_of (trim_space cand) h \<and> https_host_of (trim_space entry) h' \<and> equal_fold h h'"
proof -
  obtain cu where cu: "parse_url (trim_space cand) = Some cu" "equal_fold (u_scheme cu) ''https''"
    "\<not> u_has_user cu" "u_host cu \<noteq> []"
    "list_ex (redirect_entry_matches cu) (a_trusted_login_redirect_uris a)"
    using assms by (auto simp: is_trusted_login_redirect_def Let_def split: option.splits)
  then obtain entry where "entry \<in> set (a_trusted_login_redirect_uris a)"
    "redirect_entry_matches cu entry"
    by (auto simp: list_ex_iff)
  with cu show ?thesis
    using https_host_of_parse [OF cu(1)] redirect_entry_matches_host by blast
qed

definition sample_app :: application where
  "sample_app = \<lparr>a_id = ''a1'', a_tenant_slug = ''acme'', a_display_name = ''App'',
     a_protocol = ''saml'', a_source_id = ''s1'', a_status = ''active'', a_created_at = 0,
     a_updated_at = 0, a_custom_login_url = ''https://login.acme.com/in'',
     a_trusted_login_redirect_uris = [''https://login.acme.com/app'']\<rparr>"

lemma trusted_redirect_host_witness:
  "\<exists>entry \<in> set (a_trusted_login_redirect_uris sample_app). \<exists>h h'.
    https_host_of (trim_space ''https://LOGIN.acme.com/app/x?y'') h \<and>
    https_host_of (trim_space entry) h' \<and> equal_fold h h'"
  by (rule trusted_redirect_host) code_simp

text \<open>A browser origin that passes the anti-CSRF check is an https origin for the host and port of
  the application's custom login page or of one of its allow-listed redirect targets.\<close>

lemma trusted_origin_host:
  assumes "is_trusted_browser_origin a origin"
  shows "\<exists>entry \<in> insert (trim_space (a_custom_login_url a)) (set (a_trusted_login_redirect_uris a)).
    \<exists>h h'. https_host_of (trim_space origin) h \<and> https_host_of (trim_space entry) h' \<and>
      equal_fold h' h"
proof -
  obtain sch h entry where o: "parse_origin (trim_space origin) = Some (sch, h)"
    "entry \<in> insert (trim_space (a_custom_login_url a)) (set (a_trusted_login_redirect_uris a))"
    "origin_entry_matches sch h entry"
    using assms
    by (auto simp: is_trusted_browser_origin_def list_ex_iff Let_def
        split: option.splits prod.splits if_splits)
  then show ?thesis
    using parse_origin_host [OF o(1)] origin_entry_matches_host [OF o(3)] by blast
qed

text \<open>Canonicalising a NameID format is idempotent: the result is one of the four SAML URNs or a
  custom format that is passed through unchanged.\<close>

theorem canonical_name_id_format_idem:
  "canonical_name_id_format (canonical_name_id_format v) = canonical_name_id_format v \<and>
   (canonical_name_id_format v \<in> {nif_email, nif_persistent, nif_transient, nif_unspecified} \<or>
    canonical_name_id_format v = v)"
  using canonical_cases [of v] canonical_urns by auto

text \<open>The tenant slug taken from a request path is the non-empty path segment after \<^verbatim>\<open>/t/\<close>.\<close>

theorem extract_from_path_segment:
  "extract_from_path path = Inr slug \<longleftrightarrow>
     slug \<noteq> [] \<and> CHR ''/'' \<notin> set slug \<and>
     (path = ''/t/'' @ slug \<or> (\<exists>rest. path = ''/t/'' @ slug @ ''/'' @ rest))"
proof
  assume *: "extract_from_path path = Inr slug"
  then obtain r where r: "path = ''/t/'' @ r"
    by (auto simp: extract_from_path_def has_prefix_iff split: if_splits)
  obtain a b f where c: "cut (CHR ''/'') r = (a, b, f)" by (cases "cut (CHR ''/'') r") auto
  have "has_prefix path ''/t/''" "trim_prefix path ''/t/'' = r"
    unfolding r by (rule has_prefix_append, rule trim_prefix_append)
  then have "slug = a" "a \<noteq> []" using * c
    by (auto simp: extract_from_path_def Let_def split: if_splits)
  then show "slug \<noteq> [] \<and> CHR ''/'' \<notin> set slug \<and>
     (path = ''/t/'' @ slug \<or> (\<exists>rest. path = ''/t/'' @ slug @ ''/'' @ rest))"
    using cut_eq [OF c] r by (cases f) auto
next
  assume *: "slug \<noteq> [] \<and> CHR ''/'' \<notin> set slug \<and>
     (path = ''/t/'' @ slug \<or> (\<exists>rest. path = ''/t/'' @ slug @ ''/'' @ rest))"
  then obtain r where r: "path = ''/t/'' @ r" "r = slug \<or> (\<exists>rest. r = slug @ ''/'' @ rest)"
    by auto
  have "has_prefix path ''/t/''" "trim_prefix path ''/t/'' = r"
    unfolding r(1) by (rule has_prefix_append, rule trim_prefix_append)
  moreover have "fst (cut (CHR ''/'') r) = slug"
    using r(2) * cut_none [of "CHR ''/''" slug] cut_some [of "CHR ''/''" slug] by auto
  ultimately show "extract_from_path path = Inr slug"
    using * by (simp add: extract_from_path_def)
qed

end
