(* ===== verification/Table.thy ===== *)
theory Table
  imports Prelude
begin

text \<open>
  The table behind every store: \<^verbatim>\<open>TableAPI\<close> of \<^verbatim>\<open>internal/store/store.go\<close> in its in-memory
  implementation \<^verbatim>\<open>internal/store/memorydb.go\<close>, the one of the two the repository holds the
  source of. A table maps the concatenated key \<^verbatim>\<open>PK#SK\<close> to a row; the order of the association
  list is the unspecified order of \<^verbatim>\<open>sync.Map.Range\<close>. The reflection that turns a struct into a map
  and back is the identity on a row body, whose kind is a constructor of the body type.

  A backend other than the in-memory one can also fail: the fault environment \<open>fault\<close> names the
  operations that return an error during one call, in which case nothing is written.
  The locale \<open>table_api\<close> states what the stores rely on.
\<close>

subsection \<open>Rows and tables\<close>

record 'i row =
  r_pk :: string
  r_sk :: string
  r_gsi1pk :: "string option"
  r_gsi1sk :: string
  r_item :: 'i

datatype dbop =
    OpPut string
  | OpPutNew string
  | OpGet string
  | OpQuery string string
  | OpQueryGSI string
  | OpDelete string
  | OpScan string

record 'i db =
  data :: "(string \<times> 'i row) list"
  fault :: "dbop \<Rightarrow> bool"

text \<open>The map key, \<^verbatim>\<open>fmt.Sprintf("%s#%s", pk, sk)\<close>.\<close>

definition mkey :: "string \<Rightarrow> string \<Rightarrow> string" where
  "mkey pk sk = pk @ ''#'' @ sk"

definition row_key :: "'i row \<Rightarrow> string" where
  "row_key r = mkey (r_pk r) (r_sk r)"

definition lookup :: "'i db \<Rightarrow> string \<Rightarrow> 'i row option" where
  "lookup d k = map_of (data d) k"

definition empty_db :: "'i db" where
  "empty_db = \<lparr>data = [], fault = (\<lambda>_. False)\<rparr>"

definition db_wf :: "'i db \<Rightarrow> bool" where
  "db_wf d \<longleftrightarrow> distinct (map fst (data d)) \<and>
     list_all (\<lambda>(k, r). k = row_key r \<and> r_pk r \<noteq> []) (data d)"

subsection \<open>The operations\<close>

definition db_put :: "'i row \<Rightarrow> 'i db \<Rightarrow> unit res \<times> 'i db" where
  "db_put r d =
     (if r_pk r = [] then (Inl (ErrMsg ''item missing PK field''), d)
      else if fault d (OpPut (row_key r)) then (Inl ErrTransient, d)
      else (Inr (), d\<lparr>data := AList.update (row_key r) r (data d)\<rparr>))"

definition db_put_new :: "'i row \<Rightarrow> 'i db \<Rightarrow> unit res \<times> 'i db" where
  "db_put_new r d =
     (if r_pk r = [] then (Inl (ErrMsg ''item missing PK field''), d)
      else if fault d (OpPutNew (row_key r)) then (Inl ErrTransient, d)
      else case lookup d (row_key r) of
          Some _ \<Rightarrow> (Inl ErrConditionFailed, d)
        | None \<Rightarrow> (Inr (), d\<lparr>data := AList.update (row_key r) r (data d)\<rparr>))"

definition db_get :: "string \<Rightarrow> string \<Rightarrow> 'i db \<Rightarrow> 'i row res" where
  "db_get pk sk d =
     (if fault d (OpGet (mkey pk sk)) then Inl ErrTransient
      else case lookup d (mkey pk sk) of None \<Rightarrow> Inl ErrNotFound | Some r \<Rightarrow> Inr r)"

definition query_match :: "string \<Rightarrow> string \<Rightarrow> string \<times> 'i row \<Rightarrow> bool" where
  "query_match pk skp kr \<longleftrightarrow>
     has_prefix (fst kr) (pk @ ''#'') \<and> (skp = [] \<or> has_prefix (r_sk (snd kr)) skp)"

definition db_query :: "string \<Rightarrow> string \<Rightarrow> 'i db \<Rightarrow> 'i row list res" where
  "db_query pk skp d =
     (if fault d (OpQuery pk skp) then Inl ErrTransient
      else Inr (map snd (filter (query_match pk skp) (data d))))"

definition db_query_gsi :: "string \<Rightarrow> 'i db \<Rightarrow> 'i row list res" where
  "db_query_gsi gpk d =
     (if fault d (OpQueryGSI gpk) then Inl ErrTransient
      else Inr (map snd (filter (\<lambda>kr. r_gsi1pk (snd kr) = Some gpk) (data d))))"

definition db_delete :: "string \<Rightarrow> string \<Rightarrow> 'i db \<Rightarrow> unit res \<times> 'i db" where
  "db_delete pk sk d =
     (if fault d (OpDelete (mkey pk sk)) then (Inl ErrTransient, d)
      else (Inr (), d\<lparr>data := AList.delete (mkey pk sk) (data d)\<rparr>))"

definition db_scan :: "string \<Rightarrow> 'i db \<Rightarrow> 'i row list res" where
  "db_scan prefix d =
     (if fault d (OpScan prefix) then Inl ErrTransient
      else Inr (map snd (filter (\<lambda>kr. has_prefix (r_pk (snd kr)) prefix) (data d))))"

text \<open>A call whose error is discarded, \<^verbatim>\<open>_ = s.db.Delete(...)\<close>.\<close>

definition best_effort :: "'a res \<times> 'i db \<Rightarrow> 'i db" where
  "best_effort p = snd p"

subsection \<open>Lookups after an operation\<close>

lemma lookup_empty [simp]: "lookup empty_db k = None"
  by (simp add: lookup_def empty_db_def)

lemma lookup_update [simp]:
  "lookup (d\<lparr>data := AList.update k r (data d)\<rparr>) k' = (if k' = k then Some r else lookup d k')"
  by (simp add: lookup_def update_conv)

lemma lookup_delete [simp]:
  "lookup (d\<lparr>data := AList.delete k (data d)\<rparr>) k' = (if k' = k then None else lookup d k')"
  by (simp add: lookup_def delete_conv)

lemma db_put_ok:
  "db_put r d = (Inr (), d') \<Longrightarrow> lookup d' k = (if k = row_key r then Some r else lookup d k)"
  by (auto simp: db_put_def split: if_splits)

lemma db_put_err: "db_put r d = (Inl e, d') \<Longrightarrow> d' = d"
  by (auto simp: db_put_def split: if_splits)

lemma db_put_new_ok:
  "db_put_new r d = (Inr (), d') \<Longrightarrow>
     lookup d (row_key r) = None \<and> lookup d' k = (if k = row_key r then Some r else lookup d k)"
  by (auto simp: db_put_new_def split: if_splits option.splits)

lemma db_put_new_err: "db_put_new r d = (Inl e, d') \<Longrightarrow> d' = d"
  by (auto simp: db_put_new_def split: if_splits option.splits)

lemma db_put_new_cond:
  "db_put_new r d = (Inl ErrConditionFailed, d') \<Longrightarrow> lookup d (row_key r) \<noteq> None"
  by (auto simp: db_put_new_def split: if_splits option.splits)

lemma db_delete_ok:
  "db_delete pk sk d = (Inr (), d') \<Longrightarrow>
     lookup d' k = (if k = mkey pk sk then None else lookup d k)"
  by (auto simp: db_delete_def split: if_splits)

lemma db_delete_err: "db_delete pk sk d = (Inl e, d') \<Longrightarrow> d' = d"
  by (auto simp: db_delete_def split: if_splits)

lemma db_delete_lookup:
  "lookup (snd (db_delete pk sk d)) k =
     (if k = mkey pk sk \<and> \<not> fault d (OpDelete (mkey pk sk)) then None else lookup d k)"
  by (auto simp: db_delete_def)

lemma db_get_some: "db_get pk sk d = Inr r \<Longrightarrow> lookup d (mkey pk sk) = Some r"
  by (auto simp: db_get_def split: if_splits option.splits)

lemma db_get_not_found: "db_get pk sk d = Inl ErrNotFound \<Longrightarrow> lookup d (mkey pk sk) = None"
  by (auto simp: db_get_def split: if_splits option.splits)

lemma fault_update [simp]: "fault (d\<lparr>data := x\<rparr>) = fault d"
  by simp

lemma db_put_fault [simp]: "fault (snd (db_put r d)) = fault d"
  by (simp add: db_put_def)

lemma db_put_new_fault [simp]: "fault (snd (db_put_new r d)) = fault d"
  by (simp add: db_put_new_def split: option.split)

lemma db_delete_fault [simp]: "fault (snd (db_delete pk sk d)) = fault d"
  by (simp add: db_delete_def)

subsection \<open>Well-formedness\<close>

lemma db_wf_empty [simp]: "db_wf empty_db"
  by (simp add: db_wf_def empty_db_def)

lemma set_alist_update: "x \<in> set (AList.update k v xs) \<Longrightarrow> x = (k, v) \<or> x \<in> set xs"
  by (induction xs) (auto split: if_splits)

lemma set_alist_delete: "x \<in> set (AList.delete k xs) \<Longrightarrow> x \<in> set xs"
  by (auto simp: AList.delete_eq)

lemma db_wf_update:
  "db_wf d \<Longrightarrow> r_pk r \<noteq> [] \<Longrightarrow> db_wf (d\<lparr>data := AList.update (row_key r) r (data d)\<rparr>)"
  by (auto simp: db_wf_def list_all_iff distinct_update dest!: set_alist_update)

lemma db_wf_delete: "db_wf d \<Longrightarrow> db_wf (d\<lparr>data := AList.delete k (data d)\<rparr>)"
  by (auto simp: db_wf_def list_all_iff distinct_delete dest!: set_alist_delete)

lemma db_wf_put: "db_wf d \<Longrightarrow> db_wf (snd (db_put r d))"
  by (simp add: db_put_def db_wf_update)

lemma db_wf_put_new: "db_wf d \<Longrightarrow> db_wf (snd (db_put_new r d))"
  by (simp add: db_put_new_def db_wf_update split: option.split)

lemma db_wf_del: "db_wf d \<Longrightarrow> db_wf (snd (db_delete pk sk d))"
  by (simp add: db_delete_def db_wf_delete)

lemma in_data_lookup: "db_wf d \<Longrightarrow> (k, r) \<in> set (data d) \<longleftrightarrow> lookup d k = Some r"
  by (simp add: db_wf_def lookup_def)

lemma lookup_row_key: "db_wf d \<Longrightarrow> lookup d k = Some r \<Longrightarrow> k = row_key r"
  using in_data_lookup [of d k r] by (auto simp: db_wf_def list_all_iff)

lemma in_snd_data: "db_wf d \<Longrightarrow> r \<in> snd ` set (data d) \<longleftrightarrow> lookup d (row_key r) = Some r"
  using in_data_lookup lookup_row_key by (force simp: image_iff)

lemma db_query_set:
  assumes "db_wf d" and "db_query pk skp d = Inr rs"
  shows "r \<in> set rs \<longleftrightarrow>
    (lookup d (row_key r) = Some r \<and> has_prefix (row_key r) (pk @ ''#'') \<and>
     (skp = [] \<or> has_prefix (r_sk r) skp))"
proof -
  have "r \<in> set rs \<longleftrightarrow> (\<exists>k. (k, r) \<in> set (data d) \<and> query_match pk skp (k, r))"
    using assms(2) by (force simp: db_query_def split: if_splits)
  then show ?thesis
    using assms(1) by (auto simp: in_data_lookup query_match_def dest: lookup_row_key)
qed

lemma db_query_gsi_set:
  assumes "db_wf d" and "db_query_gsi g d = Inr rs"
  shows "r \<in> set rs \<longleftrightarrow> (lookup d (row_key r) = Some r \<and> r_gsi1pk r = Some g)"
proof -
  have "r \<in> set rs \<longleftrightarrow> (\<exists>k. (k, r) \<in> set (data d) \<and> r_gsi1pk r = Some g)"
    using assms(2) by (force simp: db_query_gsi_def split: if_splits)
  then show ?thesis
    using assms(1) by (auto simp: in_data_lookup dest: lookup_row_key)
qed

lemma db_scan_set:
  assumes "db_wf d" and "db_scan p d = Inr rs"
  shows "r \<in> set rs \<longleftrightarrow> (lookup d (row_key r) = Some r \<and> has_prefix (r_pk r) p)"
proof -
  have "r \<in> set rs \<longleftrightarrow> (\<exists>k. (k, r) \<in> set (data d) \<and> has_prefix (r_pk r) p)"
    using assms(2) by (force simp: db_scan_def split: if_splits)
  then show ?thesis
    using assms(1) by (auto simp: in_data_lookup dest: lookup_row_key)
qed

text \<open>The rows of a well-formed table are listed once each.\<close>

lemma db_rows_distinct: "db_wf d \<Longrightarrow> distinct (map snd (data d))"
proof -
  assume wf: "db_wf d"
  then have "map fst (data d) = map row_key (map snd (data d))"
    by (auto simp: db_wf_def list_all_iff)
  with wf show ?thesis by (metis db_wf_def distinct_map)
qed

lemma db_query_gsi_distinct: "db_wf d \<Longrightarrow> db_query_gsi g d = Inr rs \<Longrightarrow> distinct rs"
  using db_rows_distinct [of d]
  by (auto simp: db_query_gsi_def distinct_map inj_on_def split: if_splits)

subsection \<open>The interface of the stores\<close>

text \<open>
  What a store relies on: an unconditional write is read back and touches one key only, a
  conditional write succeeds only when the key was free, and an operation that returns an error
  leaves the table as it was.
\<close>

locale table_api =
  fixes lkp :: "'d \<Rightarrow> string \<Rightarrow> 'i row option"
    and put :: "'i row \<Rightarrow> 'd \<Rightarrow> unit res \<times> 'd"
    and put_new :: "'i row \<Rightarrow> 'd \<Rightarrow> unit res \<times> 'd"
    and del :: "string \<Rightarrow> string \<Rightarrow> 'd \<Rightarrow> unit res \<times> 'd"
  assumes put_ok: "put r d = (Inr (), d') \<Longrightarrow>
      lkp d' k = (if k = row_key r then Some r else lkp d k)"
    and put_err: "put r d = (Inl e, d') \<Longrightarrow> d' = d"
    and put_new_ok: "put_new r d = (Inr (), d') \<Longrightarrow>
      lkp d (row_key r) = None \<and> lkp d' k = (if k = row_key r then Some r else lkp d k)"
    and put_new_err: "put_new r d = (Inl e, d') \<Longrightarrow> d' = d"
    and del_ok: "del pk sk d = (Inr (), d') \<Longrightarrow>
      lkp d' k = (if k = mkey pk sk then None else lkp d k)"
    and del_err: "del pk sk d = (Inl e, d') \<Longrightarrow> d' = d"
begin

lemma put_keeps: "k \<noteq> row_key r \<Longrightarrow> lkp (snd (put r d)) k = lkp d k"
  using put_ok [of r d _ k] put_err [of r d]
  by (cases "put r d"; cases "fst (put r d)") auto

lemma put_new_keeps: "k \<noteq> row_key r \<Longrightarrow> lkp (snd (put_new r d)) k = lkp d k"
  using put_new_ok [of r d _ k] put_new_err [of r d]
  by (cases "put_new r d"; cases "fst (put_new r d)") auto

lemma del_keeps: "k \<noteq> mkey pk sk \<Longrightarrow> lkp (snd (del pk sk d)) k = lkp d k"
  using del_ok [of pk sk d _ k] del_err [of pk sk d]
  by (cases "del pk sk d"; cases "fst (del pk sk d)") auto

text \<open>A conditional write never replaces a row.\<close>

lemma put_new_never_overwrites:
  assumes "lkp d k = Some r'"
  shows "lkp (snd (put_new r d)) k = Some r'"
proof (cases "put_new r d")
  case (Pair v d')
  then show ?thesis
    using assms put_new_ok [of r d d' k] put_new_err [of r d _ d'] by (cases v) (auto split: if_splits)
qed

text \<open>After one conditional write on a key succeeded, another one on the same key fails.\<close>

lemma put_new_exclusive:
  assumes "put_new r d = (Inr (), d1)" and "row_key r' = row_key r"
  shows "fst (put_new r' d1) \<noteq> Inr ()"
proof
  assume "fst (put_new r' d1) = Inr ()"
  then obtain d2 where "put_new r' d1 = (Inr (), d2)" by (cases "put_new r' d1") auto
  with assms show False
    using put_new_ok [of r d d1 "row_key r"] put_new_ok [of r' d1 d2] by auto
qed

end

interpretation mem: table_api lookup db_put db_put_new db_delete
  by unfold_locales
    (erule db_put_ok db_put_err db_put_new_ok db_put_new_err db_delete_ok db_delete_err)+

lemma db_put_new_same_key_taken:
  assumes "lookup d (row_key r) = Some r'" and "r_pk r \<noteq> []" and "\<not> fault d (OpPutNew (row_key r))"
  shows "db_put_new r d = (Inl ErrConditionFailed, d)"
  using assms by (simp add: db_put_new_def)

end
