(* ===== verification/ConfigItems.thy ===== *)
theory ConfigItems
  imports TenantModel Table "HOL-Library.Word"
begin

text \<open>
  The rows of the configuration table: the item structs of \<^verbatim>\<open>internal/store\<close> that embed a model type
  with its keys, the key functions, and the type invariant \<open>cfg_inv\<close>: every row lives in the
  partition of a tenant, under a sort key that determines the kind of the row. Reading a row as
  another kind than it was written with is an error branch of the model; the invariant rules it out
  for identifiers without the separator.
\<close>

subsection \<open>Items and keys\<close>

datatype cfg_item =
    TenantItem tenant
  | SourceItem identity_source
  | AppItem string application
  | EntityUniqueItem string string
  | SamlItem saml_config
  | OidcItem oidc_config
  | ClaimItem claim_mapping
  | RoleItem role_mapping

type_synonym cfg_row = "cfg_item row"
type_synonym cfg_db = "cfg_item db"

text \<open>\<^verbatim>\<open>generateID\<close>: sixteen random bytes in hexadecimal, or an error of the random source.\<close>

definition hex_byte :: "8 word \<Rightarrow> string" where
  "hex_byte b = [''0123456789abcdef'' ! (unat b div 16), ''0123456789abcdef'' ! (unat b mod 16)]"

definition generate_id :: "8 word list option \<Rightarrow> string res" where
  "generate_id rnd =
     (case rnd of
        None \<Rightarrow> Inl (Wrap ''failed to generate ID'' (ErrMsg ''rand''))
      | Some bs \<Rightarrow> Inr (concat (map hex_byte bs)))"

definition tenant_pk :: "string \<Rightarrow> string" where "tenant_pk slug = ''TENANT#'' @ slug"
definition tenant_sk :: string where "tenant_sk = ''CONFIG''"
definition source_sk :: "string \<Rightarrow> string" where "source_sk i = ''SOURCE#'' @ i"
definition app_sk :: "string \<Rightarrow> string" where "app_sk i = ''APP#'' @ i"
definition app_saml_sk :: "string \<Rightarrow> string" where "app_saml_sk i = ''APP#'' @ i @ ''#SAML''"
definition app_oidc_sk :: "string \<Rightarrow> string" where "app_oidc_sk i = ''APP#'' @ i @ ''#OIDC''"
definition entity_unique_sk :: "string \<Rightarrow> string" where
  "entity_unique_sk e = ''ENTITYUNIQUE#'' @ e"
definition entity_gsi_pk :: "string \<Rightarrow> string \<Rightarrow> string" where
  "entity_gsi_pk slug e = ''ENTITY#'' @ slug @ ''#'' @ e"
definition claim_sk :: "string \<Rightarrow> string \<Rightarrow> string" where
  "claim_sk i n = ''APP#'' @ i @ ''#CLAIM#'' @ n"
definition role_sk :: "string \<Rightarrow> string \<Rightarrow> string" where
  "role_sk i g = ''APP#'' @ i @ ''#ROLE#'' @ g"
definition claim_prefix :: "string \<Rightarrow> string" where "claim_prefix i = ''APP#'' @ i @ ''#CLAIM#''"
definition role_prefix :: "string \<Rightarrow> string" where "role_prefix i = ''APP#'' @ i @ ''#ROLE#''"

lemmas sk_defs = tenant_sk_def source_sk_def app_sk_def app_saml_sk_def app_oidc_sk_def
  entity_unique_sk_def claim_sk_def role_sk_def claim_prefix_def role_prefix_def

definition cfg_row :: "string \<Rightarrow> string \<Rightarrow> cfg_item \<Rightarrow> cfg_row" where
  "cfg_row pk sk i = \<lparr>r_pk = pk, r_sk = sk, r_gsi1pk = None, r_gsi1sk = [], r_item = i\<rparr>"

definition app_row :: "string \<Rightarrow> string \<Rightarrow> string \<Rightarrow> string \<Rightarrow> string \<Rightarrow> application \<Rightarrow> cfg_row" where
  "app_row pk sk gpk gsk e a =
     \<lparr>r_pk = pk, r_sk = sk, r_gsi1pk = Some gpk, r_gsi1sk = gsk, r_item = AppItem e a\<rparr>"

subsection \<open>Reading a row as a kind\<close>

definition wrong_kind :: err where "wrong_kind = ErrMsg ''row of another kind''"

definition as_tenant :: "cfg_row \<Rightarrow> tenant option" where
  "as_tenant r = (case r_item r of TenantItem t \<Rightarrow> Some t | _ \<Rightarrow> None)"
definition as_source :: "cfg_row \<Rightarrow> identity_source option" where
  "as_source r = (case r_item r of SourceItem s \<Rightarrow> Some s | _ \<Rightarrow> None)"
definition as_app :: "cfg_row \<Rightarrow> application option" where
  "as_app r = (case r_item r of AppItem e a \<Rightarrow> Some a | _ \<Rightarrow> None)"
definition as_saml :: "cfg_row \<Rightarrow> saml_config option" where
  "as_saml r = (case r_item r of SamlItem c \<Rightarrow> Some c | _ \<Rightarrow> None)"
definition as_oidc :: "cfg_row \<Rightarrow> oidc_config option" where
  "as_oidc r = (case r_item r of OidcItem c \<Rightarrow> Some c | _ \<Rightarrow> None)"
definition as_claim :: "cfg_row \<Rightarrow> claim_mapping option" where
  "as_claim r = (case r_item r of ClaimItem c \<Rightarrow> Some c | _ \<Rightarrow> None)"
definition as_role :: "cfg_row \<Rightarrow> role_mapping option" where
  "as_role r = (case r_item r of RoleItem c \<Rightarrow> Some c | _ \<Rightarrow> None)"

lemmas as_defs = as_tenant_def as_source_def as_app_def as_saml_def as_oidc_def as_claim_def
  as_role_def

lemma as_iff [simp]:
  "as_tenant r = Some t \<longleftrightarrow> r_item r = TenantItem t"
  "as_source r = Some s \<longleftrightarrow> r_item r = SourceItem s"
  "as_app r = Some a \<longleftrightarrow> (\<exists>e. r_item r = AppItem e a)"
  "as_saml r = Some c \<longleftrightarrow> r_item r = SamlItem c"
  "as_oidc r = Some oc \<longleftrightarrow> r_item r = OidcItem oc"
  "as_claim r = Some cm \<longleftrightarrow> r_item r = ClaimItem cm"
  "as_role r = Some rm \<longleftrightarrow> r_item r = RoleItem rm"
  by (auto simp: as_defs split: cfg_item.splits)

definition get_as :: "('i row \<Rightarrow> 'a option) \<Rightarrow> string \<Rightarrow> string \<Rightarrow> 'i db \<Rightarrow> 'a res" where
  "get_as f pk sk d =
     (case db_get pk sk d of
        Inl e \<Rightarrow> Inl e
      | Inr r \<Rightarrow> (case f r of None \<Rightarrow> Inl wrong_kind | Some x \<Rightarrow> Inr x))"

lemma get_as_Inr:
  "get_as f pk sk d = Inr x \<longleftrightarrow>
     \<not> fault d (OpGet (mkey pk sk)) \<and> (\<exists>r. lookup d (mkey pk sk) = Some r \<and> f r = Some x)"
  by (auto simp: get_as_def db_get_def split: option.splits)

lemma get_as_Inr_lookup:
  "get_as f pk sk d = Inr x \<Longrightarrow> \<exists>r. lookup d (mkey pk sk) = Some r \<and> f r = Some x"
  by (simp add: get_as_Inr)

subsection \<open>The type invariant\<close>

abbreviation no_hash :: "string \<Rightarrow> bool" where
  "no_hash s \<equiv> CHR ''#'' \<notin> set s"

text \<open>The application id inside a sort key \<^verbatim>\<open>APP#<id>#...\<close>.\<close>

definition sk_app_id :: "string \<Rightarrow> string" where
  "sk_app_id sk = takeWhile (\<lambda>c. c \<noteq> CHR ''#'') (drop 4 sk)"

definition item_ok :: "string \<Rightarrow> cfg_item \<Rightarrow> bool" where
  "item_ok sk i =
     (case i of
        TenantItem t \<Rightarrow> sk = tenant_sk
      | SourceItem s \<Rightarrow> sk = source_sk (s_id s)
      | AppItem e a \<Rightarrow> sk = app_sk (a_id a) \<and> no_hash (a_id a) \<and> a_id a \<noteq> []
      | EntityUniqueItem e ai \<Rightarrow> sk = entity_unique_sk e
      | SamlItem c \<Rightarrow> sk = app_saml_sk (sk_app_id sk)
      | OidcItem c \<Rightarrow> sk = app_oidc_sk (sk_app_id sk)
      | ClaimItem c \<Rightarrow> sk = claim_sk (sk_app_id sk) (cm_name c)
      | RoleItem c \<Rightarrow> sk = role_sk (sk_app_id sk) (rm_cognito_group c))"

definition row_slug :: "'i row \<Rightarrow> string" where
  "row_slug r = drop 7 (r_pk r)"

definition cfg_row_ok :: "cfg_row \<Rightarrow> bool" where
  "cfg_row_ok r \<longleftrightarrow> r_pk r = tenant_pk (row_slug r) \<and> no_hash (row_slug r) \<and>
     item_ok (r_sk r) (r_item r) \<and>
     (case r_item r of TenantItem t \<Rightarrow> t_slug t = row_slug r | _ \<Rightarrow> True) \<and>
     (case r_item r of AppItem e a \<Rightarrow> True | _ \<Rightarrow> r_gsi1pk r = None)"

definition cfg_inv :: "cfg_db \<Rightarrow> bool" where
  "cfg_inv d \<longleftrightarrow> db_wf d \<and> list_all (\<lambda>kr. cfg_row_ok (snd kr)) (data d)"

lemma cfg_inv_wf: "cfg_inv d \<Longrightarrow> db_wf d"
  by (simp add: cfg_inv_def)

lemma cfg_inv_row: "cfg_inv d \<Longrightarrow> lookup d k = Some r \<Longrightarrow> cfg_row_ok r \<and> k = row_key r"
  using in_data_lookup [of d k r] lookup_row_key [of d k r]
  by (auto simp: cfg_inv_def list_all_iff)

lemma cfg_inv_empty [simp]: "cfg_inv empty_db"
  by (simp add: cfg_inv_def) (simp add: empty_db_def)

lemma cfg_inv_put: "cfg_inv d \<Longrightarrow> cfg_row_ok r \<Longrightarrow> cfg_inv (snd (db_put r d))"
  by (auto simp: cfg_inv_def db_wf_put)
    (auto simp: db_put_def list_all_iff dest!: set_alist_update)

lemma cfg_inv_put_new: "cfg_inv d \<Longrightarrow> cfg_row_ok r \<Longrightarrow> cfg_inv (snd (db_put_new r d))"
  by (auto simp: cfg_inv_def db_wf_put_new)
    (auto simp: db_put_new_def list_all_iff split: option.split dest!: set_alist_update)

lemma cfg_inv_delete: "cfg_inv d \<Longrightarrow> cfg_inv (snd (db_delete pk sk d))"
  by (auto simp: cfg_inv_def db_wf_del)
    (auto simp: db_delete_def list_all_iff dest!: set_alist_delete)

subsection \<open>Separation of the keys\<close>

lemma tenant_pk_inject [key_simps]: "tenant_pk a = tenant_pk b \<longleftrightarrow> a = b"
  by (simp add: tenant_pk_def)

lemma tenant_pk_ne [simp]: "tenant_pk a \<noteq> []"
  by (simp add: tenant_pk_def)

lemma row_slug_tenant_pk: "r_pk r = tenant_pk s \<Longrightarrow> row_slug r = s"
  by (simp add: row_slug_def tenant_pk_def)

lemma mkey_tenant_inject [key_simps]:
  "no_hash a \<Longrightarrow> no_hash b \<Longrightarrow>
     mkey (tenant_pk a) sk = mkey (tenant_pk b) sk' \<longleftrightarrow> a = b \<and> sk = sk'"
  using append_sep_inject [of "CHR ''#''" a b sk sk'] by (simp add: mkey_def tenant_pk_def)

lemma mkey_same_inject [key_simps]: "mkey pk a = mkey pk b \<longleftrightarrow> a = b"
  by (simp add: mkey_def)

lemma row_key_cfg_row [simp]: "row_key (cfg_row pk sk i) = mkey pk sk"
  by (simp add: row_key_def cfg_row_def)

lemma row_key_app_row [simp]: "row_key (app_row pk sk gpk gsk e a) = mkey pk sk"
  by (simp add: row_key_def app_row_def)

lemma cfg_row_sel [simp]:
  "r_pk (cfg_row pk sk i) = pk" "r_sk (cfg_row pk sk i) = sk" "r_item (cfg_row pk sk i) = i"
  "r_gsi1pk (cfg_row pk sk i) = None"
  by (simp_all add: cfg_row_def)

lemma app_row_sel [simp]:
  "r_pk (app_row pk sk g h e a) = pk" "r_sk (app_row pk sk g h e a) = sk"
  "r_item (app_row pk sk g h e a) = AppItem e a" "r_gsi1pk (app_row pk sk g h e a) = Some g"
  "r_gsi1sk (app_row pk sk g h e a) = h"
  by (simp_all add: app_row_def)

lemma cfg_lookup_row:
  assumes "cfg_inv d" and "lookup d (mkey (tenant_pk s) sk) = Some r" and "no_hash s"
  shows "cfg_row_ok r \<and> r_pk r = tenant_pk s \<and> r_sk r = sk"
proof -
  have ok: "cfg_row_ok r" "mkey (tenant_pk s) sk = row_key r"
    using cfg_inv_row [OF assms(1,2)] by auto
  then have "mkey (tenant_pk s) sk = mkey (tenant_pk (row_slug r)) (r_sk r)"
    "no_hash (row_slug r)"
    by (auto simp: cfg_row_ok_def row_key_def)
  then show ?thesis
    using ok assms(3) by (auto simp: mkey_tenant_inject cfg_row_ok_def)
qed

lemma cfg_query_pk:
  assumes "cfg_row_ok r" and "no_hash s"
  shows "has_prefix (row_key r) (tenant_pk s @ ''#'') \<longleftrightarrow> r_pk r = tenant_pk s"
proof
  assume "has_prefix (row_key r) (tenant_pk s @ ''#'')"
  then obtain x where "row_key r = mkey (tenant_pk s) x"
    by (auto simp: has_prefix_iff mkey_def)
  moreover have "row_key r = mkey (tenant_pk (row_slug r)) (r_sk r)" "no_hash (row_slug r)"
    using assms by (auto simp: cfg_row_ok_def row_key_def)
  ultimately show "r_pk r = tenant_pk s"
    using assms by (auto simp: mkey_tenant_inject cfg_row_ok_def)
next
  assume "r_pk r = tenant_pk s"
  then show "has_prefix (row_key r) (tenant_pk s @ ''#'')"
    by (simp add: row_key_def mkey_def has_prefix_iff)
qed

text \<open>Sort keys of different kinds differ; those of one kind determine their parts.\<close>

lemma sk_distinct [key_simps]:
  "tenant_sk \<noteq> source_sk i" "tenant_sk \<noteq> app_sk i" "tenant_sk \<noteq> app_saml_sk i"
  "tenant_sk \<noteq> app_oidc_sk i" "tenant_sk \<noteq> entity_unique_sk e" "tenant_sk \<noteq> claim_sk i n"
  "tenant_sk \<noteq> role_sk i n" "source_sk j \<noteq> app_sk i" "source_sk j \<noteq> app_saml_sk i"
  "source_sk j \<noteq> app_oidc_sk i" "source_sk j \<noteq> entity_unique_sk e" "source_sk j \<noteq> claim_sk i n"
  "source_sk j \<noteq> role_sk i n" "entity_unique_sk e \<noteq> app_sk i" "entity_unique_sk e \<noteq> app_saml_sk i"
  "entity_unique_sk e \<noteq> app_oidc_sk i" "entity_unique_sk e \<noteq> claim_sk i n"
  "entity_unique_sk e \<noteq> role_sk i n"
  by (simp_all add: sk_defs)

lemmas sk_distinct_sym [key_simps] = sk_distinct [symmetric]

lemma sk_inject [key_simps]:
  "source_sk i = source_sk j \<longleftrightarrow> i = j" "app_sk i = app_sk j \<longleftrightarrow> i = j"
  "app_saml_sk i = app_saml_sk j \<longleftrightarrow> i = j" "app_oidc_sk i = app_oidc_sk j \<longleftrightarrow> i = j"
  "entity_unique_sk e = entity_unique_sk f \<longleftrightarrow> e = f"
  "claim_sk i n = claim_sk i m \<longleftrightarrow> n = m" "role_sk i n = role_sk i m \<longleftrightarrow> n = m"
  by (simp_all add: sk_defs)

lemma sk_app_id_simps [simp]:
  assumes "no_hash i"
  shows "sk_app_id (app_sk i) = i" "sk_app_id (app_saml_sk i) = i" "sk_app_id (app_oidc_sk i) = i"
    "sk_app_id (claim_sk i n) = i" "sk_app_id (role_sk i n) = i"
  using assms by (auto simp: sk_app_id_def sk_defs takeWhile_append)

lemma app_sk_hash:
  "no_hash i \<Longrightarrow> app_sk i \<noteq> app_saml_sk j \<and> app_sk i \<noteq> app_oidc_sk j \<and>
     app_sk i \<noteq> claim_sk j n \<and> app_sk i \<noteq> role_sk j n"
  by (auto simp: sk_defs)

lemma sub_sk_distinct:
  "no_hash i \<Longrightarrow> no_hash j \<Longrightarrow>
     app_saml_sk i \<noteq> app_oidc_sk j \<and> app_saml_sk i \<noteq> claim_sk j n \<and> app_saml_sk i \<noteq> role_sk j n \<and>
     app_oidc_sk i \<noteq> claim_sk j n \<and> app_oidc_sk i \<noteq> role_sk j n \<and> claim_sk i n \<noteq> role_sk j m"
  using append_sep_inject [of "CHR ''#''" i j] by (auto simp: sk_defs)

lemma entity_gsi_inject [key_simps]:
  "no_hash a \<Longrightarrow> no_hash b \<Longrightarrow> entity_gsi_pk a e = entity_gsi_pk b f \<longleftrightarrow> a = b \<and> e = f"
  using append_sep_inject [of "CHR ''#''" a b e f] by (simp add: entity_gsi_pk_def)

text \<open>Generated identifiers hold no separator.\<close>

lemma hex_byte_no_hash: "no_hash (hex_byte b)"
proof -
  have h: "no_hash [''0123456789abcdef'' ! n]" if "n < 16" for n
  proof -
    have "\<forall>n\<in>{..<16}. ''0123456789abcdef'' ! n \<noteq> CHR ''#''"
      by (simp add: lessThan_nat_numeral lessThan_Suc)
    with that show ?thesis by auto
  qed
  have "unat b < 256" using unsigned_less [of b] by simp
  then have "unat b div 16 < 16" "unat b mod 16 < 16" by auto
  then show ?thesis using h by (auto simp: hex_byte_def)
qed

lemma generate_id_no_hash: "generate_id rnd = Inr i \<Longrightarrow> no_hash i"
  using hex_byte_no_hash by (auto simp: generate_id_def split: option.splits)

lemma generate_id_length:
  "generate_id (Some bs) = Inr i \<Longrightarrow> length i = 2 * length bs"
  by (auto simp: generate_id_def hex_byte_def length_concat comp_def sum_list_triv)

end
