(* ===== verification/TenantStore.thy ===== *)
theory TenantStore
  imports ConfigItems
begin

text \<open>
  \<^verbatim>\<open>internal/store/tenant_store.go\<close> and \<^verbatim>\<open>source_store.go\<close>: the tenants and identity sources of
  the configuration table. Operations that write return the error or result and the table, the
  table also on an error path. The clock of a call is its argument \<open>now\<close>; the caller's copy of a
  record, which Go also stamps, is not modelled.
\<close>

subsection \<open>Tenants\<close>

definition tenant_create :: "gotime \<Rightarrow> tenant \<Rightarrow> cfg_db \<Rightarrow> unit res \<times> cfg_db" where
  "tenant_create now t d =
     (if t_slug t = [] then (Inl (ErrMsg ''tenant slug is required''), d)
      else
        let t' = t\<lparr>t_created_at := now, t_updated_at := now\<rparr> in
        case db_put_new (cfg_row (tenant_pk (t_slug t)) tenant_sk (TenantItem t')) d of
          (Inl e, d') \<Rightarrow>
            (if errors_is e ErrConditionFailed then (Inl (Wrap [] ErrTenantExists), d')
             else (Inl (Wrap ''failed to create tenant'' e), d'))
        | (Inr _, d') \<Rightarrow> (Inr (), d'))"

definition tenant_get :: "string \<Rightarrow> cfg_db \<Rightarrow> tenant res" where
  "tenant_get slug d = wrap_res ''failed to get tenant'' (get_as as_tenant (tenant_pk slug) tenant_sk d)"

text \<open>
  \<^verbatim>\<open>EnsureTenant\<close> reads and then writes; another process may act in between. \<open>ensure_write\<close> is its
  step after the read: \<open>found\<close> is what the read saw, \<open>d\<close> the table the write meets.
\<close>

definition ensure_write :: "bool \<Rightarrow> gotime \<Rightarrow> tenant \<Rightarrow> cfg_db \<Rightarrow> unit res \<times> cfg_db" where
  "ensure_write found now t d =
     (if found then (Inr (), d)
      else case tenant_create now t d of
        (Inl e, d') \<Rightarrow> if errors_is e ErrTenantExists then (Inr (), d') else (Inl e, d')
      | (Inr _, d') \<Rightarrow> (Inr (), d'))"

definition ensure_tenant :: "gotime \<Rightarrow> tenant \<Rightarrow> cfg_db \<Rightarrow> unit res \<times> cfg_db" where
  "ensure_tenant now t d =
     ensure_write (case tenant_get (t_slug t) d of Inr _ \<Rightarrow> True | Inl _ \<Rightarrow> False) now t d"

definition tenant_delete :: "string \<Rightarrow> cfg_db \<Rightarrow> unit res \<times> cfg_db" where
  "tenant_delete slug d =
     (if slug = [] then (Inl (ErrMsg ''tenant slug is required for delete''), d)
      else case db_delete (tenant_pk slug) tenant_sk d of
          (Inl e, d') \<Rightarrow> (Inl (Wrap ''failed to delete tenant'' e), d')
        | (Inr _, d') \<Rightarrow> (Inr (), d'))"

definition tenant_list :: "cfg_db \<Rightarrow> tenant list res" where
  "tenant_list d =
     (case db_scan ''TENANT#'' d of
        Inl e \<Rightarrow> Inl (Wrap ''failed to list tenants'' e)
      | Inr rows \<Rightarrow> Inr (List.map_filter as_tenant (filter (\<lambda>r. r_sk r = tenant_sk) rows)))"

definition tenant_update :: "gotime \<Rightarrow> tenant \<Rightarrow> cfg_db \<Rightarrow> unit res \<times> cfg_db" where
  "tenant_update now t d =
     (if t_slug t = [] then (Inl (ErrMsg ''tenant slug is required for update''), d)
      else case tenant_get (t_slug t) d of
        Inl e \<Rightarrow> (Inl (Wrap ''failed to get existing tenant'' e), d)
      | Inr existing \<Rightarrow>
          let t' = t\<lparr>t_created_at := t_created_at existing, t_updated_at := now\<rparr> in
          case db_put (cfg_row (tenant_pk (t_slug t)) tenant_sk (TenantItem t')) d of
            (Inl e, d') \<Rightarrow> (Inl (Wrap ''failed to update tenant'' e), d')
          | (Inr _, d') \<Rightarrow> (Inr (), d'))"

subsection \<open>Identity sources\<close>

definition source_create ::
  "8 word list option \<Rightarrow> gotime \<Rightarrow> string \<Rightarrow> identity_source \<Rightarrow> cfg_db \<Rightarrow> string res \<times> cfg_db" where
  "source_create rnd now slug src d =
     (case generate_id rnd of
        Inl e \<Rightarrow> (Inl e, d)
      | Inr i \<Rightarrow>
          let src' = src\<lparr>s_id := i, s_tenant_slug := slug, s_created_at := now,
                         s_updated_at := now\<rparr> in
          case db_put (cfg_row (tenant_pk slug) (source_sk i) (SourceItem src')) d of
            (Inl e, d') \<Rightarrow> (Inl (Wrap ''failed to create identity source'' e), d')
          | (Inr _, d') \<Rightarrow> (Inr i, d'))"

definition source_get :: "string \<Rightarrow> string \<Rightarrow> cfg_db \<Rightarrow> identity_source res" where
  "source_get slug i d =
     (case get_as as_source (tenant_pk slug) (source_sk i) d of
        Inl e \<Rightarrow> Inl (Wrap ''failed to get identity source'' e)
      | Inr s \<Rightarrow> Inr (s\<lparr>s_tenant_slug := slug\<rparr>))"

definition source_list :: "string \<Rightarrow> cfg_db \<Rightarrow> identity_source list res" where
  "source_list slug d =
     (case db_query (tenant_pk slug) ''SOURCE#'' d of
        Inl e \<Rightarrow> Inl (Wrap ''failed to list identity sources'' e)
      | Inr rows \<Rightarrow> Inr (map (\<lambda>s. s\<lparr>s_tenant_slug := slug\<rparr>) (List.map_filter as_source rows)))"

definition source_update ::
  "gotime \<Rightarrow> string \<Rightarrow> identity_source \<Rightarrow> cfg_db \<Rightarrow> unit res \<times> cfg_db" where
  "source_update now slug src d =
     (if s_id src = [] then (Inl (ErrMsg ''identity source ID is required for update''), d)
      else case source_get slug (s_id src) d of
        Inl e \<Rightarrow> (Inl (Wrap ''failed to get existing identity source'' e), d)
      | Inr existing \<Rightarrow>
          let src' = src\<lparr>s_tenant_slug := slug, s_created_at := s_created_at existing,
                         s_updated_at := now\<rparr> in
          case db_put (cfg_row (tenant_pk slug) (source_sk (s_id src)) (SourceItem src')) d of
            (Inl e, d') \<Rightarrow> (Inl (Wrap ''failed to update identity source'' e), d')
          | (Inr _, d') \<Rightarrow> (Inr (), d'))"

definition source_delete :: "string \<Rightarrow> string \<Rightarrow> cfg_db \<Rightarrow> unit res \<times> cfg_db" where
  "source_delete slug i d =
     (case source_get slug i d of
        Inl e \<Rightarrow> (Inl (Wrap ''failed to get identity source for deletion'' e), d)
      | Inr _ \<Rightarrow>
          (case db_delete (tenant_pk slug) (source_sk i) d of
            (Inl e, d') \<Rightarrow> (Inl (Wrap ''failed to delete identity source'' e), d')
          | (Inr _, d') \<Rightarrow> (Inr (), d')))"

subsection \<open>Lemmas\<close>

lemma tenant_row_ok:
  "no_hash (t_slug t) \<Longrightarrow> cfg_row_ok (cfg_row (tenant_pk (t_slug t)) tenant_sk (TenantItem t))"
  by (simp add: cfg_row_ok_def row_slug_def tenant_pk_def item_ok_def)

lemma source_row_ok:
  "no_hash slug \<Longrightarrow> cfg_row_ok (cfg_row (tenant_pk slug) (source_sk (s_id s)) (SourceItem s))"
  by (simp add: cfg_row_ok_def row_slug_def tenant_pk_def item_ok_def)

lemma cfg_inv_put_pair: "cfg_inv d \<Longrightarrow> cfg_row_ok r \<Longrightarrow> db_put r d = (x, d') \<Longrightarrow> cfg_inv d'"
  using cfg_inv_put [of d r] by simp

lemma cfg_inv_put_new_pair:
  "cfg_inv d \<Longrightarrow> cfg_row_ok r \<Longrightarrow> db_put_new r d = (x, d') \<Longrightarrow> cfg_inv d'"
  using cfg_inv_put_new [of d r] by simp

lemma cfg_inv_delete_pair: "cfg_inv d \<Longrightarrow> db_delete pk sk d = (x, d') \<Longrightarrow> cfg_inv d'"
  using cfg_inv_delete [of d pk sk] by simp

lemmas cfg_inv_pairs = cfg_inv_put_pair cfg_inv_put_new_pair cfg_inv_delete_pair

lemma tenant_create_inv:
  assumes "cfg_inv d" and "no_hash (t_slug t)"
  shows "cfg_inv (snd (tenant_create now t d))"
proof -
  let ?t = "t\<lparr>t_created_at := now, t_updated_at := now\<rparr>"
  have "cfg_row_ok (cfg_row (tenant_pk (t_slug t)) tenant_sk (TenantItem ?t))"
    using tenant_row_ok [of ?t] assms(2) by simp
  with assms(1) show ?thesis
    by (auto simp: tenant_create_def Let_def split: prod.split sum.split
        dest: cfg_inv_put_new_pair)
qed

lemma tenant_update_inv:
  assumes "cfg_inv d" and "no_hash (t_slug t)"
  shows "cfg_inv (snd (tenant_update now t d))"
proof -
  have "cfg_row_ok (cfg_row (tenant_pk (t_slug t)) tenant_sk
      (TenantItem (t\<lparr>t_created_at := c, t_updated_at := now\<rparr>)))" for c
    using tenant_row_ok [of "t\<lparr>t_created_at := c, t_updated_at := now\<rparr>"] assms(2) by simp
  with assms(1) show ?thesis
    by (auto simp: tenant_update_def Let_def split: prod.split sum.split dest: cfg_inv_put_pair)
qed

lemma tenant_delete_inv: "cfg_inv d \<Longrightarrow> cfg_inv (snd (tenant_delete slug d))"
  by (auto simp: tenant_delete_def split: prod.split sum.split dest: cfg_inv_delete_pair)

lemma source_create_inv:
  assumes "cfg_inv d" and "no_hash slug"
  shows "cfg_inv (snd (source_create rnd now slug src d))"
  using assms
  by (auto simp: source_create_def Let_def split: prod.split sum.split
      intro!: cfg_inv_put_pair [OF assms(1)] source_row_ok
        [of slug "src\<lparr>s_id := i, s_tenant_slug := slug, s_created_at := now, s_updated_at := now\<rparr>" for i,
          simplified])

lemma source_update_inv:
  assumes "cfg_inv d" and "no_hash slug"
  shows "cfg_inv (snd (source_update now slug src d))"
  using assms
  by (auto simp: source_update_def Let_def split: prod.split sum.split
      intro!: cfg_inv_put_pair [OF assms(1)] source_row_ok
        [of slug "src\<lparr>s_tenant_slug := slug, s_created_at := c, s_updated_at := now\<rparr>" for c,
          simplified])

lemma source_delete_inv: "cfg_inv d \<Longrightarrow> cfg_inv (snd (source_delete slug i d))"
  by (auto simp: source_delete_def split: prod.split sum.split dest: cfg_inv_delete_pair)

lemma tenant_get_Inr:
  "tenant_get slug d = Inr t \<longleftrightarrow>
     \<not> fault d (OpGet (mkey (tenant_pk slug) tenant_sk)) \<and>
     (\<exists>r. lookup d (mkey (tenant_pk slug) tenant_sk) = Some r \<and> r_item r = TenantItem t)"
  by (auto simp: tenant_get_def get_as_Inr)

lemma source_get_Inr:
  "source_get slug i d = Inr s \<longleftrightarrow>
     \<not> fault d (OpGet (mkey (tenant_pk slug) (source_sk i))) \<and>
     (\<exists>r s0. lookup d (mkey (tenant_pk slug) (source_sk i)) = Some r \<and> r_item r = SourceItem s0 \<and>
        s = s0\<lparr>s_tenant_slug := slug\<rparr>)"
  by (auto simp: source_get_def get_as_def db_get_def as_source_def
      split: cfg_item.splits option.splits sum.splits)

text \<open>A tenant row that exists survives a create of the same slug, whatever the outcome.\<close>

lemma tenant_create_keeps:
  assumes "lookup d k = Some r"
  shows "lookup (snd (tenant_create now t d)) k = Some r"
proof -
  have "lookup (snd (db_put_new r' d)) k = Some r" for r'
    by (rule mem.put_new_never_overwrites) (rule assms)
  then show ?thesis
    using assms by (auto simp: tenant_create_def Let_def split: prod.split sum.split)
      (metis snd_conv)+
qed

lemma tenant_create_ok:
  assumes "tenant_create now t d = (Inr (), d')"
  shows "lookup d (mkey (tenant_pk (t_slug t)) tenant_sk) = None \<and> t_slug t \<noteq> [] \<and>
    lookup d' k = (if k = mkey (tenant_pk (t_slug t)) tenant_sk
      then Some (cfg_row (tenant_pk (t_slug t)) tenant_sk
             (TenantItem (t\<lparr>t_created_at := now, t_updated_at := now\<rparr>)))
      else lookup d k)"
  using assms
  by (auto simp: tenant_create_def Let_def split: prod.splits sum.splits if_splits
      dest!: db_put_new_ok [where k = k])

lemma tenant_create_err: "tenant_create now t d = (Inl e, d') \<Longrightarrow> d' = d"
  by (auto simp: tenant_create_def Let_def split: prod.splits sum.splits if_splits
      dest: db_put_new_err)

lemma tenant_create_exists:
  assumes "lookup d (mkey (tenant_pk (t_slug t)) tenant_sk) \<noteq> None" and "t_slug t \<noteq> []"
    and "\<not> fault d (OpPutNew (mkey (tenant_pk (t_slug t)) tenant_sk))"
  shows "tenant_create now t d = (Inl (Wrap [] ErrTenantExists), d)"
  using assms by (auto simp: tenant_create_def db_put_new_def Let_def)

subsection \<open>Properties\<close>

text \<open>Creating a tenant never replaces one: it either stores the stamped tenant under a slug that
  was free and changes no other row, or reports an error and changes nothing; for a slug that is
  taken the error is \<open>ErrTenantExists\<close> unless the backend itself failed.\<close>

lemma tenant_create_functional:
  "case tenant_create now t d of
     (Inr _, d') \<Rightarrow>
       lookup d (mkey (tenant_pk (t_slug t)) tenant_sk) = None \<and>
       (\<forall>k. lookup d' k = (if k = mkey (tenant_pk (t_slug t)) tenant_sk
          then Some (cfg_row (tenant_pk (t_slug t)) tenant_sk
                 (TenantItem (t\<lparr>t_created_at := now, t_updated_at := now\<rparr>)))
          else lookup d k))
   | (Inl e, d') \<Rightarrow> d' = d \<and>
       (t_slug t = [] \<or> errors_is e ErrTransient \<or>
        (errors_is e ErrTenantExists \<and> lookup d (mkey (tenant_pk (t_slug t)) tenant_sk) \<noteq> None))"
proof (cases "tenant_create now t d")
  case (Pair v d')
  show ?thesis
  proof (cases v)
    case (Inl e)
    with Pair have "d' = d" by (auto dest: tenant_create_err)
    then show ?thesis
      using Pair Inl
      by (auto simp: tenant_create_def db_put_new_def Let_def
          split: if_splits option.splits)
  next
    case (Inr u)
    with Pair show ?thesis using tenant_create_ok [of now t d d'] by auto
  qed
qed

text \<open>Two creates of one slug that race, in either order, cannot both succeed, and the tenant of
  the first is what remains.\<close>

lemma tenant_create_race:
  assumes "tenant_create now1 t1 d = (Inr (), d1)" and "t_slug t2 = t_slug t1"
  shows "fst (tenant_create now2 t2 d1) \<noteq> Inr () \<and>
    lookup (snd (tenant_create now2 t2 d1)) (mkey (tenant_pk (t_slug t1)) tenant_sk) =
      Some (cfg_row (tenant_pk (t_slug t1)) tenant_sk
             (TenantItem (t1\<lparr>t_created_at := now1, t_updated_at := now1\<rparr>)))"
proof -
  let ?k = "mkey (tenant_pk (t_slug t1)) tenant_sk"
  have l: "lookup d1 ?k = Some (cfg_row (tenant_pk (t_slug t1)) tenant_sk
             (TenantItem (t1\<lparr>t_created_at := now1, t_updated_at := now1\<rparr>)))"
    using tenant_create_ok [OF assms(1), of ?k] by simp
  then have "fst (tenant_create now2 t2 d1) \<noteq> Inr ()"
    using assms(2) tenant_create_ok [of now2 t2 d1 "snd (tenant_create now2 t2 d1)" ?k]
    by (metis option.distinct(1) prod.collapse)
  with l show ?thesis by (simp add: tenant_create_keeps)
qed

lemma tenant_create_race_witness:
  "fst (tenant_create 7 (new_default_tenant\<lparr>t_plan := ''pro''\<rparr>)
      (snd (tenant_create 5 new_default_tenant empty_db))) \<noteq> Inr ()"
proof -
  have "tenant_create 5 new_default_tenant empty_db =
      (Inr (), snd (tenant_create 5 new_default_tenant empty_db))"
    by (simp add: tenant_create_def db_put_new_def empty_db_def lookup_def new_default_tenant_def
        default_slug_def Let_def)
  then show ?thesis
    using tenant_create_race [of 5 new_default_tenant empty_db _
        "new_default_tenant\<lparr>t_plan := ''pro''\<rparr>" 7] by simp
qed

text \<open>Seeding a tenant is safe under concurrency: whatever other writers did between its read and
  its write, \<^verbatim>\<open>EnsureTenant\<close> leaves every existing row as it is, and when it reports success the
  slug has a row (given the backend answered the read correctly).\<close>

lemma ensure_tenant_interleaved:
  assumes "found \<Longrightarrow> lookup d2 (mkey (tenant_pk (t_slug t)) tenant_sk) \<noteq> None"
  shows "(\<forall>k r. lookup d2 k = Some r \<longrightarrow> lookup (snd (ensure_write found now t d2)) k = Some r) \<and>
    (fst (ensure_write found now t d2) = Inr () \<longrightarrow>
       lookup (snd (ensure_write found now t d2)) (mkey (tenant_pk (t_slug t)) tenant_sk) \<noteq> None)"
proof (cases "tenant_create now t d2")
  case (Pair v d3)
  let ?k = "mkey (tenant_pk (t_slug t)) tenant_sk"
  have keep: "lookup d2 k = Some r \<Longrightarrow> lookup d3 k = Some r" for k r
    using tenant_create_keeps [of d2 k r now t] Pair by simp
  have "snd (ensure_write found now t d2) = (if found then d2 else d3)"
    using Pair by (auto simp: ensure_write_def split: sum.split)
  moreover have "lookup d3 ?k \<noteq> None" if "\<not> found" "fst (ensure_write found now t d2) = Inr ()"
  proof (cases v)
    case (Inl e)
    then have "errors_is e ErrTenantExists"
      using that Pair by (auto simp: ensure_write_def split: if_splits)
    then have "lookup d2 ?k \<noteq> None"
      using Pair Inl by (auto simp: tenant_create_def db_put_new_def Let_def
          split: if_splits option.splits)
    then show ?thesis using keep by auto
  next
    case (Inr u)
    then show ?thesis using tenant_create_ok [of now t d2 d3 ?k] Pair by auto
  qed
  ultimately show ?thesis using assms keep by auto
qed

lemma ensure_tenant_interleaved_witness:
  "fst (ensure_write False 9 new_default_tenant (snd (ensure_tenant 5 new_default_tenant empty_db)))
     = Inr () \<and>
   lookup (snd (ensure_write False 9 new_default_tenant
       (snd (ensure_tenant 5 new_default_tenant empty_db)))) ''TENANT#default#CONFIG'' \<noteq> None"
proof -
  let ?d = "snd (ensure_tenant 5 new_default_tenant empty_db)"
  have "fst (ensure_write False 9 new_default_tenant ?d) = Inr ()" by code_simp
  moreover have "mkey (tenant_pk (t_slug new_default_tenant)) tenant_sk = ''TENANT#default#CONFIG''"
    by code_simp
  ultimately show ?thesis
    using ensure_tenant_interleaved [of False ?d new_default_tenant 9] by simp
qed

text \<open>Listing the tenants returns exactly the tenants that \<^verbatim>\<open>Get\<close> finds under their slug.\<close>

lemma tenant_list_exact:
  assumes "cfg_inv d" and "tenant_list d = Inr ts" and "\<forall>k. \<not> fault d (OpGet k)"
  shows "t \<in> set ts \<longleftrightarrow> no_hash (t_slug t) \<and> tenant_get (t_slug t) d = Inr t"
proof -
  obtain rs where rs: "db_scan ''TENANT#'' d = Inr rs"
    "ts = List.map_filter as_tenant (filter (\<lambda>r. r_sk r = tenant_sk) rs)"
    using assms(2) by (auto simp: tenant_list_def split: sum.splits)
  have "t \<in> set ts \<longleftrightarrow> (\<exists>r. lookup d (row_key r) = Some r \<and> has_prefix (r_pk r) ''TENANT#'' \<and>
      r_sk r = tenant_sk \<and> r_item r = TenantItem t)"
    using db_scan_set [OF cfg_inv_wf [OF assms(1)] rs(1)] rs(2)
    by (fastforce simp: set_map_filter_iff)
  also have "\<dots> \<longleftrightarrow> no_hash (t_slug t) \<and> tenant_get (t_slug t) d = Inr t"
  proof
    assume "\<exists>r. lookup d (row_key r) = Some r \<and> has_prefix (r_pk r) ''TENANT#'' \<and>
      r_sk r = tenant_sk \<and> r_item r = TenantItem t"
    then obtain r where r: "lookup d (row_key r) = Some r" "r_sk r = tenant_sk"
      "r_item r = TenantItem t" by blast
    then have ok: "cfg_row_ok r" using cfg_inv_row [OF assms(1)] by blast
    then have "r_pk r = tenant_pk (t_slug t)" "no_hash (t_slug t)"
      using r(3) by (simp_all add: cfg_row_ok_def)
    then show "no_hash (t_slug t) \<and> tenant_get (t_slug t) d = Inr t"
      using r assms(3) by (auto simp: tenant_get_Inr row_key_def)
  next
    assume a: "no_hash (t_slug t) \<and> tenant_get (t_slug t) d = Inr t"
    then obtain r where r: "lookup d (mkey (tenant_pk (t_slug t)) tenant_sk) = Some r"
      "r_item r = TenantItem t" by (auto simp: tenant_get_Inr)
    then have "r_pk r = tenant_pk (t_slug t) \<and> r_sk r = tenant_sk"
      using cfg_lookup_row [OF assms(1) r(1)] a by blast
    then show "\<exists>r. lookup d (row_key r) = Some r \<and> has_prefix (r_pk r) ''TENANT#'' \<and>
      r_sk r = tenant_sk \<and> r_item r = TenantItem t"
      using r by (auto simp: row_key_def tenant_pk_def intro!: exI [of _ r])
  qed
  finally show ?thesis .
qed

lemma tenant_list_exact_witness:
  "new_default_tenant\<lparr>t_created_at := 5, t_updated_at := 5\<rparr> \<in>
     set (case tenant_list (snd (tenant_create 5 new_default_tenant empty_db)) of
       Inr ts \<Rightarrow> ts | Inl _ \<Rightarrow> [])"
proof -
  let ?d = "snd (tenant_create 5 new_default_tenant empty_db)"
  let ?t = "new_default_tenant\<lparr>t_created_at := 5, t_updated_at := 5\<rparr>"
  have s: "no_hash (t_slug new_default_tenant)" by code_simp
  have l: "tenant_list ?d = Inr [?t]" by code_simp
  have "fault ?d = (\<lambda>_. False)"
    by (simp add: tenant_create_def db_put_new_def empty_db_def lookup_def Let_def)
  moreover have "tenant_get (t_slug ?t) ?d = Inr ?t" by code_simp
  moreover have "no_hash (t_slug ?t)" by code_simp
  ultimately show ?thesis
    using tenant_list_exact [OF tenant_create_inv [OF cfg_inv_empty s] l, of ?t] l by simp
qed

end
