(* ===== verification/ClaimStore.thy ===== *)
theory ClaimStore
  imports TenantStore
begin

text \<open>
  \<^verbatim>\<open>internal/store/claim_store.go\<close>: the claim and role mappings of an application, replaced as a
  whole. The two kinds share one contract, the locale \<open>mapping_kind\<close>.
\<close>

subsection \<open>Operations\<close>

text \<open>A query whose \<^verbatim>\<open>ErrNotFound\<close> counts as an empty result.\<close>

definition query_or_empty :: "string \<Rightarrow> string \<Rightarrow> 'i db \<Rightarrow> 'i row list res" where
  "query_or_empty pk skp d =
     (case db_query pk skp d of
        Inl e \<Rightarrow> if e = ErrNotFound then Inr [] else Inl e
      | Inr rs \<Rightarrow> Inr rs)"

text \<open>The loop that deletes the existing rows, errors discarded.\<close>

fun delete_rows :: "string \<Rightarrow> string \<Rightarrow> 'i row list \<Rightarrow> 'i db \<Rightarrow> 'i db" where
  "delete_rows pk prefix [] d = d"
| "delete_rows pk prefix (r # rs) d =
     delete_rows pk prefix rs
       (if has_prefix (r_sk r) prefix then best_effort (db_delete pk (r_sk r) d) else d)"

text \<open>The loop that writes the new rows and stops at the first error.\<close>

fun put_rows :: "string \<Rightarrow> 'i row list \<Rightarrow> 'i db \<Rightarrow> unit res \<times> 'i db" where
  "put_rows msg [] d = (Inr (), d)"
| "put_rows msg (r # rs) d =
     (case db_put r d of
        (Inl e, d') \<Rightarrow> (Inl (Wrap msg e), d')
      | (Inr _, d') \<Rightarrow> put_rows msg rs d')"

definition claim_row :: "string \<Rightarrow> string \<Rightarrow> claim_mapping \<Rightarrow> cfg_row" where
  "claim_row slug i m = cfg_row (tenant_pk slug) (claim_sk i (cm_name m)) (ClaimItem m)"

definition role_row :: "string \<Rightarrow> string \<Rightarrow> role_mapping \<Rightarrow> cfg_row" where
  "role_row slug i m = cfg_row (tenant_pk slug) (role_sk i (rm_cognito_group m)) (RoleItem m)"

definition put_claim_mappings ::
  "string \<Rightarrow> string \<Rightarrow> claim_mapping list \<Rightarrow> cfg_db \<Rightarrow> unit res \<times> cfg_db" where
  "put_claim_mappings slug i ms d =
     (let pk = tenant_pk slug; prefix = claim_prefix i in
      case query_or_empty pk prefix d of
        Inl e \<Rightarrow> (Inl (Wrap ''failed to query existing claim mappings'' e), d)
      | Inr existing \<Rightarrow>
          put_rows ''failed to put claim mapping'' (map (claim_row slug i) ms)
            (delete_rows pk prefix existing d))"

definition get_claim_mappings :: "string \<Rightarrow> string \<Rightarrow> cfg_db \<Rightarrow> claim_mapping list res" where
  "get_claim_mappings slug i d =
     (case query_or_empty (tenant_pk slug) (claim_prefix i) d of
        Inl e \<Rightarrow> Inl (Wrap ''failed to query claim mappings'' e)
      | Inr rows \<Rightarrow> Inr (List.map_filter as_claim rows))"

definition put_role_mappings ::
  "string \<Rightarrow> string \<Rightarrow> role_mapping list \<Rightarrow> cfg_db \<Rightarrow> unit res \<times> cfg_db" where
  "put_role_mappings slug i ms d =
     (let pk = tenant_pk slug; prefix = role_prefix i in
      case query_or_empty pk prefix d of
        Inl e \<Rightarrow> (Inl (Wrap ''failed to query existing role mappings'' e), d)
      | Inr existing \<Rightarrow>
          put_rows ''failed to put role mapping'' (map (role_row slug i) ms)
            (delete_rows pk prefix existing d))"

definition get_role_mappings :: "string \<Rightarrow> string \<Rightarrow> cfg_db \<Rightarrow> role_mapping list res" where
  "get_role_mappings slug i d =
     (case query_or_empty (tenant_pk slug) (role_prefix i) d of
        Inl e \<Rightarrow> Inl (Wrap ''failed to query role mappings'' e)
      | Inr rows \<Rightarrow> Inr (List.map_filter as_role rows))"

subsection \<open>The loops\<close>

lemma query_or_empty_Inr:
  "query_or_empty pk skp d = Inr rs \<longleftrightarrow> db_query pk skp d = Inr rs"
  by (auto simp: query_or_empty_def db_query_def)

lemma delete_rows_inv: "cfg_inv d \<Longrightarrow> cfg_inv (delete_rows pk p rs d)"
  by (induction pk p rs d rule: delete_rows.induct) (auto simp: best_effort_def cfg_inv_delete)

lemma delete_rows_fault [simp]: "fault (delete_rows pk p rs d) = fault d"
  by (induction pk p rs d rule: delete_rows.induct) (auto simp: best_effort_def)

lemma delete_rows_lookup:
  assumes "\<forall>k. \<not> fault d (OpDelete k)"
  shows "lookup (delete_rows pk p rs d) k =
    (if \<exists>r\<in>set rs. has_prefix (r_sk r) p \<and> k = mkey pk (r_sk r) then None else lookup d k)"
  using assms
  by (induction pk p rs d rule: delete_rows.induct) (auto simp: best_effort_def db_delete_lookup)

lemma delete_rows_keeps:
  "(\<forall>r\<in>set rs. has_prefix (r_sk r) p \<longrightarrow> k \<noteq> mkey pk (r_sk r)) \<Longrightarrow>
     lookup (delete_rows pk p rs d) k = lookup d k"
  by (induction pk p rs d rule: delete_rows.induct) (auto simp: best_effort_def db_delete_lookup)

lemma put_rows_inv:
  "put_rows msg rs d = (x, d') \<Longrightarrow> cfg_inv d \<Longrightarrow> (\<forall>r\<in>set rs. cfg_row_ok r) \<Longrightarrow> cfg_inv d'"
  by (induction msg rs d rule: put_rows.induct)
    (auto split: prod.splits sum.splits dest: cfg_inv_put_pair)

lemma put_rows_lookup:
  "put_rows msg rs d = (Inr (), d') \<Longrightarrow>
     lookup d' k = (case map_of (rev (map (\<lambda>r. (row_key r, r)) rs)) k of
        Some r \<Rightarrow> Some r | None \<Rightarrow> lookup d k)"
proof (induction msg rs d rule: put_rows.induct)
  case (2 msg r rs d)
  then obtain d1 where d1: "db_put r d = (Inr (), d1)" "put_rows msg rs d1 = (Inr (), d')"
    by (auto split: prod.splits sum.splits)
  then show ?case
    using 2 db_put_ok [OF d1(1), of k] by (auto simp: map_add_def split: option.splits)
qed simp

lemma put_rows_keeps:
  "put_rows msg rs d = (x, d') \<Longrightarrow> k \<notin> row_key ` set rs \<Longrightarrow> lookup d' k = lookup d k"
proof (induction msg rs d rule: put_rows.induct)
  case (2 msg r rs d)
  have "lookup (snd (db_put r d)) k = lookup d k"
    by (rule mem.put_keeps) (use 2 in auto)
  with 2 show ?case by (auto split: prod.splits sum.splits)
qed simp

lemma put_rows_fault [simp]: "fault (snd (put_rows msg rs d)) = fault d"
proof (induction msg rs d rule: put_rows.induct)
  case (2 msg r rs d)
  obtain x d1 where p: "db_put r d = (x, d1)" by (cases "db_put r d") auto
  then have "fault d1 = fault d" using db_put_fault [of r d] by simp
  with 2 p show ?case by (cases x) auto
qed simp

subsection \<open>The contract of a mapping kind\<close>

text \<open>
  A kind of mapping has a name, a row whose sort key is the prefix of the application followed by
  the name, and reading that row gives the mapping back; under the type invariant every row below
  the prefix is such a row.
\<close>

locale mapping_kind =
  fixes mrow :: "string \<Rightarrow> string \<Rightarrow> 'm \<Rightarrow> cfg_row"
    and mname :: "'m \<Rightarrow> string"
    and mprefix :: "string \<Rightarrow> string"
    and mread :: "cfg_row \<Rightarrow> 'm option"
  assumes mrow_pk: "r_pk (mrow slug i m) = tenant_pk slug"
    and mrow_sk: "r_sk (mrow slug i m) = mprefix i @ mname m"
    and mread_mrow: "mread (mrow slug i m) = Some m"
    and mrow_ok: "no_hash slug \<Longrightarrow> no_hash i \<Longrightarrow> cfg_row_ok (mrow slug i m)"
    and mprefix_ne: "mprefix i \<noteq> []"
begin

definition replace :: "string \<Rightarrow> string \<Rightarrow> string \<Rightarrow> cfg_row list \<Rightarrow> 'm list \<Rightarrow> cfg_db \<Rightarrow> unit res \<times> cfg_db" where
  "replace msg slug i existing ms d =
     put_rows msg (map (mrow slug i) ms) (delete_rows (tenant_pk slug) (mprefix i) existing d)"

lemma mrow_key: "row_key (mrow slug i m) = mkey (tenant_pk slug) (mprefix i @ mname m)"
  by (simp add: row_key_def mrow_pk mrow_sk)

lemma replace_inv:
  assumes "cfg_inv d" and "no_hash slug" and "no_hash i" and "replace msg slug i ex ms d = (x, d')"
  shows "cfg_inv d'"
  by (rule put_rows_inv [OF assms(4) [unfolded replace_def] delete_rows_inv [OF assms(1)]])
    (auto simp: mrow_ok assms)

text \<open>The mapping stored last under a name.\<close>

definition last_named :: "'m list \<Rightarrow> string \<Rightarrow> 'm option" where
  "last_named ms n = map_of (rev (map (\<lambda>m. (mname m, m)) ms)) n"

lemma map_of_rows:
  "map_of (rev (map (\<lambda>r. (row_key r, r)) (map (mrow slug i) ms)))
     (mkey (tenant_pk slug) (mprefix i @ n)) = map_option (mrow slug i) (last_named ms n)"
proof (induction ms)
  case (Cons m ms)
  show ?case
  proof (cases "last_named ms n")
    case None
    then show ?thesis
      using Cons by (simp add: last_named_def mrow_key mkey_same_inject map_add_def)
  next
    case (Some m')
    then show ?thesis
      using Cons by (simp add: last_named_def map_add_def)
  qed
qed (simp add: last_named_def)

lemma replace_lookup:
  assumes inv: "cfg_inv d" and s: "no_hash slug" and nf: "\<forall>k. \<not> fault d (OpDelete k)"
    and q: "db_query (tenant_pk slug) (mprefix i) d = Inr ex"
    and r: "replace msg slug i ex ms d = (Inr (), d')"
  shows "lookup d' (mkey (tenant_pk slug) (mprefix i @ n)) = map_option (mrow slug i) (last_named ms n)"
proof -
  let ?k = "mkey (tenant_pk slug) (mprefix i @ n)"
  let ?d1 = "delete_rows (tenant_pk slug) (mprefix i) ex d"
  have "lookup ?d1 ?k = None"
  proof (cases "lookup d ?k")
    case None
    then show ?thesis by (simp add: delete_rows_lookup [OF nf])
  next
    case (Some r)
    then have "r_pk r = tenant_pk slug" "r_sk r = mprefix i @ n" "cfg_row_ok r"
      using cfg_lookup_row [OF inv Some s] by auto
    moreover from this have "r \<in> set ex"
      using Some db_query_set [OF cfg_inv_wf [OF inv] q] s
      by (simp add: cfg_query_pk row_key_def mkey_def has_prefix_iff)
    ultimately show ?thesis by (auto simp: delete_rows_lookup [OF nf] intro!: bexI [of _ r])
  qed
  moreover have "put_rows msg (map (mrow slug i) ms) ?d1 = (Inr (), d')"
    using r by (simp add: replace_def)
  ultimately show ?thesis
    by (simp only: put_rows_lookup map_of_rows) (simp split: option.split)
qed

text \<open>After a replacement the query below the prefix reads exactly the new mappings.\<close>

lemma replace_query:
  assumes inv: "cfg_inv d" and s: "no_hash slug" "no_hash i" and nf: "\<forall>k. \<not> fault d (OpDelete k)"
    and q: "db_query (tenant_pk slug) (mprefix i) d = Inr ex"
    and r: "replace msg slug i ex ms d = (Inr (), d')"
    and q': "db_query (tenant_pk slug) (mprefix i) d' = Inr rows"
  shows "m \<in> set (List.map_filter mread rows) \<longleftrightarrow> last_named ms (mname m) = Some m"
proof -
  have inv': "cfg_inv d'" by (rule replace_inv [OF inv s r])
  note lk = replace_lookup [OF inv s(1) nf q r]
  have in_rows: "x \<in> set rows \<longleftrightarrow> (lookup d' (row_key x) = Some x \<and> r_pk x = tenant_pk slug \<and>
      (\<exists>n. r_sk x = mprefix i @ n))" for x
  proof -
    have ok: "lookup d' (row_key x) = Some x \<Longrightarrow> cfg_row_ok x"
      using cfg_inv_row [OF inv'] by blast
    show ?thesis
      using db_query_set [OF cfg_inv_wf [OF inv'] q', of x] cfg_query_pk [OF ok s(1)]
        has_prefix_iff [of "r_sk x" "mprefix i"] mprefix_ne [of i] by blast
  qed
  have named: "last_named ms n = Some m' \<Longrightarrow> mname m' = n" for n m'
    unfolding last_named_def by (auto dest!: map_of_SomeD)
  show ?thesis
  proof
    assume "m \<in> set (List.map_filter mread rows)"
    then obtain x n where x: "mread x = Some m" "lookup d' (row_key x) = Some x"
      "r_pk x = tenant_pk slug" "r_sk x = mprefix i @ n"
      by (auto simp: set_map_filter_iff in_rows)
    then have "map_option (mrow slug i) (last_named ms n) = Some x"
      using lk [of n] by (simp add: row_key_def)
    then obtain m' where "last_named ms n = Some m'" "x = mrow slug i m'" by auto
    then show "last_named ms (mname m) = Some m"
      using x named [of n m'] by (auto simp: mread_mrow)
  next
    assume "last_named ms (mname m) = Some m"
    then have "lookup d' (row_key (mrow slug i m)) = Some (mrow slug i m)"
      using lk [of "mname m"] by (simp add: mrow_key)
    then show "m \<in> set (List.map_filter mread rows)"
      by (auto simp: set_map_filter_iff in_rows mrow_pk mrow_sk mread_mrow
          intro!: bexI [of _ "mrow slug i m"])
  qed
qed

text \<open>A replacement touches no row outside its prefix.\<close>

lemma replace_keeps:
  assumes "replace msg slug i ex ms d = (x, d')"
    and "\<And>n. k \<noteq> mkey (tenant_pk slug) (mprefix i @ n)"
  shows "lookup d' k = lookup d k"
proof -
  have "k \<notin> row_key ` set (map (mrow slug i) ms)"
    using assms(2) unfolding set_map image_image mrow_key by blast
  then have "lookup d' k = lookup (delete_rows (tenant_pk slug) (mprefix i) ex d) k"
    using assms(1) put_rows_keeps unfolding replace_def by blast
  also have "\<dots> = lookup d k"
    by (rule delete_rows_keeps) (metis assms(2) has_prefix_iff)
  finally show ?thesis .
qed

end

lemma claim_row_ok: "no_hash slug \<Longrightarrow> no_hash i \<Longrightarrow> cfg_row_ok (claim_row slug i m)"
  by (simp add: claim_row_def cfg_row_ok_def row_slug_def tenant_pk_def item_ok_def)

lemma role_row_ok: "no_hash slug \<Longrightarrow> no_hash i \<Longrightarrow> cfg_row_ok (role_row slug i m)"
  by (simp add: role_row_def cfg_row_ok_def row_slug_def tenant_pk_def item_ok_def)

interpretation claim: mapping_kind claim_row cm_name claim_prefix as_claim
  by unfold_locales (simp_all add: claim_row_ok, simp_all add: claim_row_def sk_defs)

interpretation role: mapping_kind role_row rm_cognito_group role_prefix as_role
  by unfold_locales (simp_all add: role_row_ok, simp_all add: role_row_def sk_defs)

subsection \<open>The operations keep the invariant\<close>

lemma put_claim_mappings_replace:
  "put_claim_mappings slug i ms d =
     (case query_or_empty (tenant_pk slug) (claim_prefix i) d of
        Inl e \<Rightarrow> (Inl (Wrap ''failed to query existing claim mappings'' e), d)
      | Inr ex \<Rightarrow> claim.replace ''failed to put claim mapping'' slug i ex ms d)"
  by (simp add: put_claim_mappings_def claim.replace_def Let_def cong: sum.case_cong)

lemma put_role_mappings_replace:
  "put_role_mappings slug i ms d =
     (case query_or_empty (tenant_pk slug) (role_prefix i) d of
        Inl e \<Rightarrow> (Inl (Wrap ''failed to query existing role mappings'' e), d)
      | Inr ex \<Rightarrow> role.replace ''failed to put role mapping'' slug i ex ms d)"
  by (simp add: put_role_mappings_def role.replace_def Let_def cong: sum.case_cong)

lemma put_claim_mappings_inv:
  assumes "cfg_inv d" and "no_hash slug" and "no_hash i"
  shows "cfg_inv (snd (put_claim_mappings slug i ms d))"
  using assms claim.replace_inv [OF assms]
  by (auto simp: put_claim_mappings_replace split: sum.split) (metis prod.collapse)

lemma put_claim_mappings_fault [simp]: "fault (snd (put_claim_mappings slug i ms d)) = fault d"
  by (simp add: put_claim_mappings_def Let_def split: sum.split)

lemma put_role_mappings_inv:
  assumes "cfg_inv d" and "no_hash slug" and "no_hash i"
  shows "cfg_inv (snd (put_role_mappings slug i ms d))"
  using assms role.replace_inv [OF assms]
  by (auto simp: put_role_mappings_replace split: sum.split) (metis prod.collapse)

subsection \<open>Properties\<close>

text \<open>Replacing the claim mappings of an application works as a whole: when the call succeeds and
  no delete failed, reading gives exactly the new mappings (the last one per name), nothing of the
  old set, and the role mappings of the application are as before.\<close>

lemma put_claim_mappings_roundtrip:
  assumes "cfg_inv d" and "no_hash slug" and "no_hash i" and "\<forall>k. \<not> fault d (OpDelete k)"
    and "put_claim_mappings slug i ms d = (Inr (), d')"
    and "get_claim_mappings slug i d' = Inr ms'"
  shows "(m \<in> set ms' \<longleftrightarrow> map_of (rev (map (\<lambda>m. (cm_name m, m)) ms)) (cm_name m) = Some m) \<and>
    lookup d' (mkey (tenant_pk slug) (role_sk i g)) = lookup d (mkey (tenant_pk slug) (role_sk i g))"
proof -
  obtain ex where ex: "db_query (tenant_pk slug) (claim_prefix i) d = Inr ex"
    "claim.replace ''failed to put claim mapping'' slug i ex ms d = (Inr (), d')"
    using assms(5) by (auto simp: put_claim_mappings_replace query_or_empty_Inr split: sum.splits)
  obtain rows where rows: "db_query (tenant_pk slug) (claim_prefix i) d' = Inr rows"
    "ms' = List.map_filter as_claim rows"
    using assms(6) by (auto simp: get_claim_mappings_def query_or_empty_Inr split: sum.splits)
  have "m \<in> set ms' \<longleftrightarrow> claim.last_named ms (cm_name m) = Some m"
    using claim.replace_query [OF assms(1-4) ex rows(1)] rows(2) by simp
  moreover have "role_sk i g \<noteq> claim_prefix i @ n" for n
    by (simp add: sk_defs)
  then have "lookup d' (mkey (tenant_pk slug) (role_sk i g)) = lookup d (mkey (tenant_pk slug) (role_sk i g))"
    by (intro claim.replace_keeps [OF ex(2)]) (simp add: mkey_def)
  ultimately show ?thesis by (simp add: claim.last_named_def)
qed

definition sample_claim :: "string \<Rightarrow> string \<Rightarrow> claim_mapping" where
  "sample_claim n a = \<lparr>cm_name = n, cm_source_type = ''cognito'', cm_source_attribute = a,
     cm_target_attribute = n, cm_required = False, cm_default_value = []\<rparr>"

lemma put_claim_mappings_roundtrip_witness:
  "\<exists>d d' ms'. put_claim_mappings ''acme'' ''a1'' [sample_claim ''mail'' ''email''] d = (Inr (), d') \<and>
     get_claim_mappings ''acme'' ''a1'' d' = Inr ms' \<and>
     sample_claim ''mail'' ''email'' \<in> set ms' \<and> sample_claim ''old'' ''sub'' \<notin> set ms'"
proof -
  define d where "d = snd (put_claim_mappings ''acme'' ''a1'' [sample_claim ''old'' ''sub''] empty_db)"
  define d' where "d' = snd (put_claim_mappings ''acme'' ''a1'' [sample_claim ''mail'' ''email''] d)"
  have inv: "cfg_inv d" unfolding d_def by (rule put_claim_mappings_inv) simp_all
  have put: "put_claim_mappings ''acme'' ''a1'' [sample_claim ''mail'' ''email''] d = (Inr (), d')"
    unfolding prod_eq_iff d'_def d_def by (intro conjI) (code_simp, rule snd_conv [symmetric])
  have get: "get_claim_mappings ''acme'' ''a1'' d' = Inr [sample_claim ''mail'' ''email'']"
    unfolding d'_def d_def by code_simp
  have nf: "\<forall>k. \<not> fault d (OpDelete k)"
    unfolding d_def by (simp add: empty_db_def)
  have nh: "no_hash ''acme''" "no_hash ''a1''" by simp_all
  show ?thesis
    using put_claim_mappings_roundtrip [OF inv nh nf put get, of "sample_claim ''mail'' ''email''"]
      put_claim_mappings_roundtrip [OF inv nh nf put get, of "sample_claim ''old'' ''sub''"] put get
    by (intro exI [of _ d] exI [of _ d'] exI) (auto simp: sample_claim_def)
qed

end
