(* ===== verification/AppStore.thy ===== *)
theory AppStore
  imports ClaimStore
begin

text \<open>
  \<^verbatim>\<open>internal/store/app_store.go\<close>: applications with their SAML and OIDC settings, the marker rows
  that reserve an entity id within a tenant, and the two lookups through the secondary index.
  The invariant \<open>app_inv\<close> is the uniqueness boundary the marker rows enforce.
\<close>

subsection \<open>Operations\<close>

definition app_create ::
  "8 word list option \<Rightarrow> gotime \<Rightarrow> string \<Rightarrow> application \<Rightarrow> saml_config option \<Rightarrow> cfg_db
     \<Rightarrow> string res \<times> cfg_db" where
  "app_create rnd now slug app saml d =
     (case generate_id rnd of
        Inl e \<Rightarrow> (Inl e, d)
      | Inr i \<Rightarrow>
          let app' = app\<lparr>a_id := i, a_tenant_slug := slug, a_created_at := now,
                         a_updated_at := now\<rparr>;
              entity_id = (case saml of None \<Rightarrow> [] | Some c \<Rightarrow> sc_entity_id c);
              gsi1pk = (case saml of None \<Rightarrow> ''CLIENTID#'' @ i
                        | Some c \<Rightarrow> entity_gsi_pk slug entity_id);
              reserve = (case saml of
                 None \<Rightarrow> (Inr (), d)
               | Some c \<Rightarrow>
                   (case db_put_new (cfg_row (tenant_pk slug) (entity_unique_sk entity_id)
                                      (EntityUniqueItem entity_id i)) d of
                      (Inl e, d1) \<Rightarrow>
                        (if errors_is e ErrConditionFailed then (Inl (Wrap [] ErrDuplicateEntityID), d1)
                         else (Inl (Wrap ''failed to reserve entityID'' e), d1))
                    | (Inr _, d1) \<Rightarrow> (Inr (), d1)))
          in case reserve of
            (Inl e, d1) \<Rightarrow> (Inl e, d1)
          | (Inr _, d1) \<Rightarrow>
              (case db_put (app_row (tenant_pk slug) (app_sk i) gsi1pk (tenant_pk slug)
                              entity_id app') d1 of
                 (Inl e, d2) \<Rightarrow>
                   (Inl (Wrap ''failed to create application'' e),
                    (if saml \<noteq> None
                     then best_effort (db_delete (tenant_pk slug) (entity_unique_sk entity_id) d2)
                     else d2))
               | (Inr _, d2) \<Rightarrow>
                   (case saml of
                      None \<Rightarrow> (Inr i, d2)
                    | Some c \<Rightarrow>
                        (case db_put (cfg_row (tenant_pk slug) (app_saml_sk i) (SamlItem c)) d2 of
                           (Inl e, d3) \<Rightarrow> (Inl (Wrap ''failed to create SAML config'' e), d3)
                         | (Inr _, d3) \<Rightarrow> (Inr i, d3)))))"

definition app_get :: "string \<Rightarrow> string \<Rightarrow> cfg_db \<Rightarrow> application res" where
  "app_get slug i d =
     (case get_as as_app (tenant_pk slug) (app_sk i) d of
        Inl e \<Rightarrow> Inl (Wrap ''failed to get application'' e)
      | Inr a \<Rightarrow> Inr (a\<lparr>a_tenant_slug := slug\<rparr>))"

definition get_saml_config :: "string \<Rightarrow> string \<Rightarrow> cfg_db \<Rightarrow> saml_config res" where
  "get_saml_config slug i d =
     wrap_res ''failed to get SAML config'' (get_as as_saml (tenant_pk slug) (app_saml_sk i) d)"

definition get_oidc_config :: "string \<Rightarrow> string \<Rightarrow> cfg_db \<Rightarrow> oidc_config res" where
  "get_oidc_config slug i d =
     wrap_res ''failed to get OIDC config'' (get_as as_oidc (tenant_pk slug) (app_oidc_sk i) d)"

definition update_oidc_config :: "string \<Rightarrow> string \<Rightarrow> oidc_config \<Rightarrow> cfg_db \<Rightarrow> unit res \<times> cfg_db" where
  "update_oidc_config slug i cfg d =
     (case app_get slug i d of
        Inl e \<Rightarrow> (Inl (Wrap ''failed to get application for OIDC update'' e), d)
      | Inr _ \<Rightarrow>
          (case db_put (cfg_row (tenant_pk slug) (app_oidc_sk i) (OidcItem cfg)) d of
             (Inl e, d') \<Rightarrow> (Inl (Wrap ''failed to update OIDC config'' e), d')
           | (Inr _, d') \<Rightarrow> (Inr (), d')))"

text \<open>A query of the index whose \<^verbatim>\<open>ErrNotFound\<close> counts as an empty result.\<close>

definition gsi_or_empty :: "string \<Rightarrow> 'i db \<Rightarrow> 'i row list res" where
  "gsi_or_empty g d =
     (case db_query_gsi g d of
        Inl e \<Rightarrow> if e = ErrNotFound then Inr [] else Inl e
      | Inr rs \<Rightarrow> Inr rs)"

definition row_app_id :: "cfg_row \<Rightarrow> string" where
  "row_app_id r = (case as_app r of None \<Rightarrow> [] | Some a \<Rightarrow> a_id a)"

definition get_by_tenant_entity_id ::
  "string \<Rightarrow> string \<Rightarrow> cfg_db \<Rightarrow> (application \<times> saml_config option) res" where
  "get_by_tenant_entity_id slug entity_id d =
     (case gsi_or_empty (entity_gsi_pk slug entity_id) d of
        Inl e \<Rightarrow> Inl (Wrap ''failed to query by entity ID'' e)
      | Inr [] \<Rightarrow> Inl ErrNotFound
      | Inr (r # _) \<Rightarrow>
          if r_gsi1sk r \<noteq> tenant_pk slug then Inl (ErrMsg ''GSI tenant mismatch'')
          else if row_app_id r = [] then Inl (ErrMsg ''missing app ID in GSI result'')
          else case app_get slug (row_app_id r) d of
              Inl e \<Rightarrow> Inl (Wrap ''failed to load application after GSI lookup'' e)
            | Inr app \<Rightarrow>
                Inr (app, (case get_saml_config slug (row_app_id r) d of
                             Inl _ \<Rightarrow> None | Inr c \<Rightarrow> Some c)))"

definition get_by_client_id ::
  "string \<Rightarrow> cfg_db \<Rightarrow> (string \<times> application \<times> oidc_config option) res" where
  "get_by_client_id cid d =
     (case gsi_or_empty (''CLIENTID#'' @ cid) d of
        Inl e \<Rightarrow> Inl (Wrap ''failed to query by client ID'' e)
      | Inr [] \<Rightarrow> Inl ErrNotFound
      | Inr (r # _) \<Rightarrow>
          if \<not> has_prefix (r_gsi1sk r) ''TENANT#'' then Inl (ErrMsg ''invalid GSI1SK format'')
          else let slug = drop 7 (r_gsi1sk r) in
            if row_app_id r = [] then Inl (ErrMsg ''missing app ID in GSI result'')
            else case app_get slug (row_app_id r) d of
                Inl e \<Rightarrow> Inl (Wrap ''failed to load application after GSI lookup'' e)
              | Inr app \<Rightarrow>
                  Inr (slug, app, (case get_oidc_config slug (row_app_id r) d of
                                     Inl _ \<Rightarrow> None | Inr c \<Rightarrow> Some c)))"

definition app_list :: "string \<Rightarrow> cfg_db \<Rightarrow> application list res" where
  "app_list slug d =
     (case db_query (tenant_pk slug) ''APP#'' d of
        Inl e \<Rightarrow> Inl (Wrap ''failed to list applications'' e)
      | Inr rows \<Rightarrow>
          Inr (map (\<lambda>a. a\<lparr>a_tenant_slug := slug\<rparr>)
            (List.map_filter as_app
              (filter (\<lambda>r. CHR ''#'' \<notin> set (trim_prefix (r_sk r) ''APP#'')) rows))))"

definition app_update :: "gotime \<Rightarrow> string \<Rightarrow> application \<Rightarrow> cfg_db \<Rightarrow> unit res \<times> cfg_db" where
  "app_update now slug app d =
     (if a_id app = [] then (Inl (ErrMsg ''application ID is required for update''), d)
      else case app_get slug (a_id app) d of
        Inl e \<Rightarrow> (Inl (Wrap ''failed to get existing application'' e), d)
      | Inr existing \<Rightarrow>
          let app' = app\<lparr>a_tenant_slug := slug, a_created_at := a_created_at existing,
                         a_updated_at := now\<rparr> in
          case db_get (tenant_pk slug) (app_sk (a_id app)) d of
            Inl e \<Rightarrow> (Inl (Wrap ''failed to reload application for update'' e), d)
          | Inr raw \<Rightarrow>
              (case r_item raw of
                 AppItem eid _ \<Rightarrow>
                   (case db_put (raw\<lparr>r_pk := tenant_pk slug, r_sk := app_sk (a_id app),
                                     r_item := AppItem eid app'\<rparr>) d of
                      (Inl e, d') \<Rightarrow> (Inl (Wrap ''failed to update application'' e), d')
                    | (Inr _, d') \<Rightarrow> (Inr (), d'))
               | _ \<Rightarrow> (Inl wrong_kind, d)))"

definition update_saml_config :: "string \<Rightarrow> string \<Rightarrow> saml_config \<Rightarrow> cfg_db \<Rightarrow> unit res \<times> cfg_db" where
  "update_saml_config slug i cfg d =
     (case app_get slug i d of
        Inl e \<Rightarrow> (Inl (Wrap ''failed to get application for SAML update'' e), d)
      | Inr _ \<Rightarrow>
        (case db_get (tenant_pk slug) (app_sk i) d of
           Inl e \<Rightarrow> (Inl (Wrap ''failed to reload application for SAML update'' e), d)
         | Inr raw \<Rightarrow>
           (case r_item raw of
              AppItem old_eid app \<Rightarrow>
                let new_eid = sc_entity_id cfg;
                    reserve =
                      (if new_eid \<noteq> old_eid then
                         (case db_put_new (cfg_row (tenant_pk slug) (entity_unique_sk new_eid)
                                            (EntityUniqueItem new_eid i)) d of
                            (Inl e, d1) \<Rightarrow>
                              (if errors_is e ErrConditionFailed
                               then (Inl (Wrap [] ErrDuplicateEntityID), d1)
                               else (Inl (Wrap ''failed to reserve entityID'' e), d1))
                          | (Inr _, d1) \<Rightarrow> (Inr (), d1))
                       else (Inr (), d))
                in case reserve of
                  (Inl e, d1) \<Rightarrow> (Inl e, d1)
                | (Inr _, d1) \<Rightarrow>
                    (case db_put (cfg_row (tenant_pk slug) (app_saml_sk i) (SamlItem cfg)) d1 of
                       (Inl e, d2) \<Rightarrow>
                         (Inl (Wrap ''failed to update SAML config'' e),
                          (if new_eid \<noteq> old_eid
                           then best_effort (db_delete (tenant_pk slug) (entity_unique_sk new_eid) d2)
                           else d2))
                     | (Inr _, d2) \<Rightarrow>
                         (case db_put (raw\<lparr>r_gsi1pk := Some (entity_gsi_pk slug new_eid),
                                           r_item := AppItem new_eid app\<rparr>) d2 of
                            (Inl e, d3) \<Rightarrow>
                              (Inl (Wrap ''failed to update application GSI keys'' e), d3)
                          | (Inr _, d3) \<Rightarrow>
                              (Inr (),
                               (if old_eid \<noteq> [] \<and> new_eid \<noteq> old_eid
                                then best_effort (db_delete (tenant_pk slug) (entity_unique_sk old_eid) d3)
                                else d3))))
            | _ \<Rightarrow> (Inl wrong_kind, d))))"

definition app_delete :: "string \<Rightarrow> string \<Rightarrow> cfg_db \<Rightarrow> unit res \<times> cfg_db" where
  "app_delete slug i d =
     (case db_get (tenant_pk slug) (app_sk i) d of
        Inl e \<Rightarrow> (Inl (Wrap ''failed to get application for deletion'' e), d)
      | Inr raw \<Rightarrow>
          (case r_item raw of
             AppItem eid _ \<Rightarrow>
               (case db_delete (tenant_pk slug) (app_sk i) d of
                  (Inl e, d1) \<Rightarrow> (Inl (Wrap ''failed to delete application'' e), d1)
                | (Inr _, d1) \<Rightarrow>
                    let d2 = best_effort (db_delete (tenant_pk slug) (app_saml_sk i) d1);
                        d3 = best_effort (db_delete (tenant_pk slug) (app_oidc_sk i) d2)
                    in (Inr (),
                        (if eid \<noteq> []
                         then best_effort (db_delete (tenant_pk slug) (entity_unique_sk eid) d3)
                         else d3)))
           | _ \<Rightarrow> (Inl wrong_kind, d)))"

definition app_set_status :: "gotime \<Rightarrow> string \<Rightarrow> string \<Rightarrow> string \<Rightarrow> cfg_db \<Rightarrow> unit res \<times> cfg_db" where
  "app_set_status now slug i status d =
     (case app_get slug i d of
        Inl e \<Rightarrow> (Inl e, d)
      | Inr app \<Rightarrow> app_update now slug (app\<lparr>a_status := status\<rparr>) d)"

subsection \<open>The uniqueness invariant\<close>

text \<open>
  Every application row is indexed under its own tenant, and a row that declares an entity id owns
  the marker of the pair: the marker's key determines the pair, its body the application.
\<close>

definition owns_marker :: "cfg_db \<Rightarrow> string \<Rightarrow> string \<Rightarrow> string \<Rightarrow> bool" where
  "owns_marker d pk e i \<longleftrightarrow>
     (\<exists>m. lookup d (mkey pk (entity_unique_sk e)) = Some m \<and> r_item m = EntityUniqueItem e i)"

definition gsi_ok :: "cfg_row \<Rightarrow> string \<Rightarrow> string \<Rightarrow> bool" where
  "gsi_ok r e i \<longleftrightarrow> r_gsi1sk r = r_pk r \<and>
     (r_gsi1pk r = Some (entity_gsi_pk (row_slug r) e) \<or>
      (e = [] \<and> r_gsi1pk r = Some (''CLIENTID#'' @ i)))"

definition app_inv :: "cfg_db \<Rightarrow> bool" where
  "app_inv d \<longleftrightarrow>
     (\<forall>k r e a. lookup d k = Some r \<longrightarrow> r_item r = AppItem e a \<longrightarrow>
        gsi_ok r e (a_id a) \<and> (e \<noteq> [] \<longrightarrow> owns_marker d (r_pk r) e (a_id a)))"

definition store_inv :: "cfg_db \<Rightarrow> bool" where
  "store_inv d \<longleftrightarrow> cfg_inv d \<and> app_inv d"

definition app_uses :: "cfg_db \<Rightarrow> string \<Rightarrow> string \<Rightarrow> bool" where
  "app_uses d slug e \<longleftrightarrow>
     (\<exists>k r a. lookup d k = Some r \<and> r_pk r = tenant_pk slug \<and> r_item r = AppItem e a)"

lemma app_invD:
  "app_inv d \<Longrightarrow> lookup d k = Some r \<Longrightarrow> r_item r = AppItem e a \<Longrightarrow>
     gsi_ok r e (a_id a) \<and> (e \<noteq> [] \<longrightarrow> owns_marker d (r_pk r) e (a_id a))"
  by (auto simp: app_inv_def)

lemma store_inv_empty [simp]: "store_inv empty_db"
  by (simp add: store_inv_def app_inv_def)

lemma app_row_at:
  assumes "cfg_inv d" and "lookup d k = Some r" and "r_item r = AppItem e a"
  shows "k = mkey (tenant_pk (row_slug r)) (app_sk (a_id a)) \<and> r_pk r = tenant_pk (row_slug r) \<and>
    no_hash (row_slug r) \<and> no_hash (a_id a) \<and> a_id a \<noteq> []"
  using cfg_inv_row [OF assms(1,2)] assms(3)
  by (simp add: cfg_row_ok_def item_ok_def row_key_def)

text \<open>Within a tenant an entity id belongs to at most one application.\<close>

lemma entity_unique:
  assumes "store_inv d"
    and "lookup d k = Some r" "r_item r = AppItem e a"
    and "lookup d k' = Some r'" "r_item r' = AppItem e a'"
    and "r_pk r = r_pk r'" and "e \<noteq> []"
  shows "k = k' \<and> r = r'"
proof -
  have inv: "cfg_inv d" "app_inv d" using assms(1) by (simp_all add: store_inv_def)
  have "a_id a = a_id a'"
    using app_invD [OF inv(2) assms(2,3)] app_invD [OF inv(2) assms(4,5)] assms(6,7)
    by (auto simp: owns_marker_def)
  then have "k = k'"
    using app_row_at [OF inv(1) assms(2,3)] app_row_at [OF inv(1) assms(4,5)] assms(6)
    by (metis tenant_pk_inject)
  with assms(2,4) show ?thesis by simp
qed

lemma free_marker_unused:
  assumes "store_inv d" and "lookup d (mkey (tenant_pk slug) (entity_unique_sk e)) = None"
    and "e \<noteq> []"
  shows "\<not> app_uses d slug e"
  using assms by (auto simp: store_inv_def app_uses_def owns_marker_def dest!: app_invD)

subsubsection \<open>Writes that keep it\<close>

lemma put_marker_inv:
  assumes "store_inv d" and "no_hash slug"
    and "db_put_new (cfg_row (tenant_pk slug) (entity_unique_sk e) (EntityUniqueItem e i)) d = (x, d')"
  shows "store_inv d'"
proof (cases x)
  case (Inl err)
  with assms show ?thesis by (auto dest: db_put_new_err)
next
  case (Inr u)
  let ?r = "cfg_row (tenant_pk slug) (entity_unique_sk e) (EntityUniqueItem e i)"
  have inv: "cfg_inv d" "app_inv d" using assms(1) by (simp_all add: store_inv_def)
  have ok: "cfg_row_ok ?r" using assms(2)
    by (simp add: cfg_row_ok_def row_slug_def tenant_pk_def item_ok_def)
  have lk: "lookup d (row_key ?r) = None" "lookup d' k = (if k = row_key ?r then Some ?r else lookup d k)"
    for k using db_put_new_ok [of ?r d d' k] assms(3) Inr by auto
  have "app_inv d'" unfolding app_inv_def
  proof (intro allI impI)
    fix k r e' a assume a: "lookup d' k = Some r" "r_item r = AppItem e' a"
    then have "lookup d k = Some r" by (auto simp: lk(2) split: if_splits)
    from app_invD [OF inv(2) this a(2)] show "gsi_ok r e' (a_id a) \<and>
        (e' \<noteq> [] \<longrightarrow> owns_marker d' (r_pk r) e' (a_id a))"
      using lk by (auto simp: owns_marker_def)
  qed
  then show ?thesis using cfg_inv_put_new_pair [OF inv(1) ok assms(3)] by (simp add: store_inv_def)
qed

lemma put_app_inv:
  assumes "store_inv d" and "no_hash slug" "no_hash (a_id a)" "a_id a \<noteq> []"
    and r: "r_pk r = tenant_pk slug" "r_sk r = app_sk (a_id a)" "r_item r = AppItem e a"
    and "gsi_ok r e (a_id a)" and "e \<noteq> [] \<Longrightarrow> owns_marker d (tenant_pk slug) e (a_id a)"
    and "db_put r d = (x, d')"
  shows "store_inv d'"
proof (cases x)
  case (Inl err)
  with assms show ?thesis by (auto dest: db_put_err)
next
  case (Inr u)
  have inv: "cfg_inv d" "app_inv d" using assms(1) by (simp_all add: store_inv_def)
  have slug: "row_slug r = slug" using r(1) by (simp add: row_slug_def tenant_pk_def)
  have ok: "cfg_row_ok r" using assms slug by (simp add: cfg_row_ok_def item_ok_def)
  have lk: "lookup d' k = (if k = row_key r then Some r else lookup d k)" for k
    using db_put_ok [of r d d' k] assms(10) Inr by auto
  have keep: "owns_marker d' pk' e' i'" if "owns_marker d pk' e' i'" "pk' = tenant_pk s" "no_hash s"
    for pk' e' i' s
    using that assms(2) r lk by (auto simp: owns_marker_def row_key_def mkey_tenant_inject key_simps)
  have "app_inv d'" unfolding app_inv_def
  proof (intro allI impI)
    fix k r' e' a' assume a: "lookup d' k = Some r'" "r_item r' = AppItem e' a'"
    show "gsi_ok r' e' (a_id a') \<and> (e' \<noteq> [] \<longrightarrow> owns_marker d' (r_pk r') e' (a_id a'))"
    proof (cases "k = row_key r")
      case True
      then have "r' = r" using a lk by simp
      then show ?thesis using assms a keep r by auto
    next
      case False
      then have d: "lookup d k = Some r'" using a lk by simp
      show ?thesis
        using app_invD [OF inv(2) d a(2)] app_row_at [OF inv(1) d a(2)] keep by blast
    qed
  qed
  then show ?thesis using cfg_inv_put_pair [OF inv(1) ok assms(10)] by (simp add: store_inv_def)
qed

text \<open>A change at a key that holds neither an application nor a marker, before or after.\<close>

definition neutral :: "cfg_row option \<Rightarrow> bool" where
  "neutral ro \<longleftrightarrow>
     (case ro of None \<Rightarrow> True
      | Some r \<Rightarrow> (\<forall>e a. r_item r \<noteq> AppItem e a) \<and> (\<forall>e i. r_item r \<noteq> EntityUniqueItem e i))"

lemma app_inv_frame:
  assumes "app_inv d" and "\<And>k. lookup d' k = lookup d k \<or> (neutral (lookup d k) \<and> neutral (lookup d' k))"
  shows "app_inv d'"
  unfolding app_inv_def
proof (intro allI impI)
  fix k r e a assume a: "lookup d' k = Some r" "r_item r = AppItem e a"
  then have "lookup d k = Some r" using assms(2) [of k] by (auto simp: neutral_def)
  from app_invD [OF assms(1) this a(2)] show "gsi_ok r e (a_id a) \<and>
      (e \<noteq> [] \<longrightarrow> owns_marker d' (r_pk r) e (a_id a))"
    using assms(2) [of "mkey (r_pk r) (entity_unique_sk e)"] by (auto simp: owns_marker_def neutral_def)
qed

text \<open>The sort keys under which neither kind can stand.\<close>

definition neutral_sk :: "string \<Rightarrow> bool" where
  "neutral_sk sk \<longleftrightarrow> sk \<noteq> entity_unique_sk (drop 13 sk) \<and> (\<forall>i. no_hash i \<longrightarrow> sk \<noteq> app_sk i)"

lemma neutral_at:
  assumes "cfg_inv d" and "no_hash slug" and "neutral_sk sk"
  shows "neutral (lookup d (mkey (tenant_pk slug) sk))"
proof (cases "lookup d (mkey (tenant_pk slug) sk)")
  case (Some r)
  then have "cfg_row_ok r" "r_sk r = sk" using cfg_lookup_row [OF assms(1) Some assms(2)] by auto
  then show ?thesis using assms(3) Some
    by (auto simp: neutral_def cfg_row_ok_def item_ok_def neutral_sk_def entity_unique_sk_def
        split: cfg_item.splits)
qed (simp add: neutral_def)

lemma neutral_sks [simp]:
  "neutral_sk tenant_sk" "neutral_sk (source_sk i)" "neutral_sk (app_saml_sk i)"
  "neutral_sk (app_oidc_sk i)" "neutral_sk (claim_prefix i @ n)" "neutral_sk (role_prefix i @ n)"
  by (auto simp: neutral_sk_def sk_defs)

lemma put_neutral_inv:
  assumes "store_inv d" and "no_hash slug" and "neutral_sk (r_sk r)" and "r_pk r = tenant_pk slug"
    and "cfg_row_ok r" and "db_put r d = (x, d')"
  shows "store_inv d'"
proof -
  have inv: "cfg_inv d" "app_inv d" using assms(1) by (simp_all add: store_inv_def)
  have inv': "cfg_inv d'" by (rule cfg_inv_put_pair [OF inv(1) assms(5,6)])
  have "app_inv d'"
  proof (rule app_inv_frame [OF inv(2)])
    fix k
    show "lookup d' k = lookup d k \<or> (neutral (lookup d k) \<and> neutral (lookup d' k))"
      using mem.put_keeps [of k r d] assms(4,6) neutral_at [OF inv(1) assms(2,3)]
        neutral_at [OF inv' assms(2,3)]
      by (cases "k = row_key r") (auto simp: row_key_def)
  qed
  with inv' show ?thesis by (simp add: store_inv_def)
qed

lemma delete_neutral_inv:
  assumes "store_inv d" and "no_hash slug" and "neutral_sk sk"
  shows "store_inv (snd (db_delete (tenant_pk slug) sk d))"
proof -
  have inv: "cfg_inv d" "app_inv d" using assms(1) by (simp_all add: store_inv_def)
  have "app_inv (snd (db_delete (tenant_pk slug) sk d))"
    by (rule app_inv_frame [OF inv(2)])
      (use neutral_at [OF inv(1) assms(2,3)] in \<open>auto simp: db_delete_lookup neutral_def\<close>)
  with inv(1) show ?thesis by (simp add: store_inv_def cfg_inv_delete)
qed

lemma delete_app_inv:
  assumes "store_inv d" and "no_hash slug" and "no_hash i"
  shows "store_inv (snd (db_delete (tenant_pk slug) (app_sk i) d))"
proof -
  have inv: "cfg_inv d" "app_inv d" using assms(1) by (simp_all add: store_inv_def)
  have "app_inv (snd (db_delete (tenant_pk slug) (app_sk i) d))" (is "app_inv ?d'") unfolding app_inv_def
  proof (intro allI impI)
    fix k r e a assume a: "lookup ?d' k = Some r" "r_item r = AppItem e a"
    then have d: "lookup d k = Some r" by (auto simp: db_delete_lookup split: if_splits)
    have "owns_marker ?d' (r_pk r) e (a_id a)" if "owns_marker d (r_pk r) e (a_id a)"
      using that app_row_at [OF inv(1) d a(2)] assms(2)
      by (auto simp: owns_marker_def db_delete_lookup)
        (metis mkey_tenant_inject sk_distinct(14))
    then show "gsi_ok r e (a_id a) \<and> (e \<noteq> [] \<longrightarrow> owns_marker ?d' (r_pk r) e (a_id a))"
      using app_invD [OF inv(2) d a(2)] by blast
  qed
  with inv(1) show ?thesis by (simp add: store_inv_def cfg_inv_delete)
qed

lemma delete_marker_inv:
  assumes "store_inv d" and "no_hash slug" and "e \<noteq> [] \<Longrightarrow> \<not> app_uses d slug e"
  shows "store_inv (snd (db_delete (tenant_pk slug) (entity_unique_sk e) d))"
proof -
  have inv: "cfg_inv d" "app_inv d" using assms(1) by (simp_all add: store_inv_def)
  have "app_inv (snd (db_delete (tenant_pk slug) (entity_unique_sk e) d))" (is "app_inv ?d'")
    unfolding app_inv_def
  proof (intro allI impI)
    fix k r e' a assume a: "lookup ?d' k = Some r" "r_item r = AppItem e' a"
    then have d: "lookup d k = Some r" by (auto simp: db_delete_lookup split: if_splits)
    have at: "r_pk r = tenant_pk (row_slug r)" "no_hash (row_slug r)"
      using app_row_at [OF inv(1) d a(2)] by auto
    have "mkey (r_pk r) (entity_unique_sk e') \<noteq> mkey (tenant_pk slug) (entity_unique_sk e)" if "e' \<noteq> []"
    proof
      assume "mkey (r_pk r) (entity_unique_sk e') = mkey (tenant_pk slug) (entity_unique_sk e)"
      then have "row_slug r = slug" "e' = e"
        using at assms(2) mkey_tenant_inject [of "row_slug r" slug] by (auto simp: sk_inject)
      then show False using assms(3) that d a(2) at by (auto simp: app_uses_def)
    qed
    then show "gsi_ok r e' (a_id a) \<and> (e' \<noteq> [] \<longrightarrow> owns_marker ?d' (r_pk r) e' (a_id a))"
      using app_invD [OF inv(2) d a(2)] by (auto simp: owns_marker_def db_delete_lookup)
  qed
  with inv(1) show ?thesis by (simp add: store_inv_def cfg_inv_delete)
qed

subsubsection \<open>The operations keep it\<close>

definition rnd_ok :: "8 word list option \<Rightarrow> bool" where
  "rnd_ok rnd \<longleftrightarrow> (case rnd of None \<Rightarrow> True | Some bs \<Rightarrow> length bs = 16)"

lemma generate_id_ok:
  "generate_id rnd = Inr i \<Longrightarrow> rnd_ok rnd \<Longrightarrow> no_hash i \<and> i \<noteq> []"
  using generate_id_no_hash [of rnd i]
  by (cases rnd) (auto simp: rnd_ok_def dest: generate_id_length, simp add: generate_id_def)

lemma gsi_ok_app_row [simp]:
  "gsi_ok (app_row (tenant_pk slug) sk g h e a) e i \<longleftrightarrow> h = tenant_pk slug \<and>
     (g = entity_gsi_pk slug e \<or> (e = [] \<and> g = ''CLIENTID#'' @ i))"
  by (auto simp: gsi_ok_def row_slug_def tenant_pk_def)

lemma saml_row_ok:
  "no_hash slug \<Longrightarrow> no_hash i \<Longrightarrow> cfg_row_ok (cfg_row (tenant_pk slug) (app_saml_sk i) (SamlItem c))"
  by (simp add: cfg_row_ok_def row_slug_def tenant_pk_def item_ok_def)

lemma oidc_row_ok:
  "no_hash slug \<Longrightarrow> no_hash i \<Longrightarrow> cfg_row_ok (cfg_row (tenant_pk slug) (app_oidc_sk i) (OidcItem c))"
  by (simp add: cfg_row_ok_def row_slug_def tenant_pk_def item_ok_def)

lemma put_saml_inv:
  "store_inv d \<Longrightarrow> no_hash slug \<Longrightarrow> no_hash i \<Longrightarrow>
     db_put (cfg_row (tenant_pk slug) (app_saml_sk i) (SamlItem c)) d = (x, d') \<Longrightarrow> store_inv d'"
  by (rule put_neutral_inv [of d slug]) (simp_all add: saml_row_ok)

lemma put_oidc_inv:
  "store_inv d \<Longrightarrow> no_hash slug \<Longrightarrow> no_hash i \<Longrightarrow>
     db_put (cfg_row (tenant_pk slug) (app_oidc_sk i) (OidcItem c)) d = (x, d') \<Longrightarrow> store_inv d'"
  by (rule put_neutral_inv [of d slug]) (simp_all add: oidc_row_ok)

text \<open>A marker that was just reserved is owned, and nothing else uses its entity id yet.\<close>

lemma reserved_marker:
  assumes "store_inv d" and "no_hash slug"
    and "db_put_new (cfg_row (tenant_pk slug) (entity_unique_sk e) (EntityUniqueItem e i)) d = (Inr (), d')"
  shows "owns_marker d' (tenant_pk slug) e i \<and> (e \<noteq> [] \<longrightarrow> \<not> app_uses d' slug e)"
proof -
  let ?r = "cfg_row (tenant_pk slug) (entity_unique_sk e) (EntityUniqueItem e i)"
  have lk: "lookup d (row_key ?r) = None" "lookup d' k = (if k = row_key ?r then Some ?r else lookup d k)"
    for k using db_put_new_ok [OF assms(3)] by auto
  have "app_uses d' slug e \<Longrightarrow> app_uses d slug e"
    by (auto simp: app_uses_def lk(2) split: if_splits)
  then show ?thesis
    using free_marker_unused [OF assms(1), of slug e] lk by (auto simp: owns_marker_def)
qed

lemma app_create_inv:
  assumes inv: "store_inv d" and slug: "no_hash slug" and rnd: "rnd_ok rnd"
  shows "store_inv (snd (app_create rnd now slug app saml d))"
proof (cases "generate_id rnd")
  case (Inr i)
  note i = generate_id_ok [OF Inr rnd]
  let ?a = "app\<lparr>a_id := i, a_tenant_slug := slug, a_created_at := now, a_updated_at := now\<rparr>"
  show ?thesis
  proof (cases saml)
    case None
    obtain x d' where p: "db_put (app_row (tenant_pk slug) (app_sk i) (''CLIENTID#'' @ i)
        (tenant_pk slug) [] ?a) d = (x, d')" by (cases "db_put (app_row (tenant_pk slug) (app_sk i)
        (''CLIENTID#'' @ i) (tenant_pk slug) [] ?a) d") auto
    have "store_inv d'" by (rule put_app_inv [OF inv slug _ _ _ _ _ _ _ p]) (use i in auto)
    then show ?thesis using p None Inr
      by (cases x) (simp_all add: app_create_def)
  next
    case (Some c)
    let ?e = "sc_entity_id c"
    let ?m = "cfg_row (tenant_pk slug) (entity_unique_sk ?e) (EntityUniqueItem ?e i)"
    let ?r = "app_row (tenant_pk slug) (app_sk i) (entity_gsi_pk slug ?e) (tenant_pk slug) ?e ?a"
    obtain x d1 where p1: "db_put_new ?m d = (x, d1)" by (cases "db_put_new ?m d") auto
    have inv1: "store_inv d1" by (rule put_marker_inv [OF inv slug p1])
    show ?thesis
    proof (cases x)
      case (Inl e)
      then show ?thesis using inv1 p1 Some Inr by (simp add: app_create_def)
    next
      case (Inr u)
      then have own: "owns_marker d1 (tenant_pk slug) ?e i" "?e \<noteq> [] \<longrightarrow> \<not> app_uses d1 slug ?e"
        using reserved_marker [OF inv slug, of ?e i d1] p1 by auto
      obtain y d2 where p2: "db_put ?r d1 = (y, d2)" by (cases "db_put ?r d1") auto
      have inv2: "store_inv d2"
        by (rule put_app_inv [OF inv1 slug _ _ _ _ _ _ _ p2]) (use i own in auto)
      obtain z d3 where p3: "db_put (cfg_row (tenant_pk slug) (app_saml_sk i) (SamlItem c)) d2 = (z, d3)"
        by (cases "db_put (cfg_row (tenant_pk slug) (app_saml_sk i) (SamlItem c)) d2") auto
      have inv3: "store_inv d3" by (rule put_saml_inv [OF inv2 slug conjunct1 [OF i] p3])
      have rollback: "store_inv (snd (db_delete (tenant_pk slug) (entity_unique_sk ?e) d2))"
        if "y = Inl e" for e
        by (rule delete_marker_inv [OF inv2 slug]) (use own p2 that in \<open>auto dest: db_put_err\<close>)
      show ?thesis
        using p1 p2 p3 inv2 inv3 rollback Inr \<open>saml = Some c\<close> \<open>generate_id rnd = Inr i\<close>
        by (cases y; cases z) (simp_all add: app_create_def best_effort_def)
    qed
  qed
qed (simp add: app_create_def inv)

lemma app_get_row:
  assumes "cfg_inv d" and "no_hash slug" and "app_get slug i d = Inr a"
  shows "\<exists>r e a0. lookup d (mkey (tenant_pk slug) (app_sk i)) = Some r \<and> r_item r = AppItem e a0 \<and>
    a = a0\<lparr>a_tenant_slug := slug\<rparr> \<and> a_id a0 = i \<and> r_pk r = tenant_pk slug \<and> r_sk r = app_sk i \<and>
    no_hash i \<and> i \<noteq> []"
proof -
  obtain r e a0 where r: "lookup d (mkey (tenant_pk slug) (app_sk i)) = Some r"
    "r_item r = AppItem e a0" "a = a0\<lparr>a_tenant_slug := slug\<rparr>"
    using assms(3) by (auto simp: app_get_def get_as_Inr split: sum.splits)
  then show ?thesis
    using cfg_lookup_row [OF assms(1) r(1) assms(2)]
    by (auto simp: cfg_row_ok_def item_ok_def sk_inject)
qed

lemma app_update_inv:
  assumes inv: "store_inv d" and slug: "no_hash slug"
  shows "store_inv (snd (app_update now slug app d))"
proof (cases "a_id app \<noteq> [] \<and> (\<exists>ex. app_get slug (a_id app) d = Inr ex)")
  case True
  have inv': "cfg_inv d" "app_inv d" using inv by (simp_all add: store_inv_def)
  from True obtain ex where g: "app_get slug (a_id app) d = Inr ex" by blast
  obtain r e a0 where r: "lookup d (mkey (tenant_pk slug) (app_sk (a_id app))) = Some r"
    "r_item r = AppItem e a0" "a_id a0 = a_id app" "r_pk r = tenant_pk slug"
    "r_sk r = app_sk (a_id app)" "no_hash (a_id app)" "a_id app \<noteq> []"
    using app_get_row [OF inv'(1) slug g] by auto
  note ai = app_invD [OF inv'(2) r(1,2)]
  let ?a = "app\<lparr>a_tenant_slug := slug, a_created_at := a_created_at ex, a_updated_at := now\<rparr>"
  let ?r = "r\<lparr>r_pk := tenant_pk slug, r_sk := app_sk (a_id app), r_item := AppItem e ?a\<rparr>"
  have gsi: "gsi_ok ?r e (a_id ?a)"
    using ai r by (auto simp: gsi_ok_def row_slug_def)
  obtain x d' where p: "db_put ?r d = (x, d')" by (cases "db_put ?r d") auto
  have "store_inv d'"
    by (rule put_app_inv [OF inv slug _ _ _ _ _ gsi _ p]) (use r ai in auto)
  then show ?thesis using p True g r inv
    by (cases x; cases "fault d (OpGet (mkey (tenant_pk slug) (app_sk (a_id app))))")
      (simp_all add: app_update_def db_get_def)
next
  case False
  then show ?thesis using inv by (auto simp: app_update_def split: sum.split)
qed

lemma app_set_status_inv:
  "store_inv d \<Longrightarrow> no_hash slug \<Longrightarrow> store_inv (snd (app_set_status now slug i st d))"
  by (auto simp: app_set_status_def app_update_inv split: sum.split)

lemma update_oidc_config_inv:
  assumes "store_inv d" and "no_hash slug" and "no_hash i"
  shows "store_inv (snd (update_oidc_config slug i cfg d))"
  using assms put_oidc_inv [OF assms]
  by (auto simp: update_oidc_config_def split: sum.split prod.split)

lemma app_uses_put_app:
  assumes "store_inv d3" and "no_hash slug" and "lookup d3 (mkey (tenant_pk slug) (app_sk i)) = Some r3"
    and "r_item r3 = AppItem new_e a3" and "owns_marker d3 (tenant_pk slug) e i"
    and "new_e \<noteq> e" and "e \<noteq> []"
  shows "\<not> app_uses d3 slug e"
proof
  have inv: "cfg_inv d3" "app_inv d3" using assms(1) by (simp_all add: store_inv_def)
  assume "app_uses d3 slug e"
  then obtain k r a where r: "lookup d3 k = Some r" "r_pk r = tenant_pk slug" "r_item r = AppItem e a"
    by (auto simp: app_uses_def)
  have "a_id a = i"
    using app_invD [OF inv(2) r(1,3)] assms(5,7) r(2) by (auto simp: owns_marker_def)
  then have "k = mkey (tenant_pk slug) (app_sk i)"
    using app_row_at [OF inv(1) r(1,3)] r(2) by simp
  then show False using r assms(3,4,6) by simp
qed

lemma app_delete_inv:
  assumes inv: "store_inv d" and slug: "no_hash slug" and i: "no_hash i"
  shows "store_inv (snd (app_delete slug i d))"
proof (cases "\<exists>r e a. db_get (tenant_pk slug) (app_sk i) d = Inr r \<and> r_item r = AppItem e a")
  case True
  have inv': "cfg_inv d" "app_inv d" using inv by (simp_all add: store_inv_def)
  from True obtain r e a where r: "db_get (tenant_pk slug) (app_sk i) d = Inr r" "r_item r = AppItem e a"
    by blast
  then have lk: "lookup d (mkey (tenant_pk slug) (app_sk i)) = Some r" by (auto dest: db_get_some)
  have rpk: "r_pk r = tenant_pk slug" using cfg_lookup_row [OF inv'(1) lk slug] by blast
  obtain x d1 where p: "db_delete (tenant_pk slug) (app_sk i) d = (x, d1)"
    by (cases "db_delete (tenant_pk slug) (app_sk i) d") auto
  let ?d2 = "snd (db_delete (tenant_pk slug) (app_saml_sk i) d1)"
  let ?d3 = "snd (db_delete (tenant_pk slug) (app_oidc_sk i) ?d2)"
  have inv1: "store_inv d1" using delete_app_inv [OF inv slug i] p by simp
  then have inv3: "store_inv ?d3" by (intro delete_neutral_inv slug) simp_all
  have unused: "\<not> app_uses ?d3 slug e" if "x = Inr u" "e \<noteq> []" for u
  proof
    assume "app_uses ?d3 slug e"
    then obtain k r' a' where k: "lookup ?d3 k = Some r'" "r_pk r' = tenant_pk slug"
      "r_item r' = AppItem e a'" by (auto simp: app_uses_def)
    then have "lookup d1 k = Some r'" by (auto simp: db_delete_lookup split: if_splits)
    then have "lookup d k = Some r' \<and> k \<noteq> mkey (tenant_pk slug) (app_sk i)"
      using db_delete_ok [of "tenant_pk slug" "app_sk i" d d1 k] p that by (auto split: if_splits)
    then show False
      using entity_unique [OF inv _ k(3) lk r(2)] k(2) rpk that(2) by auto
  qed
  have "store_inv (snd (db_delete (tenant_pk slug) (entity_unique_sk e) ?d3))" if "x = Inr u" for u
    by (rule delete_marker_inv [OF inv3 slug]) (use unused that in blast)
  then show ?thesis using r p inv1 inv3
    by (cases x) (simp_all add: app_delete_def best_effort_def Let_def)
next
  case False
  then show ?thesis using inv
    by (auto simp: app_delete_def split: sum.split cfg_item.split)
qed

lemma update_saml_config_inv:
  assumes inv: "store_inv d" and slug: "no_hash slug" and i: "no_hash i"
  shows "store_inv (snd (update_saml_config slug i cfg d))"
proof (cases "\<exists>r old a. db_get (tenant_pk slug) (app_sk i) d = Inr r \<and> r_item r = AppItem old a")
  case True
  have inv': "cfg_inv d" "app_inv d" using inv by (simp_all add: store_inv_def)
  from True obtain r old a where r: "db_get (tenant_pk slug) (app_sk i) d = Inr r" "r_item r = AppItem old a"
    by blast
  then have lk: "lookup d (mkey (tenant_pk slug) (app_sk i)) = Some r" by (auto dest: db_get_some)
  have rok: "r_pk r = tenant_pk slug" "r_sk r = app_sk i" "a_id a = i" "i \<noteq> []"
    using cfg_lookup_row [OF inv'(1) lk slug] r(2) by (auto simp: cfg_row_ok_def item_ok_def sk_inject)
  note ai = app_invD [OF inv'(2) lk r(2)]
  let ?new = "sc_entity_id cfg"
  let ?m = "cfg_row (tenant_pk slug) (entity_unique_sk ?new) (EntityUniqueItem ?new i)"
  let ?res = "if ?new \<noteq> old then db_put_new ?m d else (Inr (), d)"
  let ?s = "cfg_row (tenant_pk slug) (app_saml_sk i) (SamlItem cfg)"
  let ?r = "r\<lparr>r_gsi1pk := Some (entity_gsi_pk slug ?new), r_item := AppItem ?new a\<rparr>"
  obtain x d1 where p1: "?res = (x, d1)" by (cases ?res) auto
  obtain y d2 where p2: "db_put ?s d1 = (y, d2)" by (cases "db_put ?s d1") auto
  obtain z d3 where p3: "db_put ?r d2 = (z, d3)" by (cases "db_put ?r d2") auto
  have inv1: "store_inv d1"
    using p1 put_marker_inv [OF inv slug, of ?new i] inv by (auto split: if_splits)
  have inv2: "store_inv d2" by (rule put_saml_inv [OF inv1 slug i p2])
  have own1: "owns_marker d1 (tenant_pk slug) ?new i" "?new \<noteq> old \<longrightarrow> \<not> app_uses d1 slug ?new"
    if "x = Inr u" "?new \<noteq> []" for u
    using that p1 reserved_marker [OF inv slug, of ?new i d1] ai rok by (auto split: if_splits)
  have keep2: "owns_marker d2 (tenant_pk slug) e' i'" if "owns_marker d1 (tenant_pk slug) e' i'" for e' i'
    using that mem.put_keeps [of "mkey (tenant_pk slug) (entity_unique_sk e')" ?s d1] p2
    by (simp add: owns_marker_def mkey_same_inject sk_distinct)
  have inv3: "store_inv d3" if "x = Inr u" for u
    by (rule put_app_inv [OF inv2 slug _ _ _ _ _ _ _ p3])
      (use i rok that keep2 own1 ai in \<open>auto simp: gsi_ok_def row_slug_def tenant_pk_def\<close>)
  have roll: "store_inv (snd (db_delete (tenant_pk slug) (entity_unique_sk ?new) d2))"
    if "x = Inr u" "?new \<noteq> old" "y = Inl e" for u e
    by (rule delete_marker_inv [OF inv2 slug]) (use own1 that p2 in \<open>auto dest: db_put_err\<close>)
  have rel: "store_inv (snd (db_delete (tenant_pk slug) (entity_unique_sk old) d3))"
    if ok: "x = Inr u" "y = Inr v" "z = Inr w" and ne: "old \<noteq> []" "?new \<noteq> old" for u v w
  proof (rule delete_marker_inv [OF inv3 [OF ok(1)] slug])
    have "owns_marker d1 (tenant_pk slug) old i"
      using ai ne rok p1 ok(1) mem.put_new_never_overwrites
      by (fastforce simp: owns_marker_def prod_eq_iff split: if_splits)
    then have "owns_marker d2 (tenant_pk slug) old i" by (rule keep2)
    then have own3: "owns_marker d3 (tenant_pk slug) old i"
      using mem.put_keeps [of "mkey (tenant_pk slug) (entity_unique_sk old)" ?r d2] p3 rok
      by (simp add: owns_marker_def row_key_def mkey_same_inject sk_distinct)
    have "lookup d3 (mkey (tenant_pk slug) (app_sk i)) = Some ?r"
      using db_put_ok [of ?r d2 d3] p3 ok(3) rok by (simp add: row_key_def)
    then show "\<not> app_uses d3 slug old"
      by (rule app_uses_put_app [OF inv3 [OF ok(1)] slug _ _ own3]) (use ne in auto)
  qed
  have eq: "update_saml_config slug i cfg d = (case app_get slug i d of
      Inl e \<Rightarrow> (Inl (Wrap ''failed to get application for SAML update'' e), d)
    | Inr _ \<Rightarrow> (case x of
        Inl e \<Rightarrow> (Inl (if errors_is e ErrConditionFailed then Wrap [] ErrDuplicateEntityID
                      else Wrap ''failed to reserve entityID'' e), d1)
      | Inr _ \<Rightarrow> (case y of
          Inl e \<Rightarrow> (Inl (Wrap ''failed to update SAML config'' e),
            if ?new \<noteq> old then snd (db_delete (tenant_pk slug) (entity_unique_sk ?new) d2) else d2)
        | Inr _ \<Rightarrow> (case z of
            Inl e \<Rightarrow> (Inl (Wrap ''failed to update application GSI keys'' e), d3)
          | Inr _ \<Rightarrow> (Inr (), if old \<noteq> [] \<and> ?new \<noteq> old
              then snd (db_delete (tenant_pk slug) (entity_unique_sk old) d3) else d3)))))"
    using r p1 p2 p3
    by (cases "app_get slug i d"; cases x; cases y; cases z; cases "?new = old")
      (simp_all add: update_saml_config_def best_effort_def Let_def)
  show ?thesis unfolding eq
    using inv inv1 inv2 inv3 roll rel by (auto split: sum.split)
next
  case False
  then show ?thesis using inv
    by (auto simp: update_saml_config_def split: sum.split cfg_item.split)
qed

subsection \<open>The store as a state machine\<close>

text \<open>The frame of an operation that touches only neutral keys of one tenant.\<close>

lemma neutral_change_inv:
  assumes "store_inv d" and "cfg_inv d'" and "no_hash slug"
    and "\<And>k. lookup d' k = lookup d k \<or> (\<exists>sk. k = mkey (tenant_pk slug) sk \<and> neutral_sk sk)"
  shows "store_inv d'"
proof -
  have inv: "cfg_inv d" "app_inv d" using assms(1) by (simp_all add: store_inv_def)
  have "app_inv d'"
    by (rule app_inv_frame [OF inv(2)])
      (use neutral_at [OF inv(1) assms(3)] neutral_at [OF assms(2,3)] assms(4) in blast)
  with assms(2) show ?thesis by (simp add: store_inv_def)
qed

lemma tenant_create_keeps_others:
  "k \<noteq> mkey (tenant_pk (t_slug t)) tenant_sk \<Longrightarrow> lookup (snd (tenant_create now t d)) k = lookup d k"
  using mem.put_new_keeps [of k "cfg_row (tenant_pk (t_slug t)) tenant_sk
      (TenantItem (t\<lparr>t_created_at := now, t_updated_at := now\<rparr>))" d]
  by (auto simp: tenant_create_def Let_def split: prod.splits sum.splits)

lemma tenant_create_store_inv:
  assumes "store_inv d" and "no_hash (t_slug t)"
  shows "store_inv (snd (tenant_create now t d))"
proof (rule neutral_change_inv [OF assms(1) _ assms(2)])
  show "cfg_inv (snd (tenant_create now t d))"
    using assms by (simp add: store_inv_def tenant_create_inv)
  show "lookup (snd (tenant_create now t d)) k = lookup d k \<or>
      (\<exists>sk. k = mkey (tenant_pk (t_slug t)) sk \<and> neutral_sk sk)" for k
    using tenant_create_keeps_others neutral_sks(1) by blast
qed

lemma tenant_update_store_inv:
  assumes "store_inv d" and "no_hash (t_slug t)"
  shows "store_inv (snd (tenant_update now t d))"
proof (rule neutral_change_inv [OF assms(1) _ assms(2)])
  show "cfg_inv (snd (tenant_update now t d))"
    using assms by (simp add: store_inv_def tenant_update_inv)
  fix k
  have "k \<noteq> mkey (tenant_pk (t_slug t)) tenant_sk \<Longrightarrow>
      lookup (snd (db_put (cfg_row (tenant_pk (t_slug t)) tenant_sk i) d)) k = lookup d k" for i
    by (rule mem.put_keeps) simp
  then have "k \<noteq> mkey (tenant_pk (t_slug t)) tenant_sk \<Longrightarrow>
      lookup (snd (tenant_update now t d)) k = lookup d k"
    by (auto simp: tenant_update_def Let_def split: prod.splits sum.splits) (metis snd_conv)+
  then show "lookup (snd (tenant_update now t d)) k = lookup d k \<or>
      (\<exists>sk. k = mkey (tenant_pk (t_slug t)) sk \<and> neutral_sk sk)"
    by (metis neutral_sks(1))
qed

lemma tenant_delete_store_inv:
  "store_inv d \<Longrightarrow> no_hash slug \<Longrightarrow> store_inv (snd (tenant_delete slug d))"
  using delete_neutral_inv [of d slug tenant_sk]
  by (auto simp: tenant_delete_def split: prod.splits sum.splits)

lemma source_create_store_inv:
  assumes "store_inv d" and "no_hash slug"
  shows "store_inv (snd (source_create rnd now slug src d))"
proof (cases "generate_id rnd")
  case (Inr i)
  let ?s = "src\<lparr>s_id := i, s_tenant_slug := slug, s_created_at := now, s_updated_at := now\<rparr>"
  have "cfg_row_ok (cfg_row (tenant_pk slug) (source_sk i) (SourceItem ?s))"
    using source_row_ok [OF assms(2), of ?s] by simp
  then show ?thesis
    using put_neutral_inv [OF assms, of "cfg_row (tenant_pk slug) (source_sk i) (SourceItem ?s)"] Inr
    by (auto simp: source_create_def split: prod.splits sum.splits)
qed (simp add: source_create_def assms)

lemma source_update_store_inv:
  assumes "store_inv d" and "no_hash slug"
  shows "store_inv (snd (source_update now slug src d))"
proof (cases "source_get slug (s_id src) d")
  case (Inr ex)
  let ?s = "src\<lparr>s_tenant_slug := slug, s_created_at := s_created_at ex, s_updated_at := now\<rparr>"
  have "cfg_row_ok (cfg_row (tenant_pk slug) (source_sk (s_id src)) (SourceItem ?s))"
    using source_row_ok [OF assms(2), of ?s] by simp
  then show ?thesis
    using put_neutral_inv [OF assms,
        of "cfg_row (tenant_pk slug) (source_sk (s_id src)) (SourceItem ?s)"] Inr assms(1)
    by (auto simp: source_update_def split: prod.splits sum.splits)
qed (simp add: source_update_def assms)

lemma source_delete_store_inv:
  "store_inv d \<Longrightarrow> no_hash slug \<Longrightarrow> store_inv (snd (source_delete slug i d))"
  using delete_neutral_inv [of d slug "source_sk i"]
  by (auto simp: source_delete_def split: prod.splits sum.splits)

lemma put_claim_mappings_store_inv:
  assumes "store_inv d" and "no_hash slug" and "no_hash i"
  shows "store_inv (snd (put_claim_mappings slug i ms d))"
proof (rule neutral_change_inv [OF assms(1) _ assms(2)])
  show "cfg_inv (snd (put_claim_mappings slug i ms d))"
    using assms by (simp add: store_inv_def put_claim_mappings_inv)
  show "lookup (snd (put_claim_mappings slug i ms d)) k = lookup d k \<or>
      (\<exists>sk. k = mkey (tenant_pk slug) sk \<and> neutral_sk sk)" for k
    using claim.replace_keeps [of _ slug i _ ms d _ _ k]
    by (cases "\<exists>n. k = mkey (tenant_pk slug) (claim_prefix i @ n)")
      (use neutral_sks(5) in blast, auto simp: put_claim_mappings_replace prod_eq_iff split: sum.split)
qed

lemma put_role_mappings_store_inv:
  assumes "store_inv d" and "no_hash slug" and "no_hash i"
  shows "store_inv (snd (put_role_mappings slug i ms d))"
proof (rule neutral_change_inv [OF assms(1) _ assms(2)])
  show "cfg_inv (snd (put_role_mappings slug i ms d))"
    using assms by (simp add: store_inv_def put_role_mappings_inv)
  show "lookup (snd (put_role_mappings slug i ms d)) k = lookup d k \<or>
      (\<exists>sk. k = mkey (tenant_pk slug) sk \<and> neutral_sk sk)" for k
    using role.replace_keeps [of _ slug i _ ms d _ _ k]
    by (cases "\<exists>n. k = mkey (tenant_pk slug) (role_prefix i @ n)")
      (use neutral_sks(6) in blast, auto simp: put_role_mappings_replace prod_eq_iff split: sum.split)
qed

text \<open>
  The tables the management plane can produce: any sequence of store calls by any callers, each
  under a fault environment of its own, on slugs and identifiers without the key separator.
\<close>

inductive cfg_reach :: "cfg_db \<Rightarrow> bool" where
  reach_empty: "cfg_reach empty_db"
| reach_fault: "cfg_reach d \<Longrightarrow> cfg_reach (d\<lparr>fault := f\<rparr>)"
| reach_tenant_create: "cfg_reach d \<Longrightarrow> no_hash (t_slug t) \<Longrightarrow> cfg_reach (snd (tenant_create now t d))"
| reach_tenant_update: "cfg_reach d \<Longrightarrow> no_hash (t_slug t) \<Longrightarrow> cfg_reach (snd (tenant_update now t d))"
| reach_tenant_delete: "cfg_reach d \<Longrightarrow> no_hash slug \<Longrightarrow> cfg_reach (snd (tenant_delete slug d))"
| reach_source_create: "cfg_reach d \<Longrightarrow> no_hash slug \<Longrightarrow>
    cfg_reach (snd (source_create rnd now slug src d))"
| reach_source_update: "cfg_reach d \<Longrightarrow> no_hash slug \<Longrightarrow>
    cfg_reach (snd (source_update now slug src d))"
| reach_source_delete: "cfg_reach d \<Longrightarrow> no_hash slug \<Longrightarrow> cfg_reach (snd (source_delete slug i d))"
| reach_put_claims: "cfg_reach d \<Longrightarrow> no_hash slug \<Longrightarrow> no_hash i \<Longrightarrow>
    cfg_reach (snd (put_claim_mappings slug i ms d))"
| reach_put_roles: "cfg_reach d \<Longrightarrow> no_hash slug \<Longrightarrow> no_hash i \<Longrightarrow>
    cfg_reach (snd (put_role_mappings slug i rs d))"
| reach_app_create: "cfg_reach d \<Longrightarrow> no_hash slug \<Longrightarrow> rnd_ok rnd \<Longrightarrow>
    cfg_reach (snd (app_create rnd now slug app saml d))"
| reach_app_update: "cfg_reach d \<Longrightarrow> no_hash slug \<Longrightarrow> cfg_reach (snd (app_update now slug app d))"
| reach_app_status: "cfg_reach d \<Longrightarrow> no_hash slug \<Longrightarrow> cfg_reach (snd (app_set_status now slug i st d))"
| reach_update_saml: "cfg_reach d \<Longrightarrow> no_hash slug \<Longrightarrow> no_hash i \<Longrightarrow>
    cfg_reach (snd (update_saml_config slug i cfg d))"
| reach_update_oidc: "cfg_reach d \<Longrightarrow> no_hash slug \<Longrightarrow> no_hash i \<Longrightarrow>
    cfg_reach (snd (update_oidc_config slug i ocfg d))"
| reach_app_delete: "cfg_reach d \<Longrightarrow> no_hash slug \<Longrightarrow> no_hash i \<Longrightarrow>
    cfg_reach (snd (app_delete slug i d))"

lemma lookup_fault [simp]: "lookup (d\<lparr>fault := f\<rparr>) k = lookup d k"
  by (simp add: lookup_def)

lemma store_inv_fault: "store_inv d \<Longrightarrow> store_inv (d\<lparr>fault := f\<rparr>)"
  by (simp add: store_inv_def cfg_inv_def db_wf_def app_inv_def owns_marker_def)

lemmas store_inv_intros = tenant_create_store_inv tenant_update_store_inv tenant_delete_store_inv
  source_create_store_inv source_update_store_inv source_delete_store_inv
  put_claim_mappings_store_inv put_role_mappings_store_inv app_create_inv app_update_inv
  app_set_status_inv update_saml_config_inv update_oidc_config_inv app_delete_inv store_inv_fault

lemma cfg_reach_inv: "cfg_reach d \<Longrightarrow> store_inv d"
  by (induction rule: cfg_reach.induct) (simp_all add: store_inv_intros)

subsection \<open>Lookups through the index\<close>

lemma gsi_row:
  assumes "store_inv d" and "no_hash slug" and "e \<noteq> []"
    and "lookup d k = Some r" and "r_gsi1pk r = Some (entity_gsi_pk slug e)"
  shows "\<exists>a. r_item r = AppItem e a \<and> r_pk r = tenant_pk slug \<and> k = row_key r"
proof -
  have inv: "cfg_inv d" "app_inv d" using assms(1) by (simp_all add: store_inv_def)
  have ok: "cfg_row_ok r" "k = row_key r" using cfg_inv_row [OF inv(1) assms(4)] by auto
  then obtain e' a where a: "r_item r = AppItem e' a"
    using assms(5) by (cases "r_item r") (auto simp: cfg_row_ok_def)
  have "entity_gsi_pk (row_slug r) e' = entity_gsi_pk slug e"
    using app_invD [OF inv(2) assms(4) a] assms(5) by (auto simp: gsi_ok_def entity_gsi_pk_def)
  then have "row_slug r = slug \<and> e' = e"
    using entity_gsi_inject [of "row_slug r" slug e' e] ok assms(2) by (simp add: cfg_row_ok_def)
  then show ?thesis using a ok by (simp add: cfg_row_ok_def)
qed

lemma gsi_single:
  assumes inv: "store_inv d" and "no_hash slug" and e: "e \<noteq> []"
    and nf: "\<not> fault d (OpQueryGSI (entity_gsi_pk slug e))"
    and r: "lookup d k = Some r" "r_item r = AppItem e a" "r_pk r = tenant_pk slug"
  shows "gsi_or_empty (entity_gsi_pk slug e) d = Inr [r]"
proof -
  have wf: "cfg_inv d" "db_wf d" "app_inv d" using inv by (auto simp: store_inv_def cfg_inv_def)
  obtain rs where rs: "db_query_gsi (entity_gsi_pk slug e) d = Inr rs"
    using nf by (auto simp: db_query_gsi_def)
  have "row_slug r = slug" using r(3) by (simp add: row_slug_def tenant_pk_def)
  then have "r_gsi1pk r = Some (entity_gsi_pk slug e)"
    using app_invD [OF wf(3) r(1,2)] e by (auto simp: gsi_ok_def)
  then have mem: "r \<in> set rs"
    using db_query_gsi_set [OF wf(2) rs] r(1) lookup_row_key [OF wf(2) r(1)] by auto
  have only: "r' = r" if "r' \<in> set rs" for r'
  proof -
    have r': "lookup d (row_key r') = Some r'" "r_gsi1pk r' = Some (entity_gsi_pk slug e)"
      using db_query_gsi_set [OF wf(2) rs] that by auto
    obtain a' where a': "r_item r' = AppItem e a'" "r_pk r' = tenant_pk slug"
      using gsi_row [OF inv assms(2) e r'] by blast
    have "r_pk r' = r_pk r" using a'(2) r(3) by simp
    from entity_unique [OF inv r'(1) a'(1) r(1,2) this e] show ?thesis by simp
  qed
  have "rs = [r]"
    by (rule distinct_singleton [OF db_query_gsi_distinct [OF wf(2) rs] mem only])
  then show ?thesis using rs by (simp add: gsi_or_empty_def)
qed

lemma gsi_none:
  assumes inv: "store_inv d" and "no_hash slug" and e: "e \<noteq> []"
    and nf: "\<not> fault d (OpQueryGSI (entity_gsi_pk slug e))" and u: "\<not> app_uses d slug e"
  shows "gsi_or_empty (entity_gsi_pk slug e) d = Inr []"
proof -
  have wf: "db_wf d" using inv by (auto simp: store_inv_def cfg_inv_def)
  obtain rs where rs: "db_query_gsi (entity_gsi_pk slug e) d = Inr rs"
    using nf by (auto simp: db_query_gsi_def)
  have "r \<notin> set rs" for r
    using db_query_gsi_set [OF wf rs, of r] gsi_row [OF inv assms(2) e, of "row_key r" r] u
    by (auto simp: app_uses_def)
  then have "rs = []" by (cases rs) auto
  then show ?thesis using rs by (simp add: gsi_or_empty_def)
qed

end
