(* ===== verification/AppLookup.thy ===== *)
theory AppLookup
  imports AppStore
begin

text \<open>
  What the application store promises to the protocol front ends: a lookup by entity id finds the
  one application of the tenant that declares it, a create makes the application resolvable, a
  second create with the entity id is refused, a delete frees it, a rename moves it.
\<close>

subsection \<open>Lemmas\<close>

lemma app_create_ok:
  assumes "app_create rnd now slug app (Some c) d = (Inr i, d')" and "rnd_ok rnd" and "no_hash slug"
  shows "generate_id rnd = Inr i \<and> no_hash i \<and> i \<noteq> [] \<and> fault d' = fault d \<and>
    lookup d' (mkey (tenant_pk slug) (app_sk i)) = Some (app_row (tenant_pk slug) (app_sk i)
      (entity_gsi_pk slug (sc_entity_id c)) (tenant_pk slug) (sc_entity_id c)
      (app\<lparr>a_id := i, a_tenant_slug := slug, a_created_at := now, a_updated_at := now\<rparr>)) \<and>
    lookup d' (mkey (tenant_pk slug) (app_saml_sk i)) =
      Some (cfg_row (tenant_pk slug) (app_saml_sk i) (SamlItem c))"
proof -
  let ?r = "app_row (tenant_pk slug) (app_sk i) (entity_gsi_pk slug (sc_entity_id c))
      (tenant_pk slug) (sc_entity_id c)
      (app\<lparr>a_id := i, a_tenant_slug := slug, a_created_at := now, a_updated_at := now\<rparr>)"
  let ?s = "cfg_row (tenant_pk slug) (app_saml_sk i) (SamlItem c)"
  obtain d1 d2 where g: "generate_id rnd = Inr i"
    and p1: "db_put_new (cfg_row (tenant_pk slug) (entity_unique_sk (sc_entity_id c))
        (EntityUniqueItem (sc_entity_id c) i)) d = (Inr (), d1)"
    and p2: "db_put ?r d1 = (Inr (), d2)" and p3: "db_put ?s d2 = (Inr (), d')"
    using assms(1) by (auto simp: app_create_def Let_def split: sum.splits prod.splits if_splits)
  have i: "no_hash i" "i \<noteq> []" using generate_id_ok [OF g assms(2)] by auto
  have "fault d1 = fault d" "fault d2 = fault d1" "fault d' = fault d2"
    using p1 p2 p3 db_put_new_fault db_put_fault by (metis snd_conv)+
  moreover have "lookup d' (mkey (tenant_pk slug) (app_sk i)) = Some ?r"
    using db_put_ok [OF p3, of "mkey (tenant_pk slug) (app_sk i)"]
      db_put_ok [OF p2, of "mkey (tenant_pk slug) (app_sk i)"] app_sk_hash [OF i(1), of i]
    by (simp add: mkey_same_inject)
  moreover have "lookup d' (mkey (tenant_pk slug) (app_saml_sk i)) = Some ?s"
    using db_put_ok [OF p3, of "mkey (tenant_pk slug) (app_saml_sk i)"] by simp
  ultimately show ?thesis using g i by simp
qed

lemma app_get_at:
  assumes "lookup d (mkey (tenant_pk slug) (app_sk i)) = Some r" "r_item r = AppItem e a"
    and "\<not> fault d (OpGet (mkey (tenant_pk slug) (app_sk i)))"
  shows "app_get slug i d = Inr (a\<lparr>a_tenant_slug := slug\<rparr>)"
  using assms by (simp add: app_get_def get_as_def db_get_def as_app_def)

lemma get_by_entity_found:
  assumes inv: "store_inv d" and slug: "no_hash slug" and e: "e \<noteq> []"
    and nf: "\<forall>op. \<not> fault d op"
    and r: "lookup d (mkey (tenant_pk slug) (app_sk i)) = Some r" "r_item r = AppItem e a"
  shows "get_by_tenant_entity_id slug e d =
    Inr (a\<lparr>a_tenant_slug := slug\<rparr>, case get_saml_config slug i d of Inl _ \<Rightarrow> None | Inr c \<Rightarrow> Some c)"
proof -
  have wf: "cfg_inv d" "app_inv d" using inv by (simp_all add: store_inv_def)
  have at: "r_pk r = tenant_pk slug" "a_id a = i" "a_id a \<noteq> []"
    using cfg_lookup_row [OF wf(1) r(1) slug] r(2) by (auto simp: cfg_row_ok_def item_ok_def sk_inject)
  have "gsi_or_empty (entity_gsi_pk slug e) d = Inr [r]"
    by (rule gsi_single [OF inv slug e _ r at(1)]) (simp add: nf)
  moreover have "r_gsi1sk r = tenant_pk slug"
    using app_invD [OF wf(2) r] at by (simp add: gsi_ok_def)
  moreover have "row_app_id r = i" using r(2) at by (simp add: row_app_id_def as_app_def)
  ultimately show ?thesis
    using app_get_at [OF r] nf at by (simp add: get_by_tenant_entity_id_def)
qed

lemma get_by_entity_none:
  assumes "store_inv d" and "no_hash slug" and "e \<noteq> []" and "\<forall>op. \<not> fault d op"
    and "\<not> app_uses d slug e"
  shows "get_by_tenant_entity_id slug e d = Inl ErrNotFound"
  using gsi_none [OF assms(1-3) _ assms(5)] assms(4) by (simp add: get_by_tenant_entity_id_def)

lemma get_saml_config_at:
  assumes "lookup d (mkey (tenant_pk slug) (app_saml_sk i)) = Some r" "r_item r = SamlItem c"
    and "\<not> fault d (OpGet (mkey (tenant_pk slug) (app_saml_sk i)))"
  shows "get_saml_config slug i d = Inr c"
  using assms by (simp add: get_saml_config_def get_as_def db_get_def as_saml_def)

subsection \<open>Samples\<close>

definition sample_saml :: "string \<Rightarrow> saml_config" where
  "sample_saml e = \<lparr>sc_entity_id = e, sc_acs_url = ''https://sp/acs'', sc_acs_urls = [],
     sc_metadata_url = [], sc_signing_cert_pem = [], sc_encryption_cert_pem = [],
     sc_name_id_format = ''email'', sc_name_id_source = [], sc_sign_response = True,
     sc_sign_assertion = True, sc_encrypt_assertion = False, sc_want_authn_requests_signed = False,
     sc_allow_idp_initiated = False, sc_slo_url = [], sc_session_duration_sec = 0,
     sc_clock_skew_sec = 0, sc_allow_insecure_sha1 = False\<rparr>"

definition sample_rnd :: "8 word list option" where
  "sample_rnd = Some (replicate 16 7)"

definition sample_db :: cfg_db where
  "sample_db = snd (app_create sample_rnd 5 ''acme'' sample_app (Some (sample_saml ''sp1'')) empty_db)"

definition sample_id :: string where
  "sample_id = concat (replicate 16 ''07'')"

lemma sample_rnd_ok: "rnd_ok sample_rnd"
  by (simp add: rnd_ok_def sample_rnd_def)

lemma sample_create:
  "app_create sample_rnd 5 ''acme'' sample_app (Some (sample_saml ''sp1'')) empty_db
     = (Inr sample_id, sample_db)"
proof -
  have "fst (app_create sample_rnd 5 ''acme'' sample_app (Some (sample_saml ''sp1'')) empty_db)
      = Inr sample_id" by code_simp
  then show ?thesis by (simp add: sample_db_def prod_eq_iff)
qed

lemma sample_reach: "cfg_reach sample_db"
  unfolding sample_db_def by (intro reach_app_create reach_empty sample_rnd_ok) simp

lemma sample_no_fault: "\<forall>op. \<not> fault sample_db op"
  using app_create_ok [OF sample_create sample_rnd_ok] by (simp add: empty_db_def)

lemma sample_app_at:
  "\<exists>r a. lookup sample_db (mkey (tenant_pk ''acme'') (app_sk sample_id)) = Some r \<and>
     r_item r = AppItem ''sp1'' a"
  using app_create_ok [OF sample_create sample_rnd_ok] by (simp add: sample_saml_def)

lemma sample_uses: "app_uses sample_db ''acme'' ''sp1''"
  using app_create_ok [OF sample_create sample_rnd_ok]
  by (fastforce simp: app_uses_def sample_saml_def)

subsection \<open>Properties\<close>



text \<open>What a lookup by entity id returns is the application the tenant's own \<^verbatim>\<open>Get\<close> returns under
  that id, and it declares the entity id that was asked for.\<close>

lemma get_by_entity_isolated:
  assumes "cfg_reach d" and "no_hash slug" and "e \<noteq> []"
    and "get_by_tenant_entity_id slug e d = Inr (app, sc)"
  shows "app_get slug (a_id app) d = Inr app \<and> a_tenant_slug app = slug \<and>
    (\<exists>r a. lookup d (mkey (tenant_pk slug) (app_sk (a_id app))) = Some r \<and> r_item r = AppItem e a)"
proof -
  have inv: "store_inv d" "cfg_inv d" "db_wf d"
    using cfg_reach_inv [OF assms(1)] by (auto simp: store_inv_def cfg_inv_def)
  obtain r rs where g: "gsi_or_empty (entity_gsi_pk slug e) d = Inr (r # rs)"
    "app_get slug (row_app_id r) d = Inr app"
    using assms(4) by (auto simp: get_by_tenant_entity_id_def split: sum.splits list.splits if_splits)
  then have "db_query_gsi (entity_gsi_pk slug e) d = Inr (r # rs)"
    by (auto simp: gsi_or_empty_def split: sum.splits if_splits)
  then have lk: "lookup d (row_key r) = Some r" "r_gsi1pk r = Some (entity_gsi_pk slug e)"
    using db_query_gsi_set [OF inv(3), of _ "r # rs" r] by auto
  obtain a where a: "r_item r = AppItem e a" "r_pk r = tenant_pk slug"
    using gsi_row [OF inv(1) assms(2,3) lk] by blast
  have "r_sk r = app_sk (a_id a)"
    using cfg_inv_row [OF inv(2) lk(1)] a(1) by (simp add: cfg_row_ok_def item_ok_def)
  moreover have "row_app_id r = a_id a" using a(1) by (simp add: row_app_id_def as_app_def)
  moreover obtain a0 where "a_id a0 = row_app_id r" "app = a0\<lparr>a_tenant_slug := slug\<rparr>"
    using app_get_row [OF inv(2) assms(2) g(2)] by blast
  ultimately show ?thesis
    using lk(1) a g(2) by (auto simp: row_key_def)
qed

lemma get_by_entity_isolated_witness:
  "\<exists>app sc. get_by_tenant_entity_id ''acme'' ''sp1'' sample_db = Inr (app, sc) \<and>
     app_get ''acme'' (a_id app) sample_db = Inr app"
proof -
  have "\<exists>app sc. get_by_tenant_entity_id ''acme'' ''sp1'' sample_db = Inr (app, sc)"
    using sample_app_at get_by_entity_found [OF cfg_reach_inv [OF sample_reach] _ _ sample_no_fault]
    by fastforce
  then show ?thesis
    using get_by_entity_isolated [OF sample_reach, of "''acme''" "''sp1''"] by fastforce
qed

text \<open>A create that succeeds on a backend without faults makes the application and its SAML settings
  resolvable by the entity id.\<close>

lemma app_create_resolves:
  assumes "cfg_reach d" and "no_hash slug" and "rnd_ok rnd" and "\<forall>op. \<not> fault d op"
    and "sc_entity_id c \<noteq> []" and "app_create rnd now slug app (Some c) d = (Inr i, d')"
  shows "get_by_tenant_entity_id slug (sc_entity_id c) d' =
    Inr (app\<lparr>a_id := i, a_tenant_slug := slug, a_created_at := now, a_updated_at := now\<rparr>, Some c)"
proof -
  note ok = app_create_ok [OF assms(6,3,2)]
  have inv: "store_inv d'"
    using app_create_inv [OF cfg_reach_inv [OF assms(1)] assms(2,3), of now app "Some c"] assms(6) by simp
  have nf: "\<forall>op. \<not> fault d' op" using ok assms(4) by simp
  have "get_saml_config slug i d' = Inr c"
    by (rule get_saml_config_at) (use ok nf in auto)
  then show ?thesis
    using get_by_entity_found [OF inv assms(2,5) nf] ok by auto
qed

lemma app_create_resolves_witness:
  "get_by_tenant_entity_id ''acme'' ''sp1'' sample_db =
     Inr (sample_app\<lparr>a_id := sample_id, a_tenant_slug := ''acme'', a_created_at := 5,
            a_updated_at := 5\<rparr>, Some (sample_saml ''sp1''))"
  using app_create_resolves [OF reach_empty _ sample_rnd_ok _ _ sample_create]
  by (simp add: empty_db_def sample_saml_def)

text \<open>A create for an entity id that an application of the tenant already declares is refused with
  \<open>ErrDuplicateEntityID\<close> and writes nothing; this does not depend on the order of racing creates,
  since the reservation is one conditional write.\<close>

lemma app_create_duplicate:
  assumes "cfg_reach d" and "no_hash slug" and "generate_id rnd = Inr i"
    and "sc_entity_id c \<noteq> []" and "app_uses d slug (sc_entity_id c)"
    and "\<not> fault d (OpPutNew (mkey (tenant_pk slug) (entity_unique_sk (sc_entity_id c))))"
  shows "app_create rnd now slug app (Some c) d = (Inl (Wrap [] ErrDuplicateEntityID), d)"
proof -
  let ?m = "cfg_row (tenant_pk slug) (entity_unique_sk (sc_entity_id c)) (EntityUniqueItem (sc_entity_id c) i)"
  obtain k r a where "lookup d k = Some r" "r_pk r = tenant_pk slug" "r_item r = AppItem (sc_entity_id c) a"
    using assms(5) by (auto simp: app_uses_def)
  then have "owns_marker d (tenant_pk slug) (sc_entity_id c) (a_id a)"
    using app_invD [of d k r] cfg_reach_inv [OF assms(1)] assms(4) by (auto simp: store_inv_def)
  then obtain m where "lookup d (row_key ?m) = Some m" by (auto simp: owns_marker_def)
  then have "db_put_new ?m d = (Inl ErrConditionFailed, d)"
    by (rule db_put_new_same_key_taken) (use assms(6) in simp_all)
  then show ?thesis using assms(3) by (simp add: app_create_def)
qed

lemma app_create_duplicate_witness:
  "app_create sample_rnd 9 ''acme'' sample_app (Some (sample_saml ''sp1'')) sample_db =
     (Inl (Wrap [] ErrDuplicateEntityID), sample_db)"
proof -
  have "generate_id sample_rnd = Inr sample_id"
    using app_create_ok [OF sample_create sample_rnd_ok] by simp
  then show ?thesis
    using app_create_duplicate [OF sample_reach, of "''acme''" sample_rnd sample_id "sample_saml ''sp1''"]
      sample_uses sample_no_fault by (simp add: sample_saml_def)
qed

lemma app_delete_lookup:
  assumes nf: "\<forall>op. \<not> fault d op"
    and r: "lookup d (mkey (tenant_pk slug) (app_sk i)) = Some r" "r_item r = AppItem e a"
  shows "fst (app_delete slug i d) = Inr () \<and> fault (snd (app_delete slug i d)) = fault d \<and>
    lookup (snd (app_delete slug i d)) k =
      (if k \<in> mkey (tenant_pk slug) ` ({app_sk i, app_saml_sk i, app_oidc_sk i} \<union>
           (if e \<noteq> [] then {entity_unique_sk e} else {})) then None else lookup d k)"
proof -
  have del: "db_delete pk sk d1 = (Inr (), d1\<lparr>data := AList.delete (mkey pk sk) (data d1)\<rparr>)"
    if "fault d1 = fault d" for pk sk and d1 :: cfg_db
    using nf that by (simp add: db_delete_def)
  show ?thesis
    using r nf by (auto simp: app_delete_def db_get_def del best_effort_def Let_def lookup_def delete_conv)
qed

text \<open>Deleting an application frees its entity id: afterwards neither its id nor its entity id
  resolves, and the reservation is gone, so the tenant can register the entity id again.\<close>

lemma app_delete_frees:
  assumes "cfg_reach d" and "no_hash slug" and "no_hash i" and "\<forall>op. \<not> fault d op" and "e \<noteq> []"
    and "lookup d (mkey (tenant_pk slug) (app_sk i)) = Some r" and "r_item r = AppItem e a"
    and "app_delete slug i d = (x, d')"
  shows "x = Inr () \<and> get_by_tenant_entity_id slug e d' = Inl ErrNotFound \<and>
    lookup d' (mkey (tenant_pk slug) (app_sk i)) = None \<and>
    lookup d' (mkey (tenant_pk slug) (entity_unique_sk e)) = None"
proof -
  have inv: "store_inv d" "cfg_inv d" using cfg_reach_inv [OF assms(1)] by (auto simp: store_inv_def)
  note lk = app_delete_lookup [OF assms(4,6,7)]
  have inv': "store_inv d'" using app_delete_inv [OF inv(1) assms(2,3)] assms(8) by (metis snd_conv)
  have d': "d' = snd (app_delete slug i d)" and x: "x = fst (app_delete slug i d)"
    using assms(8) by simp_all
  have "\<not> app_uses d' slug e"
  proof
    assume "app_uses d' slug e"
    then obtain k r' a' where k: "lookup d' k = Some r'" "r_pk r' = tenant_pk slug"
      "r_item r' = AppItem e a'" by (auto simp: app_uses_def)
    then have "lookup d k = Some r'" "k \<noteq> mkey (tenant_pk slug) (app_sk i)"
      using lk [of k] by (auto simp: d' split: if_splits)
    moreover have "r_pk r = tenant_pk slug" using cfg_lookup_row [OF inv(2) assms(6,2)] by blast
    ultimately show False using entity_unique [OF inv(1) _ k(3) assms(6,7)] k(2) assms(5) by auto
  qed
  then show ?thesis
    using get_by_entity_none [OF inv' assms(2,5)] lk assms(4,5) x d' by auto
qed

lemma app_delete_frees_witness:
  "fst (app_delete ''acme'' sample_id sample_db) = Inr () \<and>
   get_by_tenant_entity_id ''acme'' ''sp1'' (snd (app_delete ''acme'' sample_id sample_db)) = Inl ErrNotFound"
proof -
  obtain r a where r: "lookup sample_db (mkey (tenant_pk ''acme'') (app_sk sample_id)) = Some r"
    "r_item r = AppItem ''sp1'' a" using sample_app_at by blast
  have "no_hash sample_id" using app_create_ok [OF sample_create sample_rnd_ok] by simp
  then show ?thesis
    using app_delete_frees [OF sample_reach _ _ sample_no_fault _ r, of "fst (app_delete ''acme'' sample_id sample_db)"
        "snd (app_delete ''acme'' sample_id sample_db)"] by simp
qed

lemma update_saml_rename_ok:
  assumes "cfg_inv d" and "no_hash slug" and "no_hash i"
    and r: "lookup d (mkey (tenant_pk slug) (app_sk i)) = Some r" "r_item r = AppItem old a"
    and nf: "\<forall>op. \<not> fault d op" and ne: "sc_entity_id cfg \<noteq> old" "old \<noteq> []"
    and ok: "update_saml_config slug i cfg d = (Inr (), d')"
  shows "fault d' = fault d \<and>
    lookup d' (mkey (tenant_pk slug) (app_sk i)) =
      Some (r\<lparr>r_gsi1pk := Some (entity_gsi_pk slug (sc_entity_id cfg)),
              r_item := AppItem (sc_entity_id cfg) a\<rparr>) \<and>
    lookup d' (mkey (tenant_pk slug) (app_saml_sk i)) =
      Some (cfg_row (tenant_pk slug) (app_saml_sk i) (SamlItem cfg)) \<and>
    lookup d' (mkey (tenant_pk slug) (entity_unique_sk old)) = None"
proof -
  let ?r = "r\<lparr>r_gsi1pk := Some (entity_gsi_pk slug (sc_entity_id cfg)),
      r_item := AppItem (sc_entity_id cfg) a\<rparr>"
  have key: "row_key ?r = mkey (tenant_pk slug) (app_sk i)"
    using cfg_lookup_row [OF assms(1) r(1) assms(2)] by (simp add: row_key_def)
  obtain d1 d2 d3 where p: "db_put_new (cfg_row (tenant_pk slug) (entity_unique_sk (sc_entity_id cfg))
        (EntityUniqueItem (sc_entity_id cfg) i)) d = (Inr (), d1)"
    "db_put (cfg_row (tenant_pk slug) (app_saml_sk i) (SamlItem cfg)) d1 = (Inr (), d2)"
    "db_put ?r d2 = (Inr (), d3)" "d' = snd (db_delete (tenant_pk slug) (entity_unique_sk old) d3)"
    using ok r ne nf
    by (auto simp: update_saml_config_def db_get_def best_effort_def Let_def
        split: sum.splits prod.splits if_splits)
  have f: "fault d1 = fault d" "fault d2 = fault d1" "fault d3 = fault d2" "fault d' = fault d3"
    using p db_put_new_fault db_put_fault db_delete_fault by (metis snd_conv)+
  then have nf3: "\<not> fault d3 op" for op using nf by simp
  have "app_saml_sk i \<noteq> app_sk i" using app_sk_hash [OF assms(3), of i] by metis
  then show ?thesis
    using f db_put_ok [OF p(3)] db_put_ok [OF p(2)] p(4) nf3
    by (simp add: key db_delete_lookup mkey_same_inject sk_distinct sk_distinct_sym)
qed

text \<open>Changing an application's entity id moves it: afterwards the new entity id resolves to it with
  the new settings, the old one resolves to nothing, and its reservation is released.\<close>

lemma entity_id_rename:
  assumes "cfg_reach d" and "no_hash slug" and "no_hash i" and "\<forall>op. \<not> fault d op"
    and "lookup d (mkey (tenant_pk slug) (app_sk i)) = Some r" and "r_item r = AppItem old a"
    and "old \<noteq> []" and "sc_entity_id cfg \<noteq> []" and "sc_entity_id cfg \<noteq> old"
    and "update_saml_config slug i cfg d = (Inr (), d')"
  shows "get_by_tenant_entity_id slug (sc_entity_id cfg) d' =
      Inr (a\<lparr>a_tenant_slug := slug\<rparr>, Some cfg) \<and>
    get_by_tenant_entity_id slug old d' = Inl ErrNotFound \<and>
    lookup d' (mkey (tenant_pk slug) (entity_unique_sk old)) = None"
proof -
  have inv: "store_inv d" "cfg_inv d" using cfg_reach_inv [OF assms(1)] by (auto simp: store_inv_def)
  note ok = update_saml_rename_ok [OF inv(2) assms(2,3,5,6,4,9,7,10)]
  have inv': "store_inv d'"
    using update_saml_config_inv [OF inv(1) assms(2,3), of cfg] assms(10) by simp
  have nf: "\<forall>op. \<not> fault d' op" using ok assms(4) by simp
  have "get_saml_config slug i d' = Inr cfg"
    by (rule get_saml_config_at) (use ok nf in auto)
  then have new: "get_by_tenant_entity_id slug (sc_entity_id cfg) d' =
      Inr (a\<lparr>a_tenant_slug := slug\<rparr>, Some cfg)"
    using get_by_entity_found [OF inv' assms(2,8) nf] ok by auto
  have "\<not> app_uses d' slug old"
  proof
    assume "app_uses d' slug old"
    then obtain k r' a' where k: "lookup d' k = Some r'" "r_pk r' = tenant_pk slug"
      "r_item r' = AppItem old a'" by (auto simp: app_uses_def)
    have "app_inv d'" using inv' by (simp add: store_inv_def)
    from app_invD [OF this k(1,3)] have "owns_marker d' (tenant_pk slug) old (a_id a')"
      using assms(7) k(2) by simp
    then show False using ok by (simp add: owns_marker_def)
  qed
  then show ?thesis
    using new ok get_by_entity_none [OF inv' assms(2,7) nf] by blast
qed

lemma entity_id_rename_witness:
  "\<exists>d'. update_saml_config ''acme'' sample_id (sample_saml ''sp2'') sample_db = (Inr (), d') \<and>
     get_by_tenant_entity_id ''acme'' ''sp1'' d' = Inl ErrNotFound"
proof -
  obtain r a where r: "lookup sample_db (mkey (tenant_pk ''acme'') (app_sk sample_id)) = Some r"
    "r_item r = AppItem ''sp1'' a" using sample_app_at by blast
  have nh: "no_hash sample_id" using app_create_ok [OF sample_create sample_rnd_ok] by simp
  have "fst (update_saml_config ''acme'' sample_id (sample_saml ''sp2'') sample_db) = Inr ()"
    by code_simp
  then obtain d' where u: "update_saml_config ''acme'' sample_id (sample_saml ''sp2'') sample_db = (Inr (), d')"
    by (cases "update_saml_config ''acme'' sample_id (sample_saml ''sp2'') sample_db") auto
  show ?thesis
    using entity_id_rename [OF sample_reach _ nh sample_no_fault r _ _ _ u] u
    by (simp add: sample_saml_def)
qed

text \<open>A create whose last write fails reports an error but leaves the application behind: the
  application stays registered and resolvable by its entity id, without SAML settings. Callers of
  the lookup therefore meet an application whose settings are absent.\<close>

lemma app_create_partial:
  assumes "cfg_reach d" and "no_hash slug" and "rnd_ok rnd" and "generate_id rnd = Inr i"
    and "sc_entity_id c \<noteq> []" and "\<not> app_uses d slug (sc_entity_id c)"
    and "lookup d (mkey (tenant_pk slug) (entity_unique_sk (sc_entity_id c))) = None"
    and "lookup d (mkey (tenant_pk slug) (app_saml_sk i)) = None"
    and "fault d = (\<lambda>op. op = OpPut (mkey (tenant_pk slug) (app_saml_sk i)))"
    and "app_create rnd now slug app (Some c) d = (x, d')"
  shows "x = Inl (Wrap ''failed to create SAML config'' ErrTransient) \<and>
    get_by_tenant_entity_id slug (sc_entity_id c) (d'\<lparr>fault := \<lambda>_. False\<rparr>) =
      Inr (app\<lparr>a_id := i, a_tenant_slug := slug, a_created_at := now, a_updated_at := now\<rparr>, None)"
proof -
  have i: "no_hash i" using generate_id_ok [OF assms(4,3)] by simp
  let ?r = "app_row (tenant_pk slug) (app_sk i) (entity_gsi_pk slug (sc_entity_id c))
      (tenant_pk slug) (sc_entity_id c)
      (app\<lparr>a_id := i, a_tenant_slug := slug, a_created_at := now, a_updated_at := now\<rparr>)"
  let ?d = "d'\<lparr>fault := \<lambda>_. False\<rparr>"
  have keys: "mkey (tenant_pk slug) (app_sk i) \<noteq> mkey (tenant_pk slug) (app_saml_sk i)"
    "mkey (tenant_pk slug) (app_saml_sk i) \<noteq> mkey (tenant_pk slug) (entity_unique_sk (sc_entity_id c))"
    "mkey (tenant_pk slug) (entity_unique_sk (sc_entity_id c)) \<noteq> mkey (tenant_pk slug) (app_saml_sk i)"
    using app_sk_hash [OF i, of i] by (simp_all add: mkey_same_inject sk_distinct sk_distinct_sym)
  have d': "x = Inl (Wrap ''failed to create SAML config'' ErrTransient)"
    "lookup d' (mkey (tenant_pk slug) (app_sk i)) = Some ?r"
    "lookup d' (mkey (tenant_pk slug) (app_saml_sk i)) = None"
    using assms(4,7-10) keys
    by (auto simp: app_create_def db_put_new_def db_put_def Let_def lookup_def update_conv)
  have inv: "store_inv ?d"
    using app_create_inv [OF cfg_reach_inv [OF assms(1)] assms(2,3), of now app "Some c"] assms(10)
    by (simp add: store_inv_fault)
  have "get_saml_config slug i ?d = Inl (Wrap ''failed to get SAML config'' ErrNotFound)"
    using d'(3) by (simp add: get_saml_config_def get_as_def db_get_def)
  then show ?thesis
    using d' get_by_entity_found [OF inv assms(2,5), of i ?r] by simp
qed

lemma app_create_partial_witness:
  "get_by_tenant_entity_id ''acme'' ''sp1''
     (snd (app_create sample_rnd 5 ''acme'' sample_app (Some (sample_saml ''sp1''))
        (empty_db\<lparr>fault := \<lambda>op. op = OpPut (mkey (tenant_pk ''acme'') (app_saml_sk sample_id))\<rparr>))
      \<lparr>fault := \<lambda>_. False\<rparr>) =
   Inr (sample_app\<lparr>a_id := sample_id, a_tenant_slug := ''acme'', a_created_at := 5,
          a_updated_at := 5\<rparr>, None)"
proof -
  have g: "generate_id sample_rnd = Inr sample_id"
    using app_create_ok [OF sample_create sample_rnd_ok] by simp
  show ?thesis
    using app_create_partial [OF reach_fault [OF reach_empty] _ sample_rnd_ok g, where slug = "''acme''"
        and c = "sample_saml ''sp1''" and app = sample_app and now = 5]
    by (simp add: sample_saml_def app_uses_def prod_eq_iff)
qed

end
