(* ===== verification/SessionItems.thy ===== *)
theory SessionItems
  imports ConfigItems
begin

text \<open>
  The rows of the session table: the structs with a \<^verbatim>\<open>dynamo\<close> key that
  \<^verbatim>\<open>internal/store\<close> (SAML sessions, replay records, pending logins, onboarding wizards, flow steps)
  and \<^verbatim>\<open>internal/oidc\<close> (authorization requests and codes, tokens, the session index) keep there,
  their keys, and the type invariant: the key of a row determines its kind. A row's TTL attribute,
  which the database reaps rows by, is kept as a field and read by nobody else.
\<close>

subsection \<open>SAML sessions and flows\<close>

record participant =
  sp_session_index :: string
  sp_entity_id :: string
  sp_user_id :: string
  sp_name_id :: string
  sp_created_at :: gotime
  sp_expires_at :: gotime

record revoked_session =
  rs_session_index :: string
  rs_revoked_at :: gotime
  rs_expires_at_epoch :: int

record replay_record =
  rr_request_id :: string
  rr_seen_at :: gotime
  rr_expires_at_epoch :: int

record pending_login =
  pl_flow_id :: string
  pl_protocol :: string
  pl_tenant_slug :: string
  pl_source_id :: string
  pl_app_id :: string
  pl_saml_request_b64 :: string
  pl_relay_state :: string
  pl_sp_entity_id :: string
  pl_auth_request_id :: string
  pl_created_at :: gotime
  pl_expires_at_epoch :: int

record onboarding_state =
  os_tenant_slug :: string
  os_current_step :: int
  os_capabilities :: "string list"
  os_external_id :: string
  os_iac_version :: int
  os_capability_map :: "(string \<times> bool) list"
  os_updated_at :: gotime

record flow_step =
  fs_flow_id :: string
  fs_sequence :: "64 word"
  fs_step_type :: string
  fs_sp_entity_id :: string
  fs_user_id :: string
  fs_timestamp :: gotime
  fs_payload :: "(string \<times> string) list"

subsection \<open>OpenID Connect\<close>

record auth_request =
  ar_id :: string
  ar_client_id :: string
  ar_redirect_uri :: string
  ar_scopes :: "string list"
  ar_state :: string
  ar_nonce :: string
  ar_response_type :: string
  ar_response_mode :: string
  ar_code_challenge :: "(string \<times> string) option"
  ar_created_at :: gotime
  ar_auth_time :: gotime
  ar_user_id :: string
  ar_is_done :: bool
  ar_tenant_slug :: string
  ar_source_id :: string
  ar_auth_code :: string
  ar_code_challenge_value :: string
  ar_code_challenge_method :: string
  ar_email :: string
  ar_given_name :: string
  ar_family_name :: string
  ar_email_verified :: bool
  ar_groups :: "string list"
  ar_custom_attributes :: "(string \<times> string) list"

text \<open>\<^verbatim>\<open>SubjectClaims\<close>, carried on each of the three stored records.\<close>

record subject_claims =
  c_sub :: string
  c_email :: string
  c_email_verified :: bool
  c_given_name :: string
  c_family_name :: string
  c_groups :: "string list"
  c_custom_attributes :: "(string \<times> string) list"

definition empty_claims :: subject_claims where
  "empty_claims = \<lparr>c_sub = [], c_email = [], c_email_verified = False, c_given_name = [],
     c_family_name = [], c_groups = [], c_custom_attributes = []\<rparr>"

text \<open>The subject of a token record is kept in its claims, as \<^verbatim>\<open>claims()\<close> rebuilds them.\<close>

record access_token =
  at_token_id :: string
  at_audience :: "string list"
  at_scopes :: "string list"
  at_client_id :: string
  at_expires_at :: gotime
  at_claims :: subject_claims

record refresh_token =
  rt_token :: string
  rt_client_id :: string
  rt_audience :: "string list"
  rt_scopes :: "string list"
  rt_amr :: "string list"
  rt_auth_time :: gotime
  rt_expires_at :: gotime
  rt_claims :: subject_claims

datatype token_type = TokAccess | TokRefresh

subsection \<open>The items\<close>

datatype ses_item =
    ParticipantItem int participant
  | RevokedItem revoked_session
  | ReplayItem replay_record
  | PendingItem pending_login
  | OnboardingItem int onboarding_state
  | FlowStepItem int string string flow_step
  | AuthReqItem int auth_request
  | AuthCodeItem int string
  | AccessItem int access_token
  | RefreshItem int refresh_token
  | IndexItem int token_type string

type_synonym ses_row = "ses_item row"
type_synonym ses_db = "ses_item db"

definition ses_row :: "string \<Rightarrow> string \<Rightarrow> ses_item \<Rightarrow> ses_row" where
  "ses_row pk sk i = \<lparr>r_pk = pk, r_sk = sk, r_gsi1pk = None, r_gsi1sk = [], r_item = i\<rparr>"

lemma row_key_ses_row [simp]: "row_key (ses_row pk sk i) = mkey pk sk"
  by (simp add: row_key_def ses_row_def)

lemma ses_row_sel [simp]:
  "r_pk (ses_row pk sk i) = pk" "r_sk (ses_row pk sk i) = sk" "r_item (ses_row pk sk i) = i"
  by (simp_all add: ses_row_def)

subsection \<open>Keys\<close>

definition session_pk :: "string \<Rightarrow> string" where "session_pk idx = ''SESSION#'' @ idx"
definition sp_sk :: "string \<Rightarrow> string" where "sp_sk e = ''SP#'' @ e"
definition revoked_session_sk :: string where "revoked_session_sk = ''REVOKED''"
definition replay_pk :: "string \<Rightarrow> string" where "replay_pk i = ''REPLAY#'' @ i"
definition pending_login_pk :: "string \<Rightarrow> string" where "pending_login_pk i = ''PENDINGLOGIN#'' @ i"
definition onboarding_state_sk :: string where "onboarding_state_sk = ''ONBOARDING#STATE''"
definition flow_pk :: "string \<Rightarrow> string \<Rightarrow> string" where
  "flow_pk slug flow = ''TENANT#'' @ slug @ ''#FLOW#'' @ flow"
definition flow_pk_prefix :: "string \<Rightarrow> string" where
  "flow_pk_prefix slug = ''TENANT#'' @ slug @ ''#FLOW#''"
definition auth_request_pk :: "string \<Rightarrow> string" where "auth_request_pk i = ''AUTHREQ#'' @ i"
definition auth_code_pk :: "string \<Rightarrow> string" where "auth_code_pk c = ''AUTHCODE#'' @ c"
definition access_token_pk :: "string \<Rightarrow> string" where "access_token_pk i = ''TOKEN#'' @ i"
definition refresh_token_pk :: "string \<Rightarrow> string" where "refresh_token_pk t = ''REFRESHTOKEN#'' @ t"
definition meta_sk :: string where "meta_sk = ''META''"
definition session_index_pk :: "string \<Rightarrow> string \<Rightarrow> string \<Rightarrow> string" where
  "session_index_pk tn subject cid = ''OIDCSESSION#t:'' @ tn @ ''#u:'' @ subject @ ''#c:'' @ cid"
definition session_index_sk :: "string \<Rightarrow> string" where "session_index_sk ref = ''TOKEN#'' @ ref"

lemmas ses_pk_defs = session_pk_def replay_pk_def pending_login_pk_def flow_pk_def tenant_pk_def
  auth_request_pk_def auth_code_pk_def access_token_pk_def refresh_token_pk_def session_index_pk_def

lemmas ses_sk_defs = sp_sk_def revoked_session_sk_def onboarding_state_sk_def meta_sk_def
  session_index_sk_def

text \<open>Keys of different kinds differ.\<close>

lemma ses_key_distinct [simp]:
  "mkey (access_token_pk a) x \<noteq> mkey (refresh_token_pk b) y"
  "mkey (access_token_pk a) x \<noteq> mkey (session_index_pk t u c) y"
  "mkey (access_token_pk a) x \<noteq> mkey (auth_request_pk b) y"
  "mkey (access_token_pk a) x \<noteq> mkey (auth_code_pk b) y"
  "mkey (refresh_token_pk a) x \<noteq> mkey (session_index_pk t u c) y"
  "mkey (refresh_token_pk a) x \<noteq> mkey (auth_request_pk b) y"
  "mkey (refresh_token_pk a) x \<noteq> mkey (auth_code_pk b) y"
  "mkey (auth_request_pk a) x \<noteq> mkey (auth_code_pk b) y"
  "mkey (auth_request_pk a) x \<noteq> mkey (session_index_pk t u c) y"
  "mkey (auth_code_pk a) x \<noteq> mkey (session_index_pk t u c) y"
  "mkey (session_pk a) x \<noteq> mkey (replay_pk b) y"
  "mkey (session_pk a) x \<noteq> mkey (pending_login_pk b) y"
  "mkey (replay_pk a) x \<noteq> mkey (pending_login_pk b) y"
  by (simp_all add: mkey_def ses_pk_defs)

lemmas ses_key_distinct_sym [simp] = ses_key_distinct [symmetric]

text \<open>A fixed sort key leaves the identifier readable from the key.\<close>

lemma ses_key_inject [simp]:
  "mkey (access_token_pk a) meta_sk = mkey (access_token_pk b) meta_sk \<longleftrightarrow> a = b"
  "mkey (refresh_token_pk a) meta_sk = mkey (refresh_token_pk b) meta_sk \<longleftrightarrow> a = b"
  "mkey (auth_request_pk a) meta_sk = mkey (auth_request_pk b) meta_sk \<longleftrightarrow> a = b"
  "mkey (auth_code_pk a) meta_sk = mkey (auth_code_pk b) meta_sk \<longleftrightarrow> a = b"
  "mkey (session_pk a) revoked_session_sk = mkey (session_pk b) revoked_session_sk \<longleftrightarrow> a = b"
  "mkey (replay_pk a) x = mkey (replay_pk b) x \<longleftrightarrow> a = b"
  "mkey (pending_login_pk a) x = mkey (pending_login_pk b) x \<longleftrightarrow> a = b"
  by (simp_all add: mkey_def ses_pk_defs)

text \<open>The index key determines its parts when they hold no separator.\<close>

lemma session_index_inject:
  assumes "no_hash t" "no_hash t'" "no_hash u" "no_hash u'" "no_hash c" "no_hash c'"
  shows "mkey (session_index_pk t u c) x = mkey (session_index_pk t' u' c') x' \<longleftrightarrow>
    t = t' \<and> u = u' \<and> c = c' \<and> x = x'"
proof -
  have "mkey (session_index_pk t u c) x = mkey (session_index_pk t' u' c') x' \<longleftrightarrow>
      t @ CHR ''#'' # (''u:'' @ u @ CHR ''#'' # (''c:'' @ c @ CHR ''#'' # x)) =
      t' @ CHR ''#'' # (''u:'' @ u' @ CHR ''#'' # (''c:'' @ c' @ CHR ''#'' # x'))"
    by (simp add: mkey_def session_index_pk_def)
  then show ?thesis using assms by (auto simp: append_sep_inject)
qed

lemma flow_pk_prefix_iff:
  assumes "no_hash a" "no_hash b"
  shows "has_prefix (flow_pk a f) (flow_pk_prefix b) \<longleftrightarrow> a = b"
proof
  assume "has_prefix (flow_pk a f) (flow_pk_prefix b)"
  then obtain r where "flow_pk a f = flow_pk_prefix b @ r" by (auto simp: has_prefix_iff)
  then have "a @ CHR ''#'' # (''FLOW#'' @ f) = b @ CHR ''#'' # (''FLOW#'' @ r)"
    by (simp add: flow_pk_def flow_pk_prefix_def)
  then show "a = b" using append_sep_inject [OF assms] by blast
qed (simp add: flow_pk_def flow_pk_prefix_def has_prefix_iff)

subsection \<open>Reading a row as a kind\<close>

definition as_participant :: "ses_row \<Rightarrow> participant option" where
  "as_participant r = (case r_item r of ParticipantItem _ p \<Rightarrow> Some p | _ \<Rightarrow> None)"
definition as_revoked :: "ses_row \<Rightarrow> revoked_session option" where
  "as_revoked r = (case r_item r of RevokedItem x \<Rightarrow> Some x | _ \<Rightarrow> None)"
definition as_replay :: "ses_row \<Rightarrow> replay_record option" where
  "as_replay r = (case r_item r of ReplayItem x \<Rightarrow> Some x | _ \<Rightarrow> None)"
definition as_pending :: "ses_row \<Rightarrow> pending_login option" where
  "as_pending r = (case r_item r of PendingItem x \<Rightarrow> Some x | _ \<Rightarrow> None)"
definition as_onboarding :: "ses_row \<Rightarrow> onboarding_state option" where
  "as_onboarding r = (case r_item r of OnboardingItem _ x \<Rightarrow> Some x | _ \<Rightarrow> None)"
definition as_flow :: "ses_row \<Rightarrow> flow_step option" where
  "as_flow r = (case r_item r of FlowStepItem _ _ _ x \<Rightarrow> Some x | _ \<Rightarrow> None)"
definition as_auth_req :: "ses_row \<Rightarrow> (int \<times> auth_request) option" where
  "as_auth_req r = (case r_item r of AuthReqItem t x \<Rightarrow> Some (t, x) | _ \<Rightarrow> None)"
definition as_auth_code :: "ses_row \<Rightarrow> string option" where
  "as_auth_code r = (case r_item r of AuthCodeItem _ x \<Rightarrow> Some x | _ \<Rightarrow> None)"
definition as_access :: "ses_row \<Rightarrow> access_token option" where
  "as_access r = (case r_item r of AccessItem _ x \<Rightarrow> Some x | _ \<Rightarrow> None)"
definition as_refresh :: "ses_row \<Rightarrow> refresh_token option" where
  "as_refresh r = (case r_item r of RefreshItem _ x \<Rightarrow> Some x | _ \<Rightarrow> None)"
definition as_index :: "ses_row \<Rightarrow> (token_type \<times> string) option" where
  "as_index r = (case r_item r of IndexItem _ t x \<Rightarrow> Some (t, x) | _ \<Rightarrow> None)"

lemmas as_ses_defs = as_participant_def as_revoked_def as_replay_def as_pending_def
  as_onboarding_def as_flow_def as_auth_req_def as_auth_code_def as_access_def as_refresh_def
  as_index_def

lemma as_ses_iff [simp]:
  "as_participant r = Some p \<longleftrightarrow> (\<exists>ttl. r_item r = ParticipantItem ttl p)"
  "as_revoked r = Some rv \<longleftrightarrow> r_item r = RevokedItem rv"
  "as_replay r = Some rp \<longleftrightarrow> r_item r = ReplayItem rp"
  "as_pending r = Some pl \<longleftrightarrow> r_item r = PendingItem pl"
  "as_onboarding r = Some ob \<longleftrightarrow> (\<exists>ttl. r_item r = OnboardingItem ttl ob)"
  "as_flow r = Some fs \<longleftrightarrow> (\<exists>ttl g h. r_item r = FlowStepItem ttl g h fs)"
  "as_auth_req r = Some tx \<longleftrightarrow> r_item r = AuthReqItem (fst tx) (snd tx)"
  "as_auth_code r = Some ac \<longleftrightarrow> (\<exists>ttl. r_item r = AuthCodeItem ttl ac)"
  "as_access r = Some at \<longleftrightarrow> (\<exists>ttl. r_item r = AccessItem ttl at)"
  "as_refresh r = Some rt \<longleftrightarrow> (\<exists>ttl. r_item r = RefreshItem ttl rt)"
  "as_index r = Some ti \<longleftrightarrow> (\<exists>ttl. r_item r = IndexItem ttl (fst ti) (snd ti))"
  by (auto simp: as_ses_defs split: ses_item.splits)

end
