(* ===== verification/SessionStore.thy ===== *)
theory SessionStore
  imports SessionItems ClaimStore
begin

text \<open>
  \<^verbatim>\<open>internal/store/session_store.go\<close>, \<^verbatim>\<open>replay_store.go\<close>, \<^verbatim>\<open>pending_login_store.go\<close> and
  \<^verbatim>\<open>onboarding_state_store.go\<close>: the short-lived records of the session table. Revocation markers and
  replay records share the contract \<open>expiring_marks\<close>: a mark stays visible until its own expiry,
  whatever other keys are marked meanwhile.
\<close>

subsection \<open>SAML sessions\<close>

definition revoked_session_ttl :: duration where
  "revoked_session_ttl = hours 9"

definition add_participant ::
  "gotime \<Rightarrow> string \<Rightarrow> string \<Rightarrow> string \<Rightarrow> string \<Rightarrow> gotime \<Rightarrow> ses_db \<Rightarrow> unit res \<times> ses_db" where
  "add_participant now idx sp user name_id expiry d =
     (case db_put (ses_row (session_pk idx) (sp_sk sp)
             (ParticipantItem (unix (expiry + hours 1))
               \<lparr>sp_session_index = idx, sp_entity_id = sp, sp_user_id = user, sp_name_id = name_id,
                sp_created_at = now, sp_expires_at = expiry\<rparr>)) d of
        (Inl e, d') \<Rightarrow> (Inl (Wrap ''failed to add session participant'' e), d')
      | (Inr _, d') \<Rightarrow> (Inr (), d'))"

definition get_participants :: "gotime \<Rightarrow> string \<Rightarrow> ses_db \<Rightarrow> participant list res" where
  "get_participants now idx d =
     (case query_or_empty (session_pk idx) ''SP#'' d of
        Inl e \<Rightarrow> Inl (Wrap ''failed to query session participants'' e)
      | Inr rows \<Rightarrow>
          Inr (filter (\<lambda>p. \<not> now > sp_expires_at p) (List.map_filter as_participant rows)))"

definition revoke_session :: "gotime \<Rightarrow> string \<Rightarrow> ses_db \<Rightarrow> unit res \<times> ses_db" where
  "revoke_session now idx d =
     (if idx = [] then (Inr (), d)
      else case db_put (ses_row (session_pk idx) revoked_session_sk
               (RevokedItem \<lparr>rs_session_index = idx, rs_revoked_at = now,
                             rs_expires_at_epoch = unix (now + revoked_session_ttl)\<rparr>)) d of
          (Inl e, d') \<Rightarrow> (Inl (Wrap ''failed to revoke session'' e), d')
        | (Inr _, d') \<Rightarrow> (Inr (), d'))"

definition is_session_revoked :: "gotime \<Rightarrow> string \<Rightarrow> ses_db \<Rightarrow> bool res" where
  "is_session_revoked now idx d =
     (if idx = [] then Inr False
      else case get_as as_revoked (session_pk idx) revoked_session_sk d of
          Inl e \<Rightarrow> if e = ErrNotFound then Inr False
                   else Inl (Wrap ''failed to check session revocation'' e)
        | Inr marker \<Rightarrow> if unix now > rs_expires_at_epoch marker then Inr False else Inr True)"

subsection \<open>Replay records\<close>

definition mark_seen :: "gotime \<Rightarrow> string \<Rightarrow> duration \<Rightarrow> ses_db \<Rightarrow> unit res \<times> ses_db" where
  "mark_seen now i ttl d =
     (case db_put_new (ses_row (replay_pk i) ''_''
             (ReplayItem \<lparr>rr_request_id = i, rr_seen_at = now,
                          rr_expires_at_epoch = unix (now + ttl)\<rparr>)) d of
        (Inl e, d') \<Rightarrow>
          (if errors_is e ErrConditionFailed then (Inl ErrConditionFailed, d')
           else (Inl (Wrap ''failed to mark request as seen'' e), d'))
      | (Inr _, d') \<Rightarrow> (Inr (), d'))"

definition is_seen :: "gotime \<Rightarrow> string \<Rightarrow> ses_db \<Rightarrow> bool res" where
  "is_seen now i d =
     (case get_as as_replay (replay_pk i) ''_'' d of
        Inl e \<Rightarrow> if e = ErrNotFound then Inr False
                 else Inl (Wrap ''failed to check if request was seen'' e)
      | Inr r \<Rightarrow> if unix now > rr_expires_at_epoch r then Inr False else Inr True)"

subsection \<open>Pending custom logins\<close>

definition pending_create :: "gotime \<Rightarrow> pending_login \<Rightarrow> duration \<Rightarrow> ses_db \<Rightarrow> unit res \<times> ses_db" where
  "pending_create now pl ttl d =
     (if pl_flow_id pl = [] then (Inl (ErrMsg ''pending login requires a flow ID''), d)
      else case db_put (ses_row (pending_login_pk (pl_flow_id pl)) ''_''
               (PendingItem (pl\<lparr>pl_created_at := now, pl_expires_at_epoch := unix (now + ttl)\<rparr>))) d of
          (Inl e, d') \<Rightarrow> (Inl (Wrap ''failed to store pending login'' e), d')
        | (Inr _, d') \<Rightarrow> (Inr (), d'))"

definition pending_get :: "gotime \<Rightarrow> string \<Rightarrow> ses_db \<Rightarrow> pending_login res" where
  "pending_get now flow d =
     (case get_as as_pending (pending_login_pk flow) ''_'' d of
        Inl e \<Rightarrow> Inl e
      | Inr pl \<Rightarrow> if unix now > pl_expires_at_epoch pl then Inl ErrNotFound else Inr pl)"

definition pending_delete :: "string \<Rightarrow> ses_db \<Rightarrow> unit res \<times> ses_db" where
  "pending_delete flow d = db_delete (pending_login_pk flow) ''_'' d"

subsection \<open>Onboarding wizards\<close>

definition onboarding_state_ttl :: duration where
  "onboarding_state_ttl = hours (7 * 24)"

definition onboarding_get :: "string \<Rightarrow> ses_db \<Rightarrow> onboarding_state res" where
  "onboarding_get slug d =
     (case get_as as_onboarding (tenant_pk slug) onboarding_state_sk d of
        Inl e \<Rightarrow> Inl (Wrap ''failed to get onboarding state'' e)
      | Inr s \<Rightarrow> Inr (s\<lparr>os_tenant_slug := slug\<rparr>))"

definition onboarding_put :: "gotime \<Rightarrow> onboarding_state option \<Rightarrow> ses_db \<Rightarrow> unit res \<times> ses_db" where
  "onboarding_put now st d =
     (case st of
        None \<Rightarrow> (Inl (ErrMsg ''onboarding state must have a tenant slug''), d)
      | Some s \<Rightarrow>
          if os_tenant_slug s = [] then (Inl (ErrMsg ''onboarding state must have a tenant slug''), d)
          else case db_put (ses_row (tenant_pk (os_tenant_slug s)) onboarding_state_sk
                   (OnboardingItem (unix (now + onboarding_state_ttl)) (s\<lparr>os_updated_at := now\<rparr>))) d of
              (Inl e, d') \<Rightarrow> (Inl (Wrap ''failed to put onboarding state'' e), d')
            | (Inr _, d') \<Rightarrow> (Inr (), d'))"

definition onboarding_delete :: "string \<Rightarrow> ses_db \<Rightarrow> unit res \<times> ses_db" where
  "onboarding_delete slug d =
     (case db_delete (tenant_pk slug) onboarding_state_sk d of
        (Inl e, d') \<Rightarrow> (Inl (Wrap ''failed to delete onboarding state'' e), d')
      | (Inr _, d') \<Rightarrow> (Inr (), d'))"

subsection \<open>The contract of expiring marks\<close>

text \<open>
  A key is marked at an instant for a lifetime and asked for later. A mark that was written is
  visible exactly until the second its lifetime ends; marking one key does not disturb another.
\<close>

locale expiring_marks =
  fixes mark :: "gotime \<Rightarrow> string \<Rightarrow> 'd \<Rightarrow> unit res \<times> 'd"
    and live :: "gotime \<Rightarrow> string \<Rightarrow> 'd \<Rightarrow> bool res"
    and readable :: "string \<Rightarrow> 'd \<Rightarrow> bool"
    and valid :: "string \<Rightarrow> bool"
    and lifetime :: duration
  assumes mark_live: "valid k \<Longrightarrow> readable k d \<Longrightarrow> mark t0 k d = (Inr (), d') \<Longrightarrow>
      live t k d' = Inr (unix t \<le> unix (t0 + lifetime))"
    and mark_other: "k' \<noteq> k \<Longrightarrow> live t k' (snd (mark t0 k d)) = live t k' d"
    and mark_readable: "readable k' (snd (mark t0 k d)) = readable k' d"
begin

text \<open>Marks of other keys, in any number and whether they succeed or not.\<close>

fun mark_all :: "(gotime \<times> string) list \<Rightarrow> 'd \<Rightarrow> 'd" where
  "mark_all [] d = d"
| "mark_all ((t, k) # ms) d = mark_all ms (snd (mark t k d))"

lemma mark_all_other:
  "k \<notin> snd ` set ms \<Longrightarrow> live t k (mark_all ms d) = live t k d"
  by (induction ms d rule: mark_all.induct) (auto simp: mark_other)

lemma mark_survives:
  assumes "valid k" and "readable k d" and "mark t0 k d = (Inr (), d')" and "k \<notin> snd ` set ms"
  shows "live t k (mark_all ms d') = Inr (unix t \<le> unix (t0 + lifetime))"
  using mark_live [OF assms(1-3)] mark_all_other [OF assms(4)] by simp

end

lemma get_as_put_other:
  "row_key r \<noteq> mkey pk sk \<Longrightarrow> get_as f pk sk (snd (db_put r d)) = get_as f pk sk d"
  using mem.put_keeps [of "mkey pk sk" r d] by (simp add: get_as_def db_get_def)

lemma get_as_put_new_other:
  "row_key r \<noteq> mkey pk sk \<Longrightarrow> get_as f pk sk (snd (db_put_new r d)) = get_as f pk sk d"
  using mem.put_new_keeps [of "mkey pk sk" r d] by (simp add: get_as_def db_get_def)

lemma snd_wrap_put:
  "snd (case p of (Inl e, d') \<Rightarrow> (Inl (f e), d') | (Inr x, d') \<Rightarrow> (Inr (g x), d')) = snd p"
  by (simp split: prod.split sum.split)

lemma revoke_snd:
  "snd (revoke_session now idx d) = (if idx = [] then d else
     snd (db_put (ses_row (session_pk idx) revoked_session_sk
       (RevokedItem \<lparr>rs_session_index = idx, rs_revoked_at = now,
          rs_expires_at_epoch = unix (now + revoked_session_ttl)\<rparr>)) d))"
  by (simp add: revoke_session_def snd_wrap_put)

lemma mark_seen_snd:
  "snd (mark_seen now i ttl d) = snd (db_put_new (ses_row (replay_pk i) ''_''
     (ReplayItem \<lparr>rr_request_id = i, rr_seen_at = now, rr_expires_at_epoch = unix (now + ttl)\<rparr>)) d)"
  by (simp add: mark_seen_def split: prod.split sum.split)

interpretation revocation: expiring_marks revoke_session is_session_revoked
  "\<lambda>k d. \<not> fault d (OpGet (mkey (session_pk k) revoked_session_sk))" "\<lambda>k. k \<noteq> []" revoked_session_ttl
proof
  fix k and d :: ses_db and t0 d' t
  assume a: "k \<noteq> []" "\<not> fault d (OpGet (mkey (session_pk k) revoked_session_sk))"
    "revoke_session t0 k d = (Inr (), d')"
  let ?r = "ses_row (session_pk k) revoked_session_sk (RevokedItem \<lparr>rs_session_index = k,
      rs_revoked_at = t0, rs_expires_at_epoch = unix (t0 + revoked_session_ttl)\<rparr>)"
  have p: "db_put ?r d = (Inr (), d')"
    using a by (auto simp: revoke_session_def split: prod.splits sum.splits)
  have "fault d' = fault d" using p db_put_fault by (metis snd_conv)
  then show "is_session_revoked t k d' = Inr (unix t \<le> unix (t0 + revoked_session_ttl))"
    using a db_put_ok [OF p, of "mkey (session_pk k) revoked_session_sk"]
    by (auto simp: is_session_revoked_def get_as_def db_get_def as_revoked_def)
next
  show "is_session_revoked t k' (snd (revoke_session t0 k d)) = is_session_revoked t k' d"
    if "k' \<noteq> k" for k' k t t0 and d :: ses_db
    using that by (simp add: is_session_revoked_def revoke_snd get_as_put_other)
  show "(\<not> fault (snd (revoke_session t0 k d)) (OpGet (mkey (session_pk k') revoked_session_sk))) =
      (\<not> fault d (OpGet (mkey (session_pk k') revoked_session_sk)))" for k' t0 k and d :: ses_db
    by (simp add: revoke_snd)
qed

lemma replay_marks:
  "expiring_marks (\<lambda>t k. mark_seen t k ttl) is_seen
     (\<lambda>k d. \<not> fault d (OpGet (mkey (replay_pk k) ''_''))) (\<lambda>k. True) ttl"
proof
  fix k and d :: ses_db and t0 d' t
  assume a: "True" "\<not> fault d (OpGet (mkey (replay_pk k) ''_''))" "mark_seen t0 k ttl d = (Inr (), d')"
  let ?r = "ses_row (replay_pk k) ''_''
      (ReplayItem \<lparr>rr_request_id = k, rr_seen_at = t0, rr_expires_at_epoch = unix (t0 + ttl)\<rparr>)"
  have p: "db_put_new ?r d = (Inr (), d')"
    using a by (auto simp: mark_seen_def split: prod.splits sum.splits if_splits)
  have "fault d' = fault d" using p db_put_new_fault by (metis snd_conv)
  then show "is_seen t k d' = Inr (unix t \<le> unix (t0 + ttl))"
    using a db_put_new_ok [OF p, of "mkey (replay_pk k) ''_''"]
    by (auto simp: is_seen_def get_as_def db_get_def as_replay_def)
next
  show "is_seen t k' (snd (mark_seen t0 k ttl d)) = is_seen t k' d"
    if "k' \<noteq> k" for k' k t t0 and d :: ses_db
    using that by (simp add: is_seen_def mark_seen_snd get_as_put_new_other)
  show "(\<not> fault (snd (mark_seen t0 k ttl d)) (OpGet (mkey (replay_pk k') ''_''))) =
      (\<not> fault d (OpGet (mkey (replay_pk k') ''_'')))" for k' t0 k and d :: ses_db
    by (simp add: mark_seen_snd)
qed

interpretation replay: expiring_marks "\<lambda>t k. mark_seen t k ttl" is_seen
  "\<lambda>k d. \<not> fault d (OpGet (mkey (replay_pk k) ''_''))" "\<lambda>k. True" ttl for ttl
  by (rule replay_marks)

subsection \<open>Properties\<close>

text \<open>A revoked session stays revoked until nine hours after the revocation, to the second, whatever
  other sessions are revoked in between; a failing read is an error, never "not revoked".\<close>

lemma revocation_holds:
  assumes "idx \<noteq> []" and "\<not> fault d (OpGet (mkey (session_pk idx) revoked_session_sk))"
    and "revoke_session t0 idx d = (Inr (), d')" and "idx \<notin> snd ` set ms"
  shows "is_session_revoked t idx (revocation.mark_all ms d') = Inr (unix t \<le> unix t0 + 9 * 3600)"
  using revocation.mark_survives [OF assms, of t] by (simp add: revoked_session_ttl_def unix_add_hours)

lemma revocation_holds_witness:
  "is_session_revoked (hours 9) ''ix'' (revocation.mark_all [(5, ''other'')]
     (snd (revoke_session 0 ''ix'' empty_db))) = Inr True"
proof -
  have "revoke_session 0 ''ix'' empty_db = (Inr (), snd (revoke_session 0 ''ix'' empty_db))"
    by (simp add: revoke_session_def db_put_def empty_db_def session_pk_def)
  from revocation_holds [OF _ _ this, of "[(5, ''other'')]" "hours 9"]
  show ?thesis by (simp add: empty_db_def unix_def hours_def)
qed

text \<open>A SAML session may be configured for up to 24 hours, longer than the nine hours a revocation
  marker is honoured: ten hours after its revocation a session of the maximum length has not
  expired and is not reported as revoked.\<close>

lemma revocation_lapses:
  assumes "idx \<noteq> []" and "\<not> fault d (OpGet (mkey (session_pk idx) revoked_session_sk))"
    and "revoke_session t0 idx d = (Inr (), d')"
  shows "is_session_revoked (t0 + hours 10) idx d' = Inr False \<and>
    t0 + hours 10 < t0 + seconds session_duration_max_sec"
proof -
  have "is_session_revoked (t0 + hours 10) idx d' = Inr False"
    using revocation.mark_live [OF assms, of "t0 + hours 10"]
    by (simp add: revoked_session_ttl_def unix_add_hours)
  then show ?thesis by (simp add: hours_def seconds_def session_duration_max_sec_def)
qed

lemma revocation_lapses_witness:
  "is_session_revoked (0 + hours 10) ''ix'' (snd (revoke_session 0 ''ix'' empty_db)) = Inr False"
proof -
  have "revoke_session 0 ''ix'' empty_db = (Inr (), snd (revoke_session 0 ''ix'' empty_db))"
    by (simp add: revoke_session_def db_put_def empty_db_def session_pk_def)
  from revocation_lapses [OF _ _ this] show ?thesis by (simp add: empty_db_def)
qed

text \<open>Of the callers that present one request id, at most one is told to go on: once a \<^verbatim>\<open>MarkSeen\<close>
  succeeded, every later one for the id is refused, at any time while the table keeps the record,
  with any lifetime and whatever other ids were marked in between; the refusal is
  \<open>ErrConditionFailed\<close> when the backend answers.\<close>

lemma mark_seen_once:
  assumes "mark_seen t0 i ttl d = (Inr (), d')" and "i \<notin> snd ` set ms"
  shows "fst (mark_seen t i ttl' (replay.mark_all ttl'' ms d')) \<noteq> Inr () \<and>
    (\<not> fault (replay.mark_all ttl'' ms d') (OpPutNew (mkey (replay_pk i) ''_'')) \<longrightarrow>
       mark_seen t i ttl' (replay.mark_all ttl'' ms d') =
         (Inl ErrConditionFailed, replay.mark_all ttl'' ms d'))"
proof -
  have "lookup d' (mkey (replay_pk i) ''_'') \<noteq> None"
    using assms(1) db_put_new_ok [where k = "mkey (replay_pk i) ''_''"]
    by (fastforce simp: mark_seen_def split: prod.splits sum.splits if_splits)
  moreover have "lookup (replay.mark_all ttl'' ms d2) (mkey (replay_pk i) ''_'') =
      lookup d2 (mkey (replay_pk i) ''_'')" for d2
    using assms(2)
  proof (induction ms arbitrary: d2)
    case (Cons tk ms)
    obtain t k where tk: "tk = (t, k)" by (cases tk)
    show ?case
      using Cons tk mem.put_new_keeps [of "mkey (replay_pk i) ''_''" "ses_row (replay_pk k) ''_''
          (ReplayItem \<lparr>rr_request_id = k, rr_seen_at = t, rr_expires_at_epoch = unix (t + ttl'')\<rparr>)" d2]
      by (simp add: mark_seen_snd)
  qed simp
  ultimately obtain r where "lookup (replay.mark_all ttl'' ms d') (mkey (replay_pk i) ''_'') = Some r"
    by force
  then show ?thesis by (auto simp: mark_seen_def db_put_new_def replay_pk_def)
qed

lemma mark_seen_once_witness:
  "mark_seen 9 ''id1'' 60 (replay.mark_all 60 [(7, ''id2'')] (snd (mark_seen 5 ''id1'' 60 empty_db))) =
     (Inl ErrConditionFailed, replay.mark_all 60 [(7, ''id2'')] (snd (mark_seen 5 ''id1'' 60 empty_db)))"
proof -
  have m: "mark_seen 5 ''id1'' 60 empty_db = (Inr (), snd (mark_seen 5 ''id1'' 60 empty_db))"
    by (simp add: mark_seen_def db_put_new_def empty_db_def replay_pk_def lookup_def)
  have "fault (replay.mark_all 60 [(7, ''id2'')] (snd (mark_seen 5 ''id1'' 60 empty_db))) = (\<lambda>_. False)"
    by (simp add: mark_seen_snd empty_db_def)
  then show ?thesis using mark_seen_once [OF m, of "[(7, ''id2'')]" 9 60 60] by simp
qed

text \<open>A pending login can be fetched with exactly the context it was stored with until its lifetime
  ends, and never after it was consumed.\<close>

lemma pending_login_lifecycle:
  assumes "pending_create t0 pl ttl d = (Inr (), d')" and "\<forall>op. \<not> fault d op"
  shows "pending_get t (pl_flow_id pl) d' =
      (if unix t \<le> unix (t0 + ttl)
       then Inr (pl\<lparr>pl_created_at := t0, pl_expires_at_epoch := unix (t0 + ttl)\<rparr>)
       else Inl ErrNotFound) \<and>
    pending_get t (pl_flow_id pl) (snd (pending_delete (pl_flow_id pl) d')) = Inl ErrNotFound"
proof -
  let ?r = "ses_row (pending_login_pk (pl_flow_id pl)) ''_''
      (PendingItem (pl\<lparr>pl_created_at := t0, pl_expires_at_epoch := unix (t0 + ttl)\<rparr>))"
  have p: "db_put ?r d = (Inr (), d')"
    using assms(1) by (auto simp: pending_create_def split: prod.splits sum.splits if_splits)
  have f: "fault d' = fault d" using p db_put_fault by (metis snd_conv)
  have l: "lookup d' (mkey (pending_login_pk (pl_flow_id pl)) ''_'') = Some ?r"
    using db_put_ok [OF p, of "mkey (pending_login_pk (pl_flow_id pl)) ''_''"] by simp
  show ?thesis
    using f l assms(2)
    by (simp add: pending_get_def pending_delete_def get_as_def db_get_def as_pending_def db_delete_lookup)
qed

definition sample_pending :: pending_login where
  "sample_pending = \<lparr>pl_flow_id = ''f1'', pl_protocol = ''oidc'', pl_tenant_slug = ''acme'',
     pl_source_id = ''s1'', pl_app_id = ''a1'', pl_saml_request_b64 = [], pl_relay_state = [],
     pl_sp_entity_id = [], pl_auth_request_id = ''r1'', pl_created_at = 0, pl_expires_at_epoch = 0\<rparr>"

lemma pending_login_lifecycle_witness:
  "pending_get 0 ''f1'' (snd (pending_create 0 sample_pending (minutes 10) empty_db)) =
     Inr (sample_pending\<lparr>pl_created_at := 0, pl_expires_at_epoch := 600\<rparr>)"
proof -
  have "pending_create 0 sample_pending (minutes 10) empty_db =
      (Inr (), snd (pending_create 0 sample_pending (minutes 10) empty_db))"
    by (simp add: pending_create_def db_put_def empty_db_def sample_pending_def pending_login_pk_def)
  from pending_login_lifecycle [OF this, of 0] show ?thesis
    by (simp add: empty_db_def sample_pending_def unix_def minutes_def)
qed

end
