(* ===== verification/AuditStore.thy ===== *)
theory AuditStore
  imports SessionStore "HOL-Library.Product_Lexorder" "HOL-Library.Sublist"
begin

text \<open>
  \<^verbatim>\<open>internal/store/audit_store.go\<close>: the flow steps of a tenant in the session table. The
  process-local sequence counter is state beside the table and wraps at 64 bits.
\<close>

subsection \<open>Sort keys\<close>

text \<open>The layout \<^verbatim>\<open>2006-01-02T15:04:05.000000000Z07:00\<close> of a UTC instant.\<close>

fun dec_digits :: "nat \<Rightarrow> nat \<Rightarrow> string" where
  "dec_digits 0 n = []"
| "dec_digits (Suc w) n = dec_digits w (n div 10) @ [char_of (48 + n mod 10)]"

text \<open>Year, month and day of a day number, in the proleptic Gregorian calendar.\<close>

definition civil :: "int \<Rightarrow> int \<times> int \<times> int" where
  "civil days =
     (let z = days + 719468; era = z div 146097; doe = z mod 146097;
          yoe = (doe - doe div 1460 + doe div 36524 - doe div 146096) div 365;
          doy = doe - (365 * yoe + yoe div 4 - yoe div 100);
          mp = (5 * doy + 2) div 153;
          dd = doy - (153 * mp + 2) div 5 + 1;
          mm = (if mp < 10 then mp + 3 else mp - 9)
      in (yoe + era * 400 + (if mm \<le> 2 then 1 else 0), mm, dd))"

definition step_time :: "gotime \<Rightarrow> string" where
  "step_time t =
     (let s = unix t; sod = s mod 86400 in
      case civil (s div 86400) of (y, mo, dd) \<Rightarrow>
        dec_digits 4 (nat y) @ ''-'' @ dec_digits 2 (nat mo) @ ''-'' @ dec_digits 2 (nat dd) @ ''T'' @
        dec_digits 2 (nat (sod div 3600)) @ '':'' @ dec_digits 2 (nat (sod div 60 mod 60)) @ '':'' @
        dec_digits 2 (nat (sod mod 60)) @ ''.'' @ dec_digits 9 (nat (t mod nanos_per_sec)) @ ''Z'')"

text \<open>The random suffix, or the nanosecond count as sixteen hexadecimal digits.\<close>

fun hex_digits :: "nat \<Rightarrow> nat \<Rightarrow> string" where
  "hex_digits 0 n = []"
| "hex_digits (Suc w) n = hex_digits w (n div 16) @ [''0123456789abcdef'' ! (n mod 16)]"

definition step_sort_key :: "8 word list option \<Rightarrow> gotime \<Rightarrow> string" where
  "step_sort_key rnd now =
     ''STEP#'' @ step_time now @ ''#'' @
     (case rnd of
        None \<Rightarrow> hex_digits 16 (unat (word_of_int now :: 64 word))
      | Some bs \<Rightarrow> concat (map hex_byte bs))"

subsection \<open>Operations\<close>

record audit_state =
  seq_num :: "64 word"
  audit_db :: ses_db

definition log_step ::
  "gotime \<Rightarrow> 8 word list option \<Rightarrow> string \<Rightarrow> string \<Rightarrow> string \<Rightarrow> string \<Rightarrow> string \<Rightarrow>
     (string \<times> string) list \<Rightarrow> audit_state \<Rightarrow> unit res \<times> audit_state" where
  "log_step now rnd slug flow step_type sp user payload st =
     (let seq = seq_num st + 1;
          row = ses_row (flow_pk slug flow) (step_sort_key rnd now)
            (FlowStepItem (unix (now + hours 24)) (''USER#'' @ user) (''FLOW#'' @ flow)
              \<lparr>fs_flow_id = flow, fs_sequence = seq, fs_step_type = step_type,
               fs_sp_entity_id = sp, fs_user_id = user, fs_timestamp = now, fs_payload = payload\<rparr>)
      in case db_put row (audit_db st) of
          (Inl e, d') \<Rightarrow> (Inl (Wrap ''failed to log flow step'' e),
                           st\<lparr>seq_num := seq, audit_db := d'\<rparr>)
        | (Inr _, d') \<Rightarrow> (Inr (), st\<lparr>seq_num := seq, audit_db := d'\<rparr>))"

definition get_flow :: "string \<Rightarrow> string \<Rightarrow> ses_db \<Rightarrow> flow_step list res" where
  "get_flow slug flow d =
     (case query_or_empty (flow_pk slug flow) ''STEP#'' d of
        Inl e \<Rightarrow> Inl (Wrap ''failed to query flow steps'' e)
      | Inr rows \<Rightarrow> Inr (List.map_filter as_flow rows))"

text \<open>
  Most recent first, ties by the higher sequence number. \<^verbatim>\<open>sort.Slice\<close> may order steps that agree in
  both arbitrarily; the model keeps them in scan order.
\<close>

definition recency :: "flow_step \<Rightarrow> int \<times> int" where
  "recency s = (- fs_timestamp s, - uint (fs_sequence s))"

definition get_recent_steps :: "string \<Rightarrow> int \<Rightarrow> ses_db \<Rightarrow> flow_step list res" where
  "get_recent_steps slug limit d =
     (if limit \<le> 0 then Inr []
      else case db_scan (flow_pk_prefix slug) d of
          Inl e \<Rightarrow> Inl (Wrap ''failed to scan flow steps'' e)
        | Inr rows \<Rightarrow> Inr (take (nat limit) (sort_key recency (List.map_filter as_flow rows))))"

subsection \<open>The partition of a tenant\<close>

text \<open>Every flow step lives in the partition of the tenant it was logged for.\<close>

definition flow_slug :: "ses_row \<Rightarrow> string" where
  "flow_slug r = takeWhile (\<lambda>c. c \<noteq> CHR ''#'') (drop 7 (r_pk r))"

definition flow_row_ok :: "ses_row \<Rightarrow> bool" where
  "flow_row_ok r \<longleftrightarrow>
     (case r_item r of
        FlowStepItem ttl g h s \<Rightarrow>
          no_hash (flow_slug r) \<and> r_pk r = flow_pk (flow_slug r) (fs_flow_id s) \<and>
          has_prefix (r_sk r) ''STEP#''
      | _ \<Rightarrow> True)"

definition audit_inv :: "ses_db \<Rightarrow> bool" where
  "audit_inv d \<longleftrightarrow> db_wf d \<and> list_all (\<lambda>kr. flow_row_ok (snd kr)) (data d)"

lemma audit_inv_empty [simp]: "audit_inv empty_db"
  by (simp add: audit_inv_def) (simp add: empty_db_def)

lemma audit_inv_row: "audit_inv d \<Longrightarrow> lookup d k = Some r \<Longrightarrow> flow_row_ok r"
  using in_data_lookup [of d k r] by (auto simp: audit_inv_def list_all_iff)

lemma audit_inv_put: "audit_inv d \<Longrightarrow> flow_row_ok r \<Longrightarrow> audit_inv (snd (db_put r d))"
  by (auto simp: audit_inv_def db_wf_put)
    (auto simp: db_put_def list_all_iff dest!: set_alist_update)

lemma flow_slug_flow_pk: "no_hash slug \<Longrightarrow> r_pk r = flow_pk slug f \<Longrightarrow> flow_slug r = slug"
  by (auto simp: flow_slug_def flow_pk_def takeWhile_append)

lemma log_step_inv:
  assumes "audit_inv (audit_db st)" and "no_hash slug"
  shows "audit_inv (audit_db (snd (log_step now rnd slug flow ty sp user pl st)))"
proof -
  let ?r = "ses_row (flow_pk slug flow) (step_sort_key rnd now)
      (FlowStepItem (unix (now + hours 24)) (''USER#'' @ user) (''FLOW#'' @ flow)
        \<lparr>fs_flow_id = flow, fs_sequence = seq_num st + 1, fs_step_type = ty,
         fs_sp_entity_id = sp, fs_user_id = user, fs_timestamp = now, fs_payload = pl\<rparr>)"
  have s: "flow_slug ?r = slug" by (rule flow_slug_flow_pk [OF assms(2)]) simp
  have "has_prefix (step_sort_key rnd now) ''STEP#''"
    unfolding step_sort_key_def by (rule has_prefix_append)
  then have "flow_row_ok ?r" using assms(2) s by (simp add: flow_row_ok_def)
  from audit_inv_put [OF assms(1) this] show ?thesis
    by (cases "db_put ?r (audit_db st)"; cases "fst (db_put ?r (audit_db st))") (simp_all add: log_step_def)
qed

lemma map_filter_flow_mem:
  "s \<in> set (List.map_filter as_flow rows) \<longleftrightarrow> (\<exists>r\<in>set rows. \<exists>ttl g h. r_item r = FlowStepItem ttl g h s)"
  by (auto simp: set_map_filter_iff)

subsection \<open>Properties\<close>

text \<open>The recent steps of a tenant are steps of that tenant only, at most \<open>limit\<close> many, most recent
  first, and no step left out is more recent than one returned.\<close>

lemma recent_steps_tenant:
  assumes "audit_inv d" and "no_hash slug" and "get_recent_steps slug limit d = Inr steps"
  shows "length steps \<le> nat limit \<and>
    sorted (map recency steps) \<and>
    (\<forall>s\<in>set steps. \<exists>r ttl g h. lookup d (row_key r) = Some r \<and> r_item r = FlowStepItem ttl g h s \<and>
        r_pk r = flow_pk slug (fs_flow_id s)) \<and>
    (\<forall>r ttl g h s s'. lookup d (row_key r) = Some r \<longrightarrow> r_item r = FlowStepItem ttl g h s \<longrightarrow>
        r_pk r = flow_pk slug (fs_flow_id s) \<longrightarrow> s \<notin> set steps \<longrightarrow> s' \<in> set steps \<longrightarrow>
        recency s' \<le> recency s)"
proof (cases "limit \<le> 0")
  case True
  then show ?thesis using assms(3) by (simp add: get_recent_steps_def)
next
  case False
  then obtain rows where rows: "db_scan (flow_pk_prefix slug) d = Inr rows"
    "steps = take (nat limit) (sort_key recency (List.map_filter as_flow rows))"
    using assms(3) by (auto simp: get_recent_steps_def split: sum.splits)
  let ?all = "sort_key recency (List.map_filter as_flow rows)"
  have wf: "db_wf d" using assms(1) by (simp add: audit_inv_def)
  have mem: "r \<in> set rows \<longleftrightarrow> lookup d (row_key r) = Some r \<and> has_prefix (r_pk r) (flow_pk_prefix slug)" for r
    by (rule db_scan_set [OF wf rows(1)])
  have own: "r_pk r = flow_pk slug (fs_flow_id s)"
    if "r \<in> set rows" "r_item r = FlowStepItem ttl g h s" for r ttl g h s
  proof -
    have "no_hash (flow_slug r)" "r_pk r = flow_pk (flow_slug r) (fs_flow_id s)"
      using audit_inv_row [OF assms(1), of "row_key r" r] that mem by (auto simp: flow_row_ok_def)
    then show ?thesis
      using that(1) mem flow_pk_prefix_iff [of "flow_slug r" slug "fs_flow_id s"] assms(2) by auto
  qed
  have sorted_all: "sorted (map recency ?all)" by simp
  have "length steps \<le> nat limit" by (simp add: rows(2))
  moreover have "sorted (map recency steps)"
    using sorted_all unfolding rows(2) take_map [symmetric] by (rule sorted_wrt_take)
  moreover have "\<exists>r ttl g h. lookup d (row_key r) = Some r \<and> r_item r = FlowStepItem ttl g h s \<and>
        r_pk r = flow_pk slug (fs_flow_id s)" if "s \<in> set steps" for s
  proof -
    have "s \<in> set (List.map_filter as_flow rows)"
      using that set_take_subset [of "nat limit" ?all] by (auto simp: rows(2))
    then show ?thesis using mem own by (fastforce simp: map_filter_flow_mem)
  qed
  moreover have "recency s' \<le> recency s"
    if r: "lookup d (row_key r) = Some r" "r_item r = FlowStepItem ttl g h s"
      "r_pk r = flow_pk slug (fs_flow_id s)" and s: "s \<notin> set steps" "s' \<in> set steps"
    for r ttl g h s s'
  proof -
    have "has_prefix (r_pk r) (flow_pk_prefix slug)"
      using r(3) flow_pk_prefix_iff [OF assms(2) assms(2)] by simp
    then have "r \<in> set rows" using r(1) mem by simp
    then have "s \<in> set ?all" unfolding set_sort map_filter_flow_mem using r(2) by blast
    then have "s \<in> set (drop (nat limit) ?all)"
      using s(1) by (metis UnE append_take_drop_id rows(2) set_append)
    moreover have "sorted (map recency (take (nat limit) ?all) @ map recency (drop (nat limit) ?all))"
      using sorted_all by (metis append_take_drop_id map_append)
    ultimately show ?thesis using s(2) by (auto simp: rows(2) sorted_append)
  qed
  ultimately show ?thesis by blast
qed

definition sample_audit :: audit_state where
  "sample_audit = snd (log_step 9 (Some [1]) ''acme'' ''f1'' ''A'' ''sp'' ''u'' []
     (snd (log_step 5 (Some [2]) ''beta'' ''f1'' ''B'' ''sp'' ''u'' []
        \<lparr>seq_num = 0, audit_db = empty_db\<rparr>)))"

text \<open>Reading a flow returns exactly the steps logged for that flow of that tenant: a flow id of
  another tenant reads as empty.\<close>

lemma get_flow_tenant:
  assumes "audit_inv d" and "no_hash slug" and "no_hash flow" and "get_flow slug flow d = Inr steps"
    and "\<forall>r ttl g h s. lookup d (row_key r) = Some r \<longrightarrow> r_item r = FlowStepItem ttl g h s \<longrightarrow>
      no_hash (fs_flow_id s)"
  shows "s \<in> set steps \<longleftrightarrow>
    (\<exists>r ttl g h. lookup d (row_key r) = Some r \<and> r_item r = FlowStepItem ttl g h s \<and>
       r_pk r = flow_pk slug flow)"
proof -
  obtain rows where rows: "db_query (flow_pk slug flow) ''STEP#'' d = Inr rows"
    "steps = List.map_filter as_flow rows"
    using assms(4) by (auto simp: get_flow_def query_or_empty_Inr split: sum.splits)
  have wf: "db_wf d" using assms(1) by (simp add: audit_inv_def)
  have key: "has_prefix (row_key r) (flow_pk slug flow @ ''#'') \<longleftrightarrow> r_pk r = flow_pk slug flow"
    if r: "lookup d (row_key r) = Some r" "r_item r = FlowStepItem ttl g h s" for r ttl g h s
  proof -
    have ok: "no_hash (flow_slug r)" "r_pk r = flow_pk (flow_slug r) (fs_flow_id s)"
      using audit_inv_row [OF assms(1) r(1)] r(2) by (auto simp: flow_row_ok_def)
    have nf: "no_hash (fs_flow_id s)" using assms(5) r by blast
    show ?thesis
    proof
      assume "has_prefix (row_key r) (flow_pk slug flow @ ''#'')"
      then obtain x where "row_key r = flow_pk slug flow @ ''#'' @ x" by (auto simp: has_prefix_iff)
      then have "flow_slug r @ CHR ''#'' # (''FLOW#'' @ fs_flow_id s @ CHR ''#'' # r_sk r) =
          slug @ CHR ''#'' # (''FLOW#'' @ flow @ CHR ''#'' # x)"
        using ok by (simp add: row_key_def mkey_def flow_pk_def)
      then have "flow_slug r = slug" "fs_flow_id s @ CHR ''#'' # r_sk r = flow @ CHR ''#'' # x"
        using append_sep_inject [OF ok(1) assms(2)] by auto
      then show "r_pk r = flow_pk slug flow"
        using ok append_sep_inject [OF nf assms(3)] by simp
    next
      assume "r_pk r = flow_pk slug flow"
      then show "has_prefix (row_key r) (flow_pk slug flow @ ''#'')"
        by (simp add: row_key_def mkey_def has_prefix_iff)
    qed
  qed
  have sk: "has_prefix (r_sk r) ''STEP#''"
    if "lookup d (row_key r) = Some r" "r_item r = FlowStepItem ttl g h s" for r ttl g h s
    using audit_inv_row [OF assms(1) that(1)] that(2) by (simp add: flow_row_ok_def)
  have mem: "r \<in> set rows \<longleftrightarrow> lookup d (row_key r) = Some r \<and>
      has_prefix (row_key r) (flow_pk slug flow @ ''#'') \<and> has_prefix (r_sk r) ''STEP#''" for r
    using db_query_set [OF wf rows(1), of r] by simp
  show ?thesis
    unfolding rows(2) map_filter_flow_mem Bex_def mem using key sk by blast
qed

lemma get_flow_tenant_witness:
  "\<exists>steps. get_flow ''acme'' ''f1'' (snd (db_put (ses_row (flow_pk ''acme'' ''f1'') ''STEP#1''
       (FlowStepItem 0 [] [] \<lparr>fs_flow_id = ''f1'', fs_sequence = 1, fs_step_type = ''A'',
          fs_sp_entity_id = [], fs_user_id = [], fs_timestamp = 9, fs_payload = []\<rparr>)) empty_db)) = Inr steps \<and>
     set steps \<noteq> {}"
proof -
  let ?s = "\<lparr>fs_flow_id = ''f1'', fs_sequence = 1, fs_step_type = ''A'',
          fs_sp_entity_id = [], fs_user_id = [], fs_timestamp = 9, fs_payload = []\<rparr>"
  let ?r = "ses_row (flow_pk ''acme'' ''f1'') ''STEP#1'' (FlowStepItem 0 [] [] ?s)"
  let ?d = "snd (db_put ?r empty_db)"
  have put: "db_put ?r empty_db = (Inr (), ?d)" by (simp add: db_put_def empty_db_def flow_pk_def)
  have lk: "lookup ?d k = (if k = row_key ?r then Some ?r else None)" for k
    using db_put_ok [OF put, of k] by (simp add: lookup_def empty_db_def)
  have "flow_slug ?r = ''acme''" by (rule flow_slug_flow_pk) simp_all
  then have "flow_row_ok ?r" by (simp add: flow_row_ok_def)
  then have inv: "audit_inv ?d" by (intro audit_inv_put) simp_all
  obtain steps where s: "get_flow ''acme'' ''f1'' ?d = Inr steps"
    by (auto simp: get_flow_def query_or_empty_def db_query_def) (simp add: empty_db_def)
  have nh: "\<forall>r ttl g h s. lookup ?d (row_key r) = Some r \<longrightarrow> r_item r = FlowStepItem ttl g h s \<longrightarrow>
      no_hash (fs_flow_id s)" unfolding lk by (auto split: if_splits)
  have "?s \<in> set steps"
    using get_flow_tenant [OF inv _ _ s nh, of ?s] lk by (auto intro!: exI [of _ ?r])
  then show ?thesis using s by auto
qed

end
