(* ===== verification/SamlSlo.thy ===== *)
theory SamlSlo
  imports Codec AppLookup AuditStore
begin

text \<open>
  \<^verbatim>\<open>internal/saml/slo.go\<close>: single logout over the HTTP-Redirect binding. What the handler gets from
  DEFLATE, XML, X.509 and the signature algorithms, and the URL the SAML library builds for a
  response, are fields of the environment \<open>slo_env\<close>; everything the handler itself decides is
  defined here. The session table and the audit log share one state.
\<close>

subsection \<open>Messages and cookies\<close>

text \<open>The fields of the library's \<^verbatim>\<open>LogoutRequest\<close> the handler reads, and of its \<^verbatim>\<open>LogoutResponse\<close>.\<close>

record logout_request =
  lr_id :: string
  lr_issue_instant :: gotime
  lr_not_on_or_after :: "gotime option"
  lr_destination :: string
  lr_issuer :: "string option"
  lr_session_index :: "string option"

record logout_response =
  lp_id :: string
  lp_in_response_to :: string
  lp_issue_instant :: gotime
  lp_destination :: string
  lp_issuer :: string
  lp_status :: string

definition status_success :: string where
  "status_success = ''urn:oasis:names:tc:SAML:2.0:status:Success''"

definition status_partial_logout :: string where
  "status_partial_logout = ''urn:oasis:names:tc:SAML:2.0:status:PartialLogout''"

record set_cookie =
  ck_name :: string
  ck_value :: string
  ck_path :: string
  ck_max_age :: int

definition session_cookie_name :: string where
  "session_cookie_name = ''saml_session''"

definition clear_session_cookie :: set_cookie where
  "clear_session_cookie =
     \<lparr>ck_name = session_cookie_name, ck_value = [], ck_path = ''/'', ck_max_age = -1\<rparr>"

datatype public_key = RsaKey string | EcdsaKey string | OtherKey

datatype hash_alg = SHA1 | SHA256 | SHA384 | SHA512

text \<open>The bytes a DEFLATE stream yields, and whether it then fails; the rest by name.\<close>

record slo_env =
  se_inflate :: "string \<Rightarrow> string \<times> bool"
  se_unmarshal :: "string \<Rightarrow> logout_request option"
  se_cert :: "string \<Rightarrow> public_key option"
  se_verify :: "hash_alg \<Rightarrow> public_key \<Rightarrow> string \<Rightarrow> string \<Rightarrow> bool"
  se_redirect :: "logout_response \<Rightarrow> string \<Rightarrow> string"

subsection \<open>Bounds\<close>

definition max_saml_decoded_bytes :: int where "max_saml_decoded_bytes = 512 * 1024"
definition slo_clock_skew :: duration where "slo_clock_skew = minutes 3"
definition slo_max_request_age :: duration where "slo_max_request_age = minutes 5"
definition slo_replay_ttl :: duration where "slo_replay_ttl = slo_max_request_age + slo_clock_skew"

lemmas slo_time_defs = slo_clock_skew_def slo_max_request_age_def slo_replay_ttl_def minutes_def

subsection \<open>The query string\<close>

record redirect_params =
  rp_saml_request_raw :: string
  rp_relay_state_raw :: string
  rp_has_relay_state :: bool
  rp_sig_alg_raw :: string
  rp_has_sig_alg :: bool
  rp_signature_raw :: string
  rp_has_signature :: bool
  rp_saml_request :: string
  rp_relay_state :: string

definition empty_params :: redirect_params where
  "empty_params = \<lparr>rp_saml_request_raw = [], rp_relay_state_raw = [], rp_has_relay_state = False,
     rp_sig_alg_raw = [], rp_has_sig_alg = False, rp_signature_raw = [], rp_has_signature = False,
     rp_saml_request = [], rp_relay_state = []\<rparr>"

definition canonical_redirect_keys :: "string list" where
  "canonical_redirect_keys = [''SAMLRequest'', ''SAMLResponse'', ''RelayState'', ''SigAlg'', ''Signature'']"

definition store_param :: "string \<Rightarrow> string \<Rightarrow> string \<Rightarrow> redirect_params \<Rightarrow> redirect_params" where
  "store_param key raw v p =
     (if key = ''SAMLRequest'' then p\<lparr>rp_saml_request_raw := raw, rp_saml_request := v\<rparr>
      else if key = ''RelayState'' then p\<lparr>rp_relay_state_raw := raw, rp_relay_state := v, rp_has_relay_state := True\<rparr>
      else if key = ''SigAlg'' then p\<lparr>rp_sig_alg_raw := raw, rp_has_sig_alg := True\<rparr>
      else if key = ''Signature'' then p\<lparr>rp_signature_raw := raw, rp_has_signature := True\<rparr>
      else p)"

definition cut_pair :: "string \<Rightarrow> string \<times> string" where
  "cut_pair pair = (case cut (CHR ''='') pair of (k, v, _) \<Rightarrow> (k, v))"

fun extract_pairs :: "string list \<Rightarrow> string list \<Rightarrow> redirect_params \<Rightarrow> redirect_params res" where
  "extract_pairs [] seen p = Inr p"
| "extract_pairs (pair # pairs) seen p =
     (if pair = [] then extract_pairs pairs seen p
      else case cut_pair pair of (raw_key, raw_val) \<Rightarrow>
        (case query_unescape raw_key of
           None \<Rightarrow> Inl (ErrMsg ''undecodable parameter name'')
         | Some key \<Rightarrow>
             if key \<notin> set canonical_redirect_keys then extract_pairs pairs seen p
             else if raw_key \<noteq> key then Inl (ErrMsg ''non-canonical encoding of parameter'')
             else if key \<in> set seen then Inl (ErrMsg ''duplicate parameter'')
             else case query_unescape raw_val of
                 None \<Rightarrow> Inl (ErrMsg ''undecodable value'')
               | Some v \<Rightarrow> extract_pairs pairs (key # seen) (store_param key raw_val v p)))"

definition extract_redirect_params :: "string \<Rightarrow> redirect_params res" where
  "extract_redirect_params raw_query = extract_pairs (split_on (CHR ''&'') raw_query) [] empty_params"

subsection \<open>Decoding and freshness\<close>

text \<open>
  The reader stops one byte past the cap, so a longer stream is cut there before it can fail, and is
  then rejected for its length.
\<close>

definition decode_saml_request :: "slo_env \<Rightarrow> string \<Rightarrow> logout_request res" where
  "decode_saml_request env encoded =
     (case b64_decode StdAlphabet True encoded of
        None \<Rightarrow> Inl (ErrMsg ''base64 decode'')
      | Some raw \<Rightarrow>
          (case se_inflate env raw of (out, fails) \<Rightarrow>
             if int (length out) > max_saml_decoded_bytes
             then Inl (ErrMsg ''decompressed SAML message too large'')
             else if fails then Inl (ErrMsg ''deflate decompress'')
             else case se_unmarshal env out of
                 None \<Rightarrow> Inl (ErrMsg ''XML unmarshal'')
               | Some req \<Rightarrow> Inr req))"

definition check_logout_request_freshness :: "logout_request \<Rightarrow> gotime \<Rightarrow> unit res" where
  "check_logout_request_freshness req now =
     (if lr_issue_instant req = zero_time then Inl (ErrMsg ''LogoutRequest missing IssueInstant'')
      else if lr_issue_instant req > now + slo_clock_skew then Inl (ErrMsg ''IssueInstant is in the future'')
      else if now - lr_issue_instant req > slo_max_request_age + slo_clock_skew
      then Inl (ErrMsg ''IssueInstant is too old'')
      else case lr_not_on_or_after req of
          Some t \<Rightarrow> if \<not> now < t + slo_clock_skew then Inl (ErrMsg ''NotOnOrAfter has passed'') else Inr ()
        | None \<Rightarrow> Inr ())"

definition destination_matches :: "string \<Rightarrow> string \<Rightarrow> string \<Rightarrow> bool" where
  "destination_matches destination base slug \<longleftrightarrow> destination = base @ ''/t/'' @ slug @ ''/saml/slo''"

subsection \<open>Signatures\<close>

definition hash_for_sig_alg :: "string \<Rightarrow> bool \<Rightarrow> (hash_alg \<times> bool) res" where
  "hash_for_sig_alg alg allow_sha1 =
     (if alg = ''http://www.w3.org/2000/09/xmldsig#rsa-sha1'' then
        (if \<not> allow_sha1 then Inl (ErrMsg ''SHA-1 disabled'') else Inr (SHA1, False))
      else if alg = ''http://www.w3.org/2001/04/xmldsig-more#rsa-sha256'' then Inr (SHA256, False)
      else if alg = ''http://www.w3.org/2001/04/xmldsig-more#rsa-sha384'' then Inr (SHA384, False)
      else if alg = ''http://www.w3.org/2001/04/xmldsig-more#rsa-sha512'' then Inr (SHA512, False)
      else if alg = ''http://www.w3.org/2001/04/xmldsig-more#ecdsa-sha1'' then
        (if \<not> allow_sha1 then Inl (ErrMsg ''SHA-1 disabled'') else Inr (SHA1, True))
      else if alg = ''http://www.w3.org/2001/04/xmldsig-more#ecdsa-sha256'' then Inr (SHA256, True)
      else if alg = ''http://www.w3.org/2001/04/xmldsig-more#ecdsa-sha384'' then Inr (SHA384, True)
      else if alg = ''http://www.w3.org/2001/04/xmldsig-more#ecdsa-sha512'' then Inr (SHA512, True)
      else Inl (ErrMsg ''unsupported SigAlg''))"

text \<open>The octets the signature covers: the raw values in a fixed order.\<close>

definition signed_octets :: "redirect_params \<Rightarrow> string" where
  "signed_octets p =
     ''SAMLRequest='' @ rp_saml_request_raw p @
     (if rp_has_relay_state p then ''&RelayState='' @ rp_relay_state_raw p else []) @
     ''&SigAlg='' @ rp_sig_alg_raw p"

definition verify_redirect_signature :: "slo_env \<Rightarrow> redirect_params \<Rightarrow> string \<Rightarrow> bool \<Rightarrow> unit res" where
  "verify_redirect_signature env p cert_pem allow_sha1 =
     (if trim_space cert_pem = [] then Inl (ErrMsg ''SP has no registered signing certificate'')
      else if \<not> rp_has_sig_alg p then Inl (ErrMsg ''missing SigAlg'')
      else if \<not> rp_has_signature p then Inl (ErrMsg ''missing Signature'')
      else if rp_saml_request_raw p = [] then Inl (ErrMsg ''missing SAMLRequest'')
      else case query_unescape (rp_sig_alg_raw p) of
          None \<Rightarrow> Inl (ErrMsg ''decode SigAlg'')
        | Some alg \<Rightarrow>
      (case query_unescape (rp_signature_raw p) of
          None \<Rightarrow> Inl (ErrMsg ''decode Signature'')
        | Some sig64 \<Rightarrow>
      (case b64_decode StdAlphabet True sig64 of
          None \<Rightarrow> Inl (ErrMsg ''base64-decode Signature'')
        | Some sig \<Rightarrow>
      (case hash_for_sig_alg alg allow_sha1 of
          Inl e \<Rightarrow> Inl e
        | Inr (h, is_ecdsa) \<Rightarrow>
      (case se_cert env cert_pem of
          None \<Rightarrow> Inl (ErrMsg ''parse SP signing certificate'')
        | Some key \<Rightarrow>
            (case key of
               RsaKey _ \<Rightarrow>
                 if is_ecdsa then Inl (ErrMsg ''SigAlg is ECDSA but SP certificate is RSA'')
                 else if \<not> se_verify env h key (signed_octets p) sig then Inl (ErrMsg ''RSA signature invalid'')
                 else Inr ()
             | EcdsaKey _ \<Rightarrow>
                 if \<not> is_ecdsa then Inl (ErrMsg ''SigAlg is RSA but SP certificate is ECDSA'')
                 else if \<not> se_verify env h key (signed_octets p) sig then Inl (ErrMsg ''ECDSA signature invalid'')
                 else Inr ()
             | OtherKey \<Rightarrow> Inl (ErrMsg ''unsupported SP public key type'')))))))"

subsection \<open>The handler\<close>

text \<open>
  A refusal: the HTTP error, with the request id, issuer and reason of its audit entry if it has one.
  An application without SAML settings makes the handler dereference a nil pointer.
\<close>

datatype slo_refusal =
    Refuse int string "(string \<times> string \<times> string) option"
  | NilConfig

record slo_request =
  sr_logout :: logout_request
  sr_issuer :: string
  sr_params :: redirect_params
  sr_config :: saml_config

definition issuer_value :: "string option \<Rightarrow> string" where
  "issuer_value i = (case i of None \<Rightarrow> [] | Some v \<Rightarrow> v)"

definition trim_right_slash :: "string \<Rightarrow> string" where
  "trim_right_slash s = rev (dropWhile (\<lambda>c. c = CHR ''/'') (rev s))"

text \<open>The checks, which write nothing, up to and including the signature.\<close>

definition slo_authenticate ::
  "slo_env \<Rightarrow> cfg_db \<Rightarrow> gotime \<Rightarrow> string \<Rightarrow> string \<Rightarrow> string \<Rightarrow> slo_refusal + slo_request" where
  "slo_authenticate env cfg now base slug raw_query =
     (if slug = [] then Inl (Refuse 400 ''missing tenant'' None)
      else case extract_redirect_params raw_query of
          Inl _ \<Rightarrow> Inl (Refuse 400 ''malformed SLO request'' None)
        | Inr p \<Rightarrow>
      if rp_saml_request p = [] then Inl (Refuse 400 ''missing SAMLRequest parameter'' None)
      else case decode_saml_request env (rp_saml_request p) of
          Inl _ \<Rightarrow> Inl (Refuse 400 ''invalid SAMLRequest'' None)
        | Inr req \<Rightarrow>
      let issuer = issuer_value (lr_issuer req) in
      if issuer = [] then Inl (Refuse 400 ''LogoutRequest missing Issuer'' None)
      else case get_by_tenant_entity_id slug issuer cfg of
          Inl _ \<Rightarrow> Inl (Refuse 400 ''unknown SP issuer'' None)
        | Inr (_, saml_cfg) \<Rightarrow>
      (case check_logout_request_freshness req now of
          Inl _ \<Rightarrow> Inl (Refuse 403 ''LogoutRequest is stale or expired'' (Some (lr_id req, issuer, ''stale_request'')))
        | Inr _ \<Rightarrow>
      if lr_destination req \<noteq> [] \<and> \<not> destination_matches (lr_destination req) (trim_right_slash base) slug
      then Inl (Refuse 403 ''LogoutRequest Destination does not address this endpoint''
                  (Some (lr_id req, issuer, ''destination_mismatch'')))
      else case saml_cfg of
          None \<Rightarrow> Inl NilConfig
        | Some sc \<Rightarrow>
      (case verify_redirect_signature env p (sc_signing_cert_pem sc) (sc_allow_insecure_sha1 sc) of
          Inl _ \<Rightarrow> Inl (Refuse 403 ''LogoutRequest signature verification failed''
                          (Some (lr_id req, issuer, ''signature_verification_failed'')))
        | Inr _ \<Rightarrow> Inr \<lparr>sr_logout = req, sr_issuer = issuer, sr_params = p, sr_config = sc\<rparr>)))"

definition other_participants :: "participant list \<Rightarrow> string \<Rightarrow> nat" where
  "other_participants ps issuer = length (filter (\<lambda>p. sp_entity_id p \<noteq> issuer) ps)"

definition random_id :: "8 word list \<Rightarrow> string" where
  "random_id bs = concat (map hex_byte bs)"

definition build_logout_response ::
  "8 word list \<Rightarrow> gotime \<Rightarrow> logout_request \<Rightarrow> string \<Rightarrow> string \<Rightarrow> string \<Rightarrow> string \<Rightarrow> logout_response" where
  "build_logout_response rid now req base slug destination status =
     \<lparr>lp_id = ''_lr_'' @ random_id rid, lp_in_response_to = lr_id req, lp_issue_instant = now,
      lp_destination = destination,
      lp_issuer = trim_right_slash base @ ''/t/'' @ slug @ ''/saml/metadata'', lp_status = status\<rparr>"

text \<open>What the caller sees: an error, a redirect with the cookies set on it, or a panic.\<close>

datatype slo_outcome =
    SloError int string
  | SloRedirect logout_response string "set_cookie list"
  | SloPanic

record slo_config =
  sl_env :: slo_env
  sl_base_url :: string
  sl_audit :: bool
  sl_replay :: bool

definition audit_slo_rejected ::
  "slo_config \<Rightarrow> gotime \<Rightarrow> 8 word list option \<Rightarrow> string \<Rightarrow> string \<times> string \<times> string \<Rightarrow> audit_state \<Rightarrow> audit_state" where
  "audit_slo_rejected c now arnd slug entry st =
     (case entry of (req_id, issuer, reason) \<Rightarrow>
        if \<not> sl_audit c then st
        else snd (log_step now arnd slug req_id ''slo_rejected'' issuer []
                    [(''status'', ''error''), (''reason'', reason)] st))"

text \<open>The status: partial as soon as another service provider shares the session or may do so.\<close>

definition logout_status :: "gotime \<Rightarrow> string \<Rightarrow> string \<Rightarrow> ses_db \<Rightarrow> string" where
  "logout_status now idx issuer d =
     (if idx = [] then status_success
      else case get_participants now idx d of
          Inl _ \<Rightarrow> status_partial_logout
        | Inr ps \<Rightarrow> if other_participants ps issuer > 0 then status_partial_logout else status_success)"

definition on_db :: "(ses_db \<Rightarrow> 'a res \<times> ses_db) \<Rightarrow> audit_state \<Rightarrow> 'a res \<times> audit_state" where
  "on_db f st = (case f (audit_db st) of (r, d) \<Rightarrow> (r, st\<lparr>audit_db := d\<rparr>))"

text \<open>The effects of an authenticated request once its id is claimed.\<close>

definition slo_terminate ::
  "slo_config \<Rightarrow> gotime \<Rightarrow> 8 word list option \<Rightarrow> 8 word list \<Rightarrow> string \<Rightarrow> string \<Rightarrow> slo_request
     \<Rightarrow> audit_state \<Rightarrow> slo_outcome \<times> audit_state" where
  "slo_terminate c now arnd rid slug relay r st =
     (let idx = issuer_value (lr_session_index (sr_logout r));
          st1 = (if idx \<noteq> [] then snd (on_db (revoke_session now idx) st) else st);
          status = logout_status now idx (sr_issuer r) (audit_db st1);
          dest = (if sc_slo_url (sr_config r) = [] then sc_acs_url (sr_config r) else sc_slo_url (sr_config r));
          resp = build_logout_response rid now (sr_logout r) (sl_base_url c) slug dest status;
          st2 = (if sl_audit c
                 then snd (log_step now arnd slug (lp_id resp) ''slo_processed'' (sr_issuer r) []
                        [(''status'', if status = status_partial_logout then ''partial_logout'' else ''success'')] st1)
                 else st1)
      in (SloRedirect resp (se_redirect (sl_env c) resp relay) [clear_session_cookie], st2))"

definition handle_slo ::
  "slo_config \<Rightarrow> cfg_db \<Rightarrow> gotime \<Rightarrow> 8 word list option \<Rightarrow> 8 word list \<Rightarrow> string \<Rightarrow> string
     \<Rightarrow> audit_state \<Rightarrow> slo_outcome \<times> audit_state" where
  "handle_slo c cfg now arnd rid slug raw_query st =
     (case slo_authenticate (sl_env c) cfg now (sl_base_url c) slug raw_query of
        Inl NilConfig \<Rightarrow> (SloPanic, st)
      | Inl (Refuse code msg entry) \<Rightarrow>
          (SloError code msg,
           (case entry of None \<Rightarrow> st | Some e \<Rightarrow> audit_slo_rejected c now arnd slug e st))
      | Inr r \<Rightarrow>
          let req = sr_logout r; relay = rp_relay_state (sr_params r) in
          if sl_replay c \<and> lr_id req \<noteq> [] then
            (case on_db (mark_seen now (lr_id req) slo_replay_ttl) st of
               (Inl e, st1) \<Rightarrow>
                 if errors_is e ErrConditionFailed
                 then (SloError 403 ''replayed LogoutRequest'',
                       audit_slo_rejected c now arnd slug (lr_id req, sr_issuer r, ''replayed_request'') st1)
                 else (SloError 503 ''replay protection unavailable'', st1)
             | (Inr _, st1) \<Rightarrow> slo_terminate c now arnd rid slug relay r st1)
          else slo_terminate c now arnd rid slug relay r st)"

subsection \<open>The audit log and the other rows\<close>

lemma log_step_db:
  "audit_db (snd (log_step now rnd slug flow ty sp user pl st)) =
     snd (db_put (ses_row (flow_pk slug flow) (step_sort_key rnd now)
       (FlowStepItem (unix (now + hours 24)) (''USER#'' @ user) (''FLOW#'' @ flow)
         \<lparr>fs_flow_id = flow, fs_sequence = seq_num st + 1, fs_step_type = ty,
          fs_sp_entity_id = sp, fs_user_id = user, fs_timestamp = now, fs_payload = pl\<rparr>)) (audit_db st))"
  by (simp add: log_step_def Let_def split: prod.split sum.split)

lemma flow_key_distinct [simp]:
  "mkey (flow_pk a f) x \<noteq> mkey (session_pk i) y" "mkey (flow_pk a f) x \<noteq> mkey (replay_pk i) y"
  "mkey (session_pk i) y \<noteq> mkey (flow_pk a f) x" "mkey (replay_pk i) y \<noteq> mkey (flow_pk a f) x"
  by (simp_all add: mkey_def ses_pk_defs)

lemma on_db_snd: "audit_db (snd (on_db f st)) = snd (f (audit_db st))"
  by (simp add: on_db_def split: prod.split)

lemma lookup_log_step:
  "(\<And>f x. k \<noteq> mkey (flow_pk slug f) x) \<Longrightarrow>
     lookup (audit_db (snd (log_step now rnd slug flow ty sp user pl st))) k = lookup (audit_db st) k"
  by (simp add: log_step_db mem.put_keeps)

lemma replay_key_not_session [simp]:
  "mkey (replay_pk i) x \<noteq> mkey (session_pk j) y" "mkey (session_pk j) y \<noteq> mkey (replay_pk i) x"
  by (simp_all add: mkey_def ses_pk_defs)

end
