(* ===== verification/SamlSloProps.thy ===== *)
theory SamlSloProps
  imports SamlSlo
begin

text \<open>
  What single logout guarantees: the parameters that are parsed are the ones that are verified, a
  session ends only on a fresh, signed, first-time request of a registered service provider, and
  the time a request id is remembered covers the time it is accepted.
\<close>

subsection \<open>The parameters against the query parser\<close>

text \<open>The first value a query parser finds for a key, still escaped.\<close>

definition match_key :: "string \<Rightarrow> string \<Rightarrow> bool" where
  "match_key k pair \<longleftrightarrow> pair \<noteq> [] \<and> query_unescape (fst (cut_pair pair)) = Some k"

definition query_first :: "string \<Rightarrow> string list \<Rightarrow> string option" where
  "query_first k pairs =
     (case filter (match_key k) pairs of [] \<Rightarrow> None | pair # _ \<Rightarrow> Some (snd (cut_pair pair)))"

definition query_get :: "string \<Rightarrow> string \<Rightarrow> string" where
  "query_get k q =
     (case query_first k (split_on (CHR ''&'') q) of None \<Rightarrow> []
      | Some v \<Rightarrow> (case query_unescape v of None \<Rightarrow> [] | Some s \<Rightarrow> s))"

definition from_first :: "string \<Rightarrow> string list \<Rightarrow> (string \<Rightarrow> 'a) \<Rightarrow> 'a \<Rightarrow> 'a" where
  "from_first k pairs f x = (case query_first k pairs of None \<Rightarrow> x | Some v \<Rightarrow> f v)"

definition unescaped :: "string \<Rightarrow> string" where
  "unescaped v = (case query_unescape v of None \<Rightarrow> [] | Some s \<Rightarrow> s)"

lemma from_first_Nil [simp]: "from_first k [] f x = x"
  by (simp add: from_first_def query_first_def)

lemma from_first_Cons:
  "from_first k (pair # pairs) f x =
     (if match_key k pair then f (snd (cut_pair pair)) else from_first k pairs f x)"
  by (simp add: from_first_def query_first_def)

lemma from_first_none: "filter (match_key k) pairs = [] \<Longrightarrow> from_first k pairs f x = x"
  by (simp add: from_first_def query_first_def)

lemma redirect_params_eq:
  "p = (q :: redirect_params) \<longleftrightarrow>
     rp_saml_request_raw p = rp_saml_request_raw q \<and> rp_saml_request p = rp_saml_request q \<and>
     rp_relay_state_raw p = rp_relay_state_raw q \<and> rp_relay_state p = rp_relay_state q \<and>
     rp_has_relay_state p = rp_has_relay_state q \<and> rp_sig_alg_raw p = rp_sig_alg_raw q \<and>
     rp_has_sig_alg p = rp_has_sig_alg q \<and> rp_signature_raw p = rp_signature_raw q \<and>
     rp_has_signature p = rp_has_signature q"
  by (cases p; cases q) auto

definition params_from :: "string list \<Rightarrow> redirect_params \<Rightarrow> redirect_params" where
  "params_from pairs p =
     \<lparr>rp_saml_request_raw = from_first ''SAMLRequest'' pairs id (rp_saml_request_raw p),
      rp_relay_state_raw = from_first ''RelayState'' pairs id (rp_relay_state_raw p),
      rp_has_relay_state = from_first ''RelayState'' pairs (\<lambda>_. True) (rp_has_relay_state p),
      rp_sig_alg_raw = from_first ''SigAlg'' pairs id (rp_sig_alg_raw p),
      rp_has_sig_alg = from_first ''SigAlg'' pairs (\<lambda>_. True) (rp_has_sig_alg p),
      rp_signature_raw = from_first ''Signature'' pairs id (rp_signature_raw p),
      rp_has_signature = from_first ''Signature'' pairs (\<lambda>_. True) (rp_has_signature p),
      rp_saml_request = from_first ''SAMLRequest'' pairs unescaped (rp_saml_request p),
      rp_relay_state = from_first ''RelayState'' pairs unescaped (rp_relay_state p)\<rparr>"

lemma match_key_unique: "match_key k pair \<Longrightarrow> match_key k' pair \<longleftrightarrow> k' = k"
  by (auto simp: match_key_def)

lemma params_from_skip:
  assumes "\<forall>k \<in> set canonical_redirect_keys. \<not> match_key k pair"
  shows "params_from (pair # pairs) p = params_from pairs p"
  using assms by (simp add: params_from_def from_first_Cons canonical_redirect_keys_def)

lemma params_from_store:
  assumes "match_key k pair" and "k \<in> set canonical_redirect_keys" and "snd (cut_pair pair) = raw"
    and "query_unescape raw = Some v" and "filter (match_key k) pairs = []"
  shows "params_from (pair # pairs) p = params_from pairs (store_param k raw v p)"
proof -
  have m: "match_key k' pair \<longleftrightarrow> k' = k" for k' by (rule match_key_unique [OF assms(1)])
  have "k = ''SAMLRequest'' \<or> k = ''SAMLResponse'' \<or> k = ''RelayState'' \<or> k = ''SigAlg'' \<or> k = ''Signature''"
    using assms(2) by (simp add: canonical_redirect_keys_def)
  then show ?thesis using assms(5)
    by (elim disjE) (simp_all add: params_from_def from_first_Cons m store_param_def assms(3,4) unescaped_def
        from_first_none)
qed

lemma extract_pairs_spec:
  "extract_pairs pairs seen p = Inr p' \<Longrightarrow>
     p' = params_from pairs p \<and>
     (\<forall>k\<in>set canonical_redirect_keys. length (filter (match_key k) pairs) \<le> 1 \<and>
        (\<forall>pair\<in>set pairs. match_key k pair \<longrightarrow> fst (cut_pair pair) = k) \<and>
        (k \<in> set seen \<longrightarrow> filter (match_key k) pairs = []))"
proof (induction pairs seen p rule: extract_pairs.induct)
  case (1 seen p)
  then show ?case by (simp add: params_from_def)
next
  case (2 pair pairs seen p)
  obtain rk rv where cp: "cut_pair pair = (rk, rv)" by (cases "cut_pair pair")
  show ?case
  proof (cases "pair = [] \<or> (\<exists>key. query_unescape rk = Some key \<and> key \<notin> set canonical_redirect_keys)")
    case True
    then have e: "extract_pairs pairs seen p = Inr p'" using 2(4) cp by (auto split: if_splits)
    have no: "\<forall>k \<in> set canonical_redirect_keys. \<not> match_key k pair" using True cp by (auto simp: match_key_def)
    have ih: "p' = params_from pairs p \<and>
       (\<forall>k\<in>set canonical_redirect_keys. length (filter (match_key k) pairs) \<le> 1 \<and>
          (\<forall>pair\<in>set pairs. match_key k pair \<longrightarrow> fst (cut_pair pair) = k) \<and>
          (k \<in> set seen \<longrightarrow> filter (match_key k) pairs = []))"
    proof (cases "pair = []")
      case True
      from 2(1) [OF this e] show ?thesis .
    next
      case False
      with True obtain key where "query_unescape rk = Some key" "key \<notin> set canonical_redirect_keys" by blast
      from 2(2) [OF False cp [symmetric] this e] show ?thesis .
    qed
    then show ?thesis using no params_from_skip [OF no] by simp
  next
    case False
    then obtain key v where k: "pair \<noteq> []" "query_unescape rk = Some key" "key \<in> set canonical_redirect_keys"
        "rk = key" "key \<notin> set seen" "query_unescape rv = Some v"
        "extract_pairs pairs (key # seen) (store_param key rv v p) = Inr p'"
      using 2(4) cp by (auto split: option.splits if_splits)
    have m: "match_key key pair" using k cp by (simp add: match_key_def)
    have ih: "p' = params_from pairs (store_param key rv v p) \<and>
       (\<forall>k\<in>set canonical_redirect_keys. length (filter (match_key k) pairs) \<le> 1 \<and>
          (\<forall>pair\<in>set pairs. match_key k pair \<longrightarrow> fst (cut_pair pair) = k) \<and>
          (k \<in> set (key # seen) \<longrightarrow> filter (match_key k) pairs = []))"
      using 2(3) [OF k(1) cp [symmetric] k(2) _ _ k(5,6,7)] k by simp
    then have none: "filter (match_key key) pairs = []" using k(3) by simp
    have "p' = params_from (pair # pairs) p"
      using ih params_from_store [OF m k(3) _ k(6) none] cp by simp
    moreover have "match_key k pair \<longleftrightarrow> k = key" for k by (rule match_key_unique [OF m])
    ultimately show ?thesis using ih none k(4,5) cp by auto
  qed
qed

text \<open>The redirect-binding parameters a logout is verified over are the ones a query parser would hand
  to the application: an accepted query names each security-relevant key at most once and literally,
  the decoded message is the parser's, and the raw values that enter the signed octets are those of
  the same pairs; so no value can be smuggled past the signature under an encoded parameter name.\<close>

lemma redirect_params_reference:
  assumes "extract_redirect_params q = Inr p" and "k \<in> set canonical_redirect_keys"
  shows "rp_saml_request p = query_get ''SAMLRequest'' q \<and> rp_relay_state p = query_get ''RelayState'' q \<and>
    (if rp_has_sig_alg p then query_first ''SigAlg'' (split_on (CHR ''&'') q) = Some (rp_sig_alg_raw p)
     else query_first ''SigAlg'' (split_on (CHR ''&'') q) = None) \<and>
    (if rp_has_signature p then query_first ''Signature'' (split_on (CHR ''&'') q) = Some (rp_signature_raw p)
     else query_first ''Signature'' (split_on (CHR ''&'') q) = None) \<and>
    (rp_saml_request_raw p = [] \<or> query_first ''SAMLRequest'' (split_on (CHR ''&'') q) = Some (rp_saml_request_raw p)) \<and>
    (if rp_has_relay_state p then query_first ''RelayState'' (split_on (CHR ''&'') q) = Some (rp_relay_state_raw p)
     else query_first ''RelayState'' (split_on (CHR ''&'') q) = None) \<and>
    length (filter (match_key k) (split_on (CHR ''&'') q)) \<le> 1 \<and>
    (\<forall>pair\<in>set (split_on (CHR ''&'') q). match_key k pair \<longrightarrow> fst (cut_pair pair) = k)"
proof -
  let ?pairs = "split_on (CHR ''&'') q"
  from extract_pairs_spec [OF assms(1) [unfolded extract_redirect_params_def]]
  have p: "p = params_from ?pairs empty_params"
    and k: "length (filter (match_key k) ?pairs) \<le> 1" "\<forall>pair\<in>set ?pairs. match_key k pair \<longrightarrow> fst (cut_pair pair) = k"
    using assms(2) by auto
  have f: "from_first k ?pairs g x = (case query_first k ?pairs of None \<Rightarrow> x | Some v \<Rightarrow> g v)"
    for k and g :: "string \<Rightarrow> 'b" and x
    by (simp add: from_first_def)
  show ?thesis
    unfolding p using k
    by (simp add: params_from_def empty_params_def from_first_def query_get_def unescaped_def split: option.splits)
qed

definition demo_query :: string where
  "demo_query = ''x=1&SAMLRequest=a%2Bb&RelayState=r&SigAlg=alg&Signature=c2ln''"

subsection \<open>What an accepted request is\<close>

lemma slo_authenticate_ok:
  assumes "slo_authenticate env cfg now base slug q = Inr r"
  shows "\<exists>p req issuer app sc. extract_redirect_params q = Inr p \<and>
    decode_saml_request env (rp_saml_request p) = Inr req \<and> lr_issuer req = Some issuer \<and> issuer \<noteq> [] \<and>
    get_by_tenant_entity_id slug issuer cfg = Inr (app, Some sc) \<and>
    check_logout_request_freshness req now = Inr () \<and>
    (lr_destination req = [] \<or> destination_matches (lr_destination req) (trim_right_slash base) slug) \<and>
    verify_redirect_signature env p (sc_signing_cert_pem sc) (sc_allow_insecure_sha1 sc) = Inr () \<and>
    r = \<lparr>sr_logout = req, sr_issuer = issuer, sr_params = p, sr_config = sc\<rparr>"
  using assms
  by (auto simp: slo_authenticate_def Let_def issuer_value_def split: if_splits sum.splits option.splits)

lemma verify_redirect_signature_ok:
  assumes "verify_redirect_signature env p pem sha1 = Inr ()"
  shows "\<exists>alg h ec key sig64 sig. query_unescape (rp_sig_alg_raw p) = Some alg \<and>
    hash_for_sig_alg alg sha1 = Inr (h, ec) \<and> se_cert env pem = Some key \<and> key \<noteq> OtherKey \<and>
    query_unescape (rp_signature_raw p) = Some sig64 \<and> b64_decode StdAlphabet True sig64 = Some sig \<and>
    rp_has_signature p \<and> rp_has_sig_alg p \<and> se_verify env h key (signed_octets p) sig"
  using assms
  by (auto simp: verify_redirect_signature_def split: if_splits sum.splits option.splits public_key.splits)

lemma hash_for_sig_alg_sha1: "hash_for_sig_alg alg sha1 = Inr (h, ec) \<Longrightarrow> h = SHA1 \<Longrightarrow> sha1"
  by (auto simp: hash_for_sig_alg_def split: if_splits)

lemma freshness_iff:
  "check_logout_request_freshness req now = Inr () \<longleftrightarrow>
     lr_issue_instant req \<noteq> zero_time \<and> lr_issue_instant req \<le> now + minutes 3 \<and>
     now \<le> lr_issue_instant req + minutes 8 \<and>
     (case lr_not_on_or_after req of None \<Rightarrow> True | Some t \<Rightarrow> now < t + minutes 3)"
  by (auto simp: check_logout_request_freshness_def slo_time_defs split: option.split)

lemma handle_slo_redirect:
  assumes "handle_slo c cfg now arnd rid slug q st = (SloRedirect resp url cks, st')"
  obtains r where "slo_authenticate (sl_env c) cfg now (sl_base_url c) slug q = Inr r"
    "\<exists>st1. (if sl_replay c \<and> lr_id (sr_logout r) \<noteq> []
       then on_db (mark_seen now (lr_id (sr_logout r)) slo_replay_ttl) st = (Inr (), st1) else st1 = st) \<and>
     slo_terminate c now arnd rid slug (rp_relay_state (sr_params r)) r st1 = (SloRedirect resp url cks, st')"
  using assms
  by (fastforce simp: handle_slo_def Let_def split: sum.splits slo_refusal.splits option.splits if_splits prod.splits)

definition is_redirect :: "slo_outcome \<Rightarrow> bool" where
  "is_redirect o' \<longleftrightarrow> (case o' of SloRedirect _ _ _ \<Rightarrow> True | _ \<Rightarrow> False)"

lemma revoked_log_step [simp]:
  "is_session_revoked t idx (audit_db (snd (log_step now rnd slug flow ty sp user pl st))) =
     is_session_revoked t idx (audit_db st)"
  by (simp add: is_session_revoked_def log_step_db get_as_put_other)

lemma revoked_audit [simp]:
  "is_session_revoked t idx (audit_db (audit_slo_rejected c now arnd slug e st)) =
     is_session_revoked t idx (audit_db st)"
  by (simp add: audit_slo_rejected_def split: prod.split)

lemma revoked_mark_seen [simp]:
  "is_session_revoked t idx (snd (mark_seen now i ttl d)) = is_session_revoked t idx d"
  by (simp add: is_session_revoked_def mark_seen_snd get_as_put_new_other)

lemma refused_keeps_sessions:
  assumes "\<And>resp url cks. fst (handle_slo c cfg now arnd rid slug q st) \<noteq> SloRedirect resp url cks"
  shows "is_session_revoked t idx (audit_db (snd (handle_slo c cfg now arnd rid slug q st))) =
    is_session_revoked t idx (audit_db st)"
proof -
  have m: "is_session_revoked t idx (audit_db st1) = is_session_revoked t idx (audit_db st)"
    if "on_db (mark_seen now i ttl) st = (v, st1)" for i ttl v st1
    using on_db_snd [of "mark_seen now i ttl" st] that by simp
  have t: "\<exists>resp url cks. fst (slo_terminate c now arnd rid slug relay r st1) = SloRedirect resp url cks"
    for relay r st1 by (simp add: slo_terminate_def Let_def)
  have t': "fst (slo_terminate c now arnd rid slug relay r st1) = SloRedirect resp url cks \<Longrightarrow>
      fst (handle_slo c cfg now arnd rid slug q st) \<noteq> fst (slo_terminate c now arnd rid slug relay r st1)"
    for relay r st1 resp url cks using assms by simp
  show ?thesis
  proof (cases "slo_authenticate (sl_env c) cfg now (sl_base_url c) slug q")
    case (Inl e)
    then show ?thesis by (simp add: handle_slo_def split: slo_refusal.split option.split)
  next
    case (Inr r)
    show ?thesis
    proof (cases "sl_replay c \<and> lr_id (sr_logout r) \<noteq> []")
      case False
      then have "handle_slo c cfg now arnd rid slug q st =
          slo_terminate c now arnd rid slug (rp_relay_state (sr_params r)) r st"
        using Inr by (auto simp: handle_slo_def Let_def)
      then show ?thesis using t t' by metis
    next
      case True
      obtain v st1 where o: "on_db (mark_seen now (lr_id (sr_logout r)) slo_replay_ttl) st = (v, st1)" by fastforce
      show ?thesis
      proof (cases v)
        case (Inl e)
        then show ?thesis using True \<open>slo_authenticate _ _ _ _ _ _ = Inr r\<close> o m [OF o]
          by (simp add: handle_slo_def Let_def)
      next
        case (Inr u)
        then have "handle_slo c cfg now arnd rid slug q st =
            slo_terminate c now arnd rid slug (rp_relay_state (sr_params r)) r st1"
          using True \<open>slo_authenticate _ _ _ _ _ _ = Inr r\<close> o by (simp add: handle_slo_def Let_def)
        then show ?thesis using t t' by metis
      qed
    qed
  qed
qed

text \<open>C4: Single logout ends a session only on an authentic request: the issuer is a service provider
  registered in the tenant, the signature verifies under its registered certificate over the raw
  octets of the very message that was parsed, with SHA-1 only where the tenant opted in, the request is
  fresh and addressed to this endpoint, and its id was claimed for the first time. Every other request
  leaves all sessions as they were.\<close>

theorem slo_authentic:
  "if is_redirect (fst (handle_slo c cfg now arnd rid slug q st)) then
   (\<exists>p req issuer app sc alg h ec key sig64 sig.
      extract_redirect_params q = Inr p \<and> decode_saml_request (sl_env c) (rp_saml_request p) = Inr req \<and>
      lr_issuer req = Some issuer \<and> get_by_tenant_entity_id slug issuer cfg = Inr (app, Some sc) \<and>
      se_cert (sl_env c) (sc_signing_cert_pem sc) = Some key \<and>
      query_unescape (rp_sig_alg_raw p) = Some alg \<and>
      hash_for_sig_alg alg (sc_allow_insecure_sha1 sc) = Inr (h, ec) \<and>
      (if h = SHA1 then sc_allow_insecure_sha1 sc else True) \<and>
      query_unescape (rp_signature_raw p) = Some sig64 \<and> b64_decode StdAlphabet True sig64 = Some sig \<and>
      se_verify (sl_env c) h key (signed_octets p) sig \<and>
      lr_issue_instant req \<le> now + minutes 3 \<and> now \<le> lr_issue_instant req + minutes 8 \<and>
      (lr_destination req = [] \<or> lr_destination req = trim_right_slash (sl_base_url c) @ ''/t/'' @ slug @ ''/saml/slo'') \<and>
      (if sl_replay c \<and> lr_id req \<noteq> []
       then fst (mark_seen now (lr_id req) slo_replay_ttl (audit_db st)) = Inr () else True))
   else is_session_revoked t idx (audit_db (snd (handle_slo c cfg now arnd rid slug q st))) =
     is_session_revoked t idx (audit_db st)"
proof (cases "is_redirect (fst (handle_slo c cfg now arnd rid slug q st))")
  case True
  then obtain resp url cks where SloRedirect: "fst (handle_slo c cfg now arnd rid slug q st) = SloRedirect resp url cks"
    by (auto simp: is_redirect_def split: slo_outcome.splits)
  obtain st' where h: "handle_slo c cfg now arnd rid slug q st = (SloRedirect resp url cks, st')"
    using SloRedirect by (metis prod.collapse)
  then obtain r where a: "slo_authenticate (sl_env c) cfg now (sl_base_url c) slug q = Inr r"
      and m: "sl_replay c \<and> lr_id (sr_logout r) \<noteq> [] \<longrightarrow>
        fst (mark_seen now (lr_id (sr_logout r)) slo_replay_ttl (audit_db st)) = Inr ()"
    by (rule handle_slo_redirect) (auto simp: on_db_def split: if_splits prod.splits)
  from slo_authenticate_ok [OF a] obtain p req issuer app sc where
    r: "extract_redirect_params q = Inr p" "decode_saml_request (sl_env c) (rp_saml_request p) = Inr req"
      "lr_issuer req = Some issuer" "get_by_tenant_entity_id slug issuer cfg = Inr (app, Some sc)"
      "check_logout_request_freshness req now = Inr ()"
      "lr_destination req = [] \<or> destination_matches (lr_destination req) (trim_right_slash (sl_base_url c)) slug"
      "verify_redirect_signature (sl_env c) p (sc_signing_cert_pem sc) (sc_allow_insecure_sha1 sc) = Inr ()"
      "r = \<lparr>sr_logout = req, sr_issuer = issuer, sr_params = p, sr_config = sc\<rparr>"
    by blast
  from verify_redirect_signature_ok [OF r(7)] obtain alg h ec key sig64 sig where
    v: "query_unescape (rp_sig_alg_raw p) = Some alg" "hash_for_sig_alg alg (sc_allow_insecure_sha1 sc) = Inr (h, ec)"
      "se_cert (sl_env c) (sc_signing_cert_pem sc) = Some key" "query_unescape (rp_signature_raw p) = Some sig64"
      "b64_decode StdAlphabet True sig64 = Some sig" "se_verify (sl_env c) h key (signed_octets p) sig"
    by blast
  have d: "lr_destination req = [] \<or> lr_destination req = trim_right_slash (sl_base_url c) @ ''/t/'' @ slug @ ''/saml/slo''"
    using r(6) by (simp add: destination_matches_def)
  have t: "lr_issue_instant req \<le> now + minutes 3" "now \<le> lr_issue_instant req + minutes 8"
    using r(5) by (simp_all add: freshness_iff)
  have m': "if sl_replay c \<and> lr_id req \<noteq> []
       then fst (mark_seen now (lr_id req) slo_replay_ttl (audit_db st)) = Inr () else True"
    using m r(8) by simp
  have "if h = SHA1 then sc_allow_insecure_sha1 sc else True" using hash_for_sig_alg_sha1 [OF v(2)] by simp
  then have "\<exists>p req issuer app sc alg h ec key sig64 sig.
      extract_redirect_params q = Inr p \<and> decode_saml_request (sl_env c) (rp_saml_request p) = Inr req \<and>
      lr_issuer req = Some issuer \<and> get_by_tenant_entity_id slug issuer cfg = Inr (app, Some sc) \<and>
      se_cert (sl_env c) (sc_signing_cert_pem sc) = Some key \<and>
      query_unescape (rp_sig_alg_raw p) = Some alg \<and>
      hash_for_sig_alg alg (sc_allow_insecure_sha1 sc) = Inr (h, ec) \<and>
      (if h = SHA1 then sc_allow_insecure_sha1 sc else True) \<and>
      query_unescape (rp_signature_raw p) = Some sig64 \<and> b64_decode StdAlphabet True sig64 = Some sig \<and>
      se_verify (sl_env c) h key (signed_octets p) sig \<and>
      lr_issue_instant req \<le> now + minutes 3 \<and> now \<le> lr_issue_instant req + minutes 8 \<and>
      (lr_destination req = [] \<or> lr_destination req = trim_right_slash (sl_base_url c) @ ''/t/'' @ slug @ ''/saml/slo'') \<and>
      (if sl_replay c \<and> lr_id req \<noteq> []
       then fst (mark_seen now (lr_id req) slo_replay_ttl (audit_db st)) = Inr () else True)"
    using r(1-4) v(1-6) d t m' by blast
  then show ?thesis using True by simp
next
  case False
  then have "fst (handle_slo c cfg now arnd rid slug q st) \<noteq> SloRedirect resp url cks" for resp url cks
    by (auto simp: is_redirect_def)
  from refused_keeps_sessions [of c cfg now arnd rid slug q st, OF this] False show ?thesis by simp
qed

subsection \<open>One use, and what it does\<close>

lemma terminate_redirect:
  assumes "slo_terminate c now arnd rid slug relay r st = (SloRedirect resp url cks, st')"
  defines "idx \<equiv> issuer_value (lr_session_index (sr_logout r))"
  defines "st1 \<equiv> (if idx \<noteq> [] then snd (on_db (revoke_session now idx) st) else st)"
  shows "lp_in_response_to resp = lr_id (sr_logout r) \<and> cks = [clear_session_cookie] \<and>
    lp_status resp = logout_status now idx (sr_issuer r) (audit_db st1) \<and>
    (st' = st1 \<or> (\<exists>ty pl i. st' = snd (log_step now arnd slug i ty (sr_issuer r) [] pl st1)))"
  using assms(1) by (auto simp: slo_terminate_def Let_def idx_def st1_def build_logout_response_def split: if_splits)

lemma lookup_revoke:
  "k \<noteq> mkey (session_pk idx) revoked_session_sk \<Longrightarrow>
     lookup (snd (revoke_session now idx d)) k = lookup d k"
  by (simp add: revoke_snd mem.put_keeps)

lemma redirect_claims_id:
  assumes "handle_slo c cfg now arnd rid slug q st = (SloRedirect resp url cks, st')"
    and "sl_replay c" and "lp_in_response_to resp \<noteq> []"
  shows "lookup (audit_db st) (mkey (replay_pk (lp_in_response_to resp)) ''_'') = None \<and>
    lookup (audit_db st') (mkey (replay_pk (lp_in_response_to resp)) ''_'') \<noteq> None"
proof -
  let ?i = "lp_in_response_to resp" and ?k = "mkey (replay_pk (lp_in_response_to resp)) ''_''"
  obtain r st1 where
    m: "if sl_replay c \<and> lr_id (sr_logout r) \<noteq> []
        then on_db (mark_seen now (lr_id (sr_logout r)) slo_replay_ttl) st = (Inr (), st1) else st1 = st"
    and t: "slo_terminate c now arnd rid slug (rp_relay_state (sr_params r)) r st1 = (SloRedirect resp url cks, st')"
    using handle_slo_redirect [OF assms(1)] by metis
  note e = terminate_redirect [OF t]
  have i: "lr_id (sr_logout r) = ?i" using e by simp
  have o: "mark_seen now ?i slo_replay_ttl (audit_db st) = (Inr (), audit_db st1)"
    using m assms(2,3) unfolding i by (auto simp: on_db_def split: prod.splits)
  then have l: "lookup (audit_db st) ?k = None" "lookup (audit_db st1) ?k \<noteq> None"
    using db_put_new_ok [where k = ?k]
    by (fastforce simp: mark_seen_def split: prod.splits sum.splits if_splits)+
  have "lookup (audit_db st') ?k = lookup (audit_db st1) ?k"
    using e by (auto simp: lookup_log_step on_db_snd lookup_revoke)
  then show ?thesis using l by simp
qed


lemma query_put_other:
  assumes "\<not> has_prefix (row_key r) (pk @ ''#'')"
  shows "db_query pk skp (snd (db_put r d)) = db_query pk skp d"
proof -
  have "map snd (filter (query_match pk skp) (AList.update (row_key r) r xs)) =
      map snd (filter (query_match pk skp) xs)" for xs
    using assms by (induction xs) (auto simp: query_match_def)
  then show ?thesis by (simp add: db_put_def db_query_def)
qed

lemma participants_log_step:
  "get_participants t idx (audit_db (snd (log_step now rnd slug flow ty sp user pl st))) =
     get_participants t idx (audit_db st)"
proof -
  have "\<not> has_prefix (mkey (flow_pk slug flow) x) (session_pk idx @ ''#'')" for x
    by (simp add: mkey_def flow_pk_def session_pk_def)
  then show ?thesis by (simp add: get_participants_def query_or_empty_def log_step_db query_put_other)
qed

text \<open>A logout that names a session clears the browser's cookie, revokes the session for the nine hours
  a marker counts, and reports success exactly when no other service provider is known to share the
  session, partial logout otherwise or when the participants cannot be read.\<close>

lemma slo_revokes:
  assumes "handle_slo c cfg now arnd rid slug q st = (SloRedirect resp url cks, st')"
    and "slo_authenticate (sl_env c) cfg now (sl_base_url c) slug q = Inr r"
    and "lr_session_index (sr_logout r) = Some idx" and "idx \<noteq> []" and "\<forall>op. \<not> fault (audit_db st) op"
  shows "clear_session_cookie \<in> set cks \<and>
    is_session_revoked t idx (audit_db st') = Inr (unix t \<le> unix now + 9 * 3600) \<and>
    lp_status resp =
      (case get_participants now idx (audit_db st') of
         Inl _ \<Rightarrow> status_partial_logout
       | Inr ps \<Rightarrow> if list_all (\<lambda>p. sp_entity_id p = sr_issuer r) ps then status_success
                  else status_partial_logout)"
proof -
  obtain st1 where
    m: "if sl_replay c \<and> lr_id (sr_logout r) \<noteq> []
        then on_db (mark_seen now (lr_id (sr_logout r)) slo_replay_ttl) st = (Inr (), st1) else st1 = st"
    and tm: "slo_terminate c now arnd rid slug (rp_relay_state (sr_params r)) r st1 = (SloRedirect resp url cks, st')"
    using handle_slo_redirect [OF assms(1)] assms(2) by (metis Inr_inject)
  have i: "issuer_value (lr_session_index (sr_logout r)) = idx" using assms(3) by (simp add: issuer_value_def)
  note e = terminate_redirect [OF tm, unfolded i]
  let ?st = "snd (on_db (revoke_session now idx) st1)"
  have "fault (audit_db st1) = fault (audit_db st)"
    using m on_db_snd [of "mark_seen now (lr_id (sr_logout r)) slo_replay_ttl" st] by (auto simp: mark_seen_snd split: if_splits)
  then have nf: "fault (audit_db st1) op = False" for op using assms(5) by simp
  have "revoke_session now idx (audit_db st1) = (Inr (), audit_db ?st)"
    using nf assms(4) by (simp add: on_db_snd revoke_session_def db_put_def session_pk_def)
  from revocation.mark_live [OF assms(4) _ this, of t]
  have rv: "is_session_revoked t idx (audit_db ?st) = Inr (unix t \<le> unix now + 9 * 3600)"
    using nf by (simp add: revoked_session_ttl_def unix_add_hours)
  have st': "st' = ?st \<or> (\<exists>ty pl i. st' = snd (log_step now arnd slug i ty (sr_issuer r) [] pl ?st))"
    using e assms(4) by simp
  have p: "get_participants now idx (audit_db st') = get_participants now idx (audit_db ?st)"
    using st' by (auto simp: participants_log_step)
  have "other_participants ps iss > 0 \<longleftrightarrow> \<not> list_all (\<lambda>p. sp_entity_id p = iss) ps" for ps iss
    by (induction ps) (auto simp: other_participants_def)
  then have "lp_status resp = (case get_participants now idx (audit_db st') of
         Inl _ \<Rightarrow> status_partial_logout
       | Inr ps \<Rightarrow> if list_all (\<lambda>p. sp_entity_id p = sr_issuer r) ps then status_success
                  else status_partial_logout)"
    unfolding p using e assms(4) by (simp add: logout_status_def split: sum.split)
  moreover have "is_session_revoked t idx (audit_db st') = Inr (unix t \<le> unix now + 9 * 3600)"
    using st' rv by auto
  ultimately show ?thesis using e by simp
qed

subsection \<open>A concrete logout\<close>

text \<open>A service provider of the sample tenant with a certificate, and an environment that accepts one
  signature and reads one message.\<close>

definition demo_logout :: "string \<Rightarrow> logout_request" where
  "demo_logout i = \<lparr>lr_id = i, lr_issue_instant = hours 1, lr_not_on_or_after = None,
     lr_destination = [], lr_issuer = Some ''sp1'', lr_session_index = Some ''s1''\<rparr>"

definition demo_slo :: "string \<Rightarrow> slo_config" where
  "demo_slo i = \<lparr>sl_env = \<lparr>se_inflate = (\<lambda>b. (b, False)),
       se_unmarshal = (\<lambda>b. if b = ''abc'' then Some (demo_logout i) else None),
       se_cert = (\<lambda>pem. Some (RsaKey pem)),
       se_verify = (\<lambda>h key octets sig. h = SHA256 \<and> sig = ''sig''), se_redirect = (\<lambda>resp relay. lp_destination resp)\<rparr>,
     sl_base_url = ''https://h/'', sl_audit = False, sl_replay = True\<rparr>"

definition demo_slo_cfg :: cfg_db where
  "demo_slo_cfg = snd (app_create sample_rnd 5 ''acme'' sample_app
     (Some ((sample_saml ''sp1'')\<lparr>sc_signing_cert_pem := ''PEM''\<rparr>)) empty_db)"

definition demo_slo_query :: string where
  "demo_slo_query =
     ''SAMLRequest=YWJj&SigAlg=http://www.w3.org/2001/04/xmldsig-more%23rsa-sha256&Signature=c2ln''"

definition demo_slo_state :: audit_state where
  "demo_slo_state = \<lparr>seq_num = 0, audit_db = empty_db\<rparr>"

definition run_demo_slo :: "string \<Rightarrow> audit_state \<Rightarrow> slo_outcome \<times> audit_state" where
  "run_demo_slo i st = handle_slo (demo_slo i) demo_slo_cfg (hours 1) (Some [1]) [1] ''acme'' demo_slo_query st"

definition demo_response :: "string \<Rightarrow> logout_response" where
  "demo_response i = \<lparr>lp_id = ''_lr_01'', lp_in_response_to = i, lp_issue_instant = hours 1,
     lp_destination = ''https://sp/acs'', lp_issuer = ''https://h/t/acme/saml/metadata'', lp_status = status_success\<rparr>"

text \<open>The sample request is authenticated once; a run then starts with claiming its id.\<close>

definition demo_accepted :: "string \<Rightarrow> slo_request" where
  "demo_accepted i = \<lparr>sr_logout = demo_logout i, sr_issuer = ''sp1'',
     sr_params = empty_params\<lparr>rp_saml_request_raw := ''YWJj'',
       rp_sig_alg_raw := ''http://www.w3.org/2001/04/xmldsig-more%23rsa-sha256'', rp_has_sig_alg := True,
       rp_signature_raw := ''c2ln'', rp_has_signature := True, rp_saml_request := ''YWJj''\<rparr>,
     sr_config = (sample_saml ''sp1'')\<lparr>sc_signing_cert_pem := ''PEM''\<rparr>\<rparr>"

lemma demo_authenticates:
  "slo_authenticate (sl_env (demo_slo i)) demo_slo_cfg (hours 1) (sl_base_url (demo_slo i)) ''acme'' demo_slo_query =
     Inr (demo_accepted i)"
  by code_simp

lemma demo_accepted_sel:
  "lr_id (sr_logout (demo_accepted i)) = i" "rp_relay_state (sr_params (demo_accepted i)) = []"
  "sl_replay (demo_slo i)"
  by (simp_all add: demo_accepted_def demo_logout_def demo_slo_def empty_params_def)

lemma demo_runs:
  "run_demo_slo i st = (let r = demo_accepted i in
     case on_db (mark_seen (hours 1) (lr_id (sr_logout r)) slo_replay_ttl) st of
       (Inl e, st1) \<Rightarrow>
         if errors_is e ErrConditionFailed
         then (SloError 403 ''replayed LogoutRequest'', audit_slo_rejected (demo_slo i) (hours 1) (Some [1]) ''acme''
            (lr_id (sr_logout r), sr_issuer r, ''replayed_request'') st1)
         else (SloError 503 ''replay protection unavailable'', st1)
     | (Inr _, st1) \<Rightarrow> slo_terminate (demo_slo i) (hours 1) (Some [1]) [1] ''acme'' [] r st1)"
  if "i \<noteq> []"
  using that unfolding run_demo_slo_def handle_slo_def demo_authenticates
  by (simp add: demo_accepted_sel Let_def)

lemma demo_first: "fst (run_demo_slo ''i1'' demo_slo_state) =
    SloRedirect (demo_response ''i1'') ''https://sp/acs'' [clear_session_cookie]"
  by (subst demo_runs, simp) code_simp

lemma demo_second: "fst (run_demo_slo ''i2'' (snd (run_demo_slo ''i1'' demo_slo_state))) =
    SloRedirect (demo_response ''i2'') ''https://sp/acs'' [clear_session_cookie]"
  by (subst demo_runs, simp, subst demo_runs, simp) code_simp

lemma pair_fst: "fst p = a \<Longrightarrow> p = (a, snd p)"
  by (cases p) simp


subsection \<open>How long an id is remembered\<close>

text \<open>The record of a logout request's id outlives the request's acceptance when it was issued no later
  than its first use: at any instant at which the request is still accepted the id still counts as
  seen. A request issued ahead of the clock, which the skew allows, escapes: ten minutes after its
  first use it is accepted while the record, kept for eight minutes, has expired.\<close>

lemma slo_replay_window:
  assumes "mark_seen t0 (lr_id req) slo_replay_ttl d = (Inr (), d')"
    and "\<not> fault d (OpGet (mkey (replay_pk (lr_id req)) ''_''))" and "0 \<le> t0"
  shows "(check_logout_request_freshness req t = Inr () \<and> lr_issue_instant req \<le> t0 \<longrightarrow>
       is_seen t (lr_id req) d' = Inr True) \<and>
    (\<exists>ahead. lr_id ahead = lr_id req \<and>
       check_logout_request_freshness ahead t0 = Inr () \<and>
       check_logout_request_freshness ahead (t0 + minutes 10) = Inr () \<and>
       is_seen (t0 + minutes 10) (lr_id ahead) d' = Inr False)"
proof -
  have seen: "is_seen t (lr_id req) d' = Inr (unix t \<le> unix (t0 + slo_replay_ttl))" for t
    using replay.mark_live [OF _ assms(2,1)] by simp
  have "is_seen t (lr_id req) d' = Inr True"
    if "check_logout_request_freshness req t = Inr ()" "lr_issue_instant req \<le> t0"
  proof -
    have "t \<le> t0 + slo_replay_ttl" using that by (simp add: freshness_iff slo_time_defs)
    then show ?thesis using seen [of t] unix_mono by simp
  qed
  moreover
  let ?ahead = "req\<lparr>lr_issue_instant := t0 + minutes 3, lr_not_on_or_after := None\<rparr>"
  have "check_logout_request_freshness ?ahead t0 = Inr ()"
    "check_logout_request_freshness ?ahead (t0 + minutes 10) = Inr ()"
    using assms(3) by (simp_all add: freshness_iff minutes_def zero_time_def)
  moreover have "unix t0 + 8 * 60 < unix t0 + 10 * 60" by simp
  then have "is_seen (t0 + minutes 10) (lr_id req) d' = Inr False"
    using seen [of "t0 + minutes 10"] by (simp add: slo_replay_ttl_def slo_max_request_age_def slo_clock_skew_def
        unix_add_minutes flip: add.assoc)
  ultimately show ?thesis by (intro conjI impI exI [of _ ?ahead]) simp_all
qed

theorem slo_replay_window_witness:
  "is_seen (minutes 10) ''i1'' (snd (mark_seen 0 ''i1'' slo_replay_ttl empty_db)) = Inr False"
proof -
  have m: "mark_seen 0 (lr_id (demo_logout ''i1'')) slo_replay_ttl empty_db =
      (Inr (), snd (mark_seen 0 ''i1'' slo_replay_ttl empty_db))"
    by (simp add: demo_logout_def mark_seen_def db_put_new_def empty_db_def replay_pk_def lookup_def)
  have f: "\<not> fault empty_db (OpGet (mkey (replay_pk (lr_id (demo_logout ''i1''))) ''_''))" by (simp add: empty_db_def)
  obtain ahead :: logout_request where "lr_id ahead = lr_id (demo_logout ''i1'')"
      "is_seen (0 + minutes 10) (lr_id ahead) (snd (mark_seen 0 ''i1'' slo_replay_ttl empty_db)) = Inr False"
    using conjunct2 [OF slo_replay_window [OF m f order_refl]] by blast
  then show ?thesis by (simp add: demo_logout_def)
qed

end
