(* ===== verification/OidcClient.thy ===== *)
theory OidcClient
  imports AppStore SessionItems
begin

text \<open>
  \<^verbatim>\<open>internal/oidc/client.go\<close>, \<^verbatim>\<open>refresh_token.go\<close> and the issuer of \<^verbatim>\<open>storage.go\<close>: the client view of
  an application, its lifetimes, and the two requests tokens are issued for.
\<close>

subsection \<open>Clients\<close>

record client =
  cl_app :: application
  cl_oidc_cfg :: "oidc_config option"

datatype auth_method = AuthMethodBasic | AuthMethodPost | AuthMethodNone

definition default_token_lifetime :: duration where
  "default_token_lifetime = hours 1"

definition bounded_token_lifetime :: "int \<Rightarrow> duration" where
  "bounded_token_lifetime sec =
     (if sec = 0 then default_token_lifetime
      else if sec < token_lifetime_min_sec then seconds token_lifetime_min_sec
      else if sec > token_lifetime_max_sec then seconds token_lifetime_max_sec
      else seconds sec)"

definition client_id :: "client \<Rightarrow> string" where
  "client_id c = a_id (cl_app c)"

definition client_redirect_uris :: "client \<Rightarrow> string list" where
  "client_redirect_uris c = (case cl_oidc_cfg c of None \<Rightarrow> [] | Some o' \<Rightarrow> oc_redirect_uris o')"

definition client_post_logout_redirect_uris :: "client \<Rightarrow> string list" where
  "client_post_logout_redirect_uris c =
     (case cl_oidc_cfg c of None \<Rightarrow> [] | Some o' \<Rightarrow> oc_post_logout_redirect_uris o')"

definition client_auth_method :: "client \<Rightarrow> auth_method" where
  "client_auth_method c =
     (case cl_oidc_cfg c of
        None \<Rightarrow> AuthMethodBasic
      | Some o' \<Rightarrow>
          if oc_token_endpoint_auth_method o' = ''client_secret_post'' then AuthMethodPost
          else if oc_token_endpoint_auth_method o' = ''none'' then AuthMethodNone
          else AuthMethodBasic)"

definition client_response_types :: "client \<Rightarrow> string list" where
  "client_response_types c =
     (case cl_oidc_cfg c of
        None \<Rightarrow> [''code'']
      | Some o' \<Rightarrow> if oc_response_types o' = [] then [''code''] else oc_response_types o')"

definition client_grant_types :: "client \<Rightarrow> string list" where
  "client_grant_types c =
     (case cl_oidc_cfg c of
        None \<Rightarrow> [''authorization_code'']
      | Some o' \<Rightarrow> if oc_grant_types o' = [] then [''authorization_code''] else oc_grant_types o')"

definition client_login_url :: "string \<Rightarrow> string" where
  "client_login_url i = ''/login?authRequestID='' @ i"

definition client_id_token_lifetime :: "client \<Rightarrow> duration" where
  "client_id_token_lifetime c =
     (case cl_oidc_cfg c of
        None \<Rightarrow> default_token_lifetime
      | Some o' \<Rightarrow> bounded_token_lifetime (oc_id_token_lifetime_sec o'))"

definition client_is_scope_allowed :: "client \<Rightarrow> string \<Rightarrow> bool" where
  "client_is_scope_allowed c scope =
     (case cl_oidc_cfg c of
        None \<Rightarrow> scope \<in> {''openid'', ''profile'', ''email''}
      | Some o' \<Rightarrow> list_ex (\<lambda>s. s = scope) (oc_scopes o'))"

lemma bounded_token_lifetime_bounds:
  "seconds token_lifetime_min_sec \<le> bounded_token_lifetime sec \<and>
   bounded_token_lifetime sec \<le> seconds token_lifetime_max_sec"
  by (auto simp: bounded_token_lifetime_def default_token_lifetime_def bound_defs time_defs)

subsection \<open>Token requests\<close>

text \<open>
  \<^verbatim>\<open>op.TokenRequest\<close>: an authorization request loaded by its code, a refresh request rebuilt from a
  stored refresh token, or a request of another grant, which may lack a client id.
\<close>

record refresh_request =
  rq_client_id :: string
  rq_subject :: string
  rq_audience :: "string list"
  rq_scopes :: "string list"
  rq_amr :: "string list"
  rq_auth_time :: gotime
  rq_claims :: subject_claims

datatype token_request =
    TRAuth auth_request
  | TRRefresh refresh_request
  | TROther string "string list" "string list" "string option"

definition req_subject :: "token_request \<Rightarrow> string" where
  "req_subject r = (case r of TRAuth a \<Rightarrow> ar_user_id a | TRRefresh q \<Rightarrow> rq_subject q
     | TROther s _ _ _ \<Rightarrow> s)"

definition req_audience :: "token_request \<Rightarrow> string list" where
  "req_audience r = (case r of TRAuth a \<Rightarrow> [ar_client_id a] | TRRefresh q \<Rightarrow> rq_audience q
     | TROther _ aud _ _ \<Rightarrow> aud)"

definition req_scopes :: "token_request \<Rightarrow> string list" where
  "req_scopes r = (case r of TRAuth a \<Rightarrow> ar_scopes a | TRRefresh q \<Rightarrow> rq_scopes q
     | TROther _ _ sc _ \<Rightarrow> sc)"

definition req_client_id :: "token_request \<Rightarrow> string" where
  "req_client_id r = (case r of TRAuth a \<Rightarrow> ar_client_id a | TRRefresh q \<Rightarrow> rq_client_id q
     | TROther _ _ _ c \<Rightarrow> (case c of None \<Rightarrow> [] | Some i \<Rightarrow> i))"

definition claims_from_request :: "token_request \<Rightarrow> subject_claims" where
  "claims_from_request r =
     (case r of
        TRAuth a \<Rightarrow> \<lparr>c_sub = ar_user_id a, c_email = ar_email a, c_email_verified = ar_email_verified a,
          c_given_name = ar_given_name a, c_family_name = ar_family_name a, c_groups = ar_groups a,
          c_custom_attributes = ar_custom_attributes a\<rparr>
      | TRRefresh q \<Rightarrow> rq_claims q
      | TROther s _ _ _ \<Rightarrow> empty_claims\<lparr>c_sub := s\<rparr>)"

definition full_name :: "subject_claims \<Rightarrow> string" where
  "full_name c =
     (if c_given_name c \<noteq> [] \<and> c_family_name c \<noteq> [] then c_given_name c @ '' '' @ c_family_name c
      else [])"

subsection \<open>The tenant of an issuer\<close>

text \<open>What follows the last occurrence of a marker (\<^verbatim>\<open>strings.LastIndex\<close>).\<close>

fun after_last :: "string \<Rightarrow> string \<Rightarrow> string option" where
  "after_last m [] = None"
| "after_last m (c # cs) =
     (case after_last m cs of
        Some r \<Rightarrow> Some r
      | None \<Rightarrow> if has_prefix (c # cs) m then Some (drop (length m) (c # cs)) else None)"

definition tenant_slug_from_issuer :: "string \<Rightarrow> string" where
  "tenant_slug_from_issuer issuer =
     (case after_last ''/t/'' issuer of
        None \<Rightarrow> []
      | Some rest \<Rightarrow> takeWhile (\<lambda>c. c \<noteq> CHR ''/'') rest)"

definition issuer_for_tenant :: "string \<Rightarrow> string \<Rightarrow> string" where
  "issuer_for_tenant base slug = base @ ''/t/'' @ slug @ ''/oidc''"

lemma after_last_prefix:
  "after_last m cs = Some r \<Longrightarrow> after_last m (p @ cs) = Some r"
  by (induction p) auto

text \<open>
  The issuer of a tenant names the tenant, unless the slug holds a slash or is the one letter of the
  marker itself: the issuer of a tenant \<^verbatim>\<open>t\<close> would be read as the tenant \<^verbatim>\<open>oidc\<close>.
\<close>

lemma tenant_slug_issuer:
  assumes "CHR ''/'' \<notin> set slug" and "slug \<noteq> ''t''"
  shows "tenant_slug_from_issuer (issuer_for_tenant base slug) = slug"
proof -
  have none: "after_last ''/t/'' (s @ ''/oidc'') = None" if "CHR ''/'' \<notin> set s" for s
    using that by (induction s) auto
  have "after_last ''/t/'' (''t/'' @ slug @ ''/oidc'') = None"
  proof -
    have "\<not> has_prefix (slug @ ''/oidc'') ''t/''"
    proof
      assume "has_prefix (slug @ ''/oidc'') ''t/''"
      then obtain r where "slug @ ''/oidc'' = ''t/'' @ r" by (auto simp: has_prefix_iff)
      then obtain cs where "slug = CHR ''t'' # cs" "cs @ ''/oidc'' = CHR ''/'' # r"
        using assms(1) by (cases slug) auto
      then show False using assms by (cases cs) auto
    qed
    then have "after_last ''/t/'' (CHR ''/'' # slug @ ''/oidc'') = None"
      using none [OF assms(1)] by simp
    then show ?thesis by simp
  qed
  then have "after_last ''/t/'' (''/t/'' @ slug @ ''/oidc'') = Some (slug @ ''/oidc'')"
    by simp
  then have "after_last ''/t/'' (issuer_for_tenant base slug) = Some (slug @ ''/oidc'')"
    unfolding issuer_for_tenant_def by (rule after_last_prefix)
  moreover have "takeWhile (\<lambda>c. c \<noteq> CHR ''/'') (slug @ ''/oidc'') = slug"
    using assms(1) by (auto simp: takeWhile_append)
  ultimately show ?thesis by (simp add: tenant_slug_from_issuer_def)
qed

end
