(* ===== verification/OidcStorage.thy ===== *)
theory OidcStorage
  imports OidcClient ClaimStore
begin

text \<open>
  \<^verbatim>\<open>internal/oidc/storage.go\<close>, the stored state of the OpenID provider: authorization requests and
  their codes, opaque access tokens, rotating refresh tokens and the session index that a logout
  sweeps. A call takes its clock, its random bytes, the issuer of its context and the configuration
  table as arguments and threads the session table.
\<close>

subsection \<open>Errors and random tokens\<close>

definition err_invalid_refresh_token :: err where
  "err_invalid_refresh_token = ErrMsg ''invalid_refresh_token''"

definition err_invalid_client :: err where
  "err_invalid_client = ErrMsg ''invalid_client''"

definition err_server :: "err \<Rightarrow> err" where
  "err_server e = Wrap ''server_error'' e"

definition generate_opaque_token :: "8 word list option \<Rightarrow> string res" where
  "generate_opaque_token rnd =
     (case rnd of
        None \<Rightarrow> Inl (Wrap ''failed to generate token'' (ErrMsg ''rand''))
      | Some bs \<Rightarrow> Inr (concat (map hex_byte bs)))"

lemma generate_opaque_token_no_hash: "generate_opaque_token rnd = Inr t \<Longrightarrow> no_hash t"
  using hex_byte_no_hash by (auto simp: generate_opaque_token_def split: option.splits)

subsection \<open>Authorization requests\<close>

text \<open>The parsed request of the protocol library, as far as the storage reads it.\<close>

record authorize_params =
  ap_client_id :: string
  ap_redirect_uri :: string
  ap_scopes :: "string list"
  ap_state :: string
  ap_nonce :: string
  ap_response_type :: string
  ap_code_challenge :: string
  ap_code_challenge_method :: string

definition create_auth_request ::
  "8 word list option \<Rightarrow> gotime \<Rightarrow> string \<Rightarrow> authorize_params \<Rightarrow> ses_db \<Rightarrow> auth_request res \<times> ses_db" where
  "create_auth_request rnd now issuer req d =
     (case generate_opaque_token rnd of
        Inl e \<Rightarrow> (Inl e, d)
      | Inr i \<Rightarrow>
          let chal = ap_code_challenge req \<noteq> [];
              a = \<lparr>ar_id = i, ar_client_id = ap_client_id req, ar_redirect_uri = ap_redirect_uri req,
                   ar_scopes = ap_scopes req, ar_state = ap_state req, ar_nonce = ap_nonce req,
                   ar_response_type = ap_response_type req, ar_response_mode = [],
                   ar_code_challenge =
                     (if chal then Some (ap_code_challenge req, ap_code_challenge_method req) else None),
                   ar_created_at = now,
                   ar_auth_time = zero_time, ar_user_id = [], ar_is_done = False,
                   ar_tenant_slug = tenant_slug_from_issuer issuer, ar_source_id = [],
                   ar_auth_code = [],
                   ar_code_challenge_value = (if chal then ap_code_challenge req else []),
                   ar_code_challenge_method = (if chal then ap_code_challenge_method req else []),
                   ar_email = [], ar_given_name = [], ar_family_name = [], ar_email_verified = False,
                   ar_groups = [], ar_custom_attributes = []\<rparr>
          in case db_put (ses_row (auth_request_pk i) meta_sk
                           (AuthReqItem (unix (now + minutes 10)) (a\<lparr>ar_code_challenge := None\<rparr>))) d of
              (Inl e, d') \<Rightarrow> (Inl (Wrap ''failed to save auth request'' e), d')
            | (Inr _, d') \<Rightarrow> (Inr a, d'))"

text \<open>The challenge pointer is not stored but rebuilt from the two stored fields.\<close>

definition restore_challenge :: "auth_request \<Rightarrow> auth_request" where
  "restore_challenge a =
     (if ar_code_challenge_value a \<noteq> []
      then a\<lparr>ar_code_challenge := Some (ar_code_challenge_value a, ar_code_challenge_method a)\<rparr> else a)"

definition auth_request_by_id :: "string \<Rightarrow> ses_db \<Rightarrow> auth_request res" where
  "auth_request_by_id i d =
     (case get_as as_auth_req (auth_request_pk i) meta_sk d of
        Inl e \<Rightarrow> Inl (Wrap ''auth request not found'' e)
      | Inr (ttl, a) \<Rightarrow> Inr (restore_challenge a))"

definition auth_request_by_code :: "string \<Rightarrow> ses_db \<Rightarrow> auth_request res" where
  "auth_request_by_code code d =
     (case get_as as_auth_code (auth_code_pk code) meta_sk d of
        Inl e \<Rightarrow> Inl (Wrap ''auth code not found'' e)
      | Inr i \<Rightarrow> auth_request_by_id i d)"

definition save_auth_code :: "gotime \<Rightarrow> string \<Rightarrow> string \<Rightarrow> ses_db \<Rightarrow> unit res \<times> ses_db" where
  "save_auth_code now i code d =
     (case db_put (ses_row (auth_code_pk code) meta_sk (AuthCodeItem (unix (now + minutes 10)) i)) d of
        (Inl e, d1) \<Rightarrow> (Inl (Wrap ''failed to save auth code'' e), d1)
      | (Inr _, d1) \<Rightarrow>
          (case get_as as_auth_req (auth_request_pk i) meta_sk d1 of
             Inl e \<Rightarrow> (Inr (), d1)
           | Inr (ttl, a) \<Rightarrow>
               (Inr (), best_effort (db_put (ses_row (auth_request_pk i) meta_sk
                          (AuthReqItem ttl (a\<lparr>ar_auth_code := code\<rparr>))) d1))))"

definition complete_auth_request ::
  "gotime \<Rightarrow> string \<Rightarrow> subject_claims \<Rightarrow> ses_db \<Rightarrow> unit res \<times> ses_db" where
  "complete_auth_request now i c d =
     (case get_as as_auth_req (auth_request_pk i) meta_sk d of
        Inl e \<Rightarrow> (Inl (Wrap ''auth request not found'' e), d)
      | Inr (ttl, a) \<Rightarrow>
          let a' = a\<lparr>ar_user_id := c_sub c, ar_is_done := True, ar_auth_time := now,
                     ar_email := c_email c, ar_given_name := c_given_name c,
                     ar_family_name := c_family_name c, ar_email_verified := c_email_verified c,
                     ar_groups := c_groups c, ar_custom_attributes := c_custom_attributes c\<rparr>
          in case db_put (ses_row (auth_request_pk i) meta_sk (AuthReqItem ttl a')) d of
              (Inl e, d') \<Rightarrow> (Inl (Wrap ''failed to complete auth request'' e), d')
            | (Inr _, d') \<Rightarrow> (Inr (), d'))"

definition delete_auth_request :: "string \<Rightarrow> ses_db \<Rightarrow> unit res \<times> ses_db" where
  "delete_auth_request i d =
     (let d1 = (case get_as as_auth_req (auth_request_pk i) meta_sk d of
                  Inl e \<Rightarrow> d
                | Inr (ttl, a) \<Rightarrow>
                    (if ar_auth_code a \<noteq> []
                     then best_effort (db_delete (auth_code_pk (ar_auth_code a)) meta_sk d) else d))
      in db_delete (auth_request_pk i) meta_sk d1)"

subsection \<open>The session index\<close>

definition index_session_token ::
  "string \<Rightarrow> string \<Rightarrow> string \<Rightarrow> token_type \<Rightarrow> string \<Rightarrow> int \<Rightarrow> ses_db \<Rightarrow> ses_db" where
  "index_session_token issuer subject cid ty ref ttl d =
     (if subject = [] \<or> cid = [] \<or> ref = [] then d
      else best_effort (db_put
             (ses_row (session_index_pk (tenant_slug_from_issuer issuer) subject cid)
                (session_index_sk ref) (IndexItem ttl ty ref)) d))"

definition delete_session_token_index ::
  "string \<Rightarrow> string \<Rightarrow> string \<Rightarrow> string \<Rightarrow> ses_db \<Rightarrow> ses_db" where
  "delete_session_token_index issuer subject cid ref d =
     (if subject = [] \<or> cid = [] \<or> ref = [] then d
      else best_effort (db_delete
             (session_index_pk (tenant_slug_from_issuer issuer) subject cid)
             (session_index_sk ref) d))"

subsection \<open>Tokens\<close>

definition default_refresh_token_lifetime :: duration where
  "default_refresh_token_lifetime = hours (30 * 24)"

definition access_token_lifetime :: "string \<Rightarrow> cfg_db \<Rightarrow> duration" where
  "access_token_lifetime cid cfg =
     (if cid = [] then default_token_lifetime
      else case get_by_client_id cid cfg of
          Inr (_, _, Some oc) \<Rightarrow> bounded_token_lifetime (oc_access_token_lifetime_sec oc)
        | _ \<Rightarrow> default_token_lifetime)"

text \<open>The product of the seconds and a second wraps at 64 bits, as in Go.\<close>

definition refresh_token_lifetime :: "string \<Rightarrow> cfg_db \<Rightarrow> duration" where
  "refresh_token_lifetime cid cfg =
     (if cid = [] then default_refresh_token_lifetime
      else case get_by_client_id cid cfg of
          Inr (_, _, Some oc) \<Rightarrow>
            (if oc_refresh_token_lifetime_sec oc > 0
             then sint (word_of_int (seconds (oc_refresh_token_lifetime_sec oc)) :: 64 word)
             else default_refresh_token_lifetime)
        | _ \<Rightarrow> default_refresh_token_lifetime)"

definition create_access_token ::
  "8 word list option \<Rightarrow> gotime \<Rightarrow> string \<Rightarrow> cfg_db \<Rightarrow> token_request \<Rightarrow> ses_db
     \<Rightarrow> (string \<times> gotime) res \<times> ses_db" where
  "create_access_token rnd now issuer cfg req d =
     (case generate_opaque_token rnd of
        Inl e \<Rightarrow> (Inl e, d)
      | Inr tok \<Rightarrow>
          let cid = req_client_id req;
              expiration = now + access_token_lifetime cid cfg;
              ttl = unix (expiration + hours 1);
              item = \<lparr>at_token_id = tok, at_audience = req_audience req, at_scopes = req_scopes req,
                      at_client_id = cid, at_expires_at = expiration,
                      at_claims = (claims_from_request req)\<lparr>c_sub := req_subject req\<rparr>\<rparr>
          in case db_put (ses_row (access_token_pk tok) meta_sk (AccessItem ttl item)) d of
              (Inl e, d') \<Rightarrow> (Inl (Wrap ''failed to store access token'' e), d')
            | (Inr _, d') \<Rightarrow>
                (Inr (tok, expiration),
                 index_session_token issuer (req_subject req) cid TokAccess tok ttl d'))"

text \<open>The requests refresh tokens are issued for also carry the authentication methods and time.\<close>

definition refreshable :: "token_request \<Rightarrow> (string list \<times> gotime) option" where
  "refreshable req =
     (case req of
        TRAuth a \<Rightarrow> Some ([''pwd''], ar_auth_time a)
      | TRRefresh q \<Rightarrow> Some (rq_amr q, rq_auth_time q)
      | TROther _ _ _ _ \<Rightarrow> None)"

definition create_access_and_refresh_tokens ::
  "8 word list option \<Rightarrow> 8 word list option \<Rightarrow> gotime \<Rightarrow> string \<Rightarrow> cfg_db \<Rightarrow> token_request \<Rightarrow> string
     \<Rightarrow> ses_db \<Rightarrow> (string \<times> string \<times> gotime) res \<times> ses_db" where
  "create_access_and_refresh_tokens rnd rnd2 now issuer cfg req current d =
     (case create_access_token rnd now issuer cfg req d of
        (Inl e, d1) \<Rightarrow> (Inl e, d1)
      | (Inr (acc, expiration), d1) \<Rightarrow>
          (case refreshable req of
             None \<Rightarrow> (Inl (ErrMsg ''unsupported token request type''), d1)
           | Some (amr, auth_time) \<Rightarrow>
               (case generate_opaque_token rnd2 of
                  Inl e \<Rightarrow> (Inl e, d1)
                | Inr tok \<Rightarrow>
                    let cid = req_client_id req;
                        refresh_expiry = now + refresh_token_lifetime cid cfg;
                        ttl = unix (refresh_expiry + hours 1);
                        item = \<lparr>rt_token = tok, rt_client_id = cid, rt_audience = req_audience req,
                                rt_scopes = req_scopes req, rt_amr = amr, rt_auth_time = auth_time,
                                rt_expires_at = refresh_expiry,
                                rt_claims = (claims_from_request req)\<lparr>c_sub := req_subject req\<rparr>\<rparr>
                    in case db_put (ses_row (refresh_token_pk tok) meta_sk (RefreshItem ttl item)) d1 of
                        (Inl e, d2) \<Rightarrow> (Inl (Wrap ''failed to store refresh token'' e), d2)
                      | (Inr _, d2) \<Rightarrow>
                          let d3 = index_session_token issuer (req_subject req) cid TokRefresh tok ttl d2;
                              d4 = (if current \<noteq> [] \<and> current \<noteq> tok
                                    then delete_session_token_index issuer (req_subject req) cid current
                                           (best_effort (db_delete (refresh_token_pk current) meta_sk d3))
                                    else d3)
                          in (Inr (acc, tok, expiration), d4))))"

definition token_request_by_refresh_token ::
  "gotime \<Rightarrow> cfg_db \<Rightarrow> string \<Rightarrow> ses_db \<Rightarrow> refresh_request res \<times> ses_db" where
  "token_request_by_refresh_token now cfg tok d =
     (case get_as as_refresh (refresh_token_pk tok) meta_sk d of
        Inl e \<Rightarrow> (Inl err_invalid_refresh_token, d)
      | Inr item \<Rightarrow>
          if rt_expires_at item \<noteq> zero_time \<and> now > rt_expires_at item then
            (Inl err_invalid_refresh_token, best_effort (db_delete (refresh_token_pk tok) meta_sk d))
          else if (case get_by_client_id (rt_client_id item) cfg of
                     Inl _ \<Rightarrow> True | Inr (_, app, _) \<Rightarrow> a_status app \<noteq> ''active'') then
            (Inl err_invalid_refresh_token, best_effort (db_delete (refresh_token_pk tok) meta_sk d))
          else
            (Inr \<lparr>rq_client_id = rt_client_id item, rq_subject = c_sub (rt_claims item),
                  rq_audience = rt_audience item, rq_scopes = rt_scopes item, rq_amr = rt_amr item,
                  rq_auth_time = rt_auth_time item, rq_claims = rt_claims item\<rparr>, d))"

subsection \<open>Logout and revocation\<close>

text \<open>The loop over the index rows: the token by its type, then the row itself, errors discarded.\<close>

fun sweep :: "string \<Rightarrow> (token_type \<times> string) list \<Rightarrow> ses_db \<Rightarrow> ses_db" where
  "sweep ipk [] d = d"
| "sweep ipk ((ty, ref) # rows) d =
     sweep ipk rows
       (best_effort (db_delete ipk (session_index_sk ref)
         (case ty of
            TokRefresh \<Rightarrow> best_effort (db_delete (refresh_token_pk ref) meta_sk d)
          | TokAccess \<Rightarrow> best_effort (db_delete (access_token_pk ref) meta_sk d))))"

definition terminate_session :: "string \<Rightarrow> string \<Rightarrow> string \<Rightarrow> ses_db \<Rightarrow> unit res \<times> ses_db" where
  "terminate_session issuer user cid d =
     (if user = [] \<or> cid = [] then (Inr (), d)
      else let ipk = session_index_pk (tenant_slug_from_issuer issuer) user cid in
        case db_query ipk (session_index_sk []) d of
          Inl e \<Rightarrow> (Inl (Wrap ''failed to query session tokens for logout'' e), d)
        | Inr rows \<Rightarrow> (Inr (), sweep ipk (List.map_filter as_index rows) d))"

definition revoke_token :: "string \<Rightarrow> string \<Rightarrow> string \<Rightarrow> ses_db \<Rightarrow> unit res \<times> ses_db" where
  "revoke_token tok user cid d =
     (case get_as as_access (access_token_pk tok) meta_sk d of
        Inr acc \<Rightarrow>
          if cid \<noteq> [] \<and> at_client_id acc \<noteq> [] \<and> at_client_id acc \<noteq> cid then (Inr (), d)
          else (case db_delete (access_token_pk tok) meta_sk d of
              (Inl e, d') \<Rightarrow> (Inl (err_server e), d')
            | (Inr _, d') \<Rightarrow> (Inr (), d'))
      | Inl _ \<Rightarrow>
          (case get_as as_refresh (refresh_token_pk tok) meta_sk d of
             Inr ref \<Rightarrow>
               if cid \<noteq> [] \<and> rt_client_id ref \<noteq> [] \<and> rt_client_id ref \<noteq> cid then (Inr (), d)
               else (case db_delete (refresh_token_pk tok) meta_sk d of
                   (Inl e, d') \<Rightarrow> (Inl (err_server e), d')
                 | (Inr _, d') \<Rightarrow> (Inr (), d'))
           | Inl _ \<Rightarrow> (Inr (), d)))"

definition get_refresh_token_info :: "string \<Rightarrow> string \<Rightarrow> ses_db \<Rightarrow> (string \<times> string) res" where
  "get_refresh_token_info cid tok d =
     (case get_as as_refresh (refresh_token_pk tok) meta_sk d of
        Inl _ \<Rightarrow> Inl err_invalid_refresh_token
      | Inr item \<Rightarrow>
          if cid \<noteq> [] \<and> rt_client_id item \<noteq> [] \<and> rt_client_id item \<noteq> cid
          then Inl err_invalid_refresh_token
          else Inr (c_sub (rt_claims item), tok))"

subsection \<open>Clients of a request\<close>

definition get_client_by_client_id :: "string \<Rightarrow> cfg_db \<Rightarrow> string \<Rightarrow> client res" where
  "get_client_by_client_id issuer cfg cid =
     (case get_by_client_id cid cfg of
        Inl e \<Rightarrow> Inl (Wrap ''client not found'' e)
      | Inr (slug, app, oc) \<Rightarrow>
          let tn = tenant_slug_from_issuer issuer in
          if tn \<noteq> [] \<and> tn \<noteq> slug then Inl (ErrMsg ''client not found in tenant'')
          else if a_status app \<noteq> ''active'' then Inl err_invalid_client
          else Inr \<lparr>cl_app = app, cl_oidc_cfg = oc\<rparr>)"

definition authorize_client_id_secret :: "string \<Rightarrow> cfg_db \<Rightarrow> string \<Rightarrow> string \<Rightarrow> unit res" where
  "authorize_client_id_secret issuer cfg cid secret =
     (case get_client_by_client_id issuer cfg cid of
        Inl e \<Rightarrow> Inl e
      | Inr c \<Rightarrow>
          if client_auth_method c = AuthMethodNone then Inr ()
          else case cl_oidc_cfg c of
              None \<Rightarrow> Inl (ErrMsg ''client has no OIDC configuration'')
            | Some oc \<Rightarrow>
                if oc_client_secret oc = [] then Inl (ErrMsg ''client has no configured secret'')
                else if oc_client_secret oc \<noteq> secret then Inl (ErrMsg ''invalid client secret'')
                else Inr ())"

subsection \<open>Signing keys\<close>

text \<open>The keys advertised beside the active one; the signer itself is a key service.\<close>

record ('k) key_set =
  ks_key_id :: string
  ks_active :: 'k
  ks_extra :: "(string \<times> 'k) list"

definition key_set :: "'k key_set \<Rightarrow> (string \<times> 'k) list" where
  "key_set ks = (ks_key_id ks, ks_active ks) # ks_extra ks"

definition add_verification_key :: "string \<Rightarrow> 'k option \<Rightarrow> 'k key_set \<Rightarrow> 'k key_set" where
  "add_verification_key kid jwk ks =
     (case jwk of
        None \<Rightarrow> ks
      | Some k \<Rightarrow>
          if kid = [] \<or> kid = ks_key_id ks then ks else ks\<lparr>ks_extra := ks_extra ks @ [(kid, k)]\<rparr>)"

end
