(* ===== verification/OidcClaims.thy ===== *)
theory OidcClaims
  imports OidcStorage
begin

text \<open>
  The claims of \<^verbatim>\<open>internal/oidc/storage.go\<close> and \<^verbatim>\<open>internal/cognito/claims.go\<close>: from the verified
  Cognito token to the ID token, the userinfo response and the introspection response. Go maps are
  association lists with distinct keys; which order a range over them takes does not matter here.
\<close>

subsection \<open>Cognito claims\<close>

text \<open>\<^verbatim>\<open>cognito.UserClaims\<close> has the fields of \<^verbatim>\<open>SubjectClaims\<close>.\<close>

definition str_claim :: "(string \<times> claim_value) list \<Rightarrow> string \<Rightarrow> string" where
  "str_claim payload k = (case map_of payload k of Some (CStr s) \<Rightarrow> s | _ \<Rightarrow> [])"

definition as_str :: "claim_value \<Rightarrow> string option" where
  "as_str v = (case v of CStr s \<Rightarrow> Some s | _ \<Rightarrow> None)"

definition extract_claims :: "(string \<times> claim_value) list \<Rightarrow> subject_claims" where
  "extract_claims payload =
     \<lparr>c_sub = str_claim payload ''sub'',
      c_email = str_claim payload ''email'',
      c_email_verified = (case map_of payload ''email_verified'' of Some (CBool b) \<Rightarrow> b | _ \<Rightarrow> False),
      c_given_name = str_claim payload ''given_name'',
      c_family_name = str_claim payload ''family_name'',
      c_groups = (case map_of payload ''cognito:groups'' of
          Some (CList vs) \<Rightarrow> List.map_filter as_str vs | _ \<Rightarrow> []),
      c_custom_attributes = List.map_filter
        (\<lambda>(k, v). if has_prefix k ''custom:''
                  then map_option (\<lambda>s. (trim_prefix k ''custom:'', s)) (as_str v) else None) payload\<rparr>"

definition subject_claims_from_cognito :: "subject_claims option \<Rightarrow> subject_claims" where
  "subject_claims_from_cognito c = (case c of None \<Rightarrow> empty_claims | Some x \<Rightarrow> x)"

subsection \<open>Responses\<close>

datatype private_value = PStr string | PList "string list"

record userinfo =
  ui_subject :: string
  ui_email :: string
  ui_email_verified :: bool
  ui_given_name :: string
  ui_family_name :: string
  ui_name :: string
  ui_preferred_username :: string
  ui_claims :: "(string \<times> private_value) list"

definition empty_userinfo :: userinfo where
  "empty_userinfo = \<lparr>ui_subject = [], ui_email = [], ui_email_verified = False, ui_given_name = [],
     ui_family_name = [], ui_name = [], ui_preferred_username = [], ui_claims = []\<rparr>"

record introspection =
  in_active :: bool
  in_subject :: string
  in_scope :: "string list"
  in_client_id :: string
  in_token_type :: string
  in_expiration :: gotime
  in_username :: string
  in_email :: string
  in_email_verified :: bool
  in_name :: string
  in_given_name :: string
  in_family_name :: string

subsection \<open>Standard claims\<close>

definition apply_scope :: "subject_claims \<Rightarrow> string \<Rightarrow> userinfo \<Rightarrow> userinfo" where
  "apply_scope c scope ui =
     (if scope = ''email'' then
        (let ui1 = (if c_email c \<noteq> [] then ui\<lparr>ui_email := c_email c\<rparr> else ui)
         in ui1\<lparr>ui_email_verified := c_email_verified c\<rparr>)
      else if scope = ''profile'' then
        (let ui1 = (if c_given_name c \<noteq> [] then ui\<lparr>ui_given_name := c_given_name c\<rparr> else ui);
             ui2 = (if c_family_name c \<noteq> [] then ui1\<lparr>ui_family_name := c_family_name c\<rparr> else ui1);
             ui3 = (if full_name c \<noteq> [] then ui2\<lparr>ui_name := full_name c\<rparr> else ui2)
         in (if c_email c \<noteq> [] then ui3\<lparr>ui_preferred_username := c_email c\<rparr> else ui3))
      else ui)"

definition apply_standard_claims :: "userinfo \<Rightarrow> subject_claims \<Rightarrow> string list \<Rightarrow> userinfo" where
  "apply_standard_claims ui c scopes = fold (apply_scope c) scopes ui"

subsection \<open>Private claims\<close>

definition reserved_claim_names :: "string list" where
  "reserved_claim_names =
     [''sub'', ''iss'', ''aud'', ''exp'', ''iat'', ''nbf'', ''nonce'', ''at_hash'', ''c_hash'', ''azp'',
      ''auth_time'', ''amr'', ''acr'', ''email'', ''email_verified'', ''name'', ''given_name'',
      ''family_name'', ''preferred_username'']"

definition resolve_subject_field :: "subject_claims \<Rightarrow> string \<Rightarrow> string" where
  "resolve_subject_field c source =
     (if source = ''email'' then c_email c
      else if source = ''given_name'' then c_given_name c
      else if source = ''family_name'' then c_family_name c
      else if source = ''name'' \<or> source = ''common_name'' then full_name c
      else if source = ''sub'' \<or> source = ''username'' then c_sub c
      else case map_of (c_custom_attributes c) (trim_prefix source ''custom:'') of
          None \<Rightarrow> [] | Some v \<Rightarrow> v)"

definition mapping_value ::
  "(string \<times> string) list \<Rightarrow> subject_claims \<Rightarrow> claim_mapping \<Rightarrow> private_value option" where
  "mapping_value role_map c cm =
     (if is_cognito_source (cm_source_type cm) then
        (let v = resolve_subject_field c (cm_source_attribute cm);
             v' = (if v = [] \<and> cm_default_value cm \<noteq> [] then cm_default_value cm else v)
         in if v' \<noteq> [] then Some (PStr v') else None)
      else if cm_source_type cm = ''groupMapping'' then
        (let mapped = List.map_filter (map_of role_map) (c_groups c)
         in if mapped \<noteq> [] then Some (PList mapped) else None)
      else if cm_source_type cm = ''static'' then
        (if cm_default_value cm \<noteq> [] then Some (PStr (cm_default_value cm)) else None)
      else None)"

fun eval_mappings ::
  "(string \<times> string) list \<Rightarrow> subject_claims \<Rightarrow> claim_mapping list \<Rightarrow> (string \<times> private_value) list
     \<Rightarrow> (string \<times> private_value) list" where
  "eval_mappings role_map c [] out = out"
| "eval_mappings role_map c (cm # cms) out =
     eval_mappings role_map c cms
       (if cm_target_attribute cm = [] \<or> cm_target_attribute cm \<in> set reserved_claim_names then out
        else case mapping_value role_map c cm of
            None \<Rightarrow> out
          | Some v \<Rightarrow> AList.update (cm_target_attribute cm) v out)"

text \<open>The role map is filled in order, so the last mapping of a group counts.\<close>

definition role_map_of :: "role_mapping list \<Rightarrow> (string \<times> string) list" where
  "role_map_of rms = fold (\<lambda>rm m. AList.update (rm_cognito_group rm) (rm_mapped_value rm) m) rms []"

definition mapped_claims ::
  "string \<Rightarrow> cfg_db \<Rightarrow> string \<Rightarrow> subject_claims \<Rightarrow> (string \<times> private_value) list" where
  "mapped_claims issuer cfg cid c =
     (if cid = [] then []
      else let slug = tenant_slug_from_issuer issuer in
        case get_claim_mappings slug cid cfg of
          Inl _ \<Rightarrow> []
        | Inr [] \<Rightarrow> []
        | Inr cms \<Rightarrow>
            eval_mappings
              (role_map_of (case get_role_mappings slug cid cfg of Inl _ \<Rightarrow> [] | Inr rms \<Rightarrow> rms))
              c cms [])"

definition private_claims ::
  "string \<Rightarrow> cfg_db \<Rightarrow> string \<Rightarrow> subject_claims \<Rightarrow> (string \<times> private_value) list" where
  "private_claims issuer cfg cid c =
     fold (\<lambda>(k, v) m. AList.update k v m) (mapped_claims issuer cfg cid c)
       (if c_groups c \<noteq> [] then [(''groups'', PList (c_groups c))] else [])"

definition apply_private_claims ::
  "string \<Rightarrow> cfg_db \<Rightarrow> userinfo \<Rightarrow> string \<Rightarrow> subject_claims \<Rightarrow> userinfo" where
  "apply_private_claims issuer cfg ui cid c =
     ui\<lparr>ui_claims := fold (\<lambda>(k, v) m. AList.update k v m) (private_claims issuer cfg cid c) (ui_claims ui)\<rparr>"

subsection \<open>The callbacks\<close>

definition set_userinfo_from_scopes :: "userinfo \<Rightarrow> string \<Rightarrow> userinfo" where
  "set_userinfo_from_scopes ui user = ui\<lparr>ui_subject := user\<rparr>"

definition set_userinfo_from_request ::
  "string \<Rightarrow> cfg_db \<Rightarrow> userinfo \<Rightarrow> token_request \<Rightarrow> string list \<Rightarrow> userinfo" where
  "set_userinfo_from_request issuer cfg ui req scopes =
     (case req of
        TROther _ _ _ _ \<Rightarrow> ui
      | _ \<Rightarrow>
          let c = claims_from_request req in
          apply_private_claims issuer cfg (apply_standard_claims ui c scopes) (req_client_id req) c)"

definition set_userinfo_from_token ::
  "gotime \<Rightarrow> string \<Rightarrow> cfg_db \<Rightarrow> userinfo \<Rightarrow> string \<Rightarrow> string \<Rightarrow> ses_db \<Rightarrow> unit res \<times> userinfo" where
  "set_userinfo_from_token now issuer cfg ui tok subject d =
     (case get_as as_access (access_token_pk tok) meta_sk d of
        Inl e \<Rightarrow> (Inl (Wrap ''access token not found or revoked'' e), ui)
      | Inr item \<Rightarrow>
          if \<not> at_expires_at item > now then (Inl (ErrMsg ''access token expired''), ui)
          else let c = at_claims item;
                   ui1 = apply_standard_claims (ui\<lparr>ui_subject := subject\<rparr>) c (at_scopes item)
               in (Inr (), apply_private_claims issuer cfg ui1 (at_client_id item) c))"

definition set_introspection_from_token ::
  "gotime \<Rightarrow> introspection \<Rightarrow> string \<Rightarrow> ses_db \<Rightarrow> unit res \<times> introspection" where
  "set_introspection_from_token now resp tok d =
     (case get_as as_access (access_token_pk tok) meta_sk d of
        Inl e \<Rightarrow> (Inl (Wrap ''token not found'' e), resp\<lparr>in_active := False\<rparr>)
      | Inr item \<Rightarrow>
          if \<not> at_expires_at item > now
          then (Inl (ErrMsg ''token expired''), resp\<lparr>in_active := False\<rparr>)
          else let c = at_claims item;
                   r1 = resp\<lparr>in_active := True, in_subject := c_sub c, in_scope := at_scopes item,
                             in_client_id := at_client_id item, in_token_type := ''Bearer'',
                             in_expiration := at_expires_at item\<rparr>;
                   r2 = (if c_email c \<noteq> [] then r1\<lparr>in_username := c_email c, in_email := c_email c\<rparr>
                         else r1)
               in (Inr (), r2\<lparr>in_email_verified := c_email_verified c, in_name := full_name c,
                             in_given_name := c_given_name c, in_family_name := c_family_name c\<rparr>))"

definition get_private_claims_from_request ::
  "string \<Rightarrow> cfg_db \<Rightarrow> token_request \<Rightarrow> (string \<times> private_value) list option" where
  "get_private_claims_from_request issuer cfg req =
     (case req of
        TROther _ _ _ _ \<Rightarrow> None
      | _ \<Rightarrow>
          let claims = private_claims issuer cfg (req_client_id req) (claims_from_request req)
          in if claims = [] then None else Some claims)"

subsection \<open>Lemmas\<close>

lemma apply_scope_sel [simp]:
  "ui_subject (apply_scope c s ui) = ui_subject ui"
  "ui_email (apply_scope c s ui) = (if s = ''email'' \<and> c_email c \<noteq> [] then c_email c else ui_email ui)"
  "ui_email_verified (apply_scope c s ui) =
     (if s = ''email'' then c_email_verified c else ui_email_verified ui)"
  "ui_given_name (apply_scope c s ui) =
     (if s = ''profile'' \<and> c_given_name c \<noteq> [] then c_given_name c else ui_given_name ui)"
  "ui_family_name (apply_scope c s ui) =
     (if s = ''profile'' \<and> c_family_name c \<noteq> [] then c_family_name c else ui_family_name ui)"
  "ui_name (apply_scope c s ui) =
     (if s = ''profile'' \<and> full_name c \<noteq> [] then full_name c else ui_name ui)"
  "ui_preferred_username (apply_scope c s ui) =
     (if s = ''profile'' \<and> c_email c \<noteq> [] then c_email c else ui_preferred_username ui)"
  "ui_claims (apply_scope c s ui) = ui_claims ui"
  "userinfo.more (apply_scope c s ui) = userinfo.more ui"
  by (simp_all add: apply_scope_def Let_def)

text \<open>What the scopes unlock, as one record.\<close>

lemma apply_standard_closed:
  "apply_standard_claims ui c scopes =
     ui\<lparr>ui_email := (if ''email'' \<in> set scopes \<and> c_email c \<noteq> [] then c_email c else ui_email ui),
        ui_email_verified := (if ''email'' \<in> set scopes then c_email_verified c else ui_email_verified ui),
        ui_given_name := (if ''profile'' \<in> set scopes \<and> c_given_name c \<noteq> [] then c_given_name c
                          else ui_given_name ui),
        ui_family_name := (if ''profile'' \<in> set scopes \<and> c_family_name c \<noteq> [] then c_family_name c
                           else ui_family_name ui),
        ui_name := (if ''profile'' \<in> set scopes \<and> full_name c \<noteq> [] then full_name c else ui_name ui),
        ui_preferred_username := (if ''profile'' \<in> set scopes \<and> c_email c \<noteq> [] then c_email c
                                  else ui_preferred_username ui)\<rparr>"
proof (induction scopes arbitrary: ui)
  case Nil
  then show ?case by (simp add: apply_standard_claims_def)
next
  case (Cons s scopes)
  have "apply_standard_claims ui c (s # scopes) = apply_standard_claims (apply_scope c s ui) c scopes"
    by (simp add: apply_standard_claims_def)
  then show ?case
    unfolding Cons
    by - (cases "s = ''email''"; cases "s = ''profile''"; rule userinfo.equality; simp)
qed

lemma map_of_fold_update:
  "map_of (fold (\<lambda>(k, v) m. AList.update k v m) xs m) = map_of m ++ map_of (rev xs)"
  by (induction xs arbitrary: m) (auto simp: update_conv' map_add_upd_left split: prod.split)

lemma keys_fold_update:
  "fst ` set (fold (\<lambda>(k, v) m. AList.update k v m) xs m) = fst ` set m \<union> fst ` set xs"
proof -
  have "dom (map_of (fold (\<lambda>(k, v) m. AList.update k v m) xs m)) = dom (map_of m) \<union> dom (map_of xs)"
    by (simp add: map_of_fold_update dom_map_of_conv_image_fst Un_commute)
  then show ?thesis by (simp add: dom_map_of_conv_image_fst)
qed

lemma eval_mappings_keys:
  "fst ` set (eval_mappings rm c cms out) \<subseteq> fst ` set out \<union> (cm_target_attribute ` set cms - set reserved_claim_names)"
proof (induction rm c cms out rule: eval_mappings.induct)
  case (2 rm c cm cms out)
  show ?case
    using 2 by (force simp: dom_update split: option.splits if_splits)
qed simp

lemma mapped_claims_not_reserved:
  "k \<in> fst ` set (mapped_claims issuer cfg cid c) \<Longrightarrow> k \<notin> set reserved_claim_names"
proof -
  have "mapped_claims issuer cfg cid c = [] \<or>
      (\<exists>rm cms. mapped_claims issuer cfg cid c = eval_mappings rm c cms [])"
    by (auto simp: mapped_claims_def Let_def simp del: eval_mappings.simps split: sum.split list.split)
  then obtain rm cms where "mapped_claims issuer cfg cid c = eval_mappings rm c cms []"
    using eval_mappings.simps(1) by metis
  moreover assume "k \<in> fst ` set (mapped_claims issuer cfg cid c)"
  ultimately show ?thesis using eval_mappings_keys [of rm c cms "[]"] by auto
qed

lemma private_claims_not_reserved:
  assumes "k \<in> fst ` set (private_claims issuer cfg cid c)"
  shows "k \<notin> set reserved_claim_names"
proof -
  have "''groups'' \<notin> set reserved_claim_names" by (simp add: reserved_claim_names_def)
  then show ?thesis
    using assms mapped_claims_not_reserved [of k issuer cfg cid c]
    by (auto simp: private_claims_def keys_fold_update split: if_splits)
qed

lemma as_str_iff: "as_str v = Some s \<longleftrightarrow> v = CStr s"
  by (cases v) (auto simp: as_str_def)

end
