(* ===== verification/SignedCookie.thy ===== *)
theory SignedCookie
  imports Codec ConfigItems
begin

text \<open>
  Cookies that only the program can make: \<^verbatim>\<open>internal/crypto/signed_cookie.go\<close> and
  \<^verbatim>\<open>cookie_crypto.go\<close>. SHA-256, HMAC-SHA-256 and AES-GCM (sealing and opening under a key and a nonce)
  are fields of \<open>crypto_env\<close>.
\<close>

record crypto_env =
  ce_sha256 :: "string \<Rightarrow> string"
  ce_hmac :: "string \<Rightarrow> string \<Rightarrow> string"
  ce_seal :: "string \<Rightarrow> string \<Rightarrow> string \<Rightarrow> string"
  ce_open :: "string \<Rightarrow> string \<Rightarrow> string \<Rightarrow> string option"

text \<open>The documented law of an AEAD: opening what was sealed under the same key and nonce.\<close>

definition aead_ok :: "crypto_env \<Rightarrow> bool" where
  "aead_ok ce \<longleftrightarrow> (\<forall>k n p. ce_open ce k n (ce_seal ce k n p) = Some p)"

text \<open>The size of SHA-256 and HMAC-SHA-256 digests.\<close>

definition digest_ok :: "crypto_env \<Rightarrow> bool" where
  "digest_ok ce \<longleftrightarrow> (\<forall>s. length (ce_sha256 ce s) = 32) \<and> (\<forall>k s. length (ce_hmac ce k s) = 32)"

definition hex_string :: "string \<Rightarrow> string" where
  "hex_string s = concat (map (\<lambda>c. hex_byte (of_nat (of_char c))) s)"

subsection \<open>Encryption\<close>

definition gcm_nonce_size :: nat where "gcm_nonce_size = 12"

definition new_cookie_encryptor :: "string \<Rightarrow> string res" where
  "new_cookie_encryptor key =
     (if length key \<noteq> 32 then Inl (ErrMsg ''encryption key must be 32 bytes'') else Inr key)"

definition aes_key_ok :: "string \<Rightarrow> bool" where
  "aes_key_ok key \<longleftrightarrow> length key = 16 \<or> length key = 24 \<or> length key = 32"

text \<open>The nonce is None when the random source fails.\<close>

definition enc_seal :: "crypto_env \<Rightarrow> string \<Rightarrow> string option \<Rightarrow> string \<Rightarrow> string res" where
  "enc_seal ce key nonce plain =
     (if \<not> aes_key_ok key then Inl (ErrMsg ''failed to create AES cipher'')
      else case nonce of
          None \<Rightarrow> Inl (ErrMsg ''failed to generate nonce'')
        | Some n \<Rightarrow> Inr (n @ ce_seal ce key n plain))"

definition enc_open :: "crypto_env \<Rightarrow> string \<Rightarrow> string \<Rightarrow> string res" where
  "enc_open ce key c =
     (if \<not> aes_key_ok key then Inl (ErrMsg ''failed to create AES cipher'')
      else if length c < gcm_nonce_size then Inl (ErrMsg ''ciphertext too short'')
      else case ce_open ce key (take gcm_nonce_size c) (drop gcm_nonce_size c) of
          None \<Rightarrow> Inl (ErrMsg ''decryption failed'')
        | Some p \<Rightarrow> Inr p)"

subsection \<open>Signed cookies\<close>

record signed_cookie =
  sk_hmac_key :: "string option"
  sk_kid :: string
  sk_aes_key :: string

definition err_signing_disabled :: err where
  "err_signing_disabled = ErrMsg ''signed cookie: HMAC signing is disabled''"
definition err_key_too_short :: err where
  "err_key_too_short = ErrMsg ''signed cookie: HMAC key must be exactly 32 bytes''"
definition err_purpose_required :: err where
  "err_purpose_required = ErrMsg ''signed cookie: purpose label is required''"
definition err_unknown_key_id :: err where
  "err_unknown_key_id = ErrMsg ''signed cookie: unknown key id''"

definition purpose_saml :: string where "purpose_saml = ''saml''"
definition purpose_oidc :: string where "purpose_oidc = ''oidc''"

definition derive_subkey :: "crypto_env \<Rightarrow> string \<Rightarrow> string \<Rightarrow> string \<Rightarrow> string" where
  "derive_subkey ce key label purpose = ce_sha256 ce (key @ label @ purpose)"

definition disabled_cookie :: signed_cookie where
  "disabled_cookie = \<lparr>sk_hmac_key = None, sk_kid = [], sk_aes_key = []\<rparr>"

definition new_signed_cookie :: "crypto_env \<Rightarrow> string option \<Rightarrow> string \<Rightarrow> signed_cookie res" where
  "new_signed_cookie ce key purpose =
     (if purpose = [] then Inl err_purpose_required
      else case key of
          None \<Rightarrow> Inr disabled_cookie
        | Some k \<Rightarrow>
            if length k \<noteq> 32 then Inl err_key_too_short
            else case new_cookie_encryptor (derive_subkey ce k ''aes:'' purpose) of
                Inl e \<Rightarrow> Inl (Wrap ''signed cookie: failed to initialise encryptor'' e)
              | Inr enc \<Rightarrow>
                  Inr \<lparr>sk_hmac_key = Some (derive_subkey ce k ''hmac:'' purpose),
                       sk_kid = hex_string (take 4 (ce_sha256 ce k)), sk_aes_key = enc\<rparr>)"

definition hmac_sign :: "crypto_env \<Rightarrow> string \<Rightarrow> string \<Rightarrow> string" where
  "hmac_sign ce key s = hex_string (ce_hmac ce key s)"

definition cookie_encode :: "crypto_env \<Rightarrow> signed_cookie \<Rightarrow> string option \<Rightarrow> string \<Rightarrow> string res" where
  "cookie_encode ce sc nonce plain =
     (case sk_hmac_key sc of
        None \<Rightarrow> Inl err_signing_disabled
      | Some hk \<Rightarrow>
          (case enc_seal ce (sk_aes_key sc) nonce plain of
             Inl e \<Rightarrow> Inl (Wrap ''failed to encrypt cookie'' e)
           | Inr sealed \<Rightarrow>
               let signed = sk_kid sc @ ''.'' @ b64_encode UrlAlphabet False sealed
               in Inr (signed @ ''.'' @ hmac_sign ce hk signed)))"

definition cookie_decode :: "crypto_env \<Rightarrow> signed_cookie \<Rightarrow> string \<Rightarrow> string res" where
  "cookie_decode ce sc raw =
     (case sk_hmac_key sc of
        None \<Rightarrow> Inl err_signing_disabled
      | Some hk \<Rightarrow>
          (case split_on (CHR ''.'') raw of
             [kid, payload, sig] \<Rightarrow>
               if kid = [] \<or> payload = [] \<or> sig = [] then Inl (ErrMsg ''malformed signed cookie'')
               else if kid \<noteq> sk_kid sc then Inl err_unknown_key_id
               else if sig \<noteq> hmac_sign ce hk (kid @ ''.'' @ payload)
               then Inl (ErrMsg ''invalid cookie signature'')
               else (case b64_decode UrlAlphabet False payload of
                   None \<Rightarrow> Inl (ErrMsg ''illegal base64 data'')
                 | Some c \<Rightarrow> wrap_res ''failed to decrypt cookie'' (enc_open ce (sk_aes_key sc) c))
           | _ \<Rightarrow> Inl (ErrMsg ''malformed signed cookie'')))"

subsection \<open>Lemmas\<close>

lemma split_on_Cons_iff:
  "split_on c s = x # xs \<longleftrightarrow>
     c \<notin> set x \<and> (if xs = [] then s = x else \<exists>b. s = x @ c # b \<and> split_on c b = xs)"
proof
  assume "split_on c s = x # xs"
  then show "c \<notin> set x \<and> (if xs = [] then s = x else \<exists>b. s = x @ c # b \<and> split_on c b = xs)"
  proof (induction s arbitrary: x)
    case (Cons d s)
    show ?case
    proof (cases "d = c")
      case True
      then show ?thesis using Cons.prems by auto
    next
      case False
      obtain y ys where y: "split_on c s = y # ys" by (cases "split_on c s") auto
      then have "x = d # y" "xs = ys" using Cons.prems False by auto
      then show ?thesis using Cons.IH [OF y [unfolded \<open>xs = ys\<close> [symmetric]]] False by auto
    qed
  qed auto
qed (auto simp: split_on_append split_on_none split: if_splits)

lemma split_on_three:
  "split_on c s = [x, y, z] \<longleftrightarrow> s = x @ c # y @ c # z \<and> c \<notin> set x \<and> c \<notin> set y \<and> c \<notin> set z"
  by (auto simp: split_on_Cons_iff)

abbreviation hex_digits :: string where "hex_digits \<equiv> ''0123456789abcdef''"

lemma hex_char: "hex_byte (of_nat (of_char c)) = [hex_digits ! (of_char c div 16), hex_digits ! (of_char c mod 16)]"
proof -
  have "unat (of_nat (of_char c) :: 8 word) = of_char c"
    using of_char_lt [of c] by (simp add: unat_of_nat)
  then show ?thesis by (simp add: hex_byte_def)
qed

lemma char_halves: "(of_char c :: nat) div 16 < length hex_digits" "(of_char c :: nat) mod 16 < length hex_digits"
  using of_char_lt [of c] by (simp_all add: less_mult_imp_div_less)

lemma hex_digit_no_dot: "n < length hex_digits \<Longrightarrow> hex_digits ! n \<noteq> CHR ''.''"
proof -
  have "CHR ''.'' \<notin> set hex_digits" by simp
  then show "n < length hex_digits \<Longrightarrow> hex_digits ! n \<noteq> CHR ''.''" by (metis nth_mem)
qed

lemma hex_string_no_dot: "CHR ''.'' \<notin> set (hex_string s)"
proof -
  have "CHR ''.'' \<notin> set (hex_byte (of_nat (of_char c)))" for c :: char
    unfolding hex_char set_simps insert_iff
    using hex_digit_no_dot [OF char_halves(1)] hex_digit_no_dot [OF char_halves(2)]
    by (metis empty_iff)
  then show ?thesis by (simp only: hex_string_def set_concat set_map UN_iff) blast
qed

lemma length_hex_string: "length (hex_string s) = 2 * length s"
  by (induction s) (auto simp: hex_string_def hex_byte_def)

lemma hex_char_inj:
  fixes c d :: char
  assumes "hex_byte (of_nat (of_char c)) = hex_byte (of_nat (of_char d))"
  shows "c = d"
proof -
  have "distinct hex_digits" by simp
  then have "(of_char c :: nat) div 16 = of_char d div 16" "(of_char c :: nat) mod 16 = of_char d mod 16"
    using assms [unfolded hex_char] char_halves nth_eq_iff_index_eq by blast+
  then have "(of_char c :: nat) = of_char d" by (metis div_mult_mod_eq)
  then show ?thesis by (metis char_of_char)
qed

lemma hex_string_inj: "hex_string s = hex_string t \<Longrightarrow> s = t"
proof (induction s arbitrary: t)
  case Nil
  then have "length t = 0" using length_hex_string [of t] length_hex_string [of "[]"] by simp
  then show ?case by simp
next
  case (Cons c s)
  then obtain d t' where t: "t = d # t'" using length_hex_string [of t] by (cases t) (auto simp: hex_string_def hex_byte_def)
  have h: "hex_string (x # xs) = hex_byte (of_nat (of_char x)) @ hex_string xs" for x xs
    by (simp add: hex_string_def)
  have "hex_byte (of_nat (of_char c)) = hex_byte (of_nat (of_char d)) \<and> hex_string s = hex_string t'"
    using Cons.prems unfolding t h by (simp add: hex_byte_def)
  then show ?case using Cons.IH hex_char_inj t by blast
qed

lemma hmac_sign_inj: "hmac_sign ce k s = hmac_sign ce k' s' \<Longrightarrow> ce_hmac ce k s = ce_hmac ce k' s'"
  by (simp add: hmac_sign_def hex_string_inj)

lemma enc_open_seal:
  assumes "aead_ok ce" and "length n = gcm_nonce_size" and "enc_seal ce key (Some n) plain = Inr c"
  shows "enc_open ce key c = Inr plain" and "c \<noteq> []"
  using assms by (auto simp: enc_seal_def enc_open_def aead_ok_def gcm_nonce_size_def split: if_splits)

text \<open>What an accepted cookie is made of, and a minted one.\<close>

lemma cookie_decode_Inr:
  "cookie_decode ce sc raw = Inr plain \<longleftrightarrow>
     (\<exists>hk payload c. sk_hmac_key sc = Some hk \<and> sk_kid sc \<noteq> [] \<and> payload \<noteq> [] \<and>
        CHR ''.'' \<notin> set (sk_kid sc) \<and> CHR ''.'' \<notin> set payload \<and>
        hmac_sign ce hk (sk_kid sc @ ''.'' @ payload) \<noteq> [] \<and>
        raw = sk_kid sc @ ''.'' @ payload @ ''.'' @ hmac_sign ce hk (sk_kid sc @ ''.'' @ payload) \<and>
        b64_decode UrlAlphabet False payload = Some c \<and> enc_open ce (sk_aes_key sc) c = Inr plain)"
  (is "?l = ?r")
proof
  assume ?l
  then obtain hk kid payload sig c where
    "sk_hmac_key sc = Some hk" "split_on (CHR ''.'') raw = [kid, payload, sig]" "kid = sk_kid sc"
    "kid \<noteq> []" "payload \<noteq> []" "sig \<noteq> []" "sig = hmac_sign ce hk (kid @ ''.'' @ payload)"
    "b64_decode UrlAlphabet False payload = Some c" "enc_open ce (sk_aes_key sc) c = Inr plain"
    by (auto simp: cookie_decode_def split: option.splits list.splits if_splits)
  then show ?r by (auto simp: split_on_three)
next
  assume ?r
  then show ?l
    by (auto simp: cookie_decode_def hex_string_no_dot hmac_sign_def split_on_append split_on_none)
qed

lemma cookie_encode_Inr:
  "cookie_encode ce sc nonce plain = Inr raw \<Longrightarrow>
     \<exists>hk n c. sk_hmac_key sc = Some hk \<and> nonce = Some n \<and> enc_seal ce (sk_aes_key sc) (Some n) plain = Inr c \<and>
       raw = sk_kid sc @ ''.'' @ b64_encode UrlAlphabet False c @ ''.'' @
         hmac_sign ce hk (sk_kid sc @ ''.'' @ b64_encode UrlAlphabet False c)"
  by (cases nonce) (auto simp: cookie_encode_def enc_seal_def Let_def split: option.splits if_splits)

lemma new_signed_cookie_Inr:
  assumes "new_signed_cookie ce (Some k) purpose = Inr sc" and "digest_ok ce"
  shows "sk_hmac_key sc = Some (derive_subkey ce k ''hmac:'' purpose)"
    and "sk_kid sc = hex_string (take 4 (ce_sha256 ce k))" and "sk_kid sc \<noteq> []"
    and "sk_aes_key sc = derive_subkey ce k ''aes:'' purpose"
proof -
  show *: "sk_hmac_key sc = Some (derive_subkey ce k ''hmac:'' purpose)"
    "sk_kid sc = hex_string (take 4 (ce_sha256 ce k))"
    "sk_aes_key sc = derive_subkey ce k ''aes:'' purpose"
    using assms(1) by (auto simp: new_signed_cookie_def new_cookie_encryptor_def split: if_splits)
  have "length (sk_kid sc) = 8" using assms(2) by (simp add: * length_hex_string digest_ok_def)
  then show "sk_kid sc \<noteq> []" by auto
qed

lemma cookie_decode_encode:
  assumes "digest_ok ce" and "aead_ok ce" and "new_signed_cookie ce (Some k) purpose = Inr sc"
    and "length n = gcm_nonce_size" and "cookie_encode ce sc (Some n) plain = Inr raw"
  shows "cookie_decode ce sc raw = Inr plain"
proof -
  obtain hk c where e: "sk_hmac_key sc = Some hk" "enc_seal ce (sk_aes_key sc) (Some n) plain = Inr c"
    "raw = sk_kid sc @ ''.'' @ b64_encode UrlAlphabet False c @ ''.'' @
         hmac_sign ce hk (sk_kid sc @ ''.'' @ b64_encode UrlAlphabet False c)"
    using cookie_encode_Inr [OF assms(5)] by auto
  note o = enc_open_seal [OF assms(2,4) e(2)]
  have "b64_encode UrlAlphabet False c \<noteq> []" using o(2) b64_decode_encode [of UrlAlphabet False c]
    by (metis b64_decode_encode b64_encode.simps(4) option.inject)
  moreover have "CHR ''.'' \<notin> set (b64_encode UrlAlphabet False c)" using b64_encode_chars by blast
  moreover have "length (hmac_sign ce hk m) = 64" for m
    using assms(1) by (simp add: hmac_sign_def length_hex_string digest_ok_def)
  then have "hmac_sign ce hk m \<noteq> []" for m by (metis list.size(3) zero_neq_numeral)
  ultimately show ?thesis
    unfolding cookie_decode_Inr
    using e o new_signed_cookie_Inr(2,3) [OF assms(3,1)] hex_string_no_dot b64_decode_encode by auto
qed

text \<open>A cookie the program minted is accepted by every instance with the same key and purpose, and
  yields what was put into it.\<close>

lemma cookie_roundtrip:
  assumes "digest_ok ce" and "aead_ok ce" and "new_signed_cookie ce (Some k) purpose = Inr sc"
    and "length n = gcm_nonce_size" and "cookie_encode ce sc (Some n) plain = Inr raw"
    and "new_signed_cookie ce (Some k) purpose = Inr sc2"
  shows "cookie_decode ce sc2 raw = Inr plain"
  using cookie_decode_encode [OF assms(1-5)] assms(3,6) by simp

text \<open>Stand-ins for the algorithms with the documented sizes and laws.\<close>

definition demo_digest :: "string \<Rightarrow> string" where
  "demo_digest s = take 32 (s @ replicate 32 CHR ''0'')"

definition demo_crypto :: crypto_env where
  "demo_crypto = \<lparr>ce_sha256 = (\<lambda>s. demo_digest (rev s)), ce_hmac = (\<lambda>k s. demo_digest (k @ s)),
     ce_seal = (\<lambda>k n p. rev p), ce_open = (\<lambda>k n c. Some (rev c))\<rparr>"

lemma length_demo_digest [simp]: "length (demo_digest s) = 32"
  by (simp add: demo_digest_def)

lemma demo_crypto_ok: "digest_ok demo_crypto" "aead_ok demo_crypto"
  by (simp_all add: digest_ok_def aead_ok_def demo_crypto_def)

definition demo_key :: string where "demo_key = replicate 32 CHR ''k''"

definition demo_cookie :: "string \<Rightarrow> signed_cookie" where
  "demo_cookie purpose =
     (case new_signed_cookie demo_crypto (Some demo_key) purpose of Inr sc \<Rightarrow> sc | Inl _ \<Rightarrow> disabled_cookie)"

lemma demo_cookie: "purpose \<noteq> [] \<Longrightarrow> new_signed_cookie demo_crypto (Some demo_key) purpose = Inr (demo_cookie purpose)"
  by (simp add: demo_cookie_def new_signed_cookie_def new_cookie_encryptor_def derive_subkey_def demo_crypto_def
      demo_key_def)

lemma demo_encode:
  assumes "purpose \<noteq> []"
  obtains raw where "cookie_encode demo_crypto (demo_cookie purpose) (Some (replicate 12 CHR ''n'')) plain = Inr raw"
proof -
  note n = new_signed_cookie_Inr [OF demo_cookie [OF assms] demo_crypto_ok(1)]
  have "aes_key_ok (sk_aes_key (demo_cookie purpose))"
    by (simp add: n(4) aes_key_ok_def derive_subkey_def demo_crypto_def)
  then show thesis using that n(1) by (simp add: cookie_encode_def enc_seal_def Let_def)
qed

lemma cookie_roundtrip_witness:
  "\<exists>raw. cookie_encode demo_crypto (demo_cookie purpose_saml) (Some (replicate 12 CHR ''n'')) ''hi'' = Inr raw \<and>
     cookie_decode demo_crypto (demo_cookie purpose_saml) raw = Inr ''hi''"
proof -
  have p: "purpose_saml \<noteq> []" by (simp add: purpose_saml_def)
  obtain raw where r: "cookie_encode demo_crypto (demo_cookie purpose_saml) (Some (replicate 12 CHR ''n'')) ''hi'' = Inr raw"
    using demo_encode [OF p] by blast
  then show ?thesis using cookie_roundtrip [OF demo_crypto_ok demo_cookie [OF p] _ r demo_cookie [OF p]] r
    by (simp add: gcm_nonce_size_def)
qed

text \<open>A cookie of one protocol is not a cookie of the other, nor one of another key: what an instance
  accepts carries the MAC under its own derived subkey, and a cookie minted by an instance of another
  key or purpose is accepted only when the two keys share their id and the two subkeys give it the
  same MAC.\<close>

lemma cookie_cross_use:
  assumes "digest_ok ce" and "new_signed_cookie ce (Some k1) p1 = Inr s1" and "new_signed_cookie ce (Some k2) p2 = Inr s2"
    and "cookie_encode ce s1 nonce plain = Inr raw" and "cookie_decode ce s2 raw = Inr x"
  shows "take 4 (ce_sha256 ce k1) = take 4 (ce_sha256 ce k2) \<and>
    (\<exists>m. raw = m @ ''.'' @ hex_string (ce_hmac ce (ce_sha256 ce (k2 @ ''hmac:'' @ p2)) m) \<and>
       ce_hmac ce (ce_sha256 ce (k1 @ ''hmac:'' @ p1)) m = ce_hmac ce (ce_sha256 ce (k2 @ ''hmac:'' @ p2)) m)"
proof -
  note n1 = new_signed_cookie_Inr [OF assms(2,1)] and n2 = new_signed_cookie_Inr [OF assms(3,1)]
  obtain c where e: "raw = sk_kid s1 @ ''.'' @ b64_encode UrlAlphabet False c @ ''.'' @
      hmac_sign ce (derive_subkey ce k1 ''hmac:'' p1) (sk_kid s1 @ ''.'' @ b64_encode UrlAlphabet False c)"
    using cookie_encode_Inr [OF assms(4)] n1(1) by auto
  obtain payload where d: "raw = sk_kid s2 @ ''.'' @ payload @ ''.'' @
      hmac_sign ce (derive_subkey ce k2 ''hmac:'' p2) (sk_kid s2 @ ''.'' @ payload)"
    and np: "CHR ''.'' \<notin> set payload" using assms(5) n2(1) unfolding cookie_decode_Inr by auto
  have nb: "CHR ''.'' \<notin> set (b64_encode UrlAlphabet False c)" using b64_encode_chars by blast
  have nk: "CHR ''.'' \<notin> set (sk_kid s1)" "CHR ''.'' \<notin> set (sk_kid s2)"
    using hex_string_no_dot n1(2) n2(2) by auto
  let ?e = "b64_encode UrlAlphabet False c" and ?h1 = "derive_subkey ce k1 ''hmac:'' p1"
    and ?h2 = "derive_subkey ce k2 ''hmac:'' p2"
  have "sk_kid s1 @ CHR ''.'' # (?e @ CHR ''.'' # hmac_sign ce ?h1 (sk_kid s1 @ ''.'' @ ?e)) =
      sk_kid s2 @ CHR ''.'' # (payload @ CHR ''.'' # hmac_sign ce ?h2 (sk_kid s2 @ ''.'' @ payload))"
    using e d by simp
  then have "sk_kid s1 = sk_kid s2 \<and> ?e @ CHR ''.'' # hmac_sign ce ?h1 (sk_kid s1 @ ''.'' @ ?e) =
      payload @ CHR ''.'' # hmac_sign ce ?h2 (sk_kid s2 @ ''.'' @ payload)"
    using append_sep_inject [OF nk] by blast
  then have k: "sk_kid s1 = sk_kid s2" and p: "b64_encode UrlAlphabet False c = payload"
    and s: "hmac_sign ce (derive_subkey ce k1 ''hmac:'' p1) (sk_kid s2 @ ''.'' @ payload) =
      hmac_sign ce (derive_subkey ce k2 ''hmac:'' p2) (sk_kid s2 @ ''.'' @ payload)"
    using append_sep_inject [OF nb np] by auto
  have "take 4 (ce_sha256 ce k1) = take 4 (ce_sha256 ce k2)" using k n1(2) n2(2) hex_string_inj by simp
  then show ?thesis
    using d hmac_sign_inj [OF s]
    by (intro conjI exI [of _ "sk_kid s2 @ ''.'' @ payload"]) (auto simp: hmac_sign_def derive_subkey_def)
qed

lemma cookie_cross_use_witness:
  "\<exists>raw m. cookie_encode demo_crypto (demo_cookie purpose_oidc) (Some (replicate 12 CHR ''n'')) ''hi'' = Inr raw \<and>
     raw = m @ ''.'' @ hex_string (ce_hmac demo_crypto (ce_sha256 demo_crypto (demo_key @ ''hmac:'' @ ''oidc'')) m)"
proof -
  have p: "purpose_oidc \<noteq> []" by (simp add: purpose_oidc_def)
  obtain raw where r: "cookie_encode demo_crypto (demo_cookie purpose_oidc) (Some (replicate 12 CHR ''n'')) ''hi'' = Inr raw"
    using demo_encode [OF p] by blast
  note n = new_signed_cookie_Inr [OF demo_cookie [OF p] demo_crypto_ok(1)]
  have "\<exists>x. cookie_decode demo_crypto (demo_cookie purpose_oidc) raw = Inr x"
    using cookie_decode_encode [OF demo_crypto_ok demo_cookie [OF p] _ r] by (simp add: gcm_nonce_size_def)
  then show ?thesis
    using cookie_cross_use [OF demo_crypto_ok(1) demo_cookie [OF p] demo_cookie [OF p] r] r
    by (auto simp: purpose_oidc_def)
qed

end
