(* ===== verification/Cognito.thy ===== *)
theory Cognito
  imports OidcClaims SignedCookie
begin

text \<open>
  The identity provider behind the gateway: \<^verbatim>\<open>internal/cognito/auth.go\<close> (the OAuth2 client of a user
  pool) and \<^verbatim>\<open>jwks.go\<close> (the verifier of its ID tokens with its key cache). The HTTP transport, the JSON
  parser of the two responses and the JWT library are fields of \<open>cognito_env\<close>. The claims of an
  unverified token (\<^verbatim>\<open>ParseIDToken\<close>, which only tests call) are left out.
\<close>

subsection \<open>Environment\<close>

text \<open>A key as the key endpoint publishes it, and the public key parsed from it.\<close>

record jwks_key =
  jk_e :: string
  jk_kid :: string
  jk_kty :: string
  jk_n :: string
  jk_use :: string

record rsa_key =
  rk_n :: nat
  rk_e :: int

text \<open>Whether the signing method is one of the library's RSA methods, and the header's key id.\<close>

record jwt_header =
  jh_rsa :: bool
  jh_kid :: "claim_value option"

type_synonym jwt_payload = "(string \<times> claim_value) list"

text \<open>
  A request that fails, or the status and the body of the reply; \<open>cv_jwt_parse\<close> is \<^verbatim>\<open>jwt.Parse\<close> with a
  required expiry at an instant, given the function that chooses the key.
\<close>

record cognito_env =
  cv_get :: "string \<Rightarrow> (int \<times> string) option"
  cv_post :: "string \<Rightarrow> string \<Rightarrow> string \<Rightarrow> (int \<times> string) option"
  cv_jwks :: "string \<Rightarrow> jwks_key list option"
  cv_id_token :: "string \<Rightarrow> string option"
  cv_jwt_parse :: "gotime \<Rightarrow> (jwt_header \<Rightarrow> rsa_key res) \<Rightarrow> string \<Rightarrow> jwt_payload res"
  cv_signed :: "string \<Rightarrow> jwt_header \<Rightarrow> rsa_key \<Rightarrow> jwt_payload \<Rightarrow> bool"

text \<open>
  What the JWT library documents: the claims it returns are those of a token whose signature verifies
  under the key the function returned for its header.
\<close>

definition jwt_ok :: "cognito_env \<Rightarrow> bool" where
  "jwt_ok env \<longleftrightarrow> (\<forall>now kf tok p. cv_jwt_parse env now kf tok = Inr p \<longrightarrow>
     (\<exists>h k. kf h = Inr k \<and> cv_signed env tok h k p))"

subsection \<open>The OAuth2 client\<close>

record auth_client =
  ac_domain :: string
  ac_client_id :: string
  ac_client_secret :: string
  ac_redirect_uri :: string
  ac_pool_id :: string
  ac_region :: string

definition no_secret_fetcher :: "identity_source \<Rightarrow> string res" where
  "no_secret_fetcher src =
     (if s_role_arn src \<noteq> [] \<or> s_secret_arn src \<noteq> []
      then Inl (ErrMsg ''cognito: NoSecretFetcher called for confidential source'') else Inr [])"

definition new_auth_client_for_source ::
  "identity_source \<Rightarrow> string \<Rightarrow> (identity_source \<Rightarrow> string res) option \<Rightarrow> auth_client res" where
  "new_auth_client_for_source src redirect fetch =
     (case (if s_role_arn src \<noteq> [] \<and> s_secret_arn src \<noteq> []
            then (case fetch of
                None \<Rightarrow> Inl (ErrMsg ''cognito: SecretFetcher is required when source has RoleArn and SecretArn'')
              | Some f \<Rightarrow> wrap_res ''cognito: fetch client secret'' (f src))
            else Inr []) of
        Inl e \<Rightarrow> Inl e
      | Inr secret \<Rightarrow>
          Inr \<lparr>ac_domain = s_domain src, ac_client_id = s_client_id src, ac_client_secret = secret,
               ac_redirect_uri = redirect, ac_pool_id = s_pool_id src, ac_region = s_region src\<rparr>)"

text \<open>The code panics when the random source fails, so the bytes are always there.\<close>

definition generate_pkce :: "crypto_env \<Rightarrow> string \<Rightarrow> string \<times> string" where
  "generate_pkce ce random =
     (let verifier = b64_encode UrlAlphabet False random
      in (verifier, b64_encode UrlAlphabet False (ce_sha256 ce verifier)))"

text \<open>\<^verbatim>\<open>url.Values.Encode\<close> of parameters listed in the order of their names.\<close>

fun encode_sorted :: "(string \<times> string) list \<Rightarrow> string" where
  "encode_sorted [] = []"
| "encode_sorted [(k, v)] = query_escape k @ ''='' @ query_escape v"
| "encode_sorted ((k, v) # kvs) = query_escape k @ ''='' @ query_escape v @ ''&'' @ encode_sorted kvs"

definition authorization_url :: "auth_client \<Rightarrow> string \<Rightarrow> string \<Rightarrow> string" where
  "authorization_url c state challenge =
     ''https://'' @ ac_domain c @ ''/oauth2/authorize?'' @
     encode_sorted
       [(''client_id'', ac_client_id c), (''code_challenge'', challenge),
        (''code_challenge_method'', ''S256''), (''redirect_uri'', ac_redirect_uri c),
        (''response_type'', ''code''), (''scope'', ''openid email profile''), (''state'', state)]"

text \<open>The basic credentials of a confidential client, or no authorization header.\<close>

definition exchange_code_with_url ::
  "cognito_env \<Rightarrow> auth_client \<Rightarrow> string \<Rightarrow> string \<Rightarrow> string \<Rightarrow> string res" where
  "exchange_code_with_url env c token_url code verifier =
     (let body = encode_sorted
            [(''client_id'', ac_client_id c), (''code'', code), (''code_verifier'', verifier),
             (''grant_type'', ''authorization_code''), (''redirect_uri'', ac_redirect_uri c)];
          auth = (if ac_client_secret c \<noteq> []
                  then ''Basic '' @ b64_encode StdAlphabet True (ac_client_id c @ '':'' @ ac_client_secret c)
                  else [])
      in case cv_post env token_url auth body of
          None \<Rightarrow> Inl (ErrMsg ''token request failed'')
        | Some (status, reply) \<Rightarrow>
            if status \<noteq> 200 then Inl (ErrMsg ''token exchange failed'')
            else (case cv_id_token env reply of
                None \<Rightarrow> Inl (ErrMsg ''failed to parse token response'')
              | Some t \<Rightarrow> if t = [] then Inl (ErrMsg ''no id_token in response'') else Inr t))"

definition exchange_code :: "cognito_env \<Rightarrow> auth_client \<Rightarrow> string \<Rightarrow> string \<Rightarrow> string res" where
  "exchange_code env c code verifier =
     exchange_code_with_url env c (''https://'' @ ac_domain c @ ''/oauth2/token'') code verifier"

subsection \<open>The identifiers of a pool\<close>

definition is_lower :: "char \<Rightarrow> bool" where
  "is_lower c \<longleftrightarrow> (let n = of_char c :: nat in 97 \<le> n \<and> n \<le> 122)"

text \<open>\<^verbatim>\<open>^[a-z0-9-]+_[A-Za-z0-9]+$\<close>: neither side can hold the underscore.\<close>

definition valid_pool_id :: "string \<Rightarrow> bool" where
  "valid_pool_id s \<longleftrightarrow>
     (case cut (CHR ''_'') s of (a, b, found) \<Rightarrow>
        found \<and> a \<noteq> [] \<and> b \<noteq> [] \<and>
        list_all (\<lambda>c. is_lower c \<or> is_digit c \<or> c = CHR ''-'') a \<and> list_all is_alnum b)"

text \<open>\<^verbatim>\<open>^[a-z]{1,12}(?:-[a-z]{1,12})*-[0-9]$\<close>: no part holds a hyphen.\<close>

definition valid_region :: "string \<Rightarrow> bool" where
  "valid_region s \<longleftrightarrow>
     (let parts = split_on (CHR ''-'') s in
      length parts \<ge> 2 \<and>
      list_all (\<lambda>p. 1 \<le> length p \<and> length p \<le> 12 \<and> list_all is_lower p) (butlast parts) \<and>
      length (last parts) = 1 \<and> list_all is_digit (last parts))"

definition validate_pool_id :: "string \<Rightarrow> unit res" where
  "validate_pool_id s = (if valid_pool_id s then Inr () else Inl (ErrMsg ''invalid Cognito pool ID''))"

definition validate_region :: "string \<Rightarrow> unit res" where
  "validate_region s = (if valid_region s then Inr () else Inl (ErrMsg ''invalid AWS region''))"

subsection \<open>The verifier\<close>

record jwks_verifier =
  jv_pool_id :: string
  jv_region :: string
  jv_url :: string
  jv_keys :: "(string \<times> rsa_key) list"
  jv_fetched_at :: gotime
  jv_cache_ttl :: duration

definition new_jwks_verifier :: "string \<Rightarrow> string \<Rightarrow> jwks_verifier res" where
  "new_jwks_verifier pool region =
     (case validate_pool_id pool of
        Inl e \<Rightarrow> Inl e
      | Inr _ \<Rightarrow>
          (case validate_region region of
             Inl e \<Rightarrow> Inl e
           | Inr _ \<Rightarrow>
               Inr \<lparr>jv_pool_id = pool, jv_region = region,
                    jv_url = ''https://cognito-idp.'' @ region @ ''.amazonaws.com/'' @ pool @
                      ''/.well-known/jwks.json'',
                    jv_keys = [], jv_fetched_at = zero_time, jv_cache_ttl = hours 1\<rparr>))"

definition base64_url_decode :: "string \<Rightarrow> string option" where
  "base64_url_decode s =
     (let padded = s @ (if length s mod 4 = 2 then ''=='' else if length s mod 4 = 3 then ''='' else []);
          std = map (\<lambda>c. if c = CHR ''-'' then CHR ''+'' else if c = CHR ''_'' then CHR ''/'' else c) padded
      in b64_decode StdAlphabet True std)"

definition big_endian :: "string \<Rightarrow> nat" where
  "big_endian bs = foldl (\<lambda>n c. n * 256 + of_char c) 0 bs"

text \<open>The exponent is read through a 64-bit integer.\<close>

definition parse_rsa_public_key :: "jwks_key \<Rightarrow> rsa_key res" where
  "parse_rsa_public_key k =
     (case base64_url_decode (jk_n k) of
        None \<Rightarrow> Inl (ErrMsg ''failed to decode modulus'')
      | Some nb \<Rightarrow>
          (case base64_url_decode (jk_e k) of
             None \<Rightarrow> Inl (ErrMsg ''failed to decode exponent'')
           | Some eb \<Rightarrow>
               Inr \<lparr>rk_n = big_endian nb, rk_e = sint (of_nat (big_endian eb) :: 64 word)\<rparr>))"

fun collect_keys :: "jwks_key list \<Rightarrow> (string \<times> rsa_key) list \<Rightarrow> (string \<times> rsa_key) list" where
  "collect_keys [] m = m"
| "collect_keys (k # ks) m =
     (if jk_kty k \<noteq> ''RSA'' \<or> jk_use k \<noteq> ''sig'' then collect_keys ks m
      else case parse_rsa_public_key k of
          Inl _ \<Rightarrow> collect_keys ks m
        | Inr pk \<Rightarrow> collect_keys ks (AList.update (jk_kid k) pk m))"

definition fetch_keys :: "gotime \<Rightarrow> cognito_env \<Rightarrow> jwks_verifier \<Rightarrow> unit res \<times> jwks_verifier" where
  "fetch_keys now env v =
     (case cv_get env (jv_url v) of
        None \<Rightarrow> (Inl (ErrMsg ''JWKS request failed''), v)
      | Some (status, body) \<Rightarrow>
          if status \<noteq> 200 then (Inl (ErrMsg ''JWKS endpoint returned status''), v)
          else (case cv_jwks env body of
              None \<Rightarrow> (Inl (ErrMsg ''failed to parse JWKS response''), v)
            | Some ks \<Rightarrow>
                let keys = collect_keys ks [] in
                if keys = [] then (Inl (ErrMsg ''no valid RSA signing keys found in JWKS''), v)
                else (Inr (), v\<lparr>jv_keys := keys, jv_fetched_at := now\<rparr>)))"

definition ensure_keys :: "gotime \<Rightarrow> cognito_env \<Rightarrow> jwks_verifier \<Rightarrow> unit res \<times> jwks_verifier" where
  "ensure_keys now env v =
     (if jv_keys v = [] \<or> now - jv_fetched_at v > jv_cache_ttl v then fetch_keys now env v else (Inr (), v))"

definition get_key :: "jwks_verifier \<Rightarrow> string \<Rightarrow> rsa_key res" where
  "get_key v kid =
     (case map_of (jv_keys v) kid of None \<Rightarrow> Inl (ErrMsg ''kid not found in JWKS'') | Some k \<Rightarrow> Inr k)"

definition verify_keyfunc :: "jwks_verifier \<Rightarrow> jwt_header \<Rightarrow> rsa_key res" where
  "verify_keyfunc v h =
     (if \<not> jh_rsa h then Inl (ErrMsg ''unexpected signing method'')
      else case jh_kid h of
          Some (CStr kid) \<Rightarrow>
            if kid = [] then Inl (ErrMsg ''missing kid in JWT header'') else get_key v kid
        | _ \<Rightarrow> Inl (ErrMsg ''missing kid in JWT header''))"

definition jwks_verify ::
  "gotime \<Rightarrow> cognito_env \<Rightarrow> jwks_verifier \<Rightarrow> string \<Rightarrow> string \<Rightarrow> jwt_payload res \<times> jwks_verifier" where
  "jwks_verify now env v0 tok client =
     (case ensure_keys now env v0 of
        (Inl e, v) \<Rightarrow> (Inl (Wrap ''failed to fetch JWKS'' e), v)
      | (Inr _, v) \<Rightarrow>
          ((case cv_jwt_parse env now (verify_keyfunc v) tok of
              Inl e \<Rightarrow> Inl (Wrap ''JWT validation failed'' e)
            | Inr claims \<Rightarrow>
                if map_of claims ''iss'' \<noteq>
                   Some (CStr (''https://cognito-idp.'' @ jv_region v @ ''.amazonaws.com/'' @ jv_pool_id v))
                then Inl (ErrMsg ''invalid issuer'')
                else if client = [] then Inl (ErrMsg ''cannot verify token: expected client ID (audience) is empty'')
                else if map_of claims ''aud'' \<noteq> Some (CStr client) then Inl (ErrMsg ''invalid audience'')
                else if map_of claims ''token_use'' \<noteq> Some (CStr ''id'') then Inl (ErrMsg ''invalid token_use'')
                else Inr claims), v))"

end
