(* ===== verification/CognitoTrust.thy ===== *)
theory CognitoTrust
  imports Cognito
begin

text \<open>
  What the verifier of \<open>Cognito\<close> guarantees: where it fetches its keys from and which tokens it accepts.
\<close>

subsection \<open>URLs of plain characters\<close>

text \<open>Letters, digits, hyphen, dot, underscore and slash: characters no part of a URL escapes.\<close>

definition plain_char :: "char \<Rightarrow> bool" where
  "plain_char c \<longleftrightarrow> is_alnum c \<or> c = CHR ''-'' \<or> c = CHR ''.'' \<or> c = CHR ''_''"

lemma special_not_plain:
  "\<not> plain_char CHR ''/''" "\<not> plain_char CHR ''?''" "\<not> plain_char CHR ''#''" "\<not> plain_char CHR ''@''"
  "\<not> plain_char CHR '':''" "\<not> plain_char CHR ''%''" "\<not> plain_char CHR ''[''"
  by code_simp+

lemma plain_char_not_ctl: "plain_char c \<Longrightarrow> \<not> is_ctl c"
proof -
  have "\<not> is_ctl CHR ''-''" "\<not> is_ctl CHR ''.''" "\<not> is_ctl CHR ''_''" by code_simp+
  moreover have "\<not> is_ctl c" if "is_alnum c"
  proof -
    have "48 \<le> (of_char c :: nat) \<and> (of_char c :: nat) \<le> 122"
      using that unfolding is_alnum_def is_letter_def is_digit_def Let_def by linarith
    then show ?thesis unfolding is_ctl_def Let_def by linarith
  qed
  ultimately show "plain_char c \<Longrightarrow> \<not> is_ctl c" unfolding plain_char_def by blast
qed

lemma plain_char_no_escape: "plain_char c \<Longrightarrow> \<not> should_escape m c"
proof -
  have "c \<in> set ''-_.~'' \<Longrightarrow> \<not> should_escape m c"
    by (simp only: should_escape_def if_True if_cancel not_False_eq_True)
  then have "\<not> should_escape m CHR ''-''" "\<not> should_escape m CHR ''.''" "\<not> should_escape m CHR ''_''"
    by (simp_all add: should_escape_def)
  moreover have "is_alnum c \<Longrightarrow> \<not> should_escape m c" by (simp only: should_escape_def if_True) simp
  ultimately show "plain_char c \<Longrightarrow> \<not> should_escape m c" unfolding plain_char_def by blast
qed

text \<open>What the parser asks of the characters of a host and of a path.\<close>

definition host_ok :: "char \<Rightarrow> bool" where
  "host_ok c \<longleftrightarrow> c \<noteq> CHR ''#'' \<and> c \<noteq> CHR ''?'' \<and> c \<noteq> CHR ''/'' \<and> c \<noteq> CHR ''@'' \<and> c \<noteq> CHR '':'' \<and>
     c \<noteq> CHR ''['' \<and> c \<noteq> CHR ''%'' \<and> \<not> is_ctl c \<and> \<not> bad_byte EncHost c"

definition path_ok :: "char \<Rightarrow> bool" where
  "path_ok c \<longleftrightarrow> c \<noteq> CHR ''#'' \<and> c \<noteq> CHR ''?'' \<and> c \<noteq> CHR ''%'' \<and> \<not> is_ctl c \<and> \<not> bad_byte EncPath c \<and>
     \<not> should_escape EncPath c"

lemma plain_host_ok: "plain_char c \<Longrightarrow> host_ok c"
  using special_not_plain plain_char_not_ctl plain_char_no_escape unfolding host_ok_def bad_byte_def by metis

lemma plain_path_ok: "plain_char c \<or> c = CHR ''/'' \<Longrightarrow> path_ok c"
proof -
  have "path_ok CHR ''/''" by code_simp
  moreover have "plain_char c \<Longrightarrow> path_ok c"
    using special_not_plain plain_char_not_ctl plain_char_no_escape unfolding path_ok_def bad_byte_def by metis
  ultimately show "plain_char c \<or> c = CHR ''/'' \<Longrightarrow> path_ok c" by blast
qed

lemma unescape_plain: "(\<And>c. c \<in> set s \<Longrightarrow> c \<noteq> CHR ''%'' \<and> \<not> bad_byte m c) \<Longrightarrow> unescape m s = Some s"
  by (induction s) auto

lemma escape_plain: "(\<And>c. c \<in> set s \<Longrightarrow> \<not> should_escape m c) \<Longrightarrow> escape m s = s"
  by (induction s) auto

lemma parse_plain_https:
  assumes "host \<noteq> []" and "\<And>c. c \<in> set host \<Longrightarrow> plain_char c"
    and "\<And>c. c \<in> set path \<Longrightarrow> plain_char c \<or> c = CHR ''/''"
  shows "parse_url (''https://'' @ host @ ''/'' @ path) =
    Some (empty_url\<lparr>u_scheme := ''https'', u_host := host, u_path := ''/'' @ path\<rparr>)"
proof -
  define raw where "raw = ''https://'' @ host @ ''/'' @ path"
  have np: "path_ok c" if "c \<in> set (''/'' @ path)" for c
    using assms(3) [of c] that plain_path_ok [of c] by auto
  have nh: "host_ok c" if "c \<in> set host" for c using assms(2) [OF that] by (rule plain_host_ok)
  have all: "c \<noteq> CHR ''#'' \<and> c \<noteq> CHR ''?'' \<and> \<not> is_ctl c" if "c \<in> set raw" for c
  proof -
    have "list_all (\<lambda>c. c \<noteq> CHR ''#'' \<and> c \<noteq> CHR ''?'' \<and> \<not> is_ctl c) ''https://''" by code_simp
    then have lit: "\<forall>c\<in>set ''https://''. c \<noteq> CHR ''#'' \<and> c \<noteq> CHR ''?'' \<and> \<not> is_ctl c" by (simp only: list_all_iff)
    have mem: "c \<in> set ''https://'' \<or> c \<in> set host \<or> c \<in> set (''/'' @ path)"
      using that unfolding raw_def set_append by blast
    have ok: "host_ok c \<or> path_ok c \<Longrightarrow> c \<noteq> CHR ''#'' \<and> c \<noteq> CHR ''?'' \<and> \<not> is_ctl c"
      unfolding host_ok_def path_ok_def by blast
    show ?thesis
      using mem
    proof (elim disjE)
      assume "c \<in> set ''https://''"
      with lit show ?thesis by (rule bspec)
    qed (use nh np ok in blast)+
  qed
  have frag: "cut (CHR ''#'') raw = (raw, [], False)" using all by (intro cut_none) blast
  have ctl: "\<not> list_ex is_ctl raw" using all unfolding list_ex_iff by blast
  have scheme: "get_scheme raw = Some (''https'', ''//'' @ host @ ''/'' @ path)"
    unfolding raw_def get_scheme_def append.simps scan_scheme.simps
    by (simp add: is_letter_def is_digit_def)
  have query: "cut_query (''//'' @ host @ ''/'' @ path) = (''//'' @ host @ ''/'' @ path, [])"
  proof -
    have "''https:'' @ (''//'' @ host @ ''/'' @ path) = raw" by (simp add: raw_def)
    then have "set (''//'' @ host @ ''/'' @ path) \<subseteq> set raw" by (metis set_append Un_upper2)
    then have "CHR ''?'' \<notin> set (''//'' @ host @ ''/'' @ path)" using all by blast
    then show ?thesis using cut_none by (simp add: cut_query_def)
  qed
  have auth: "split_authority (host @ ''/'' @ path) = (host, ''/'' @ path)"
  proof -
    have "\<And>c. c \<in> set host \<Longrightarrow> c \<noteq> CHR ''/''" using nh by (simp add: host_ok_def)
    then show ?thesis by (simp add: split_authority_def takeWhile_append2 dropWhile_append2)
  qed
  have "unescape EncHost host = Some host" using nh by (intro unescape_plain) (simp add: host_ok_def)
  moreover have "CHR ''['' \<notin> set (tl host)" using nh assms(1) by (cases host) (auto simp: host_ok_def)
  moreover have "\<not> has_prefix host ''[''" using nh assms(1) by (cases host) (auto simp: host_ok_def)
  moreover have "dropWhile (\<lambda>c. c \<noteq> CHR '':'') host = []" using nh by (simp add: host_ok_def)
  then have port: "valid_optional_port (dropWhile (\<lambda>c. c \<noteq> CHR '':'') host)" by (simp only: valid_optional_port_def list.case)
  ultimately have "parse_host host = Some host" using port by (simp add: parse_host_def)
  moreover have "last_cut (CHR ''@'') host = None"
    using nh by (auto simp: last_cut_def host_ok_def)
  ultimately have a: "parse_authority host = Some (False, host)" by (simp add: parse_authority_def)
  have p: "unescape EncPath (''/'' @ path) = Some (''/'' @ path)" "escape EncPath (''/'' @ path) = ''/'' @ path"
    using np by (intro unescape_plain escape_plain; simp add: path_ok_def)+
  have l: "to_lower ''https'' = ''https''" by code_simp
  have star: "raw \<noteq> ''*''" by (simp add: raw_def)
  have "parse_no_frag raw =
      Some (empty_url\<lparr>u_scheme := ''https'', u_host := host, u_path := ''/'' @ path\<rparr>)"
    unfolding parse_no_frag_def
    using ctl scheme query auth a p l star by (simp add: Let_def set_path_def empty_url_def)
  then show ?thesis unfolding raw_def [symmetric] by (simp add: parse_url_def frag)
qed

subsection \<open>Where keys come from\<close>

lemma plain_char_intros:
  "is_lower c \<Longrightarrow> plain_char c" "is_digit c \<Longrightarrow> plain_char c" "is_alnum c \<Longrightarrow> plain_char c"
  "plain_char CHR ''-''" "plain_char CHR ''_''"
  by (simp_all add: plain_char_def is_lower_def is_alnum_def is_letter_def Let_def)

lemma valid_pool_id_plain: "valid_pool_id s \<Longrightarrow> c \<in> set s \<Longrightarrow> plain_char c"
proof -
  assume v: "valid_pool_id s" and c: "c \<in> set s"
  obtain a b f where cut: "cut (CHR ''_'') s = (a, b, f)" by (cases "cut (CHR ''_'') s") auto
  then have "f" "\<forall>c\<in>set a. plain_char c" "\<forall>c\<in>set b. plain_char c"
    using v by (auto simp: valid_pool_id_def list_all_iff intro: plain_char_intros)
  moreover have "s = a @ CHR ''_'' # b" using cut_eq [OF cut] \<open>f\<close> by simp
  ultimately show ?thesis using c plain_char_intros(5) by auto
qed

lemma set_split_on: "x \<in> set s \<Longrightarrow> x \<noteq> c \<Longrightarrow> \<exists>p\<in>set (split_on c s). x \<in> set p"
proof (induction s)
  case (Cons a s)
  obtain y ys where "split_on c s = y # ys" by (cases "split_on c s") auto
  then show ?case using Cons by auto
qed simp

lemma valid_region_plain:
  assumes "valid_region s"
  shows "s \<noteq> []" and "c \<in> set s \<Longrightarrow> plain_char c"
proof -
  let ?ps = "split_on (CHR ''-'') s"
  have l: "2 \<le> length ?ps" and b: "\<forall>p\<in>set (butlast ?ps). \<forall>c\<in>set p. is_lower c"
    and d: "\<forall>c\<in>set (last ?ps). is_digit c"
    using assms by (auto simp: valid_region_def Let_def list_all_iff)
  show "s \<noteq> []" using l by (cases s) auto
  have "?ps = butlast ?ps @ [last ?ps]" by simp
  then have "set ?ps = insert (last ?ps) (set (butlast ?ps))" by (metis list.simps(15) rotate1.simps(2) set_rotate1)
  then have p: "\<forall>p\<in>set ?ps. \<forall>c\<in>set p. plain_char c"
    using b d by (auto intro: plain_char_intros)
  then show "c \<in> set s \<Longrightarrow> plain_char c"
    using set_split_on [of c s "CHR ''-''"] plain_char_intros(4) by (cases "c = CHR ''-''") auto
qed

text \<open>Whatever pool and region an identity source names, the keys that decide over its tokens come over
  https, without credentials, from the identity provider of an AWS region: a verifier exists only for
  identifiers that cannot leave the host or the path they are written into.\<close>

lemma jwks_url_host:
  assumes "new_jwks_verifier pool region = Inr v"
  shows "parse_url (jv_url v) = Some (empty_url\<lparr>u_scheme := ''https'',
      u_host := ''cognito-idp.'' @ region @ ''.amazonaws.com'',
      u_path := ''/'' @ pool @ ''/.well-known/jwks.json''\<rparr>)"
proof -
  have v: "valid_pool_id pool" "valid_region region"
    and url: "jv_url v = ''https://cognito-idp.'' @ region @ ''.amazonaws.com/'' @ pool @ ''/.well-known/jwks.json''"
    using assms by (auto simp: new_jwks_verifier_def validate_pool_id_def validate_region_def split: if_splits)
  let ?host = "''cognito-idp.'' @ region @ ''.amazonaws.com''" and ?path = "pool @ ''/.well-known/jwks.json''"
  have lits: "list_all plain_char ''cognito-idp.''" "list_all plain_char ''.amazonaws.com''"
    "list_all (\<lambda>c. plain_char c \<or> c = CHR ''/'') ''/.well-known/jwks.json''" by code_simp+
  have host: "plain_char c" if "c \<in> set ?host" for c
  proof -
    have "c \<in> set ''cognito-idp.'' \<or> c \<in> set region \<or> c \<in> set ''.amazonaws.com''"
      using that unfolding set_append by blast
    then show ?thesis using lits(1,2) valid_region_plain(2) [OF v(2)] unfolding list_all_iff by (elim disjE) metis+
  qed
  have path: "plain_char c \<or> c = CHR ''/''" if "c \<in> set ?path" for c
  proof -
    have "c \<in> set pool \<or> c \<in> set ''/.well-known/jwks.json''" using that unfolding set_append by blast
    then show ?thesis using lits(3) valid_pool_id_plain [OF v(1)] unfolding list_all_iff by (elim disjE) metis+
  qed
  have "jv_url v = ''https://'' @ ?host @ ''/'' @ ?path" by (simp add: url)
  moreover have "?host \<noteq> []" by simp
  note parse_plain_https [OF this host path]
  ultimately show ?thesis by (simp only:)
qed

lemma jwks_url_host_witness:
  "\<exists>v. new_jwks_verifier ''eu-west-1_Ab9'' ''eu-west-1'' = Inr v \<and>
     parse_url (jv_url v) = Some (empty_url\<lparr>u_scheme := ''https'',
       u_host := ''cognito-idp.eu-west-1.amazonaws.com'', u_path := ''/eu-west-1_Ab9/.well-known/jwks.json''\<rparr>)"
proof -
  have "valid_pool_id ''eu-west-1_Ab9'' \<and> valid_region ''eu-west-1''" by code_simp
  then obtain v where "new_jwks_verifier ''eu-west-1_Ab9'' ''eu-west-1'' = Inr v"
    by (simp add: new_jwks_verifier_def validate_pool_id_def validate_region_def)
  then show ?thesis using jwks_url_host by fastforce
qed

subsection \<open>Which tokens are accepted\<close>

lemma ensure_keys_fresh:
  assumes "ensure_keys now env v = (Inr (), v')"
  shows "jv_pool_id v' = jv_pool_id v \<and> jv_region v' = jv_region v \<and> jv_url v' = jv_url v \<and>
    (v' = v \<and> now - jv_fetched_at v \<le> jv_cache_ttl v \<or>
     (\<exists>body ks. cv_get env (jv_url v) = Some (200, body) \<and> cv_jwks env body = Some ks \<and>
        jv_keys v' = collect_keys ks [] \<and> jv_fetched_at v' = now))"
  using assms
  by (auto simp: ensure_keys_def fetch_keys_def Let_def not_less split: if_splits option.splits prod.splits)


definition demo_header :: jwt_header where
  "demo_header = \<lparr>jh_rsa = True, jh_kid = Some (CStr ''k1'')\<rparr>"

definition demo_id_claims :: jwt_payload where
  "demo_id_claims = [(''iss'', CStr ''https://cognito-idp.eu-west-1.amazonaws.com/p_1''), (''aud'', CStr ''c1''),
     (''token_use'', CStr ''id''), (''sub'', CStr ''u1''), (''email'', CStr ''ada@x''), (''email_verified'', CBool True)]"

definition demo_cognito :: cognito_env where
  "demo_cognito = \<lparr>cv_get = (\<lambda>_. None), cv_post = (\<lambda>_ _ _. Some (200, ''good'')), cv_jwks = (\<lambda>_. None),
     cv_id_token = Some,
     cv_jwt_parse = (\<lambda>_ kf tok. case kf demo_header of
         Inl e \<Rightarrow> Inl e | Inr _ \<Rightarrow> if tok = ''good'' then Inr demo_id_claims else Inl (ErrMsg ''signature'')),
     cv_signed = (\<lambda>tok h k p. tok = ''good'' \<and> h = demo_header)\<rparr>"

lemma demo_jwt_ok: "jwt_ok demo_cognito"
  by (auto simp: jwt_ok_def demo_cognito_def split: sum.splits if_splits)

definition demo_verifier :: jwks_verifier where
  "demo_verifier = \<lparr>jv_pool_id = ''p_1'', jv_region = ''eu-west-1'', jv_url = [],
     jv_keys = [(''k1'', \<lparr>rk_n = 5, rk_e = 3\<rparr>)], jv_fetched_at = 0, jv_cache_ttl = hours 1\<rparr>"

lemma demo_verify:
  "t \<le> hours 1 \<Longrightarrow> jwks_verify t demo_cognito demo_verifier ''good'' ''c1'' = (Inr demo_id_claims, demo_verifier)"
  by (simp add: jwks_verify_def ensure_keys_def demo_verifier_def demo_cognito_def verify_keyfunc_def
      demo_header_def get_key_def demo_id_claims_def)


end
