(* ===== verification/SamlAssertion.thy ===== *)
theory SamlAssertion
  imports OidcClaims AppLookup Codec
begin

text \<open>
  What a service provider learns about a user: the NameID (\<^verbatim>\<open>internal/saml/nameid.go\<close>), the lifetime of
  the session (\<^verbatim>\<open>durations.go\<close>), the session built from the verified Cognito claims (the second half of
  \<^verbatim>\<open>session_provider.go\<close>), the attributes and the validity window of the assertion
  (\<^verbatim>\<open>assertion_maker.go\<close>) and the metadata the identity provider sees of the service provider
  (\<^verbatim>\<open>sp_provider.go\<close>). The library's default assertion maker and the certificate parser are parameters.
\<close>

subsection \<open>Sessions, requests and assertions\<close>

text \<open>
  The fields of the SAML library's \<^verbatim>\<open>Session\<close>, \<^verbatim>\<open>IdpAuthnRequest\<close> and \<^verbatim>\<open>Assertion\<close> the code reads or
  writes. An attribute value is its type and its text. An assertion is its conditions' NotBefore (None
  without conditions), the SessionNotOnOrAfter of each authentication statement and its attribute
  statements.
\<close>

record saml_attr =
  sa_name :: string
  sa_name_format :: string
  sa_values :: "(string \<times> string) list"

record saml_session =
  ss_id :: string
  ss_create_time :: gotime
  ss_expire_time :: gotime
  ss_index :: string
  ss_name_id :: string
  ss_name_id_format :: string
  ss_subject_id :: string
  ss_groups :: "string list"
  ss_user_name :: string
  ss_user_email :: string
  ss_user_common_name :: string
  ss_user_surname :: string
  ss_user_given_name :: string
  ss_custom_attributes :: "saml_attr list"

record assertion =
  an_not_before :: "gotime option"
  an_session_not_on_or_after :: "gotime option list"
  an_attribute_statements :: "saml_attr list list"

text \<open>The tenant is the path parameter of the HTTP request, None when there is no request in context.\<close>

record idp_request =
  ir_id :: string
  ir_now :: gotime
  ir_issue_instant :: gotime
  ir_relay_state :: string
  ir_buffer :: string
  ir_sp :: "string option"
  ir_tenant :: "string option"
  ir_assertion :: "assertion option"

subsection \<open>Durations\<close>

definition default_session_duration :: duration where
  "default_session_duration = hours 8"

definition default_clock_skew :: duration where
  "default_clock_skew = seconds 180"

definition clamp_seconds :: "int \<Rightarrow> int \<Rightarrow> int \<Rightarrow> duration" where
  "clamp_seconds sec lo hi =
     (let s1 = (if sec < lo then lo else sec); s2 = (if s1 > hi then hi else s1) in seconds s2)"

definition session_duration :: "saml_config option \<Rightarrow> duration" where
  "session_duration cfg =
     (case cfg of
        None \<Rightarrow> default_session_duration
      | Some c \<Rightarrow>
          if sc_session_duration_sec c = 0 then default_session_duration
          else clamp_seconds (sc_session_duration_sec c) session_duration_min_sec session_duration_max_sec)"

definition clock_skew :: "saml_config option \<Rightarrow> duration" where
  "clock_skew cfg =
     (case cfg of
        None \<Rightarrow> default_clock_skew
      | Some c \<Rightarrow>
          if sc_clock_skew_sec c = 0 then default_clock_skew
          else clamp_seconds (sc_clock_skew_sec c) clock_skew_min_sec clock_skew_max_sec)"

subsection \<open>NameID\<close>

definition reason_email_unverified :: string where
  "reason_email_unverified = ''email_unverified''"

definition reason_no_subject :: string where
  "reason_no_subject = ''no_subject''"

text \<open>The value, its format and the reason of a fallback; the claims are None for a nil pointer.\<close>

definition resolve_name_id ::
  "subject_claims option \<Rightarrow> saml_config option \<Rightarrow> string \<Rightarrow> string \<times> string \<times> string" where
  "resolve_name_id claims cfg session_id =
     (case claims of
        None \<Rightarrow> ([], [], reason_no_subject)
      | Some c \<Rightarrow>
          if c_sub c = [] then ([], [], reason_no_subject)
          else
            let requested = (case cfg of None \<Rightarrow> [] | Some x \<Rightarrow> sc_name_id_format x);
                source0 = (case cfg of None \<Rightarrow> [] | Some x \<Rightarrow> sc_name_id_source x);
                format = canonical_name_id_format requested;
                source1 = to_lower (trim_space source0);
                source = (if source1 = [] then ''sub'' else source1);
                email_usable = (c_email c \<noteq> [] \<and> c_email_verified c)
            in if format = nif_email \<or> source = ''email'' then
                 (if email_usable then (c_email c, nif_email, [])
                  else (c_sub c, nif_persistent, reason_email_unverified))
               else if format = nif_transient then (session_id, nif_transient, [])
               else if format = nif_persistent then (c_sub c, nif_persistent, [])
               else (c_sub c, format, []))"

subsection \<open>The session of a login\<close>

definition err_no_subject :: err where
  "err_no_subject = ErrMsg ''id token has no subject''"

definition custom_attr :: "string \<times> string \<Rightarrow> saml_attr" where
  "custom_attr kv = \<lparr>sa_name = fst kv, sa_name_format = [], sa_values = [(''xs:string'', snd kv)]\<rparr>"

text \<open>The two random identifiers are inputs; the code draws them before anything else.\<close>

definition build_session_from_claims ::
  "string \<Rightarrow> string \<Rightarrow> gotime \<Rightarrow> subject_claims \<Rightarrow> saml_config option \<Rightarrow> saml_session res" where
  "build_session_from_claims session_id session_index now c cfg =
     (case resolve_name_id (Some c) cfg session_id of (name_id, format, reason) \<Rightarrow>
        if reason = reason_no_subject then Inl err_no_subject
        else Inr \<lparr>ss_id = session_id, ss_create_time = now,
                  ss_expire_time = now + session_duration cfg, ss_index = session_index,
                  ss_name_id = name_id, ss_name_id_format = format, ss_subject_id = c_sub c,
                  ss_groups = c_groups c, ss_user_name = c_sub c, ss_user_email = c_email c,
                  ss_user_common_name = [], ss_user_surname = c_family_name c,
                  ss_user_given_name = c_given_name c,
                  ss_custom_attributes = map custom_attr (c_custom_attributes c)\<rparr>)"

subsection \<open>The assertion\<close>

definition name_format_or_default :: "string \<Rightarrow> string" where
  "name_format_or_default nf =
     (if nf \<noteq> [] then nf else ''urn:oasis:names:tc:SAML:2.0:attrname-format:uri'')"

definition session_custom :: "saml_session \<Rightarrow> (string \<times> string) list" where
  "session_custom s =
     fold (\<lambda>a m. case sa_values a of [] \<Rightarrow> m | v # _ \<Rightarrow> AList.update (sa_name a) (snd v) m)
       (ss_custom_attributes s) []"

definition resolve_session_field :: "saml_session \<Rightarrow> string \<Rightarrow> (string \<times> string) list \<Rightarrow> string" where
  "resolve_session_field s source custom =
     (if source = ''email'' then ss_user_email s
      else if source = ''given_name'' then ss_user_given_name s
      else if source = ''family_name'' then ss_user_surname s
      else if source = ''name'' \<or> source = ''common_name'' then ss_user_common_name s
      else if source = ''sub'' then ss_subject_id s
      else if source = ''username'' then ss_user_name s
      else case map_of custom source of Some v \<Rightarrow> v | None \<Rightarrow> [])"

definition attr_values ::
  "(string \<times> string) list \<Rightarrow> (string \<times> string) list \<Rightarrow> saml_session \<Rightarrow> claim_mapping \<Rightarrow> (string \<times> string) list" where
  "attr_values role_map custom s cm =
     (if is_cognito_source (cm_source_type cm) then
        (let v = resolve_session_field s (cm_source_attribute cm) custom;
             v' = (if v = [] \<and> cm_default_value cm \<noteq> [] then cm_default_value cm else v)
         in if v' \<noteq> [] then [(''xs:string'', v')] else [])
      else if cm_source_type cm = ''groupMapping'' then
        map (Pair ''xs:string'') (List.map_filter (map_of role_map) (ss_groups s))
      else if cm_source_type cm = ''static'' then
        (if cm_default_value cm \<noteq> [] then [(''xs:string'', cm_default_value cm)] else [])
      else [])"

definition mapped_attribute ::
  "(string \<times> string) list \<Rightarrow> (string \<times> string) list \<Rightarrow> saml_session \<Rightarrow> claim_mapping \<Rightarrow> saml_attr option" where
  "mapped_attribute role_map custom s cm =
     (let vs = attr_values role_map custom s cm in
      if vs = [] then None
      else Some \<lparr>sa_name = cm_target_attribute cm, sa_name_format = name_format_or_default [], sa_values = vs\<rparr>)"

definition mapped_attributes ::
  "cfg_db \<Rightarrow> saml_session \<Rightarrow> string \<Rightarrow> application \<Rightarrow> saml_attr list" where
  "mapped_attributes cfg s slug app =
     (case get_claim_mappings slug (a_id app) cfg of
        Inl _ \<Rightarrow> []
      | Inr cms \<Rightarrow>
          (case get_role_mappings slug (a_id app) cfg of
             Inl _ \<Rightarrow> []
           | Inr rms \<Rightarrow>
               List.map_filter (mapped_attribute (role_map_of rms) (session_custom s) s) cms))"

definition resolve_app ::
  "cfg_db \<Rightarrow> idp_request \<Rightarrow> string \<times> application option \<times> saml_config option" where
  "resolve_app cfg req =
     (let entity = (case ir_sp req of None \<Rightarrow> [] | Some e \<Rightarrow> e) in
      case ir_tenant req of
        None \<Rightarrow> ([], None, None)
      | Some slug \<Rightarrow>
          if slug = [] then ([], None, None)
          else case get_by_tenant_entity_id slug entity cfg of
              Inl _ \<Rightarrow> (slug, None, None)
            | Inr (app, sc) \<Rightarrow> (slug, Some app, sc))"

definition apply_timing_config ::
  "idp_request \<Rightarrow> saml_session \<Rightarrow> saml_config option \<Rightarrow> assertion \<Rightarrow> assertion" where
  "apply_timing_config req s sc a =
     (let nb = ir_now req - clock_skew sc;
          nb' = (if nb < ir_issue_instant req then ir_issue_instant req else nb);
          a1 = (if an_not_before a \<noteq> None \<and> ir_now req \<noteq> zero_time
                then a\<lparr>an_not_before := Some nb'\<rparr> else a)
      in if ss_expire_time s \<noteq> zero_time
         then a1\<lparr>an_session_not_on_or_after :=
                map (\<lambda>_. Some (ss_expire_time s)) (an_session_not_on_or_after a1)\<rparr>
         else a1)"

definition make_assertion ::
  "(idp_request \<Rightarrow> saml_session \<Rightarrow> assertion res) \<Rightarrow> cfg_db \<Rightarrow> idp_request \<Rightarrow> saml_session \<Rightarrow> assertion res" where
  "make_assertion default_maker cfg req s =
     (case (case ir_assertion req of Some a \<Rightarrow> Inr a | None \<Rightarrow> default_maker req s) of
        Inl e \<Rightarrow> Inl e
      | Inr a0 \<Rightarrow>
          (case resolve_app cfg req of (slug, app, sc) \<Rightarrow>
             let a1 = apply_timing_config req s sc a0;
                 attrs = (case app of None \<Rightarrow> [] | Some x \<Rightarrow> mapped_attributes cfg s slug x)
             in Inr (a1\<lparr>an_attribute_statements := (if attrs \<noteq> [] then [attrs] else [])\<rparr>)))"

subsection \<open>The service provider's metadata\<close>

record indexed_endpoint =
  ie_binding :: string
  ie_location :: string
  ie_index :: nat
  ie_is_default :: bool

record key_descriptor =
  kd_use :: string
  kd_cert :: string

record entity_descriptor =
  ed_entity_id :: string
  ed_acs :: "indexed_endpoint list"
  ed_keys :: "key_descriptor list"

datatype sp_error = ErrSpNotExist | ErrAuthnSignatureUnsupported

text \<open>The parser takes a PEM text to the certificate's bytes.\<close>

definition build_key_descriptor :: "(string \<Rightarrow> string option) \<Rightarrow> string \<Rightarrow> string \<Rightarrow> key_descriptor option" where
  "build_key_descriptor parse_cert pem use =
     (case parse_cert pem of
        None \<Rightarrow> None
      | Some raw \<Rightarrow> Some \<lparr>kd_use = use, kd_cert = b64_encode StdAlphabet True raw\<rparr>)"

definition optional_key :: "(string \<Rightarrow> string option) \<Rightarrow> string \<Rightarrow> string \<Rightarrow> key_descriptor list" where
  "optional_key parse_cert pem use =
     (if pem = [] then []
      else case build_key_descriptor parse_cert pem use of None \<Rightarrow> [] | Some kd \<Rightarrow> [kd])"

definition build_entity_descriptor :: "(string \<Rightarrow> string option) \<Rightarrow> saml_config \<Rightarrow> entity_descriptor" where
  "build_entity_descriptor parse_cert sc =
     (let urls = (if sc_acs_urls sc = [] \<and> sc_acs_url sc \<noteq> [] then [sc_acs_url sc] else sc_acs_urls sc)
      in \<lparr>ed_entity_id = sc_entity_id sc,
          ed_acs = map (\<lambda>(i, u). \<lparr>ie_binding = ''urn:oasis:names:tc:SAML:2.0:bindings:HTTP-POST'',
                        ie_location = u, ie_index = i, ie_is_default = (i = 0)\<rparr>)
                     (zip [0..<length urls] urls),
          ed_keys = optional_key parse_cert (sc_signing_cert_pem sc) ''signing'' @
            (if sc_encrypt_assertion sc
             then optional_key parse_cert (sc_encryption_cert_pem sc) ''encryption'' else [])\<rparr>)"

text \<open>The tenant is None when the provider is called without a request.\<close>

definition get_service_provider ::
  "(string \<Rightarrow> string option) \<Rightarrow> cfg_db \<Rightarrow> string option \<Rightarrow> string \<Rightarrow> sp_error + entity_descriptor" where
  "get_service_provider parse_cert cfg tenant_param sp_id =
     (case tenant_param of
        None \<Rightarrow> Inl ErrSpNotExist
      | Some slug \<Rightarrow>
          if slug = [] then Inl ErrSpNotExist
          else case get_by_tenant_entity_id slug sp_id cfg of
              Inl _ \<Rightarrow> Inl ErrSpNotExist
            | Inr (app, saml_cfg) \<Rightarrow>
                if a_status app \<noteq> ''active'' then Inl ErrSpNotExist
                else (case saml_cfg of
                    None \<Rightarrow> Inl ErrSpNotExist
                  | Some sc \<Rightarrow>
                      if sc_want_authn_requests_signed sc then Inl ErrAuthnSignatureUnsupported
                      else Inr (build_entity_descriptor parse_cert sc)))"

end
