(* ===== verification/SamlCookies.thy ===== *)
theory SamlCookies
  imports SamlAssertion Cognito SamlSlo
begin

text \<open>
  The cookies of the SAML flows (\<^verbatim>\<open>internal/saml/session_provider.go\<close>): the login binding, the state of an
  OAuth2 redirect and the session envelope, how each is written as JSON and read back, and the checks
  that tie a cookie or a session handed over inside the process to the current request.

  JSON text is printed and parsed by \<open>sv_print\<close> and \<open>sv_parse\<close>; the objects below carry the names of
  the struct tags. The SAML library's session is one value of its own. Names are compared exactly:
  only objects the program printed itself pass the cookie's signature.
\<close>

subsection \<open>JSON objects\<close>

datatype json =
    JNull
  | JStr string
  | JInt int
  | JSession saml_session
  | JObj "(string \<times> json) list"
  | JOther

record sso_env =
  sv_crypto :: crypto_env
  sv_cognito :: cognito_env
  sv_print :: "json \<Rightarrow> string"
  sv_parse :: "string \<Rightarrow> json option"

text \<open>A value that survives printing and parsing.\<close>

definition json_faithful :: "sso_env \<Rightarrow> json \<Rightarrow> bool" where
  "json_faithful env j \<longleftrightarrow> sv_parse env (sv_print env j) = Some j"

text \<open>Decoding a field of a struct: absent and null leave the zero value, another kind is an error.\<close>

definition str_field :: "(string \<times> json) list \<Rightarrow> string \<Rightarrow> string option" where
  "str_field ob k = (case map_of ob k of None \<Rightarrow> Some [] | Some JNull \<Rightarrow> Some [] | Some (JStr s) \<Rightarrow> Some s | _ \<Rightarrow> None)"

definition int_field :: "(string \<times> json) list \<Rightarrow> string \<Rightarrow> int option" where
  "int_field ob k = (case map_of ob k of None \<Rightarrow> Some 0 | Some JNull \<Rightarrow> Some 0 | Some (JInt n) \<Rightarrow> Some n | _ \<Rightarrow> None)"

definition session_field :: "(string \<times> json) list \<Rightarrow> string \<Rightarrow> saml_session option option" where
  "session_field ob k =
     (case map_of ob k of None \<Rightarrow> Some None | Some JNull \<Rightarrow> Some None | Some (JSession s) \<Rightarrow> Some (Some s) | _ \<Rightarrow> None)"

definition obj_fields :: "json \<Rightarrow> (string \<times> json) list option" where
  "obj_fields j = (case j of JObj ob \<Rightarrow> Some ob | JNull \<Rightarrow> Some [] | _ \<Rightarrow> None)"

subsection \<open>The three payloads\<close>

record login_binding =
  lb_flow_id :: string
  lb_created_at :: int

definition binding_json :: "login_binding \<Rightarrow> json" where
  "binding_json b = JObj [(''fid'', JStr (lb_flow_id b)), (''ca'', JInt (lb_created_at b))]"

definition binding_of_json :: "json \<Rightarrow> login_binding option" where
  "binding_of_json j =
     (case obj_fields j of
        None \<Rightarrow> None
      | Some ob \<Rightarrow>
          (case (str_field ob ''fid'', int_field ob ''ca'') of
             (Some f, Some c) \<Rightarrow> Some \<lparr>lb_flow_id = f, lb_created_at = c\<rparr>
           | _ \<Rightarrow> None))"

record flow_state =
  fl_flow_id :: string
  fl_relay_state :: string
  fl_request_buf :: string
  fl_verifier :: string
  fl_sp_entity_id :: string
  fl_source_id :: string
  fl_tenant_slug :: string
  fl_created_at :: int

definition flow_json :: "flow_state \<Rightarrow> json" where
  "flow_json s = JObj
     [(''fid'', JStr (fl_flow_id s)), (''rs'', JStr (fl_relay_state s)), (''rb'', JStr (fl_request_buf s)),
      (''v'', JStr (fl_verifier s)), (''sp'', JStr (fl_sp_entity_id s)), (''sid'', JStr (fl_source_id s)),
      (''ts'', JStr (fl_tenant_slug s)), (''ca'', JInt (fl_created_at s))]"

definition flow_of_json :: "json \<Rightarrow> flow_state option" where
  "flow_of_json j =
     (case obj_fields j of
        None \<Rightarrow> None
      | Some ob \<Rightarrow>
          (case (str_field ob ''fid'', str_field ob ''rs'', str_field ob ''rb'', str_field ob ''v'') of
             (Some f, Some rs, Some rb, Some v) \<Rightarrow>
               (case (str_field ob ''sp'', str_field ob ''sid'', str_field ob ''ts'', int_field ob ''ca'') of
                  (Some sp, Some sid, Some ts, Some ca) \<Rightarrow>
                    Some \<lparr>fl_flow_id = f, fl_relay_state = rs, fl_request_buf = rb, fl_verifier = v,
                          fl_sp_entity_id = sp, fl_source_id = sid, fl_tenant_slug = ts, fl_created_at = ca\<rparr>
                | _ \<Rightarrow> None)
           | _ \<Rightarrow> None))"

record session_envelope =
  ev_session :: "saml_session option"
  ev_tenant_slug :: string
  ev_source_id :: string
  ev_sp_entity_id :: string

definition omit_empty :: "string \<Rightarrow> string \<Rightarrow> (string \<times> json) list" where
  "omit_empty k v = (if v = [] then [] else [(k, JStr v)])"

definition envelope_json :: "session_envelope \<Rightarrow> json" where
  "envelope_json e = JObj
     ([(''session'', case ev_session e of None \<Rightarrow> JNull | Some s \<Rightarrow> JSession s),
       (''tenant'', JStr (ev_tenant_slug e))] @
      omit_empty ''source'' (ev_source_id e) @ omit_empty ''sp'' (ev_sp_entity_id e))"

definition envelope_of_json :: "json \<Rightarrow> session_envelope option" where
  "envelope_of_json j =
     (case obj_fields j of
        None \<Rightarrow> None
      | Some ob \<Rightarrow>
          (case (session_field ob ''session'', str_field ob ''tenant'', str_field ob ''source'', str_field ob ''sp'') of
             (Some s, Some t, Some src, Some sp) \<Rightarrow>
               Some \<lparr>ev_session = s, ev_tenant_slug = t, ev_source_id = src, ev_sp_entity_id = sp\<rparr>
           | _ \<Rightarrow> None))"

subsection \<open>The provider\<close>

text \<open>
  The session provider: its static client in the legacy mode, whether the application and source
  stores (\<open>pv_multi\<close>, wired together) and the other optional parts are wired, its base URL and its
  cookie. The IdP it resumes with comes from the per-tenant factory or is the single static one.
\<close>

record provider =
  pv_legacy :: "auth_client option"
  pv_multi :: bool
  pv_replay :: bool
  pv_audit :: bool
  pv_pending :: bool
  pv_sessions :: bool
  pv_static_idp :: bool
  pv_idp_factory :: bool
  pv_base_url :: string
  pv_cookie :: signed_cookie

text \<open>A session minted inside the process, with the binding it was minted for.\<close>

record minted_session =
  ms_session :: saml_session
  ms_tenant_slug :: string
  ms_source_id :: string
  ms_sp_entity_id :: string

text \<open>
  The parts of the HTTP request the flows read: the tenant of the path (empty when absent), the
  cookies in their order, the headers, the decoded query and form (or that parsing the form fails),
  and the context value.
\<close>

record http_req =
  hq_tenant :: string
  hq_cookies :: "(string \<times> string) list"
  hq_authorization :: string
  hq_origin :: string
  hq_referer :: string
  hq_query :: "(string \<times> string) list"
  hq_bad_form :: bool
  hq_form :: "(string \<times> string) list"
  hq_minted :: "minted_session option"

definition query_value :: "(string \<times> string) list \<Rightarrow> string \<Rightarrow> string" where
  "query_value q k = (case map_of q k of None \<Rightarrow> [] | Some v \<Rightarrow> v)"

subsection \<open>Names and lifetimes\<close>

definition flow_cookie_name :: string where "flow_cookie_name = ''saml_flow''"
definition cookie_max_age :: int where "cookie_max_age = 600"
definition login_binding_cookie_name :: string where "login_binding_cookie_name = ''__Host-saml_login''"

definition mk_cookie :: "string \<Rightarrow> string \<Rightarrow> int \<Rightarrow> set_cookie" where
  "mk_cookie name v age = \<lparr>ck_name = name, ck_value = v, ck_path = ''/'', ck_max_age = age\<rparr>"

subsection \<open>The login binding\<close>

definition set_login_binding_cookie ::
  "sso_env \<Rightarrow> provider \<Rightarrow> gotime \<Rightarrow> string option \<Rightarrow> string \<Rightarrow> set_cookie res" where
  "set_login_binding_cookie env pv now nonce flow =
     (case cookie_encode (sv_crypto env) (pv_cookie pv) nonce
             (sv_print env (binding_json \<lparr>lb_flow_id = flow, lb_created_at = unix now\<rparr>)) of
        Inl e \<Rightarrow> Inl e
      | Inr v \<Rightarrow> Inr (mk_cookie login_binding_cookie_name v cookie_max_age))"

definition verify_login_binding :: "sso_env \<Rightarrow> provider \<Rightarrow> gotime \<Rightarrow> http_req \<Rightarrow> string \<Rightarrow> unit res" where
  "verify_login_binding env pv now r flow =
     (let c = query_value (hq_cookies r) login_binding_cookie_name in
      if c = [] then Inl (ErrMsg ''login binding cookie missing'')
      else case cookie_decode (sv_crypto env) (pv_cookie pv) c of
          Inl e \<Rightarrow> Inl (Wrap ''login binding cookie invalid'' e)
        | Inr text \<Rightarrow>
            (case Option.bind (sv_parse env text) binding_of_json of
               None \<Rightarrow> Inl (ErrMsg ''login binding cookie invalid'')
             | Some b \<Rightarrow>
                 if lb_flow_id b = [] \<or> lb_flow_id b \<noteq> flow
                 then Inl (ErrMsg ''login binding cookie does not match this flow'')
                 else if unix now - lb_created_at b > cookie_max_age
                 then Inl (ErrMsg ''login binding cookie expired'')
                 else Inr ()))"

definition clear_login_binding_cookie :: set_cookie where
  "clear_login_binding_cookie = mk_cookie login_binding_cookie_name [] (-1)"

subsection \<open>Flow state and session envelope\<close>

definition signed_encode :: "sso_env \<Rightarrow> provider \<Rightarrow> string option \<Rightarrow> flow_state \<Rightarrow> string res" where
  "signed_encode env pv nonce s = cookie_encode (sv_crypto env) (pv_cookie pv) nonce (sv_print env (flow_json s))"

definition signed_decode :: "sso_env \<Rightarrow> provider \<Rightarrow> string \<Rightarrow> flow_state res" where
  "signed_decode env pv raw =
     (case cookie_decode (sv_crypto env) (pv_cookie pv) raw of
        Inl e \<Rightarrow> Inl e
      | Inr text \<Rightarrow>
          (case Option.bind (sv_parse env text) flow_of_json of
             None \<Rightarrow> Inl (ErrMsg ''invalid flow state'') | Some s \<Rightarrow> Inr s))"

definition encode_bound_session_cookie ::
  "sso_env \<Rightarrow> provider \<Rightarrow> string option \<Rightarrow> saml_session \<Rightarrow> string \<Rightarrow> string \<Rightarrow> string \<Rightarrow> string res" where
  "encode_bound_session_cookie env pv nonce s slug src sp =
     cookie_encode (sv_crypto env) (pv_cookie pv) nonce
       (sv_print env (envelope_json \<lparr>ev_session = Some s, ev_tenant_slug = slug, ev_source_id = src,
                                     ev_sp_entity_id = sp\<rparr>))"

definition decode_session_envelope ::
  "sso_env \<Rightarrow> provider \<Rightarrow> gotime \<Rightarrow> string \<Rightarrow> (saml_session \<times> session_envelope) res" where
  "decode_session_envelope env pv now raw =
     (case cookie_decode (sv_crypto env) (pv_cookie pv) raw of
        Inl e \<Rightarrow> Inl e
      | Inr text \<Rightarrow>
          (case Option.bind (sv_parse env text) envelope_of_json of
             None \<Rightarrow> Inl (ErrMsg ''invalid session envelope'')
           | Some e \<Rightarrow>
               (case ev_session e of
                  None \<Rightarrow> Inl (ErrMsg ''session cookie missing session'')
                | Some s \<Rightarrow> if now > ss_expire_time s then Inl (ErrMsg ''session expired'') else Inr (s, e))))"

definition decode_session_cookie :: "sso_env \<Rightarrow> provider \<Rightarrow> gotime \<Rightarrow> string \<Rightarrow> saml_session res" where
  "decode_session_cookie env pv now raw =
     (case decode_session_envelope env pv now raw of Inl e \<Rightarrow> Inl e | Inr (s, _) \<Rightarrow> Inr s)"

text \<open>The seconds of the session's life, for the cookie that carries it.\<close>

definition session_max_age :: "saml_session \<Rightarrow> int" where
  "session_max_age s = (ss_expire_time s - ss_create_time s) div nanos_per_sec"

definition session_cookie :: "saml_session \<Rightarrow> string \<Rightarrow> set_cookie" where
  "session_cookie s raw = mk_cookie session_cookie_name raw (session_max_age s)"

definition request_with_minted_session ::
  "sso_env \<Rightarrow> provider \<Rightarrow> gotime \<Rightarrow> http_req \<Rightarrow> string \<Rightarrow> http_req" where
  "request_with_minted_session env pv now r raw =
     (case decode_session_envelope env pv now raw of
        Inl _ \<Rightarrow> r
      | Inr (s, e) \<Rightarrow>
          r\<lparr>hq_minted := Some \<lparr>ms_session = s, ms_tenant_slug = ev_tenant_slug e,
                              ms_source_id = ev_source_id e, ms_sp_entity_id = ev_sp_entity_id e\<rparr>\<rparr>)"

subsection \<open>Bindings\<close>

definition target_sp :: "idp_request \<Rightarrow> string" where
  "target_sp req = (case ir_sp req of None \<Rightarrow> [] | Some e \<Rightarrow> e)"

definition session_binding_matches :: "http_req \<Rightarrow> idp_request \<Rightarrow> session_envelope \<Rightarrow> bool" where
  "session_binding_matches r req e \<longleftrightarrow>
     ev_tenant_slug e = hq_tenant r \<and>
     \<not> (ev_sp_entity_id e \<noteq> [] \<and> target_sp req \<noteq> [] \<and> ev_sp_entity_id e \<noteq> target_sp req)"

definition minted_binding_matches :: "http_req \<Rightarrow> idp_request \<Rightarrow> minted_session \<Rightarrow> bool" where
  "minted_binding_matches r req ms \<longleftrightarrow>
     ms_tenant_slug ms = hq_tenant r \<and>
     (let target = (if target_sp req \<noteq> [] then target_sp req else ms_sp_entity_id ms)
      in \<not> (ms_sp_entity_id ms \<noteq> [] \<and> target \<noteq> [] \<and> ms_sp_entity_id ms \<noteq> target))"

subsection \<open>Cookies read back\<close>

lemma binding_of_json_inv [simp]: "binding_of_json (binding_json b) = Some b"
  by (simp add: binding_of_json_def binding_json_def obj_fields_def str_field_def int_field_def)

lemma flow_of_json_inv [simp]: "flow_of_json (flow_json s) = Some s"
  by (simp add: flow_of_json_def flow_json_def obj_fields_def str_field_def int_field_def)

lemma envelope_of_json_inv [simp]: "envelope_of_json (envelope_json e) = Some e"
  by (cases "ev_session e")
    (simp_all add: envelope_of_json_def envelope_json_def obj_fields_def str_field_def session_field_def
      omit_empty_def)

end
