(* ===== verification/SamlFlow.thy ===== *)
theory SamlFlow
  imports SamlCookies
begin

text \<open>
  The SAML login flows of \<^verbatim>\<open>internal/saml/session_provider.go\<close>: the session of an AuthnRequest
  (\<^verbatim>\<open>GetSession\<close>), the OAuth2 callback, the direct ID token, the redirect to a custom login page and the
  return from it, and the session of an IdP-initiated launch. The session table, the audit log and
  the cached verifiers are one state; every call reads the clock once and draws its random values
  from \<open>draws\<close>. The source and application stores read the configuration table. The URL of a custom
  login page is left as its three ingredients (\<^verbatim>\<open>buildCustomLoginURL\<close> only assembles them).
\<close>

subsection \<open>State\<close>

record draws =
  dw_flow :: "8 word list"
  dw_session :: "8 word list"
  dw_index :: "8 word list"
  dw_pkce :: string
  dw_nonce :: "string option"
  dw_audit :: "8 word list option"
  dw_corr :: "8 word list"

record sso_state =
  so_store :: audit_state
  so_verifiers :: "(string \<times> jwks_verifier) list"

definition generate_flow_id :: "8 word list \<Rightarrow> string" where
  "generate_flow_id bs = concat (map hex_byte bs)"

definition log_sso ::
  "provider \<Rightarrow> gotime \<Rightarrow> draws \<Rightarrow> string \<Rightarrow> string \<Rightarrow> string \<Rightarrow> string \<Rightarrow> string \<Rightarrow> (string \<times> string) list
     \<Rightarrow> sso_state \<Rightarrow> sso_state" where
  "log_sso pv now dw slug flow ty sp user payload st =
     (if pv_audit pv
      then st\<lparr>so_store := snd (log_step now (dw_audit dw) slug flow ty sp user payload (so_store st))\<rparr>
      else st)"

definition on_session_db :: "(ses_db \<Rightarrow> 'a res \<times> ses_db) \<Rightarrow> sso_state \<Rightarrow> 'a res \<times> sso_state" where
  "on_session_db f st = (case on_db f (so_store st) of (r, a) \<Rightarrow> (r, st\<lparr>so_store := a\<rparr>))"

subsection \<open>Sources and verifiers\<close>

text \<open>
  The client and the id of the source of a service provider. None is the nil dereference of a
  provider with neither a static client nor stores.
\<close>

definition resolve_auth_client ::
  "provider \<Rightarrow> cfg_db \<Rightarrow> string \<Rightarrow> string \<Rightarrow> (auth_client \<times> string) res option" where
  "resolve_auth_client pv cfg slug entity =
     (case pv_legacy pv of
        Some c \<Rightarrow> Some (Inr (c, []))
      | None \<Rightarrow>
          if slug = [] then Some (Inl (ErrMsg ''missing tenant for entity ID''))
          else if \<not> pv_multi pv then None
          else Some (case get_by_tenant_entity_id slug entity cfg of
              Inl e \<Rightarrow> Inl (Wrap ''failed to resolve application'' e)
            | Inr (app, _) \<Rightarrow>
                (case source_get slug (a_source_id app) cfg of
                   Inl e \<Rightarrow> Inl (Wrap ''failed to resolve identity source'' e)
                 | Inr src \<Rightarrow>
                     (case new_auth_client_for_source src (pv_base_url pv @ ''/t/'' @ slug @ ''/saml/acs'')
                             (Some no_secret_fetcher) of
                        Inl e \<Rightarrow> Inl (Wrap ''failed to create auth client for source'' e)
                      | Inr c \<Rightarrow> Inr (c, s_id src)))))"

definition resolve_source ::
  "provider \<Rightarrow> cfg_db \<Rightarrow> string \<Rightarrow> string \<Rightarrow> (identity_source \<times> saml_config option) res" where
  "resolve_source pv cfg slug entity =
     (if \<not> pv_multi pv then Inl (ErrMsg ''source resolution not configured'')
      else if slug = [] then Inl (ErrMsg ''missing tenant for entity ID'')
      else case get_by_tenant_entity_id slug entity cfg of
          Inl e \<Rightarrow> Inl (Wrap ''failed to resolve application'' e)
        | Inr (app, sc) \<Rightarrow>
            (case source_get slug (a_source_id app) cfg of
               Inl e \<Rightarrow> Inl (Wrap ''failed to resolve identity source'' e)
             | Inr src \<Rightarrow> Inr (src, sc)))"

definition verifier_for :: "string \<Rightarrow> string \<Rightarrow> sso_state \<Rightarrow> jwks_verifier res \<times> sso_state" where
  "verifier_for pool region st =
     (let key = region @ ''|'' @ pool in
      case map_of (so_verifiers st) key of
        Some v \<Rightarrow> (Inr v, st)
      | None \<Rightarrow>
          (case new_jwks_verifier pool region of
             Inl e \<Rightarrow> (Inl e, st)
           | Inr v \<Rightarrow> (Inr v, st\<lparr>so_verifiers := AList.update key v (so_verifiers st)\<rparr>)))"

text \<open>
  Getting the verifier of a pool and verifying with it, as every flow does in sequence. Verification
  may refresh the verifier's keys in place.
\<close>

datatype token_failure = BadSource err | BadToken err

definition verify_id_token ::
  "sso_env \<Rightarrow> gotime \<Rightarrow> string \<Rightarrow> string \<Rightarrow> string \<Rightarrow> string \<Rightarrow> sso_state
     \<Rightarrow> (token_failure + jwt_payload) \<times> sso_state" where
  "verify_id_token env now pool region tok client st =
     (case verifier_for pool region st of
        (Inl e, st1) \<Rightarrow> (Inl (BadSource e), st1)
      | (Inr v, st1) \<Rightarrow>
          (case jwks_verify now (sv_cognito env) v tok client of
             (r, v') \<Rightarrow>
               ((case r of Inl e \<Rightarrow> Inl (BadToken e) | Inr p \<Rightarrow> Inr p),
                st1\<lparr>so_verifiers := AList.update (region @ ''|'' @ pool) v' (so_verifiers st1)\<rparr>)))"

subsection \<open>Outcomes\<close>

text \<open>
  What a flow answers: a session, an error, a redirect to Cognito, a redirect to a custom login page
  (its URL, the URL to return to, the flow id), or a panic. The SAML library stops on anything but a
  session.
\<close>

datatype sso_outcome =
    SsoSession saml_session
  | SsoError int string
  | SsoRedirect string
  | SsoCustomLogin string string string
  | SsoPanic

type_synonym sso_result = "sso_outcome \<times> set_cookie list"

text \<open>Claiming the id of an AuthnRequest: None to go on, or the refusal.\<close>

definition claim_request :: "provider \<Rightarrow> gotime \<Rightarrow> string \<Rightarrow> sso_state \<Rightarrow> sso_outcome option \<times> sso_state" where
  "claim_request pv now i st =
     (if pv_replay pv \<and> i \<noteq> [] then
        (case on_session_db (mark_seen now i (minutes 5)) st of
           (Inr _, st1) \<Rightarrow> (None, st1)
         | (Inl e, st1) \<Rightarrow>
             (Some (if errors_is e ErrConditionFailed then SsoError 403 ''replayed AuthnRequest''
                    else SsoError 503 ''replay protection unavailable''), st1))
      else (None, st))"

subsection \<open>The direct ID token\<close>

definition extract_bearer_token :: "http_req \<Rightarrow> string" where
  "extract_bearer_token r =
     (let h = hq_authorization r in
      if h = [] \<or> length h \<le> 7 \<or> \<not> equal_fold (take 7 h) ''Bearer '' then []
      else trim_space (drop 7 h))"

text \<open>None when no token was presented or the path does not apply, and the flow goes on.\<close>

definition try_session_from_id_token ::
  "sso_env \<Rightarrow> provider \<Rightarrow> cfg_db \<Rightarrow> gotime \<Rightarrow> draws \<Rightarrow> http_req \<Rightarrow> idp_request \<Rightarrow> sso_state
     \<Rightarrow> sso_result option \<times> sso_state" where
  "try_session_from_id_token env pv cfg now dw r req st =
     (let tok = extract_bearer_token r; slug = hq_tenant r in
      if tok = [] \<or> pv_legacy pv \<noteq> None \<or> \<not> pv_multi pv then (None, st)
      else case ir_sp req of
          None \<Rightarrow> (None, st)
        | Some entity \<Rightarrow>
      (case resolve_source pv cfg slug entity of
          Inl _ \<Rightarrow> (Some (SsoError 500 ''unable to resolve identity provider'', []), st)
        | Inr (src, sc) \<Rightarrow>
      if s_pool_id src = [] \<or> s_region src = []
      then (Some (SsoError 400 ''identity source does not support direct token authentication'', []), st)
      else case verify_id_token env now (s_pool_id src) (s_region src) tok (s_client_id src) st of
          (Inl (BadSource _), st1) \<Rightarrow> (Some (SsoError 400 ''invalid identity source configuration'', []), st1)
        | (Inl (BadToken _), st1) \<Rightarrow> (Some (SsoError 401 ''invalid id token'', []), st1)
        | (Inr payload, st1) \<Rightarrow>
      (case claim_request pv now (ir_id req) st1 of
          (Some refusal, st2) \<Rightarrow> (Some (refusal, []), st2)
        | (None, st2) \<Rightarrow>
      (case build_session_from_claims (generate_flow_id (dw_session dw)) (generate_flow_id (dw_index dw)) now
              (extract_claims payload) sc of
          Inl _ \<Rightarrow> (Some (SsoError 401 ''invalid id token'', []), st2)
        | Inr s \<Rightarrow>
            let flow = (if ir_id req = [] then ss_id s else ir_id req);
                st3 = log_sso pv now dw slug flow ''sso_token_auth'' entity (c_email (extract_claims payload))
                  ([(''status'', ''success''), (''method'', ''id_token'')] @
                   (if slug \<noteq> [] then [(''tenant'', slug)] else [])) st2;
                cks = (case encode_bound_session_cookie env pv (dw_nonce dw) s slug (s_id src) entity of
                         Inl _ \<Rightarrow> [] | Inr raw \<Rightarrow> [session_cookie s raw])
            in (Some (SsoSession s, cks), st3)))))"

subsection \<open>The custom login page\<close>

definition try_custom_login_redirect ::
  "sso_env \<Rightarrow> provider \<Rightarrow> cfg_db \<Rightarrow> gotime \<Rightarrow> draws \<Rightarrow> http_req \<Rightarrow> idp_request \<Rightarrow> sso_state
     \<Rightarrow> sso_result option \<times> sso_state" where
  "try_custom_login_redirect env pv cfg now dw r req st =
     (let slug = hq_tenant r in
      if pv_legacy pv \<noteq> None \<or> \<not> pv_multi pv \<or> \<not> pv_pending pv then (None, st)
      else case ir_sp req of
          None \<Rightarrow> (None, st)
        | Some entity \<Rightarrow>
      if slug = [] then (None, st)
      else case get_by_tenant_entity_id slug entity cfg of
          Inl _ \<Rightarrow> (None, st)
        | Inr (app, _) \<Rightarrow>
      if \<not> has_custom_login app then (None, st)
      else if \<not> is_trusted_login_redirect app (a_custom_login_url app)
      then (Some (SsoError 500 ''custom login page is not a trusted redirect target'', []), st)
      else
        let flow = generate_flow_id (dw_flow dw);
            pending = \<lparr>pl_flow_id = flow, pl_protocol = ''saml'', pl_tenant_slug = slug,
              pl_source_id = a_source_id app, pl_app_id = a_id app,
              pl_saml_request_b64 = b64_encode StdAlphabet True (ir_buffer req),
              pl_relay_state = ir_relay_state req, pl_sp_entity_id = entity, pl_auth_request_id = [],
              pl_created_at = zero_time, pl_expires_at_epoch = 0\<rparr>
        in case on_session_db (pending_create now pending (seconds cookie_max_age)) st of
            (Inl _, st1) \<Rightarrow> (Some (SsoError 500 ''internal error'', []), st1)
          | (Inr _, st1) \<Rightarrow>
              let st2 = (if ir_id req \<noteq> []
                         then log_sso pv now dw slug (ir_id req) ''sso_custom_login_redirect'' entity []
                                [(''tenant'', slug)] st1
                         else st1)
              in (case set_login_binding_cookie env pv now (dw_nonce dw) flow of
                    Inl _ \<Rightarrow> (Some (SsoError 500 ''internal error'', []), st2)
                  | Inr ck \<Rightarrow>
                      (Some (SsoCustomLogin (a_custom_login_url app)
                               (pv_base_url pv @ ''/t/'' @ slug @ ''/saml/login/complete'') flow, [ck]), st2)))"

subsection \<open>The session of an AuthnRequest\<close>

text \<open>The session of the browser's cookie, when it is authentic, bound to this request and not revoked.\<close>

definition reusable_session ::
  "sso_env \<Rightarrow> provider \<Rightarrow> gotime \<Rightarrow> http_req \<Rightarrow> idp_request \<Rightarrow> sso_state \<Rightarrow> saml_session option" where
  "reusable_session env pv now r req st =
     (let raw = query_value (hq_cookies r) session_cookie_name in
      if raw = [] then None
      else case decode_session_envelope env pv now raw of
          Inl _ \<Rightarrow> None
        | Inr (s, e) \<Rightarrow>
            if \<not> session_binding_matches r req e then None
            else if pv_sessions pv then
              (case is_session_revoked now (ss_index s) (audit_db (so_store st)) of
                 Inl _ \<Rightarrow> None
               | Inr revoked \<Rightarrow> if revoked then None else Some s)
            else Some s)"

definition start_cognito_redirect ::
  "sso_env \<Rightarrow> provider \<Rightarrow> cfg_db \<Rightarrow> gotime \<Rightarrow> draws \<Rightarrow> http_req \<Rightarrow> idp_request \<Rightarrow> sso_state
     \<Rightarrow> sso_result \<times> sso_state" where
  "start_cognito_redirect env pv cfg now dw r req st =
     (case claim_request pv now (ir_id req) st of
        (Some refusal, st1) \<Rightarrow> ((refusal, []), st1)
      | (None, st1) \<Rightarrow>
      (case ir_sp req of
        None \<Rightarrow> ((SsoError 401 ''no authenticated session'', []), st1)
      | Some entity \<Rightarrow>
          let slug = hq_tenant r;
              st2 = (if ir_id req \<noteq> []
                     then log_sso pv now dw slug (ir_id req) ''sso_initiated'' entity [] [] st1 else st1)
          in case resolve_auth_client pv cfg slug entity of
              None \<Rightarrow> ((SsoPanic, []), st2)
            | Some (Inl _) \<Rightarrow> ((SsoError 500 ''unable to resolve identity provider'', []), st2)
            | Some (Inr (client, source_id)) \<Rightarrow>
                (case generate_pkce (sv_crypto env) (dw_pkce dw) of
                   (verifier, challenge) \<Rightarrow>
                     let flow = generate_flow_id (dw_flow dw);
                         state = \<lparr>fl_flow_id = flow, fl_relay_state = ir_relay_state req,
                           fl_request_buf = b64_encode StdAlphabet True (ir_buffer req), fl_verifier = verifier,
                           fl_sp_entity_id = entity, fl_source_id = source_id, fl_tenant_slug = slug,
                           fl_created_at = unix now\<rparr>
                     in case signed_encode env pv (dw_nonce dw) state of
                         Inl _ \<Rightarrow> ((SsoError 500 ''internal error'', []), st2)
                       | Inr v \<Rightarrow>
                           ((SsoRedirect (authorization_url client flow challenge),
                             [mk_cookie flow_cookie_name v cookie_max_age]), st2))))"

definition get_session ::
  "sso_env \<Rightarrow> provider \<Rightarrow> cfg_db \<Rightarrow> gotime \<Rightarrow> draws \<Rightarrow> http_req \<Rightarrow> idp_request \<Rightarrow> sso_state
     \<Rightarrow> sso_result \<times> sso_state" where
  "get_session env pv cfg now dw r req st =
     (case hq_minted r of
        Some ms \<Rightarrow>
          if minted_binding_matches r req ms then ((SsoSession (ms_session ms), []), st)
          else ((SsoError 403 ''session binding mismatch'', []), st)
      | None \<Rightarrow>
      (case reusable_session env pv now r req st of
        Some s \<Rightarrow> ((SsoSession s, []), st)
      | None \<Rightarrow>
      (case try_session_from_id_token env pv cfg now dw r req st of
        (Some res, st1) \<Rightarrow> (res, st1)
      | (None, st1) \<Rightarrow>
      (case try_custom_login_redirect env pv cfg now dw r req st1 of
        (Some res, st2) \<Rightarrow> (res, st2)
      | (None, st2) \<Rightarrow> start_cognito_redirect env pv cfg now dw r req st2))))"

subsection \<open>The OAuth2 callback\<close>

text \<open>
  What a handler does: an error, handing the request to the SAML library (the IdP of a tenant, or the
  static one for the empty slug), an unsolicited response for an entity id with a relay state, or a
  panic.
\<close>

datatype flow_outcome =
    FlowError int string
  | FlowServeSso string http_req
  | FlowInitiate string string string http_req
  | FlowPanic

type_synonym flow_result = "flow_outcome \<times> set_cookie list"

definition idp_for_tenant :: "provider \<Rightarrow> string \<Rightarrow> string option" where
  "idp_for_tenant pv slug =
     (if pv_idp_factory pv \<and> slug \<noteq> [] then Some slug else if pv_static_idp pv then Some [] else None)"

definition values_set :: "string \<Rightarrow> string \<Rightarrow> (string \<times> string) list \<Rightarrow> (string \<times> string) list" where
  "values_set k v q = filter (\<lambda>kv. fst kv \<noteq> k) q @ [(k, v)]"

definition callback_client ::
  "provider \<Rightarrow> cfg_db \<Rightarrow> flow_state \<Rightarrow> (flow_outcome + auth_client)" where
  "callback_client pv cfg s =
     (case pv_legacy pv of
        Some c \<Rightarrow> Inr c
      | None \<Rightarrow>
          if fl_tenant_slug s \<noteq> [] \<and> fl_source_id s \<noteq> [] then
            (if \<not> pv_multi pv then Inl FlowPanic
             else case source_get (fl_tenant_slug s) (fl_source_id s) cfg of
                 Inl _ \<Rightarrow> Inl (FlowError 500 ''unable to resolve identity provider'')
               | Inr src \<Rightarrow>
                   (case new_auth_client_for_source src
                           (pv_base_url pv @ ''/t/'' @ fl_tenant_slug s @ ''/saml/acs'') (Some no_secret_fetcher) of
                      Inl _ \<Rightarrow> Inl (FlowError 500 ''unable to resolve identity provider'')
                    | Inr c \<Rightarrow> Inr c))
          else Inl (FlowError 500 ''unable to resolve identity provider for callback''))"

text \<open>The SAML settings a session is built with: missing settings are not fatal.\<close>

definition session_config :: "cfg_db \<Rightarrow> string \<Rightarrow> string \<Rightarrow> saml_config option" where
  "session_config cfg slug entity =
     (case get_by_tenant_entity_id slug entity cfg of Inl _ \<Rightarrow> None | Inr (_, sc) \<Rightarrow> sc)"

text \<open>The request the library resumes with: the original message and relay state in the form.\<close>

definition resume_form :: "flow_state \<Rightarrow> string \<Rightarrow> (string \<times> string) list \<Rightarrow> (string \<times> string) list" where
  "resume_form s buf q =
     (let f = values_set ''SAMLRequest'' (b64_encode StdAlphabet True buf) q
      in if fl_relay_state s \<noteq> [] then values_set ''RelayState'' (fl_relay_state s) f else f)"

text \<open>The callback after its state is authenticated and matched.\<close>

definition finish_callback ::
  "sso_env \<Rightarrow> provider \<Rightarrow> cfg_db \<Rightarrow> gotime \<Rightarrow> draws \<Rightarrow> http_req \<Rightarrow> flow_state \<Rightarrow> jwt_payload \<Rightarrow> sso_state
     \<Rightarrow> flow_result \<times> sso_state" where
  "finish_callback env pv cfg now dw r s payload st =
     (let slug = fl_tenant_slug s; entity = fl_sp_entity_id s; claims = extract_claims payload;
          st1 = log_sso pv now dw slug (fl_flow_id s) ''sso_complete'' entity (c_email claims)
                  ([(''status'', ''success'')] @ (if slug \<noteq> [] then [(''tenant'', slug)] else [])) st;
          sc = (if pv_legacy pv = None \<and> pv_multi pv \<and> slug \<noteq> [] then session_config cfg slug entity else None)
      in case build_session_from_claims (generate_flow_id (dw_session dw)) (generate_flow_id (dw_index dw)) now
                claims sc of
          Inl _ \<Rightarrow> ((FlowError 401 ''invalid id token'', []), st1)
        | Inr session \<Rightarrow>
            (case encode_bound_session_cookie env pv (dw_nonce dw) session slug (fl_source_id s) entity of
               Inl _ \<Rightarrow> ((FlowError 500 ''internal error'', []), st1)
             | Inr raw \<Rightarrow>
                 let cks = [session_cookie session raw, mk_cookie flow_cookie_name [] (-1)]
                 in case (idp_for_tenant pv slug, b64_decode StdAlphabet True (fl_request_buf s)) of
                      (Some idp, Some buf) \<Rightarrow>
                        ((FlowServeSso idp
                            (request_with_minted_session env pv now
                               (r\<lparr>hq_form := resume_form s buf (hq_query r)\<rparr>) raw), cks), st1)
                    | _ \<Rightarrow> ((FlowError 500 ''unable to resume SAML flow'', cks), st1)))"

definition handle_callback ::
  "sso_env \<Rightarrow> provider \<Rightarrow> cfg_db \<Rightarrow> gotime \<Rightarrow> draws \<Rightarrow> http_req \<Rightarrow> sso_state \<Rightarrow> flow_result \<times> sso_state" where
  "handle_callback env pv cfg now dw r st =
     (let code = query_value (hq_query r) ''code''; raw = query_value (hq_cookies r) flow_cookie_name;
          callback_state = query_value (hq_query r) ''state'' in
      if code = [] then ((FlowError 400 ''missing authorization code'', []), st)
      else if raw = [] then ((FlowError 400 ''missing flow cookie'', []), st)
      else case signed_decode env pv raw of
          Inl _ \<Rightarrow> ((FlowError 400 ''invalid flow cookie'', []), st)
        | Inr s \<Rightarrow>
      if unix now - fl_created_at s > cookie_max_age then ((FlowError 400 ''flow expired'', []), st)
      else if callback_state = [] \<or> callback_state \<noteq> fl_flow_id s
      then ((FlowError 403 ''state parameter mismatch'', []), st)
      else case callback_client pv cfg s of
          Inl e \<Rightarrow> ((e, []), st)
        | Inr client \<Rightarrow>
      (case exchange_code (sv_cognito env) client code (fl_verifier s) of
          Inl _ \<Rightarrow> ((FlowError 502 ''token exchange failed'', []), st)
        | Inr tok \<Rightarrow>
      if ac_pool_id client = [] \<or> ac_region client = []
      then ((FlowError 500 ''unable to verify id token'', []), st)
      else case verify_id_token env now (ac_pool_id client) (ac_region client) tok (ac_client_id client) st of
          (Inl (BadSource _), st1) \<Rightarrow> ((FlowError 400 ''invalid identity source configuration'', []), st1)
        | (Inl (BadToken _), st1) \<Rightarrow> ((FlowError 502 ''invalid id token'', []), st1)
        | (Inr payload, st1) \<Rightarrow> finish_callback env pv cfg now dw r s payload st1))"

subsection \<open>Sessions from a presented token\<close>

text \<open>The cookie and the consumed login. None is the nil dereference without stores.\<close>

definition complete_custom_login ::
  "sso_env \<Rightarrow> provider \<Rightarrow> cfg_db \<Rightarrow> gotime \<Rightarrow> draws \<Rightarrow> string \<Rightarrow> string \<Rightarrow> sso_state
     \<Rightarrow> (string \<times> pending_login) res option \<times> sso_state" where
  "complete_custom_login env pv cfg now dw flow tok st =
     (if \<not> pv_pending pv then (Some (Inl (ErrMsg ''custom login not configured'')), st)
      else case pending_get now flow (audit_db (so_store st)) of
          Inl _ \<Rightarrow> (Some (Inl (ErrMsg ''invalid or expired login flow'')), st)
        | Inr pl \<Rightarrow>
      if pl_protocol pl \<noteq> ''saml'' then (Some (Inl (ErrMsg ''login flow protocol mismatch'')), st)
      else let st1 = snd (on_session_db (pending_delete flow) st) in
      if \<not> pv_multi pv then (None, st1)
      else case source_get (pl_tenant_slug pl) (pl_source_id pl) cfg of
          Inl _ \<Rightarrow> (Some (Inl (ErrMsg ''unable to resolve identity provider'')), st1)
        | Inr src \<Rightarrow>
      if s_pool_id src = [] \<or> s_region src = []
      then (Some (Inl (ErrMsg ''identity source does not support token authentication'')), st1)
      else case verify_id_token env now (s_pool_id src) (s_region src) tok (s_client_id src) st1 of
          (Inl (BadSource e), st2) \<Rightarrow> (Some (Inl (Wrap ''invalid identity source configuration'' e)), st2)
        | (Inl (BadToken _), st2) \<Rightarrow> (Some (Inl (ErrMsg ''invalid id token'')), st2)
        | (Inr payload, st2) \<Rightarrow>
            let claims = extract_claims payload; slug = pl_tenant_slug pl; entity = pl_sp_entity_id pl;
                sc = (if entity \<noteq> [] then session_config cfg slug entity else None)
            in case build_session_from_claims (generate_flow_id (dw_session dw)) (generate_flow_id (dw_index dw))
                      now claims sc of
                Inl e \<Rightarrow> (Some (Inl (Wrap ''invalid id token'' e)), st2)
              | Inr session \<Rightarrow>
                  let st3 = log_sso pv now dw slug flow ''sso_token_auth'' entity (c_email claims)
                        [(''status'', ''success''), (''method'', ''custom_login''), (''tenant'', slug)] st2
                  in case encode_bound_session_cookie env pv (dw_nonce dw) session slug (pl_source_id pl) entity of
                      Inl _ \<Rightarrow> (Some (Inl (ErrMsg ''internal error'')), st3)
                    | Inr raw \<Rightarrow> (Some (Inr (raw, pl)), st3))"

definition build_session_cookie_from_token ::
  "sso_env \<Rightarrow> provider \<Rightarrow> cfg_db \<Rightarrow> gotime \<Rightarrow> draws \<Rightarrow> string \<Rightarrow> string \<Rightarrow> string \<Rightarrow> sso_state
     \<Rightarrow> string res \<times> sso_state" where
  "build_session_cookie_from_token env pv cfg now dw slug entity tok st =
     (if \<not> pv_multi pv then (Inl (ErrMsg ''token authentication not configured''), st)
      else case resolve_source pv cfg slug entity of
          Inl _ \<Rightarrow> (Inl (ErrMsg ''unable to resolve identity provider''), st)
        | Inr (src, sc) \<Rightarrow>
      if s_pool_id src = [] \<or> s_region src = []
      then (Inl (ErrMsg ''identity source does not support token authentication''), st)
      else case verify_id_token env now (s_pool_id src) (s_region src) tok (s_client_id src) st of
          (Inl (BadSource e), st1) \<Rightarrow> (Inl (Wrap ''invalid identity source configuration'' e), st1)
        | (Inl (BadToken _), st1) \<Rightarrow> (Inl (ErrMsg ''invalid id token''), st1)
        | (Inr payload, st1) \<Rightarrow>
            (case build_session_from_claims (generate_flow_id (dw_session dw)) (generate_flow_id (dw_index dw))
                    now (extract_claims payload) sc of
               Inl e \<Rightarrow> (Inl (Wrap ''invalid id token'' e), st1)
             | Inr session \<Rightarrow>
                 (encode_bound_session_cookie env pv (dw_nonce dw) session slug (s_id src) entity, st1)))"

end
