(* ===== verification/SamlIdp.thy ===== *)
theory SamlIdp
  imports SamlFlow
begin

text \<open>
  The tenant-scoped endpoints of \<^verbatim>\<open>internal/saml/idp.go\<close>: single sign-on, the return from a custom login
  page and the IdP-initiated launch. Each ends in an error or in handing the request to the SAML
  library, which calls \<open>get_session\<close> back.
\<close>

text \<open>The handler: whether the tenant reader is wired, and its base URL.\<close>

record idp_handler =
  ih_tenants :: bool
  ih_base_url :: string

subsection \<open>Origins\<close>

definition normalize_origin :: "string \<Rightarrow> string" where
  "normalize_origin raw =
     (case parse_url raw of
        None \<Rightarrow> []
      | Some u \<Rightarrow>
          if u_scheme u = [] \<or> u_host u = [] \<or> u_has_user u then []
          else to_lower (u_scheme u) @ ''://'' @ to_lower (u_host u))"

definition gateway_origin :: "string \<Rightarrow> string" where
  "gateway_origin base = normalize_origin base"

definition request_origin :: "http_req \<Rightarrow> string" where
  "request_origin r =
     (let org = trim_space (hq_origin r); ref = trim_space (hq_referer r)
      in if org \<noteq> [] \<and> org \<noteq> ''null'' then normalize_origin org
         else if ref \<noteq> [] then normalize_origin ref
         else [])"

subsection \<open>Handlers\<close>

definition tenant_known :: "idp_handler \<Rightarrow> cfg_db \<Rightarrow> string \<Rightarrow> bool" where
  "tenant_known ih cfg slug \<longleftrightarrow>
     (ih_tenants ih \<longrightarrow> (case tenant_get slug cfg of Inl _ \<Rightarrow> False | Inr _ \<Rightarrow> True))"

definition serve_sso :: "idp_handler \<Rightarrow> cfg_db \<Rightarrow> http_req \<Rightarrow> flow_outcome" where
  "serve_sso ih cfg r =
     (let slug = hq_tenant r in
      if slug = [] then FlowError 400 ''missing tenant''
      else if \<not> tenant_known ih cfg slug then FlowError 404 ''tenant not found''
      else FlowServeSso slug r)"

text \<open>The token of the header, else of the form; the second component says it is the form's.\<close>

definition presented_token :: "http_req \<Rightarrow> string \<times> bool" where
  "presented_token r =
     (let tok = extract_bearer_token r; form = trim_space (query_value (hq_form r) ''id_token'')
      in if tok \<noteq> [] then (tok, False) else (form, form \<noteq> []))"

definition with_ref :: "string \<Rightarrow> draws \<Rightarrow> string" where
  "with_ref msg dw = msg @ '' (ref: '' @ random_id (dw_corr dw) @ '')''"

definition handle_login_complete ::
  "idp_handler \<Rightarrow> sso_env \<Rightarrow> provider \<Rightarrow> cfg_db \<Rightarrow> gotime \<Rightarrow> draws \<Rightarrow> http_req \<Rightarrow> sso_state
     \<Rightarrow> flow_result \<times> sso_state" where
  "handle_login_complete ih env pv cfg now dw r st =
     (let slug = hq_tenant r; tok = fst (presented_token r);
          qs = query_value (hq_query r) ''state'';
          flow = (if qs = [] then trim_space (query_value (hq_form r) ''state'') else qs) in
      if slug = [] then ((FlowError 400 ''missing tenant'', []), st)
      else if hq_bad_form r then ((FlowError 400 ''invalid request'', []), st)
      else if tok = [] then ((FlowError 400 ''missing id token'', []), st)
      else if flow = [] then ((FlowError 400 ''missing state'', []), st)
      else case verify_login_binding env pv now r flow of
          Inl _ \<Rightarrow> ((FlowError 403 (with_ref ''login flow not bound to this browser'' dw), []), st)
        | Inr _ \<Rightarrow>
      (case complete_custom_login env pv cfg now dw flow tok st of
          (None, st1) \<Rightarrow> ((FlowPanic, []), st1)
        | (Some (Inl _), st1) \<Rightarrow> ((FlowError 401 (with_ref ''invalid login request'' dw), []), st1)
        | (Some (Inr (raw, pl)), st1) \<Rightarrow>
      if pl_tenant_slug pl \<noteq> slug then ((FlowError 400 ''tenant mismatch'', []), st1)
      else case decode_session_cookie env pv now raw of
          Inl _ \<Rightarrow> ((FlowError 500 ''internal error'', [clear_login_binding_cookie]), st1)
        | Inr session \<Rightarrow>
            let form = [(''SAMLRequest'', pl_saml_request_b64 pl)] @
                  (if pl_relay_state pl \<noteq> [] then [(''RelayState'', pl_relay_state pl)] else []);
                r1 = request_with_minted_session env pv now (r\<lparr>hq_form := form\<rparr>) raw
            in ((serve_sso ih cfg r1, [clear_login_binding_cookie, session_cookie session raw]), st1)))"

definition handle_idp_initiate ::
  "idp_handler \<Rightarrow> sso_env \<Rightarrow> provider \<Rightarrow> cfg_db \<Rightarrow> gotime \<Rightarrow> draws \<Rightarrow> http_req \<Rightarrow> sso_state
     \<Rightarrow> flow_result \<times> sso_state" where
  "handle_idp_initiate ih env pv cfg now dw r st =
     (let slug = hq_tenant r;
          fe = trim_space (query_value (hq_form r) ''entityId'');
          entity = (if fe = [] then trim_space (query_value (hq_query r) ''entityId'') else fe);
          fr = query_value (hq_form r) ''relayState'';
          relay = (if fr = [] then query_value (hq_query r) ''relayState'' else fr) in
      if slug = [] then ((FlowError 400 ''missing tenant'', []), st)
      else if \<not> tenant_known ih cfg slug then ((FlowError 404 ''tenant not found'', []), st)
      else if hq_bad_form r then ((FlowError 400 ''invalid request'', []), st)
      else case presented_token r of (tok, from_form) \<Rightarrow>
      if tok = [] then ((FlowError 400 ''missing id token'', []), st)
      else if entity = [] then ((FlowError 400 ''missing entityId'', []), st)
      else case get_by_tenant_entity_id slug entity cfg of
          Inl _ \<Rightarrow> ((FlowError 404 ''unknown service provider'', []), st)
        | Inr (app, None) \<Rightarrow> ((FlowError 404 ''unknown service provider'', []), st)
        | Inr (app, Some sc) \<Rightarrow>
      if \<not> sc_allow_idp_initiated sc
      then ((FlowError 403 ''IdP-initiated SSO is not enabled for this application'', []), st)
      else let org = request_origin r in
      if from_form \<and> \<not> (org \<noteq> [] \<and> (org = gateway_origin (ih_base_url ih) \<or> is_trusted_browser_origin app org))
      then ((FlowError 403 ''request origin not trusted for IdP-initiated SSO'', []), st)
      else case build_session_cookie_from_token env pv cfg now dw slug entity tok st of
          (Inl _, st1) \<Rightarrow> ((FlowError 401 (with_ref ''invalid id token'' dw), []), st1)
        | (Inr raw, st1) \<Rightarrow>
            ((FlowInitiate slug entity relay (request_with_minted_session env pv now r raw), []), st1))"

end
