(* ===== verification/SamlExample.thy ===== *)
theory SamlExample
  imports SamlIdp CognitoTrust "HOL-Library.Countable"
begin

text \<open>
  A concrete installation for the witnesses of the SAML flows: JSON as text through a numbering of its
  values, the example cryptography and pool of the cookie and verifier theories, one provider with a
  static client, and its empty state.
\<close>

subsection \<open>JSON as text\<close>

text \<open>Every JSON value has a number, so text of that length stands for it.\<close>

instance saml_attr_ext :: (countable) countable
  by (rule countable_classI [of "\<lambda>a. to_nat (sa_name a, sa_name_format a, sa_values a, saml_attr.more a)"]) simp

instance saml_session_ext :: (countable) countable
  by (rule countable_classI [of "\<lambda>s. to_nat
      ((ss_id s, ss_create_time s, ss_expire_time s, ss_index s, ss_name_id s, ss_name_id_format s, ss_subject_id s),
       (ss_groups s, ss_user_name s, ss_user_email s, ss_user_common_name s, ss_user_surname s, ss_user_given_name s),
       ss_custom_attributes s, saml_session.more s)"]) simp

instance json :: countable
  by countable_datatype

definition demo_print :: "json \<Rightarrow> string" where
  "demo_print j = replicate (to_nat j) CHR ''j''"

definition demo_parse :: "string \<Rightarrow> json option" where
  "demo_parse s = Some (from_nat (length s))"

lemma demo_parse_print [simp]: "demo_parse (demo_print j) = Some j"
  by (simp add: demo_parse_def demo_print_def)

subsection \<open>The installation\<close>

definition demo_sso :: sso_env where
  "demo_sso = \<lparr>sv_crypto = demo_crypto, sv_cognito = demo_cognito, sv_print = demo_print, sv_parse = demo_parse\<rparr>"

lemma demo_json [simp]: "json_faithful demo_sso j"
  by (simp add: json_faithful_def demo_sso_def)

definition demo_client :: auth_client where
  "demo_client = \<lparr>ac_domain = ''idp.x'', ac_client_id = ''c1'', ac_client_secret = [], ac_redirect_uri = ''https://gw/cb'',
     ac_pool_id = ''p_1'', ac_region = ''eu-west-1''\<rparr>"

definition demo_provider :: provider where
  "demo_provider = \<lparr>pv_legacy = Some demo_client, pv_multi = False, pv_replay = True, pv_audit = False,
     pv_pending = True, pv_sessions = True, pv_static_idp = True, pv_idp_factory = False,
     pv_base_url = ''https://gw'', pv_cookie = demo_cookie purpose_saml\<rparr>"

definition demo_draws :: draws where
  "demo_draws = \<lparr>dw_flow = replicate 16 1, dw_session = replicate 16 2, dw_index = replicate 16 3, dw_pkce = ''pkce'',
     dw_nonce = Some (replicate 12 CHR ''n''), dw_audit = None, dw_corr = []\<rparr>"

definition demo_state :: sso_state where
  "demo_state = \<lparr>so_store = \<lparr>seq_num = 0, audit_db = empty_db\<rparr>, so_verifiers = [(''eu-west-1|p_1'', demo_verifier)]\<rparr>"

definition demo_http :: http_req where
  "demo_http = \<lparr>hq_tenant = [], hq_cookies = [], hq_authorization = [], hq_origin = [], hq_referer = [],
     hq_query = [], hq_bad_form = False, hq_form = [], hq_minted = None\<rparr>"

definition demo_authn :: idp_request where
  "demo_authn = \<lparr>ir_id = ''r1'', ir_now = 0, ir_issue_instant = 0, ir_relay_state = ''rs'', ir_buffer = ''xml'',
     ir_sp = Some ''sp1'', ir_tenant = None, ir_assertion = None\<rparr>"

lemma demo_sso_simps [simp]:
  "sv_crypto demo_sso = demo_crypto" "sv_cognito demo_sso = demo_cognito"
  "sv_print demo_sso = demo_print" "sv_parse demo_sso = demo_parse"
  by (simp_all add: demo_sso_def)

lemma demo_provider_simps [simp]:
  "pv_legacy demo_provider = Some demo_client" "\<not> pv_multi demo_provider" "pv_replay demo_provider"
  "\<not> pv_audit demo_provider" "pv_sessions demo_provider" "pv_static_idp demo_provider"
  "\<not> pv_idp_factory demo_provider" "pv_cookie demo_provider = demo_cookie purpose_saml"
  by (simp_all add: demo_provider_def)

lemma demo_no_source [simp]: "resolve_source demo_provider c t x \<noteq> Inr y"
  by (simp add: resolve_source_def)

lemma demo_encodes:
  obtains raw where "cookie_encode demo_crypto (demo_cookie purpose_saml) (Some (replicate 12 CHR ''n'')) text = Inr raw"
    and "cookie_decode demo_crypto (demo_cookie purpose_saml) raw = Inr text" and "raw \<noteq> []"
proof -
  have p: "purpose_saml \<noteq> []" by (simp add: purpose_saml_def)
  obtain raw where r: "cookie_encode demo_crypto (demo_cookie purpose_saml) (Some (replicate 12 CHR ''n'')) text = Inr raw"
    using demo_encode [OF p] by blast
  have "raw \<noteq> []" using r by (auto simp: cookie_encode_def Let_def split: if_splits option.splits sum.splits)
  moreover have "cookie_decode demo_crypto (demo_cookie purpose_saml) raw = Inr text"
    using cookie_decode_encode [OF demo_crypto_ok demo_cookie [OF p] _ r] by (simp add: gcm_nonce_size_def)
  ultimately show thesis using that r by blast
qed

end
