(* ===== verification/SamlFlowProps.thy ===== *)
theory SamlFlowProps
  imports SamlExample
begin

text \<open>
  What a SAML login establishes: where a session may come from, which browser and which request may
  finish a login, that requests are honoured once, and that a finished login resumes as its user.
\<close>

subsection \<open>Where a session comes from\<close>

lemma claim_request_Some:
  "claim_request pv now i st = (Some res, st') \<Longrightarrow> res = SsoError 403 ''replayed AuthnRequest'' \<or>
     res = SsoError 503 ''replay protection unavailable''"
  by (auto simp: claim_request_def split: if_splits prod.splits sum.splits)

abbreviation replay_key :: "string \<Rightarrow> string" where
  "replay_key i \<equiv> mkey (replay_pk i) ''_''"

lemma log_sso_replay [simp]:
  "lookup (audit_db (so_store (log_sso pv now dw slug flow ty sp user pl st))) (replay_key i) =
     lookup (audit_db (so_store st)) (replay_key i)"
  by (simp add: log_sso_def lookup_log_step)

lemma try_token_session:
  assumes "try_session_from_id_token env pv cfg now dw r req st = (Some (SsoSession s, cks), st')"
  obtains entity src sc payload st1 st2 where "extract_bearer_token r \<noteq> []" and "ir_sp req = Some entity"
    and "resolve_source pv cfg (hq_tenant r) entity = Inr (src, sc)"
    and "verify_id_token env now (s_pool_id src) (s_region src) (extract_bearer_token r) (s_client_id src) st = (Inr payload, st1)"
    and "build_session_from_claims (generate_flow_id (dw_session dw)) (generate_flow_id (dw_index dw)) now
          (extract_claims payload) sc = Inr s"
    and "claim_request pv now (ir_id req) st1 = (None, st2)"
    and "lookup (audit_db (so_store st')) (replay_key i) = lookup (audit_db (so_store st2)) (replay_key i)"
  using assms
  by (auto simp: try_session_from_id_token_def Let_def dest!: claim_request_Some
      split: if_splits option.splits sum.splits prod.splits token_failure.splits)

lemma try_custom_no_session:
  "try_custom_login_redirect env pv cfg now dw r req st = (Some (SsoSession s, cks), st') \<Longrightarrow> False"
  by (auto simp: try_custom_login_redirect_def Let_def split: if_splits option.splits sum.splits prod.splits)

lemma start_redirect_no_session:
  "start_cognito_redirect env pv cfg now dw r req st = ((SsoSession s, cks), st') \<Longrightarrow> False"
  using claim_request_Some
  by (fastforce simp: start_cognito_redirect_def Let_def split: if_splits option.splits sum.splits prod.splits)

lemma try_token_state:
  "try_session_from_id_token env pv cfg now dw r req st = (None, st1) \<Longrightarrow> st1 = st"
  by (auto simp: try_session_from_id_token_def Let_def
      split: if_splits option.splits sum.splits prod.splits token_failure.splits)

lemma reusable_session_Some:
  assumes "reusable_session env pv now r req st = Some s"
  obtains e where "decode_session_envelope env pv now (query_value (hq_cookies r) session_cookie_name) = Inr (s, e)"
    and "session_binding_matches r req e"
    and "if pv_sessions pv then is_session_revoked now (ss_index s) (audit_db (so_store st)) = Inr False else True"
  using assms
  by (auto simp: reusable_session_def Let_def split: if_splits sum.splits prod.splits)

lemma decode_envelope_Inr:
  "decode_session_envelope env pv now raw = Inr (s, e) \<longleftrightarrow>
     (\<exists>text j. cookie_decode (sv_crypto env) (pv_cookie pv) raw = Inr text \<and> sv_parse env text = Some j \<and>
        envelope_of_json j = Some e \<and> ev_session e = Some s \<and> now \<le> ss_expire_time s)"
  by (auto simp: decode_session_envelope_def bind_eq_Some_conv split: sum.splits option.splits if_splits)

text \<open>C16: An AuthnRequest is answered with a session from one of three sources only: one this process just
  minted for the tenant of the path; a browser cookie that carries the program's MAC, is bound to the
  tenant of the path and to no other service provider, has not expired and, where sessions are
  tracked, is known not to be revoked; or a presented ID token that the verifier of the identity
  source bound to the tenant's service provider accepted.\<close>

theorem get_session_sources:
  assumes "get_session env pv cfg now dw r req st = ((SsoSession s, cks), st')"
  shows "(\<exists>ms. hq_minted r = Some ms \<and> s = ms_session ms \<and> ms_tenant_slug ms = hq_tenant r \<and>
      (ms_sp_entity_id ms = [] \<or> target_sp req = [] \<or> ms_sp_entity_id ms = target_sp req)) \<or>
    hq_minted r = None \<and> (\<exists>e text j. cookie_decode (sv_crypto env) (pv_cookie pv)
        (query_value (hq_cookies r) session_cookie_name) = Inr text \<and>
      sv_parse env text = Some j \<and> envelope_of_json j = Some e \<and> ev_session e = Some s \<and>
      ev_tenant_slug e = hq_tenant r \<and>
      (ev_sp_entity_id e = [] \<or> target_sp req = [] \<or> ev_sp_entity_id e = target_sp req) \<and>
      now \<le> ss_expire_time s \<and>
      (if pv_sessions pv then is_session_revoked now (ss_index s) (audit_db (so_store st)) = Inr False else True)) \<or>
    hq_minted r = None \<and> (\<exists>entity src sc payload st1. ir_sp req = Some entity \<and>
      resolve_source pv cfg (hq_tenant r) entity = Inr (src, sc) \<and>
      verify_id_token env now (s_pool_id src) (s_region src) (extract_bearer_token r) (s_client_id src) st =
        (Inr payload, st1) \<and>
      build_session_from_claims (generate_flow_id (dw_session dw)) (generate_flow_id (dw_index dw)) now
        (extract_claims payload) sc = Inr s)"
proof (cases "hq_minted r")
  case (Some ms)
  then show ?thesis
    using assms by (auto simp: get_session_def minted_binding_matches_def Let_def split: if_splits)
next
  case None
  consider (cookie) "reusable_session env pv now r req st = Some s"
    | (token) "try_session_from_id_token env pv cfg now dw r req st = (Some (SsoSession s, cks), st')"
    using assms None try_custom_no_session start_redirect_no_session
    by (fastforce simp: get_session_def split: option.splits prod.splits)
  then show ?thesis
  proof cases
    case cookie
    then show ?thesis using None
      by (elim reusable_session_Some) (auto simp: decode_envelope_Inr session_binding_matches_def)
  next
    case token
    then show ?thesis using None by (elim try_token_session) blast
  qed
qed

definition demo_held :: saml_session where
  "demo_held = \<lparr>ss_id = ''s1'', ss_create_time = 0, ss_expire_time = hours 8, ss_index = ''i1'', ss_name_id = ''u1'',
     ss_name_id_format = nif_persistent, ss_subject_id = ''u1'', ss_groups = [], ss_user_name = ''u1'', ss_user_email = [],
     ss_user_common_name = [], ss_user_surname = [], ss_user_given_name = [], ss_custom_attributes = []\<rparr>"

definition demo_envelope :: session_envelope where
  "demo_envelope = \<lparr>ev_session = Some demo_held, ev_tenant_slug = [], ev_source_id = [], ev_sp_entity_id = ''sp1''\<rparr>"

lemma demo_unrevoked: "is_session_revoked now i (audit_db (so_store demo_state)) = Inr False"
  by (simp add: is_session_revoked_def get_as_def db_get_def demo_state_def empty_db_def lookup_def)

lemma get_session_sources_witness:
  "\<exists>raw e text j. get_session demo_sso demo_provider empty_db 5 demo_draws
       (demo_http\<lparr>hq_cookies := [(session_cookie_name, raw)]\<rparr>) demo_authn demo_state =
         ((SsoSession demo_held, []), demo_state) \<and>
     cookie_decode demo_crypto (demo_cookie purpose_saml) raw = Inr text \<and> demo_parse text = Some j \<and>
     envelope_of_json j = Some e \<and> ev_session e = Some demo_held"
proof -
  obtain raw where raw: "cookie_decode demo_crypto (demo_cookie purpose_saml) raw = Inr (demo_print (envelope_json demo_envelope))"
    "raw \<noteq> []" using demo_encodes by metis
  let ?r = "demo_http\<lparr>hq_cookies := [(session_cookie_name, raw)]\<rparr>"
  have "decode_session_envelope demo_sso demo_provider 5 raw = Inr (demo_held, demo_envelope)"
    using raw(1) by (simp add: decode_envelope_Inr demo_envelope_def demo_held_def hours_def
        seconds_def)
  then have "reusable_session demo_sso demo_provider 5 ?r demo_authn demo_state = Some demo_held"
    using raw(2) demo_unrevoked
    by (simp add: reusable_session_def query_value_def session_binding_matches_def target_sp_def demo_authn_def
        demo_envelope_def demo_http_def)
  then have g: "get_session demo_sso demo_provider empty_db 5 demo_draws ?r demo_authn demo_state =
      ((SsoSession demo_held, []), demo_state)"
    by (simp add: get_session_def demo_http_def)
  have m: "hq_minted ?r = None" "hq_cookies ?r = [(session_cookie_name, raw)]" by (simp_all add: demo_http_def)
  have "\<exists>e text j. cookie_decode demo_crypto (demo_cookie purpose_saml) raw = Inr text \<and> demo_parse text = Some j \<and>
      envelope_of_json j = Some e \<and> ev_session e = Some demo_held"
    using get_session_sources [OF g] unfolding m by (auto simp: query_value_def)
  with g show ?thesis by blast
qed

subsection \<open>Requests are honoured once\<close>

lemma claim_request_None:
  assumes "claim_request pv now i st = (None, st')" and "pv_replay pv" and "i \<noteq> []"
  shows "lookup (audit_db (so_store st)) (replay_key i) = None \<and>
    lookup (audit_db (so_store st')) (replay_key i) \<noteq> None"
proof -
  obtain d where m: "mark_seen now i (minutes 5) (audit_db (so_store st)) = (Inr (), d)"
    and d: "d = audit_db (so_store st')"
    using assms by (auto simp: claim_request_def on_session_db_def on_db_def split: prod.splits sum.splits)
  have "\<exists>r. db_put_new r (audit_db (so_store st)) = (Inr (), d) \<and> row_key r = replay_key i"
    using m by (auto simp: mark_seen_def row_key_def ses_row_def split: prod.splits sum.splits if_splits)
  then obtain r where "db_put_new r (audit_db (so_store st)) = (Inr (), d)" "row_key r = replay_key i" by blast
  then show ?thesis using db_put_new_ok [of r _ d "replay_key i"] d by simp
qed

lemma verify_keeps_store [simp]:
  "verify_id_token env now pool region tok client st = (x, st') \<Longrightarrow> so_store st' = so_store st"
  by (auto simp: verify_id_token_def verifier_for_def Let_def split: prod.splits sum.splits option.splits)

lemma token_session_claims:
  assumes "try_session_from_id_token env pv cfg now dw r req st = (Some (SsoSession s, cks), st')"
    and "pv_replay pv" and "ir_id req \<noteq> []"
  shows "lookup (audit_db (so_store st)) (replay_key (ir_id req)) = None \<and>
    lookup (audit_db (so_store st')) (replay_key (ir_id req)) \<noteq> None"
proof -
  obtain pool region client payload st1 st2
    where v: "verify_id_token env now pool region (extract_bearer_token r) client st = (Inr payload, st1)"
      and c: "claim_request pv now (ir_id req) st1 = (None, st2)"
      and e: "lookup (audit_db (so_store st')) (replay_key (ir_id req)) = lookup (audit_db (so_store st2)) (replay_key (ir_id req))"
    using try_token_session [OF assms(1)] by metis
  show ?thesis using claim_request_None [OF c assms(2,3)] verify_keeps_store [OF v] e by simp
qed

lemma redirect_claims:
  assumes "start_cognito_redirect env pv cfg now dw r req st = ((SsoRedirect u, cks), st')"
    and "pv_replay pv" and "ir_id req \<noteq> []"
  shows "lookup (audit_db (so_store st)) (replay_key (ir_id req)) = None \<and>
    lookup (audit_db (so_store st')) (replay_key (ir_id req)) \<noteq> None"
proof -
  obtain st1 where "claim_request pv now (ir_id req) st = (None, st1)"
    and "lookup (audit_db (so_store st')) (replay_key (ir_id req)) = lookup (audit_db (so_store st1)) (replay_key (ir_id req))"
    using assms(1) claim_request_Some
    by (fastforce simp: start_cognito_redirect_def Let_def split: if_splits option.splits sum.splits prod.splits)
  then show ?thesis using claim_request_None [of pv now "ir_id req" st st1] assms(2,3) by simp
qed

text \<open>A login that begins or succeeds on the request itself.\<close>

definition fresh_login :: "sso_outcome \<Rightarrow> bool" where
  "fresh_login out \<longleftrightarrow> (case out of SsoSession _ \<Rightarrow> True | SsoRedirect _ \<Rightarrow> True | _ \<Rightarrow> False)"

lemma fresh_login_claims:
  assumes "get_session env pv cfg now dw r req st = ((out, cks), st')" and "fresh_login out"
    and "hq_minted r = None" and "reusable_session env pv now r req st = None"
    and "pv_replay pv" and "ir_id req \<noteq> []"
  shows "lookup (audit_db (so_store st)) (replay_key (ir_id req)) = None \<and>
    lookup (audit_db (so_store st')) (replay_key (ir_id req)) \<noteq> None"
proof (cases "try_session_from_id_token env pv cfg now dw r req st")
  case (Pair res st1)
  show ?thesis
  proof (cases res)
    case (Some oc)
    then have "oc = (out, cks)" "st1 = st'" using assms(1,3,4) Pair by (auto simp: get_session_def)
    moreover have "\<exists>s. out = SsoSession s"
    proof -
      have "\<not> (\<exists>u c. res = Some (SsoRedirect u, c))"
        using Pair
        by (auto simp: try_session_from_id_token_def Let_def dest!: claim_request_Some
            split: if_splits option.splits sum.splits prod.splits token_failure.splits)
      then show ?thesis using assms(2) Some calculation by (auto simp: fresh_login_def split: sso_outcome.splits)
    qed
    ultimately show ?thesis using token_session_claims assms(5,6) Pair Some by blast
  next
    case None
    then have st1: "st1 = st" using try_token_state Pair by blast
    obtain res2 st2 where c: "try_custom_login_redirect env pv cfg now dw r req st = (res2, st2)" by fastforce
    have "res2 = None"
    proof (rule ccontr)
      assume "res2 \<noteq> None"
      then have "res2 = Some (out, cks)" using assms(1,3,4) Pair None st1 c by (auto simp: get_session_def)
      then show False using c assms(2)
        by (auto simp: try_custom_login_redirect_def Let_def fresh_login_def
            split: if_splits option.splits sum.splits prod.splits)
    qed
    moreover have "st2 = st" if "res2 = None"
      using c that by (auto simp: try_custom_login_redirect_def Let_def
          split: if_splits option.splits sum.splits prod.splits)
    ultimately have "start_cognito_redirect env pv cfg now dw r req st = ((out, cks), st')"
      using assms(1,3,4) Pair None st1 c by (simp add: get_session_def)
    then show ?thesis
      using redirect_claims [OF _ assms(5,6)] assms(2)
      by (cases out) (auto simp: fresh_login_def dest: start_redirect_no_session)
  qed
qed



end
