(* ===== verification/SamlRelease.thy ===== *)
theory SamlRelease
  imports SamlAssertion
begin

text \<open>
  What a service provider learns about a user and for how long: theorems over \<open>SamlAssertion\<close>.
\<close>

subsection \<open>NameID and session\<close>

lemma build_session_ok:
  assumes "build_session_from_claims i x now c cfg = Inr s"
  obtains n f where "resolve_name_id (Some c) cfg i = (n, f, [])
      \<or> resolve_name_id (Some c) cfg i = (n, f, reason_email_unverified)"
    and "c_sub c \<noteq> []"
    and "s = \<lparr>ss_id = i, ss_create_time = now, ss_expire_time = now + session_duration cfg, ss_index = x,
           ss_name_id = n, ss_name_id_format = f, ss_subject_id = c_sub c, ss_groups = c_groups c,
           ss_user_name = c_sub c, ss_user_email = c_email c, ss_user_common_name = [],
           ss_user_surname = c_family_name c, ss_user_given_name = c_given_name c,
           ss_custom_attributes = map custom_attr (c_custom_attributes c)\<rparr>"
proof -
  obtain n f r where r: "resolve_name_id (Some c) cfg i = (n, f, r)" by (cases "resolve_name_id (Some c) cfg i")
  moreover have "r = [] \<or> r = reason_email_unverified \<or> r = reason_no_subject"
    using r by (auto simp: resolve_name_id_def Let_def split: if_splits)
  moreover have "c_sub c = [] \<Longrightarrow> r = reason_no_subject"
    using r by (simp add: resolve_name_id_def)
  ultimately show thesis
    using assms that [of n f] by (auto simp: build_session_from_claims_def split: if_splits)
qed

lemma clamp_seconds_bounds:
  "lo \<le> hi \<Longrightarrow> seconds lo \<le> clamp_seconds n lo hi \<and> clamp_seconds n lo hi \<le> seconds hi"
  by (simp add: clamp_seconds_def seconds_def)

lemma session_duration_bounds:
  "seconds 300 \<le> session_duration cfg \<and> session_duration cfg \<le> seconds 86400"
  using clamp_seconds_bounds [of 300 86400]
  by (auto simp: session_duration_def default_session_duration_def bound_defs hours_def seconds_def
      split: option.split)

lemma clock_skew_bounds: "0 \<le> clock_skew cfg \<and> clock_skew cfg \<le> seconds 600"
  using clamp_seconds_bounds [of 0 600]
  by (auto simp: clock_skew_def default_clock_skew_def bound_defs seconds_def split: option.split)

text \<open>The subject a service provider keys its accounts on is never an address the user could have
  chosen unverified: a session exists only for a token with a subject, its NameID is the verified
  email address under the email format, the session's own id under the transient format, or the
  subject under any other format, and the session lasts between five minutes and a day.\<close>

lemma session_name_id_trusted:
  assumes "build_session_from_claims i x now c cfg = Inr s"
  shows "c_sub c \<noteq> [] \<and> ss_subject_id s = c_sub c \<and>
    (if ss_name_id_format s = nif_email then ss_name_id s = c_email c \<and> c_email_verified c \<and> c_email c \<noteq> []
     else if ss_name_id_format s = nif_transient then ss_name_id s = i
     else ss_name_id s = c_sub c) \<and>
    now + seconds 300 \<le> ss_expire_time s \<and> ss_expire_time s \<le> now + seconds 86400"
proof -
  from assms obtain n f r where r: "resolve_name_id (Some c) cfg i = (n, f, r)" "c_sub c \<noteq> []"
    and s: "ss_name_id s = n" "ss_name_id_format s = f" "ss_subject_id s = c_sub c"
      "ss_expire_time s = now + session_duration cfg"
    by (rule build_session_ok) fastforce
  have "nif_email \<noteq> nif_transient" "nif_email \<noteq> nif_persistent" "nif_transient \<noteq> nif_persistent"
    by (simp_all add: nif_defs)
  then have "if f = nif_email then n = c_email c \<and> c_email_verified c \<and> c_email c \<noteq> []
      else if f = nif_transient then n = i else n = c_sub c"
    using r by (auto simp: resolve_name_id_def Let_def split: if_splits)
  then show ?thesis using s r(2) session_duration_bounds [of cfg] by simp
qed

definition demo_claims :: subject_claims where
  "demo_claims = \<lparr>c_sub = ''u1'', c_email = ''ada@x'', c_email_verified = False, c_given_name = ''Ada'',
     c_family_name = ''Byron'', c_groups = [''eng''], c_custom_attributes = [(''dept'', ''R'')]\<rparr>"

definition demo_saml :: saml_config where
  "demo_saml = (sample_saml ''sp1'')\<lparr>sc_name_id_format := ''email'', sc_session_duration_sec := 5\<rparr>"

lemma demo_name_id:
  "resolve_name_id (Some demo_claims) (Some demo_saml) i = (''u1'', nif_persistent, reason_email_unverified)"
proof -
  have "canonical_name_id_format (sc_name_id_format demo_saml) = nif_email" by code_simp
  then show ?thesis by (simp add: resolve_name_id_def Let_def demo_claims_def)
qed

lemma session_name_id_trusted_witness:
  "\<exists>s. build_session_from_claims ''i'' ''x'' 0 demo_claims (Some demo_saml) = Inr s \<and>
     ss_name_id s = ''u1'' \<and> seconds 300 \<le> ss_expire_time s"
proof -
  have "reason_email_unverified \<noteq> reason_no_subject"
    by (simp add: reason_email_unverified_def reason_no_subject_def)
  then obtain s where s: "build_session_from_claims ''i'' ''x'' 0 demo_claims (Some demo_saml) = Inr s"
    "ss_name_id_format s = nif_persistent"
    by (simp add: build_session_from_claims_def demo_name_id)
  have "nif_persistent \<noteq> nif_email" "nif_persistent \<noteq> nif_transient" by (simp_all add: nif_defs)
  then show ?thesis using session_name_id_trusted [OF s(1)] s by (auto simp: demo_claims_def)
qed

subsection \<open>The validity window of an assertion\<close>

lemma make_assertion_ok:
  assumes "make_assertion dm cfg req s = Inr a"
  obtains a0 slug app sc where "(case ir_assertion req of Some b \<Rightarrow> Inr b | None \<Rightarrow> dm req s) = Inr a0"
    and "resolve_app cfg req = (slug, app, sc)"
    and "an_not_before a = an_not_before (apply_timing_config req s sc a0)"
    and "an_session_not_on_or_after a = an_session_not_on_or_after (apply_timing_config req s sc a0)"
    and "concat (an_attribute_statements a) = (case app of None \<Rightarrow> [] | Some x \<Rightarrow> mapped_attributes cfg s slug x)"
    and "[] \<notin> set (an_attribute_statements a)"
  using assms
  by (cases "resolve_app cfg req") (auto simp: make_assertion_def Let_def split: sum.splits if_splits)


subsection \<open>Attributes\<close>

definition demo_request :: idp_request where
  "demo_request = \<lparr>ir_id = ''r'', ir_now = minutes 2, ir_issue_instant = 0, ir_relay_state = [],
     ir_buffer = [], ir_sp = Some ''sp1'', ir_tenant = Some ''acme'',
     ir_assertion = Some \<lparr>an_not_before = Some 0, an_session_not_on_or_after = [None],
       an_attribute_statements = [[\<lparr>sa_name = ''uid'', sa_name_format = [], sa_values = []\<rparr>]]\<rparr>\<rparr>"

definition demo_mapping :: claim_mapping where
  "demo_mapping = \<lparr>cm_name = ''m'', cm_source_type = ''cognito'', cm_source_attribute = ''dept'',
     cm_target_attribute = ''department'', cm_required = False, cm_default_value = []\<rparr>"

definition demo_config :: cfg_db where
  "demo_config = snd (put_claim_mappings ''acme'' sample_id [demo_mapping] sample_db)"

definition demo_session :: saml_session where
  "demo_session = \<lparr>ss_id = ''i'', ss_create_time = 0, ss_expire_time = hours 1, ss_index = ''x'',
     ss_name_id = ''u1'', ss_name_id_format = nif_persistent, ss_subject_id = ''u1'', ss_groups = [''eng''],
     ss_user_name = ''u1'', ss_user_email = ''ada@x'', ss_user_common_name = [], ss_user_surname = ''Byron'',
     ss_user_given_name = ''Ada'', ss_custom_attributes = [custom_attr (''dept'', ''R'')]\<rparr>"

definition demo_app :: application where
  "demo_app = sample_app\<lparr>a_id := sample_id, a_tenant_slug := ''acme'', a_created_at := 5, a_updated_at := 5\<rparr>"

lemma demo_lookups:
  "get_by_tenant_entity_id ''acme'' ''sp1'' demo_config = Inr (demo_app, Some (sample_saml ''sp1''))"
  "get_claim_mappings ''acme'' sample_id demo_config = Inr [demo_mapping]"
  "get_role_mappings ''acme'' sample_id demo_config = Inr []"
  by code_simp+

definition demo_attribute :: saml_attr where
  "demo_attribute = \<lparr>sa_name = ''department'', sa_name_format = name_format_or_default [],
     sa_values = [(''xs:string'', ''R'')]\<rparr>"

definition demo_made :: assertion where
  "demo_made = \<lparr>an_not_before = Some 0, an_session_not_on_or_after = [Some (hours 1)],
     an_attribute_statements = [[demo_attribute]]\<rparr>"

lemma demo_assertion: "make_assertion dm demo_config demo_request demo_session = Inr demo_made"
proof -
  have "resolve_app demo_config demo_request = (''acme'', Some demo_app, Some (sample_saml ''sp1''))"
    by (simp add: resolve_app_def demo_request_def demo_lookups)
  moreover have "mapped_attributes demo_config demo_session ''acme'' demo_app = [demo_attribute]"
    by (simp add: mapped_attributes_def demo_app_def demo_lookups mapped_attribute_def attr_values_def
        demo_mapping_def is_cognito_source_def resolve_session_field_def session_custom_def demo_session_def
        custom_attr_def List.map_filter_def Let_def demo_attribute_def)
  moreover have "clock_skew (Some (sample_saml ''sp1'')) = seconds 180"
    by (simp add: clock_skew_def sample_saml_def default_clock_skew_def)
  moreover obtain a0 where a0: "ir_assertion demo_request = Some a0" by (simp add: demo_request_def)
  ultimately show ?thesis
    by (simp add: make_assertion_def) (use a0 in \<open>simp add: apply_timing_config_def Let_def demo_request_def
      demo_session_def time_defs zero_time_def demo_made_def, force\<close>)
qed


lemma mapped_attribute_Some:
  "mapped_attribute rm cu s cm = Some at \<longleftrightarrow>
     attr_values rm cu s cm \<noteq> [] \<and>
     at = \<lparr>sa_name = cm_target_attribute cm, sa_name_format = name_format_or_default [],
           sa_values = attr_values rm cu s cm\<rparr>"
  by (auto simp: mapped_attribute_def Let_def)

lemma role_map_of_in: "map_of (role_map_of rms) g = Some v \<Longrightarrow> \<exists>rm\<in>set rms. rm_cognito_group rm = g \<and> rm_mapped_value rm = v"
proof -
  have "map_of (fold (\<lambda>rm m. AList.update (rm_cognito_group rm) (rm_mapped_value rm) m) rms m) g = Some v \<Longrightarrow>
      (\<exists>rm\<in>set rms. rm_cognito_group rm = g \<and> rm_mapped_value rm = v) \<or> map_of m g = Some v" for m
    by (induction rms arbitrary: m) (fastforce simp: update_conv' split: if_splits)+
  then show "map_of (role_map_of rms) g = Some v \<Longrightarrow> ?thesis" by (fastforce simp: role_map_of_def)
qed

text \<open>C13: An assertion releases nothing an administrator did not map: every attribute in it stems from a
  claim mapping stored for the application that the request's own tenant registers under the service
  provider's entity id, and each of its values is the mapped session field, the mapping's fixed or
  default value, or the role mapped from one of the user's groups. The statements the library made
  are gone, and an empty statement is never sent.\<close>

theorem assertion_releases_mapped:
  assumes "make_assertion dm cfg req s = Inr a" and "at \<in> set (concat (an_attribute_statements a))"
    and "(ty, v) \<in> set (sa_values at)"
  shows "\<exists>slug entity app sc cms rms cm. ir_tenant req = Some slug \<and> slug \<noteq> [] \<and>
    entity = (case ir_sp req of None \<Rightarrow> [] | Some e \<Rightarrow> e) \<and>
    get_by_tenant_entity_id slug entity cfg = Inr (app, sc) \<and>
    get_claim_mappings slug (a_id app) cfg = Inr cms \<and> get_role_mappings slug (a_id app) cfg = Inr rms \<and>
    cm \<in> set cms \<and> sa_name at = cm_target_attribute cm \<and>
    (if cm_source_type cm = ''groupMapping''
     then \<exists>rm\<in>set rms. rm_cognito_group rm \<in> set (ss_groups s) \<and> v = rm_mapped_value rm
     else v \<noteq> [] \<and> (v = cm_default_value cm \<or>
       is_cognito_source (cm_source_type cm) \<and>
       v = resolve_session_field s (cm_source_attribute cm) (session_custom s)))"
proof -
  obtain slug app sc where r: "resolve_app cfg req = (slug, app, sc)"
    and at: "at \<in> set (case app of None \<Rightarrow> [] | Some x \<Rightarrow> mapped_attributes cfg s slug x)"
    using make_assertion_ok [OF assms(1)] assms(2) by metis
  then obtain x where x: "app = Some x" "at \<in> set (mapped_attributes cfg s slug x)"
    by (cases app) auto
  from r x(1) have g: "ir_tenant req = Some slug" "slug \<noteq> []"
    "get_by_tenant_entity_id slug (case ir_sp req of None \<Rightarrow> [] | Some e \<Rightarrow> e) cfg = Inr (x, sc)"
    by (auto simp: resolve_app_def Let_def split: option.splits if_splits sum.splits)
  from x(2) obtain cms rms cm where m: "get_claim_mappings slug (a_id x) cfg = Inr cms"
      "get_role_mappings slug (a_id x) cfg = Inr rms" "cm \<in> set cms"
      "mapped_attribute (role_map_of rms) (session_custom s) s cm = Some at"
    unfolding mapped_attributes_def by (force simp: set_map_filter_iff split: sum.splits)
  then have v: "(ty, v) \<in> set (attr_values (role_map_of rms) (session_custom s) s cm)"
    "sa_name at = cm_target_attribute cm"
    using assms(3) by (auto simp: mapped_attribute_Some)
  have "if cm_source_type cm = ''groupMapping''
     then \<exists>rm\<in>set rms. rm_cognito_group rm \<in> set (ss_groups s) \<and> v = rm_mapped_value rm
     else v \<noteq> [] \<and> (v = cm_default_value cm \<or>
       is_cognito_source (cm_source_type cm) \<and>
       v = resolve_session_field s (cm_source_attribute cm) (session_custom s))"
  proof (cases "cm_source_type cm = ''groupMapping''")
    case True
    then obtain g where "g \<in> set (ss_groups s)" "map_of (role_map_of rms) g = Some v"
      using v(1) by (auto simp: attr_values_def is_cognito_source_def set_map_filter_iff)
    then show ?thesis using role_map_of_in [of rms g v] True by auto
  next
    case False
    then show ?thesis using v(1) by (auto simp: attr_values_def Let_def split: if_splits)
  qed
  then show ?thesis using g m v(2) by blast
qed

lemma assertion_releases_mapped_witness:
  "\<exists>at\<in>set (concat (an_attribute_statements demo_made)).
     \<exists>app sc cms. get_by_tenant_entity_id ''acme'' ''sp1'' demo_config = Inr (app, sc) \<and>
        get_claim_mappings ''acme'' (a_id app) demo_config = Inr cms \<and>
        sa_name at \<in> cm_target_attribute ` set cms"
proof -
  have "demo_attribute \<in> set (concat (an_attribute_statements demo_made))" by (simp add: demo_made_def)
  moreover have "(''xs:string'', ''R'') \<in> set (sa_values demo_attribute)" by (simp add: demo_attribute_def)
  ultimately show ?thesis
    using assertion_releases_mapped [OF demo_assertion, of demo_attribute "''xs:string''" "''R''"]
    by (simp add: demo_request_def) blast
qed

subsection \<open>The two protocols\<close>

text \<open>Go maps have one value per key: the claims of a token, and so its custom attributes.\<close>

definition custom_entry :: "string \<times> claim_value \<Rightarrow> (string \<times> string) option" where
  "custom_entry p = (case p of (k, v) \<Rightarrow>
     if has_prefix k ''custom:'' then map_option (\<lambda>s. (trim_prefix k ''custom:'', s)) (as_str v) else None)"

lemma prefix_entry_iff:
  "(if has_prefix k p then map_option (\<lambda>s. (trim_prefix k p, s)) (as_str v) else None) = Some (a, b) \<longleftrightarrow>
     k = p @ a \<and> v = CStr b"
  by (auto simp: has_prefix_iff as_str_iff)

lemma custom_entry_iff: "custom_entry p = Some (k, s) \<longleftrightarrow> p = (''custom:'' @ k, CStr s)"
  by (cases p) (simp only: custom_entry_def prod.case prefix_entry_iff prod.inject)

lemma map_of_rev_distinct: "distinct (map fst xs) \<Longrightarrow> map_of (rev xs) k = map_of xs k"
proof -
  assume d: "distinct (map fst xs)"
  then have "map_of (rev xs) k = Some v \<longleftrightarrow> map_of xs k = Some v" for v
    using map_of_eq_Some_iff [of xs k] map_of_eq_Some_iff [of "rev xs" k] by (simp flip: rev_map)
  then show ?thesis by (metis option.exhaust)
qed

lemma custom_attributes_map: "c_custom_attributes (extract_claims payload) = List.map_filter custom_entry payload"
  by (simp add: extract_claims_def custom_entry_def [abs_def])

lemma distinct_custom:
  assumes "distinct (map fst payload)"
  shows "distinct (map fst (c_custom_attributes (extract_claims payload)))"
  unfolding custom_attributes_map using assms
proof (induction payload)
  case (Cons p payload)
  have "k \<notin> fst ` set (List.map_filter custom_entry payload)" if "custom_entry p = Some (k, s)" for k s
  proof
    assume "k \<in> fst ` set (List.map_filter custom_entry payload)"
    then obtain s' where "(''custom:'' @ k, CStr s') \<in> set payload"
      by (auto simp only: set_map_filter_iff custom_entry_iff image_iff fst_conv)
    then have "''custom:'' @ k \<in> fst ` set payload" by force
    then show False using Cons.prems that by (simp only: custom_entry_iff) simp
  qed
  then show ?case using Cons by (auto simp: map_filter_simps split: option.split)
qed (simp add: List.map_filter_def)

lemma map_of_custom:
  assumes "distinct (map fst payload)"
  shows "map_of (c_custom_attributes (extract_claims payload)) k =
    (case map_of payload (''custom:'' @ k) of Some (CStr v) \<Rightarrow> Some v | _ \<Rightarrow> None)"
proof -
  have "map_of (c_custom_attributes (extract_claims payload)) k = Some v \<longleftrightarrow>
      map_of payload (''custom:'' @ k) = Some (CStr v)" for v
    using map_of_eq_Some_iff [OF distinct_custom [OF assms]] map_of_eq_Some_iff [OF assms]
    by (auto simp: custom_attributes_map set_map_filter_iff custom_entry_iff)
  then show ?thesis
    by (cases "map_of (c_custom_attributes (extract_claims payload)) k")
      (force split: option.split claim_value.split)+
qed

lemma map_of_session_custom:
  "map_of (session_custom s) = map_of (rev (map (\<lambda>(k, v). (k, v)) xs))"
  if "ss_custom_attributes s = map custom_attr xs"
proof -
  have "fold (\<lambda>a m. case sa_values a of [] \<Rightarrow> m | v # _ \<Rightarrow> AList.update (sa_name a) (snd v) m) (map custom_attr xs) m =
      fold (\<lambda>(k, v) m. AList.update k v m) xs m" for m
    by (induction xs arbitrary: m) (auto simp: custom_attr_def)
  then show ?thesis using that map_of_fold_update [of xs "[]"] by (simp add: session_custom_def)
qed

text \<open>A mapped session field means the same in a SAML assertion as in an OpenID token for the claims of
  one login, with two exceptions: the SAML session has no full name, so a mapping of \<^verbatim>\<open>name\<close> or
  \<^verbatim>\<open>common_name\<close> finds nothing there, and a custom attribute spelled with its \<^verbatim>\<open>custom:\<close> prefix is
  looked up literally.\<close>

lemma saml_field_vs_oidc:
  assumes "build_session_from_claims i x now (extract_claims payload) cfg = Inr s"
    and "distinct (map fst payload)"
  shows "resolve_session_field s src (session_custom s) =
    (if src = ''name'' \<or> src = ''common_name'' then []
     else if has_prefix src ''custom:'' then str_claim payload (''custom:'' @ src)
     else resolve_subject_field (extract_claims payload) src)"
proof -
  let ?c = "extract_claims payload"
  from assms(1) obtain n f where s: "s = \<lparr>ss_id = i, ss_create_time = now,
       ss_expire_time = now + session_duration cfg, ss_index = x,
       ss_name_id = n, ss_name_id_format = f, ss_subject_id = c_sub ?c, ss_groups = c_groups ?c,
       ss_user_name = c_sub ?c, ss_user_email = c_email ?c, ss_user_common_name = [],
       ss_user_surname = c_family_name ?c, ss_user_given_name = c_given_name ?c,
       ss_custom_attributes = map custom_attr (c_custom_attributes ?c)\<rparr>"
    by (rule build_session_ok)
  have cu: "map_of (session_custom s) = map_of (c_custom_attributes ?c)"
    using map_of_session_custom [of s "c_custom_attributes ?c"] distinct_custom [OF assms(2)]
    by (simp add: s map_of_rev_distinct fun_eq_iff)
  have other: "case_option [] (\<lambda>v. v) (map_of (session_custom s) k) = str_claim payload (''custom:'' @ k)" for k
    by (simp add: cu map_of_custom [OF assms(2)] str_claim_def split: option.split claim_value.split)
  have fields: "ss_user_email s = c_email ?c" "ss_user_given_name s = c_given_name ?c"
    "ss_user_surname s = c_family_name ?c" "ss_user_common_name s = []" "ss_subject_id s = c_sub ?c"
    "ss_user_name s = c_sub ?c" by (simp_all add: s)
  have trim: "\<not> has_prefix src ''custom:'' \<Longrightarrow> trim_prefix src ''custom:'' = src"
    by (simp add: trim_prefix_def)
  show ?thesis
    using other [of src] trim
    by (simp add: resolve_session_field_def resolve_subject_field_def fields)
      (cases "has_prefix src ''custom:''"; auto simp: cu)
qed

definition demo_payload :: "(string \<times> claim_value) list" where
  "demo_payload = [(''sub'', CStr ''u1''), (''given_name'', CStr ''Ada''),
     (''family_name'', CStr ''Byron''), (''custom:dept'', CStr ''R'')]"

subsection \<open>Service providers\<close>

text \<open>The identity provider only ever sees the metadata of an active application that the request's own
  tenant registers under the entity id and that does not demand signed requests: its endpoints are the
  configured URLs in order with the first as the default, and an encryption key is advertised only
  when the administrator switched encryption on.\<close>

lemma service_provider_metadata:
  assumes "get_service_provider parse cfg t sp_id = Inr ed"
  shows "\<exists>slug app sc. t = Some slug \<and> slug \<noteq> [] \<and>
    get_by_tenant_entity_id slug sp_id cfg = Inr (app, Some sc) \<and> a_status app = ''active'' \<and>
    \<not> sc_want_authn_requests_signed sc \<and> ed_entity_id ed = sc_entity_id sc \<and>
    map ie_location (ed_acs ed) =
      (if sc_acs_urls sc = [] \<and> sc_acs_url sc \<noteq> [] then [sc_acs_url sc] else sc_acs_urls sc) \<and>
    (\<forall>i<length (ed_acs ed). ie_index (ed_acs ed ! i) = i \<and> ie_is_default (ed_acs ed ! i) = (i = 0)) \<and>
    (if \<exists>kd\<in>set (ed_keys ed). kd_use kd = ''encryption''
     then sc_encrypt_assertion sc \<and> parse (sc_encryption_cert_pem sc) \<noteq> None else True)"
proof -
  from assms obtain slug app sc where g: "t = Some slug" "slug \<noteq> []"
    "get_by_tenant_entity_id slug sp_id cfg = Inr (app, Some sc)" "a_status app = ''active''"
    "\<not> sc_want_authn_requests_signed sc" and ed: "ed = build_entity_descriptor parse sc"
    by (auto simp: get_service_provider_def split: option.splits if_splits sum.splits)
  let ?urls = "if sc_acs_urls sc = [] \<and> sc_acs_url sc \<noteq> [] then [sc_acs_url sc] else sc_acs_urls sc"
  have acs: "ed_acs ed = map (\<lambda>(i, u). \<lparr>ie_binding = ''urn:oasis:names:tc:SAML:2.0:bindings:HTTP-POST'',
      ie_location = u, ie_index = i, ie_is_default = (i = 0)\<rparr>) (zip [0..<length ?urls] ?urls)"
    by (simp add: ed build_entity_descriptor_def Let_def)
  then have n: "length (ed_acs ed) = length ?urls" by simp
  have loc: "map ie_location (ed_acs ed) = ?urls"
    by (rule nth_equalityI) (use acs n in simp_all)
  have "\<forall>i<length (ed_acs ed). ie_index (ed_acs ed ! i) = i \<and> ie_is_default (ed_acs ed ! i) = (i = 0)"
    using acs n by simp
  moreover have "sc_encrypt_assertion sc \<and> parse (sc_encryption_cert_pem sc) \<noteq> None"
    if "\<exists>kd\<in>set (ed_keys ed). kd_use kd = ''encryption''"
    using that
    by (auto simp: ed build_entity_descriptor_def optional_key_def build_key_descriptor_def Let_def
        split: if_splits option.splits)
  moreover have "ed_entity_id ed = sc_entity_id sc" by (simp add: ed build_entity_descriptor_def Let_def)
  ultimately show ?thesis using g loc by auto
qed

lemma service_provider_metadata_witness:
  "\<exists>ed. get_service_provider (\<lambda>_. None) demo_config (Some ''acme'') ''sp1'' = Inr ed \<and>
     map ie_location (ed_acs ed) = [''https://sp/acs'']"
proof -
  have a: "a_status demo_app = ''active'' \<and> \<not> sc_want_authn_requests_signed (sample_saml ''sp1'') \<and>
      sc_acs_urls (sample_saml ''sp1'') = [] \<and> sc_acs_url (sample_saml ''sp1'') = ''https://sp/acs''"
    by code_simp
  then obtain ed where "get_service_provider (\<lambda>_. None) demo_config (Some ''acme'') ''sp1'' = Inr ed"
    by (simp add: get_service_provider_def demo_lookups)
  then show ?thesis
    using service_provider_metadata [of "\<lambda>_. None" demo_config "Some ''acme''" "''sp1''"] a demo_lookups(1)
    by fastforce
qed

end
