(* ===== verification/SamlHandoff.thy ===== *)
theory SamlHandoff
  imports SamlFlowProps SamlRelease
begin

text \<open>
  Finishing a login: the OAuth2 callback, the return from a custom login page and the launch by the
  gateway, each up to the session the SAML library is then handed.
\<close>

subsection \<open>Cookies and the hand-off\<close>

text \<open>What a provider's cookie needs: a key, algorithms with their documented laws, and JSON that
  survives its text.\<close>

definition cookies_ok :: "sso_env \<Rightarrow> provider \<Rightarrow> string \<Rightarrow> bool" where
  "cookies_ok env pv k \<longleftrightarrow> digest_ok (sv_crypto env) \<and> aead_ok (sv_crypto env) \<and>
     new_signed_cookie (sv_crypto env) (Some k) purpose_saml = Inr (pv_cookie pv)"

lemma cookie_back:
  assumes "cookies_ok env pv k" and "length n = gcm_nonce_size"
    and "cookie_encode (sv_crypto env) (pv_cookie pv) (Some n) text = Inr raw"
  shows "cookie_decode (sv_crypto env) (pv_cookie pv) raw = Inr text"
  using cookie_decode_encode assms unfolding cookies_ok_def by blast

lemma session_cookie_back:
  assumes "cookies_ok env pv k" and "length n = gcm_nonce_size"
    and "encode_bound_session_cookie env pv (Some n) s slug src sp = Inr raw"
    and "json_faithful env (envelope_json \<lparr>ev_session = Some s, ev_tenant_slug = slug, ev_source_id = src, ev_sp_entity_id = sp\<rparr>)"
    and "now \<le> ss_expire_time s"
  shows "decode_session_envelope env pv now raw = Inr (s,
      \<lparr>ev_session = Some s, ev_tenant_slug = slug, ev_source_id = src, ev_sp_entity_id = sp\<rparr>)"
  using cookie_back [OF assms(1,2)] assms(3-5)
  by (auto simp: decode_envelope_Inr encode_bound_session_cookie_def json_faithful_def)

lemma request_minted:
  assumes "decode_session_envelope env pv now raw = Inr (s, e)"
  shows "hq_minted (request_with_minted_session env pv now r raw) = Some \<lparr>ms_session = s,
      ms_tenant_slug = ev_tenant_slug e, ms_source_id = ev_source_id e, ms_sp_entity_id = ev_sp_entity_id e\<rparr>"
    and "hq_tenant (request_with_minted_session env pv now r raw) = hq_tenant r"
    and "hq_form (request_with_minted_session env pv now r raw) = hq_form r"
  using assms by (simp_all add: request_with_minted_session_def)

lemma query_values_set [simp]:
  "query_value (values_set k v q) k' = (if k' = k then v else query_value q k')"
proof -
  have "map_of (filter (\<lambda>kv. fst kv \<noteq> k) q) k' = (if k' = k then None else map_of q k')"
    by (induction q) auto
  then show ?thesis by (simp add: values_set_def query_value_def map_add_def split: option.split)
qed

text \<open>What the resumed call sees, whatever cookies the browser sent along.\<close>

lemma get_session_handed_over:
  assumes "hq_minted r = Some \<lparr>ms_session = s, ms_tenant_slug = slug, ms_source_id = src, ms_sp_entity_id = sp\<rparr>"
  shows "get_session env pv cfg now dw r req st =
    ((if slug = hq_tenant r \<and> (sp = [] \<or> target_sp req = [] \<or> sp = target_sp req)
      then (SsoSession s, []) else (SsoError 403 ''session binding mismatch'', [])), st)"
  using assms by (auto simp: get_session_def minted_binding_matches_def Let_def)

subsection \<open>The callback\<close>

lemma finish_callback_ok:
  assumes "finish_callback env pv cfg now dw r s payload st = ((FlowServeSso idp r', cks), st')"
  obtains session sc raw buf where
    "build_session_from_claims (generate_flow_id (dw_session dw)) (generate_flow_id (dw_index dw)) now
       (extract_claims payload) sc = Inr session"
    "encode_bound_session_cookie env pv (dw_nonce dw) session (fl_tenant_slug s) (fl_source_id s) (fl_sp_entity_id s) = Inr raw"
    "b64_decode StdAlphabet True (fl_request_buf s) = Some buf" "idp_for_tenant pv (fl_tenant_slug s) = Some idp"
    "r' = request_with_minted_session env pv now (r\<lparr>hq_form := resume_form s buf (hq_query r)\<rparr>) raw"
    "cks = [session_cookie session raw, mk_cookie flow_cookie_name [] (-1)]"
  using assms by (auto simp: finish_callback_def Let_def split: sum.splits option.splits)

lemma handle_callback_ok:
  assumes "handle_callback env pv cfg now dw r st = ((FlowServeSso idp r', cks), st')"
  obtains s client tok payload st1 where
    "signed_decode env pv (query_value (hq_cookies r) flow_cookie_name) = Inr s"
    "unix now \<le> fl_created_at s + 600" "fl_flow_id s \<noteq> []" "query_value (hq_query r) ''state'' = fl_flow_id s"
    "callback_client pv cfg s = Inr client"
    "exchange_code (sv_cognito env) client (query_value (hq_query r) ''code'') (fl_verifier s) = Inr tok"
    "verify_id_token env now (ac_pool_id client) (ac_region client) tok (ac_client_id client) st = (Inr payload, st1)"
    "finish_callback env pv cfg now dw r s payload st1 = ((FlowServeSso idp r', cks), st')"
proof -
  have cc: "callback_client pv cfg s = Inl e \<Longrightarrow> \<forall>i q. e \<noteq> FlowServeSso i q" for s e
    by (auto simp: callback_client_def split: option.splits if_splits sum.splits)
  show thesis
    using assms that cc
    by (auto simp: handle_callback_def Let_def cookie_max_age_def
        split: if_splits sum.splits prod.splits token_failure.splits)
qed

text \<open>C18: A callback resumes a login only for the browser that began it: the flow cookie carries the
  program's MAC, is at most ten minutes old and its random id is the state of the callback; the code
  was exchanged with the flow's own verifier and the ID token accepted for the flow's identity source.
  The resumed request carries the original message, and whatever cookies the browser holds, the
  library is then given the session of that token, or nothing when tenant or service provider differ.\<close>

theorem callback_session:
  assumes "cookies_ok env pv k" and "dw_nonce dw = Some n" and "length n = gcm_nonce_size"
    and "\<And>e. json_faithful env (envelope_json e)"
    and "handle_callback env pv cfg now dw r st = ((FlowServeSso idp r', cks), st')"
  shows "\<exists>s client tok payload st1 session sc buf.
    signed_decode env pv (query_value (hq_cookies r) flow_cookie_name) = Inr s \<and>
    unix now \<le> fl_created_at s + 600 \<and> fl_flow_id s \<noteq> [] \<and> query_value (hq_query r) ''state'' = fl_flow_id s \<and>
    callback_client pv cfg s = Inr client \<and>
    exchange_code (sv_cognito env) client (query_value (hq_query r) ''code'') (fl_verifier s) = Inr tok \<and>
    verify_id_token env now (ac_pool_id client) (ac_region client) tok (ac_client_id client) st = (Inr payload, st1) \<and>
    build_session_from_claims (generate_flow_id (dw_session dw)) (generate_flow_id (dw_index dw)) now
      (extract_claims payload) sc = Inr session \<and> ss_subject_id session = c_sub (extract_claims payload) \<and>
    b64_decode StdAlphabet True (fl_request_buf s) = Some buf \<and>
    query_value (hq_form r') ''SAMLRequest'' = b64_encode StdAlphabet True buf \<and>
    query_value (hq_form r') ''RelayState'' =
      (if fl_relay_state s \<noteq> [] then fl_relay_state s else query_value (hq_query r) ''RelayState'') \<and>
    get_session env pv cfg2 now2 dw2 r' req st2 =
      ((if fl_tenant_slug s = hq_tenant r \<and>
           (fl_sp_entity_id s = [] \<or> target_sp req = [] \<or> fl_sp_entity_id s = target_sp req)
        then (SsoSession session, []) else (SsoError 403 ''session binding mismatch'', [])), st2)"
proof -
  obtain s client tok payload st1 where h:
    "signed_decode env pv (query_value (hq_cookies r) flow_cookie_name) = Inr s"
    "unix now \<le> fl_created_at s + 600" "fl_flow_id s \<noteq> []" "query_value (hq_query r) ''state'' = fl_flow_id s"
    "callback_client pv cfg s = Inr client"
    "exchange_code (sv_cognito env) client (query_value (hq_query r) ''code'') (fl_verifier s) = Inr tok"
    "verify_id_token env now (ac_pool_id client) (ac_region client) tok (ac_client_id client) st = (Inr payload, st1)"
    and f: "finish_callback env pv cfg now dw r s payload st1 = ((FlowServeSso idp r', cks), st')"
    using handle_callback_ok [OF assms(5)] by metis
  obtain session sc raw buf where b:
    "build_session_from_claims (generate_flow_id (dw_session dw)) (generate_flow_id (dw_index dw)) now
       (extract_claims payload) sc = Inr session"
    and e: "encode_bound_session_cookie env pv (Some n) session (fl_tenant_slug s) (fl_source_id s) (fl_sp_entity_id s) = Inr raw"
    and d: "b64_decode StdAlphabet True (fl_request_buf s) = Some buf"
    and r': "r' = request_with_minted_session env pv now (r\<lparr>hq_form := resume_form s buf (hq_query r)\<rparr>) raw"
    using finish_callback_ok [OF f] assms(2) by metis
  obtain nm fm where session: "session = \<lparr>ss_id = generate_flow_id (dw_session dw), ss_create_time = now,
      ss_expire_time = now + session_duration sc, ss_index = generate_flow_id (dw_index dw), ss_name_id = nm,
      ss_name_id_format = fm, ss_subject_id = c_sub (extract_claims payload),
      ss_groups = c_groups (extract_claims payload), ss_user_name = c_sub (extract_claims payload),
      ss_user_email = c_email (extract_claims payload), ss_user_common_name = [],
      ss_user_surname = c_family_name (extract_claims payload),
      ss_user_given_name = c_given_name (extract_claims payload),
      ss_custom_attributes = map custom_attr (c_custom_attributes (extract_claims payload))\<rparr>"
    using b by (rule build_session_ok)
  have "now \<le> ss_expire_time session"
    using session_duration_bounds [of sc] by (simp add: session seconds_def)
  note env = session_cookie_back [OF assms(1,3) e assms(4) this]
  note m = request_minted [OF env, of "r\<lparr>hq_form := resume_form s buf (hq_query r)\<rparr>", folded r']
  have g: "get_session env pv cfg2 now2 dw2 r' req st2 =
      ((if fl_tenant_slug s = hq_tenant r \<and>
           (fl_sp_entity_id s = [] \<or> target_sp req = [] \<or> fl_sp_entity_id s = target_sp req)
        then (SsoSession session, []) else (SsoError 403 ''session binding mismatch'', [])), st2)"
    using get_session_handed_over m(1,2) by simp
  have "query_value (hq_form r') ''SAMLRequest'' = b64_encode StdAlphabet True buf"
    "query_value (hq_form r') ''RelayState'' =
      (if fl_relay_state s \<noteq> [] then fl_relay_state s else query_value (hq_query r) ''RelayState'')"
    using m(3) by (simp_all add: resume_form_def Let_def)
  moreover have "ss_subject_id session = c_sub (extract_claims payload)" by (simp add: session)
  ultimately show ?thesis using h b d g by blast
qed

definition demo_flow :: flow_state where
  "demo_flow = \<lparr>fl_flow_id = ''f1'', fl_relay_state = ''rs'', fl_request_buf = b64_encode StdAlphabet True ''xml'',
     fl_verifier = ''v'', fl_sp_entity_id = ''sp1'', fl_source_id = [], fl_tenant_slug = [], fl_created_at = 0\<rparr>"

definition demo_callback :: "string \<Rightarrow> http_req" where
  "demo_callback raw = demo_http\<lparr>hq_cookies := [(flow_cookie_name, raw)],
     hq_query := [(''code'', ''c''), (''state'', ''f1'')]\<rparr>"

lemma demo_verify_token:
  "\<exists>st1. verify_id_token demo_sso 5 ''p_1'' ''eu-west-1'' ''good'' ''c1'' demo_state = (Inr demo_id_claims, st1)"
proof -
  have "jwks_verify 5 demo_cognito demo_verifier ''good'' ''c1'' = (Inr demo_id_claims, demo_verifier)"
    by (rule demo_verify) (simp add: hours_def seconds_def)
  then show ?thesis by (simp add: verify_id_token_def verifier_for_def demo_state_def)
qed

lemma demo_build_session:
  "\<exists>s. build_session_from_claims i x 5 (extract_claims demo_id_claims) None = Inr s"
  by (simp add: build_session_from_claims_def resolve_name_id_def extract_claims_def demo_id_claims_def
      str_claim_def reason_no_subject_def reason_email_unverified_def Let_def split: if_split)

lemma callback_session_witness:
  "\<exists>raw r' cks st' session. handle_callback demo_sso demo_provider empty_db 5 demo_draws (demo_callback raw) demo_state =
       ((FlowServeSso [] r', cks), st') \<and>
     query_value (hq_form r') ''RelayState'' = ''rs'' \<and> ss_subject_id session = ''u1'' \<and>
     get_session demo_sso demo_provider empty_db 6 demo_draws r' demo_authn st' = ((SsoSession session, []), st')"
proof -
  obtain raw where raw: "cookie_decode demo_crypto (demo_cookie purpose_saml) raw = Inr (demo_print (flow_json demo_flow))"
    "raw \<noteq> []" using demo_encodes by metis
  have s: "signed_decode demo_sso demo_provider raw = Inr demo_flow"
    using raw(1) by (simp add: signed_decode_def)
  obtain st1 where v: "verify_id_token demo_sso 5 ''p_1'' ''eu-west-1'' ''good'' ''c1'' demo_state = (Inr demo_id_claims, st1)"
    using demo_verify_token by blast
  have x: "exchange_code demo_cognito demo_client code w = Inr ''good''" for code w
    by (simp add: exchange_code_def exchange_code_with_url_def demo_cognito_def)
  have "\<exists>r' cks st'. finish_callback demo_sso demo_provider empty_db 5 demo_draws (demo_callback raw) demo_flow demo_id_claims st1 =
      ((FlowServeSso [] r', cks), st')"
  proof -
    obtain ses where b: "build_session_from_claims (generate_flow_id (replicate 16 2)) (generate_flow_id (replicate 16 3)) 5
        (extract_claims demo_id_claims) None = Inr ses" using demo_build_session by blast
    obtain c where e: "cookie_encode demo_crypto (demo_cookie purpose_saml) (Some (replicate 12 CHR ''n''))
        (demo_print (envelope_json \<lparr>ev_session = Some ses, ev_tenant_slug = [], ev_source_id = [], ev_sp_entity_id = ''sp1''\<rparr>)) = Inr c"
      using demo_encodes by metis
    have d: "b64_decode StdAlphabet True (b64_encode StdAlphabet True ''xml'') = Some ''xml''" by (rule b64_decode_encode)
    show ?thesis using b e d
      by (simp add: finish_callback_def demo_flow_def log_sso_def demo_draws_def encode_bound_session_cookie_def
          idp_for_tenant_def Let_def)
  qed
  then obtain r' cks st' where f: "finish_callback demo_sso demo_provider empty_db 5 demo_draws (demo_callback raw) demo_flow demo_id_claims st1 =
      ((FlowServeSso [] r', cks), st')" by blast
  have h: "handle_callback demo_sso demo_provider empty_db 5 demo_draws (demo_callback raw) demo_state =
      ((FlowServeSso [] r', cks), st')"
    using s v x f raw(2)
    by (simp add: handle_callback_def demo_callback_def query_value_def callback_client_def demo_client_def
        demo_flow_def cookie_max_age_def unix_def Let_def)
  have k: "cookies_ok demo_sso demo_provider demo_key"
    using demo_crypto_ok demo_cookie [of purpose_saml] by (simp add: cookies_ok_def purpose_saml_def)
  have n: "dw_nonce demo_draws = Some (replicate 12 CHR ''n'')" "length (replicate 12 CHR ''n'') = gcm_nonce_size"
    by (simp_all add: demo_draws_def gcm_nonce_size_def)
  have t: "target_sp demo_authn = ''sp1''" "hq_tenant (demo_callback raw) = []"
    by (simp_all add: target_sp_def demo_authn_def demo_callback_def demo_http_def)
  note cb = callback_session [OF k n demo_json h, of empty_db 6 demo_draws demo_authn st']
  have q: "query_value (hq_cookies (demo_callback raw)) flow_cookie_name = raw"
    by (simp add: demo_callback_def query_value_def)
  have c: "callback_client demo_provider empty_db fl = Inr demo_client" for fl by (simp add: callback_client_def)
  have u: "c_sub (extract_claims demo_id_claims) = ''u1''"
    by (simp add: extract_claims_def demo_id_claims_def str_claim_def)
  have a: "ac_pool_id demo_client = ''p_1''" "ac_region demo_client = ''eu-west-1''" "ac_client_id demo_client = ''c1''"
    by (simp_all add: demo_client_def)
  have fl: "fl_tenant_slug demo_flow = []" "fl_sp_entity_id demo_flow = ''sp1''" "fl_relay_state demo_flow = ''rs''"
    by (simp_all add: demo_flow_def)
  have "query_value (hq_form r') ''RelayState'' = ''rs'' \<and> (\<exists>session. ss_subject_id session = ''u1'' \<and>
      get_session demo_sso demo_provider empty_db 6 demo_draws r' demo_authn st' = ((SsoSession session, []), st'))"
    using cb unfolding q s demo_sso_simps c by (auto simp: x a v u t fl)
  with h show ?thesis by blast
qed

end
