(* ===== verification/OidcLogin.thy ===== *)
theory OidcLogin
  imports SamlFlow OidcStorage
begin

text \<open>
  The bridge between the OpenID provider and Cognito (\<^verbatim>\<open>internal/oidc/login.go\<close>, \<^verbatim>\<open>handler.go\<close> and
  \<^verbatim>\<open>verification_keys.go\<close>): the login of an authorization request, the OAuth2 callback, the return from
  a custom login page, the redirect by tenant and the dispatch of provider requests. The handlers share
  the session table and the audit log with the provider's storage. Unlike the SAML side they build a
  verifier for every call. Provider requests themselves are served by a third-party package.
\<close>

subsection \<open>The flow cookie\<close>

definition oidc_flow_cookie_name :: string where "oidc_flow_cookie_name = ''oidc_flow''"
definition oidc_flow_cookie_max_age :: int where "oidc_flow_cookie_max_age = 600"
definition oidc_login_binding_cookie_name :: string where "oidc_login_binding_cookie_name = ''__Host-oidc_login''"

record oidc_flow_state =
  ofs_auth_request_id :: string
  ofs_verifier :: string
  ofs_tenant_slug :: string
  ofs_source_id :: string
  ofs_created_at :: int

definition oidc_flow_json :: "oidc_flow_state \<Rightarrow> json" where
  "oidc_flow_json s = JObj
     [(''arid'', JStr (ofs_auth_request_id s)), (''v'', JStr (ofs_verifier s)), (''ts'', JStr (ofs_tenant_slug s)),
      (''sid'', JStr (ofs_source_id s)), (''ca'', JInt (ofs_created_at s))]"

definition oidc_flow_of_json :: "json \<Rightarrow> oidc_flow_state option" where
  "oidc_flow_of_json j =
     (case obj_fields j of
        None \<Rightarrow> None
      | Some ob \<Rightarrow>
          (case (str_field ob ''arid'', str_field ob ''v'', str_field ob ''ts'', str_field ob ''sid'', int_field ob ''ca'') of
             (Some a, Some v, Some ts, Some sid, Some ca) \<Rightarrow>
               Some \<lparr>ofs_auth_request_id = a, ofs_verifier = v, ofs_tenant_slug = ts, ofs_source_id = sid, ofs_created_at = ca\<rparr>
           | _ \<Rightarrow> None))"

lemma oidc_flow_of_json_inv [simp]: "oidc_flow_of_json (oidc_flow_json s) = Some s"
  by (simp add: oidc_flow_of_json_def oidc_flow_json_def obj_fields_def str_field_def int_field_def)

text \<open>The handler: its cookie, its base URL, and whether the audit log and the pending logins are wired.\<close>

record login_handler =
  lh_audit :: bool
  lh_pending :: bool
  lh_base_url :: string
  lh_cookie :: signed_cookie

definition new_login_handler :: "crypto_env \<Rightarrow> bool \<Rightarrow> bool \<Rightarrow> string option \<Rightarrow> string \<Rightarrow> login_handler res" where
  "new_login_handler ce audit pending key base =
     (case new_signed_cookie ce key purpose_oidc of
        Inl e \<Rightarrow> Inl (Wrap ''failed to initialise signed-cookie'' e)
      | Inr sc \<Rightarrow> Inr \<lparr>lh_audit = audit, lh_pending = pending, lh_base_url = trim_suffix base ''/'', lh_cookie = sc\<rparr>)"

definition oidc_signed_encode :: "sso_env \<Rightarrow> login_handler \<Rightarrow> string option \<Rightarrow> oidc_flow_state \<Rightarrow> string res" where
  "oidc_signed_encode env lh nonce s =
     cookie_encode (sv_crypto env) (lh_cookie lh) nonce (sv_print env (oidc_flow_json s))"

definition oidc_signed_decode :: "sso_env \<Rightarrow> login_handler \<Rightarrow> string \<Rightarrow> oidc_flow_state res" where
  "oidc_signed_decode env lh raw =
     (case cookie_decode (sv_crypto env) (lh_cookie lh) raw of
        Inl e \<Rightarrow> Inl e
      | Inr text \<Rightarrow>
          (case Option.bind (sv_parse env text) oidc_flow_of_json of
             None \<Rightarrow> Inl (ErrMsg ''invalid flow state'') | Some s \<Rightarrow> Inr s))"

definition oidc_set_login_binding_cookie ::
  "sso_env \<Rightarrow> login_handler \<Rightarrow> gotime \<Rightarrow> string option \<Rightarrow> string \<Rightarrow> set_cookie res" where
  "oidc_set_login_binding_cookie env lh now nonce flow =
     (case cookie_encode (sv_crypto env) (lh_cookie lh) nonce
             (sv_print env (binding_json \<lparr>lb_flow_id = flow, lb_created_at = unix now\<rparr>)) of
        Inl e \<Rightarrow> Inl e
      | Inr v \<Rightarrow> Inr (mk_cookie oidc_login_binding_cookie_name v oidc_flow_cookie_max_age))"

definition oidc_verify_login_binding :: "sso_env \<Rightarrow> login_handler \<Rightarrow> gotime \<Rightarrow> http_req \<Rightarrow> string \<Rightarrow> unit res" where
  "oidc_verify_login_binding env lh now r flow =
     (let c = query_value (hq_cookies r) oidc_login_binding_cookie_name in
      if c = [] then Inl (ErrMsg ''login binding cookie missing'')
      else case cookie_decode (sv_crypto env) (lh_cookie lh) c of
          Inl e \<Rightarrow> Inl (Wrap ''login binding cookie invalid'' e)
        | Inr text \<Rightarrow>
            (case Option.bind (sv_parse env text) binding_of_json of
               None \<Rightarrow> Inl (ErrMsg ''login binding cookie invalid'')
             | Some b \<Rightarrow>
                 if lb_flow_id b = [] \<or> lb_flow_id b \<noteq> flow
                 then Inl (ErrMsg ''login binding cookie does not match this flow'')
                 else if unix now - lb_created_at b > oidc_flow_cookie_max_age
                 then Inl (ErrMsg ''login binding cookie expired'')
                 else Inr ()))"

definition oidc_clear_login_binding_cookie :: set_cookie where
  "oidc_clear_login_binding_cookie = mk_cookie oidc_login_binding_cookie_name [] (-1)"

subsection \<open>Tokens\<close>

definition oidc_bearer_token :: "http_req \<Rightarrow> string" where
  "oidc_bearer_token r =
     (let h = hq_authorization r in
      if length h \<le> 7 \<or> \<not> equal_fold (take 7 h) ''Bearer '' then [] else trim_space (drop 7 h))"

text \<open>A verifier for this one call, and the token's claims under it.\<close>

definition oidc_verify_token ::
  "sso_env \<Rightarrow> gotime \<Rightarrow> identity_source \<Rightarrow> string \<Rightarrow> token_failure + jwt_payload" where
  "oidc_verify_token env now src tok =
     (case new_jwks_verifier (s_pool_id src) (s_region src) of
        Inl e \<Rightarrow> Inl (BadSource e)
      | Inr v \<Rightarrow>
          (case fst (jwks_verify now (sv_cognito env) v tok (s_client_id src)) of
             Inl e \<Rightarrow> Inl (BadToken e) | Inr p \<Rightarrow> Inr p))"

definition oidc_log ::
  "login_handler \<Rightarrow> gotime \<Rightarrow> draws \<Rightarrow> string \<Rightarrow> string \<Rightarrow> string \<Rightarrow> string \<Rightarrow> string \<Rightarrow> (string \<times> string) list
     \<Rightarrow> audit_state \<Rightarrow> audit_state" where
  "oidc_log lh now dw slug flow ty sp user payload st =
     (if lh_audit lh then snd (log_step now (dw_audit dw) slug flow ty sp user payload st) else st)"

subsection \<open>Handlers\<close>

text \<open>
  A handler answers with an error, a redirect, or the redirect to a custom login page (its URL, the URL
  to return to, the flow id; \<^verbatim>\<open>buildCustomLoginURL\<close> only assembles them).
\<close>

datatype oidc_outcome =
    OidcError int string
  | OidcRedirect string
  | OidcCustomLogin string string string

type_synonym oidc_result = "(oidc_outcome \<times> set_cookie list) \<times> audit_state"

definition oidc_custom_login ::
  "sso_env \<Rightarrow> login_handler \<Rightarrow> gotime \<Rightarrow> draws \<Rightarrow> string \<Rightarrow> string \<Rightarrow> string \<Rightarrow> application \<Rightarrow> audit_state
     \<Rightarrow> oidc_result" where
  "oidc_custom_login env lh now dw slug auth_id cid app st =
     (if \<not> is_trusted_login_redirect app (a_custom_login_url app)
      then ((OidcError 500 ''custom login page is not a trusted redirect target'', []), st)
      else
        let flow = generate_flow_id (dw_flow dw);
            pending = \<lparr>pl_flow_id = flow, pl_protocol = ''oidc'', pl_tenant_slug = slug,
              pl_source_id = a_source_id app, pl_app_id = a_id app, pl_saml_request_b64 = [],
              pl_relay_state = [], pl_sp_entity_id = [], pl_auth_request_id = auth_id,
              pl_created_at = zero_time, pl_expires_at_epoch = 0\<rparr>
        in case on_db (pending_create now pending (seconds oidc_flow_cookie_max_age)) st of
            (Inl _, st1) \<Rightarrow> ((OidcError 500 ''internal error'', []), st1)
          | (Inr _, st1) \<Rightarrow>
              let st2 = oidc_log lh now dw slug auth_id ''oidc_custom_login_redirect'' cid [] [(''tenant'', slug)] st1
              in case oidc_set_login_binding_cookie env lh now (dw_nonce dw) flow of
                  Inl _ \<Rightarrow> ((OidcError 500 ''internal error'', []), st2)
                | Inr ck \<Rightarrow>
                    ((OidcCustomLogin (a_custom_login_url app)
                        (lh_base_url lh @ ''/t/'' @ slug @ ''/oidc/login/complete'') flow, [ck]), st2))"

definition oidc_cognito_login ::
  "sso_env \<Rightarrow> login_handler \<Rightarrow> cfg_db \<Rightarrow> gotime \<Rightarrow> draws \<Rightarrow> string \<Rightarrow> string \<Rightarrow> string \<Rightarrow> application \<Rightarrow> audit_state
     \<Rightarrow> oidc_result" where
  "oidc_cognito_login env lh cfg now dw slug auth_id cid app st =
     (case source_get slug (a_source_id app) cfg of
        Inl _ \<Rightarrow> ((OidcError 500 ''identity source not found'', []), st)
      | Inr src \<Rightarrow>
      (case new_auth_client_for_source src (lh_base_url lh @ ''/t/'' @ slug @ ''/oidc/callback'')
              (Some no_secret_fetcher) of
        Inl _ \<Rightarrow> ((OidcError 500 ''internal error'', []), st)
      | Inr client \<Rightarrow>
      (case generate_pkce (sv_crypto env) (dw_pkce dw) of (verifier, challenge) \<Rightarrow>
         let state = \<lparr>ofs_auth_request_id = auth_id, ofs_verifier = verifier, ofs_tenant_slug = slug,
               ofs_source_id = s_id src, ofs_created_at = unix now\<rparr>
         in case oidc_signed_encode env lh (dw_nonce dw) state of
             Inl _ \<Rightarrow> ((OidcError 500 ''internal error'', []), st)
           | Inr v \<Rightarrow>
               ((OidcRedirect (authorization_url client auth_id challenge),
                 [mk_cookie oidc_flow_cookie_name v oidc_flow_cookie_max_age]),
                oidc_log lh now dw slug auth_id ''oidc_login_initiated'' cid [] [(''tenant'', slug)] st))))"

definition oidc_handle_login ::
  "sso_env \<Rightarrow> login_handler \<Rightarrow> cfg_db \<Rightarrow> gotime \<Rightarrow> draws \<Rightarrow> http_req \<Rightarrow> audit_state \<Rightarrow> oidc_result" where
  "oidc_handle_login env lh cfg now dw r st =
     (let auth_id = query_value (hq_query r) ''authRequestID''; slug = hq_tenant r in
      if auth_id = [] then ((OidcError 400 ''missing authRequestID'', []), st)
      else if slug = [] then ((OidcError 400 ''missing tenant'', []), st)
      else case auth_request_by_id auth_id (audit_db st) of
          Inl _ \<Rightarrow> ((OidcError 404 ''auth request not found'', []), st)
        | Inr a \<Rightarrow>
      (case app_get slug (ar_client_id a) cfg of
          Inl _ \<Rightarrow> ((OidcError 404 ''application not found'', []), st)
        | Inr app \<Rightarrow>
            if has_custom_login app \<and> lh_pending lh
            then oidc_custom_login env lh now dw slug auth_id (ar_client_id a) app st
            else oidc_cognito_login env lh cfg now dw slug auth_id (ar_client_id a) app st))"

text \<open>Both ways back end alike: the auth request gets the claims of the token.\<close>

definition oidc_finish ::
  "login_handler \<Rightarrow> gotime \<Rightarrow> draws \<Rightarrow> string \<Rightarrow> string \<Rightarrow> identity_source \<Rightarrow> (string \<times> string) list \<Rightarrow> jwt_payload
     \<Rightarrow> audit_state \<Rightarrow> (unit res \<times> audit_state)" where
  "oidc_finish lh now dw slug auth_id src how payload st =
     (let claims = extract_claims payload in
      case on_db (complete_auth_request now auth_id (subject_claims_from_cognito (Some claims))) st of
        (Inl e, st1) \<Rightarrow> (Inl e, st1)
      | (Inr _, st1) \<Rightarrow>
          (Inr (), oidc_log lh now dw slug auth_id ''oidc_login_complete'' (s_client_id src) (c_email claims)
                     ([(''status'', ''success'')] @ how @ [(''tenant'', slug), (''sub'', c_sub claims)]) st1))"

definition oidc_return_url :: "login_handler \<Rightarrow> string \<Rightarrow> string \<Rightarrow> string" where
  "oidc_return_url lh slug auth_id =
     lh_base_url lh @ ''/t/'' @ slug @ ''/oidc/authorize/callback?id='' @ query_escape auth_id"

definition oidc_handle_callback ::
  "sso_env \<Rightarrow> login_handler \<Rightarrow> cfg_db \<Rightarrow> gotime \<Rightarrow> draws \<Rightarrow> http_req \<Rightarrow> audit_state \<Rightarrow> oidc_result" where
  "oidc_handle_callback env lh cfg now dw r st =
     (let code = query_value (hq_query r) ''code''; callback_state = query_value (hq_query r) ''state'';
          raw = query_value (hq_cookies r) oidc_flow_cookie_name in
      if code = [] then ((OidcError 400 ''missing authorization code'', []), st)
      else if callback_state = [] then ((OidcError 400 ''missing state parameter'', []), st)
      else if raw = [] then ((OidcError 400 ''missing flow cookie'', []), st)
      else case oidc_signed_decode env lh raw of
          Inl _ \<Rightarrow> ((OidcError 400 ''invalid flow cookie'', []), st)
        | Inr s \<Rightarrow>
      if unix now - ofs_created_at s > oidc_flow_cookie_max_age then ((OidcError 400 ''flow expired'', []), st)
      else if callback_state \<noteq> ofs_auth_request_id s
      then ((OidcError 403 ''state parameter mismatch'', []), st)
      else let slug = ofs_tenant_slug s in case source_get slug (ofs_source_id s) cfg of
          Inl _ \<Rightarrow> ((OidcError 500 ''unable to resolve identity provider'', []), st)
        | Inr src \<Rightarrow>
      (case new_auth_client_for_source src (lh_base_url lh @ ''/t/'' @ slug @ ''/oidc/callback'')
              (Some no_secret_fetcher) of
          Inl _ \<Rightarrow> ((OidcError 500 ''internal error'', []), st)
        | Inr client \<Rightarrow>
      (case exchange_code (sv_cognito env) client code (ofs_verifier s) of
          Inl _ \<Rightarrow> ((OidcError 502 ''token exchange failed'', []), st)
        | Inr tok \<Rightarrow>
      if s_pool_id src = [] \<or> s_region src = []
      then ((OidcError 500 ''unable to verify id token'', []), st)
      else case oidc_verify_token env now src tok of
          Inl (BadSource _) \<Rightarrow> ((OidcError 400 ''invalid identity source configuration'', []), st)
        | Inl (BadToken _) \<Rightarrow> ((OidcError 502 ''invalid id token'', []), st)
        | Inr payload \<Rightarrow>
      (case oidc_finish lh now dw slug (ofs_auth_request_id s) src [] payload st of
          (Inl _, st1) \<Rightarrow> ((OidcError 500 ''failed to complete auth request'', []), st1)
        | (Inr _, st1) \<Rightarrow>
            ((OidcRedirect (oidc_return_url lh slug (ofs_auth_request_id s)),
              [mk_cookie oidc_flow_cookie_name [] (-1)]), st1)))))"

definition oidc_handle_login_redirect :: "http_req \<Rightarrow> audit_state \<Rightarrow> oidc_outcome" where
  "oidc_handle_login_redirect r st =
     (let auth_id = query_value (hq_query r) ''authRequestID'' in
      if auth_id = [] then OidcError 400 ''missing authRequestID''
      else case auth_request_by_id auth_id (audit_db st) of
          Inl _ \<Rightarrow> OidcError 404 ''auth request not found''
        | Inr a \<Rightarrow>
            let slug = (if ar_tenant_slug a = [] then ''default'' else ar_tenant_slug a)
            in OidcRedirect (''/t/'' @ slug @ ''/oidc/login?authRequestID='' @ query_escape auth_id))"

definition oidc_handle_login_complete ::
  "sso_env \<Rightarrow> login_handler \<Rightarrow> cfg_db \<Rightarrow> gotime \<Rightarrow> draws \<Rightarrow> http_req \<Rightarrow> audit_state \<Rightarrow> oidc_result" where
  "oidc_handle_login_complete env lh cfg now dw r st =
     (let slug = hq_tenant r;
          bt = oidc_bearer_token r;
          tok = (if bt = [] then trim_space (query_value (hq_form r) ''id_token'') else bt);
          qs = query_value (hq_query r) ''state'';
          flow = (if qs = [] then trim_space (query_value (hq_form r) ''state'') else qs) in
      if slug = [] then ((OidcError 400 ''missing tenant'', []), st)
      else if hq_bad_form r then ((OidcError 400 ''invalid request'', []), st)
      else if \<not> lh_pending lh then ((OidcError 500 ''custom login not configured'', []), st)
      else if tok = [] then ((OidcError 400 ''missing id token'', []), st)
      else if flow = [] then ((OidcError 400 ''missing state'', []), st)
      else case oidc_verify_login_binding env lh now r flow of
          Inl _ \<Rightarrow> ((OidcError 403 ''login flow not bound to this browser'', []), st)
        | Inr _ \<Rightarrow>
      (case pending_get now flow (audit_db st) of
          Inl _ \<Rightarrow> ((OidcError 400 ''invalid or expired login flow'', []), st)
        | Inr pl \<Rightarrow>
      if pl_protocol pl \<noteq> ''oidc'' then ((OidcError 400 ''invalid or expired login flow'', []), st)
      else if pl_tenant_slug pl \<noteq> slug then ((OidcError 400 ''tenant mismatch'', []), st)
      else let st1 = snd (on_db (pending_delete flow) st); cks = [oidc_clear_login_binding_cookie] in
        case source_get (pl_tenant_slug pl) (pl_source_id pl) cfg of
          Inl _ \<Rightarrow> ((OidcError 500 ''unable to resolve identity provider'', cks), st1)
        | Inr src \<Rightarrow>
      if s_pool_id src = [] \<or> s_region src = []
      then ((OidcError 400 ''identity source does not support token authentication'', cks), st1)
      else case oidc_verify_token env now src tok of
          Inl (BadSource _) \<Rightarrow> ((OidcError 400 ''invalid identity source configuration'', cks), st1)
        | Inl (BadToken _) \<Rightarrow> ((OidcError 401 ''invalid id token'', cks), st1)
        | Inr payload \<Rightarrow>
      (case oidc_finish lh now dw (pl_tenant_slug pl) (pl_auth_request_id pl) src [(''method'', ''custom_login'')]
              payload st1 of
          (Inl _, st2) \<Rightarrow> ((OidcError 500 ''failed to complete auth request'', cks), st2)
        | (Inr _, st2) \<Rightarrow> ((OidcRedirect (oidc_return_url lh slug (pl_auth_request_id pl)), cks), st2))))"

subsection \<open>Provider requests\<close>

definition issuer_from_request :: "string \<Rightarrow> string \<Rightarrow> string" where
  "issuer_from_request base header =
     (let slug = (if header = [] then ''default'' else header)
      in trim_suffix base ''/'' @ ''/t/'' @ slug @ ''/oidc'')"

text \<open>
  The request the provider sees for a path below \<^verbatim>\<open>/t/{tenant}/oidc/\<close>: the tenant header is the path's,
  whatever the client sent, and the path is the rest.
\<close>

definition oidc_dispatch :: "string \<Rightarrow> string \<Rightarrow> (oidc_outcome + (string \<times> string))" where
  "oidc_dispatch slug remaining =
     (if slug = [] then Inl (OidcError 400 ''missing tenant'')
      else Inr (slug, if has_prefix remaining ''/'' then remaining else CHR ''/'' # remaining))"

text \<open>Publishing the signing keys that are not active; a key that cannot be loaded is left out.\<close>

fun add_backup_verification_key ::
  "(string \<Rightarrow> 'k option res) \<Rightarrow> string \<Rightarrow> string list \<Rightarrow> 'k key_set \<Rightarrow> 'k key_set" where
  "add_backup_verification_key load active [] ks = ks"
| "add_backup_verification_key load active (kid # kids) ks =
     add_backup_verification_key load active kids
       (if kid = [] \<or> kid = active then ks
        else case load kid of Inl _ \<Rightarrow> ks | Inr jwk \<Rightarrow> add_verification_key kid jwk ks)"

end
