(* ===== verification/OidcLifecycle.thy ===== *)
theory OidcLifecycle
  imports OidcClaims AuditStore AppLookup
begin

text \<open>
  The life of the tokens: the session table as a state machine whose steps are all the operations
  that write it, the invariant that every live token can be reached from the index row of its user
  and client, and what a logout, a rotation and a revocation therefore achieve. The machine runs on
  a backend that answers; what a failing delete does to a rotation is a property of its own.
\<close>

subsection \<open>The index invariant\<close>

text \<open>The owner of a stored token: its kind, value, subject and client.\<close>

definition token_of :: "ses_row \<Rightarrow> (token_type \<times> string \<times> string \<times> string) option" where
  "token_of r =
     (case r_item r of
        AccessItem _ a \<Rightarrow> Some (TokAccess, at_token_id a, c_sub (at_claims a), at_client_id a)
      | RefreshItem _ t \<Rightarrow> Some (TokRefresh, rt_token t, c_sub (rt_claims t), rt_client_id t)
      | _ \<Rightarrow> None)"

definition token_key :: "token_type \<Rightarrow> string \<Rightarrow> string" where
  "token_key ty tok =
     (case ty of TokAccess \<Rightarrow> mkey (access_token_pk tok) meta_sk
               | TokRefresh \<Rightarrow> mkey (refresh_token_pk tok) meta_sk)"

definition index_pk :: "(string \<Rightarrow> string) \<Rightarrow> string \<Rightarrow> string \<Rightarrow> string" where
  "index_pk tn sub cid = session_index_pk (tn cid) sub cid"

definition index_row :: "(string \<Rightarrow> string) \<Rightarrow> int \<Rightarrow> token_type \<Rightarrow> string \<Rightarrow> string \<Rightarrow> string \<Rightarrow> ses_row" where
  "index_row tn ttl ty tok sub cid =
     ses_row (index_pk tn sub cid) (session_index_sk tok) (IndexItem ttl ty tok)"

definition index_key :: "(string \<Rightarrow> string) \<Rightarrow> string \<Rightarrow> string \<Rightarrow> string \<Rightarrow> string" where
  "index_key tn tok sub cid = mkey (index_pk tn sub cid) (session_index_sk tok)"

text \<open>
  \<open>tn\<close> is the tenant that owns a client. Every token row stands at its own key; a token with an
  owner is indexed under it; an index row that names a live token stands in the partition of the
  token's owner and has its kind; a value is a token of one kind only.
\<close>

definition oidc_inv :: "(string \<Rightarrow> string) \<Rightarrow> ses_db \<Rightarrow> bool" where
  "oidc_inv tn d \<longleftrightarrow> db_wf d \<and>
     (\<forall>k r ty tok sub cid. lookup d k = Some r \<longrightarrow> token_of r = Some (ty, tok, sub, cid) \<longrightarrow>
        k = token_key ty tok \<and> no_hash tok \<and>
        (sub \<noteq> [] \<and> cid \<noteq> [] \<longrightarrow>
           (\<exists>ttl. lookup d (index_key tn tok sub cid) = Some (index_row tn ttl ty tok sub cid))) \<and>
        (\<forall>k' m ttl ty'. lookup d k' = Some m \<longrightarrow> r_item m = IndexItem ttl ty' tok \<longrightarrow>
           r_pk m = index_pk tn sub cid \<and> ty' = ty) \<and>
        (\<forall>k' m ty' sub' cid'. lookup d k' = Some m \<longrightarrow> token_of m = Some (ty', tok, sub', cid') \<longrightarrow>
           ty' = ty)) \<and>
     (\<forall>k m ttl ty tok. lookup d k = Some m \<longrightarrow> r_item m = IndexItem ttl ty tok \<longrightarrow> no_hash tok)"

definition mentions :: "ses_row \<Rightarrow> string \<Rightarrow> bool" where
  "mentions r tok \<longleftrightarrow>
     (case r_item r of
        AccessItem _ a \<Rightarrow> at_token_id a = tok
      | RefreshItem _ t \<Rightarrow> rt_token t = tok
      | IndexItem _ _ x \<Rightarrow> x = tok
      | _ \<Rightarrow> False)"

text \<open>A random value that is no token and no reference yet.\<close>

definition fresh :: "string \<Rightarrow> ses_db \<Rightarrow> bool" where
  "fresh tok d \<longleftrightarrow> tok \<noteq> [] \<and> list_all (\<lambda>(k, r). \<not> mentions r tok) (data d)"

definition ok_db :: "'i db \<Rightarrow> bool" where
  "ok_db d \<longleftrightarrow> fault d = (\<lambda>_. False)"

lemma freshD:
  assumes "fresh tok d" and "lookup d k = Some r"
  shows "token_of r \<noteq> Some (ty, tok, sub, cid)" "r_item r \<noteq> IndexItem ttl ty tok"
proof -
  have "(k, r) \<in> set (data d)" using assms(2) by (simp add: lookup_def map_of_SomeD)
  then have "\<not> mentions r tok" using assms(1) by (auto simp: fresh_def list_all_iff)
  then show "token_of r \<noteq> Some (ty, tok, sub, cid)" "r_item r \<noteq> IndexItem ttl ty tok"
    by (auto simp: mentions_def token_of_def split: ses_item.splits)
qed

lemma fresh_nonempty: "fresh tok d \<Longrightarrow> tok \<noteq> []"
  by (simp add: fresh_def)

lemma oidc_invD:
  assumes "oidc_inv tn d" and "lookup d k = Some r" and "token_of r = Some (ty, tok, sub, cid)"
  shows "k = token_key ty tok" "no_hash tok"
    "sub \<noteq> [] \<Longrightarrow> cid \<noteq> [] \<Longrightarrow>
       \<exists>ttl. lookup d (index_key tn tok sub cid) = Some (index_row tn ttl ty tok sub cid)"
    "lookup d k' = Some m \<Longrightarrow> r_item m = IndexItem ttl ty' tok \<Longrightarrow>
       r_pk m = index_pk tn sub cid \<and> ty' = ty"
    "lookup d k' = Some m \<Longrightarrow> token_of m = Some (ty', tok, sub', cid') \<Longrightarrow> ty' = ty"
  using assms unfolding oidc_inv_def by blast+

lemma oidc_inv_index:
  "oidc_inv tn d \<Longrightarrow> lookup d k = Some m \<Longrightarrow> r_item m = IndexItem ttl ty tok \<Longrightarrow> no_hash tok"
  unfolding oidc_inv_def by blast

lemma oidc_inv_wf: "oidc_inv tn d \<Longrightarrow> db_wf d"
  by (simp add: oidc_inv_def)

lemma oidc_inv_empty [simp]: "oidc_inv tn empty_db"
  by (simp add: oidc_inv_def)

text \<open>The last segment of a key can be read off when it holds no separator.\<close>

lemma append_sep_inject_last:
  assumes "c \<notin> set b" and "c \<notin> set b'"
  shows "a @ c # b = a' @ c # b' \<longleftrightarrow> a = a' \<and> b = b'"
proof -
  have "a @ c # b = a' @ c # b' \<longleftrightarrow> rev b @ c # rev a = rev b' @ c # rev a'"
    by (metis append.assoc append_Cons append_Nil rev.simps(2) rev_append rev_rev_ident)
  then show ?thesis using append_sep_inject [of c "rev b" "rev b'" "rev a" "rev a'"] assms by auto
qed

lemma index_key_token:
  assumes "no_hash tok" "no_hash tok'"
  shows "mkey p (session_index_sk tok) = mkey p' (session_index_sk tok') \<longleftrightarrow> p = p' \<and> tok = tok'"
proof -
  have "mkey p (session_index_sk tok) = mkey p' (session_index_sk tok') \<longleftrightarrow>
      (p @ ''#TOKEN'') @ CHR ''#'' # tok = (p' @ ''#TOKEN'') @ CHR ''#'' # tok'"
    by (simp add: mkey_def session_index_sk_def)
  then show ?thesis using append_sep_inject_last [OF assms, of "p @ ''#TOKEN''" "p' @ ''#TOKEN''"] by simp
qed

lemma token_key_inject [simp]: "token_key ty tok = token_key ty' tok' \<longleftrightarrow> ty = ty' \<and> tok = tok'"
  by (cases ty; cases ty') (simp_all add: token_key_def)

lemma token_key_index [simp]: "token_key ty tok \<noteq> index_key tn tok' sub cid"
  "index_key tn tok' sub cid \<noteq> token_key ty tok"
  by (cases ty; simp add: token_key_def index_key_def index_pk_def)+

lemma token_of_simps [simp]:
  "token_of (ses_row pk sk (AccessItem ttl a)) =
     Some (TokAccess, at_token_id a, c_sub (at_claims a), at_client_id a)"
  "token_of (ses_row pk sk (RefreshItem ttl t)) =
     Some (TokRefresh, rt_token t, c_sub (rt_claims t), rt_client_id t)"
  "token_of (ses_row pk sk (IndexItem ttl ty tok)) = None"
  "token_of (ses_row pk sk (AuthReqItem ttl a')) = None"
  "token_of (ses_row pk sk (AuthCodeItem ttl i)) = None"
  by (simp_all add: token_of_def)

subsection \<open>What keeps it\<close>

text \<open>A change that adds neither tokens nor index rows and drops no index row of a surviving token.\<close>

lemma oidc_inv_shrink:
  assumes inv: "oidc_inv tn d" and wf: "db_wf d'"
    and old: "\<And>k r. lookup d' k = Some r \<Longrightarrow> token_of r \<noteq> None \<or> (\<exists>ttl ty tok. r_item r = IndexItem ttl ty tok) \<Longrightarrow>
      lookup d k = Some r"
    and keep: "\<And>k r ty tok sub cid. lookup d' k = Some r \<Longrightarrow> token_of r = Some (ty, tok, sub, cid) \<Longrightarrow>
      lookup d' (index_key tn tok sub cid) = lookup d (index_key tn tok sub cid)"
  shows "oidc_inv tn d'"
  unfolding oidc_inv_def
proof (intro conjI allI impI wf)
  fix k r ty tok sub cid
  assume a: "lookup d' k = Some r" "token_of r = Some (ty, tok, sub, cid)"
  have d: "lookup d k = Some r" using old [OF a(1)] a(2) by simp
  note inv' = oidc_invD [OF inv d a(2)]
  show "k = token_key ty tok" "no_hash tok" by (rule inv'(1), rule inv'(2))
  show "\<exists>ttl. lookup d' (index_key tn tok sub cid) = Some (index_row tn ttl ty tok sub cid)"
    if "sub \<noteq> [] \<and> cid \<noteq> []"
    using inv'(3) that keep [OF a] by simp
  show "r_pk m = index_pk tn sub cid" "ty' = ty"
    if "lookup d' k' = Some m" "r_item m = IndexItem ttl ty' tok" for k' m ttl ty'
    using inv'(4) [OF old [OF that(1)] that(2)] that(2) by blast+
  show "ty' = ty" if "lookup d' k' = Some m" "token_of m = Some (ty', tok, sub', cid')"
    for k' m ty' sub' cid'
    using inv'(5) [OF old [OF that(1)] that(2)] that(2) by simp
next
  show "no_hash tok" if "lookup d' k = Some m" "r_item m = IndexItem ttl ty tok" for k m ttl ty tok
    using oidc_inv_index [OF inv old [OF that(1)] that(2)] that(2) by blast
qed

definition index_free :: "string \<Rightarrow> bool" where
  "index_free k \<longleftrightarrow> (\<forall>t u c s. k \<noteq> mkey (session_index_pk t u c) s)"

lemma index_free_simps [simp]:
  "index_free (mkey (access_token_pk a) x)" "index_free (mkey (refresh_token_pk a) x)"
  "index_free (mkey (auth_request_pk a) x)" "index_free (mkey (auth_code_pk a) x)"
  "index_free (mkey (session_pk a) x)" "index_free (mkey (replay_pk a) x)"
  "index_free (mkey (pending_login_pk a) x)" "index_free (mkey (tenant_pk a) x)"
  "index_free (mkey (flow_pk a f) x)"
  by (simp_all add: index_free_def) (simp_all add: mkey_def ses_pk_defs)

lemma index_free_key [simp]: "index_free k \<Longrightarrow> k \<noteq> index_key tn tok sub cid"
  by (auto simp: index_free_def index_key_def index_pk_def)

lemma put_other_inv:
  assumes "oidc_inv tn d" and "index_free (row_key r)" and "token_of r = None"
    and "\<And>ttl ty tok. r_item r \<noteq> IndexItem ttl ty tok" and "r_pk r \<noteq> []"
  shows "oidc_inv tn (snd (db_put r d))"
proof (rule oidc_inv_shrink [OF assms(1)])
  show "db_wf (snd (db_put r d))" by (rule db_wf_put [OF oidc_inv_wf [OF assms(1)]])
  show "lookup d k = Some x" if "lookup (snd (db_put r d)) k = Some x"
    "token_of x \<noteq> None \<or> (\<exists>ttl ty tok. r_item x = IndexItem ttl ty tok)" for k x
  proof -
    have "x \<noteq> r" using that(2) assms(3,4) by auto
    then show ?thesis using that(1) by (auto simp: db_put_def split: if_splits)
  qed
  show "lookup (snd (db_put r d)) (index_key tn tok sub cid) = lookup d (index_key tn tok sub cid)"
    for k x ty tok sub cid
    using assms(2) mem.put_keeps by (metis index_free_key)
qed

lemma put_new_other_inv:
  assumes "oidc_inv tn d" and "index_free (row_key r)" and "token_of r = None"
    and "\<And>ttl ty tok. r_item r \<noteq> IndexItem ttl ty tok"
  shows "oidc_inv tn (snd (db_put_new r d))"
proof (rule oidc_inv_shrink [OF assms(1)])
  show "db_wf (snd (db_put_new r d))" by (rule db_wf_put_new [OF oidc_inv_wf [OF assms(1)]])
  show "lookup d k = Some x" if "lookup (snd (db_put_new r d)) k = Some x"
    "token_of x \<noteq> None \<or> (\<exists>ttl ty tok. r_item x = IndexItem ttl ty tok)" for k x
    using that assms(3,4) by (auto simp: db_put_new_def split: if_splits option.splits)
  show "lookup (snd (db_put_new r d)) (index_key tn tok sub cid) = lookup d (index_key tn tok sub cid)"
    for k x ty tok sub cid
    using assms(2) mem.put_new_keeps by (metis index_free_key)
qed

lemma delete_other_inv:
  assumes "oidc_inv tn d" and "index_free (mkey pk sk)"
  shows "oidc_inv tn (snd (db_delete pk sk d))"
proof (rule oidc_inv_shrink [OF assms(1)])
  show "db_wf (snd (db_delete pk sk d))" by (rule db_wf_del [OF oidc_inv_wf [OF assms(1)]])
  show "lookup d k = Some x" if "lookup (snd (db_delete pk sk d)) k = Some x" for k x
    using that by (auto simp: db_delete_lookup split: if_splits)
  show "lookup (snd (db_delete pk sk d)) (index_key tn tok sub cid) = lookup d (index_key tn tok sub cid)"
    for k x ty tok sub cid
    using assms(2) mem.del_keeps by (metis index_free_key)
qed

text \<open>An index row may be dropped once its token is gone.\<close>

lemma delete_index_inv:
  assumes inv: "oidc_inv tn d" and "no_hash ref"
    and gone: "\<And>k r ty sub cid. lookup d k = Some r \<Longrightarrow> token_of r \<noteq> Some (ty, ref, sub, cid)"
  shows "oidc_inv tn (snd (db_delete pk (session_index_sk ref) d))"
proof (rule oidc_inv_shrink [OF inv])
  let ?d = "snd (db_delete pk (session_index_sk ref) d)"
  show "db_wf ?d" by (rule db_wf_del [OF oidc_inv_wf [OF inv]])
  show old: "lookup d k = Some x" if "lookup ?d k = Some x" for k x
    using that by (auto simp: db_delete_lookup split: if_splits)
  show "lookup ?d (index_key tn tok sub cid) = lookup d (index_key tn tok sub cid)"
    if t: "lookup ?d k = Some x" "token_of x = Some (ty, tok, sub, cid)" for k x ty tok sub cid
  proof -
    have "tok \<noteq> ref" using gone [OF old [OF t(1)]] t(2) by auto
    then have "index_key tn tok sub cid \<noteq> mkey pk (session_index_sk ref)"
      using index_key_token [OF oidc_invD(2) [OF inv old [OF t(1)] t(2)] assms(2)]
      by (simp add: index_key_def)
    then show ?thesis by (rule mem.del_keeps)
  qed
qed

text \<open>Issuing a token: its row, then its index row, the token value not in use before.\<close>

definition index_put :: "(string \<Rightarrow> string) \<Rightarrow> int \<Rightarrow> token_type \<Rightarrow> string \<Rightarrow> string \<Rightarrow> string \<Rightarrow> ses_db \<Rightarrow> ses_db" where
  "index_put tn ttl ty tok sub cid d =
     (if sub = [] \<or> cid = [] \<or> tok = [] then d else snd (db_put (index_row tn ttl ty tok sub cid) d))"

lemma issue_inv:
  assumes inv: "oidc_inv tn d" and "ok_db d" and fr: "fresh tok d" and nh: "no_hash tok"
    and r: "token_of r = Some (ty, tok, sub, cid)" "row_key r = token_key ty tok" "r_pk r \<noteq> []"
  shows "oidc_inv tn (index_put tn ttl ty tok sub cid (snd (db_put r d)))" (is "oidc_inv tn ?d2")
proof -
  let ?d1 = "snd (db_put r d)"
  let ?own = "sub \<noteq> [] \<and> cid \<noteq> []"
  let ?i = "index_row tn ttl ty tok sub cid"
  have nf: "fault d = (\<lambda>_. False)" using assms(2) by (simp add: ok_db_def)
  have l1: "lookup ?d1 k = (if k = token_key ty tok then Some r else lookup d k)" for k
    using nf r by (simp add: db_put_def)
  have key: "row_key ?i = index_key tn tok sub cid" "r_pk ?i \<noteq> []"
    by (simp_all add: index_row_def index_key_def index_pk_def session_index_pk_def)
  have l2: "lookup ?d2 k = (if ?own \<and> k = index_key tn tok sub cid then Some ?i else lookup ?d1 k)" for k
    using nf key fresh_nonempty [OF fr] by (simp add: index_put_def) (simp add: db_put_def lookup_def update_conv)
  have l3: "m = ?i \<or> m = r \<or> lookup d k = Some m" if "lookup ?d2 k = Some m" for k m
    using that l1 [of k] l2 [of k] by (metis option.inject)
  have wf: "db_wf ?d2"
    using inv by (simp add: index_put_def db_wf_put oidc_inv_wf)
  have ti: "token_of ?i = None" by (simp add: index_row_def)
  have ri: "r_item r \<noteq> IndexItem ttl' ty' tok'" for ttl' ty' tok'
    using r(1) by (auto simp: token_of_def split: ses_item.splits)
  show ?thesis
    unfolding oidc_inv_def
  proof (intro conjI allI impI wf)
    fix k x ty1 tok1 sub1 cid1
    assume a: "lookup ?d2 k = Some x" "token_of x = Some (ty1, tok1, sub1, cid1)"
    have x1: "lookup ?d1 k = Some x" using a ti by (auto simp: l2 split: if_splits)
    have cases: "(k = token_key ty tok \<and> x = r \<and> ty1 = ty \<and> tok1 = tok \<and> sub1 = sub \<and> cid1 = cid) \<or>
        (lookup d k = Some x \<and> tok1 \<noteq> tok)"
    proof (cases "k = token_key ty tok")
      case True
      then have x: "x = r" using x1 by (simp add: l1)
      have "(ty1, tok1, sub1, cid1) = (ty, tok, sub, cid)" using a(2) r(1) unfolding x by simp
      then show ?thesis using True x by simp
    next
      case False
      then have x0: "lookup d k = Some x" using x1 by (simp add: l1)
      then have "tok1 \<noteq> tok" using a(2) freshD(1) [OF fr] by blast
      then show ?thesis using x0 by blast
    qed
    have i_ok: "(\<exists>ttl. lookup ?d2 (index_key tn tok sub cid) = Some (index_row tn ttl ty tok sub cid))" if ?own
      using that l2 by auto
    show "k = token_key ty1 tok1" "no_hash tok1"
      using cases oidc_invD(1,2) [OF inv _ a(2)] nh by blast+
    show "\<exists>ttl. lookup ?d2 (index_key tn tok1 sub1 cid1) = Some (index_row tn ttl ty1 tok1 sub1 cid1)"
      if own: "sub1 \<noteq> [] \<and> cid1 \<noteq> []"
      using cases
    proof (elim disjE conjE)
      assume old: "lookup d k = Some x" "tok1 \<noteq> tok"
      note i = oidc_invD [OF inv old(1) a(2)]
      have "index_key tn tok1 sub1 cid1 \<noteq> index_key tn tok sub cid"
        using index_key_token [OF i(2) nh] old(2) by (simp add: index_key_def)
      then have "lookup ?d2 (index_key tn tok1 sub1 cid1) = lookup d (index_key tn tok1 sub1 cid1)"
        by (auto simp: l2 l1)
      then show ?thesis using i(3) own by simp
    qed (use i_ok own in blast)
    show "r_pk m = index_pk tn sub1 cid1" "ty' = ty1"
      if m: "lookup ?d2 k' = Some m" "r_item m = IndexItem ttl' ty' tok1" for k' m ttl' ty'
    proof -
      have "m \<noteq> r" using m(2) ri by blast
      then consider (i) "m = ?i" | (d) "lookup d k' = Some m" "tok1 \<noteq> tok"
        using l3 [OF m(1)] freshD [OF fr] m(2) by blast
      then have "r_pk m = index_pk tn sub1 cid1 \<and> ty' = ty1"
      proof cases
        case i
        then have "tok1 = tok" "ty' = ty" using m(2) by (auto simp: index_row_def)
        then show ?thesis using cases i by (auto simp: index_row_def)
      next
        case d
        then have "lookup d k = Some x" using cases by blast
        from oidc_invD(4) [OF inv this a(2) d(1) m(2)] show ?thesis .
      qed
      then show "r_pk m = index_pk tn sub1 cid1" "ty' = ty1" by blast+
    qed
    show "ty' = ty1" if m: "lookup ?d2 k' = Some m" "token_of m = Some (ty', tok1, sub', cid')"
      for k' m ty' sub' cid'
    proof -
      have "m \<noteq> ?i" using m(2) ti by auto
      then consider (r) "m = r" | (d) "lookup d k' = Some m" "tok1 \<noteq> tok"
        using l3 [OF m(1)] freshD [OF fr] m(2) by blast
      then show ?thesis
      proof cases
        case r
        then have "tok1 = tok" "ty' = ty" using m(2) assms(5) by auto
        then show ?thesis using cases by blast
      next
        case d
        then have "lookup d k = Some x" using cases by blast
        from oidc_invD(5) [OF inv this a(2) d(1) m(2)] show ?thesis .
      qed
    qed
  next
    show "no_hash tok1" if m: "lookup ?d2 k = Some m" "r_item m = IndexItem ttl' ty' tok1" for k m ttl' ty' tok1
    proof -
      have "m \<noteq> r" using m(2) ri by blast
      then consider "m = ?i" | "lookup d k = Some m" using l3 [OF m(1)] by blast
      then show ?thesis
      proof cases
        case 1
        then show ?thesis using m(2) nh by (simp add: index_row_def)
      next
        case 2
        then show ?thesis using oidc_inv_index [OF inv _ m(2)] by blast
      qed
    qed
  qed
qed

lemma index_session_token_put:
  "tenant_slug_from_issuer issuer = tn cid \<Longrightarrow>
     index_session_token issuer sub cid ty tok ttl d = index_put tn ttl ty tok sub cid d"
  by (simp add: index_session_token_def index_put_def index_row_def index_pk_def best_effort_def)


subsection \<open>The operations in closed form\<close>

lemma ok_db_simps [simp]:
  "ok_db (snd (db_put r d)) = ok_db d" "ok_db (snd (db_put_new r d)) = ok_db d"
  "ok_db (snd (db_delete pk sk d)) = ok_db d" "ok_db empty_db"
  "ok_db (index_put tn ttl ty tok sub cid d) = ok_db d"
  by (simp_all add: ok_db_def index_put_def) (simp add: empty_db_def)

lemma ok_db_put: "ok_db d \<Longrightarrow> r_pk r \<noteq> [] \<Longrightarrow> db_put r d = (Inr (), snd (db_put r d))"
  by (simp add: ok_db_def db_put_def)

lemma ok_db_put_case:
  assumes "ok_db d" and "r_pk r \<noteq> []"
  shows "(case db_put r d of (v, d') \<Rightarrow> case v of Inl e \<Rightarrow> f e d' | Inr u \<Rightarrow> g u d') =
     g () (snd (db_put r d))"
  by (subst ok_db_put [OF assms]) simp

lemma ok_db_put_lookup:
  "ok_db d \<Longrightarrow> r_pk r \<noteq> [] \<Longrightarrow>
     lookup (snd (db_put r d)) k = (if k = row_key r then Some r else lookup d k)"
  using db_put_ok [OF ok_db_put] by blast

lemma ok_db_get_as:
  "ok_db d \<Longrightarrow> get_as f pk sk d = (case lookup d (mkey pk sk) of None \<Rightarrow> Inl ErrNotFound | Some r \<Rightarrow>
     (case f r of None \<Rightarrow> Inl wrong_kind | Some x \<Rightarrow> Inr x))"
  by (auto simp: ok_db_def get_as_def db_get_def split: option.splits)

lemma ok_db_delete_lookup:
  "ok_db d \<Longrightarrow> lookup (snd (db_delete pk sk d)) k = (if k = mkey pk sk then None else lookup d k)"
  by (simp add: ok_db_def db_delete_lookup)

definition access_row :: "string \<Rightarrow> gotime \<Rightarrow> token_request \<Rightarrow> ses_row" where
  "access_row tok expiration req =
     ses_row (access_token_pk tok) meta_sk (AccessItem (unix (expiration + hours 1))
       \<lparr>at_token_id = tok, at_audience = req_audience req, at_scopes = req_scopes req,
        at_client_id = req_client_id req, at_expires_at = expiration,
        at_claims = (claims_from_request req)\<lparr>c_sub := req_subject req\<rparr>\<rparr>)"

definition refresh_row ::
  "string \<Rightarrow> gotime \<Rightarrow> token_request \<Rightarrow> string list \<times> gotime \<Rightarrow> ses_row" where
  "refresh_row tok expiry req auth =
     ses_row (refresh_token_pk tok) meta_sk (RefreshItem (unix (expiry + hours 1))
       \<lparr>rt_token = tok, rt_client_id = req_client_id req, rt_audience = req_audience req,
        rt_scopes = req_scopes req, rt_amr = fst auth, rt_auth_time = snd auth,
        rt_expires_at = expiry,
        rt_claims = (claims_from_request req)\<lparr>c_sub := req_subject req\<rparr>\<rparr>)"

lemma token_rows [simp]:
  "token_of (access_row tok x req) = Some (TokAccess, tok, req_subject req, req_client_id req)"
  "token_of (refresh_row tok x req au) = Some (TokRefresh, tok, req_subject req, req_client_id req)"
  "row_key (access_row tok x req) = token_key TokAccess tok"
  "row_key (refresh_row tok x req au) = token_key TokRefresh tok"
  "r_pk (access_row tok x req) \<noteq> []" "r_pk (refresh_row tok x req au) \<noteq> []"
  by (simp_all add: access_row_def refresh_row_def token_key_def access_token_pk_def refresh_token_pk_def)

text \<open>The state after an access token, and after a pair with the retired token dropped.\<close>

definition with_access ::
  "(string \<Rightarrow> string) \<Rightarrow> string \<Rightarrow> gotime \<Rightarrow> token_request \<Rightarrow> ses_db \<Rightarrow> ses_db" where
  "with_access tn tok expiration req d =
     index_put tn (unix (expiration + hours 1)) TokAccess tok (req_subject req) (req_client_id req)
       (snd (db_put (access_row tok expiration req) d))"

definition with_refresh ::
  "(string \<Rightarrow> string) \<Rightarrow> string \<Rightarrow> gotime \<Rightarrow> token_request \<Rightarrow> string list \<times> gotime \<Rightarrow> ses_db \<Rightarrow> ses_db" where
  "with_refresh tn tok expiry req auth d =
     index_put tn (unix (expiry + hours 1)) TokRefresh tok (req_subject req) (req_client_id req)
       (snd (db_put (refresh_row tok expiry req auth) d))"

definition without_refresh ::
  "(string \<Rightarrow> string) \<Rightarrow> string \<Rightarrow> token_request \<Rightarrow> ses_db \<Rightarrow> ses_db" where
  "without_refresh tn current req d =
     (let d1 = snd (db_delete (refresh_token_pk current) meta_sk d) in
      if req_subject req = [] \<or> req_client_id req = [] \<or> current = [] then d1
      else snd (db_delete (index_pk tn (req_subject req) (req_client_id req))
                  (session_index_sk current) d1))"

lemma create_access_token_ok:
  fixes cfg :: cfg_db and now :: gotime
  assumes "ok_db d" and "tenant_slug_from_issuer issuer = tn (req_client_id req)"
    and "generate_opaque_token rnd = Inr tok"
  defines "x \<equiv> now + access_token_lifetime (req_client_id req) cfg"
  shows "create_access_token rnd now issuer cfg req d = (Inr (tok, x), with_access tn tok x req d)"
proof -
  have "r_pk (ses_row (access_token_pk tok) sk i) \<noteq> []" for sk i
    by (simp add: access_token_pk_def)
  then show ?thesis
    using assms(3) index_session_token_put [of issuer tn, OF assms(2)]
    by (simp add: create_access_token_def Let_def with_access_def access_row_def x_def
        ok_db_put_case [OF assms(1)])
qed

lemma create_pair_ok:
  fixes cfg :: cfg_db and now :: gotime
  assumes "ok_db d" and tn: "tenant_slug_from_issuer issuer = tn (req_client_id req)"
    and gen: "generate_opaque_token rnd = Inr acc" "generate_opaque_token rnd2 = Inr tok"
    and au: "refreshable req = Some auth"
  defines "x \<equiv> now + access_token_lifetime (req_client_id req) cfg"
    and "y \<equiv> now + refresh_token_lifetime (req_client_id req) cfg"
  shows "create_access_and_refresh_tokens rnd rnd2 now issuer cfg req current d =
    (Inr (acc, tok, x),
     let d' = with_refresh tn tok y req auth (with_access tn acc x req d)
     in if current \<noteq> [] \<and> current \<noteq> tok then without_refresh tn current req d' else d')"
proof -
  note a = create_access_token_ok [of d issuer tn, OF assms(1) tn gen(1), where cfg = cfg and now = now,
    folded x_def]
  let ?d1 = "with_access tn acc x req d"
  have ok: "ok_db ?d1" using assms(1) by (simp add: with_access_def)
  have "r_pk (ses_row (refresh_token_pk tok) sk i) \<noteq> []" for sk i
    by (simp add: refresh_token_pk_def)
  then show ?thesis
    unfolding create_access_and_refresh_tokens_def a
    using gen(2) au index_session_token_put [of issuer tn, OF tn] tn
    by (cases auth) (simp add: Let_def with_refresh_def refresh_row_def y_def without_refresh_def
        delete_session_token_index_def best_effort_def index_pk_def ok_db_put_case [OF ok])
qed

lemma ok_with [simp]:
  "ok_db (with_access tn tok x req d) = ok_db d"
  "ok_db (with_refresh tn tok x req au d) = ok_db d"
  "ok_db (without_refresh tn tok req d) = ok_db d"
  by (simp_all add: with_access_def with_refresh_def without_refresh_def Let_def)

lemma with_access_inv:
  assumes "oidc_inv tn d" "ok_db d" "fresh tok d" "no_hash tok"
  shows "oidc_inv tn (with_access tn tok x req d)"
  unfolding with_access_def by (rule issue_inv [OF assms]) simp_all

lemma with_refresh_inv:
  assumes "oidc_inv tn d" "ok_db d" "fresh tok d" "no_hash tok"
  shows "oidc_inv tn (with_refresh tn tok x req au d)"
  unfolding with_refresh_def by (rule issue_inv [OF assms]) simp_all

text \<open>Dropping a refresh token that is no access token, and what a sweep leaves.\<close>

lemma token_at:
  assumes "oidc_inv tn d" "lookup d k = Some r" "token_of r = Some (ty, tok, sub, cid)"
  shows "lookup d (token_key ty tok) = Some r"
  using oidc_invD(1) [OF assms] assms(2) by simp

lemma without_refresh_inv:
  assumes inv: "oidc_inv tn d" and ok: "ok_db d" and nh: "no_hash current"
    and no: "lookup d (token_key TokAccess current) = None"
  shows "oidc_inv tn (without_refresh tn current req d)"
proof -
  let ?d1 = "snd (db_delete (refresh_token_pk current) meta_sk d)"
  have inv1: "oidc_inv tn ?d1" by (rule delete_other_inv [OF inv]) simp
  have l: "lookup ?d1 k = (if k = token_key TokRefresh current then None else lookup d k)" for k
    by (simp add: ok_db_delete_lookup [OF ok] token_key_def)
  have "token_of r \<noteq> Some (ty, current, sub, cid)" if "lookup ?d1 k = Some r" for k r ty sub cid
  proof
    assume t: "token_of r = Some (ty, current, sub, cid)"
    from token_at [OF inv1 that t] show False
      using no by (cases ty) (auto simp: l split: if_splits)
  qed
  then have "oidc_inv tn (snd (db_delete pk (session_index_sk current) ?d1))" for pk
    using delete_index_inv [OF inv1 nh] by blast
  then show ?thesis using inv1 by (simp add: without_refresh_def Let_def)
qed

lemma sweep_lookup:
  "ok_db d \<Longrightarrow> lookup (sweep ipk rows d) k =
     (if \<exists>(ty, ref)\<in>set rows. k = token_key ty ref \<or> k = mkey ipk (session_index_sk ref)
      then None else lookup d k)"
proof (induction ipk rows d rule: sweep.induct)
  case (2 ipk ty ref rows d)
  let ?d1 = "case ty of TokRefresh \<Rightarrow> best_effort (db_delete (refresh_token_pk ref) meta_sk d)
    | TokAccess \<Rightarrow> best_effort (db_delete (access_token_pk ref) meta_sk d)"
  let ?d2 = "best_effort (db_delete ipk (session_index_sk ref) ?d1)"
  have ok1: "ok_db ?d1" using 2(2) by (cases ty) (simp_all add: best_effort_def)
  then have ok2: "ok_db ?d2" by (simp add: best_effort_def)
  have "lookup ?d1 k = (if k = token_key ty ref then None else lookup d k)" for k
    using 2(2) by (cases ty) (simp_all add: best_effort_def ok_db_delete_lookup token_key_def)
  then have l: "lookup ?d2 k = (if k = token_key ty ref \<or> k = mkey ipk (session_index_sk ref)
      then None else lookup d k)"
    using ok_db_delete_lookup [OF ok1] by (simp add: best_effort_def)
  show ?case
    unfolding sweep.simps 2(1) [OF ok2] l by auto
qed simp

lemma sweep_fault: "fault (sweep ipk rows d) = fault d"
  by (induction ipk rows d rule: sweep.induct) (auto simp: best_effort_def split: token_type.split)

lemma sweep_wf: "db_wf d \<Longrightarrow> db_wf (sweep ipk rows d)"
  by (induction ipk rows d rule: sweep.induct)
    (auto simp: best_effort_def db_wf_del split: token_type.split)

text \<open>The index rows a logout finds: those whose key begins with the partition of the user and client.\<close>

lemma index_rows_iff:
  assumes "db_wf d" and "db_query ipk (session_index_sk []) d = Inr rows"
  shows "(ty, ref) \<in> set (List.map_filter as_index rows) \<longleftrightarrow>
    (\<exists>r ttl. lookup d (row_key r) = Some r \<and> has_prefix (row_key r) (ipk @ ''#'') \<and>
       has_prefix (r_sk r) (session_index_sk []) \<and> r_item r = IndexItem ttl ty ref)"
  using db_query_set [OF assms]
  by (fastforce simp: set_map_filter_iff session_index_sk_def)

lemma sweep_inv:
  assumes inv: "oidc_inv tn d" and ok: "ok_db d"
    and rows: "\<And>ty ref. (ty, ref) \<in> set rows \<Longrightarrow>
      \<exists>k m ttl. lookup d k = Some m \<and> r_item m = IndexItem ttl ty ref"
  shows "oidc_inv tn (sweep ipk rows d)"
proof (rule oidc_inv_shrink [OF inv sweep_wf [OF oidc_inv_wf [OF inv]]])
  note l = sweep_lookup [OF ok, of ipk rows]
  show old: "lookup d k = Some r" if "lookup (sweep ipk rows d) k = Some r" for k r
    using that by (simp add: l split: if_splits)
  show "lookup (sweep ipk rows d) (index_key tn tok sub cid) = lookup d (index_key tn tok sub cid)"
    if live: "lookup (sweep ipk rows d) k = Some r" and t: "token_of r = Some (ty, tok, sub, cid)"
    for k r ty tok sub cid
  proof -
    note d = old [OF live]
    have "mkey ipk (session_index_sk ref) \<noteq> index_key tn tok sub cid" if row: "(ty', ref) \<in> set rows" for ty' ref
    proof
      assume eq: "mkey ipk (session_index_sk ref) = index_key tn tok sub cid"
      from rows [OF row] obtain k' m ttl where m: "lookup d k' = Some m" "r_item m = IndexItem ttl ty' ref"
        by blast
      have "tok = ref"
        using eq index_key_token [OF oidc_invD(2) [OF inv d t] oidc_inv_index [OF inv m]]
        unfolding index_key_def by metis
      then have "ty' = ty" "k = token_key ty ref"
        using oidc_invD(4) [OF inv d t m(1)] m(2) oidc_invD(1) [OF inv d t] by auto
      then show False using live row unfolding l by (auto split: if_splits)
    qed
    then show ?thesis unfolding l by (auto split: if_splits) metis
  qed
qed

end
