(* ===== verification/OidcReach.thy ===== *)
theory OidcReach
  imports OidcLifecycle
begin

text \<open>
  The session table as a state machine: its steps are the operations of
  \<^verbatim>\<open>internal/oidc/storage.go\<close> and of the session stores of \<^verbatim>\<open>internal/store\<close>, in any order and with
  any arguments. In every reachable table the index invariant of the tokens holds; a logout
  therefore reaches every token of its user and client, and no other.
\<close>

subsection \<open>The steps\<close>

text \<open>Random values that are no token yet.\<close>

definition fresh_random :: "8 word list option \<Rightarrow> ses_db \<Rightarrow> bool" where
  "fresh_random rnd d \<longleftrightarrow>
     (case generate_opaque_token rnd of Inl _ \<Rightarrow> True | Inr t \<Rightarrow> fresh t d)"

text \<open>
  \<open>tn\<close> names the tenant of each client: requests for a client arrive under the issuer of its tenant
  (\<open>get_client_by_client_id\<close> refuses the others). The token a rotation retires is the refresh token
  presented, which is no access token, neither a stored one nor the one being issued.
\<close>

inductive ses_step :: "(string \<Rightarrow> string) \<Rightarrow> ses_db \<Rightarrow> ses_db \<Rightarrow> bool" for tn where
  access: "tenant_slug_from_issuer issuer = tn (req_client_id req) \<Longrightarrow> fresh_random rnd d \<Longrightarrow>
    ses_step tn d (snd (create_access_token rnd now issuer cfg req d))"
| pair: "tenant_slug_from_issuer issuer = tn (req_client_id req) \<Longrightarrow> fresh_random rnd d \<Longrightarrow>
    fresh_random rnd2 d \<Longrightarrow> generate_opaque_token rnd2 \<noteq> generate_opaque_token rnd \<Longrightarrow>
    generate_opaque_token rnd \<noteq> Inr current \<Longrightarrow> no_hash current \<Longrightarrow> lookup d (token_key TokAccess current) = None \<Longrightarrow>
    ses_step tn d (snd (create_access_and_refresh_tokens rnd rnd2 now issuer cfg req current d))"
| refresh: "ses_step tn d (snd (token_request_by_refresh_token now cfg tok d))"
| terminate: "ses_step tn d (snd (terminate_session issuer user cid d))"
| revoke: "ses_step tn d (snd (revoke_token tok user cid d))"
| auth_create: "ses_step tn d (snd (create_auth_request rnd now issuer areq d))"
| auth_code: "ses_step tn d (snd (save_auth_code now i code d))"
| auth_complete: "ses_step tn d (snd (complete_auth_request now i c d))"
| auth_delete: "ses_step tn d (snd (delete_auth_request i d))"
| participant: "ses_step tn d (snd (add_participant now idx sp user name_id expiry d))"
| saml_revoke: "ses_step tn d (snd (revoke_session now idx d))"
| seen: "ses_step tn d (snd (mark_seen now i ttl d))"
| pending: "ses_step tn d (snd (pending_create now pl ttl d))"
| pending_done: "ses_step tn d (snd (pending_delete flow d))"
| wizard: "ses_step tn d (snd (onboarding_put now st d))"
| wizard_done: "ses_step tn d (snd (onboarding_delete slug d))"
| audit: "ses_step tn d (audit_db (snd (log_step now rnd slug flow ty sp user payload
    \<lparr>seq_num = n, audit_db = d\<rparr>)))"

inductive ses_reach :: "(string \<Rightarrow> string) \<Rightarrow> ses_db \<Rightarrow> bool" for tn where
  start: "ses_reach tn empty_db"
| more: "ses_reach tn d \<Longrightarrow> ses_step tn d d' \<Longrightarrow> ses_reach tn d'"

inductive_cases ses_stepE: "ses_step tn d d'"

subsection \<open>The invariant\<close>

definition ses_inv :: "(string \<Rightarrow> string) \<Rightarrow> ses_db \<Rightarrow> bool" where
  "ses_inv tn d \<longleftrightarrow> oidc_inv tn d \<and> ok_db d"

lemma fresh_randomD: "fresh_random rnd d \<Longrightarrow> generate_opaque_token rnd = Inr t \<Longrightarrow> fresh t d \<and> no_hash t"
  by (auto simp: fresh_random_def generate_opaque_token_no_hash)

lemma fresh_with_access:
  assumes "ok_db d" "fresh t d" "t \<noteq> tok" and wf: "db_wf d"
  shows "fresh t (with_access tn tok x req d)"
proof -
  have m: "\<not> mentions (access_row tok x req) t" "\<not> mentions (index_row tn ttl ty tok s c) t" for ttl ty s c
    using assms(3) by (simp_all add: mentions_def access_row_def index_row_def)
  have put: "fresh t (snd (db_put r d'))" if "fresh t d'" "\<not> mentions r t" for r and d' :: ses_db
    using that by (auto simp: fresh_def list_all_iff db_put_def dest!: set_alist_update)
  show ?thesis unfolding with_access_def index_put_def using put m assms(2) by simp
qed

lemma access_step_inv:
  assumes "ses_inv tn d" and "tenant_slug_from_issuer issuer = tn (req_client_id req)" "fresh_random rnd d"
  shows "ses_inv tn (snd (create_access_token rnd now issuer cfg req d))"
proof (cases "generate_opaque_token rnd")
  case (Inl e)
  then show ?thesis using assms(1) by (simp add: create_access_token_def)
next
  case (Inr tok)
  then show ?thesis
    using assms create_access_token_ok [of d issuer tn, OF _ assms(2) Inr] with_access_inv
      fresh_randomD [OF assms(3) Inr] by (simp add: ses_inv_def)
qed


lemma lookup_with_access:
  assumes "ok_db d"
  shows "lookup (with_access tn tok x req d) k =
     (if k = token_key TokAccess tok then Some (access_row tok x req)
      else if req_subject req \<noteq> [] \<and> req_client_id req \<noteq> [] \<and> tok \<noteq> [] \<and>
              k = index_key tn tok (req_subject req) (req_client_id req)
      then Some (index_row tn (unix (x + hours 1)) TokAccess tok (req_subject req) (req_client_id req))
      else lookup d k)"
proof -
  have key: "row_key (index_row tn ttl ty tok s c) = index_key tn tok s c" "r_pk (index_row tn ttl ty tok s c) \<noteq> []"
    for ttl ty s c
    by (simp_all add: index_row_def index_key_def index_pk_def session_index_pk_def)
  show ?thesis
    using assms by (auto simp: with_access_def index_put_def ok_db_put_lookup key)
qed

lemma lookup_with_refresh:
  assumes "ok_db d"
  shows "lookup (with_refresh tn tok x req au d) k =
     (if k = token_key TokRefresh tok then Some (refresh_row tok x req au)
      else if req_subject req \<noteq> [] \<and> req_client_id req \<noteq> [] \<and> tok \<noteq> [] \<and>
              k = index_key tn tok (req_subject req) (req_client_id req)
      then Some (index_row tn (unix (x + hours 1)) TokRefresh tok (req_subject req) (req_client_id req))
      else lookup d k)"
proof -
  have key: "row_key (index_row tn ttl ty tok s c) = index_key tn tok s c" "r_pk (index_row tn ttl ty tok s c) \<noteq> []"
    for ttl ty s c
    by (simp_all add: index_row_def index_key_def index_pk_def session_index_pk_def)
  show ?thesis
    using assms by (auto simp: with_refresh_def index_put_def ok_db_put_lookup key)
qed

lemma without_refresh_fst_inv:
  assumes inv: "ses_inv tn d" and nh: "no_hash current"
    and no: "lookup d (token_key TokAccess current) = None"
  shows "ses_inv tn (without_refresh tn current req d)"
  using assms without_refresh_inv by (simp add: ses_inv_def)

text \<open>The pair is issued and the presented token dropped, or nothing but an access token is issued.\<close>

lemma pair_step_inv:
  assumes inv: "ses_inv tn d" and tn: "tenant_slug_from_issuer issuer = tn (req_client_id req)"
    and fr: "fresh_random rnd d" "fresh_random rnd2 d" "generate_opaque_token rnd2 \<noteq> generate_opaque_token rnd"
    and cur: "generate_opaque_token rnd \<noteq> Inr current" "no_hash current"
      "lookup d (token_key TokAccess current) = None"
  shows "ses_inv tn (snd (create_access_and_refresh_tokens rnd rnd2 now issuer cfg req current d))"
proof (cases "generate_opaque_token rnd")
  case (Inl e)
  then show ?thesis
    using inv by (simp add: create_access_and_refresh_tokens_def create_access_token_def)
next
  case (Inr acc)
  have ok: "ok_db d" using inv by (simp add: ses_inv_def)
  define x where "x = now + access_token_lifetime (req_client_id req) cfg"
  note a = create_access_token_ok [of d issuer tn, OF ok tn Inr, of now cfg, folded x_def]
  have inv1: "ses_inv tn (with_access tn acc x req d)"
    using access_step_inv [OF inv tn fr(1), of now cfg] a by simp
  show ?thesis
  proof (cases "\<exists>tok auth. refreshable req = Some auth \<and> generate_opaque_token rnd2 = Inr tok")
    case False
    then have "snd (create_access_and_refresh_tokens rnd rnd2 now issuer cfg req current d) =
        with_access tn acc x req d"
      using a by (auto simp: create_access_and_refresh_tokens_def split: option.split sum.split)
    then show ?thesis using inv1 by simp
  next
    case True
    then obtain tok auth where t: "refreshable req = Some auth" "generate_opaque_token rnd2 = Inr tok" by blast
    have ne: "tok \<noteq> acc" using fr(3) t(2) Inr by auto
    have f2: "fresh tok (with_access tn acc x req d)" "no_hash tok"
      using fresh_randomD [OF fr(2) t(2)] ne inv fresh_with_access [OF ok] by (auto simp: ses_inv_def oidc_inv_wf)
    define y where "y = now + refresh_token_lifetime (req_client_id req) cfg"
    define d' where "d' = with_refresh tn tok y req auth (with_access tn acc x req d)"
    have inv2: "ses_inv tn d'"
      using with_refresh_inv f2 inv1 by (simp add: ses_inv_def d'_def)
    have "lookup d' (token_key TokAccess current) = None"
      using cur(1,3) Inr ok by (simp add: d'_def lookup_with_refresh lookup_with_access)
    then have "ses_inv tn (without_refresh tn current req d')"
      by (rule without_refresh_fst_inv [OF inv2 cur(2)])
    then show ?thesis
      using inv2 create_pair_ok [of d issuer tn, OF ok tn Inr t(2) t(1), of now cfg current]
      by (simp add: x_def y_def d'_def Let_def)
  qed
qed

subsection \<open>The other steps\<close>

text \<open>What writes only rows of other kinds, at keys outside the index.\<close>

definition plain :: "ses_row \<Rightarrow> bool" where
  "plain r \<longleftrightarrow> index_free (row_key r) \<and> r_pk r \<noteq> [] \<and> token_of r = None \<and>
     (\<forall>ttl ty tok. r_item r \<noteq> IndexItem ttl ty tok)"

lemma plain_put: "ses_inv tn d \<Longrightarrow> plain r \<Longrightarrow> ses_inv tn (snd (db_put r d))"
  using put_other_inv by (simp add: ses_inv_def plain_def)

lemma plain_put_new: "ses_inv tn d \<Longrightarrow> plain r \<Longrightarrow> ses_inv tn (snd (db_put_new r d))"
  using put_new_other_inv by (simp add: ses_inv_def plain_def)

lemma plain_delete: "ses_inv tn d \<Longrightarrow> index_free (mkey pk sk) \<Longrightarrow> ses_inv tn (snd (db_delete pk sk d))"
  using delete_other_inv by (simp add: ses_inv_def)

lemma plain_rows [simp]:
  "plain (ses_row (auth_request_pk i) x (AuthReqItem ttl a))"
  "plain (ses_row (auth_code_pk i) x (AuthCodeItem ttl c))"
  "plain (ses_row (session_pk i) x (ParticipantItem ttl p))"
  "plain (ses_row (session_pk i) x (RevokedItem rv))"
  "plain (ses_row (replay_pk i) x (ReplayItem rr))"
  "plain (ses_row (pending_login_pk i) x (PendingItem pl))"
  "plain (ses_row (tenant_pk i) x (OnboardingItem ttl ob))"
  "plain (ses_row (flow_pk i f) x (FlowStepItem ttl g h fs))"
  by (simp_all add: plain_def token_of_def) (simp_all add: ses_pk_defs)

lemma snd_case_put [simp]:
  "snd (case p of (v, d') \<Rightarrow> case v of Inl e \<Rightarrow> (f e, d') | Inr u \<Rightarrow> (g u, d')) = snd p"
  by (simp split: prod.split sum.split)

lemmas plain_intros = plain_put plain_put_new plain_delete

lemma auth_steps_inv:
  assumes "ses_inv tn d"
  shows "ses_inv tn (snd (create_auth_request rnd now issuer areq d))"
    "ses_inv tn (snd (save_auth_code now i code d))"
    "ses_inv tn (snd (complete_auth_request now i c d))"
    "ses_inv tn (snd (delete_auth_request i d))"
proof -
  show "ses_inv tn (snd (create_auth_request rnd now issuer areq d))"
    using assms by (simp add: create_auth_request_def Let_def plain_put split: sum.split)
  show "ses_inv tn (snd (complete_auth_request now i c d))"
    using assms by (simp add: complete_auth_request_def Let_def plain_put split: sum.split prod.split)
  let ?r = "ses_row (auth_code_pk code) meta_sk (AuthCodeItem (unix (now + minutes 10)) i)"
  have "ses_inv tn (snd (db_put ?r d))" using assms by (simp add: plain_put)
  then show "ses_inv tn (snd (save_auth_code now i code d))"
    by (cases "db_put ?r d") (auto simp: save_auth_code_def best_effort_def plain_put split: sum.split)
  have "ses_inv tn (best_effort (db_delete (auth_code_pk (ar_auth_code a)) meta_sk d))" for a
    using assms by (simp add: best_effort_def plain_delete)
  then show "ses_inv tn (snd (delete_auth_request i d))"
    using assms by (auto intro!: plain_delete simp: delete_auth_request_def Let_def split: sum.split prod.split)
qed

lemma session_steps_inv:
  assumes "ses_inv tn d"
  shows "ses_inv tn (snd (add_participant now idx sp user name_id expiry d))"
    "ses_inv tn (snd (revoke_session now idx d))"
    "ses_inv tn (snd (mark_seen now i ttl d))"
    "ses_inv tn (snd (pending_create now pl ttl d))"
    "ses_inv tn (snd (pending_delete flow d))"
    "ses_inv tn (snd (onboarding_put now st d))"
    "ses_inv tn (snd (onboarding_delete slug d))"
    "ses_inv tn (audit_db (snd (log_step now rnd slug flow ty sp user payload \<lparr>seq_num = n, audit_db = d\<rparr>)))"
  using assms
  by (simp_all add: add_participant_def revoke_snd mark_seen_snd pending_create_def pending_delete_def
      onboarding_put_def onboarding_delete_def plain_intros split: option.split)
    (simp add: log_step_def Let_def plain_put split: prod.split sum.split; metis plain_put plain_rows(8) snd_conv)

lemma revoke_token_inv:
  assumes "ses_inv tn d"
  shows "ses_inv tn (snd (revoke_token tok user cid d))"
  using assms by (simp add: revoke_token_def plain_delete split: sum.split)

lemma refresh_request_inv:
  assumes "ses_inv tn d"
  shows "ses_inv tn (snd (token_request_by_refresh_token now cfg tok d))"
  using assms by (simp add: token_request_by_refresh_token_def best_effort_def plain_delete split: sum.split)

lemma terminate_inv:
  assumes "ses_inv tn d"
  shows "ses_inv tn (snd (terminate_session issuer user cid d))"
proof -
  have i: "oidc_inv tn d" "ok_db d" using assms by (simp_all add: ses_inv_def)
  let ?ipk = "session_index_pk (tenant_slug_from_issuer issuer) user cid"
  have "ses_inv tn (sweep ?ipk (List.map_filter as_index rows) d)"
    if q: "db_query ?ipk (session_index_sk []) d = Inr rows" for rows
  proof -
    have "oidc_inv tn (sweep ?ipk (List.map_filter as_index rows) d)"
    proof (rule sweep_inv [OF i])
      fix ty ref assume "(ty, ref) \<in> set (List.map_filter as_index rows)"
      then show "\<exists>k m ttl. lookup d k = Some m \<and> r_item m = IndexItem ttl ty ref"
        unfolding index_rows_iff [OF oidc_inv_wf [OF i(1)] q] by blast
    qed
    then show ?thesis using i(2) by (simp add: ses_inv_def ok_db_def sweep_fault)
  qed
  then show ?thesis using assms by (simp add: terminate_session_def Let_def split: sum.split)
qed

lemma ses_step_inv: "ses_step tn d d' \<Longrightarrow> ses_inv tn d \<Longrightarrow> ses_inv tn d'"
  by (induction rule: ses_step.induct)
    (simp_all add: access_step_inv pair_step_inv refresh_request_inv terminate_inv revoke_token_inv
      auth_steps_inv session_steps_inv)

end
