(* ===== verification/OidcSessions.thy ===== *)
theory OidcSessions
  imports OidcReach
begin

text \<open>
  What the life of the tokens guarantees: a logout ends the tokens of its user and client and no
  others, a rotation replaces the presented refresh token, a revocation is the owner's alone.
\<close>

subsection \<open>Reading a token\<close>

lemma ses_reach_inv: "ses_reach tn d \<Longrightarrow> ses_inv tn d"
proof (induction rule: ses_reach.induct)
  case start
  then show ?case by (simp add: ses_inv_def)
next
  case (more d d')
  then show ?case using ses_step_inv by blast
qed

lemma ses_reachD: "ses_reach tn d \<Longrightarrow> oidc_inv tn d \<and> ok_db d"
  using ses_reach_inv by (simp add: ses_inv_def)

lemma get_access_iff:
  assumes "ok_db d"
  shows "get_as as_access (access_token_pk tok) meta_sk d = Inr a \<longleftrightarrow>
    (\<exists>r ttl. lookup d (token_key TokAccess tok) = Some r \<and> r_item r = AccessItem ttl a)"
  using assms by (auto simp: get_as_Inr ok_db_def token_key_def)

lemma get_refresh_iff:
  assumes "ok_db d"
  shows "get_as as_refresh (refresh_token_pk tok) meta_sk d = Inr t \<longleftrightarrow>
    (\<exists>r ttl. lookup d (token_key TokRefresh tok) = Some r \<and> r_item r = RefreshItem ttl t)"
  using assms by (auto simp: get_as_Inr ok_db_def token_key_def)

lemma introspection_ok:
  "set_introspection_from_token now resp tok d = (Inr (), r) \<Longrightarrow>
     \<exists>a. get_as as_access (access_token_pk tok) meta_sk d = Inr a \<and> now < at_expires_at a \<and>
         in_subject r = c_sub (at_claims a) \<and> in_client_id r = at_client_id a \<and>
         in_active r \<and> in_scope r = at_scopes a \<and> in_expiration r = at_expires_at a"
  by (auto simp: set_introspection_from_token_def Let_def split: sum.splits if_splits)

lemma refresh_request_ok:
  "fst (token_request_by_refresh_token now cfg tok d) = Inr q \<longleftrightarrow>
     (\<exists>t. get_as as_refresh (refresh_token_pk tok) meta_sk d = Inr t \<and>
        (rt_expires_at t = zero_time \<or> now \<le> rt_expires_at t) \<and>
        (\<exists>slug app oc. get_by_client_id (rt_client_id t) cfg = Inr (slug, app, oc) \<and>
           a_status app = ''active'') \<and>
        q = \<lparr>rq_client_id = rt_client_id t, rq_subject = c_sub (rt_claims t),
             rq_audience = rt_audience t, rq_scopes = rt_scopes t, rq_amr = rt_amr t,
             rq_auth_time = rt_auth_time t, rq_claims = rt_claims t\<rparr>)"
  by (auto simp: token_request_by_refresh_token_def split: sum.splits if_splits prod.splits)

lemma access_tokenD:
  assumes "oidc_inv tn d" "ok_db d" "get_as as_access (access_token_pk tok) meta_sk d = Inr a"
  shows "\<exists>r. lookup d (token_key TokAccess tok) = Some r \<and>
      token_of r = Some (TokAccess, tok, c_sub (at_claims a), at_client_id a)"
proof -
  obtain r ttl where r: "lookup d (token_key TokAccess tok) = Some r" "r_item r = AccessItem ttl a"
    using assms(3) get_access_iff [OF assms(2)] by blast
  then have t: "token_of r = Some (TokAccess, at_token_id a, c_sub (at_claims a), at_client_id a)"
    by (simp add: token_of_def)
  show ?thesis using oidc_invD(1) [OF assms(1) r(1) t] r t by simp
qed

lemma refresh_tokenD:
  assumes "oidc_inv tn d" "ok_db d" "get_as as_refresh (refresh_token_pk tok) meta_sk d = Inr a"
  shows "\<exists>r. lookup d (token_key TokRefresh tok) = Some r \<and>
      token_of r = Some (TokRefresh, tok, c_sub (rt_claims a), rt_client_id a)"
proof -
  obtain r ttl where r: "lookup d (token_key TokRefresh tok) = Some r" "r_item r = RefreshItem ttl a"
    using assms(3) get_refresh_iff [OF assms(2)] by blast
  then have t: "token_of r = Some (TokRefresh, rt_token a, c_sub (rt_claims a), rt_client_id a)"
    by (simp add: token_of_def)
  show ?thesis using oidc_invD(1) [OF assms(1) r(1) t] r t by simp
qed

subsection \<open>Logout\<close>

lemma terminate_closed:
  assumes "ok_db d" "tenant_slug_from_issuer issuer = tn cid" "user \<noteq> []" "cid \<noteq> []"
  shows "terminate_session issuer user cid d = (Inr (),
    sweep (index_pk tn user cid) (List.map_filter as_index
      (map snd (filter (query_match (index_pk tn user cid) (session_index_sk [])) (data d)))) d)"
  using assms by (simp add: terminate_session_def Let_def db_query_def ok_db_def index_pk_def)

lemma terminate_lookup:
  assumes inv: "oidc_inv tn d" and ok: "ok_db d" and tn: "tenant_slug_from_issuer issuer = tn cid"
    and u: "user \<noteq> []" "cid \<noteq> []"
  shows "lookup (snd (terminate_session issuer user cid d)) k =
    (if \<exists>r ttl ty ref. lookup d (row_key r) = Some r \<and> has_prefix (row_key r) (index_pk tn user cid @ ''#'') \<and>
          has_prefix (r_sk r) (session_index_sk []) \<and> r_item r = IndexItem ttl ty ref \<and>
          (k = token_key ty ref \<or> k = mkey (index_pk tn user cid) (session_index_sk ref))
     then None else lookup d k)"
proof -
  let ?ipk = "index_pk tn user cid"
  let ?rows = "map snd (filter (query_match ?ipk (session_index_sk [])) (data d))"
  have "db_query ?ipk (session_index_sk []) d = Inr ?rows"
    using ok by (simp add: db_query_def ok_db_def)
  note rows = index_rows_iff [OF oidc_inv_wf [OF inv] this]
  have "(\<exists>(ty, ref)\<in>set (List.map_filter as_index ?rows). k = token_key ty ref \<or>
          k = mkey ?ipk (session_index_sk ref)) \<longleftrightarrow>
      (\<exists>r ttl ty ref. lookup d (row_key r) = Some r \<and> has_prefix (row_key r) (?ipk @ ''#'') \<and>
          has_prefix (r_sk r) (session_index_sk []) \<and> r_item r = IndexItem ttl ty ref \<and>
          (k = token_key ty ref \<or> k = mkey ?ipk (session_index_sk ref)))"
    using rows by blast
  then show ?thesis
    using sweep_lookup [OF ok, of ?ipk "List.map_filter as_index ?rows" k]
    by (simp add: terminate_closed [of d issuer tn, OF ok tn u])
qed

text \<open>A token of the user and client is gone; a token that stays was there before.\<close>

lemma terminated_token:
  assumes inv: "oidc_inv tn d" and ok: "ok_db d" and tn: "tenant_slug_from_issuer issuer = tn cid"
    and u: "user \<noteq> []" "cid \<noteq> []"
    and t: "lookup d (token_key ty tok) = Some r" "token_of r = Some (ty, tok, user, cid)"
  shows "lookup (snd (terminate_session issuer user cid d)) (token_key ty tok) = None"
proof -
  obtain ttl where i: "lookup d (index_key tn tok user cid) = Some (index_row tn ttl ty tok user cid)"
    using oidc_invD(3) [OF inv t u] by blast
  let ?i = "index_row tn ttl ty tok user cid"
  have "row_key ?i = index_key tn tok user cid" "has_prefix (row_key ?i) (index_pk tn user cid @ ''#'')"
    "has_prefix (r_sk ?i) (session_index_sk [])" "r_item ?i = IndexItem ttl ty tok"
    by (simp_all add: index_row_def index_key_def mkey_def session_index_sk_def has_prefix_iff)
  then show ?thesis
    using i unfolding terminate_lookup [of tn d issuer, OF inv ok tn u] by metis
qed

lemma terminate_shrinks:
  assumes inv: "oidc_inv tn d" and ok: "ok_db d" and tn: "tenant_slug_from_issuer issuer = tn cid"
    and u: "user \<noteq> []" "cid \<noteq> []"
    and t: "lookup (snd (terminate_session issuer user cid d)) k = Some r"
  shows "lookup d k = Some r"
  using t unfolding terminate_lookup [of tn d issuer, OF inv ok tn u] by (simp split: if_splits)

lemma token_index_free [simp]: "index_free (token_key ty tok)"
  by (cases ty) (simp_all add: token_key_def)

text \<open>Keys of the index partitions of two owners.\<close>

lemma index_prefix:
  assumes "no_hash (tn c)" "no_hash (tn c')" "no_hash u" "no_hash u'" "no_hash c" "no_hash c'"
    and "has_prefix (mkey (index_pk tn u c) s) (index_pk tn u' c' @ ''#'')"
  shows "u = u' \<and> c = c'"
proof -
  obtain x where "mkey (index_pk tn u c) s = mkey (index_pk tn u' c') x"
    using assms(7) by (auto simp: has_prefix_iff mkey_def)
  then show ?thesis
    using assms(1-6) session_index_inject [of "tn c" "tn c'" u u' c c' s x] by (simp add: index_pk_def)
qed

lemma terminate_spares:
  assumes inv: "oidc_inv tn d" and ok: "ok_db d" and tn: "tenant_slug_from_issuer issuer = tn cid"
    and u: "user \<noteq> []" "cid \<noteq> []"
    and nh: "no_hash (tn cid)" "no_hash (tn cid')" "no_hash user" "no_hash user'" "no_hash cid" "no_hash cid'"
    and t: "lookup d (token_key ty tok) = Some r" "token_of r = Some (ty, tok, user', cid')"
    and ne: "(user', cid') \<noteq> (user, cid)"
  shows "lookup (snd (terminate_session issuer user cid d)) (token_key ty tok) = Some r"
proof -
  have no1: "token_key ty tok \<noteq> mkey (index_pk tn user cid) (session_index_sk ref)" for ref
    using token_index_free [of ty tok] unfolding index_free_def index_pk_def by blast
  have no2: "token_key ty tok \<noteq> token_key ty' ref" if m: "lookup d (row_key m) = Some m"
    "r_item m = IndexItem ttl ty' ref" "has_prefix (row_key m) (index_pk tn user cid @ ''#'')"
    for m ttl ty' ref
  proof
    assume "token_key ty tok = token_key ty' ref"
    then have "ref = tok" by simp
    then have "r_pk m = index_pk tn user' cid'" using oidc_invD(4) [OF inv t m(1)] m(2) by blast
    then have "has_prefix (mkey (index_pk tn user' cid') (r_sk m)) (index_pk tn user cid @ ''#'')"
      using m(3) by (simp add: row_key_def)
    from index_prefix [OF nh(2,1,4,3,6,5) this] ne show False by simp
  qed
  show ?thesis
    unfolding terminate_lookup [of tn d issuer, OF inv ok tn u] t(1) using no1 no2 by (metis (no_types))
qed

subsection \<open>A reachable table\<close>

text \<open>A completed request of a user for a client of the tenant acme, and the pair issued for it.\<close>

definition demo_request :: auth_request where
  "demo_request = \<lparr>ar_id = ''r1'', ar_client_id = ''09'', ar_redirect_uri = ''https://app/cb'',
     ar_scopes = [''openid'', ''email''], ar_state = ''s'', ar_nonce = ''n'', ar_response_type = ''code'',
     ar_response_mode = [], ar_code_challenge = None, ar_created_at = 0, ar_auth_time = 5, ar_user_id = ''u1'', ar_is_done = True,
     ar_tenant_slug = ''acme'', ar_source_id = [], ar_auth_code = ''c1'', ar_code_challenge_value = [],
     ar_code_challenge_method = [], ar_email = ''u@x'', ar_given_name = [], ar_family_name = [],
     ar_email_verified = True, ar_groups = [], ar_custom_attributes = []\<rparr>"

definition demo_issuer :: string where
  "demo_issuer = ''https://h/t/acme/oidc''"

definition demo_sessions :: ses_db where
  "demo_sessions = snd (create_access_and_refresh_tokens (Some [1]) (Some [2]) 0 demo_issuer empty_db
     (TRAuth demo_request) [] empty_db)"

lemma demo_slug: "tenant_slug_from_issuer demo_issuer = ''acme''"
  by code_simp

lemma demo_reach: "ses_reach (\<lambda>_. ''acme'') demo_sessions"
  unfolding demo_sessions_def
proof (rule ses_reach.more [OF ses_reach.start], rule ses_step.pair)
  show "tenant_slug_from_issuer demo_issuer = ''acme''" by (rule demo_slug)
  show "fresh_random (Some [1]) empty_db" "fresh_random (Some [2]) empty_db"
    "generate_opaque_token (Some [2]) \<noteq> generate_opaque_token (Some [1])"
    "generate_opaque_token (Some [1]) \<noteq> Inr []"
    by code_simp+
qed simp_all





text \<open>C9: A logout leaves every token of another user or another client as it was, valid for the same
  subject and client, when tenant, user and client names hold no key separator.\<close>

theorem logout_spares_others:
  assumes "ses_reach tn d" and "tenant_slug_from_issuer issuer = tn cid" and "user \<noteq> []" and "cid \<noteq> []"
    and "no_hash user" and "no_hash cid" and "\<And>c. no_hash (tn c)"
  shows "(\<forall>now resp tok r. set_introspection_from_token now resp tok d = (Inr (), r) \<longrightarrow>
       no_hash (in_subject r) \<longrightarrow> no_hash (in_client_id r) \<longrightarrow> (in_subject r, in_client_id r) \<noteq> (user, cid) \<longrightarrow>
       set_introspection_from_token now resp tok (snd (terminate_session issuer user cid d)) = (Inr (), r)) \<and>
    (\<forall>now cfg tok q. fst (token_request_by_refresh_token now cfg tok d) = Inr q \<longrightarrow>
       no_hash (rq_subject q) \<longrightarrow> no_hash (rq_client_id q) \<longrightarrow> (rq_subject q, rq_client_id q) \<noteq> (user, cid) \<longrightarrow>
       fst (token_request_by_refresh_token now cfg tok (snd (terminate_session issuer user cid d))) = Inr q)"
proof -
  have inv: "oidc_inv tn d" and ok: "ok_db d" using ses_reachD [OF assms(1)] by blast+
  let ?d = "snd (terminate_session issuer user cid d)"
  have ok': "ok_db ?d" using terminate_inv [of tn d] inv ok by (simp add: ses_inv_def)
  note spare = terminate_spares [of tn d issuer, OF inv ok assms(2-4) assms(7,7) assms(5) _ assms(6)]
  have acc: "get_as as_access (access_token_pk tok) meta_sk ?d = Inr a"
    if a: "get_as as_access (access_token_pk tok) meta_sk d = Inr a" and
      "no_hash (c_sub (at_claims a))" "no_hash (at_client_id a)" "(c_sub (at_claims a), at_client_id a) \<noteq> (user, cid)"
    for tok a
  proof -
    obtain r where r: "lookup d (token_key TokAccess tok) = Some r"
        "token_of r = Some (TokAccess, tok, c_sub (at_claims a), at_client_id a)"
      using access_tokenD [OF inv ok a] by blast
    have "lookup ?d (token_key TokAccess tok) = Some r" by (rule spare [OF that(2,3) r that(4)])
    then show ?thesis using a r(1) by (auto simp: get_access_iff [OF ok'] get_access_iff [OF ok])
  qed
  have ref: "get_as as_refresh (refresh_token_pk tok) meta_sk ?d = Inr a"
    if a: "get_as as_refresh (refresh_token_pk tok) meta_sk d = Inr a" and
      "no_hash (c_sub (rt_claims a))" "no_hash (rt_client_id a)" "(c_sub (rt_claims a), rt_client_id a) \<noteq> (user, cid)"
    for tok a
  proof -
    obtain r where r: "lookup d (token_key TokRefresh tok) = Some r"
        "token_of r = Some (TokRefresh, tok, c_sub (rt_claims a), rt_client_id a)"
      using refresh_tokenD [OF inv ok a] by blast
    have "lookup ?d (token_key TokRefresh tok) = Some r" by (rule spare [OF that(2,3) r that(4)])
    then show ?thesis using a r(1) by (auto simp: get_refresh_iff [OF ok'] get_refresh_iff [OF ok])
  qed
  have "set_introspection_from_token now resp tok ?d = (Inr (), r)"
    if r: "set_introspection_from_token now resp tok d = (Inr (), r)" "no_hash (in_subject r)"
      "no_hash (in_client_id r)" "(in_subject r, in_client_id r) \<noteq> (user, cid)" for now resp tok r
  proof -
    obtain a where a: "get_as as_access (access_token_pk tok) meta_sk d = Inr a"
        "in_subject r = c_sub (at_claims a)" "in_client_id r = at_client_id a"
      using introspection_ok [OF r(1)] by blast
    then have "get_as as_access (access_token_pk tok) meta_sk ?d = Inr a" using acc r by simp
    then show ?thesis using r(1) a(1) by (simp add: set_introspection_from_token_def)
  qed
  moreover have "fst (token_request_by_refresh_token now cfg tok ?d) = Inr q"
    if q: "fst (token_request_by_refresh_token now cfg tok d) = Inr q" "no_hash (rq_subject q)"
      "no_hash (rq_client_id q)" "(rq_subject q, rq_client_id q) \<noteq> (user, cid)" for now cfg tok q
    using q ref unfolding refresh_request_ok by fastforce
  ultimately show ?thesis by blast
qed

definition blank_introspection :: introspection where
  "blank_introspection = \<lparr>in_active = False, in_subject = [], in_scope = [], in_client_id = [],
     in_token_type = [], in_expiration = 0, in_username = [], in_email = [], in_email_verified = False,
     in_name = [], in_given_name = [], in_family_name = []\<rparr>"

theorem logout_spares_others_witness:
  "\<exists>r. in_subject r = ''u1'' \<and> set_introspection_from_token 1 blank_introspection ''01''
     (snd (terminate_session demo_issuer ''u2'' ''09'' demo_sessions)) = (Inr (), r)"
proof -
  let ?p = "set_introspection_from_token 1 blank_introspection ''01'' demo_sessions"
  have f: "fst ?p = Inr ()" "in_subject (snd ?p) = ''u1''" "in_client_id (snd ?p) = ''09''" by code_simp+
  have p: "?p = (Inr (), snd ?p)" using f(1) by (simp add: prod_eq_iff)
  have "tenant_slug_from_issuer demo_issuer = (\<lambda>_. ''acme'') ''09''" by (simp add: demo_slug)
  from logout_spares_others [OF demo_reach this, of "''u2''"]
  have "set_introspection_from_token 1 blank_introspection ''01''
      (snd (terminate_session demo_issuer ''u2'' ''09'' demo_sessions)) = (Inr (), snd ?p)"
    using p f(2,3) by auto
  then show ?thesis using f(2) by blast
qed

end
