(* ===== verification/OidcTokens.thy ===== *)
theory OidcTokens
  imports OidcSessions
begin

text \<open>
  What one token is good for: the rotation of refresh tokens, the one-time code of the authorization
  flow and the claims it carries to the userinfo endpoint, revocation, introspection, and the
  authentication of a client by its secret.
\<close>

subsection \<open>Rotation\<close>

lemma lookup_without_refresh:
  assumes "ok_db d"
  shows "lookup (without_refresh tn current req d) (token_key ty tok) =
    (if ty = TokRefresh \<and> tok = current then None else lookup d (token_key ty tok))"
proof -
  have ne: "token_key ty tok \<noteq> mkey (index_pk tn u c) x" for u c x
    using token_index_free [of ty tok] unfolding index_free_def index_pk_def by blast
  have "mkey (refresh_token_pk current) meta_sk = token_key TokRefresh current"
    by (simp add: token_key_def)
  then show ?thesis
    using assms ne by (auto simp: without_refresh_def Let_def ok_db_delete_lookup)
qed

lemma get_refresh_token:
  assumes "ok_db d"
  shows "get_as as_refresh (refresh_token_pk tok) meta_sk d =
    (case lookup d (token_key TokRefresh tok) of None \<Rightarrow> Inl ErrNotFound
     | Some r \<Rightarrow> (case as_refresh r of None \<Rightarrow> Inl wrong_kind | Some x \<Rightarrow> Inr x))"
  using ok_db_get_as [OF assms] by (simp add: token_key_def)

lemma get_access_token:
  assumes "ok_db d"
  shows "get_as as_access (access_token_pk tok) meta_sk d =
    (case lookup d (token_key TokAccess tok) of None \<Rightarrow> Inl ErrNotFound
     | Some r \<Rightarrow> (case as_access r of None \<Rightarrow> Inl wrong_kind | Some x \<Rightarrow> Inr x))"
  using ok_db_get_as [OF assms] by (simp add: token_key_def)

lemma as_token_rows [simp]:
  "as_access (access_row tok x req) = Some
     \<lparr>at_token_id = tok, at_audience = req_audience req, at_scopes = req_scopes req,
      at_client_id = req_client_id req, at_expires_at = x,
      at_claims = (claims_from_request req)\<lparr>c_sub := req_subject req\<rparr>\<rparr>"
  "as_refresh (refresh_row tok x req auth) = Some
     \<lparr>rt_token = tok, rt_client_id = req_client_id req, rt_audience = req_audience req,
      rt_scopes = req_scopes req, rt_amr = fst auth, rt_auth_time = snd auth, rt_expires_at = x,
      rt_claims = (claims_from_request req)\<lparr>c_sub := req_subject req\<rparr>\<rparr>"
  by (simp_all add: access_row_def refresh_row_def)


text \<open>A tenant table with one active client, whose identifier is 09.\<close>

definition demo_oidc :: oidc_config where
  "demo_oidc = \<lparr>oc_client_secret = ''k'', oc_redirect_uris = [''https://app/cb''],
     oc_post_logout_redirect_uris = [], oc_grant_types = [], oc_response_types = [], oc_scopes = [],
     oc_token_endpoint_auth_method = [], oc_id_token_lifetime_sec = 0, oc_access_token_lifetime_sec = 30,
     oc_refresh_token_lifetime_sec = 7200\<rparr>"

definition demo_cfg :: cfg_db where
  "demo_cfg = snd (update_oidc_config ''acme'' ''09'' demo_oidc
     (snd (app_create (Some [9]) 0 ''acme'' (sample_app\<lparr>a_protocol := ''oidc''\<rparr>) None empty_db)))"

definition demo_refresh :: refresh_request where
  "demo_refresh = \<lparr>rq_client_id = ''09'', rq_subject = ''u1'', rq_audience = [''09''],
     rq_scopes = [''openid'', ''email''], rq_amr = [''pwd''], rq_auth_time = 5,
     rq_claims = claims_from_request (TRAuth demo_request)\<rparr>"


text \<open>A rotation whose delete of the presented token fails still drops that token's index row: the token
  stays usable, also after a logout that reports success.\<close>

lemma rotation_failing_delete:
  "let d0 = demo_sessions\<lparr>fault := (\<lambda>op. op = OpDelete (token_key TokRefresh ''02''))\<rparr>;
       d1 = snd (create_access_and_refresh_tokens (Some [3]) (Some [4]) 7 demo_issuer demo_cfg
                   (TRRefresh demo_refresh) ''02'' d0);
       p = terminate_session demo_issuer ''u1'' ''09'' (d1\<lparr>fault := (\<lambda>_. False)\<rparr>)
   in fst p = Inr () \<and> fst (token_request_by_refresh_token 9 demo_cfg ''02'' (snd p)) = Inr demo_refresh"
  by code_simp

subsection \<open>The authorization code flow\<close>

text \<open>The request of a finished login, as the code finds it.\<close>

definition logged_in :: "subject_claims \<Rightarrow> gotime \<Rightarrow> string \<Rightarrow> auth_request \<Rightarrow> auth_request" where
  "logged_in c t code a =
     a\<lparr>ar_user_id := c_sub c, ar_is_done := True, ar_auth_time := t, ar_email := c_email c,
       ar_given_name := c_given_name c, ar_family_name := c_family_name c,
       ar_email_verified := c_email_verified c, ar_groups := c_groups c,
       ar_custom_attributes := c_custom_attributes c, ar_auth_code := code\<rparr>"

lemma logged_in_claims [simp]:
  "(claims_from_request (TRAuth (logged_in c t code a)))\<lparr>c_sub := req_subject (TRAuth (logged_in c t code a))\<rparr> = c"
  "req_scopes (TRAuth (logged_in c t code a)) = ar_scopes a"
  "req_client_id (TRAuth (logged_in c t code a)) = ar_client_id a"
  by (simp_all add: logged_in_def claims_from_request_def req_subject_def req_scopes_def req_client_id_def)

lemma auth_pk_nonempty [simp]: "auth_request_pk i \<noteq> []" "auth_code_pk i \<noteq> []"
  by (simp_all add: ses_pk_defs)

lemma create_auth_request_ok:
  assumes "ok_db d" and "create_auth_request rnd now issuer req d = (Inr a, d')"
  shows "ok_db d' \<and> ar_scopes a = ap_scopes req \<and> ar_client_id a = ap_client_id req \<and> ar_auth_code a = [] \<and>
    restore_challenge (a\<lparr>ar_code_challenge := None\<rparr>) = a \<and>
    (\<exists>ttl. lookup d' (mkey (auth_request_pk (ar_id a)) meta_sk) =
      Some (ses_row (auth_request_pk (ar_id a)) meta_sk (AuthReqItem ttl (a\<lparr>ar_code_challenge := None\<rparr>))))"
  using assms(2)
  by (auto simp: create_auth_request_def Let_def ok_db_put_case [OF assms(1)] ok_db_put_lookup assms(1)
      restore_challenge_def split: sum.splits if_splits)

lemma restore_logged_in: "restore_challenge (logged_in c t code a) = logged_in c t code (restore_challenge a)"
  by (simp add: restore_challenge_def logged_in_def)

lemma complete_auth_request_ok:
  assumes "ok_db d" and "lookup d (mkey (auth_request_pk i) meta_sk) =
      Some (ses_row (auth_request_pk i) meta_sk (AuthReqItem ttl a))"
    and "complete_auth_request t i c d = (Inr (), d')"
  shows "ok_db d' \<and> lookup d' (mkey (auth_request_pk i) meta_sk) =
      Some (ses_row (auth_request_pk i) meta_sk (AuthReqItem ttl (logged_in c t (ar_auth_code a) a)))"
  using assms(2,3)
  by (auto simp: complete_auth_request_def ok_db_get_as [OF assms(1)] as_auth_req_def Let_def logged_in_def
      ok_db_put_case [OF assms(1)] ok_db_put_lookup assms(1))

lemma save_auth_code_ok:
  assumes "ok_db d" and "lookup d (mkey (auth_request_pk i) meta_sk) =
      Some (ses_row (auth_request_pk i) meta_sk (AuthReqItem ttl a))"
    and "save_auth_code t i code d = (Inr (), d')"
  shows "ok_db d' \<and> lookup d' (mkey (auth_request_pk i) meta_sk) =
      Some (ses_row (auth_request_pk i) meta_sk (AuthReqItem ttl (a\<lparr>ar_auth_code := code\<rparr>))) \<and>
    (\<exists>ttl'. lookup d' (mkey (auth_code_pk code) meta_sk) =
      Some (ses_row (auth_code_pk code) meta_sk (AuthCodeItem ttl' i)))"
proof -
  let ?c = "ses_row (auth_code_pk code) meta_sk (AuthCodeItem (unix (t + minutes 10)) i)"
  have ok: "ok_db (snd (db_put ?c d))" using assms(1) by simp
  show ?thesis
    using assms(2,3)
    by (auto simp: save_auth_code_def ok_db_put_case [OF assms(1)] ok_db_get_as [OF ok] as_auth_req_def
        ok_db_put_lookup assms(1) best_effort_def)
qed

lemma auth_request_by_code_ok:
  assumes "ok_db d" and "lookup d (mkey (auth_request_pk i) meta_sk) =
      Some (ses_row (auth_request_pk i) meta_sk (AuthReqItem ttl a))"
    and "lookup d (mkey (auth_code_pk code) meta_sk) = Some (ses_row (auth_code_pk code) meta_sk (AuthCodeItem ttl' i))"
  shows "auth_request_by_code code d = Inr (restore_challenge a)"
  using assms(2,3)
  by (simp add: auth_request_by_code_def auth_request_by_id_def ok_db_get_as [OF assms(1)] as_auth_req_def
      as_auth_code_def)

lemma delete_auth_request_lookup:
  assumes "ok_db d" and "lookup d (mkey (auth_request_pk i) meta_sk) =
      Some (ses_row (auth_request_pk i) meta_sk (AuthReqItem ttl a))" and "ar_auth_code a \<noteq> []"
  shows "lookup (snd (delete_auth_request i d)) k =
    (if k = mkey (auth_request_pk i) meta_sk \<or> k = mkey (auth_code_pk (ar_auth_code a)) meta_sk then None
     else lookup d k)"
  using assms by (simp add: delete_auth_request_def Let_def ok_db_get_as as_auth_req_def best_effort_def
      ok_db_delete_lookup)

lemma auth_keys_distinct [simp]:
  "mkey (auth_request_pk i) meta_sk \<noteq> token_key ty tok" "mkey (auth_code_pk i) meta_sk \<noteq> token_key ty tok"
  "mkey (auth_request_pk i) meta_sk \<noteq> index_key tn tok' s c" "mkey (auth_code_pk i) meta_sk \<noteq> index_key tn tok' s c"
  by (cases ty; simp add: token_key_def; fail | simp add: index_key_def index_pk_def)+

lemma userinfo_closed:
  assumes "get_as as_access (access_token_pk tok) meta_sk d = Inr a" and "now < at_expires_at a"
  shows "\<exists>ui. set_userinfo_from_token now issuer cfg empty_userinfo tok subject d = (Inr (), ui) \<and>
    ui_subject ui = subject \<and>
    ui_email ui = (if ''email'' \<in> set (at_scopes a) then c_email (at_claims a) else []) \<and>
    ui_email_verified ui = (''email'' \<in> set (at_scopes a) \<and> c_email_verified (at_claims a)) \<and>
    ui_given_name ui = (if ''profile'' \<in> set (at_scopes a) then c_given_name (at_claims a) else []) \<and>
    ui_family_name ui = (if ''profile'' \<in> set (at_scopes a) then c_family_name (at_claims a) else []) \<and>
    ui_preferred_username ui = (if ''profile'' \<in> set (at_scopes a) then c_email (at_claims a) else []) \<and>
    map_of (ui_claims ui) = map_of (rev (private_claims issuer cfg (at_client_id a) (at_claims a)))"
  using assms
  by (simp add: set_userinfo_from_token_def Let_def apply_private_claims_def apply_standard_closed
      empty_userinfo_def map_of_fold_update)


definition demo_params :: authorize_params where
  "demo_params = \<lparr>ap_client_id = ''09'', ap_redirect_uri = ''https://app/cb'', ap_scopes = [''openid'', ''email''],
     ap_state = ''s'', ap_nonce = ''n'', ap_response_type = ''code'', ap_code_challenge = [],
     ap_code_challenge_method = []\<rparr>"

definition demo_claims :: subject_claims where
  "demo_claims = \<lparr>c_sub = ''u1'', c_email = ''u@x'', c_email_verified = True, c_given_name = ''U'',
     c_family_name = [], c_groups = [''g''], c_custom_attributes = []\<rparr>"

definition demo_auth :: auth_request where
  "demo_auth = (case fst (create_auth_request (Some [5]) 0 demo_issuer demo_params empty_db) of
     Inr a \<Rightarrow> a | Inl _ \<Rightarrow> demo_request)"


subsection \<open>Revocation and introspection\<close>



text \<open>Introspection and the userinfo endpoint accept the same access tokens, those stored and not yet
  expired, and a refusal marks the introspection response inactive and leaves the userinfo response
  empty-handed.\<close>

lemma introspection_userinfo_agree:
  "(fst (set_introspection_from_token now resp tok d) = Inr () \<longleftrightarrow>
      (\<exists>a. get_as as_access (access_token_pk tok) meta_sk d = Inr a \<and> now < at_expires_at a)) \<and>
   (fst (set_userinfo_from_token now issuer cfg ui tok subject d) = Inr () \<longleftrightarrow>
      fst (set_introspection_from_token now resp tok d) = Inr ()) \<and>
   in_active (snd (set_introspection_from_token now (resp\<lparr>in_active := False\<rparr>) tok d)) =
      (fst (set_introspection_from_token now resp tok d) = Inr ()) \<and>
   (fst (set_introspection_from_token now resp tok d) = Inr () \<or>
      snd (set_introspection_from_token now resp tok d) = resp\<lparr>in_active := False\<rparr> \<and>
      snd (set_userinfo_from_token now issuer cfg ui tok subject d) = ui)"
  by (auto simp: set_introspection_from_token_def set_userinfo_from_token_def Let_def split: sum.splits)

text \<open>A refresh token is honoured exactly when it is stored, not expired and its client is registered and
  active; a stored token that is refused is deleted.\<close>

lemma refresh_honoured:
  "((\<exists>q. fst (token_request_by_refresh_token now cfg tok d) = Inr q) \<longleftrightarrow>
     (\<exists>t slug app oc. get_as as_refresh (refresh_token_pk tok) meta_sk d = Inr t \<and>
        (rt_expires_at t = zero_time \<or> now \<le> rt_expires_at t) \<and>
        get_by_client_id (rt_client_id t) cfg = Inr (slug, app, oc) \<and> a_status app = ''active'')) \<and>
   lookup (snd (token_request_by_refresh_token now cfg tok d)) k =
     (if k = mkey (refresh_token_pk tok) meta_sk \<and>
         (\<exists>t. get_as as_refresh (refresh_token_pk tok) meta_sk d = Inr t) \<and>
         fst (token_request_by_refresh_token now cfg tok d) = Inl err_invalid_refresh_token \<and>
         \<not> fault d (OpDelete (mkey (refresh_token_pk tok) meta_sk))
      then None else lookup d k)"
proof
  show "(\<exists>q. fst (token_request_by_refresh_token now cfg tok d) = Inr q) \<longleftrightarrow>
     (\<exists>t slug app oc. get_as as_refresh (refresh_token_pk tok) meta_sk d = Inr t \<and>
        (rt_expires_at t = zero_time \<or> now \<le> rt_expires_at t) \<and>
        get_by_client_id (rt_client_id t) cfg = Inr (slug, app, oc) \<and> a_status app = ''active'')"
    unfolding refresh_request_ok by blast
  show "lookup (snd (token_request_by_refresh_token now cfg tok d)) k =
     (if k = mkey (refresh_token_pk tok) meta_sk \<and>
         (\<exists>t. get_as as_refresh (refresh_token_pk tok) meta_sk d = Inr t) \<and>
         fst (token_request_by_refresh_token now cfg tok d) = Inl err_invalid_refresh_token \<and>
         \<not> fault d (OpDelete (mkey (refresh_token_pk tok) meta_sk))
      then None else lookup d k)"
    by (simp add: token_request_by_refresh_token_def best_effort_def db_delete_lookup split: sum.split)
qed

subsection \<open>Clients\<close>

text \<open>C11: A client authenticates exactly when its application is registered, active and of the tenant of the
  request's issuer, and either it is a public client or its stored secret is not empty and is the one
  presented.\<close>

theorem client_authenticates:
  "authorize_client_id_secret issuer cfg cid secret = Inr () \<longleftrightarrow>
     (\<exists>slug app oc. get_by_client_id cid cfg = Inr (slug, app, oc) \<and>
        tenant_slug_from_issuer issuer \<in> {[], slug} \<and> a_status app = ''active'' \<and>
        (case oc of None \<Rightarrow> False
         | Some o' \<Rightarrow> oc_token_endpoint_auth_method o' = ''none'' \<or>
             (oc_client_secret o' \<noteq> [] \<and> oc_client_secret o' = secret)))"
  by (auto simp: authorize_client_id_secret_def get_client_by_client_id_def client_auth_method_def Let_def
      split: sum.splits option.splits if_splits)

text \<open>Every access token lives at least a minute and at most a day, whatever lifetime the client is
  configured with, and the stored expiry is the one the response announces.\<close>

lemma access_lifetime_bounds:
  assumes "create_access_token rnd now issuer cfg req d = (Inr (tok, x), d')"
  shows "now + seconds 60 \<le> x \<and> x \<le> now + seconds 86400 \<and>
    (\<exists>r ttl a. lookup d' (mkey (access_token_pk tok) meta_sk) = Some r \<and>
       r_item r = AccessItem ttl a \<and> at_expires_at a = x)"
proof -
  have life: "seconds 60 \<le> access_token_lifetime cid cfg \<and> access_token_lifetime cid cfg \<le> seconds 86400" for cid
  proof -
    have "seconds 60 \<le> default_token_lifetime \<and> default_token_lifetime \<le> seconds 86400"
      by (simp add: default_token_lifetime_def time_defs)
    then show ?thesis
      using bounded_token_lifetime_bounds
      by (simp add: access_token_lifetime_def bound_defs split: sum.split prod.split option.split)
  qed
  obtain i d1 where p: "db_put (ses_row (access_token_pk tok) meta_sk i) d = (Inr (), d1)"
      "\<exists>ttl a. i = AccessItem ttl a \<and> at_expires_at a = x"
    and x: "x = now + access_token_lifetime (req_client_id req) cfg"
    and d': "\<exists>ttl. d' = index_session_token issuer (req_subject req) (req_client_id req) TokAccess tok ttl d1"
    using assms by (fastforce simp: create_access_token_def Let_def split: sum.splits prod.splits)
  have "lookup d' (mkey (access_token_pk tok) meta_sk) = lookup d1 (mkey (access_token_pk tok) meta_sk)"
    using d' by (auto simp: index_session_token_def best_effort_def mem.put_keeps)
  also have "\<dots> = Some (ses_row (access_token_pk tok) meta_sk i)"
    using db_put_ok [OF p(1)] by simp
  finally show ?thesis using p(2) x life [of "req_client_id req"] by auto
qed

theorem access_lifetime_bounds_witness:
  "\<exists>x d'. create_access_token (Some [6]) 3 demo_issuer demo_cfg (TRAuth demo_request) empty_db = (Inr (''06'', x), d') \<and>
     3 + seconds 60 \<le> x"
proof -
  let ?p = "create_access_token (Some [6]) 3 demo_issuer demo_cfg (TRAuth demo_request) empty_db"
  have "fst ?p = Inr (''06'', 60000000003)" by code_simp
  then have p: "?p = (Inr (''06'', 60000000003), snd ?p)" by (simp add: prod_eq_iff)
  show ?thesis using access_lifetime_bounds [OF p] p by blast
qed

text \<open>The private claims of an ID token never carry a protocol or standard claim name, whatever claim
  mappings the tenant configures, and are absent rather than empty.\<close>

lemma private_claims_safe:
  assumes "get_private_claims_from_request issuer cfg req = Some cs"
  shows "cs \<noteq> [] \<and> fst ` set cs \<inter> set reserved_claim_names = {}"
proof -
  have "cs = private_claims issuer cfg (req_client_id req) (claims_from_request req) \<and> cs \<noteq> []"
    using assms by (auto simp: get_private_claims_from_request_def Let_def split: token_request.splits if_splits)
  then show ?thesis
    using private_claims_not_reserved [of _ issuer cfg "req_client_id req" "claims_from_request req"]
    by auto
qed

theorem private_claims_safe_witness:
  "\<exists>cs. get_private_claims_from_request demo_issuer demo_cfg
     (TRAuth (logged_in demo_claims 1 ''c1'' demo_auth)) = Some cs \<and> (''groups'', PList [''g'']) \<in> set cs \<and>
     fst ` set cs \<inter> set reserved_claim_names = {}"
proof -
  have "get_private_claims_from_request demo_issuer demo_cfg (TRAuth (logged_in demo_claims 1 ''c1'' demo_auth)) =
      Some [(''groups'', PList [''g''])]" by code_simp
  then show ?thesis using private_claims_safe by (metis list.set_intros(1))
qed

end
