(* ===== verification/OidcLoginProps.thy ===== *)
theory OidcLoginProps
  imports OidcLogin OidcTokens SamlExample
begin

text \<open>
  What a login of the OpenID provider establishes: only the browser that began it can finish it, with
  the identity of a token that was verified for the identity source of the flow, and a login that is
  carried through ends with that identity on the authorization request.
\<close>

abbreviation auth_key :: "string \<Rightarrow> string" where
  "auth_key i \<equiv> mkey (auth_request_pk i) meta_sk"

lemma flow_auth_distinct [simp]:
  "mkey (auth_request_pk i) y \<noteq> mkey (flow_pk a f) x" "mkey (auth_request_pk i) y \<noteq> mkey (pending_login_pk f) x"
  by (simp_all add: mkey_def ses_pk_defs)

lemma oidc_log_auth [simp]:
  "lookup (audit_db (oidc_log lh now dw slug flow ty sp user pl st)) (auth_key i) = lookup (audit_db st) (auth_key i)"
  by (simp add: oidc_log_def lookup_log_step)

lemma complete_failed: "complete_auth_request now i c d = (Inl e, d') \<Longrightarrow> d' = d"
  by (auto simp: complete_auth_request_def db_put_def Let_def split: sum.splits prod.splits if_splits)

lemma complete_done:
  assumes "complete_auth_request now i c d = (Inr (), d')"
  obtains ttl a where "get_as as_auth_req (auth_request_pk i) meta_sk d = Inr (ttl, a)"
    and "lookup d' (auth_key i) = Some (ses_row (auth_request_pk i) meta_sk
      (AuthReqItem ttl (logged_in c now (ar_auth_code a) a)))"
  using assms
  by (auto simp: complete_auth_request_def db_put_def Let_def logged_in_def row_key_def ses_row_def
      split: sum.splits prod.splits if_splits)

lemma oidc_finish_cases:
  assumes "oidc_finish lh now dw slug i src how payload st = (res, st')"
  shows "case res of
      Inl e \<Rightarrow> audit_db st' = audit_db st
    | Inr _ \<Rightarrow> \<exists>ttl a. get_as as_auth_req (auth_request_pk i) meta_sk (audit_db st) = Inr (ttl, a) \<and>
        lookup (audit_db st') (auth_key i) = Some (ses_row (auth_request_pk i) meta_sk
          (AuthReqItem ttl (logged_in (extract_claims payload) now (ar_auth_code a) a)))"
  using assms
  by (auto simp: oidc_finish_def Let_def on_db_def subject_claims_from_cognito_def
      dest: complete_failed elim: complete_done split: sum.splits prod.splits)

subsection \<open>The callback\<close>

text \<open>C19: The callback of a Cognito login finishes an authorization request only for the browser that carries
  the flow cookie of that request, at most ten minutes old and with the state of the callback, after
  the code was exchanged with the cookie's verifier and the ID token accepted for the identity source
  the flow began with; the request then has the identity of that token. Any other callback leaves every
  authorization request as it was.\<close>

theorem oidc_callback_identity:
  assumes "oidc_handle_callback env lh cfg now dw r st = ((out, cks), st')"
  shows "case out of
    OidcRedirect u \<Rightarrow> \<exists>s src client tok payload ttl a.
      oidc_signed_decode env lh (query_value (hq_cookies r) oidc_flow_cookie_name) = Inr s \<and>
      unix now \<le> ofs_created_at s + 600 \<and>
      ofs_auth_request_id s \<noteq> [] \<and> query_value (hq_query r) ''state'' = ofs_auth_request_id s \<and>
      source_get (ofs_tenant_slug s) (ofs_source_id s) cfg = Inr src \<and>
      exchange_code (sv_cognito env) client (query_value (hq_query r) ''code'') (ofs_verifier s) = Inr tok \<and>
      oidc_verify_token env now src tok = Inr payload \<and>
      get_as as_auth_req (auth_request_pk (ofs_auth_request_id s)) meta_sk (audit_db st) = Inr (ttl, a) \<and>
      lookup (audit_db st') (mkey (auth_request_pk (ofs_auth_request_id s)) meta_sk) =
        Some (ses_row (auth_request_pk (ofs_auth_request_id s)) meta_sk
          (AuthReqItem ttl (logged_in (extract_claims payload) now (ar_auth_code a) a))) \<and>
      u = oidc_return_url lh (ofs_tenant_slug s) (ofs_auth_request_id s)
  | _ \<Rightarrow> \<forall>i. lookup (audit_db st') (mkey (auth_request_pk i) meta_sk) =
      lookup (audit_db st) (mkey (auth_request_pk i) meta_sk)"
proof (cases out)
  case (OidcRedirect u)
  obtain s src client tok payload where c: "oidc_signed_decode env lh (query_value (hq_cookies r) oidc_flow_cookie_name) = Inr s"
    "unix now \<le> ofs_created_at s + 600" "ofs_auth_request_id s \<noteq> []"
    "query_value (hq_query r) ''state'' = ofs_auth_request_id s"
    "source_get (ofs_tenant_slug s) (ofs_source_id s) cfg = Inr src"
    "exchange_code (sv_cognito env) client (query_value (hq_query r) ''code'') (ofs_verifier s) = Inr tok"
    "oidc_verify_token env now src tok = Inr payload"
    and f: "oidc_finish lh now dw (ofs_tenant_slug s) (ofs_auth_request_id s) src [] payload st = (Inr (), st')"
    and u: "u = oidc_return_url lh (ofs_tenant_slug s) (ofs_auth_request_id s)"
    using assms OidcRedirect
    by (auto simp: oidc_handle_callback_def Let_def oidc_flow_cookie_max_age_def
        split: if_splits sum.splits prod.splits token_failure.splits)
  obtain ttl a where g: "get_as as_auth_req (auth_request_pk (ofs_auth_request_id s)) meta_sk (audit_db st) = Inr (ttl, a)"
    "lookup (audit_db st') (auth_key (ofs_auth_request_id s)) = Some (ses_row (auth_request_pk (ofs_auth_request_id s)) meta_sk
       (AuthReqItem ttl (logged_in (extract_claims payload) now (ar_auth_code a) a)))"
    using oidc_finish_cases [OF f] by auto
  show ?thesis unfolding OidcRedirect oidc_outcome.case using c g u by blast
next
  case (OidcError e m)
  then have "audit_db st' = audit_db st"
    using assms oidc_finish_cases
    by (fastforce simp: oidc_handle_callback_def Let_def
        split: if_splits sum.splits prod.splits token_failure.splits)
  then show ?thesis using OidcError by simp
next
  case OidcCustomLogin
  then show ?thesis using assms
    by (auto simp: oidc_handle_callback_def Let_def split: if_splits sum.splits prod.splits token_failure.splits)
qed

subsection \<open>The return from a custom login page\<close>

lemma oidc_verify_binding_ok:
  assumes "oidc_verify_login_binding env lh now r flow = Inr ()"
  obtains plain j b where "cookie_decode (sv_crypto env) (lh_cookie lh)
      (query_value (hq_cookies r) oidc_login_binding_cookie_name) = Inr plain"
    and "sv_parse env plain = Some j" and "binding_of_json j = Some b"
    and "lb_flow_id b = flow" and "unix now \<le> lb_created_at b + 600"
proof -
  obtain plain where t: "cookie_decode (sv_crypto env) (lh_cookie lh)
      (query_value (hq_cookies r) oidc_login_binding_cookie_name) = Inr plain"
    using assms by (cases "cookie_decode (sv_crypto env) (lh_cookie lh)
        (query_value (hq_cookies r) oidc_login_binding_cookie_name)")
      (simp_all add: oidc_verify_login_binding_def Let_def split: if_splits)
  obtain j b where j: "sv_parse env plain = Some j" "binding_of_json j = Some b"
    using assms t by (cases "Option.bind (sv_parse env plain) binding_of_json")
      (auto simp: oidc_verify_login_binding_def Let_def bind_eq_Some_conv split: if_splits)
  have "lb_flow_id b = flow \<and> unix now \<le> lb_created_at b + 600"
    using assms t j by (auto simp: oidc_verify_login_binding_def Let_def oidc_flow_cookie_max_age_def split: if_splits)
  then show thesis using that t j by blast
qed

lemma pending_delete_auth [simp]:
  "lookup (audit_db (snd (on_db (pending_delete f) st))) (auth_key i) = lookup (audit_db st) (auth_key i)"
  "fault (audit_db (snd (on_db (pending_delete f) st))) = fault (audit_db st)"
  by (simp_all add: on_db_snd pending_delete_def db_delete_lookup)

lemma get_as_cong:
  "lookup d (mkey pk sk) = lookup d' (mkey pk sk) \<Longrightarrow> fault d = fault d' \<Longrightarrow> get_as f pk sk d = get_as f pk sk d'"
  by (simp add: get_as_def db_get_def)

text \<open>The state a hand-back echoes.\<close>

definition echoed_state :: "http_req \<Rightarrow> string" where
  "echoed_state r = (let qs = query_value (hq_query r) ''state''
     in if qs = [] then trim_space (query_value (hq_form r) ''state'') else qs)"

definition echoed_token :: "http_req \<Rightarrow> string" where
  "echoed_token r = (let bt = oidc_bearer_token r
     in if bt = [] then trim_space (query_value (hq_form r) ''id_token'') else bt)"

lemma oidc_complete_cases:
  assumes "oidc_handle_login_complete env lh cfg now dw r st = ((out, cks), st')"
  shows "st' = st \<and> (\<forall>u. out \<noteq> OidcRedirect u) \<or> (\<exists>pl. echoed_state r \<noteq> [] \<and>
    oidc_verify_login_binding env lh now r (echoed_state r) = Inr () \<and>
    pending_get now (echoed_state r) (audit_db st) = Inr pl \<and>
    pl_protocol pl = ''oidc'' \<and> pl_tenant_slug pl = hq_tenant r \<and>
    ((\<forall>u. out \<noteq> OidcRedirect u) \<and> audit_db st' = snd (pending_delete (echoed_state r) (audit_db st)) \<or>
     (\<exists>src payload. source_get (hq_tenant r) (pl_source_id pl) cfg = Inr src \<and>
        oidc_verify_token env now src (echoed_token r) = Inr payload \<and>
        out = OidcRedirect (oidc_return_url lh (hq_tenant r) (pl_auth_request_id pl)) \<and>
        oidc_finish lh now dw (hq_tenant r) (pl_auth_request_id pl) src [(''method'', ''custom_login'')] payload
          (snd (on_db (pending_delete (echoed_state r)) st)) = (Inr (), st'))))"
  using assms unfolding echoed_state_def echoed_token_def oidc_handle_login_complete_def Let_def
  by (auto simp: on_db_snd dest!: oidc_finish_cases split: if_splits sum.splits prod.splits token_failure.splits)


subsection \<open>A login carried through\<close>

lemma cookie_nonempty: "cookie_encode ce sc nonce p = Inr raw \<Longrightarrow> raw \<noteq> []"
  by (auto simp: cookie_encode_def Let_def split: option.splits sum.splits)

lemma oidc_flow_cookie_back:
  assumes "digest_ok (sv_crypto env)" and "aead_ok (sv_crypto env)"
    and "new_signed_cookie (sv_crypto env) (Some k) purpose_oidc = Inr (lh_cookie lh)"
    and "length n = gcm_nonce_size" and "json_faithful env (oidc_flow_json s)"
    and "oidc_signed_encode env lh (Some n) s = Inr raw"
  shows "oidc_signed_decode env lh raw = Inr s \<and> raw \<noteq> []"
  using cookie_decode_encode [OF assms(1,2,3,4)] assms(5,6) cookie_nonempty
  by (fastforce simp: oidc_signed_decode_def oidc_signed_encode_def json_faithful_def)

lemma oidc_login_redirects:
  assumes "oidc_handle_login env lh cfg now dw r st = ((OidcRedirect u, [ck]), st1)"
    and "auth_request_by_id (query_value (hq_query r) ''authRequestID'') (audit_db st) = Inr a"
    and "app_get (hq_tenant r) (ar_client_id a) cfg = Inr app" and "source_get (hq_tenant r) (a_source_id app) cfg = Inr src"
  obtains v where "ck = mk_cookie oidc_flow_cookie_name v oidc_flow_cookie_max_age"
    and "query_value (hq_query r) ''authRequestID'' \<noteq> []" and "hq_tenant r \<noteq> []"
    and "oidc_signed_encode env lh (dw_nonce dw)
      \<lparr>ofs_auth_request_id = query_value (hq_query r) ''authRequestID'',
       ofs_verifier = fst (generate_pkce (sv_crypto env) (dw_pkce dw)), ofs_tenant_slug = hq_tenant r,
       ofs_source_id = s_id src, ofs_created_at = unix now\<rparr> = Inr v"
proof -
  have "oidc_custom_login env lh now dw slug i cid ap s \<noteq> ((OidcRedirect x, c), s')" for slug i cid ap s x c s'
    by (auto simp: oidc_custom_login_def Let_def split: if_splits sum.splits prod.splits)
  then show thesis
    using assms that
    by (auto simp: oidc_handle_login_def Let_def oidc_cognito_login_def split: if_splits sum.splits prod.splits)
qed

lemma oidc_finish_ok:
  assumes "ok_db (audit_db st)" and "lookup (audit_db st) (auth_key i) =
      Some (ses_row (auth_request_pk i) meta_sk (AuthReqItem ttl a))"
  shows "\<exists>st'. oidc_finish lh now dw slug i src how payload st = (Inr (), st') \<and>
    auth_request_by_id i (audit_db st') = Inr (restore_challenge (logged_in (extract_claims payload) now (ar_auth_code a) a))"
proof -
  let ?c = "extract_claims payload"
  obtain d where d: "complete_auth_request now i ?c (audit_db st) = (Inr (), d)"
    using assms by (auto simp: complete_auth_request_def ok_db_get_as [OF assms(1)] as_auth_req_def Let_def
        ok_db_put_case [OF assms(1)])
  have l: "lookup d (auth_key i) = Some (ses_row (auth_request_pk i) meta_sk
      (AuthReqItem ttl (logged_in ?c now (ar_auth_code a) a)))" and ok: "ok_db d"
    using complete_auth_request_ok [OF assms d] by simp_all
  let ?st = "oidc_log lh now dw slug i ''oidc_login_complete'' (s_client_id src) (c_email ?c)
      ([(''status'', ''success'')] @ how @ [(''tenant'', slug), (''sub'', c_sub ?c)]) (st\<lparr>audit_db := d\<rparr>)"
  have "ok_db (audit_db ?st)" using ok by (simp add: oidc_log_def log_step_db)
  then have "auth_request_by_id i (audit_db ?st) = Inr (restore_challenge (logged_in ?c now (ar_auth_code a) a))"
    using l by (simp add: auth_request_by_id_def ok_db_get_as as_auth_req_def)
  then show ?thesis using d by (simp add: oidc_finish_def Let_def on_db_def subject_claims_from_cognito_def)
qed

lemma oidc_callback_ok:
  assumes "oidc_signed_decode env lh (query_value (hq_cookies r) oidc_flow_cookie_name) = Inr s"
    and "query_value (hq_cookies r) oidc_flow_cookie_name \<noteq> []" and "unix now \<le> ofs_created_at s + 600"
    and "query_value (hq_query r) ''code'' \<noteq> []" and "query_value (hq_query r) ''state'' = ofs_auth_request_id s"
    and "ofs_auth_request_id s \<noteq> []" and "source_get (ofs_tenant_slug s) (ofs_source_id s) cfg = Inr src"
    and "new_auth_client_for_source src (lh_base_url lh @ ''/t/'' @ ofs_tenant_slug s @ ''/oidc/callback'')
      (Some no_secret_fetcher) = Inr client"
    and "exchange_code (sv_cognito env) client (query_value (hq_query r) ''code'') (ofs_verifier s) = Inr tok"
    and "s_pool_id src \<noteq> []" and "s_region src \<noteq> []" and "oidc_verify_token env now src tok = Inr payload"
    and "ok_db (audit_db st)" and "lookup (audit_db st) (auth_key (ofs_auth_request_id s)) =
      Some (ses_row (auth_request_pk (ofs_auth_request_id s)) meta_sk (AuthReqItem ttl a))"
  shows "\<exists>st'. oidc_handle_callback env lh cfg now dw r st =
      ((OidcRedirect (oidc_return_url lh (ofs_tenant_slug s) (ofs_auth_request_id s)),
        [mk_cookie oidc_flow_cookie_name [] (-1)]), st') \<and>
    auth_request_by_id (ofs_auth_request_id s) (audit_db st') =
      Inr (restore_challenge (logged_in (extract_claims payload) now (ar_auth_code a) a))"
proof -
  obtain st' where f: "oidc_finish lh now dw (ofs_tenant_slug s) (ofs_auth_request_id s) src [] payload st = (Inr (), st')"
    "auth_request_by_id (ofs_auth_request_id s) (audit_db st') =
       Inr (restore_challenge (logged_in (extract_claims payload) now (ar_auth_code a) a))"
    using oidc_finish_ok [OF assms(13,14)] by blast
  have "oidc_handle_callback env lh cfg now dw r st =
      ((OidcRedirect (oidc_return_url lh (ofs_tenant_slug s) (ofs_auth_request_id s)),
        [mk_cookie oidc_flow_cookie_name [] (-1)]), st')"
    using assms(1-12) f(1) by (simp add: oidc_handle_callback_def Let_def oidc_flow_cookie_max_age_def)
  with f(2) show ?thesis by blast
qed

text \<open>C21: A login carried through ends well: when the browser comes back within ten minutes with the cookie of
  its redirect, a code the pool exchanges with the flow's verifier, and an ID token the verifier
  accepts, and the request is still there, it is sent on to the authorization endpoint and the request
  is done, with the identity of the token.\<close>

theorem oidc_login_completes:
  assumes "oidc_handle_login env lh cfg now dw r st = ((OidcRedirect u, [ck]), st1)"
    and "digest_ok (sv_crypto env)" and "aead_ok (sv_crypto env)"
    and "new_signed_cookie (sv_crypto env) (Some k) purpose_oidc = Inr (lh_cookie lh)"
    and "dw_nonce dw = Some n" and "length n = gcm_nonce_size" and "\<And>s. json_faithful env (oidc_flow_json s)"
    and "unix now2 \<le> unix now + 600"
    and "hq_cookies r2 = [(ck_name ck, ck_value ck)]" and "query_value (hq_query r2) ''code'' \<noteq> []"
    and "query_value (hq_query r2) ''state'' = query_value (hq_query r) ''authRequestID''"
    and "app_get (hq_tenant r) (ar_client_id a) cfg = Inr app" and "source_get (hq_tenant r) (a_source_id app) cfg = Inr src"
    and "s_id src = a_source_id app" and "s_pool_id src \<noteq> []" and "s_region src \<noteq> []"
    and "new_auth_client_for_source src (lh_base_url lh @ ''/t/'' @ hq_tenant r @ ''/oidc/callback'') (Some no_secret_fetcher) = Inr client"
    and "exchange_code (sv_cognito env) client (query_value (hq_query r2) ''code'')
      (fst (generate_pkce (sv_crypto env) (dw_pkce dw))) = Inr tok"
    and "oidc_verify_token env now2 src tok = Inr payload"
    and "auth_request_by_id (query_value (hq_query r) ''authRequestID'') (audit_db st) = Inr a"
    and "ok_db (audit_db st2)" and "lookup (audit_db st2) (mkey (auth_request_pk (query_value (hq_query r) ''authRequestID'')) meta_sk) =
      Some (ses_row (auth_request_pk (query_value (hq_query r) ''authRequestID'')) meta_sk (AuthReqItem ttl a2))"
  shows "\<exists>st3. oidc_handle_callback env lh cfg now2 dw2 r2 st2 =
      ((OidcRedirect (oidc_return_url lh (hq_tenant r) (query_value (hq_query r) ''authRequestID'')),
        [mk_cookie oidc_flow_cookie_name [] (-1)]), st3) \<and>
    auth_request_by_id (query_value (hq_query r) ''authRequestID'') (audit_db st3) =
      Inr (restore_challenge (logged_in (extract_claims payload) now2 (ar_auth_code a2) a2))"
proof -
  let ?i = "query_value (hq_query r) ''authRequestID''"
  obtain v where v: "ck = mk_cookie oidc_flow_cookie_name v oidc_flow_cookie_max_age" "?i \<noteq> []"
    and e: "oidc_signed_encode env lh (Some n)
      \<lparr>ofs_auth_request_id = ?i, ofs_verifier = fst (generate_pkce (sv_crypto env) (dw_pkce dw)),
       ofs_tenant_slug = hq_tenant r, ofs_source_id = s_id src, ofs_created_at = unix now\<rparr> = Inr v"
    using oidc_login_redirects [OF assms(1,20,12,13)] assms(5) by metis
  note d = oidc_flow_cookie_back [OF assms(2,3,4,6,7) e]
  have q: "query_value (hq_cookies r2) oidc_flow_cookie_name = v"
    using assms(9) v by (simp add: query_value_def mk_cookie_def)
  show ?thesis
    using oidc_callback_ok [of env lh r2 _ now2 cfg src client tok payload st2 ttl a2 dw2]
      d assms(8,10,11,13-19,21,22) v(2) unfolding q by fastforce
qed

subsection \<open>Examples\<close>

definition bridge_env :: sso_env where
  "bridge_env = demo_sso\<lparr>sv_cognito := demo_cognito\<lparr>cv_get := \<lambda>_. Some (200, ''keys''),
     cv_jwks := \<lambda>_. Some [\<lparr>jk_e = ''Aw'', jk_kid = ''k1'', jk_kty = ''RSA'', jk_n = ''BQ'', jk_use = ''sig''\<rparr>]\<rparr>\<rparr>"

definition bridge_source :: identity_source where
  "bridge_source = \<lparr>s_id = ''s1'', s_tenant_slug = ''acme'', s_display_name = [], s_type = ''cognito'', s_pool_id = ''p_1'',
     s_region = ''eu-west-1'', s_domain = ''idp.x'', s_client_id = ''c1'', s_status = ''active'', s_created_at = 0,
     s_updated_at = 0, s_role_arn = [], s_external_id = [], s_secret_arn = []\<rparr>"

definition bridge_app :: application where
  "bridge_app = \<lparr>a_id = ''09'', a_tenant_slug = ''acme'', a_display_name = [], a_protocol = ''oidc'', a_source_id = ''s1'',
     a_status = ''active'', a_created_at = 0, a_updated_at = 0, a_custom_login_url = [],
     a_trusted_login_redirect_uris = []\<rparr>"

definition bridge_cfg :: cfg_db where
  "bridge_cfg = \<lparr>data = [(mkey (tenant_pk ''acme'') (source_sk ''s1''), cfg_row (tenant_pk ''acme'') (source_sk ''s1'') (SourceItem bridge_source)),
     (mkey (tenant_pk ''acme'') (app_sk ''09''), cfg_row (tenant_pk ''acme'') (app_sk ''09'') (AppItem [] bridge_app))],
     fault = (\<lambda>_. False)\<rparr>"

definition bridge_handler :: login_handler where
  "bridge_handler = \<lparr>lh_audit = False, lh_pending = True, lh_base_url = ''https://gw'', lh_cookie = demo_cookie purpose_oidc\<rparr>"

definition bridge_state :: audit_state where
  "bridge_state = \<lparr>seq_num = 0, audit_db = snd (create_auth_request (Some [5]) 0 demo_issuer demo_params empty_db)\<rparr>"

definition bridge_login :: http_req where
  "bridge_login = demo_http\<lparr>hq_tenant := ''acme'', hq_query := [(''authRequestID'', ar_id demo_auth)]\<rparr>"

definition bridge_back :: "string \<Rightarrow> http_req" where
  "bridge_back raw = demo_http\<lparr>hq_cookies := [(oidc_flow_cookie_name, raw)],
     hq_query := [(''code'', ''c''), (''state'', ar_id demo_auth)]\<rparr>"

lemma bridge_env_simps [simp]:
  "sv_crypto bridge_env = demo_crypto" "sv_print bridge_env = demo_print" "sv_parse bridge_env = demo_parse"
  "json_faithful bridge_env j"
  by (simp_all add: bridge_env_def json_faithful_def)

lemma bridge_lookups:
  "source_get ''acme'' ''s1'' bridge_cfg = Inr bridge_source" "app_get ''acme'' ''09'' bridge_cfg = Inr bridge_app"
  by code_simp+

lemma bridge_client:
  obtains client where "new_auth_client_for_source bridge_source (''https://gw/t/acme/oidc/callback'') (Some no_secret_fetcher) = Inr client"
  by (simp add: new_auth_client_for_source_def bridge_source_def)

lemma bridge_keys:
  "ensure_keys t (sv_cognito bridge_env) \<lparr>jv_pool_id = ''p_1'', jv_region = ''eu-west-1'', jv_url = u, jv_keys = [],
     jv_fetched_at = zero_time, jv_cache_ttl = hours 1\<rparr> =
   (Inr (), \<lparr>jv_pool_id = ''p_1'', jv_region = ''eu-west-1'', jv_url = u, jv_keys = [(''k1'', \<lparr>rk_n = 5, rk_e = 3\<rparr>)],
     jv_fetched_at = t, jv_cache_ttl = hours 1\<rparr>)"
proof -
  have k: "collect_keys [\<lparr>jk_e = ''Aw'', jk_kid = ''k1'', jk_kty = ''RSA'', jk_n = ''BQ'', jk_use = ''sig''\<rparr>] [] =
      [(''k1'', \<lparr>rk_n = 5, rk_e = 3\<rparr>)]" by code_simp
  show ?thesis
    unfolding ensure_keys_def fetch_keys_def bridge_env_def by (simp del: collect_keys.simps add: k Let_def)
qed

lemma bridge_verify: "oidc_verify_token bridge_env t bridge_source ''good'' = Inr demo_id_claims"
proof -
  have v: "validate_pool_id ''p_1'' = Inr ()" "validate_region ''eu-west-1'' = Inr ()" by code_simp+
  have c: "cv_jwt_parse (sv_cognito bridge_env) = cv_jwt_parse demo_cognito" by (simp add: bridge_env_def)
  show ?thesis
    by (simp add: oidc_verify_token_def bridge_source_def new_jwks_verifier_def v jwks_verify_def bridge_keys c
        demo_cognito_def verify_keyfunc_def demo_header_def get_key_def demo_id_claims_def)
qed

lemma bridge_request:
  "auth_request_by_id (ar_id demo_auth) (audit_db bridge_state) = Inr demo_auth \<and> ar_client_id demo_auth = ''09'' \<and>
   ar_id demo_auth \<noteq> [] \<and> ok_db (audit_db bridge_state) \<and>
   (\<exists>ttl a. lookup (audit_db bridge_state) (auth_key (ar_id demo_auth)) =
      Some (ses_row (auth_request_pk (ar_id demo_auth)) meta_sk (AuthReqItem ttl a)))"
proof -
  let ?p = "create_auth_request (Some [5]) 0 demo_issuer demo_params empty_db"
  have f: "fst ?p = Inr demo_auth" by code_simp
  then have p: "?p = (Inr demo_auth, snd ?p)" by (metis prod.collapse)
  have ok: "ok_db (empty_db :: ses_db)" by (simp add: ok_db_def empty_db_def)
  note c = create_auth_request_ok [OF ok p]
  have i: "ar_id demo_auth = ''05''" "ap_client_id demo_params = ''09''" by code_simp+
  then show ?thesis using c
    by (auto simp: bridge_state_def auth_request_by_id_def ok_db_get_as as_auth_req_def)
qed

lemma bridge_exchange: "exchange_code (sv_cognito bridge_env) client code w = Inr ''good''"
  by (simp add: exchange_code_def exchange_code_with_url_def bridge_env_def demo_cognito_def)

lemma bridge_handler_simps [simp]:
  "lh_base_url bridge_handler = ''https://gw''" "lh_cookie bridge_handler = demo_cookie purpose_oidc"
  "\<not> lh_audit bridge_handler" "lh_pending bridge_handler"
  by (simp_all add: bridge_handler_def)

lemma bridge_source_simps [simp]:
  "a_source_id bridge_app = ''s1''" "s_id bridge_source = ''s1''" "s_pool_id bridge_source \<noteq> []" "s_region bridge_source \<noteq> []"
  by (simp_all add: bridge_app_def bridge_source_def)

lemma bridge_cookie:
  "digest_ok (sv_crypto bridge_env)" "aead_ok (sv_crypto bridge_env)"
  "new_signed_cookie (sv_crypto bridge_env) (Some demo_key) purpose_oidc = Inr (lh_cookie bridge_handler)"
  "dw_nonce demo_draws = Some (replicate 12 CHR ''n'')" "length (replicate 12 CHR ''n'') = gcm_nonce_size"
  using demo_crypto_ok demo_cookie [of purpose_oidc]
  by (simp_all add: demo_draws_def gcm_nonce_size_def purpose_oidc_def)

definition bridge_flow :: oidc_flow_state where
  "bridge_flow = \<lparr>ofs_auth_request_id = ar_id demo_auth, ofs_verifier = fst (generate_pkce demo_crypto (dw_pkce demo_draws)),
     ofs_tenant_slug = ''acme'', ofs_source_id = ''s1'', ofs_created_at = unix 0\<rparr>"

lemma bridge_encode:
  obtains raw where "oidc_signed_encode bridge_env bridge_handler (Some (replicate 12 CHR ''n'')) s = Inr raw"
  using demo_encode [of purpose_oidc] by (auto simp: oidc_signed_encode_def purpose_oidc_def)

lemma bridge_callback:
  assumes "oidc_signed_encode bridge_env bridge_handler (Some (replicate 12 CHR ''n'')) bridge_flow = Inr raw"
  obtains st' where "oidc_handle_callback bridge_env bridge_handler bridge_cfg 5 demo_draws (bridge_back raw) bridge_state =
    ((OidcRedirect (oidc_return_url bridge_handler ''acme'' (ar_id demo_auth)), [mk_cookie oidc_flow_cookie_name [] (-1)]), st')"
proof -
  obtain client where cl: "new_auth_client_for_source bridge_source (''https://gw/t/acme/oidc/callback'') (Some no_secret_fetcher) = Inr client"
    using bridge_client by blast
  have q: "query_value (hq_cookies (bridge_back raw)) oidc_flow_cookie_name = raw"
    "query_value (hq_query (bridge_back raw)) ''code'' = ''c''" "query_value (hq_query (bridge_back raw)) ''state'' = ar_id demo_auth"
    by (simp_all add: bridge_back_def query_value_def)
  have d: "oidc_signed_decode bridge_env bridge_handler raw = Inr bridge_flow \<and> raw \<noteq> []"
    using oidc_flow_cookie_back [OF bridge_cookie(1,2,3,5) _ assms] by simp
  have f: "ofs_auth_request_id bridge_flow = ar_id demo_auth" "ofs_tenant_slug bridge_flow = ''acme''" "ofs_source_id bridge_flow = ''s1''"
    "unix 5 \<le> ofs_created_at bridge_flow + 600"
    by (simp_all add: bridge_flow_def unix_def)
  obtain ttl a where "lookup (audit_db bridge_state) (auth_key (ar_id demo_auth)) =
      Some (ses_row (auth_request_pk (ar_id demo_auth)) meta_sk (AuthReqItem ttl a))" using bridge_request by blast
  then have "\<exists>st'. oidc_handle_callback bridge_env bridge_handler bridge_cfg 5 demo_draws (bridge_back raw) bridge_state =
    ((OidcRedirect (oidc_return_url bridge_handler ''acme'' (ar_id demo_auth)), [mk_cookie oidc_flow_cookie_name [] (-1)]), st')"
    using oidc_callback_ok [of bridge_env bridge_handler "bridge_back raw" bridge_flow 5 bridge_cfg bridge_source client
        "''good''" demo_id_claims bridge_state ttl a demo_draws] d cl bridge_exchange bridge_verify bridge_lookups bridge_request f
    unfolding q by auto
  then show thesis using that by blast
qed

lemma oidc_callback_identity_witness:
  "\<exists>raw st' s. oidc_handle_callback bridge_env bridge_handler bridge_cfg 5 demo_draws (bridge_back raw) bridge_state =
      ((OidcRedirect (oidc_return_url bridge_handler ''acme'' (ar_id demo_auth)), [mk_cookie oidc_flow_cookie_name [] (-1)]), st') \<and>
    oidc_signed_decode bridge_env bridge_handler raw = Inr s \<and> ofs_auth_request_id s = ar_id demo_auth"
proof -
  obtain raw where e: "oidc_signed_encode bridge_env bridge_handler (Some (replicate 12 CHR ''n'')) bridge_flow = Inr raw"
    using bridge_encode by blast
  obtain st' where c: "oidc_handle_callback bridge_env bridge_handler bridge_cfg 5 demo_draws (bridge_back raw) bridge_state =
    ((OidcRedirect (oidc_return_url bridge_handler ''acme'' (ar_id demo_auth)), [mk_cookie oidc_flow_cookie_name [] (-1)]), st')"
    using bridge_callback [OF e] by blast
  have q: "query_value (hq_cookies (bridge_back raw)) oidc_flow_cookie_name = raw"
    "query_value (hq_query (bridge_back raw)) ''state'' = ar_id demo_auth"
    by (simp_all add: bridge_back_def query_value_def)
  from oidc_callback_identity [OF c] c show ?thesis unfolding oidc_outcome.case q by metis
qed

lemma oidc_login_completes_witness:
  "\<exists>u ck st3. oidc_handle_login bridge_env bridge_handler bridge_cfg 0 demo_draws bridge_login bridge_state =
       ((OidcRedirect u, [ck]), bridge_state) \<and>
     oidc_handle_callback bridge_env bridge_handler bridge_cfg 5 demo_draws (bridge_back (ck_value ck)) bridge_state =
       ((OidcRedirect (oidc_return_url bridge_handler ''acme'' (ar_id demo_auth)),
         [mk_cookie oidc_flow_cookie_name [] (-1)]), st3)"
proof -
  let ?i = "ar_id demo_auth"
  obtain client where cl: "new_auth_client_for_source bridge_source (''https://gw/t/acme/oidc/callback'') (Some no_secret_fetcher) = Inr client"
    using bridge_client by blast
  obtain raw where e: "oidc_signed_encode bridge_env bridge_handler (Some (replicate 12 CHR ''n'')) bridge_flow = Inr raw"
    using bridge_encode by blast
  have q: "query_value (hq_query bridge_login) ''authRequestID'' = ?i" "hq_tenant bridge_login = ''acme''"
    by (simp_all add: bridge_login_def query_value_def)
  have "\<not> has_custom_login bridge_app" by code_simp
  then obtain u where l: "oidc_handle_login bridge_env bridge_handler bridge_cfg 0 demo_draws bridge_login bridge_state =
      ((OidcRedirect u, [mk_cookie oidc_flow_cookie_name raw oidc_flow_cookie_max_age]), bridge_state)"
    using cl e bridge_request bridge_lookups bridge_cookie(4)
    by (cases "generate_pkce demo_crypto (dw_pkce demo_draws)")
      (auto simp: oidc_handle_login_def q oidc_cognito_login_def oidc_log_def bridge_flow_def Let_def)
  let ?ck = "mk_cookie oidc_flow_cookie_name raw oidc_flow_cookie_max_age"
  have k: "ck_value ?ck = raw" "hq_cookies (bridge_back raw) = [(ck_name ?ck, ck_value ?ck)]"
    by (simp_all add: mk_cookie_def bridge_back_def)
  have b: "query_value (hq_query (bridge_back raw)) ''code'' \<noteq> []"
    "query_value (hq_query (bridge_back raw)) ''state'' = query_value (hq_query bridge_login) ''authRequestID''"
    unfolding q by (simp_all add: bridge_back_def query_value_def)
  obtain ttl a where a: "lookup (audit_db bridge_state) (auth_key (query_value (hq_query bridge_login) ''authRequestID'')) =
      Some (ses_row (auth_request_pk (query_value (hq_query bridge_login) ''authRequestID'')) meta_sk (AuthReqItem ttl a))"
    unfolding q using bridge_request by blast
  have "\<exists>st3. oidc_handle_callback bridge_env bridge_handler bridge_cfg 5 demo_draws (bridge_back raw) bridge_state =
      ((OidcRedirect (oidc_return_url bridge_handler (hq_tenant bridge_login) (query_value (hq_query bridge_login) ''authRequestID'')),
        [mk_cookie oidc_flow_cookie_name [] (-1)]), st3) \<and> True"
    using oidc_login_completes [OF l bridge_cookie _ _ k(2) b, of 5 demo_auth bridge_app bridge_source client "''good''"
        demo_id_claims bridge_state ttl a demo_draws] a bridge_request bridge_lookups cl bridge_exchange bridge_verify
    by (simp add: q unix_def) blast
  with l k q show ?thesis by metis
qed

definition bridge_pending :: pending_login where
  "bridge_pending = \<lparr>pl_flow_id = ''f1'', pl_protocol = ''oidc'', pl_tenant_slug = ''acme'', pl_source_id = ''s1'',
     pl_app_id = ''09'', pl_saml_request_b64 = [], pl_relay_state = [], pl_sp_entity_id = [],
     pl_auth_request_id = ar_id demo_auth, pl_created_at = 0, pl_expires_at_epoch = 600\<rparr>"

definition bridge_waiting :: audit_state where
  "bridge_waiting = bridge_state\<lparr>audit_db := snd (db_put (ses_row (pending_login_pk ''f1'') ''_'' (PendingItem bridge_pending))
     (audit_db bridge_state))\<rparr>"

definition bridge_post :: "string \<Rightarrow> http_req" where
  "bridge_post raw = demo_http\<lparr>hq_tenant := ''acme'', hq_cookies := [(oidc_login_binding_cookie_name, raw)],
     hq_form := [(''id_token'', ''good''), (''state'', ''f1'')]\<rparr>"


end
