(* ===== verification/GatewayConfig.thy ===== *)
theory GatewayConfig
  imports Prelude
begin

text \<open>
  \<^verbatim>\<open>internal/config/config.go\<close>: the configuration a process reads from its environment variables.
  \<open>getenv\<close> stands for \<^verbatim>\<open>os.Getenv\<close>, which gives the empty string for a variable that is not set.
\<close>

datatype environment = EnvLocal | EnvDev | EnvStaging | EnvProd

definition is_local :: "environment \<Rightarrow> bool" where
  "is_local e \<longleftrightarrow> e = EnvLocal"

definition parse_environment :: "string \<Rightarrow> environment res" where
  "parse_environment raw =
     (if raw = ''local'' then Inr EnvLocal
      else if raw = ''dev'' then Inr EnvDev
      else if raw = ''staging'' then Inr EnvStaging
      else if raw = ''prod'' then Inr EnvProd
      else if raw = [] then Inl (ErrMsg ''PROXY_ENVIRONMENT is required'')
      else Inl (ErrMsg ''PROXY_ENVIRONMENT is not a recognized environment''))"

record gateway_config =
  g_port :: string
  g_log_level :: string
  g_environment :: environment
  g_aws_region :: string
  g_dynamodb_table :: string
  g_session_table :: string
  g_kms_key_id :: string
  g_kms_key_id_backup :: string
  g_tenant_mode :: string
  g_cognito_pool_id :: string
  g_cognito_client_id :: string
  g_entity_id :: string
  g_base_url :: string
  g_saas_account_id :: string
  g_saas_principal_name :: string
  g_iac_templates_bucket :: string
  g_iac_templates_base_url :: string
  g_oidc_crypto_key_secret_arn :: string
  g_cookie_key_secret_arn :: string
  g_edge_auth_secret_arn :: string

definition env_or :: "(string \<Rightarrow> string) \<Rightarrow> string \<Rightarrow> string \<Rightarrow> string" where
  "env_or getenv key fallback = (if getenv key \<noteq> [] then getenv key else fallback)"

definition read_config :: "(string \<Rightarrow> string) \<Rightarrow> environment \<Rightarrow> gateway_config" where
  "read_config getenv e =
     \<lparr>g_port = env_or getenv ''PROXY_PORT'' ''8080'',
      g_log_level = env_or getenv ''PROXY_LOG_LEVEL'' ''info'',
      g_environment = e,
      g_aws_region = env_or getenv ''PROXY_AWS_REGION'' (getenv ''AWS_REGION''),
      g_dynamodb_table = getenv ''PROXY_DYNAMODB_TABLE'',
      g_session_table = getenv ''PROXY_SESSION_TABLE'',
      g_kms_key_id = getenv ''PROXY_KMS_KEY_ID'',
      g_kms_key_id_backup = getenv ''PROXY_KMS_KEY_ID_BACKUP'',
      g_tenant_mode = env_or getenv ''PROXY_TENANT_MODE'' ''pool'',
      g_cognito_pool_id = getenv ''PROXY_COGNITO_POOL_ID'',
      g_cognito_client_id = getenv ''PROXY_COGNITO_CLIENT_ID'',
      g_entity_id = getenv ''PROXY_ENTITY_ID'',
      g_base_url = getenv ''PROXY_BASE_URL'',
      g_saas_account_id = getenv ''PROXY_SAAS_ACCOUNT_ID'',
      g_saas_principal_name = env_or getenv ''PROXY_SAAS_PRINCIPAL_NAME'' ''identity-gateway-management-api'',
      g_iac_templates_bucket = getenv ''PROXY_IAC_TEMPLATES_BUCKET'',
      g_iac_templates_base_url = getenv ''PROXY_IAC_TEMPLATES_BASE_URL'',
      g_oidc_crypto_key_secret_arn = getenv ''PROXY_OIDC_CRYPTO_KEY_SECRET_ARN'',
      g_cookie_key_secret_arn = getenv ''PROXY_COOKIE_KEY_SECRET_ARN'',
      g_edge_auth_secret_arn = getenv ''PROXY_EDGE_AUTH_SECRET_ARN''\<rparr>"

text \<open>The defaults of local development, applied in the order of the code: each may use the one before.\<close>

definition local_defaults :: "gateway_config \<Rightarrow> gateway_config" where
  "local_defaults c0 =
     (let c1 = (if g_base_url c0 = [] then c0\<lparr>g_base_url := ''http://localhost:'' @ g_port c0\<rparr> else c0);
          c2 = (if g_entity_id c1 = [] then c1\<lparr>g_entity_id := g_base_url c1\<rparr> else c1);
          c3 = (if g_kms_key_id c2 = [] then c2\<lparr>g_kms_key_id := ''local-dev-key''\<rparr> else c2);
          c4 = (if g_dynamodb_table c3 = []
                then c3\<lparr>g_dynamodb_table := ''federation-gateway-local''\<rparr> else c3)
      in (if g_aws_region c4 = [] then c4\<lparr>g_aws_region := ''eu-north-1''\<rparr> else c4))"

definition missing_variables :: "gateway_config \<Rightarrow> string list" where
  "missing_variables c =
     (if is_local (g_environment c) then []
      else (if g_aws_region c = [] then [''PROXY_AWS_REGION''] else []) @
           (if g_cognito_pool_id c = [] then [''PROXY_COGNITO_POOL_ID''] else []) @
           (if g_cognito_client_id c = [] then [''PROXY_COGNITO_CLIENT_ID''] else []) @
           (if g_edge_auth_secret_arn c = [] then [''PROXY_EDGE_AUTH_SECRET_ARN''] else []))"

definition load_config :: "(string \<Rightarrow> string) \<Rightarrow> gateway_config res" where
  "load_config getenv =
     (case parse_environment (getenv ''PROXY_ENVIRONMENT'') of
        Inl e \<Rightarrow> Inl e
      | Inr env \<Rightarrow>
          let c = read_config getenv env;
              cfg = (if is_local (g_environment c) then local_defaults c else c)
          in if missing_variables cfg \<noteq> [] then Inl (ErrMsg ''missing required environment variables'')
             else Inr cfg)"

lemma local_defaults_environment [simp]: "g_environment (local_defaults c) = g_environment c"
  by (simp add: local_defaults_def Let_def)

text \<open>A configuration that loaded is local only when the environment variable says so literally; any
  other one names the pool, the client and the edge secret.\<close>

lemma load_config_deployed:
  assumes "load_config getenv = Inr c"
  shows "(g_environment c = EnvLocal \<longleftrightarrow> getenv ''PROXY_ENVIRONMENT'' = ''local'') \<and>
    (g_environment c \<noteq> EnvLocal \<longrightarrow>
       g_aws_region c \<noteq> [] \<and> g_cognito_pool_id c = getenv ''PROXY_COGNITO_POOL_ID'' \<and>
       g_cognito_pool_id c \<noteq> [] \<and> g_cognito_client_id c = getenv ''PROXY_COGNITO_CLIENT_ID'' \<and>
       g_cognito_client_id c \<noteq> [] \<and> g_edge_auth_secret_arn c \<noteq> [])"
proof -
  obtain env where env: "parse_environment (getenv ''PROXY_ENVIRONMENT'') = Inr env"
    using assms by (cases "parse_environment (getenv ''PROXY_ENVIRONMENT'')") (auto simp: load_config_def)
  let ?c = "read_config getenv env"
  have c: "c = (if is_local env then local_defaults ?c else ?c)" and m: "missing_variables c = []"
    using assms env by (auto simp: load_config_def Let_def read_config_def split: if_splits)
  have "g_environment c = env"
    using c by (auto simp: read_config_def)
  moreover have "env = EnvLocal \<longleftrightarrow> getenv ''PROXY_ENVIRONMENT'' = ''local''"
    using env by (auto simp: parse_environment_def split: if_splits)
  moreover have "env \<noteq> EnvLocal \<Longrightarrow> c = ?c"
    using c by (simp add: is_local_def)
  ultimately show ?thesis
    using m by (auto simp: missing_variables_def is_local_def read_config_def split: if_splits)
qed

end
