(* ===== verification/Middleware.thy ===== *)
theory Middleware
  imports CognitoTrust TenantStore GatewayConfig
begin

text \<open>
  \<^verbatim>\<open>internal/middleware\<close> (the edge gate, authentication with role checks, tenant resolution, the
  capability gate) and the router of \<^verbatim>\<open>internal/api/router.go\<close> that stacks them. A middleware either
  answers the request itself or hands it on with the request context it extended; the verifier, whose
  key cache changes, is threaded through. Logging and metrics hand every request on unchanged.
\<close>

subsection \<open>Requests and their context\<close>

record http_request =
  hr_method :: string
  hr_path :: string
  hr_header :: "string \<Rightarrow> string"

record request_ctx =
  cx_slug :: "string option"
  cx_groups :: "string list option"
  cx_tenant :: "tenant option"

definition empty_ctx :: request_ctx where
  "empty_ctx = \<lparr>cx_slug = None, cx_groups = None, cx_tenant = None\<rparr>"

text \<open>An answer: its status and its message.\<close>

type_synonym refusal = "nat \<times> string"
type_synonym forwarded = "refusal + request_ctx"

definition ctx_groups :: "request_ctx \<Rightarrow> string list" where
  "ctx_groups cx = (case cx_groups cx of Some gs \<Rightarrow> gs | None \<Rightarrow> [])"

definition global_operator_group :: string where "global_operator_group = ''GlobalOperators''"

definition has_global_operator :: "string list \<Rightarrow> bool" where
  "has_global_operator gs \<longleftrightarrow> list_ex (\<lambda>g. g = global_operator_group) gs"

subsection \<open>The edge gate\<close>

definition edge_verify_header :: string where "edge_verify_header = ''X-Origin-Verify''"

definition require_edge_secret :: "string \<Rightarrow> http_request \<Rightarrow> request_ctx \<Rightarrow> forwarded" where
  "require_edge_secret secret rq cx =
     (if secret = [] then Inr cx
      else if hr_header rq edge_verify_header \<noteq> secret then Inl (403, ''forbidden'')
      else Inr cx)"

subsection \<open>Authentication and roles\<close>

definition groups_of_claims :: "jwt_payload \<Rightarrow> string list" where
  "groups_of_claims claims =
     (case map_of claims ''cognito:groups'' of
        Some (CList gs) \<Rightarrow> List.map_filter (\<lambda>g. case g of CStr s \<Rightarrow> Some s | _ \<Rightarrow> None) gs
      | _ \<Rightarrow> [])"

text \<open>The payload of a token whose signature nobody checks; \<open>json\<close> is the JSON decoder.\<close>

definition claims_of_jwt :: "(string \<Rightarrow> jwt_payload option) \<Rightarrow> string \<Rightarrow> jwt_payload res" where
  "claims_of_jwt json token =
     (case split_on (CHR ''.'') token of
        [h, p, s] \<Rightarrow>
          (case b64_decode UrlAlphabet False p of
             None \<Rightarrow> Inl (ErrMsg ''failed to decode JWT payload'')
           | Some bytes \<Rightarrow>
               (case json bytes of
                  None \<Rightarrow> Inl (ErrMsg ''failed to parse JWT payload'')
                | Some claims \<Rightarrow> Inr claims))
      | _ \<Rightarrow> Inl (ErrMsg ''invalid JWT format''))"

definition is_write :: "string \<Rightarrow> bool" where
  "is_write meth \<longleftrightarrow> meth = ''POST'' \<or> meth = ''PUT'' \<or> meth = ''DELETE''"

definition rbac_check :: "string \<Rightarrow> string list \<Rightarrow> refusal + unit" where
  "rbac_check meth groups =
     (if is_write meth then
        (if ''Admins'' \<notin> set groups
         then Inl (403, ''forbidden: Admins group required for write operations'') else Inr ())
      else if ''Admins'' \<notin> set groups \<and> ''Operators'' \<notin> set groups
      then Inl (403, ''forbidden: Admins or Operators group required'')
      else Inr ())"

definition bearer_claims ::
  "gotime \<Rightarrow> cognito_env \<Rightarrow> (string \<Rightarrow> jwt_payload option) \<Rightarrow> jwks_verifier option \<Rightarrow> string \<Rightarrow> string
     \<Rightarrow> jwt_payload res \<times> jwks_verifier option" where
  "bearer_claims now env json ver client token =
     (case ver of
        None \<Rightarrow> (claims_of_jwt json token, None)
      | Some v \<Rightarrow> (case jwks_verify now env v token client of (r, v') \<Rightarrow> (r, Some v')))"

text \<open>The tenant claim and the groups go into the context before the role check.\<close>

definition authenticated_ctx :: "jwt_payload \<Rightarrow> request_ctx \<Rightarrow> request_ctx" where
  "authenticated_ctx claims cx =
     (let cx1 = (case map_of claims ''custom:tenant_id'' of
                   Some (CStr t) \<Rightarrow> if t \<noteq> [] then cx\<lparr>cx_slug := Some t\<rparr> else cx
                 | _ \<Rightarrow> cx)
      in cx1\<lparr>cx_groups := Some (groups_of_claims claims)\<rparr>)"

definition require_auth ::
  "gotime \<Rightarrow> cognito_env \<Rightarrow> (string \<Rightarrow> jwt_payload option) \<Rightarrow> jwks_verifier option \<Rightarrow> string
     \<Rightarrow> http_request \<Rightarrow> request_ctx \<Rightarrow> forwarded \<times> jwks_verifier option" where
  "require_auth now env json ver client rq cx =
     (let hdr = hr_header rq ''Authorization'' in
      if hdr = [] then (Inl (401, ''missing Authorization header''), ver)
      else if \<not> has_prefix hdr ''Bearer '' then (Inl (401, ''invalid Authorization header format''), ver)
      else let token = trim_prefix hdr ''Bearer '' in
        if token = [] then (Inl (401, ''empty bearer token''), ver)
        else case bearer_claims now env json ver client token of
            (Inl e, ver') \<Rightarrow> (Inl (401, ''invalid token''), ver')
          | (Inr claims, ver') \<Rightarrow>
              (case rbac_check (hr_method rq) (groups_of_claims claims) of
                 Inl r \<Rightarrow> (Inl r, ver')
               | Inr _ \<Rightarrow> (Inr (authenticated_ctx claims cx), ver')))"

definition is_api_path :: "http_request \<Rightarrow> bool" where
  "is_api_path rq \<longleftrightarrow> has_prefix (hr_path rq) ''/api/v1/''"

definition require_auth_for_api ::
  "gotime \<Rightarrow> cognito_env \<Rightarrow> (string \<Rightarrow> jwt_payload option) \<Rightarrow> jwks_verifier option \<Rightarrow> string
     \<Rightarrow> http_request \<Rightarrow> request_ctx \<Rightarrow> forwarded \<times> jwks_verifier option" where
  "require_auth_for_api now env json ver client rq cx =
     (if is_api_path rq then require_auth now env json ver client rq cx else (Inr cx, ver))"

subsection \<open>The tenant of a request\<close>

definition not_found_tenant :: refusal where "not_found_tenant = (404, ''tenant not found'')"

definition tenant_from_path :: "bool \<Rightarrow> cfg_db \<Rightarrow> http_request \<Rightarrow> request_ctx \<Rightarrow> forwarded" where
  "tenant_from_path suspended_as_not_found d rq cx =
     (case extract_from_path (hr_path rq) of
        Inl e \<Rightarrow> Inl not_found_tenant
      | Inr slug \<Rightarrow>
          (case tenant_get slug d of
             Inl e \<Rightarrow> Inl not_found_tenant
           | Inr t \<Rightarrow>
               if t_status t \<noteq> ''active''
               then Inl (if suspended_as_not_found then not_found_tenant else (403, ''tenant suspended''))
               else Inr (cx\<lparr>cx_tenant := Some t\<rparr>)))"

definition tenant_from_jwt :: "cfg_db \<Rightarrow> request_ctx \<Rightarrow> forwarded" where
  "tenant_from_jwt d cx =
     (case cx_slug cx of
        None \<Rightarrow> Inl (403, ''forbidden'')
      | Some slug \<Rightarrow>
          if slug = [] then Inl (403, ''forbidden'')
          else (case tenant_get slug d of
             Inl e \<Rightarrow> Inl (403, ''forbidden'')
           | Inr t \<Rightarrow> Inr (cx\<lparr>cx_tenant := Some t\<rparr>)))"

definition tenant_header_override :: string where "tenant_header_override = ''X-Tenant-Id''"

definition tenant_from_jwt_for_api :: "cfg_db \<Rightarrow> http_request \<Rightarrow> request_ctx \<Rightarrow> forwarded" where
  "tenant_from_jwt_for_api d rq cx =
     (if \<not> is_api_path rq then Inr cx
      else let override = trim_space (hr_header rq tenant_header_override) in
        if override \<noteq> [] then
          (if \<not> has_global_operator (ctx_groups cx)
           then Inl (403, ''forbidden: tenant override not permitted'')
           else tenant_from_jwt d (cx\<lparr>cx_slug := Some override\<rparr>))
        else if cx_slug cx = None then tenant_from_jwt d (cx\<lparr>cx_slug := Some default_slug\<rparr>)
        else tenant_from_jwt d cx)"

subsection \<open>Capabilities\<close>

text \<open>A tenant without a capability map, which the table stores like an empty one, may do everything.\<close>

definition require_capability :: "string \<Rightarrow> request_ctx \<Rightarrow> forwarded" where
  "require_capability name cx =
     (case cx_tenant cx of
        None \<Rightarrow> Inl (500, ''internal_error'')
      | Some t \<Rightarrow>
          if t_capability_map t = [] then Inr cx
          else if map_of (t_capability_map t) name = Some True then Inr cx
          else Inl (403, ''capability_not_enabled''))"

subsection \<open>The router\<close>

text \<open>The authentication the router installs: with a verifier, or none at all in local development.\<close>

datatype api_auth = AuthVerifier jwks_verifier string | AuthLocalDev

definition api_auth_middleware ::
  "environment \<Rightarrow> jwks_verifier option \<Rightarrow> string \<Rightarrow> api_auth res" where
  "api_auth_middleware env ver client =
     (case ver of
        Some v \<Rightarrow> Inr (AuthVerifier v client)
      | None \<Rightarrow>
          if is_local env then Inr AuthLocalDev
          else Inl (ErrMsg ''refusing to start: a Cognito JWKS verifier is required''))"

record api_router =
  rt_edge_secret :: string
  rt_auth :: api_auth

definition new_router ::
  "environment \<Rightarrow> jwks_verifier option \<Rightarrow> string \<Rightarrow> string \<Rightarrow> api_router res" where
  "new_router env ver client edge =
     (case api_auth_middleware env ver client of
        Inl e \<Rightarrow> Inl e
      | Inr a \<Rightarrow> Inr \<lparr>rt_edge_secret = edge, rt_auth = a\<rparr>)"

definition run_auth ::
  "gotime \<Rightarrow> cognito_env \<Rightarrow> (string \<Rightarrow> jwt_payload option) \<Rightarrow> api_auth \<Rightarrow> http_request \<Rightarrow> request_ctx
     \<Rightarrow> forwarded \<times> api_auth" where
  "run_auth now env json a rq cx =
     (case a of
        AuthLocalDev \<Rightarrow> (Inr cx, a)
      | AuthVerifier v client \<Rightarrow>
          (case require_auth_for_api now env json (Some v) client rq cx of
             (r, ver') \<Rightarrow> (r, AuthVerifier (case ver' of Some v' \<Rightarrow> v' | None \<Rightarrow> v) client)))"

text \<open>The stack: edge gate, authentication, tenant resolution.\<close>

definition api_gate ::
  "gotime \<Rightarrow> cognito_env \<Rightarrow> (string \<Rightarrow> jwt_payload option) \<Rightarrow> cfg_db \<Rightarrow> http_request \<Rightarrow> api_router
     \<Rightarrow> forwarded \<times> api_router" where
  "api_gate now env json d rq rt =
     (case require_edge_secret (rt_edge_secret rt) rq empty_ctx of
        Inl r \<Rightarrow> (Inl r, rt)
      | Inr cx \<Rightarrow>
          (case run_auth now env json (rt_auth rt) rq cx of
             (Inl r, a) \<Rightarrow> (Inl r, rt\<lparr>rt_auth := a\<rparr>)
           | (Inr cx', a) \<Rightarrow> (tenant_from_jwt_for_api d rq cx', rt\<lparr>rt_auth := a\<rparr>)))"

end
