(* ===== verification/ApiTypes.thy ===== *)
theory ApiTypes
  imports Middleware AppLookup
begin

text \<open>
  The management API's request and response shapes (\<^verbatim>\<open>internal/api/app_types.go\<close>), the helpers its
  handlers share (\<^verbatim>\<open>app_helpers.go\<close>, \<^verbatim>\<open>onboarding_handlers.go\<close>) and the checks on application settings
  (\<^verbatim>\<open>app_validate.go\<close>). A handler returns the answer or a refusal with its status, and the table. The
  texts of the refusals are kept without their interpolated values.
\<close>

subsection \<open>Answers\<close>

type_synonym 'a api = "refusal + 'a"

definition is_not_found :: "err \<Rightarrow> bool" where
  "is_not_found e \<longleftrightarrow> errors_is e ErrNotFound"

text \<open>The two shapes in which a handler treats an error of a store: always 500, or 404 for a missing row.\<close>

definition or_500 :: "string \<Rightarrow> 'a res \<times> 'd \<Rightarrow> ('a \<Rightarrow> 'd \<Rightarrow> 'b api \<times> 'd) \<Rightarrow> 'b api \<times> 'd" where
  "or_500 msg p k =
     (case p of (Inl e, d) \<Rightarrow> (Inl (500, msg), d) | (Inr x, d) \<Rightarrow> k x d)"

definition or_404 ::
  "string \<Rightarrow> string \<Rightarrow> 'a res \<times> 'd \<Rightarrow> ('a \<Rightarrow> 'd \<Rightarrow> 'b api \<times> 'd) \<Rightarrow> 'b api \<times> 'd" where
  "or_404 missing msg p k =
     (case p of
        (Inl e, d) \<Rightarrow> (Inl (if is_not_found e then (404, missing) else (500, msg)), d)
      | (Inr x, d) \<Rightarrow> k x d)"

definition then_api :: "'a api \<times> 'd \<Rightarrow> ('a \<Rightarrow> 'd \<Rightarrow> 'b api \<times> 'd) \<Rightarrow> 'b api \<times> 'd" where
  "then_api p k = (case p of (Inl r, d) \<Rightarrow> (Inl r, d) | (Inr x, d) \<Rightarrow> k x d)"

text \<open>An error whose answer drops it: the variable stays nil.\<close>

definition ignoring_error :: "'a res \<Rightarrow> 'a option" where
  "ignoring_error r = (case r of Inl e \<Rightarrow> None | Inr x \<Rightarrow> Some x)"

text \<open>Server errors reach the client as a fixed text with a correlation id; other answers pass.\<close>

definition sanitize_error :: "string \<Rightarrow> refusal \<Rightarrow> refusal" where
  "sanitize_error correlation_id r =
     (if fst r < 500 then r
      else (fst r, ''internal server error (correlation id: '' @ correlation_id @ '')''))"

definition tenant_slug_from_context :: "request_ctx \<Rightarrow> string option" where
  "tenant_slug_from_context cx = map_option t_slug (cx_tenant cx)"

definition no_tenant :: refusal where "no_tenant = (403, ''tenant context required'')"

text \<open>A handler that needs the tenant of the request.\<close>

definition with_slug :: "request_ctx \<Rightarrow> 'd \<Rightarrow> (string \<Rightarrow> 'b api \<times> 'd) \<Rightarrow> 'b api \<times> 'd" where
  "with_slug cx d k =
     (case tenant_slug_from_context cx of None \<Rightarrow> (Inl no_tenant, d) | Some slug \<Rightarrow> k slug)"

definition require_tenant_match :: "request_ctx \<Rightarrow> string \<Rightarrow> string \<Rightarrow> unit api" where
  "require_tenant_match cx target deny =
     (case tenant_slug_from_context cx of
        None \<Rightarrow> Inl no_tenant
      | Some caller \<Rightarrow>
          if caller = target then Inr ()
          else if has_global_operator (ctx_groups cx) then Inr ()
          else Inl (403, deny))"

definition require_global_operator :: "request_ctx \<Rightarrow> string \<Rightarrow> unit api" where
  "require_global_operator cx deny =
     (if has_global_operator (ctx_groups cx) then Inr () else Inl (403, deny))"

subsection \<open>Defaults\<close>

definition set_bool_default :: "bool option \<Rightarrow> bool \<Rightarrow> bool" where
  "set_bool_default v dflt = (case v of Some b \<Rightarrow> b | None \<Rightarrow> dflt)"

definition set_string_default :: "string \<Rightarrow> string \<Rightarrow> string" where
  "set_string_default v dflt = (if v \<noteq> [] then v else dflt)"

definition set_int_default :: "int \<Rightarrow> int \<Rightarrow> int" where
  "set_int_default v dflt = (if v \<noteq> 0 then v else dflt)"

lemmas default_defs = set_bool_default_def set_string_default_def set_int_default_def

subsection \<open>Inputs\<close>

record saml_input =
  si_entity_id :: string
  si_acs_url :: string
  si_acs_urls :: "string list"
  si_metadata_url :: string
  si_name_id_format :: string
  si_name_id_source :: string
  si_sign_response :: "bool option"
  si_sign_assertion :: "bool option"
  si_encrypt_assertion :: "bool option"
  si_allow_idp_initiated :: "bool option"
  si_slo_url :: string
  si_session_duration_sec :: int
  si_clock_skew_sec :: int

definition empty_saml_input :: saml_input where
  "empty_saml_input = \<lparr>si_entity_id = [], si_acs_url = [], si_acs_urls = [], si_metadata_url = [],
     si_name_id_format = [], si_name_id_source = [], si_sign_response = None,
     si_sign_assertion = None, si_encrypt_assertion = None, si_allow_idp_initiated = None,
     si_slo_url = [], si_session_duration_sec = 0, si_clock_skew_sec = 0\<rparr>"

record oidc_input =
  oi_redirect_uris :: "string list"
  oi_post_logout_redirect_uris :: "string list"
  oi_grant_types :: "string list"
  oi_response_types :: "string list"
  oi_scopes :: "string list"
  oi_token_endpoint_auth_method :: string
  oi_id_token_lifetime_sec :: int
  oi_access_token_lifetime_sec :: int
  oi_refresh_token_lifetime_sec :: int

text \<open>The wizard's mappings: source and target of a claim, group and value of a role.\<close>

record create_app_input =
  ci_display_name :: string
  ci_protocol :: string
  ci_source_id :: string
  ci_saml :: "saml_input option"
  ci_oidc :: "oidc_input option"
  ci_claim_mappings :: "(string \<times> string) list"
  ci_role_mappings :: "(string \<times> string) list"
  ci_custom_login_url :: string
  ci_trusted_login_redirect_uris :: "string list"

record update_app_input =
  ui_id :: string
  ui_display_name :: string
  ui_protocol :: string
  ui_source_id :: string
  ui_saml :: "saml_input option"
  ui_oidc :: "oidc_input option"
  ui_claim_mappings :: "(string \<times> string) list option"
  ui_role_mappings :: "(string \<times> string) list option"
  ui_custom_login_url :: "string option"
  ui_trusted_login_redirect_uris :: "string list option"

record app_output =
  ao_application :: application
  ao_saml :: "saml_config option"
  ao_oidc :: "oidc_config option"
  ao_client_secret :: string

definition to_claim_mappings :: "(string \<times> string) list \<Rightarrow> claim_mapping list" where
  "to_claim_mappings ms =
     map (\<lambda>(source, target). \<lparr>cm_name = target, cm_source_type = ''attribute'',
            cm_source_attribute = source, cm_target_attribute = target, cm_required = False,
            cm_default_value = []\<rparr>)
       (filter (\<lambda>m. snd m \<noteq> []) ms)"

definition to_role_mappings :: "(string \<times> string) list \<Rightarrow> role_mapping list" where
  "to_role_mappings ms =
     map (\<lambda>(g, v). \<lparr>rm_cognito_group = g, rm_mapped_value = v\<rparr>) (filter (\<lambda>m. fst m \<noteq> []) ms)"

subsection \<open>Checks on the settings of an application\<close>

text \<open>The empty text when the value lies in the range.\<close>

definition range_error :: "string \<Rightarrow> int \<Rightarrow> int \<Rightarrow> int \<Rightarrow> string" where
  "range_error field v lo hi = (if v < lo \<or> v > hi then field @ '' must be in range'' else [])"

definition range_errors :: "string \<Rightarrow> int \<Rightarrow> int \<Rightarrow> int \<Rightarrow> string list" where
  "range_errors field v lo hi =
     (if range_error field v lo hi \<noteq> [] then [range_error field v lo hi] else [])"

definition err_signing_always_on :: string where
  "err_signing_always_on = ''the gateway always signs both the SAML response and the assertion''"
definition err_encryption_needs_cert :: string where
  "err_encryption_needs_cert = ''encryptAssertion requires an SP encryption certificate''"
definition err_per_tenant_kms_key :: string where
  "err_per_tenant_kms_key = ''per-tenant KMS signing keys are not supported''"
definition err_want_authn_req_signed :: string where
  "err_want_authn_req_signed = ''wantAuthnRequestsSigned=true cannot be honoured''"
definition err_signing_always_on_valid :: string where
  "err_signing_always_on_valid = ''signResponse and signAssertion must both be true''"

definition validate_saml_config_input :: "saml_input option \<Rightarrow> saml_config option \<Rightarrow> string list" where
  "validate_saml_config_input inp existing =
     (case inp of
        None \<Rightarrow> []
      | Some s \<Rightarrow>
          (if si_sign_response s = Some False \<or> si_sign_assertion s = Some False
           then [err_signing_always_on] else []) @
          (if si_encrypt_assertion s = Some True
           then (case existing of
                   None \<Rightarrow> [err_encryption_needs_cert]
                 | Some c \<Rightarrow> if sc_encryption_cert_pem c = [] then [err_encryption_needs_cert] else [])
           else []) @
          (if si_session_duration_sec s \<noteq> 0
           then range_errors ''sessionDurationSec'' (si_session_duration_sec s)
                  session_duration_min_sec session_duration_max_sec else []) @
          (if si_clock_skew_sec s \<noteq> 0
           then range_errors ''clockSkewSec'' (si_clock_skew_sec s) clock_skew_min_sec clock_skew_max_sec
           else []))"

definition validate_oidc_config_input :: "oidc_input option \<Rightarrow> string list" where
  "validate_oidc_config_input inp =
     (case inp of
        None \<Rightarrow> []
      | Some i \<Rightarrow>
          (if oi_id_token_lifetime_sec i \<noteq> 0
           then range_errors ''idTokenLifetimeSec'' (oi_id_token_lifetime_sec i)
                  token_lifetime_min_sec token_lifetime_max_sec else []) @
          (if oi_access_token_lifetime_sec i \<noteq> 0
           then range_errors ''accessTokenLifetimeSec'' (oi_access_token_lifetime_sec i)
                  token_lifetime_min_sec token_lifetime_max_sec else []))"

definition trusted_entry_errors :: "string \<Rightarrow> string list" where
  "trusted_entry_errors raw =
     (let entry = trim_space raw in
      if entry = [] then []
      else case parse_url entry of
          None \<Rightarrow> [''trustedLoginRedirectUris entry is not a valid URL'']
        | Some u \<Rightarrow>
            if u_host u = [] then [''trustedLoginRedirectUris entry is not a valid URL'']
            else if \<not> equal_fold (u_scheme u) ''https''
            then [''trustedLoginRedirectUris entry must use https''] else [])"

definition custom_login_errors :: "application \<Rightarrow> string list" where
  "custom_login_errors a =
     (let custom = trim_space (a_custom_login_url a) in
      if custom = [] then []
      else case parse_url custom of
          None \<Rightarrow> [''customLoginUrl is not a valid URL'']
        | Some u \<Rightarrow>
            if u_host u = [] then [''customLoginUrl is not a valid URL'']
            else (if \<not> equal_fold (u_scheme u) ''https'' then [''customLoginUrl must use https''] else []) @
              (if a_trusted_login_redirect_uris a = []
               then [''customLoginUrl requires at least one trustedLoginRedirectUris entry'']
               else if \<not> is_trusted_login_redirect a custom
               then [''customLoginUrl must be covered by trustedLoginRedirectUris''] else []))"

definition validate_login_config :: "application \<Rightarrow> string list" where
  "validate_login_config a =
     concat (map trusted_entry_errors (a_trusted_login_redirect_uris a)) @ custom_login_errors a"

subsection \<open>Checks on stored SAML settings\<close>

definition known_name_id_formats :: "string list" where
  "known_name_id_formats = [''persistent'', ''transient'', ''email'', ''unspecified'']"

text \<open>\<^verbatim>\<open>url.ParseRequestURI\<close> succeeds: an absolute URL or a path from the root.\<close>

definition valid_request_uri :: "string \<Rightarrow> bool" where
  "valid_request_uri raw \<longleftrightarrow>
     \<not> list_ex is_ctl raw \<and> raw \<noteq> [] \<and>
     (raw = ''*'' \<or>
      (case get_scheme raw of
         None \<Rightarrow> False
       | Some (scheme, rest0) \<Rightarrow>
           let rest = fst (cut_query rest0) in
           if \<not> has_prefix rest ''/'' then scheme \<noteq> []
           else if scheme \<noteq> [] \<and> has_prefix rest ''//'' then
             (case split_authority (drop 2 rest) of (auth, path) \<Rightarrow>
                parse_authority auth \<noteq> None \<and> unescape EncPath path \<noteq> None)
           else unescape EncPath rest \<noteq> None))"

text \<open>
  The expiry of a certificate. \<open>read_cert\<close> stands for \<^verbatim>\<open>pem.Decode\<close> and \<^verbatim>\<open>x509.ParseCertificate\<close>: not
  PEM, not a certificate, or the instant it ends.
\<close>

type_synonym cert_reader = "string \<Rightarrow> gotime option option"

definition validate_pem_cert ::
  "cert_reader \<Rightarrow> gotime \<Rightarrow> string \<Rightarrow> string \<Rightarrow> string list \<times> string list" where
  "validate_pem_cert read_cert now pem_data label =
     (case read_cert pem_data of
        None \<Rightarrow> ([label @ '' certificate is not valid PEM''], [])
      | Some None \<Rightarrow> ([label @ '' certificate failed to parse''], [])
      | Some (Some not_after) \<Rightarrow>
          if now > not_after then ([label @ '' certificate expired''], [])
          else if not_after < now + hours (30 * 24) then ([], [label @ '' certificate expires soon''])
          else ([], []))"

definition optional_cert ::
  "cert_reader \<Rightarrow> gotime \<Rightarrow> string \<Rightarrow> string \<Rightarrow> string list \<times> string list" where
  "optional_cert read_cert now pem_data label =
     (if pem_data = [] then ([], []) else validate_pem_cert read_cert now pem_data label)"

definition validate_saml_config ::
  "cert_reader \<Rightarrow> gotime \<Rightarrow> saml_config \<Rightarrow> string list \<times> string list" where
  "validate_saml_config read_cert now c =
     (let s = optional_cert read_cert now (sc_signing_cert_pem c) ''signing'';
          e = optional_cert read_cert now (sc_encryption_cert_pem c) ''encryption''
      in ((if sc_entity_id c = [] then [''entityId is required''] else []) @
          (if sc_acs_url c = [] then [''acsUrl is required'']
           else if \<not> valid_request_uri (sc_acs_url c) then [''acsUrl is not a valid URL''] else []) @
          (if sc_name_id_format c \<noteq> [] \<and> sc_name_id_format c \<notin> set known_name_id_formats
           then [''unrecognized nameIdFormat''] else []) @
          fst s @ fst e @
          (if \<not> sc_sign_response c \<or> \<not> sc_sign_assertion c then [err_signing_always_on_valid] else []) @
          (if sc_encrypt_assertion c \<and> sc_encryption_cert_pem c = []
           then [err_encryption_needs_cert] else []) @
          (if sc_want_authn_requests_signed c then [err_want_authn_req_signed] else []) @
          (if sc_session_duration_sec c \<le> 0 then []
           else range_errors ''sessionDurationSec'' (sc_session_duration_sec c)
                  session_duration_min_sec session_duration_max_sec) @
          range_errors ''clockSkewSec'' (sc_clock_skew_sec c) clock_skew_min_sec clock_skew_max_sec,
          snd s @ snd e @
          (if sc_session_duration_sec c \<le> 0 then [''sessionDurationSec should be positive''] else [])))"

subsection \<open>Client secrets\<close>

definition is_confidential_auth_method :: "string \<Rightarrow> bool" where
  "is_confidential_auth_method meth \<longleftrightarrow>
     to_lower (trim_space meth) \<in> {''client_secret_basic'', ''client_secret_post''}"

text \<open>Thirty-two bytes of the random source in hexadecimal.\<close>

definition generate_client_secret :: "8 word list option \<Rightarrow> string res" where
  "generate_client_secret rnd =
     (case rnd of None \<Rightarrow> Inl (ErrMsg ''rand'') | Some bs \<Rightarrow> Inr (concat (map hex_byte bs)))"

end
