(* ===== verification/ApiApps.thy ===== *)
theory ApiApps
  imports ApiTypes
begin

text \<open>
  The application endpoints: \<^verbatim>\<open>internal/api/app_handlers.go\<close>, \<^verbatim>\<open>app_secret.go\<close>, \<^verbatim>\<open>app_import.go\<close> with
  \<^verbatim>\<open>internal/service/import.go\<close>, and the validation endpoint of \<^verbatim>\<open>app_validate.go\<close>. The random bytes a call
  may draw, for an id and for a client secret, are arguments; \<open>None\<close> is a failing source.
\<close>

subsection \<open>Building the stored settings\<close>

definition new_application :: "create_app_input \<Rightarrow> application" where
  "new_application inp =
     \<lparr>a_id = [], a_tenant_slug = [], a_display_name = ci_display_name inp,
      a_protocol = set_string_default (ci_protocol inp) ''saml'', a_source_id = ci_source_id inp,
      a_status = ''active'', a_created_at = zero_time, a_updated_at = zero_time,
      a_custom_login_url = trim_space (ci_custom_login_url inp),
      a_trusted_login_redirect_uris = ci_trusted_login_redirect_uris inp\<rparr>"

definition input_saml_config :: "saml_input \<Rightarrow> string \<Rightarrow> string \<Rightarrow> saml_config" where
  "input_saml_config s name_format name_source =
     \<lparr>sc_entity_id = si_entity_id s, sc_acs_url = si_acs_url s, sc_acs_urls = si_acs_urls s,
      sc_metadata_url = si_metadata_url s, sc_signing_cert_pem = [], sc_encryption_cert_pem = [],
      sc_name_id_format = canonical_name_id_format name_format, sc_name_id_source = name_source,
      sc_sign_response = set_bool_default (si_sign_response s) True,
      sc_sign_assertion = set_bool_default (si_sign_assertion s) True,
      sc_encrypt_assertion = set_bool_default (si_encrypt_assertion s) False,
      sc_want_authn_requests_signed = False,
      sc_allow_idp_initiated = set_bool_default (si_allow_idp_initiated s) False,
      sc_slo_url = si_slo_url s,
      sc_session_duration_sec = set_int_default (si_session_duration_sec s) 3600,
      sc_clock_skew_sec = set_int_default (si_clock_skew_sec s) 180,
      sc_allow_insecure_sha1 = False\<rparr>"

definition created_saml_config :: "saml_input option \<Rightarrow> saml_config" where
  "created_saml_config inp =
     (let s = (case inp of Some s \<Rightarrow> s | None \<Rightarrow> empty_saml_input)
      in input_saml_config s (set_string_default (si_name_id_format s) ''persistent'')
           (set_string_default (si_name_id_source s) ''sub''))"

text \<open>An update keeps the certificates a metadata import stored.\<close>

definition updated_saml_config :: "saml_input \<Rightarrow> saml_config option \<Rightarrow> saml_config" where
  "updated_saml_config s prev =
     (let c = input_saml_config s (si_name_id_format s) (si_name_id_source s)
      in case prev of
          None \<Rightarrow> c
        | Some p \<Rightarrow> c\<lparr>sc_signing_cert_pem := sc_signing_cert_pem p,
                       sc_encryption_cert_pem := sc_encryption_cert_pem p\<rparr>)"

definition input_oidc_config :: "oidc_input \<Rightarrow> oidc_config" where
  "input_oidc_config i =
     \<lparr>oc_client_secret = [], oc_redirect_uris = oi_redirect_uris i,
      oc_post_logout_redirect_uris = oi_post_logout_redirect_uris i,
      oc_grant_types = oi_grant_types i, oc_response_types = oi_response_types i,
      oc_scopes = oi_scopes i, oc_token_endpoint_auth_method = oi_token_endpoint_auth_method i,
      oc_id_token_lifetime_sec = oi_id_token_lifetime_sec i,
      oc_access_token_lifetime_sec = oi_access_token_lifetime_sec i,
      oc_refresh_token_lifetime_sec = oi_refresh_token_lifetime_sec i\<rparr>"

definition stores_oidc :: "string \<Rightarrow> oidc_input option \<Rightarrow> bool" where
  "stores_oidc protocol inp \<longleftrightarrow>
     equal_fold protocol ''oidc'' \<and> (case inp of None \<Rightarrow> False | Some i \<Rightarrow> oi_redirect_uris i \<noteq> [])"

subsection \<open>Create\<close>

text \<open>The settings of a new OpenID client; the result is the secret that was generated, or empty.\<close>

definition store_created_oidc ::
  "8 word list option \<Rightarrow> string \<Rightarrow> string \<Rightarrow> oidc_input \<Rightarrow> cfg_db \<Rightarrow> string api \<times> cfg_db" where
  "store_created_oidc srnd slug i inp d =
     (let cfg = input_oidc_config inp in
      if is_confidential_auth_method (oc_token_endpoint_auth_method cfg) then
        or_500 ''failed to generate client secret'' (generate_client_secret srnd, d) (\<lambda>secret d1.
          or_500 ''failed to store OIDC config''
            (update_oidc_config slug i (cfg\<lparr>oc_client_secret := secret\<rparr>) d1) (\<lambda>_ d2. (Inr secret, d2)))
      else or_500 ''failed to store OIDC config'' (update_oidc_config slug i cfg d) (\<lambda>_ d2. (Inr [], d2)))"

definition app_output_of :: "string \<Rightarrow> string \<Rightarrow> application \<Rightarrow> bool \<Rightarrow> bool \<Rightarrow> string \<Rightarrow> cfg_db \<Rightarrow> app_output" where
  "app_output_of slug i app saml oidc secret d =
     \<lparr>ao_application = app,
      ao_saml = (if saml then ignoring_error (get_saml_config slug i d) else None),
      ao_oidc = (if oidc then ignoring_error (get_oidc_config slug i d) else None),
      ao_client_secret = secret\<rparr>"

definition create_application ::
  "gotime \<Rightarrow> 8 word list option \<Rightarrow> 8 word list option \<Rightarrow> request_ctx \<Rightarrow> create_app_input \<Rightarrow> cfg_db
     \<Rightarrow> app_output api \<times> cfg_db" where
  "create_application now rnd srnd cx inp d =
     with_slug cx d (\<lambda>slug.
       let app = new_application inp;
           saml = (if equal_fold (a_protocol app) ''saml'' then Some (created_saml_config (ci_saml inp)) else None)
       in
       if validate_login_config app \<noteq> [] then (Inl (422, ''invalid login configuration''), d)
       else if validate_saml_config_input (ci_saml inp) None \<noteq> []
       then (Inl (422, ''invalid SAML configuration''), d)
       else if validate_oidc_config_input (ci_oidc inp) \<noteq> []
       then (Inl (422, ''invalid OIDC configuration''), d)
       else or_500 ''failed to create application'' (app_create rnd now slug app saml d) (\<lambda>i d1.
         then_api (case ci_oidc inp of
                     Some oi \<Rightarrow> if stores_oidc (a_protocol app) (ci_oidc inp)
                                then store_created_oidc srnd slug i oi d1 else (Inr [], d1)
                   | None \<Rightarrow> (Inr [], d1)) (\<lambda>secret d2.
         or_500 ''failed to store claim mappings''
           (if ci_claim_mappings inp \<noteq> []
            then put_claim_mappings slug i (to_claim_mappings (ci_claim_mappings inp)) d2
            else (Inr (), d2)) (\<lambda>_ d3.
         or_500 ''failed to store role mappings''
           (if ci_role_mappings inp \<noteq> []
            then put_role_mappings slug i (to_role_mappings (ci_role_mappings inp)) d3
            else (Inr (), d3)) (\<lambda>_ d4.
         or_500 ''failed to retrieve created application'' (app_get slug i d4, d4) (\<lambda>created d5.
           (Inr (app_output_of slug i created (saml \<noteq> None) (equal_fold (a_protocol created) ''oidc'')
                   secret d5), d5)))))))"

subsection \<open>List and get\<close>

definition list_applications :: "request_ctx \<Rightarrow> cfg_db \<Rightarrow> application list api \<times> cfg_db" where
  "list_applications cx d =
     with_slug cx d (\<lambda>slug.
       or_500 ''failed to list applications'' (app_list slug d, d) (\<lambda>apps d1.
         (Inr (filter (\<lambda>a. \<not> equal_fold (a_status a) ''deleted'') apps), d1)))"

definition get_application :: "request_ctx \<Rightarrow> string \<Rightarrow> cfg_db \<Rightarrow> app_output api \<times> cfg_db" where
  "get_application cx i d =
     with_slug cx d (\<lambda>slug.
       or_404 ''application not found'' ''failed to get application'' (app_get slug i d, d) (\<lambda>app d1.
         (Inr (app_output_of slug i app (equal_fold (a_protocol app) ''saml'')
                 (equal_fold (a_protocol app) ''oidc'') [] d1), d1)))"

subsection \<open>Update\<close>

definition apply_update :: "update_app_input \<Rightarrow> application \<Rightarrow> application" where
  "apply_update inp ex =
     ex\<lparr>a_display_name := ui_display_name inp,
        a_protocol := set_string_default (ui_protocol inp) (a_protocol ex),
        a_source_id := ui_source_id inp,
        a_custom_login_url := (case ui_custom_login_url inp of
           Some u \<Rightarrow> trim_space u | None \<Rightarrow> a_custom_login_url ex),
        a_trusted_login_redirect_uris := (case ui_trusted_login_redirect_uris inp of
           Some us \<Rightarrow> us | None \<Rightarrow> a_trusted_login_redirect_uris ex)\<rparr>"

definition updates_saml :: "string \<Rightarrow> saml_input option \<Rightarrow> bool" where
  "updates_saml protocol inp \<longleftrightarrow>
     equal_fold protocol ''saml'' \<and> (case inp of None \<Rightarrow> False | Some s \<Rightarrow> si_entity_id s \<noteq> [])"

text \<open>A confidential client keeps its secret, or gets its first one.\<close>

definition store_updated_oidc ::
  "8 word list option \<Rightarrow> string \<Rightarrow> string \<Rightarrow> oidc_input \<Rightarrow> cfg_db \<Rightarrow> string api \<times> cfg_db" where
  "store_updated_oidc srnd slug i inp d =
     (let cfg = input_oidc_config inp;
          prev = (case get_oidc_config slug i d of Inl e \<Rightarrow> [] | Inr c \<Rightarrow> oc_client_secret c)
      in if \<not> is_confidential_auth_method (oc_token_endpoint_auth_method cfg)
         then or_500 ''failed to update OIDC config'' (update_oidc_config slug i cfg d) (\<lambda>_ d1. (Inr [], d1))
         else if prev \<noteq> []
         then or_500 ''failed to update OIDC config''
                (update_oidc_config slug i (cfg\<lparr>oc_client_secret := prev\<rparr>) d) (\<lambda>_ d1. (Inr [], d1))
         else or_500 ''failed to generate client secret'' (generate_client_secret srnd, d) (\<lambda>secret d1.
           or_500 ''failed to update OIDC config''
             (update_oidc_config slug i (cfg\<lparr>oc_client_secret := secret\<rparr>) d1) (\<lambda>_ d2. (Inr secret, d2))))"

definition update_application ::
  "gotime \<Rightarrow> 8 word list option \<Rightarrow> request_ctx \<Rightarrow> update_app_input \<Rightarrow> cfg_db \<Rightarrow> app_output api \<times> cfg_db" where
  "update_application now srnd cx inp d =
     with_slug cx d (\<lambda>slug.
     or_404 ''application not found'' ''failed to get application'' (app_get slug (ui_id inp) d, d) (\<lambda>ex d0.
       let app = apply_update inp ex;
           saml = (if updates_saml (a_protocol app) (ui_saml inp) then ui_saml inp else None);
           prev = (if saml \<noteq> None then ignoring_error (get_saml_config slug (ui_id inp) d0) else None)
       in
       if validate_login_config app \<noteq> [] then (Inl (422, ''invalid login configuration''), d0)
       else if validate_saml_config_input saml prev \<noteq> []
       then (Inl (422, ''invalid SAML configuration''), d0)
       else if validate_oidc_config_input (ui_oidc inp) \<noteq> []
       then (Inl (422, ''invalid OIDC configuration''), d0)
       else or_500 ''failed to update application'' (app_update now slug app d0) (\<lambda>_ d1.
         or_500 ''failed to update SAML config''
           (case saml of
              None \<Rightarrow> (Inr (), d1)
            | Some s \<Rightarrow> update_saml_config slug (ui_id inp) (updated_saml_config s prev) d1) (\<lambda>_ d2.
         then_api
           (case ui_oidc inp of
              Some oi \<Rightarrow> if stores_oidc (a_protocol app) (ui_oidc inp)
                         then store_updated_oidc srnd slug (ui_id inp) oi d2 else (Inr [], d2)
            | None \<Rightarrow> (Inr [], d2)) (\<lambda>secret d3.
         or_500 ''failed to update claim mappings''
           (case ui_claim_mappings inp of
              None \<Rightarrow> (Inr (), d3)
            | Some ms \<Rightarrow> put_claim_mappings slug (ui_id inp) (to_claim_mappings ms) d3) (\<lambda>_ d4.
         or_500 ''failed to update role mappings''
           (case ui_role_mappings inp of
              None \<Rightarrow> (Inr (), d4)
            | Some ms \<Rightarrow> put_role_mappings slug (ui_id inp) (to_role_mappings ms) d4) (\<lambda>_ d5.
           (Inr (app_output_of slug (ui_id inp)
                   (app\<lparr>a_tenant_slug := slug, a_updated_at := now\<rparr>)
                   (equal_fold (a_protocol app) ''saml'') (equal_fold (a_protocol app) ''oidc'')
                   secret d5), d5))))))))"

subsection \<open>Delete, enable, disable\<close>

definition delete_application :: "request_ctx \<Rightarrow> string \<Rightarrow> cfg_db \<Rightarrow> unit api \<times> cfg_db" where
  "delete_application cx i d =
     with_slug cx d (\<lambda>slug.
       or_404 ''application not found'' ''failed to delete application'' (app_delete slug i d) (\<lambda>_ d1.
         let d2 = best_effort (put_claim_mappings slug i [] d1);
             d3 = best_effort (put_role_mappings slug i [] d2)
         in (Inr (), d3)))"

definition set_application_status ::
  "gotime \<Rightarrow> string \<Rightarrow> request_ctx \<Rightarrow> string \<Rightarrow> cfg_db \<Rightarrow> app_output api \<times> cfg_db" where
  "set_application_status now status cx i d =
     with_slug cx d (\<lambda>slug.
       or_404 ''application not found'' ''failed to set the status of the application''
         (app_set_status now slug i status d) (\<lambda>_ d1.
         or_500 ''failed to retrieve application'' (app_get slug i d1, d1) (\<lambda>app d2.
           (Inr (app_output_of slug i app False False [] d2), d2))))"

definition enable_application ::
  "gotime \<Rightarrow> request_ctx \<Rightarrow> string \<Rightarrow> cfg_db \<Rightarrow> app_output api \<times> cfg_db" where
  "enable_application now = set_application_status now ''active''"

definition disable_application ::
  "gotime \<Rightarrow> request_ctx \<Rightarrow> string \<Rightarrow> cfg_db \<Rightarrow> app_output api \<times> cfg_db" where
  "disable_application now = set_application_status now ''disabled''"

subsection \<open>Secrets\<close>

definition rotate_client_secret ::
  "8 word list option \<Rightarrow> request_ctx \<Rightarrow> string \<Rightarrow> cfg_db \<Rightarrow> string api \<times> cfg_db" where
  "rotate_client_secret srnd cx i d =
     with_slug cx d (\<lambda>slug.
     or_404 ''application not found'' ''failed to get application'' (app_get slug i d, d) (\<lambda>app d0.
       if \<not> equal_fold (a_protocol app) ''oidc''
       then (Inl (400, ''secret rotation is only supported for OIDC applications''), d0)
       else or_404 ''OIDC configuration not found'' ''failed to get OIDC config''
              (get_oidc_config slug i d0, d0) (\<lambda>cfg d1.
         if \<not> is_confidential_auth_method (oc_token_endpoint_auth_method cfg)
         then (Inl (400, ''public clients do not use secrets''), d1)
         else or_500 ''failed to generate random secret'' (generate_client_secret srnd, d1) (\<lambda>secret d2.
           or_500 ''failed to store new secret''
             (update_oidc_config slug i (cfg\<lparr>oc_client_secret := secret\<rparr>) d2) (\<lambda>_ d3.
             (Inr secret, d3))))))"

subsection \<open>Validation\<close>

text \<open>The errors and the warnings; the settings are valid when there is no error.\<close>

definition validate_application ::
  "cert_reader \<Rightarrow> gotime \<Rightarrow> request_ctx \<Rightarrow> string \<Rightarrow> cfg_db
     \<Rightarrow> (bool \<times> string list \<times> string list) api \<times> cfg_db" where
  "validate_application read_cert now cx i d =
     with_slug cx d (\<lambda>slug.
     or_404 ''application not found'' ''failed to get application'' (app_get slug i d, d) (\<lambda>app d0.
       if \<not> equal_fold (a_protocol app) ''saml''
       then (Inl (400, ''validation is only supported for SAML applications''), d0)
       else or_500 ''failed to get SAML config'' (get_saml_config slug i d0, d0) (\<lambda>c d1.
         let r = validate_saml_config read_cert now c in (Inr (fst r = [], r), d1))))"

subsection \<open>Import from metadata\<close>

text \<open>What the XML decoder finds in a service provider's metadata.\<close>

record metadata_key =
  mk_use :: string
  mk_certificates :: "string list"

record sp_sso_descriptor =
  sd_acs_locations :: "string list"
  sd_keys :: "metadata_key list"

record sp_metadata =
  md_entity_id :: string
  md_sp :: "sp_sso_descriptor list"

definition to_pem :: "string \<Rightarrow> string" where
  "to_pem body =
     ''-----BEGIN CERTIFICATE-----'' @ [CHR 0x0A] @ filter (\<lambda>c. \<not> is_space c) body @ [CHR 0x0A] @
     ''-----END CERTIFICATE-----''"

text \<open>The loop over the key descriptors: the signing and the encryption certificate so far.\<close>

fun collect_certs :: "metadata_key list \<Rightarrow> string \<times> string \<Rightarrow> string \<times> string" where
  "collect_certs [] acc = acc"
| "collect_certs (k # ks) (sig, enc) =
     (case mk_certificates k of
        [] \<Rightarrow> collect_certs ks (sig, enc)
      | cert # _ \<Rightarrow>
          let pem_block = to_pem cert; use = to_lower (mk_use k) in
          if use = ''signing'' then collect_certs ks (pem_block, enc)
          else if use = ''encryption'' then collect_certs ks (sig, pem_block)
          else collect_certs ks (if sig = [] then pem_block else sig, if enc = [] then pem_block else enc))"

definition imported_saml_config :: "string \<Rightarrow> sp_metadata \<Rightarrow> saml_config" where
  "imported_saml_config metadata_url md =
     (let locations = (case md_sp md of [] \<Rightarrow> [] | sp # _ \<Rightarrow> sd_acs_locations sp);
          certs = (case md_sp md of [] \<Rightarrow> ([], []) | sp # _ \<Rightarrow> collect_certs (sd_keys sp) ([], []))
      in \<lparr>sc_entity_id = md_entity_id md,
          sc_acs_url = (case locations of [] \<Rightarrow> [] | l # _ \<Rightarrow> l), sc_acs_urls = tl locations,
          sc_metadata_url = metadata_url, sc_signing_cert_pem = fst certs,
          sc_encryption_cert_pem = snd certs, sc_name_id_format = ''persistent'',
          sc_name_id_source = ''sub'', sc_sign_response = True, sc_sign_assertion = True,
          sc_encrypt_assertion = False, sc_want_authn_requests_signed = False,
          sc_allow_idp_initiated = False, sc_slo_url = [], sc_session_duration_sec = 3600,
          sc_clock_skew_sec = 180, sc_allow_insecure_sha1 = False\<rparr>)"

text \<open>The fetch over HTTPS and the XML decoder are arguments.\<close>

definition metadata_import ::
  "(string \<Rightarrow> string res) \<Rightarrow> (string \<Rightarrow> sp_metadata option) \<Rightarrow> gotime \<Rightarrow> 8 word list option
     \<Rightarrow> string \<Rightarrow> string \<Rightarrow> string \<Rightarrow> string \<Rightarrow> cfg_db
     \<Rightarrow> (string \<times> application \<times> saml_config) res \<times> cfg_db" where
  "metadata_import fetch decode now rnd slug metadata_url source_id display_name d =
     (if metadata_url = [] then (Inl (ErrMsg ''metadataUrl is required''), d)
      else case fetch metadata_url of
          Inl e \<Rightarrow> (Inl (Wrap ''failed to fetch metadata'' e), d)
        | Inr body \<Rightarrow>
            (case decode body of
               None \<Rightarrow> (Inl (ErrMsg ''failed to parse metadata XML''), d)
             | Some md \<Rightarrow>
                 if md_entity_id md = [] then (Inl (ErrMsg ''metadata does not contain an entityID''), d)
                 else
                   let app = \<lparr>a_id = [], a_tenant_slug = [],
                         a_display_name = (if display_name = [] then md_entity_id md else display_name),
                         a_protocol = ''saml'', a_source_id = source_id, a_status = ''active'',
                         a_created_at = zero_time, a_updated_at = zero_time, a_custom_login_url = [],
                         a_trusted_login_redirect_uris = []\<rparr>;
                       cfg = imported_saml_config metadata_url md
                   in case app_create rnd now slug app (Some cfg) d of
                       (Inl e, d1) \<Rightarrow> (Inl (Wrap ''failed to create application'' e), d1)
                     | (Inr i, d1) \<Rightarrow>
                         (Inr (i, app\<lparr>a_id := i, a_tenant_slug := slug, a_created_at := now,
                                     a_updated_at := now\<rparr>, cfg), d1)))"

definition import_application ::
  "(string \<Rightarrow> string res) \<Rightarrow> (string \<Rightarrow> sp_metadata option) \<Rightarrow> gotime \<Rightarrow> 8 word list option
     \<Rightarrow> request_ctx \<Rightarrow> string \<Rightarrow> string \<Rightarrow> string \<Rightarrow> cfg_db \<Rightarrow> app_output api \<times> cfg_db" where
  "import_application fetch decode now rnd cx metadata_url source_id display_name d =
     with_slug cx d (\<lambda>slug.
       case metadata_import fetch decode now rnd slug metadata_url source_id display_name d of
         (Inl e, d1) \<Rightarrow> (Inl (422, ''import failed''), d1)
       | (Inr (i, app, cfg), d1) \<Rightarrow>
           (Inr \<lparr>ao_application = app\<lparr>a_id := i\<rparr>, ao_saml = Some cfg, ao_oidc = None,
                 ao_client_secret = []\<rparr>, d1))"

end
