(* ===== verification/ApiTenants.thy ===== *)
theory ApiTenants
  imports ApiTypes ClaimStore
begin

text \<open>
  The endpoints for tenants, identity sources, mappings and settings: \<^verbatim>\<open>internal/api/tenant_handlers.go\<close>,
  \<^verbatim>\<open>source_handlers.go\<close>, \<^verbatim>\<open>mapping_handlers.go\<close>, \<^verbatim>\<open>settings_handlers.go\<close> with
  \<^verbatim>\<open>internal/service/settings.go\<close>.
\<close>

subsection \<open>Tenants\<close>

text \<open>The defaults a request may override; zero, the empty text, the empty list and None leave them.\<close>

record tenant_overrides =
  tv_session_duration_sec :: int
  tv_sign_response :: "bool option"
  tv_sign_assertion :: "bool option"
  tv_name_id_format :: string
  tv_id_token_lifetime_sec :: int
  tv_access_token_lifetime_sec :: int
  tv_scopes :: "string list"

record create_tenant_input =
  ct_slug :: string
  ct_display_name :: string
  ct_domain :: string
  ct_kms_key_id :: string
  ct_kms_key_arn :: string
  ct_overrides :: tenant_overrides

record update_tenant_input =
  ut_slug :: string
  ut_display_name :: string
  ut_domain :: string
  ut_kms_key_id :: string
  ut_kms_key_arn :: string
  ut_overrides :: tenant_overrides

definition apply_overrides :: "tenant_overrides \<Rightarrow> tenant \<Rightarrow> tenant" where
  "apply_overrides v t =
     t\<lparr>t_default_session_duration_sec :=
          (if tv_session_duration_sec v > 0 then tv_session_duration_sec v
           else t_default_session_duration_sec t),
        t_default_sign_response := set_bool_default (tv_sign_response v) (t_default_sign_response t),
        t_default_sign_assertion := set_bool_default (tv_sign_assertion v) (t_default_sign_assertion t),
        t_default_name_id_format := set_string_default (tv_name_id_format v) (t_default_name_id_format t),
        t_default_id_token_lifetime_sec :=
          (if tv_id_token_lifetime_sec v > 0 then tv_id_token_lifetime_sec v
           else t_default_id_token_lifetime_sec t),
        t_default_access_token_lifetime_sec :=
          (if tv_access_token_lifetime_sec v > 0 then tv_access_token_lifetime_sec v
           else t_default_access_token_lifetime_sec t),
        t_default_scopes := (if tv_scopes v \<noteq> [] then tv_scopes v else t_default_scopes t)\<rparr>"

definition initial_tenant :: "create_tenant_input \<Rightarrow> tenant" where
  "initial_tenant inp =
     \<lparr>t_slug = ct_slug inp, t_display_name = ct_display_name inp, t_plan = ''standard'',
      t_domain = ct_domain inp, t_status = ''active'', t_max_apps = 10, t_max_auths_per_month = 10000,
      t_kms_key_id = [], t_kms_key_arn = [], t_created_at = zero_time, t_updated_at = zero_time,
      t_default_session_duration_sec = 3600, t_default_sign_response = True,
      t_default_sign_assertion = True, t_default_name_id_format = ''email'',
      t_default_id_token_lifetime_sec = 3600, t_default_access_token_lifetime_sec = 3600,
      t_default_scopes = [''openid'', ''email'', ''profile''], t_onboarding_state = [],
      t_capability_map = []\<rparr>"

definition create_tenant :: "gotime \<Rightarrow> request_ctx \<Rightarrow> create_tenant_input \<Rightarrow> cfg_db \<Rightarrow> tenant api \<times> cfg_db" where
  "create_tenant now cx inp d =
     (if ct_kms_key_id inp \<noteq> [] \<or> ct_kms_key_arn inp \<noteq> [] then (Inl (422, err_per_tenant_kms_key), d)
      else let t = apply_overrides (ct_overrides inp) (initial_tenant inp) in
        or_500 ''failed to create tenant'' (tenant_create now t d) (\<lambda>_ d1.
          or_500 ''failed to retrieve created tenant'' (tenant_get (t_slug t) d1, d1) (\<lambda>c d2. (Inr c, d2))))"

definition list_tenants :: "request_ctx \<Rightarrow> cfg_db \<Rightarrow> tenant list api \<times> cfg_db" where
  "list_tenants cx d =
     with_slug cx d (\<lambda>caller.
       or_500 ''failed to list tenants'' (tenant_list d, d) (\<lambda>ts d1.
         (Inr (filter (\<lambda>t. has_global_operator (ctx_groups cx) \<or> t_slug t = caller) ts), d1)))"

definition get_tenant :: "request_ctx \<Rightarrow> string \<Rightarrow> cfg_db \<Rightarrow> tenant api \<times> cfg_db" where
  "get_tenant cx slug d =
     then_api (require_tenant_match cx slug ''forbidden: cannot access a different tenant'', d) (\<lambda>_ d0.
       or_404 ''tenant not found'' ''failed to get tenant'' (tenant_get slug d0, d0) (\<lambda>t d1. (Inr t, d1)))"

definition update_tenant :: "gotime \<Rightarrow> request_ctx \<Rightarrow> update_tenant_input \<Rightarrow> cfg_db \<Rightarrow> tenant api \<times> cfg_db" where
  "update_tenant now cx inp d =
     then_api (require_tenant_match cx (ut_slug inp) ''forbidden: cannot modify a different tenant'', d) (\<lambda>_ d0.
       if ut_kms_key_id inp \<noteq> [] \<or> ut_kms_key_arn inp \<noteq> [] then (Inl (422, err_per_tenant_kms_key), d0)
       else or_404 ''tenant not found'' ''failed to get tenant'' (tenant_get (ut_slug inp) d0, d0) (\<lambda>ex d1.
         let t = apply_overrides (ut_overrides inp)
                   (ex\<lparr>t_display_name := set_string_default (ut_display_name inp) (t_display_name ex),
                       t_domain := set_string_default (ut_domain inp) (t_domain ex)\<rparr>)
         in or_500 ''failed to update tenant'' (tenant_update now t d1) (\<lambda>_ d2.
           or_500 ''failed to retrieve updated tenant'' (tenant_get (ut_slug inp) d2, d2) (\<lambda>c d3.
             (Inr c, d3)))))"

definition delete_tenant :: "request_ctx \<Rightarrow> string \<Rightarrow> cfg_db \<Rightarrow> unit api \<times> cfg_db" where
  "delete_tenant cx slug d =
     then_api (require_tenant_match cx slug ''forbidden: cannot delete a different tenant'', d) (\<lambda>_ d0.
       if slug = default_slug then (Inl (400, ''the default tenant cannot be deleted''), d0)
       else or_404 ''tenant not found'' ''failed to get tenant'' (tenant_get slug d0, d0) (\<lambda>t d1.
         or_500 ''failed to check tenant applications'' (app_list slug d1, d1) (\<lambda>apps d2.
           if apps \<noteq> [] then (Inl (409, ''tenant still has applications''), d2)
           else or_500 ''failed to delete tenant'' (tenant_delete slug d2) (\<lambda>_ d3. (Inr (), d3)))))"

subsection \<open>Identity sources\<close>

record source_input =
  sri_display_name :: string
  sri_type :: string
  sri_pool_id :: string
  sri_region :: string
  sri_domain :: string
  sri_client_id :: string

text \<open>
  A missing domain is looked up from the pool. \<open>discover\<close> stands for the AWS configuration and the
  Cognito call: no answer, or the domain, which may be empty.
\<close>

definition discovered_domain :: "(string \<Rightarrow> string \<Rightarrow> string option) \<Rightarrow> identity_source \<Rightarrow> identity_source" where
  "discovered_domain discover src =
     (if s_domain src = [] \<and> s_pool_id src \<noteq> [] \<and> s_region src \<noteq> [] then
        (case discover (s_pool_id src) (s_region src) of
           None \<Rightarrow> src
         | Some found \<Rightarrow> if found \<noteq> [] then src\<lparr>s_domain := found\<rparr> else src)
      else src)"

definition new_source :: "source_input \<Rightarrow> identity_source" where
  "new_source inp =
     \<lparr>s_id = [], s_tenant_slug = [], s_display_name = sri_display_name inp,
      s_type = set_string_default (sri_type inp) ''cognito'', s_pool_id = sri_pool_id inp,
      s_region = sri_region inp, s_domain = sri_domain inp, s_client_id = sri_client_id inp,
      s_status = ''active'', s_created_at = zero_time, s_updated_at = zero_time, s_role_arn = [],
      s_external_id = [], s_secret_arn = []\<rparr>"

definition create_source ::
  "(string \<Rightarrow> string \<Rightarrow> string option) \<Rightarrow> gotime \<Rightarrow> 8 word list option \<Rightarrow> request_ctx \<Rightarrow> source_input
     \<Rightarrow> cfg_db \<Rightarrow> identity_source api \<times> cfg_db" where
  "create_source discover now rnd cx inp d =
     with_slug cx d (\<lambda>slug.
       or_500 ''failed to create identity source''
         (source_create rnd now slug (discovered_domain discover (new_source inp)) d) (\<lambda>i d1.
         or_500 ''failed to retrieve created identity source'' (source_get slug i d1, d1) (\<lambda>s d2.
           (Inr s, d2))))"

definition list_sources :: "request_ctx \<Rightarrow> cfg_db \<Rightarrow> identity_source list api \<times> cfg_db" where
  "list_sources cx d =
     with_slug cx d (\<lambda>slug.
       or_500 ''failed to list identity sources'' (source_list slug d, d) (\<lambda>ss d1. (Inr ss, d1)))"

definition get_source :: "request_ctx \<Rightarrow> string \<Rightarrow> cfg_db \<Rightarrow> identity_source api \<times> cfg_db" where
  "get_source cx i d =
     with_slug cx d (\<lambda>slug.
       or_404 ''identity source not found'' ''failed to get identity source'' (source_get slug i d, d) (\<lambda>s d1.
         (Inr s, d1)))"

definition update_source ::
  "(string \<Rightarrow> string \<Rightarrow> string option) \<Rightarrow> gotime \<Rightarrow> request_ctx \<Rightarrow> string \<Rightarrow> source_input \<Rightarrow> cfg_db
     \<Rightarrow> identity_source api \<times> cfg_db" where
  "update_source discover now cx i inp d =
     with_slug cx d (\<lambda>slug.
     or_404 ''identity source not found'' ''failed to get identity source'' (source_get slug i d, d) (\<lambda>ex d1.
       let s = discovered_domain discover
             (ex\<lparr>s_display_name := sri_display_name inp,
                 s_type := set_string_default (sri_type inp) (s_type ex),
                 s_pool_id := set_string_default (sri_pool_id inp) (s_pool_id ex),
                 s_region := set_string_default (sri_region inp) (s_region ex),
                 s_domain := set_string_default (sri_domain inp) (s_domain ex),
                 s_client_id := set_string_default (sri_client_id inp) (s_client_id ex)\<rparr>)
       in or_500 ''failed to update identity source'' (source_update now slug s d1) (\<lambda>_ d2.
            (Inr (s\<lparr>s_tenant_slug := slug, s_updated_at := now\<rparr>), d2))))"

definition delete_source :: "request_ctx \<Rightarrow> string \<Rightarrow> cfg_db \<Rightarrow> unit api \<times> cfg_db" where
  "delete_source cx i d =
     with_slug cx d (\<lambda>slug.
       or_404 ''identity source not found'' ''failed to delete identity source'' (source_delete slug i d)
         (\<lambda>_ d1. (Inr (), d1)))"

text \<open>
  The connectivity test. The guarded HTTP probe is an argument: a blocked destination, another
  error, or the status of the answer. The result is reachability and an error text.
\<close>

datatype probe_result = ProbeBlocked | ProbeFailed string | ProbeStatus int

definition source_test_url :: "identity_source \<Rightarrow> string" where
  "source_test_url s =
     (if has_prefix (s_domain s) ''http://'' \<or> has_prefix (s_domain s) ''https://''
      then s_domain s @ ''/.well-known/openid-configuration''
      else if s_region s \<noteq> [] \<and> s_pool_id s \<noteq> []
      then ''https://cognito-idp.'' @ s_region s @ ''.amazonaws.com/'' @ s_pool_id s @
           ''/.well-known/openid-configuration''
      else ''https://'' @ s_domain s @ ''/.well-known/openid-configuration'')"

definition test_source ::
  "(string \<Rightarrow> probe_result) \<Rightarrow> request_ctx \<Rightarrow> string \<Rightarrow> cfg_db \<Rightarrow> (bool \<times> string) api \<times> cfg_db" where
  "test_source probe cx i d =
     with_slug cx d (\<lambda>slug.
     or_404 ''identity source not found'' ''failed to get identity source'' (source_get slug i d, d) (\<lambda>s d1.
       (Inr (case probe (source_test_url s) of
               ProbeBlocked \<Rightarrow> (False, ''connectivity target is not a permitted public address'')
             | ProbeFailed e \<Rightarrow> (False, e)
             | ProbeStatus st \<Rightarrow> if st \<noteq> 200 then (False, ''HTTP status'') else (True, [])), d1)))"

text \<open>\<open>describe\<close> is the AWS configuration and the Cognito call: domain and attributes of the pool.\<close>

definition discover_source ::
  "(string \<Rightarrow> string \<Rightarrow> (string \<times> string list) res) \<Rightarrow> request_ctx \<Rightarrow> string \<Rightarrow> string \<Rightarrow> cfg_db
     \<Rightarrow> (string \<times> string list) api \<times> cfg_db" where
  "discover_source describe cx pool region d =
     with_slug cx d (\<lambda>slug.
       or_500 ''failed to discover pool'' (describe pool region, d) (\<lambda>info d1. (Inr info, d1)))"

subsection \<open>Mappings\<close>

text \<open>Every mapping endpoint first checks that the application exists.\<close>

definition with_app :: "request_ctx \<Rightarrow> string \<Rightarrow> cfg_db \<Rightarrow> (string \<Rightarrow> cfg_db \<Rightarrow> 'a api \<times> cfg_db) \<Rightarrow> 'a api \<times> cfg_db" where
  "with_app cx i d k =
     with_slug cx d (\<lambda>slug.
       or_404 ''application not found'' ''failed to get application'' (app_get slug i d, d) (\<lambda>_ d1. k slug d1))"

definition get_claims :: "request_ctx \<Rightarrow> string \<Rightarrow> cfg_db \<Rightarrow> claim_mapping list api \<times> cfg_db" where
  "get_claims cx i d =
     with_app cx i d (\<lambda>slug d1.
       or_500 ''failed to get claim mappings'' (get_claim_mappings slug i d1, d1) (\<lambda>ms d2. (Inr ms, d2)))"

text \<open>The items of the request carry the fields of a mapping one by one.\<close>

definition put_claims :: "request_ctx \<Rightarrow> string \<Rightarrow> claim_mapping list \<Rightarrow> cfg_db \<Rightarrow> nat api \<times> cfg_db" where
  "put_claims cx i ms d =
     with_app cx i d (\<lambda>slug d1.
       or_500 ''failed to store claim mappings'' (put_claim_mappings slug i ms d1) (\<lambda>_ d2.
         (Inr (length ms), d2)))"

definition get_roles :: "request_ctx \<Rightarrow> string \<Rightarrow> cfg_db \<Rightarrow> role_mapping list api \<times> cfg_db" where
  "get_roles cx i d =
     with_app cx i d (\<lambda>slug d1.
       or_500 ''failed to get role mappings'' (get_role_mappings slug i d1, d1) (\<lambda>ms d2. (Inr ms, d2)))"

definition put_roles :: "request_ctx \<Rightarrow> string \<Rightarrow> role_mapping list \<Rightarrow> cfg_db \<Rightarrow> nat api \<times> cfg_db" where
  "put_roles cx i ms d =
     with_app cx i d (\<lambda>slug d1.
       or_500 ''failed to store role mappings'' (put_role_mappings slug i ms d1) (\<lambda>_ d2.
         (Inr (length ms), d2)))"

subsection \<open>Settings\<close>

record gateway_info =
  gi_entity_id :: string
  gi_base_url :: string
  gi_kms_key_id :: string
  gi_kms_key_id_backup :: string
  gi_saml_metadata_url :: string
  gi_oidc_discovery_url :: string

definition get_settings :: "gateway_config \<Rightarrow> request_ctx \<Rightarrow> cfg_db \<Rightarrow> (tenant \<times> gateway_info) api \<times> cfg_db" where
  "get_settings g cx d =
     with_slug cx d (\<lambda>slug.
       or_500 ''failed to load settings'' (wrap_res ''failed to load tenant'' (tenant_get slug d), d) (\<lambda>t d1.
         (Inr (t, \<lparr>gi_entity_id = g_entity_id g, gi_base_url = g_base_url g,
                   gi_kms_key_id = g_kms_key_id g, gi_kms_key_id_backup = g_kms_key_id_backup g,
                   gi_saml_metadata_url = g_base_url g @ ''/t/'' @ slug @ ''/saml/metadata'',
                   gi_oidc_discovery_url =
                     g_base_url g @ ''/t/'' @ slug @ ''/oidc/.well-known/openid-configuration''\<rparr>), d1)))"

end
