(* ===== verification/ApiRouter.thy ===== *)
theory ApiRouter
  imports ApiApps ApiTenants
begin

text \<open>
  The management API as one program: the registered operations of \<^verbatim>\<open>internal/api\<close> with their methods
  and paths, the dispatch to their handlers, and \<open>api_serve\<close>, a request's way through the router's
  middleware to its handler. The certificate, onboarding, integration, preview, analytics and debug
  operations do not touch the configuration table through these stores or are modelled elsewhere.
\<close>

subsection \<open>Operations\<close>

datatype api_op =
    OpCreateApp create_app_input
  | OpListApps
  | OpGetApp string
  | OpUpdateApp update_app_input
  | OpDeleteApp string
  | OpEnableApp string
  | OpDisableApp string
  | OpImportApp string string string
  | OpValidateApp string
  | OpRotateSecret string
  | OpGetClaims string
  | OpPutClaims string "claim_mapping list"
  | OpGetRoles string
  | OpPutRoles string "role_mapping list"
  | OpCreateTenant create_tenant_input
  | OpListTenants
  | OpGetTenant string
  | OpUpdateTenant update_tenant_input
  | OpDeleteTenant string
  | OpCreateSource source_input
  | OpListSources
  | OpGetSource string
  | OpUpdateSource string source_input
  | OpDeleteSource string
  | OpTestSource string
  | OpDiscoverSource string string
  | OpGetSettings

definition app_path :: "string \<Rightarrow> string \<Rightarrow> string" where
  "app_path i rest = ''/api/v1/applications/'' @ i @ rest"

fun op_method :: "api_op \<Rightarrow> string" where
  "op_method (OpCreateApp _) = ''POST''"
| "op_method OpListApps = ''GET''"
| "op_method (OpGetApp _) = ''GET''"
| "op_method (OpUpdateApp _) = ''PUT''"
| "op_method (OpDeleteApp _) = ''DELETE''"
| "op_method (OpEnableApp _) = ''POST''"
| "op_method (OpDisableApp _) = ''POST''"
| "op_method (OpImportApp _ _ _) = ''POST''"
| "op_method (OpValidateApp _) = ''POST''"
| "op_method (OpRotateSecret _) = ''POST''"
| "op_method (OpGetClaims _) = ''GET''"
| "op_method (OpPutClaims _ _) = ''PUT''"
| "op_method (OpGetRoles _) = ''GET''"
| "op_method (OpPutRoles _ _) = ''PUT''"
| "op_method (OpCreateTenant _) = ''POST''"
| "op_method OpListTenants = ''GET''"
| "op_method (OpGetTenant _) = ''GET''"
| "op_method (OpUpdateTenant _) = ''PUT''"
| "op_method (OpDeleteTenant _) = ''DELETE''"
| "op_method (OpCreateSource _) = ''POST''"
| "op_method OpListSources = ''GET''"
| "op_method (OpGetSource _) = ''GET''"
| "op_method (OpUpdateSource _ _) = ''PUT''"
| "op_method (OpDeleteSource _) = ''DELETE''"
| "op_method (OpTestSource _) = ''POST''"
| "op_method (OpDiscoverSource _ _) = ''POST''"
| "op_method OpGetSettings = ''GET''"

fun op_path :: "api_op \<Rightarrow> string" where
  "op_path (OpCreateApp _) = ''/api/v1/applications''"
| "op_path OpListApps = ''/api/v1/applications''"
| "op_path (OpGetApp i) = app_path i []"
| "op_path (OpUpdateApp inp) = app_path (ui_id inp) []"
| "op_path (OpDeleteApp i) = app_path i []"
| "op_path (OpEnableApp i) = app_path i ''/enable''"
| "op_path (OpDisableApp i) = app_path i ''/disable''"
| "op_path (OpImportApp _ _ _) = ''/api/v1/applications/import''"
| "op_path (OpValidateApp i) = app_path i ''/validate''"
| "op_path (OpRotateSecret i) = app_path i ''/rotate-secret''"
| "op_path (OpGetClaims i) = app_path i ''/claim-mappings''"
| "op_path (OpPutClaims i _) = app_path i ''/claim-mappings''"
| "op_path (OpGetRoles i) = app_path i ''/role-mappings''"
| "op_path (OpPutRoles i _) = app_path i ''/role-mappings''"
| "op_path (OpCreateTenant _) = ''/api/v1/tenants''"
| "op_path OpListTenants = ''/api/v1/tenants''"
| "op_path (OpGetTenant slug) = ''/api/v1/tenants/'' @ slug"
| "op_path (OpUpdateTenant inp) = ''/api/v1/tenants/'' @ ut_slug inp"
| "op_path (OpDeleteTenant slug) = ''/api/v1/tenants/'' @ slug"
| "op_path (OpCreateSource _) = ''/api/v1/identity-sources''"
| "op_path OpListSources = ''/api/v1/identity-sources''"
| "op_path (OpGetSource i) = ''/api/v1/identity-sources/'' @ i"
| "op_path (OpUpdateSource i _) = ''/api/v1/identity-sources/'' @ i"
| "op_path (OpDeleteSource i) = ''/api/v1/identity-sources/'' @ i"
| "op_path (OpTestSource i) = ''/api/v1/identity-sources/'' @ i @ ''/test''"
| "op_path (OpDiscoverSource _ _) = ''/api/v1/identity-sources/discover''"
| "op_path OpGetSettings = ''/api/v1/settings''"

datatype api_reply =
    ReplyDone
  | ReplyApp app_output
  | ReplyApps "application list"
  | ReplySecret string
  | ReplyVerdict bool "string list" "string list"
  | ReplyClaims "claim_mapping list"
  | ReplyRoles "role_mapping list"
  | ReplyCount nat
  | ReplyTenant tenant
  | ReplyTenants "tenant list"
  | ReplySource identity_source
  | ReplySources "identity_source list"
  | ReplyReach bool string
  | ReplyPool string "string list"
  | ReplySettings tenant gateway_info

subsection \<open>Dispatch\<close>

text \<open>The services behind the handlers that are not the table.\<close>

record api_env =
  ae_config :: gateway_config
  ae_discover :: "string \<Rightarrow> string \<Rightarrow> string option"
  ae_describe :: "string \<Rightarrow> string \<Rightarrow> (string \<times> string list) res"
  ae_probe :: "string \<Rightarrow> probe_result"
  ae_fetch :: "string \<Rightarrow> string res"
  ae_decode :: "string \<Rightarrow> sp_metadata option"
  ae_read_cert :: cert_reader

text \<open>What a request draws: its instant, the bytes of an id and of a client secret.\<close>

record api_draws =
  dw_now :: gotime
  dw_id :: "8 word list option"
  dw_secret :: "8 word list option"

definition reply_with :: "('a \<Rightarrow> api_reply) \<Rightarrow> 'a api \<times> cfg_db \<Rightarrow> api_reply api \<times> cfg_db" where
  "reply_with f p = (case p of (Inl r, d) \<Rightarrow> (Inl r, d) | (Inr x, d) \<Rightarrow> (Inr (f x), d))"

fun api_dispatch ::
  "api_env \<Rightarrow> api_draws \<Rightarrow> request_ctx \<Rightarrow> api_op \<Rightarrow> cfg_db \<Rightarrow> api_reply api \<times> cfg_db" where
  "api_dispatch e w cx (OpCreateApp inp) d =
     reply_with ReplyApp (create_application (dw_now w) (dw_id w) (dw_secret w) cx inp d)"
| "api_dispatch e w cx OpListApps d = reply_with ReplyApps (list_applications cx d)"
| "api_dispatch e w cx (OpGetApp i) d = reply_with ReplyApp (get_application cx i d)"
| "api_dispatch e w cx (OpUpdateApp inp) d =
     reply_with ReplyApp (update_application (dw_now w) (dw_secret w) cx inp d)"
| "api_dispatch e w cx (OpDeleteApp i) d = reply_with (\<lambda>_. ReplyDone) (delete_application cx i d)"
| "api_dispatch e w cx (OpEnableApp i) d = reply_with ReplyApp (enable_application (dw_now w) cx i d)"
| "api_dispatch e w cx (OpDisableApp i) d = reply_with ReplyApp (disable_application (dw_now w) cx i d)"
| "api_dispatch e w cx (OpImportApp url src nm) d =
     reply_with ReplyApp
       (import_application (ae_fetch e) (ae_decode e) (dw_now w) (dw_id w) cx url src nm d)"
| "api_dispatch e w cx (OpValidateApp i) d =
     reply_with (\<lambda>(ok, errs, warns). ReplyVerdict ok errs warns)
       (validate_application (ae_read_cert e) (dw_now w) cx i d)"
| "api_dispatch e w cx (OpRotateSecret i) d =
     reply_with ReplySecret (rotate_client_secret (dw_secret w) cx i d)"
| "api_dispatch e w cx (OpGetClaims i) d = reply_with ReplyClaims (get_claims cx i d)"
| "api_dispatch e w cx (OpPutClaims i ms) d = reply_with ReplyCount (put_claims cx i ms d)"
| "api_dispatch e w cx (OpGetRoles i) d = reply_with ReplyRoles (get_roles cx i d)"
| "api_dispatch e w cx (OpPutRoles i ms) d = reply_with ReplyCount (put_roles cx i ms d)"
| "api_dispatch e w cx (OpCreateTenant inp) d = reply_with ReplyTenant (create_tenant (dw_now w) cx inp d)"
| "api_dispatch e w cx OpListTenants d = reply_with ReplyTenants (list_tenants cx d)"
| "api_dispatch e w cx (OpGetTenant slug) d = reply_with ReplyTenant (get_tenant cx slug d)"
| "api_dispatch e w cx (OpUpdateTenant inp) d = reply_with ReplyTenant (update_tenant (dw_now w) cx inp d)"
| "api_dispatch e w cx (OpDeleteTenant slug) d = reply_with (\<lambda>_. ReplyDone) (delete_tenant cx slug d)"
| "api_dispatch e w cx (OpCreateSource inp) d =
     reply_with ReplySource (create_source (ae_discover e) (dw_now w) (dw_id w) cx inp d)"
| "api_dispatch e w cx OpListSources d = reply_with ReplySources (list_sources cx d)"
| "api_dispatch e w cx (OpGetSource i) d = reply_with ReplySource (get_source cx i d)"
| "api_dispatch e w cx (OpUpdateSource i inp) d =
     reply_with ReplySource (update_source (ae_discover e) (dw_now w) cx i inp d)"
| "api_dispatch e w cx (OpDeleteSource i) d = reply_with (\<lambda>_. ReplyDone) (delete_source cx i d)"
| "api_dispatch e w cx (OpTestSource i) d =
     reply_with (\<lambda>(ok, msg). ReplyReach ok msg) (test_source (ae_probe e) cx i d)"
| "api_dispatch e w cx (OpDiscoverSource pool region) d =
     reply_with (\<lambda>(found, attrs). ReplyPool found attrs) (discover_source (ae_describe e) cx pool region d)"
| "api_dispatch e w cx OpGetSettings d =
     reply_with (\<lambda>(t, g). ReplySettings t g) (get_settings (ae_config e) cx d)"

subsection \<open>Serving a request\<close>

text \<open>The gateway's state: the router with its verifier's key cache, and the configuration table.\<close>

record api_state =
  as_router :: api_router
  as_table :: cfg_db

definition api_request :: "(string \<Rightarrow> string) \<Rightarrow> api_op \<Rightarrow> http_request" where
  "api_request header op = \<lparr>hr_method = op_method op, hr_path = op_path op, hr_header = header\<rparr>"

definition api_serve ::
  "api_env \<Rightarrow> cognito_env \<Rightarrow> (string \<Rightarrow> jwt_payload option) \<Rightarrow> api_draws \<Rightarrow> string \<Rightarrow> (string \<Rightarrow> string)
     \<Rightarrow> api_op \<Rightarrow> api_state \<Rightarrow> api_reply api \<times> api_state" where
  "api_serve e ce json w correlation_id header op s =
     (case api_gate (dw_now w) ce json (as_table s) (api_request header op) (as_router s) of
        (Inl r, rt) \<Rightarrow> (Inl r, s\<lparr>as_router := rt\<rparr>)
      | (Inr cx, rt) \<Rightarrow>
          (case api_dispatch e w cx op (as_table s) of
             (Inl r, d) \<Rightarrow> (Inl (sanitize_error correlation_id r), \<lparr>as_router = rt, as_table = d\<rparr>)
           | (Inr reply, d) \<Rightarrow> (Inr reply, \<lparr>as_router = rt, as_table = d\<rparr>)))"

text \<open>
  The tables the API can produce: seeded by the gateway at boot, served any requests, each with
  any headers, draws and services, by any router, under any backend faults. A tenant is created
  under a slug without the key separator, which only the onboarding endpoint enforces.
\<close>

definition op_ok :: "api_op \<Rightarrow> bool" where
  "op_ok op = (case op of OpCreateTenant inp \<Rightarrow> no_hash (ct_slug inp) | _ \<Rightarrow> True)"

definition secret_ok :: "8 word list option \<Rightarrow> bool" where
  "secret_ok rnd \<longleftrightarrow> (\<forall>bs. rnd = Some bs \<longrightarrow> length bs = 32)"

definition draws_ok :: "api_draws \<Rightarrow> bool" where
  "draws_ok w \<longleftrightarrow> rnd_ok (dw_id w) \<and> secret_ok (dw_secret w)"

inductive api_reach :: "cfg_db \<Rightarrow> bool" where
  api_empty: "api_reach empty_db"
| api_fault: "api_reach d \<Longrightarrow> api_reach (d\<lparr>fault := f\<rparr>)"
| api_boot: "api_reach d \<Longrightarrow> api_reach (snd (ensure_tenant now new_default_tenant d))"
| api_step: "api_reach (as_table s) \<Longrightarrow> op_ok op \<Longrightarrow> draws_ok w \<Longrightarrow>
    api_serve e ce json w cid header op s = (reply, s') \<Longrightarrow> api_reach (as_table s')"

end
