(* ===== verification/ApiWrites.thy ===== *)
theory ApiWrites
  imports ApiRouter
begin

text \<open>
  What a handler writes. \<open>pwrites pk I d d'\<close> says that \<open>d'\<close> is \<open>d\<close> after writes and deletes of rows of
  the one partition \<open>pk\<close>, each stored item satisfying \<open>I\<close>. The store operations are such writes, the
  handlers sequences of them, so the frame of a partition and any property of stored items carry
  over to the whole API.
\<close>

subsection \<open>Writes of one partition\<close>

inductive pwrites :: "string \<Rightarrow> ('i \<Rightarrow> bool) \<Rightarrow> 'i db \<Rightarrow> 'i db \<Rightarrow> bool"
  for pk :: string and I :: "'i \<Rightarrow> bool" and d :: "'i db" where
  pw_refl [intro, simp]: "pwrites pk I d d"
| pw_put: "pwrites pk I d d1 \<Longrightarrow> r_pk r = pk \<Longrightarrow> I (r_item r) \<Longrightarrow> pwrites pk I d (snd (db_put r d1))"
| pw_put_new: "pwrites pk I d d1 \<Longrightarrow> r_pk r = pk \<Longrightarrow> I (r_item r) \<Longrightarrow> pwrites pk I d (snd (db_put_new r d1))"
| pw_delete: "pwrites pk I d d1 \<Longrightarrow> pwrites pk I d (snd (db_delete pk sk d1))"

lemma pwrites_trans:
  assumes "pwrites pk I d1 d2" and "pwrites pk I d d1"
  shows "pwrites pk I d d2"
  using assms(1) by (induction rule: pwrites.induct) (auto intro: assms(2) pwrites.intros)

lemma pw_put_pair:
  "db_put r d1 = (x, d2) \<Longrightarrow> pwrites pk I d d1 \<Longrightarrow> r_pk r = pk \<Longrightarrow> I (r_item r) \<Longrightarrow> pwrites pk I d d2"
  using pw_put [of pk I d d1 r] by simp

lemma pw_put_new_pair:
  "db_put_new r d1 = (x, d2) \<Longrightarrow> pwrites pk I d d1 \<Longrightarrow> r_pk r = pk \<Longrightarrow> I (r_item r) \<Longrightarrow> pwrites pk I d d2"
  using pw_put_new [of pk I d d1 r] by simp

lemma pw_delete_pair: "db_delete pk sk d1 = (x, d2) \<Longrightarrow> pwrites pk I d d1 \<Longrightarrow> pwrites pk I d d2"
  using pw_delete [of pk I d d1 sk] by simp

lemmas pw_pairs = pw_put_pair pw_put_new_pair pw_delete_pair

lemma pw_put_cfg:
  "db_put (cfg_row pk sk it) d1 = (x, d2) \<Longrightarrow> I it \<Longrightarrow> pwrites pk I d d1 \<Longrightarrow> pwrites pk I d d2"
  by (erule pw_put_pair) simp_all

lemma pw_put_app:
  "db_put (app_row pk sk g h e a) d1 = (x, d2) \<Longrightarrow> I (AppItem e a) \<Longrightarrow> pwrites pk I d d1 \<Longrightarrow> pwrites pk I d d2"
  by (erule pw_put_pair) simp_all

lemma pw_put_new_cfg:
  "db_put_new (cfg_row pk sk it) d1 = (x, d2) \<Longrightarrow> I it \<Longrightarrow> pwrites pk I d d1 \<Longrightarrow> pwrites pk I d d2"
  by (erule pw_put_new_pair) simp_all

lemmas pw_rows = pw_put_cfg pw_put_app pw_put_new_cfg pw_delete_pair pw_delete pw_refl

text \<open>A write leaves every key of another partition as it is.\<close>

definition in_partition :: "string \<Rightarrow> string \<Rightarrow> bool" where
  "in_partition pk k \<longleftrightarrow> (\<exists>sk. k = mkey pk sk)"

lemma pwrites_frame:
  assumes "pwrites pk I d d'" and "\<not> in_partition pk k"
  shows "lookup d' k = lookup d k"
  using assms(1)
proof (induction rule: pwrites.induct)
  case (pw_put d1 r)
  then show ?case
    using assms(2) by (auto simp: db_put_def row_key_def in_partition_def)
next
  case (pw_put_new d1 r)
  then show ?case
    using assms(2) by (auto simp: db_put_new_def row_key_def in_partition_def split: option.splits)
next
  case (pw_delete d1 sk)
  then show ?case
    using assms(2) by (auto simp: db_delete_def in_partition_def)
qed simp

text \<open>What every stored item satisfies, a write of such items preserves.\<close>

definition items_ok :: "('i \<Rightarrow> bool) \<Rightarrow> 'i db \<Rightarrow> bool" where
  "items_ok I d \<longleftrightarrow> (\<forall>k r. lookup d k = Some r \<longrightarrow> I (r_item r))"

lemma items_okD: "items_ok I d \<Longrightarrow> lookup d k = Some r \<Longrightarrow> I (r_item r)"
  by (auto simp: items_ok_def)

lemma items_ok_empty [simp]: "items_ok I empty_db"
  by (simp add: items_ok_def)

lemma items_ok_fault [simp]: "items_ok I (d\<lparr>fault := f\<rparr>) \<longleftrightarrow> items_ok I d"
  by (simp add: items_ok_def)

lemma pwrites_items:
  assumes "pwrites pk I d d'" and "items_ok I d"
  shows "items_ok I d'"
  using assms(1)
proof (induction rule: pwrites.induct)
  case pw_refl
  show ?case by (rule assms(2))
next
  case (pw_put d1 r)
  then show ?case by (auto simp: items_ok_def db_put_def split: if_splits)
next
  case (pw_put_new d1 r)
  then show ?case by (auto simp: items_ok_def db_put_new_def split: if_splits option.splits)
next
  case (pw_delete d1 sk)
  then show ?case by (auto simp: items_ok_def db_delete_def split: if_splits)
qed

lemma pwrites_fault: "pwrites pk I d d' \<Longrightarrow> fault d' = fault d"
  by (induction rule: pwrites.induct) auto

subsection \<open>The store operations\<close>

lemma tenant_create_writes:
  assumes "\<And>t'. I (TenantItem t')"
  shows "pwrites (tenant_pk (t_slug t)) I d (snd (tenant_create now t d))"
  using assms by (auto simp: tenant_create_def Let_def split: prod.splits sum.splits intro: pw_pairs)

lemma tenant_update_writes:
  assumes "\<And>t'. I (TenantItem t')"
  shows "pwrites (tenant_pk (t_slug t)) I d (snd (tenant_update now t d))"
  using assms by (auto simp: tenant_update_def Let_def split: prod.splits sum.splits intro: pw_pairs)

lemma tenant_delete_writes: "pwrites (tenant_pk slug) I d (snd (tenant_delete slug d))"
  by (auto simp: tenant_delete_def split: prod.splits sum.splits intro: pw_pairs)

lemma source_create_writes:
  assumes "\<And>s. I (SourceItem s)"
  shows "pwrites (tenant_pk slug) I d (snd (source_create rnd now slug src d))"
  using assms by (auto simp: source_create_def Let_def split: prod.splits sum.splits intro: pw_pairs)

lemma source_update_writes:
  assumes "\<And>s. I (SourceItem s)"
  shows "pwrites (tenant_pk slug) I d (snd (source_update now slug src d))"
  using assms by (auto simp: source_update_def Let_def split: prod.splits sum.splits intro: pw_pairs)

lemma source_delete_writes: "pwrites (tenant_pk slug) I d (snd (source_delete slug i d))"
  by (auto simp: source_delete_def split: prod.splits sum.splits intro: pw_pairs)

lemma delete_rows_writes: "pwrites pk I d (delete_rows pk prefix rs d)"
  by (induction rs arbitrary: d)
     (auto simp: best_effort_def intro: pwrites_trans [OF _ pw_delete [OF pw_refl]])

lemma put_rows_writes:
  assumes "\<forall>r\<in>set rs. r_pk r = pk \<and> I (r_item r)"
  shows "pwrites pk I d (snd (put_rows msg rs d))"
  using assms
proof (induction rs arbitrary: d)
  case (Cons r rs)
  have "pwrites pk I d d1" if "db_put r d = (x, d1)" for x d1
    using pw_put_pair [OF that pw_refl] Cons.prems by simp
  then show ?case
    using Cons by (auto split: prod.splits sum.splits intro: pwrites_trans)
qed simp

lemma put_claim_mappings_writes:
  assumes "\<And>m. I (ClaimItem m)"
  shows "pwrites (tenant_pk slug) I d (snd (put_claim_mappings slug i ms d))"
  using assms
  by (auto simp: put_claim_mappings_def Let_def claim_row_def split: sum.split
      intro!: pwrites_trans [OF put_rows_writes delete_rows_writes])

lemma put_role_mappings_writes:
  assumes "\<And>m. I (RoleItem m)"
  shows "pwrites (tenant_pk slug) I d (snd (put_role_mappings slug i ms d))"
  using assms
  by (auto simp: put_role_mappings_def Let_def role_row_def split: sum.split
      intro!: pwrites_trans [OF put_rows_writes delete_rows_writes])

lemma update_oidc_config_writes:
  assumes "I (OidcItem cfg)"
  shows "pwrites (tenant_pk slug) I d (snd (update_oidc_config slug i cfg d))"
  using assms by (auto simp: update_oidc_config_def split: prod.splits sum.splits intro: pw_pairs)

lemma app_update_writes:
  assumes "\<And>e a. I (AppItem e (app\<lparr>a_tenant_slug := slug, a_created_at := a, a_updated_at := now\<rparr>))"
  shows "pwrites (tenant_pk slug) I d (snd (app_update now slug app d))"
  using assms
  by (auto simp: app_update_def Let_def split: prod.splits sum.splits cfg_item.splits intro: pw_pairs)

lemma app_create_writes:
  assumes app: "\<And>e i. I (AppItem e (app\<lparr>a_id := i, a_tenant_slug := slug, a_created_at := now,
      a_updated_at := now\<rparr>))"
    and saml: "\<And>c. saml = Some c \<Longrightarrow> I (SamlItem c)" and marker: "\<And>e i. I (EntityUniqueItem e i)"
  shows "pwrites (tenant_pk slug) I d (snd (app_create rnd now slug app saml d))"
proof (cases "generate_id rnd")
  case (Inr i)
  let ?app = "app\<lparr>a_id := i, a_tenant_slug := slug, a_created_at := now, a_updated_at := now\<rparr>"
  show ?thesis
  proof (cases saml)
    case None
    obtain x1 d1 where p: "db_put (app_row (tenant_pk slug) (app_sk i) (''CLIENTID#'' @ i)
        (tenant_pk slug) [] ?app) d = (x1, d1)"
      by fastforce
    have "pwrites (tenant_pk slug) I d d1"
      using pw_put_app [OF p, of I] app by simp
    then show ?thesis
      using Inr None p by (cases x1) (simp_all add: app_create_def Let_def)
  next
    case (Some c)
    let ?e = "sc_entity_id c"
    obtain x1 d1 where p1: "db_put_new (cfg_row (tenant_pk slug) (entity_unique_sk ?e)
        (EntityUniqueItem ?e i)) d = (x1, d1)"
      by fastforce
    obtain x2 d2 where p2: "db_put (app_row (tenant_pk slug) (app_sk i) (entity_gsi_pk slug ?e)
        (tenant_pk slug) ?e ?app) d1 = (x2, d2)"
      by fastforce
    obtain x3 d3 where p3: "db_put (cfg_row (tenant_pk slug) (app_saml_sk i) (SamlItem c)) d2 = (x3, d3)"
      by fastforce
    have w1: "pwrites (tenant_pk slug) I d d1"
      using pw_put_new_cfg [OF p1, of I] marker by simp
    have w2: "pwrites (tenant_pk slug) I d d2"
      using pw_put_app [OF p2 _ w1] app by simp
    have w3: "pwrites (tenant_pk slug) I d d3"
      using pw_put_cfg [OF p3 _ w2] saml [OF Some] by simp
    show ?thesis
      using Inr Some p1 p2 p3 w1 w2 w3
      by (cases x1; cases x2; cases x3)
         (simp_all add: app_create_def Let_def best_effort_def pw_delete)
  qed
qed (simp add: app_create_def)

lemma app_delete_writes: "pwrites (tenant_pk slug) I d (snd (app_delete slug i d))"
  by (auto simp: app_delete_def best_effort_def Let_def split: prod.splits sum.splits cfg_item.splits
      intro!: pw_delete elim: pw_delete_pair [OF _ pw_refl])

text \<open>Renaming an entity id stores the application it read back, so that one must satisfy \<open>I\<close>.\<close>

lemma update_saml_config_writes:
  assumes "cfg_inv d" and "no_hash slug" and "items_ok I d" and "I (SamlItem cfg)"
    and "\<And>e i. I (EntityUniqueItem e i)" and "\<And>e e' a. I (AppItem e a) \<Longrightarrow> I (AppItem e' a)"
  shows "pwrites (tenant_pk slug) I d (snd (update_saml_config slug i cfg d))"
proof (cases "\<exists>r old a. db_get (tenant_pk slug) (app_sk i) d = Inr r \<and> r_item r = AppItem old a")
  case True
  then obtain r old a where r: "db_get (tenant_pk slug) (app_sk i) d = Inr r" "r_item r = AppItem old a"
    by blast
  have l: "lookup d (mkey (tenant_pk slug) (app_sk i)) = Some r"
    using r(1) by (auto simp: db_get_def split: if_splits option.splits)
  have pk: "r_pk r = tenant_pk slug"
    using cfg_lookup_row [OF assms(1) l assms(2)] by simp
  have item: "I (AppItem e a)" for e
    using items_okD [OF assms(3) l] r(2) assms(6) by simp
  let ?e = "sc_entity_id cfg"
  obtain x1 d1 where p1: "(if ?e \<noteq> old then db_put_new (cfg_row (tenant_pk slug) (entity_unique_sk ?e)
      (EntityUniqueItem ?e i)) d else (Inr (), d)) = (x1, d1)"
    by fastforce
  obtain x2 d2 where p2: "db_put (cfg_row (tenant_pk slug) (app_saml_sk i) (SamlItem cfg)) d1 = (x2, d2)"
    by fastforce
  obtain x3 d3 where p3: "db_put (r\<lparr>r_gsi1pk := Some (entity_gsi_pk slug ?e), r_item := AppItem ?e a\<rparr>) d2
      = (x3, d3)"
    by fastforce
  have w1: "pwrites (tenant_pk slug) I d d1"
    using p1 assms(5) by (auto split: if_splits elim: pw_put_new_cfg)
  have w2: "pwrites (tenant_pk slug) I d d2"
    using pw_put_cfg [OF p2 _ w1] assms(4) by simp
  have w3: "pwrites (tenant_pk slug) I d d3"
    by (rule pw_put_pair [OF p3 w2]) (use pk item in simp_all)
  show ?thesis
    using r p1 p2 p3 w1 w2 w3
    by (cases "?e = old"; cases x1; cases x2; cases x3)
       (simp_all add: update_saml_config_def best_effort_def Let_def pw_delete split: sum.split)
next
  case False
  then show ?thesis
    by (auto simp: update_saml_config_def split: sum.splits cfg_item.splits)
qed

end
