(* ===== verification/ApiHandlers.thy ===== *)
theory ApiHandlers
  imports ApiWrites
begin

text \<open>
  What the handlers keep: the table they leave is one the store operations can reach, they write one
  tenant's partition, and the settings they store are ones the protocol paths honour.
\<close>

subsection \<open>Settings the gateway honours\<close>

definition saml_settings_ok :: "saml_config \<Rightarrow> bool" where
  "saml_settings_ok c \<longleftrightarrow>
     sc_sign_response c \<and> sc_sign_assertion c \<and>
     session_duration_min_sec \<le> sc_session_duration_sec c \<and>
     sc_session_duration_sec c \<le> session_duration_max_sec \<and>
     clock_skew_min_sec \<le> sc_clock_skew_sec c \<and> sc_clock_skew_sec c \<le> clock_skew_max_sec \<and>
     (sc_encrypt_assertion c \<longrightarrow> sc_encryption_cert_pem c \<noteq> []) \<and>
     \<not> sc_want_authn_requests_signed c \<and> \<not> sc_allow_insecure_sha1 c"

definition lifetime_ok :: "int \<Rightarrow> bool" where
  "lifetime_ok n \<longleftrightarrow> n = 0 \<or> (token_lifetime_min_sec \<le> n \<and> n \<le> token_lifetime_max_sec)"

definition oidc_settings_ok :: "oidc_config \<Rightarrow> bool" where
  "oidc_settings_ok c \<longleftrightarrow>
     lifetime_ok (oc_id_token_lifetime_sec c) \<and> lifetime_ok (oc_access_token_lifetime_sec c) \<and>
     (oc_client_secret c \<noteq> [] \<longleftrightarrow> is_confidential_auth_method (oc_token_endpoint_auth_method c))"

fun settings_ok :: "cfg_item \<Rightarrow> bool" where
  "settings_ok (AppItem e a) = (validate_login_config a = [])"
| "settings_ok (SamlItem c) = saml_settings_ok c"
| "settings_ok (OidcItem c) = oidc_settings_ok c"
| "settings_ok _ = True"

lemma range_error_Nil [simp]: "range_error f v lo hi = [] \<longleftrightarrow> lo \<le> v \<and> v \<le> hi"
  by (auto simp: range_error_def)

lemma range_errors_Nil [simp]: "range_errors f v lo hi = [] \<longleftrightarrow> lo \<le> v \<and> v \<le> hi"
  by (auto simp: range_errors_def)

lemma err_texts_nonempty [simp]:
  "err_signing_always_on \<noteq> []" "err_encryption_needs_cert \<noteq> []"
  by (simp_all add: err_signing_always_on_def err_encryption_needs_cert_def)

lemma created_saml_ok:
  assumes "validate_saml_config_input inp None = []"
  shows "saml_settings_ok (created_saml_config inp)"
  using assms
  by (cases inp)
     (auto simp: saml_settings_ok_def created_saml_config_def input_saml_config_def Let_def default_defs
        empty_saml_input_def validate_saml_config_input_def bound_defs split: option.splits if_splits)

lemma updated_saml_ok:
  assumes "validate_saml_config_input (Some s) prev = []"
  shows "saml_settings_ok (updated_saml_config s prev)"
  using assms
  by (cases prev)
     (auto simp: saml_settings_ok_def updated_saml_config_def input_saml_config_def Let_def default_defs
        validate_saml_config_input_def bound_defs split: option.splits if_splits)

lemma imported_saml_ok: "saml_settings_ok (imported_saml_config url md)"
  by (simp add: saml_settings_ok_def imported_saml_config_def Let_def bound_defs)

lemma input_oidc_lifetimes:
  assumes "validate_oidc_config_input (Some i) = []"
  shows "lifetime_ok (oc_id_token_lifetime_sec (input_oidc_config i)) \<and>
    lifetime_ok (oc_access_token_lifetime_sec (input_oidc_config i))"
  using assms
  by (auto simp: validate_oidc_config_input_def input_oidc_config_def lifetime_ok_def split: if_splits)

lemma client_secret_nonempty:
  "generate_client_secret rnd = Inr s \<Longrightarrow> secret_ok rnd \<Longrightarrow> s \<noteq> []"
proof (cases rnd)
  case (Some bs)
  moreover assume "generate_client_secret rnd = Inr s" "secret_ok rnd"
  ultimately show ?thesis
    by (cases bs) (auto simp: generate_client_secret_def secret_ok_def hex_byte_def)
qed (simp add: generate_client_secret_def)

text \<open>The check of a login page reads the two login fields only.\<close>

lemma validate_login_same:
  assumes "a_custom_login_url b = a_custom_login_url a"
    and "a_trusted_login_redirect_uris b = a_trusted_login_redirect_uris a"
  shows "validate_login_config b = validate_login_config a"
proof -
  have eq: "is_trusted_login_redirect b = is_trusted_login_redirect a"
    unfolding is_trusted_login_redirect_def assms(2) ..
  show ?thesis
    unfolding validate_login_config_def custom_login_errors_def assms eq ..
qed

lemma validate_login_fields [simp]:
  "validate_login_config (a\<lparr>a_id := i\<rparr>) = validate_login_config a"
  "validate_login_config (a\<lparr>a_tenant_slug := sl\<rparr>) = validate_login_config a"
  "validate_login_config (a\<lparr>a_created_at := c\<rparr>) = validate_login_config a"
  "validate_login_config (a\<lparr>a_updated_at := u\<rparr>) = validate_login_config a"
  "validate_login_config (a\<lparr>a_status := st\<rparr>) = validate_login_config a"
  by (auto intro: validate_login_same)

subsection \<open>The combinators of a handler\<close>

lemma reply_with_snd [simp]: "snd (reply_with f p) = snd p"
  by (simp add: reply_with_def split: prod.split sum.split)

subsection \<open>What a handler leaves\<close>

text \<open>A table reachable by store operations, made from \<open>d\<close> by writes of one tenant's partition.\<close>

definition handled :: "string \<Rightarrow> cfg_db \<Rightarrow> cfg_db \<Rightarrow> bool" where
  "handled slug d d' \<longleftrightarrow> cfg_reach d' \<and> pwrites (tenant_pk slug) settings_ok d d'"

lemma handledD:
  assumes "handled slug d d'"
  shows "cfg_reach d'" "cfg_inv d'" "store_inv d'" "pwrites (tenant_pk slug) settings_ok d d'"
  using assms cfg_reach_inv [of d'] by (auto simp: handled_def store_inv_def)

lemma handled_refl: "cfg_reach d \<Longrightarrow> handled slug d d"
  by (simp add: handled_def)

lemma handled_items: "handled slug d d' \<Longrightarrow> items_ok settings_ok d \<Longrightarrow> items_ok settings_ok d'"
  by (auto simp: handled_def dest: pwrites_items)

lemma handled_step:
  assumes "handled slug d d1" and "cfg_reach d1 \<Longrightarrow> cfg_reach d2" and "pwrites (tenant_pk slug) settings_ok d1 d2"
  shows "handled slug d d2"
  using assms by (auto simp: handled_def intro: pwrites_trans)

lemma snd_case_res:
  "snd (case p of (Inl e, d1) \<Rightarrow> (f e, d1) | (Inr x, d1) \<Rightarrow> (g x, d1)) = snd p"
  by (cases p; cases "fst p") auto

lemma handled_with_slug:
  "cx_tenant cx = Some t \<Longrightarrow> handled sl d (snd (k (t_slug t))) \<Longrightarrow> handled sl d (snd (with_slug cx d0 k))"
  by (simp add: with_slug_def tenant_slug_from_context_def)

lemma handled_or_500:
  assumes "handled slug d (snd p)" and "\<And>x. fst p = Inr x \<Longrightarrow> handled slug d (snd (k x (snd p)))"
  shows "handled slug d (snd (or_500 m p k))"
  using assms by (cases p; cases "fst p") (auto simp: or_500_def)

lemma handled_or_404:
  assumes "handled slug d (snd p)" and "\<And>x. fst p = Inr x \<Longrightarrow> handled slug d (snd (k x (snd p)))"
  shows "handled slug d (snd (or_404 a m p k))"
  using assms by (cases p; cases "fst p") (auto simp: or_404_def)

lemma handled_then_api:
  assumes "handled slug d (snd p)" and "\<And>x. fst p = Inr x \<Longrightarrow> handled slug d (snd (k x (snd p)))"
  shows "handled slug d (snd (then_api p k))"
  using assms by (cases p; cases "fst p") (auto simp: then_api_def)

lemmas handler_snd = handled_or_500 handled_or_404 handled_then_api

lemma tenant_get_slug:
  assumes "cfg_inv d" and "tenant_get slug d = Inr t"
  shows "no_hash slug \<and> t_slug t = slug"
proof -
  obtain r where r: "lookup d (mkey (tenant_pk slug) tenant_sk) = Some r" "r_item r = TenantItem t"
    using assms(2) by (auto simp: tenant_get_Inr)
  have "cfg_row_ok r" "mkey (tenant_pk slug) tenant_sk = row_key r"
    using cfg_inv_row [OF assms(1) r(1)] by auto
  then show ?thesis
    using r(2) by (auto simp: cfg_row_ok_def item_ok_def row_key_def mkey_def tenant_pk_def)
qed

lemma app_get_id: "cfg_inv d \<Longrightarrow> no_hash slug \<Longrightarrow> app_get slug i d = Inr a \<Longrightarrow> no_hash i"
  using app_get_row by blast

lemma app_create_id: "app_create rnd now slug app saml d = (Inr i, d') \<Longrightarrow> generate_id rnd = Inr i"
  by (cases saml) (auto simp: app_create_def Let_def split: sum.splits prod.splits if_splits)

text \<open>A delete under an id with the key separator finds no application.\<close>

lemma app_delete_hash:
  assumes "cfg_inv d" and "no_hash slug" and "\<not> no_hash i"
  shows "snd (app_delete slug i d) = d \<and> (\<exists>e. fst (app_delete slug i d) = Inl e)"
proof (cases "\<exists>r e a. db_get (tenant_pk slug) (app_sk i) d = Inr r \<and> r_item r = AppItem e a")
  case True
  then obtain r e a where r: "lookup d (mkey (tenant_pk slug) (app_sk i)) = Some r" "r_item r = AppItem e a"
    by (auto simp: db_get_def split: if_splits option.splits)
  have "cfg_row_ok r" "r_sk r = app_sk i"
    using cfg_lookup_row [OF assms(1) r(1) assms(2)] by auto
  then have "no_hash i"
    using r(2) by (auto simp: cfg_row_ok_def item_ok_def app_sk_def)
  with assms(3) show ?thesis by simp
next
  case False
  then show ?thesis
    by (auto simp: app_delete_def split: sum.splits cfg_item.splits)
qed

subsection \<open>The store operations inside a handler\<close>

text \<open>Each store operation on the tenant of the handler.\<close>

lemma put_claims_step:
  "handled slug d d1 \<Longrightarrow> no_hash slug \<Longrightarrow> no_hash i \<Longrightarrow>
     handled slug d (snd (put_claim_mappings slug i ms d1))"
  by (erule handled_step; (rule reach_put_claims)?; (rule put_claim_mappings_writes)?) auto

lemma put_roles_step:
  "handled slug d d1 \<Longrightarrow> no_hash slug \<Longrightarrow> no_hash i \<Longrightarrow>
     handled slug d (snd (put_role_mappings slug i ms d1))"
  by (erule handled_step; (rule reach_put_roles)?; (rule put_role_mappings_writes)?) auto

lemma update_oidc_step:
  "handled slug d d1 \<Longrightarrow> no_hash slug \<Longrightarrow> no_hash i \<Longrightarrow> oidc_settings_ok c \<Longrightarrow>
     handled slug d (snd (update_oidc_config slug i c d1))"
  by (erule handled_step; (rule reach_update_oidc)?; (rule update_oidc_config_writes)?) auto

lemma app_update_step:
  "handled slug d d1 \<Longrightarrow> no_hash slug \<Longrightarrow> validate_login_config app = [] \<Longrightarrow>
     handled slug d (snd (app_update now slug app d1))"
  by (erule handled_step; (rule reach_app_update)?; (rule app_update_writes)?) auto

lemma source_create_step:
  "handled slug d d1 \<Longrightarrow> no_hash slug \<Longrightarrow>
     handled slug d (snd (source_create rnd now slug src d1))"
  by (erule handled_step; (rule reach_source_create)?; (rule source_create_writes)?) auto

lemma source_update_step:
  "handled slug d d1 \<Longrightarrow> no_hash slug \<Longrightarrow>
     handled slug d (snd (source_update now slug src d1))"
  by (erule handled_step; (rule reach_source_update)?; (rule source_update_writes)?) auto

lemma source_delete_step:
  "handled slug d d1 \<Longrightarrow> no_hash slug \<Longrightarrow>
     handled slug d (snd (source_delete slug i d1))"
  by (erule handled_step; (rule reach_source_delete)?; (rule source_delete_writes)?) auto

lemma tenant_delete_step:
  "handled slug d d1 \<Longrightarrow> no_hash slug \<Longrightarrow>
     handled slug d (snd (tenant_delete slug d1))"
  by (erule handled_step; (rule reach_tenant_delete)?; (rule tenant_delete_writes)?) auto

lemma tenant_create_step:
  "handled (t_slug t) d d1 \<Longrightarrow> no_hash (t_slug t) \<Longrightarrow> handled (t_slug t) d (snd (tenant_create now t d1))"
  by (erule handled_step; (rule reach_tenant_create)?; (rule tenant_create_writes)?) auto

lemma tenant_update_step:
  "handled (t_slug t) d d1 \<Longrightarrow> no_hash (t_slug t) \<Longrightarrow> handled (t_slug t) d (snd (tenant_update now t d1))"
  by (erule handled_step; (rule reach_tenant_update)?; (rule tenant_update_writes)?) auto

lemma app_create_step:
  "handled slug d d1 \<Longrightarrow> no_hash slug \<Longrightarrow> rnd_ok rnd \<Longrightarrow> validate_login_config app = [] \<Longrightarrow>
     (\<And>sc. saml = Some sc \<Longrightarrow> saml_settings_ok sc) \<Longrightarrow>
     handled slug d (snd (app_create rnd now slug app saml d1))"
  by (erule handled_step; (rule reach_app_create)?; (rule app_create_writes)?) auto

lemma app_delete_step:
  assumes h: "handled slug d d1" and slug: "no_hash slug"
  shows "handled slug d (snd (app_delete slug i d1))"
proof (cases "no_hash i")
  case True
  show ?thesis
    by (rule handled_step [OF h reach_app_delete [OF _ slug True] app_delete_writes])
next
  case False
  then show ?thesis
    using app_delete_hash [OF handledD(2) [OF h] slug False] h by simp
qed

lemma update_saml_step:
  assumes h: "handled slug d d1" and "no_hash slug" and "no_hash i" and "items_ok settings_ok d"
    and "saml_settings_ok c"
  shows "handled slug d (snd (update_saml_config slug i c d1))"
  by (rule handled_step [OF h reach_update_saml [OF _ assms(2,3)]
        update_saml_config_writes [OF handledD(2) [OF h] assms(2) handled_items [OF h assms(4)]]])
     (use assms(5) in simp_all)

lemma set_status_step:
  assumes h: "handled slug d d1" and slug: "no_hash slug" and items: "items_ok settings_ok d"
  shows "handled slug d (snd (app_set_status now slug i st d1))"
proof (cases "app_get slug i d1")
  case (Inr a)
  obtain r e a0 where r: "lookup d1 (mkey (tenant_pk slug) (app_sk i)) = Some r" "r_item r = AppItem e a0"
    and a: "a = a0\<lparr>a_tenant_slug := slug\<rparr>"
    using app_get_row [OF handledD(2) [OF h] slug Inr] by blast
  have "validate_login_config a = []"
    using items_okD [OF handled_items [OF h items] r(1)] r(2) a by simp
  then show ?thesis
    using Inr app_update_step [OF h slug, of "a\<lparr>a_status := st\<rparr>" now] by (simp add: app_set_status_def)
qed (use h in \<open>simp add: app_set_status_def\<close>)

subsection \<open>The application handlers\<close>

lemma input_oidc_ok:
  assumes "validate_oidc_config_input (Some inp) = []"
  shows "\<not> is_confidential_auth_method (oi_token_endpoint_auth_method inp) \<Longrightarrow> oidc_settings_ok (input_oidc_config inp)"
    and "is_confidential_auth_method (oi_token_endpoint_auth_method inp) \<Longrightarrow> s \<noteq> [] \<Longrightarrow>
      oidc_settings_ok (input_oidc_config inp\<lparr>oc_client_secret := s\<rparr>)"
  using input_oidc_lifetimes [OF assms] by (simp_all add: oidc_settings_ok_def input_oidc_config_def)

lemma input_oidc_method [simp]:
  "oc_token_endpoint_auth_method (input_oidc_config inp) = oi_token_endpoint_auth_method inp"
  by (simp add: input_oidc_config_def)

lemma created_oidc_step:
  assumes h: "handled slug d d1" and "no_hash slug" and "no_hash i"
    and "validate_oidc_config_input (Some inp) = []" and "secret_ok srnd"
  shows "handled slug d (snd (store_created_oidc srnd slug i inp d1))"
proof (cases "is_confidential_auth_method (oi_token_endpoint_auth_method inp)")
  case True
  then show ?thesis
    using h update_oidc_step [OF h assms(2,3) input_oidc_ok(2) [OF assms(4) True]] client_secret_nonempty
      assms(5)
    by (auto simp: store_created_oidc_def intro!: handler_snd)
next
  case False
  then show ?thesis
    using update_oidc_step [OF h assms(2,3) input_oidc_ok(1) [OF assms(4) False]]
    by (auto simp: store_created_oidc_def intro!: handler_snd)
qed

lemma updated_oidc_step:
  assumes h: "handled slug d d1" and "no_hash slug" and "no_hash i"
    and "validate_oidc_config_input (Some inp) = []" and "secret_ok srnd"
  shows "handled slug d (snd (store_updated_oidc srnd slug i inp d1))"
proof (cases "is_confidential_auth_method (oi_token_endpoint_auth_method inp)")
  case True
  then show ?thesis
    using h update_oidc_step [OF h assms(2,3) input_oidc_ok(2) [OF assms(4) True]] client_secret_nonempty
      assms(5)
    by (auto simp: store_updated_oidc_def Let_def intro!: handler_snd)
next
  case False
  then show ?thesis
    using update_oidc_step [OF h assms(2,3) input_oidc_ok(1) [OF assms(4) False]]
    by (auto simp: store_updated_oidc_def Let_def intro!: handler_snd)
qed

lemmas store_steps = put_claims_step put_roles_step update_oidc_step app_update_step
  source_create_step source_update_step source_delete_step tenant_delete_step tenant_create_step
  tenant_update_step app_create_step app_delete_step update_saml_step set_status_step
  created_oidc_step updated_oidc_step

lemma app_create_fst_id:
  "fst (app_create rnd now slug app saml d) = Inr i \<Longrightarrow> rnd_ok rnd \<Longrightarrow> no_hash i"
  by (cases "app_create rnd now slug app saml d") (auto dest!: app_create_id dest: generate_id_ok)

lemma created_login [simp]:
  "validate_login_config (a\<lparr>a_id := i, a_tenant_slug := sl, a_created_at := c, a_updated_at := u\<rparr>)
     = validate_login_config a"
  by (rule validate_login_same) simp_all

lemma create_application_handled:
  assumes cx: "cx_tenant cx = Some t" and slug: "no_hash (t_slug t)" and "cfg_reach d"
    and "rnd_ok rnd" and "secret_ok srnd"
  shows "handled (t_slug t) d (snd (create_application now rnd srnd cx inp d))"
proof -
  let ?app = "new_application inp"
  let ?saml = "if equal_fold (a_protocol ?app) ''saml'' then Some (created_saml_config (ci_saml inp)) else None"
  let ?p = "app_create rnd now (t_slug t) ?app ?saml d"
  have h0: "handled (t_slug t) d d" by (rule handled_refl) (rule assms(3))
  show ?thesis
  proof (cases "validate_login_config ?app = [] \<and> validate_saml_config_input (ci_saml inp) None = [] \<and>
      validate_oidc_config_input (ci_oidc inp) = []")
    case True
    have h1: "handled (t_slug t) d (snd ?p)"
      using True by (intro app_create_step h0 slug assms(4)) (auto intro: created_saml_ok split: if_splits)
    have id: "no_hash i" if "fst ?p = Inr i" for i
      using app_create_fst_id [OF that assms(4)] .
    show ?thesis
      using True h1 id assms(5) slug
      by (auto simp: create_application_def Let_def split: option.split
          intro!: handled_with_slug [OF cx] handler_snd put_claims_step put_roles_step created_oidc_step)
  next
    case False
    then show ?thesis
      using h0 by (auto simp: create_application_def Let_def intro!: handled_with_slug [OF cx])
  qed
qed

lemma update_application_handled:
  assumes cx: "cx_tenant cx = Some t" and slug: "no_hash (t_slug t)" and reach: "cfg_reach d"
    and items: "items_ok settings_ok d" and "secret_ok srnd"
  shows "handled (t_slug t) d (snd (update_application now srnd cx inp d))"
proof (cases "app_get (t_slug t) (ui_id inp) d")
  case (Inr ex)
  let ?app = "apply_update inp ex"
  let ?saml = "if updates_saml (a_protocol ?app) (ui_saml inp) then ui_saml inp else None"
  let ?prev = "if ?saml \<noteq> None then ignoring_error (get_saml_config (t_slug t) (ui_id inp) d) else None"
  have h0: "handled (t_slug t) d d" by (rule handled_refl) (rule reach)
  have id: "no_hash (ui_id inp)"
    by (rule app_get_id [OF handledD(2) [OF h0] slug Inr])
  show ?thesis
  proof (cases "validate_login_config ?app = [] \<and> validate_saml_config_input ?saml ?prev = [] \<and>
      validate_oidc_config_input (ui_oidc inp) = []")
    case True
    have saml: "saml_settings_ok (updated_saml_config s ?prev)" if "?saml = Some s" for s
      using True that updated_saml_ok [of s ?prev] by simp
    show ?thesis
      using True h0 id assms(5) slug saml items Inr
      by (auto simp: update_application_def Let_def split: option.split
          intro!: handled_with_slug [OF cx] handler_snd put_claims_step put_roles_step updated_oidc_step
            app_update_step update_saml_step)
  next
    case False
    then show ?thesis
      using h0 Inr by (auto simp: update_application_def Let_def intro!: handled_with_slug [OF cx] handler_snd)
  qed
qed (use reach in \<open>auto simp: update_application_def Let_def handled_refl or_404_def
      intro!: handled_with_slug [OF cx]\<close>)

lemma other_app_handlers:
  assumes cx: "cx_tenant cx = Some t" and slug: "no_hash (t_slug t)" and reach: "cfg_reach d"
  shows "handled (t_slug t) d (snd (delete_application cx i d))"
    and "items_ok settings_ok d \<Longrightarrow> handled (t_slug t) d (snd (set_application_status now st cx i d))"
    and "items_ok settings_ok d \<Longrightarrow> secret_ok srnd \<Longrightarrow>
      handled (t_slug t) d (snd (rotate_client_secret srnd cx i d))"
    and "rnd_ok rnd \<Longrightarrow> handled (t_slug t) d (snd (import_application fetch decode now rnd cx url src nm d))"
proof -
  have h0: "handled (t_slug t) d d" by (rule handled_refl) (rule reach)
  have id: "no_hash i" if "fst (app_delete (t_slug t) i d) = Inr u" for u
    using app_delete_hash [OF handledD(2) [OF h0] slug, of i] that by (cases "no_hash i") auto
  show "handled (t_slug t) d (snd (delete_application cx i d))"
    using h0 id slug
    by (auto simp: delete_application_def best_effort_def Let_def
        intro!: handled_with_slug [OF cx] handler_snd put_claims_step put_roles_step app_delete_step)
  show "handled (t_slug t) d (snd (set_application_status now st cx i d))" if "items_ok settings_ok d"
    using h0 slug that
    by (auto simp: set_application_status_def intro!: handled_with_slug [OF cx] handler_snd set_status_step)
  show "handled (t_slug t) d (snd (rotate_client_secret srnd cx i d))"
    if items: "items_ok settings_ok d" and srnd: "secret_ok srnd"
  proof -
    have ok: "oidc_settings_ok (c\<lparr>oc_client_secret := s\<rparr>)"
      if c: "get_oidc_config (t_slug t) i d = Inr c" and s: "generate_client_secret srnd = Inr s"
        and meth: "is_confidential_auth_method (oc_token_endpoint_auth_method c)" for c s
    proof -
      obtain r where "lookup d (mkey (tenant_pk (t_slug t)) (app_oidc_sk i)) = Some r" "r_item r = OidcItem c"
        using c by (auto simp: get_oidc_config_def get_as_Inr)
      then show ?thesis
        using items_okD [OF items] client_secret_nonempty [OF s srnd] meth
        by (fastforce simp: oidc_settings_ok_def)
    qed
    show ?thesis
      using h0 slug ok app_get_id [OF handledD(2) [OF h0] slug, of i]
      by (auto simp: rotate_client_secret_def intro!: handled_with_slug [OF cx] handler_snd update_oidc_step)
  qed
  show "handled (t_slug t) d (snd (import_application fetch decode now rnd cx url src nm d))"
    if rnd: "rnd_ok rnd"
  proof -
    have imported: "handled (t_slug t) d
        (snd (app_create rnd now (t_slug t) app (Some (imported_saml_config url md)) d))"
      if "a_custom_login_url app = []" "a_trusted_login_redirect_uris app = []" for app md
      by (rule app_create_step [OF h0 slug rnd])
         (use that in \<open>auto intro: imported_saml_ok simp: validate_login_config_def custom_login_errors_def\<close>)
    have "handled (t_slug t) d (snd (metadata_import fetch decode now rnd (t_slug t) url src nm d))"
      using h0 by (auto simp: metadata_import_def Let_def snd_case_res imported split: sum.split option.split)
    then show ?thesis
      by (auto simp: import_application_def intro!: handled_with_slug [OF cx] split: prod.splits sum.splits)
  qed
qed

subsection \<open>The other handlers\<close>

lemma t_slug_overrides [simp]: "t_slug (apply_overrides v t) = t_slug t"
  by (simp add: apply_overrides_def)

lemma tenant_handlers:
  assumes reach: "cfg_reach d"
  shows "no_hash (ct_slug inp) \<Longrightarrow> handled (ct_slug inp) d (snd (create_tenant now cx inp d))"
    and "handled (ut_slug upd) d (snd (update_tenant now cx upd d))"
    and "handled slug d (snd (delete_tenant cx slug d))"
proof -
  have h0: "handled sl d d" for sl by (rule handled_refl) (rule reach)
  have inv: "cfg_inv d" by (rule handledD(2) [OF h0])
  show "handled (ct_slug inp) d (snd (create_tenant now cx inp d))" if "no_hash (ct_slug inp)"
    using h0 that tenant_create_step [of "apply_overrides (ct_overrides inp) (initial_tenant inp)" d d now]
    by (auto simp: create_tenant_def Let_def initial_tenant_def intro!: handler_snd)
  show "handled (ut_slug upd) d (snd (update_tenant now cx upd d))"
  proof -
    have "handled (ut_slug upd) d (snd (tenant_update now t d))"
      if "tenant_get (ut_slug upd) d = Inr ex" "t_slug t = t_slug ex" for t ex
      using tenant_update_step [of t d d now] h0 tenant_get_slug [OF inv that(1)] that(2) by simp
    then show ?thesis
      using h0 by (auto simp: update_tenant_def Let_def intro!: handler_snd)
  qed
  show "handled slug d (snd (delete_tenant cx slug d))"
  proof -
    have "handled slug d (snd (tenant_delete slug d))" if "tenant_get slug d = Inr ex" for ex
      by (rule tenant_delete_step [OF h0]) (use tenant_get_slug [OF inv that] in simp)
    then show ?thesis
      using h0 by (auto simp: delete_tenant_def intro!: handler_snd)
  qed
qed

lemma source_handlers:
  assumes cx: "cx_tenant cx = Some t" and slug: "no_hash (t_slug t)" and reach: "cfg_reach d"
  shows "handled (t_slug t) d (snd (create_source disc now rnd cx inp d))"
    and "handled (t_slug t) d (snd (update_source disc now cx i inp d))"
    and "handled (t_slug t) d (snd (delete_source cx i d))"
    and "handled (t_slug t) d (snd (put_claims cx i ms d))"
    and "handled (t_slug t) d (snd (put_roles cx i rs d))"
proof -
  have h0: "handled (t_slug t) d d" by (rule handled_refl) (rule reach)
  note id = app_get_id [OF handledD(2) [OF h0] slug, of i]
  show "handled (t_slug t) d (snd (create_source disc now rnd cx inp d))"
    and "handled (t_slug t) d (snd (update_source disc now cx i inp d))"
    and "handled (t_slug t) d (snd (delete_source cx i d))"
    and "handled (t_slug t) d (snd (put_claims cx i ms d))"
    and "handled (t_slug t) d (snd (put_roles cx i rs d))"
    using h0 slug id
    by (auto simp: create_source_def update_source_def delete_source_def put_claims_def put_roles_def
        with_app_def Let_def
        intro!: handled_with_slug [OF cx] handler_snd source_create_step source_update_step
          source_delete_step put_claims_step put_roles_step)
qed

text \<open>The handlers that only read leave the table as it is.\<close>

lemma readers_keep:
  "snd (list_applications cx d) = d" "snd (get_application cx i d) = d"
  "snd (validate_application rc now cx i d) = d" "snd (get_claims cx i d) = d"
  "snd (get_roles cx i d) = d" "snd (list_tenants cx d) = d" "snd (get_tenant cx slug d) = d"
  "snd (list_sources cx d) = d" "snd (get_source cx i d) = d" "snd (test_source pr cx i d) = d"
  "snd (discover_source de cx pl rg d) = d" "snd (get_settings g cx d) = d"
  by (auto simp: list_applications_def get_application_def validate_application_def get_claims_def
      get_roles_def list_tenants_def get_tenant_def list_sources_def get_source_def test_source_def
      discover_source_def get_settings_def with_app_def with_slug_def or_500_def or_404_def then_api_def
      Let_def split: option.split sum.split prod.split)

subsection \<open>The dispatch\<close>

text \<open>The tenant whose partition an operation writes.\<close>

definition op_slug :: "string \<Rightarrow> api_op \<Rightarrow> string" where
  "op_slug caller op =
     (case op of
        OpCreateTenant inp \<Rightarrow> ct_slug inp
      | OpUpdateTenant inp \<Rightarrow> ut_slug inp
      | OpDeleteTenant slug \<Rightarrow> slug
      | _ \<Rightarrow> caller)"

lemma dispatch_handled:
  assumes cx: "cx_tenant cx = Some t" and slug: "no_hash (t_slug t)" and reach: "cfg_reach d"
    and items: "items_ok settings_ok d" and op: "op_ok op" and w: "draws_ok w"
  shows "handled (op_slug (t_slug t) op) d (snd (api_dispatch e w cx op d))"
proof -
  note app = create_application_handled [OF cx slug reach] update_application_handled [OF cx slug reach items]
    other_app_handlers [OF cx slug reach]
  note rest = tenant_handlers [OF reach] source_handlers [OF cx slug reach] handled_refl [OF reach]
  show ?thesis
    using op w items
    by (cases op)
       (auto simp: op_slug_def op_ok_def draws_ok_def enable_application_def disable_application_def
          readers_keep intro!: app rest)
qed

end
