(* ===== verification/ApiProps.thy ===== *)
theory ApiProps
  imports ApiHandlers
begin

text \<open>
  Properties of the management API as a whole: what a request that reaches a handler has shown about
  its caller, what it can change, and what the settings it stores are worth.
\<close>

subsection \<open>The way through the gate\<close>

text \<open>The tenant a verified token speaks for, and the ones its bearer may act on.\<close>

definition token_tenant :: "jwt_payload \<Rightarrow> string" where
  "token_tenant claims =
     (case map_of claims ''custom:tenant_id'' of
        Some (CStr t) \<Rightarrow> if t \<noteq> [] then t else default_slug
      | _ \<Rightarrow> default_slug)"

definition is_operator :: "jwt_payload \<Rightarrow> bool" where
  "is_operator claims \<longleftrightarrow> global_operator_group \<in> set (groups_of_claims claims)"

lemma has_global_operator_iff [simp]: "has_global_operator gs \<longleftrightarrow> global_operator_group \<in> set gs"
  by (auto simp: has_global_operator_def list_ex_iff)

lemma op_path_api [simp]: "is_api_path (api_request header op)"
  by (cases op) (simp_all add: is_api_path_def api_request_def app_path_def)

lemma api_request_sel [simp]:
  "hr_method (api_request header op) = op_method op" "hr_header (api_request header op) = header"
  by (simp_all add: api_request_def)

lemma op_is_write: "is_write (op_method op) \<longleftrightarrow> op_method op \<noteq> ''GET''"
  by (cases op) (simp_all add: is_write_def)

lemma require_auth_Inr:
  assumes "require_auth now ce json (Some v) client rq cx = (Inr cx', v')"
  shows "\<exists>token claims v1. hr_header rq ''Authorization'' = ''Bearer '' @ token \<and> token \<noteq> [] \<and>
    jwks_verify now ce v token client = (Inr claims, v1) \<and> v' = Some v1 \<and>
    rbac_check (hr_method rq) (groups_of_claims claims) = Inr () \<and> cx' = authenticated_ctx claims cx"
proof -
  let ?h = "hr_header rq ''Authorization''"
  obtain token where h: "?h = ''Bearer '' @ token"
    using assms by (auto simp: require_auth_def Let_def has_prefix_iff split: if_splits)
  have tp: "trim_prefix ?h ''Bearer '' = token"
    unfolding h by (rule trim_prefix_append)
  have tok: "token \<noteq> []"
    using assms tp by (auto simp: require_auth_def Let_def split: if_splits)
  obtain r v1 where v: "jwks_verify now ce v token client = (r, v1)" by fastforce
  show ?thesis
    using assms h tok tp v
    by (cases r) (auto simp: require_auth_def Let_def bearer_claims_def has_prefix_iff
        split: sum.splits prod.splits)
qed

lemma tenant_from_jwt_Inr:
  assumes "tenant_from_jwt d cx = Inr cx'"
  shows "\<exists>slug t. cx_slug cx = Some slug \<and> slug \<noteq> [] \<and> tenant_get slug d = Inr t \<and>
    cx' = cx\<lparr>cx_tenant := Some t\<rparr>"
  using assms by (auto simp: tenant_from_jwt_def split: option.splits if_splits sum.splits)

lemma authenticated_slug:
  "cx_slug (authenticated_ctx claims empty_ctx) =
     (case map_of claims ''custom:tenant_id'' of
        Some (CStr t) \<Rightarrow> if t \<noteq> [] then Some t else None | _ \<Rightarrow> None)"
  "cx_groups (authenticated_ctx claims empty_ctx) = Some (groups_of_claims claims)"
  by (auto simp: authenticated_ctx_def Let_def empty_ctx_def split: option.split claim_value.split)

lemma api_gate_Inr:
  assumes gate: "api_gate now ce json d rq rt = (Inr cx, rt')" and path: "is_api_path rq"
    and auth: "rt_auth rt = AuthVerifier v client"
  shows "(rt_edge_secret rt \<noteq> [] \<longrightarrow> hr_header rq edge_verify_header = rt_edge_secret rt) \<and>
    (\<exists>token claims v1 slug t.
       hr_header rq ''Authorization'' = ''Bearer '' @ token \<and>
       jwks_verify now ce v token client = (Inr claims, v1) \<and>
       rbac_check (hr_method rq) (groups_of_claims claims) = Inr () \<and>
       (slug = token_tenant claims \<or>
        (is_operator claims \<and> slug = trim_space (hr_header rq tenant_header_override))) \<and>
       tenant_get slug d = Inr t \<and> cx_tenant cx = Some t \<and> cx_groups cx = Some (groups_of_claims claims))"
proof -
  let ?ov = "trim_space (hr_header rq tenant_header_override)"
  have edge: "require_edge_secret (rt_edge_secret rt) rq empty_ctx = Inr empty_ctx"
    and edge_ok: "rt_edge_secret rt \<noteq> [] \<longrightarrow> hr_header rq edge_verify_header = rt_edge_secret rt"
    using gate by (auto simp: api_gate_def require_edge_secret_def split: if_splits)
  obtain cx1 v' where a: "require_auth now ce json (Some v) client rq empty_ctx = (Inr cx1, v')"
    and r: "tenant_from_jwt_for_api d rq cx1 = Inr cx"
    using gate edge auth path
    by (auto simp: api_gate_def run_auth_def require_auth_for_api_def split: prod.splits sum.splits)
  obtain token claims v1 where t: "hr_header rq ''Authorization'' = ''Bearer '' @ token"
    "jwks_verify now ce v token client = (Inr claims, v1)"
    "rbac_check (hr_method rq) (groups_of_claims claims) = Inr ()"
    and cx1: "cx1 = authenticated_ctx claims empty_ctx"
    using require_auth_Inr [OF a] by blast
  have ops: "ctx_groups cx1 = groups_of_claims claims"
    by (simp add: cx1 ctx_groups_def authenticated_slug(2))
  obtain slug cx2 where jwt: "tenant_from_jwt d cx2 = Inr cx" "cx_slug cx2 = Some slug"
    and grp: "cx_groups cx2 = Some (groups_of_claims claims)"
    and slug: "slug = token_tenant claims \<or> (is_operator claims \<and> slug = ?ov)"
  proof (cases "?ov = []")
    case True
    show ?thesis
    proof (cases "cx_slug cx1")
      case None
      then show ?thesis
        using r path True
        by (intro that [of "cx1\<lparr>cx_slug := Some default_slug\<rparr>" default_slug])
           (auto simp: tenant_from_jwt_for_api_def Let_def cx1 authenticated_slug token_tenant_def
              split: option.splits claim_value.splits if_splits)
    next
      case (Some s)
      then show ?thesis
        using r path True
        by (intro that [of cx1 s])
           (auto simp: tenant_from_jwt_for_api_def Let_def cx1 authenticated_slug token_tenant_def
              split: option.splits claim_value.splits if_splits)
    qed
  next
    case False
    then show ?thesis
      using r path ops
      by (intro that [of "cx1\<lparr>cx_slug := Some ?ov\<rparr>" ?ov])
         (auto simp: tenant_from_jwt_for_api_def Let_def cx1 authenticated_slug is_operator_def
            split: if_splits)
  qed
  obtain tn where "tenant_get slug d = Inr tn" "cx = cx2\<lparr>cx_tenant := Some tn\<rparr>"
    using tenant_from_jwt_Inr [OF jwt(1)] jwt(2) by auto
  then show ?thesis
    using edge_ok t grp slug by (intro conjI exI [of _ token] exI [of _ claims] exI [of _ v1]
        exI [of _ slug] exI [of _ tn]) auto
qed

text \<open>Without authentication the default tenant, or the one the header names for nobody, is used.\<close>

lemma api_gate_tenant:
  assumes "api_gate now ce json d rq rt = (Inr cx, rt')" and "is_api_path rq"
  shows "\<exists>slug t. tenant_get slug d = Inr t \<and> cx_tenant cx = Some t"
  using assms tenant_from_jwt_Inr
  by (fastforce simp: api_gate_def tenant_from_jwt_for_api_def Let_def
      split: sum.splits prod.splits if_splits)

subsection \<open>The tables of the API\<close>

lemma api_reach_ok:
  assumes "api_reach d"
  shows "cfg_reach d \<and> items_ok settings_ok d"
  using assms
proof (induction rule: api_reach.induct)
  case api_empty
  show ?case by (simp add: reach_empty)
next
  case (api_fault d f)
  then show ?case by (simp add: reach_fault)
next
  case (api_boot d now)
  have "cfg_reach (snd (tenant_create now new_default_tenant d))"
    by (rule reach_tenant_create) (use api_boot in \<open>simp_all add: new_default_tenant_def default_slug_def\<close>)
  moreover have "items_ok settings_ok (snd (tenant_create now new_default_tenant d))"
    by (rule pwrites_items [OF tenant_create_writes]) (use api_boot in simp_all)
  ultimately show ?case
    using api_boot by (auto simp: ensure_tenant_def ensure_write_def split: sum.split prod.split)
next
  case (api_step s op w e ce json cid header reply s')
  then have reach: "cfg_reach (as_table s)" and items: "items_ok settings_ok (as_table s)" by auto
  show ?case
  proof (cases "api_gate (dw_now w) ce json (as_table s) (api_request header op) (as_router s)")
    case (Pair g rt)
    show ?thesis
    proof (cases g)
      case (Inl r)
      then show ?thesis using api_step Pair by (auto simp: api_serve_def)
    next
      case (Inr cx)
      obtain slug t where t: "tenant_get slug (as_table s) = Inr t" "cx_tenant cx = Some t"
        using api_gate_tenant [OF Pair [unfolded Inr] op_path_api] by blast
      have inv: "cfg_inv (as_table s)"
        using cfg_reach_inv [OF reach] by (simp add: store_inv_def)
      have "handled (op_slug (t_slug t) op) (as_table s) (snd (api_dispatch e w cx op (as_table s)))"
        by (rule dispatch_handled [OF t(2) _ reach items api_step(2,3)])
           (use tenant_get_slug [OF inv t(1)] in simp)
      moreover have "as_table s' = snd (api_dispatch e w cx op (as_table s))"
        using api_step Pair Inr by (auto simp: api_serve_def split: prod.splits sum.splits)
      ultimately show ?thesis
        using handledD(1) handled_items items by metis
    qed
  qed
qed

lemma api_reach_inv: "api_reach d \<Longrightarrow> cfg_inv d"
  using api_reach_ok cfg_reach_inv by (auto simp: store_inv_def)

text \<open>A served request that changed the table went through the gate into its handler.\<close>

lemma api_serve_changed:
  assumes "api_serve e ce json w cid header op s = (reply, s')" and "as_table s' \<noteq> as_table s"
  shows "\<exists>cx rt. api_gate (dw_now w) ce json (as_table s) (api_request header op) (as_router s) = (Inr cx, rt) \<and>
    as_table s' = snd (api_dispatch e w cx op (as_table s))"
  using assms by (auto simp: api_serve_def split: prod.splits sum.splits)

lemma get_keeps: "op_method op = ''GET'' \<Longrightarrow> snd (api_dispatch e w cx op d) = d"
  by (cases op) (simp_all add: readers_keep)

lemma foreign_tenant_keeps:
  assumes "cx_tenant cx = Some t" and "global_operator_group \<notin> set (ctx_groups cx)"
  shows "ut_slug inp \<noteq> t_slug t \<Longrightarrow> snd (update_tenant now cx inp d) = d"
    and "slug \<noteq> t_slug t \<Longrightarrow> snd (delete_tenant cx slug d) = d"
  using assms
  by (auto simp: update_tenant_def delete_tenant_def require_tenant_match_def then_api_def
      tenant_slug_from_context_def)

lemma create_tenant_changes:
  assumes "lookup (snd (create_tenant now cx inp d)) k \<noteq> lookup d k"
  shows "k = mkey (tenant_pk (ct_slug inp)) tenant_sk \<and> lookup d k = None"
proof -
  let ?t = "apply_overrides (ct_overrides inp) (initial_tenant inp)"
  obtain r d1 where c: "tenant_create now ?t d = (r, d1)" by fastforce
  have "snd (create_tenant now cx inp d) = d \<or> snd (create_tenant now cx inp d) = d1"
    using c by (auto simp: create_tenant_def Let_def or_500_def split: sum.split prod.split)
  with assms have "lookup d1 k \<noteq> lookup d k" by auto
  then show ?thesis
    using c tenant_create_err [of now ?t d] tenant_create_ok [of now ?t d d1 k]
    by (cases r) (auto simp: initial_tenant_def split: if_splits)
qed

lemma op_slug_own:
  "op_slug slug op = slug \<or> (\<exists>inp. op = OpCreateTenant inp) \<or> (\<exists>inp. op = OpUpdateTenant inp) \<or>
     (\<exists>sl. op = OpDeleteTenant sl)"
  by (cases op) (simp_all add: op_slug_def)

text \<open>A handler changes a row of the caller's tenant, unless the caller is a global operator or creates
  the tenant the row belongs to.\<close>

lemma dispatch_change:
  assumes cx: "cx_tenant cx = Some t" and slug: "no_hash (t_slug t)" and ok: "cfg_reach d"
      "items_ok settings_ok d" "op_ok op" "draws_ok w"
    and change: "lookup (snd (api_dispatch e w cx op d)) k \<noteq> lookup d k"
  shows "in_partition (tenant_pk (t_slug t)) k \<or> global_operator_group \<in> set (ctx_groups cx) \<or>
    (\<exists>inp. op = OpCreateTenant inp \<and> k = mkey (tenant_pk (ct_slug inp)) tenant_sk \<and> lookup d k = None)"
proof -
  have part: "in_partition (tenant_pk (op_slug (t_slug t) op)) k"
    using pwrites_frame [OF handledD(4) [OF dispatch_handled [OF cx slug ok]]] change by blast
  consider "op_slug (t_slug t) op = t_slug t" | inp where "op = OpCreateTenant inp"
    | inp where "op = OpUpdateTenant inp" | sl where "op = OpDeleteTenant sl"
    using op_slug_own [of "t_slug t" op] by blast
  then show ?thesis
  proof cases
    case (2 inp)
    have "lookup (snd (create_tenant (dw_now w) cx inp d)) k \<noteq> lookup d k"
      using change 2 by simp
    from create_tenant_changes [OF this] 2 show ?thesis by blast
  next
    case (3 inp)
    have "snd (update_tenant (dw_now w) cx inp d) \<noteq> d"
      using change 3 by auto
    then show ?thesis
      using foreign_tenant_keeps(1) [OF cx, of inp "dw_now w" d] part 3
      by (cases "ut_slug inp = t_slug t") (auto simp: op_slug_def)
  next
    case (4 sl)
    have "snd (delete_tenant cx sl d) \<noteq> d"
      using change 4 by auto
    then show ?thesis
      using foreign_tenant_keeps(2) [OF cx, of sl d] part 4
      by (cases "sl = t_slug t") (auto simp: op_slug_def)
  qed (use part in simp)
qed

subsection \<open>Properties\<close>

text \<open>C1: A request of the management API that changes a row came through the edge, with a bearer
  token the pool's verifier accepts for this client, of a member of the group of administrators; the
  row belongs to the tenant of that token, or the caller is a global operator, or the request
  created a tenant and the row is the new tenant's own, which did not exist before.\<close>

theorem management_write_authorized:
  assumes reach: "api_reach (as_table s)" and op: "op_ok op" and w: "draws_ok w"
    and auth: "rt_auth (as_router s) = AuthVerifier v client"
    and serve: "api_serve e ce json w cid header op s = (reply, s')"
    and change: "lookup (as_table s') k \<noteq> lookup (as_table s) k"
  shows "(rt_edge_secret (as_router s) \<noteq> [] \<longrightarrow> header edge_verify_header = rt_edge_secret (as_router s)) \<and>
    (\<exists>token claims v1.
       header ''Authorization'' = ''Bearer '' @ token \<and>
       jwks_verify (dw_now w) ce v token client = (Inr claims, v1) \<and>
       ''Admins'' \<in> set (groups_of_claims claims) \<and>
       (in_partition (tenant_pk (token_tenant claims)) k \<or> is_operator claims \<or>
        (\<exists>inp. op = OpCreateTenant inp \<and> k = mkey (tenant_pk (ct_slug inp)) tenant_sk \<and>
           lookup (as_table s) k = None)))"
proof -
  let ?d = "as_table s"
  obtain cx rt where g: "api_gate (dw_now w) ce json ?d (api_request header op) (as_router s) = (Inr cx, rt)"
    and d': "as_table s' = snd (api_dispatch e w cx op ?d)"
    using api_serve_changed [OF serve] change by fastforce
  obtain token claims v1 slug t where edge: "rt_edge_secret (as_router s) \<noteq> [] \<longrightarrow>
      header edge_verify_header = rt_edge_secret (as_router s)"
    and tok: "header ''Authorization'' = ''Bearer '' @ token"
      "jwks_verify (dw_now w) ce v token client = (Inr claims, v1)"
    and rbac: "rbac_check (op_method op) (groups_of_claims claims) = Inr ()"
    and slug: "slug = token_tenant claims \<or> is_operator claims"
    and t: "tenant_get slug ?d = Inr t" "cx_tenant cx = Some t"
    and grp: "cx_groups cx = Some (groups_of_claims claims)"
    using api_gate_Inr [OF g op_path_api auth] unfolding api_request_sel by blast
  have tslug: "no_hash (t_slug t)" "t_slug t = slug"
    using tenant_get_slug [OF api_reach_inv [OF reach] t(1)] by auto
  have "op_method op \<noteq> ''GET''"
    using get_keeps d' change by metis
  then have admin: "''Admins'' \<in> set (groups_of_claims claims)"
    using rbac by (auto simp: rbac_check_def op_is_write split: if_splits)
  have "in_partition (tenant_pk (token_tenant claims)) k \<or> is_operator claims \<or>
      (\<exists>inp. op = OpCreateTenant inp \<and> k = mkey (tenant_pk (ct_slug inp)) tenant_sk \<and> lookup ?d k = None)"
    using dispatch_change [OF t(2) tslug(1) conjunct1 [OF api_reach_ok [OF reach]]
        conjunct2 [OF api_reach_ok [OF reach]] op w, of e k] change slug tslug(2) grp
    unfolding d' is_operator_def ctx_groups_def by auto
  then show ?thesis using edge tok admin by blast
qed

text \<open>An administrator of the default tenant, and a gateway that has just booted.\<close>

definition admin_claims :: jwt_payload where
  "admin_claims = (''cognito:groups'', CList [CStr ''Admins'']) # demo_id_claims"

definition admin_cognito :: cognito_env where
  "admin_cognito = demo_cognito\<lparr>cv_jwt_parse := (\<lambda>_ kf tok. case kf demo_header of
     Inl e \<Rightarrow> Inl e | Inr _ \<Rightarrow> if tok = ''good'' then Inr admin_claims else Inl (ErrMsg ''signature''))\<rparr>"

definition admin_headers :: "string \<Rightarrow> string" where
  "admin_headers h =
     (if h = ''Authorization'' then ''Bearer good'' else if h = edge_verify_header then ''edge'' else [])"

definition admin_router :: api_router where
  "admin_router = \<lparr>rt_edge_secret = ''edge'', rt_auth = AuthVerifier demo_verifier ''c1''\<rparr>"

definition booted :: cfg_db where
  "booted = snd (ensure_tenant 5 new_default_tenant empty_db)"

definition idle_env :: api_env where
  "idle_env = \<lparr>ae_config = read_config (\<lambda>_. []) EnvDev, ae_discover = (\<lambda>_ _. None),
     ae_describe = (\<lambda>_ _. Inl ErrTransient), ae_probe = (\<lambda>_. ProbeBlocked),
     ae_fetch = (\<lambda>_. Inl ErrTransient), ae_decode = (\<lambda>_. None), ae_read_cert = (\<lambda>_. None)\<rparr>"

definition admin_draws :: api_draws where
  "admin_draws = \<lparr>dw_now = 7, dw_id = Some (replicate 16 0), dw_secret = Some (replicate 32 1)\<rparr>"

definition new_pool :: source_input where
  "new_pool = \<lparr>sri_display_name = ''Pool'', sri_type = [], sri_pool_id = ''p_1'',
     sri_region = ''eu-west-1'', sri_domain = ''login.acme.com'', sri_client_id = ''c1''\<rparr>"

definition admin_serve :: "api_op \<Rightarrow> cfg_db \<Rightarrow> api_reply api \<times> api_state" where
  "admin_serve op d = api_serve idle_env admin_cognito (\<lambda>_. None) admin_draws ''cid'' admin_headers op
     \<lparr>as_router = admin_router, as_table = d\<rparr>"

lemma admin_draws_ok: "draws_ok admin_draws"
  by (simp add: draws_ok_def admin_draws_def rnd_ok_def secret_ok_def)

lemma booted_reach: "api_reach booted"
  unfolding booted_def by (rule api_boot) (rule api_empty)

lemma admin_source_changes:
  "lookup (as_table (snd (admin_serve (OpCreateSource new_pool) booted)))
     (mkey (tenant_pk default_slug) (source_sk (concat (map hex_byte (replicate 16 0))))) \<noteq>
   lookup booted (mkey (tenant_pk default_slug) (source_sk (concat (map hex_byte (replicate 16 0)))))"
  by code_simp

lemma management_write_authorized_witness:
  "''Admins'' \<in> set (groups_of_claims admin_claims) \<and>
   in_partition (tenant_pk default_slug)
     (mkey (tenant_pk default_slug) (source_sk (concat (map hex_byte (replicate 16 0)))))"
proof -
  have "jwks_verify 7 admin_cognito demo_verifier ''good'' ''c1'' = (Inr admin_claims, demo_verifier)"
    by code_simp
  moreover have "token_tenant admin_claims = default_slug" "\<not> is_operator admin_claims"
    by code_simp+
  moreover obtain reply s' where s': "admin_serve (OpCreateSource new_pool) booted = (reply, s')"
    by fastforce
  ultimately show ?thesis
    using management_write_authorized [of "\<lparr>as_router = admin_router, as_table = booted\<rparr>"
        "OpCreateSource new_pool" admin_draws demo_verifier "''c1''" idle_env admin_cognito "\<lambda>_. None"
        "''cid''" admin_headers reply s', OF _ _ admin_draws_ok _ s' [unfolded admin_serve_def]]
      admin_source_changes booted_reach
    by (auto simp: s' op_ok_def admin_router_def admin_headers_def edge_verify_header_def admin_draws_def)
qed

end
