(* ===== verification/ApiSettings.thy ===== *)
theory ApiSettings
  imports ApiProps OidcStorage
begin

text \<open>
  What the settings behind the management API are worth: the invariant of every stored setting, what
  a refusal leaves behind, and what a created application can do at the protocol endpoints.
\<close>

subsection \<open>Stored settings\<close>

lemma login_config_trusted:
  assumes "validate_login_config a = []" and "trim_space (a_custom_login_url a) \<noteq> []"
  shows "is_trusted_login_redirect a (trim_space (a_custom_login_url a))"
  using assms
  by (auto simp: validate_login_config_def custom_login_errors_def Let_def split: option.splits if_splits)

text \<open>C36: Whatever requests the management API served, the settings it stored are ones the protocol
  paths honour: signing is on, the session and the clock skew lie within their bounds, encryption
  has its certificate and no request signature is demanded; token lifetimes are unset or within
  bounds and a client has a secret exactly when its method needs one; and a custom login page is
  covered by the application's allowlist.\<close>

theorem stored_settings_honoured:
  assumes "api_reach d" and "lookup d k = Some r"
  shows "(\<forall>c. r_item r = SamlItem c \<longrightarrow>
      sc_sign_response c \<and> sc_sign_assertion c \<and>
      300 \<le> sc_session_duration_sec c \<and> sc_session_duration_sec c \<le> 86400 \<and>
      0 \<le> sc_clock_skew_sec c \<and> sc_clock_skew_sec c \<le> 600 \<and>
      (sc_encrypt_assertion c \<longrightarrow> sc_encryption_cert_pem c \<noteq> []) \<and> \<not> sc_want_authn_requests_signed c) \<and>
    (\<forall>c. r_item r = OidcItem c \<longrightarrow>
      oc_id_token_lifetime_sec c \<in> {0} \<union> {60..86400} \<and>
      oc_access_token_lifetime_sec c \<in> {0} \<union> {60..86400} \<and>
      (oc_client_secret c \<noteq> [] \<longleftrightarrow> is_confidential_auth_method (oc_token_endpoint_auth_method c))) \<and>
    (\<forall>e a. r_item r = AppItem e a \<longrightarrow>
      trim_space (a_custom_login_url a) = [] \<or>
      is_trusted_login_redirect a (trim_space (a_custom_login_url a)))"
proof -
  have "settings_ok (r_item r)"
    using items_okD assms api_reach_ok by blast
  then show ?thesis
    by (auto simp: saml_settings_ok_def oidc_settings_ok_def lifetime_ok_def bound_defs
        intro: login_config_trusted)
qed

lemma admin_serve_reach: "api_reach d \<Longrightarrow> op_ok op \<Longrightarrow> api_reach (as_table (snd (admin_serve op d)))"
  by (rule api_step [where s = "\<lparr>as_router = admin_router, as_table = d\<rparr>" and w = admin_draws])
     (simp_all add: admin_draws_ok admin_serve_def prod_eq_iff)

text \<open>A SAML application an administrator registers.\<close>

definition demo_saml_app :: create_app_input where
  "demo_saml_app = \<lparr>ci_display_name = ''Wiki'', ci_protocol = ''SAML'', ci_source_id = ''s1'',
     ci_saml = Some (empty_saml_input\<lparr>si_entity_id := ''sp1'', si_acs_url := ''https://sp/acs''\<rparr>),
     ci_oidc = None, ci_claim_mappings = [(''email'', ''mail'')], ci_role_mappings = [],
     ci_custom_login_url = [], ci_trusted_login_redirect_uris = []\<rparr>"

lemma saml_app_stored:
  "\<exists>r c. lookup (as_table (snd (admin_serve (OpCreateApp demo_saml_app) booted)))
      (mkey (tenant_pk default_slug) (app_saml_sk (concat (map hex_byte (replicate 16 0))))) = Some r \<and>
    r_item r = SamlItem c \<and> sc_entity_id c = ''sp1''"
proof -
  have "case lookup (as_table (snd (admin_serve (OpCreateApp demo_saml_app) booted)))
      (mkey (tenant_pk default_slug) (app_saml_sk (concat (map hex_byte (replicate 16 0))))) of
      None \<Rightarrow> False | Some r \<Rightarrow> (case r_item r of SamlItem c \<Rightarrow> sc_entity_id c = ''sp1'' | _ \<Rightarrow> False)"
    by code_simp
  then show ?thesis by (auto split: option.splits cfg_item.splits)
qed

lemma stored_settings_honoured_witness:
  "\<exists>r c. lookup (as_table (snd (admin_serve (OpCreateApp demo_saml_app) booted)))
      (mkey (tenant_pk default_slug) (app_saml_sk (concat (map hex_byte (replicate 16 0))))) = Some r \<and>
    r_item r = SamlItem c \<and> sc_sign_response c \<and> sc_session_duration_sec c \<le> 86400"
proof -
  have reach: "api_reach (as_table (snd (admin_serve (OpCreateApp demo_saml_app) booted)))"
    by (rule admin_serve_reach [OF booted_reach]) (simp add: op_ok_def)
  show ?thesis
    using saml_app_stored stored_settings_honoured [OF reach] by blast
qed

subsection \<open>Refusals\<close>

text \<open>A refusal below 500 leaves \<open>d\<close>; and the calls after the first write only fail with 500.\<close>

definition clean :: "cfg_db \<Rightarrow> 'a api \<times> cfg_db \<Rightarrow> bool" where
  "clean d p \<longleftrightarrow> (\<forall>st msg. fst p = Inl (st, msg) \<longrightarrow> st < 500 \<longrightarrow> snd p = d)"

definition fails_500 :: "'a api \<times> cfg_db \<Rightarrow> bool" where
  "fails_500 p \<longleftrightarrow> (\<forall>st msg. fst p = Inl (st, msg) \<longrightarrow> st = 500)"

lemma fails_500_clean: "fails_500 p \<Longrightarrow> clean d p"
  by (fastforce simp: fails_500_def clean_def)

lemma fails_500_intros:
  "fails_500 (Inr x, d)"
  "(\<And>x d1. fails_500 (k x d1)) \<Longrightarrow> fails_500 (or_500 m q k)"
  "fails_500 p \<Longrightarrow> (\<And>x d1. fails_500 (k' x d1)) \<Longrightarrow> fails_500 (then_api p k')"
  by (auto simp: fails_500_def or_500_def then_api_def split: sum.split prod.split)

lemma clean_intros:
  "clean d (Inr x, d1)" "clean d (Inl r, d)"
  "(\<And>slug. clean d (k1 slug)) \<Longrightarrow> clean d (with_slug cx d k1)"
  "(\<And>x. clean d (k2 x d)) \<Longrightarrow> clean d (or_500 m (q, d) k2)"
  "(\<And>x. clean d (k3 x d)) \<Longrightarrow> clean d (or_404 a m (q', d) k3)"
  "(\<And>x. clean d (k4 x d)) \<Longrightarrow> clean d (then_api (q'', d) k4)"
  by (auto simp: clean_def or_500_def or_404_def then_api_def with_slug_def no_tenant_def
      split: sum.split option.split)

lemma clean_write:
  "(\<And>x d1. fails_500 (k x d1)) \<Longrightarrow> clean d (or_500 m p k)"
  by (intro fails_500_clean fails_500_intros)

lemma clean_write_404:
  assumes "\<And>e. fst p = Inl e \<Longrightarrow> snd p = d" and "\<And>x d1. fails_500 (k x d1)"
  shows "clean d (or_404 a m p k)"
  using assms(1) fails_500_clean [OF assms(2)]
  by (cases p; cases "fst p") (auto simp: clean_def or_404_def)

lemma app_delete_err: "fst (app_delete slug i d) = Inl e \<Longrightarrow> snd (app_delete slug i d) = d"
  by (auto simp: app_delete_def Let_def dest: db_delete_err split: sum.splits prod.splits cfg_item.splits)

lemma app_update_err: "fst (app_update now slug a d) = Inl e \<Longrightarrow> snd (app_update now slug a d) = d"
  by (auto simp: app_update_def Let_def dest: db_put_err split: sum.splits prod.splits cfg_item.splits if_splits)

lemma app_set_status_err:
  "fst (app_set_status now slug i st d) = Inl e \<Longrightarrow> snd (app_set_status now slug i st d) = d"
  by (auto simp: app_set_status_def app_update_err split: sum.splits)

lemma source_delete_err: "fst (source_delete slug i d) = Inl e \<Longrightarrow> snd (source_delete slug i d) = d"
  by (auto simp: source_delete_def dest: db_delete_err split: sum.splits prod.splits)

lemmas failing_writes_keep = app_delete_err app_set_status_err source_delete_err

lemmas clean_rules = clean_intros clean_write clean_write_404 [OF failing_writes_keep(1)]
  clean_write_404 [OF failing_writes_keep(2)] clean_write_404 [OF failing_writes_keep(3)]

lemma store_oidc_500:
  "fails_500 (store_created_oidc srnd slug i oi d)" "fails_500 (store_updated_oidc srnd slug i oi d)"
  by (auto simp: store_created_oidc_def store_updated_oidc_def Let_def intro!: fails_500_intros)

lemma fails_500_option:
  "(\<And>x. fails_500 (f x)) \<Longrightarrow> fails_500 g \<Longrightarrow> fails_500 (case opt of Some x \<Rightarrow> f x | None \<Rightarrow> g)"
  "fails_500 p \<Longrightarrow> fails_500 q \<Longrightarrow> fails_500 (if b then p else q)"
  by (auto split: option.split)

lemma clean_if: "clean d p \<Longrightarrow> clean d q \<Longrightarrow> clean d (if b then p else q)"
  by simp

lemma app_handlers_clean:
  "clean d (create_application now rnd srnd cx inp d)"
  "clean d (update_application now srnd cx upd d)"
  "clean d (delete_application cx i d)"
  "clean d (set_application_status now st cx i d)"
  "clean d (rotate_client_secret srnd cx i d)"
  unfolding create_application_def update_application_def delete_application_def
    set_application_status_def rotate_client_secret_def Let_def
  by (intro clean_if clean_rules fails_500_intros fails_500_option store_oidc_500 | assumption)+

lemma other_handlers_clean:
  "clean d (create_tenant now cx ct d)"
  "clean d (update_tenant now cx ut d)"
  "clean d (delete_tenant cx sl d)"
  "clean d (create_source disc now rnd cx si d)"
  "clean d (update_source disc now cx i si d)"
  "clean d (delete_source cx i d)"
  "clean d (put_claims cx i ms d)"
  "clean d (put_roles cx i rs d)"
  unfolding create_tenant_def update_tenant_def delete_tenant_def create_source_def update_source_def
    delete_source_def put_claims_def put_roles_def with_app_def Let_def
  by (intro clean_if clean_rules fails_500_intros fails_500_option | assumption)+

lemma clean_keep: "snd p = d \<Longrightarrow> clean d p"
  by (simp add: clean_def)

lemma clean_reply: "clean d p \<Longrightarrow> clean d (reply_with f p)"
  by (auto simp: clean_def reply_with_def split: sum.splits prod.splits)

lemma dispatch_clean:
  assumes "\<forall>url src nm. op \<noteq> OpImportApp url src nm"
  shows "clean d (api_dispatch e w cx op d)"
  using assms
  by (cases op)
     (simp_all add: clean_reply app_handlers_clean other_handlers_clean clean_keep readers_keep
        enable_application_def disable_application_def)

lemma gate_refusal: "api_gate now ce json d rq rt = (Inl (st, msg), rt') \<Longrightarrow> st < 500"
  by (auto simp: api_gate_def require_edge_secret_def run_auth_def require_auth_for_api_def require_auth_def
      Let_def rbac_check_def tenant_from_jwt_for_api_def tenant_from_jwt_def
      split: sum.splits prod.splits if_splits option.splits api_auth.splits)

text \<open>C37: A request that is refused for a fault of the client changes nothing in the table, imports
  apart; and a server fault reaches the client as a fixed text with the correlation id, without any
  detail of the failure.\<close>

theorem refusals_leave_table:
  assumes serve: "api_serve e ce json w cid header op s = (Inl (st, msg), s')"
    and op: "\<forall>url src nm. op \<noteq> OpImportApp url src nm"
  shows "(st < 500 \<longrightarrow> as_table s' = as_table s) \<and>
    (st \<ge> 500 \<longrightarrow> msg = ''internal server error (correlation id: '' @ cid @ '')'')"
proof (cases "api_gate (dw_now w) ce json (as_table s) (api_request header op) (as_router s)")
  case (Pair g rt)
  show ?thesis
  proof (cases g)
    case (Inl r)
    then have "r = (st, msg)" "as_table s' = as_table s"
      using serve Pair by (auto simp: api_serve_def)
    then show ?thesis
      using gate_refusal Pair Inl by fastforce
  next
    case (Inr cx)
    obtain r d where disp: "api_dispatch e w cx op (as_table s) = (r, d)" by fastforce
    then show ?thesis
      using serve Pair Inr dispatch_clean [OF op, of "as_table s" e w cx]
      by (cases r) (auto simp: api_serve_def clean_def sanitize_error_def split: if_splits)
  qed
qed

lemma refusals_leave_table_witness:
  "\<exists>msg s'. admin_serve (OpDeleteApp ''none'') booted = (Inl (404, msg), s') \<and> as_table s' = booted"
proof -
  have "case fst (admin_serve (OpDeleteApp ''none'') booted) of Inl r \<Rightarrow> fst r = 404 | Inr _ \<Rightarrow> False"
    by code_simp
  then obtain msg s' where r: "admin_serve (OpDeleteApp ''none'') booted = (Inl (404, msg), s')"
    by (cases "admin_serve (OpDeleteApp ''none'') booted") (auto split: sum.splits)
  then show ?thesis
    using refusals_leave_table [OF r [unfolded admin_serve_def]] by simp
qed

end
