(* ===== verification/ApiCreate.thy ===== *)
theory ApiCreate
  imports ApiSettings
begin

text \<open>
  A created application: what a read returns, what the validation endpoint says of it, and whether an
  OpenID client can authenticate with what the create returned.
\<close>

subsection \<open>The rows of a created application\<close>

lemma mappings_keep:
  "\<not> has_prefix sk (claim_prefix i) \<Longrightarrow>
     lookup (snd (put_claim_mappings slug i ms d)) (mkey (tenant_pk slug) sk) = lookup d (mkey (tenant_pk slug) sk)"
  "\<not> has_prefix sk (role_prefix i) \<Longrightarrow>
     lookup (snd (put_role_mappings slug i rs d)) (mkey (tenant_pk slug) sk) = lookup d (mkey (tenant_pk slug) sk)"
proof -
  have other: "mkey (tenant_pk slug) sk \<noteq> mkey (tenant_pk slug) (p @ n)" if "\<not> has_prefix sk p" for p n
    using that by (auto simp: mkey_same_inject has_prefix_iff)
  show "lookup (snd (put_claim_mappings slug i ms d)) (mkey (tenant_pk slug) sk) =
      lookup d (mkey (tenant_pk slug) sk)" if "\<not> has_prefix sk (claim_prefix i)"
    using claim.replace_keeps [OF _ other [OF that], of _ _ ms d]
    by (auto simp: put_claim_mappings_replace prod_eq_iff split: sum.split)
  show "lookup (snd (put_role_mappings slug i rs d)) (mkey (tenant_pk slug) sk) =
      lookup d (mkey (tenant_pk slug) sk)" if "\<not> has_prefix sk (role_prefix i)"
    using role.replace_keeps [OF _ other [OF that], of _ _ rs d]
    by (auto simp: put_role_mappings_replace prod_eq_iff split: sum.split)
qed

lemma app_keys_no_mapping [simp]:
  "\<not> has_prefix (app_sk i) (claim_prefix i)" "\<not> has_prefix (app_sk i) (role_prefix i)"
  "\<not> has_prefix (app_saml_sk i) (claim_prefix i)" "\<not> has_prefix (app_saml_sk i) (role_prefix i)"
  "\<not> has_prefix (app_oidc_sk i) (claim_prefix i)" "\<not> has_prefix (app_oidc_sk i) (role_prefix i)"
  by (auto simp: sk_defs has_prefix_iff)

lemma put_role_mappings_fault [simp]: "fault (snd (put_role_mappings slug i ms d)) = fault d"
  by (simp add: put_role_mappings_def Let_def split: sum.split)

text \<open>The mappings are the last writes of a create; the application and its settings stay as they were.\<close>

definition mapped :: "string \<Rightarrow> string \<Rightarrow> create_app_input \<Rightarrow> cfg_db \<Rightarrow> cfg_db" where
  "mapped slug i inp d =
     (let d3 = snd (if ci_claim_mappings inp \<noteq> []
                    then put_claim_mappings slug i (to_claim_mappings (ci_claim_mappings inp)) d else (Inr (), d))
      in snd (if ci_role_mappings inp \<noteq> []
              then put_role_mappings slug i (to_role_mappings (ci_role_mappings inp)) d3 else (Inr (), d3)))"

lemma mapped_fault [simp]: "fault (mapped slug i inp d) = fault d"
  by (simp add: mapped_def Let_def)

lemma mapped_lookup [simp]:
  "lookup (mapped slug i inp d) (mkey (tenant_pk slug) (app_sk i)) = lookup d (mkey (tenant_pk slug) (app_sk i))"
  "lookup (mapped slug i inp d) (mkey (tenant_pk slug) (app_saml_sk i)) =
     lookup d (mkey (tenant_pk slug) (app_saml_sk i))"
  "lookup (mapped slug i inp d) (mkey (tenant_pk slug) (app_oidc_sk i)) =
     lookup d (mkey (tenant_pk slug) (app_oidc_sk i))"
  by (auto simp: mapped_def Let_def mappings_keep)

lemma or_500_Inr: "or_500 m p k = (Inr y, d') \<longleftrightarrow> (\<exists>x d1. p = (Inr x, d1) \<and> k x d1 = (Inr y, d'))"
  by (auto simp: or_500_def split: prod.split sum.split)

lemma or_404_Inr: "or_404 a m p k = (Inr y, d') \<longleftrightarrow> (\<exists>x d1. p = (Inr x, d1) \<and> k x d1 = (Inr y, d'))"
  by (auto simp: or_404_def split: prod.split sum.split)

lemma then_api_Inr: "then_api p k = (Inr y, d') \<longleftrightarrow> (\<exists>x d1. p = (Inr x, d1) \<and> k x d1 = (Inr y, d'))"
  by (auto simp: then_api_def split: prod.split sum.split)

lemmas handler_Inr = or_500_Inr or_404_Inr then_api_Inr

lemma create_application_ok:
  assumes cx: "cx_tenant cx = Some t" and c: "create_application now rnd srnd cx inp d = (Inr out, d')"
  shows "\<exists>i d1 secret d2 created.
    app_create rnd now (t_slug t) (new_application inp)
      (if equal_fold (a_protocol (new_application inp)) ''saml''
       then Some (created_saml_config (ci_saml inp)) else None) d = (Inr i, d1) \<and>
    (case ci_oidc inp of
       Some oi \<Rightarrow> if stores_oidc (a_protocol (new_application inp)) (ci_oidc inp)
                  then store_created_oidc srnd (t_slug t) i oi d1 else (Inr [], d1)
     | None \<Rightarrow> (Inr [], d1)) = (Inr secret, d2) \<and>
    d' = mapped (t_slug t) i inp d2 \<and> app_get (t_slug t) i d' = Inr created \<and>
    out = app_output_of (t_slug t) i created (equal_fold (a_protocol (new_application inp)) ''saml'')
      (equal_fold (a_protocol created) ''oidc'') secret d'"
proof -
  let ?app = "new_application inp"
  have slug: "with_slug cx d k = k (t_slug t)" for k :: "string \<Rightarrow> app_output api \<times> cfg_db"
    by (simp add: with_slug_def tenant_slug_from_context_def cx)
  have ok: "validate_login_config ?app = []" "validate_saml_config_input (ci_saml inp) None = []"
      "validate_oidc_config_input (ci_oidc inp) = []"
    using c by (auto simp: create_application_def slug Let_def split: if_splits)
  obtain i d1 secret d2 u3 d3 u4 d4 created where st:
    "app_create rnd now (t_slug t) ?app
      (if equal_fold (a_protocol ?app) ''saml'' then Some (created_saml_config (ci_saml inp)) else None) d = (Inr i, d1)"
    "(case ci_oidc inp of
       Some oi \<Rightarrow> if stores_oidc (a_protocol ?app) (ci_oidc inp)
                  then store_created_oidc srnd (t_slug t) i oi d1 else (Inr [], d1)
     | None \<Rightarrow> (Inr [], d1)) = (Inr secret, d2)"
    and m3: "(if ci_claim_mappings inp \<noteq> []
      then put_claim_mappings (t_slug t) i (to_claim_mappings (ci_claim_mappings inp)) d2 else (Inr (), d2)) = (Inr u3, d3)"
    and m4: "(if ci_role_mappings inp \<noteq> []
      then put_role_mappings (t_slug t) i (to_role_mappings (ci_role_mappings inp)) d3 else (Inr (), d3)) = (Inr u4, d4)"
    and get: "app_get (t_slug t) i d4 = Inr created" and out: "d' = d4"
      "out = app_output_of (t_slug t) i created (equal_fold (a_protocol ?app) ''saml'')
         (equal_fold (a_protocol created) ''oidc'') secret d4"
    using c unfolding create_application_def slug Let_def if_not_P [OF not_not [THEN iffD2, OF ok(1)]]
      if_not_P [OF not_not [THEN iffD2, OF ok(2)]] if_not_P [OF not_not [THEN iffD2, OF ok(3)]] handler_Inr
    by (elim exE conjE) (auto split: if_split_asm)
  have "d4 = mapped (t_slug t) i inp d2"
    unfolding mapped_def Let_def m3 m4 snd_conv ..
  then show ?thesis using st get out by blast
qed

text \<open>The two protocols exclude each other.\<close>

lemma saml_not_oidc [simp]: "equal_fold p ''saml'' \<Longrightarrow> \<not> equal_fold p ''oidc''"
  by (auto simp: equal_fold_def fold_bytes.simps lower_char_def)


subsection \<open>A worked example\<close>

definition demo_cx :: request_ctx where
  "demo_cx = empty_ctx\<lparr>cx_tenant := Some new_default_tenant\<rparr>"

definition demo_oidc_input :: "string \<Rightarrow> oidc_input" where
  "demo_oidc_input meth = \<lparr>oi_redirect_uris = [''https://rp/cb''], oi_post_logout_redirect_uris = [],
     oi_grant_types = [], oi_response_types = [], oi_scopes = [''openid''],
     oi_token_endpoint_auth_method = meth, oi_id_token_lifetime_sec = 0,
     oi_access_token_lifetime_sec = 0, oi_refresh_token_lifetime_sec = 0\<rparr>"

definition demo_oidc_app :: "string \<Rightarrow> create_app_input" where
  "demo_oidc_app meth = demo_saml_app\<lparr>ci_protocol := ''oidc'', ci_saml := None,
     ci_oidc := Some (demo_oidc_input meth)\<rparr>"

definition demo_create :: "create_app_input \<Rightarrow> app_output api \<times> cfg_db" where
  "demo_create inp = create_application 7 (dw_id admin_draws) (dw_secret admin_draws) demo_cx inp booted"

lemma demo_draws: "rnd_ok (dw_id admin_draws)" "secret_ok (dw_secret admin_draws)"
  using admin_draws_ok by (simp_all add: draws_ok_def)

lemma booted_fault: "\<forall>op. \<not> fault booted op"
  by (simp add: booted_def ensure_tenant_def ensure_write_def tenant_create_def Let_def new_default_tenant_def
      default_slug_def db_put_new_def db_put_def empty_db_def split: sum.split prod.split option.split)

lemma demo_tenant: "cx_tenant demo_cx = Some new_default_tenant" "no_hash (t_slug new_default_tenant)"
  "t_slug new_default_tenant = default_slug"
  by (simp_all add: demo_cx_def new_default_tenant_def default_slug_def)

lemma demo_created:
  "\<exists>out d'. demo_create demo_saml_app = (Inr out, d') \<and>
     a_id (ao_application out) = concat (map hex_byte (replicate 16 0))"
  "\<exists>out d'. demo_create (demo_oidc_app ''client_secret_basic'') = (Inr out, d') \<and>
     ao_client_secret out = concat (map hex_byte (replicate 32 1))"
proof -
  have "case fst (demo_create demo_saml_app) of Inl e \<Rightarrow> False
    | Inr out \<Rightarrow> a_id (ao_application out) = concat (map hex_byte (replicate 16 0))" by code_simp
  then show "\<exists>out d'. demo_create demo_saml_app = (Inr out, d') \<and>
     a_id (ao_application out) = concat (map hex_byte (replicate 16 0))"
    by (cases "demo_create demo_saml_app") (auto split: sum.splits)
  have "case fst (demo_create (demo_oidc_app ''client_secret_basic'')) of Inl e \<Rightarrow> False
    | Inr out \<Rightarrow> ao_client_secret out = concat (map hex_byte (replicate 32 1))" by code_simp
  then show "\<exists>out d'. demo_create (demo_oidc_app ''client_secret_basic'') = (Inr out, d') \<and>
     ao_client_secret out = concat (map hex_byte (replicate 32 1))"
    by (cases "demo_create (demo_oidc_app ''client_secret_basic'')") (auto split: sum.splits)
qed

lemma demo_protocol:
  "equal_fold (set_string_default (ci_protocol demo_saml_app) ''saml'') ''saml''"
  "equal_fold (set_string_default (ci_protocol (demo_oidc_app m)) ''saml'') ''oidc''"
  "ci_oidc (demo_oidc_app m) = Some (demo_oidc_input m)" "oi_redirect_uris (demo_oidc_input m) \<noteq> []"
  "oi_token_endpoint_auth_method (demo_oidc_input m) = m"
  by (simp_all add: demo_oidc_app_def demo_oidc_input_def demo_saml_app_def set_string_default_def) code_simp+

subsection \<open>Properties\<close>

lemma app_get_row_at:
  assumes "lookup d (mkey (tenant_pk slug) (app_sk i)) = Some (app_row pk sk g h e a)" and "\<forall>op. \<not> fault d op"
  shows "app_get slug i d = Inr (a\<lparr>a_tenant_slug := slug\<rparr>)"
  using app_get_at [OF assms(1)] assms(2) by simp

lemma saml_created:
  assumes cx: "cx_tenant cx = Some t" and slug: "no_hash (t_slug t)" and rnd: "rnd_ok rnd"
    and nf: "\<forall>op. \<not> fault d op"
    and c: "create_application now rnd srnd cx inp d = (Inr out, d')"
    and saml: "equal_fold (set_string_default (ci_protocol inp) ''saml'') ''saml''"
  shows "\<exists>i. generate_id rnd = Inr i \<and>
    app_get (t_slug t) i d' = Inr ((new_application inp)\<lparr>a_id := i, a_tenant_slug := t_slug t,
      a_created_at := now, a_updated_at := now\<rparr>) \<and>
    get_saml_config (t_slug t) i d' = Inr (created_saml_config (ci_saml inp)) \<and>
    out = \<lparr>ao_application = (new_application inp)\<lparr>a_id := i, a_tenant_slug := t_slug t,
             a_created_at := now, a_updated_at := now\<rparr>,
           ao_saml = Some (created_saml_config (ci_saml inp)), ao_oidc = None, ao_client_secret = []\<rparr>"
proof -
  let ?app = "new_application inp"
  have proto: "a_protocol ?app = set_string_default (ci_protocol inp) ''saml''"
    by (simp add: new_application_def)
  have is_saml: "equal_fold (a_protocol ?app) ''saml''"
    unfolding proto by (rule saml)
  have none: "(case ci_oidc inp of
      Some oi \<Rightarrow> if stores_oidc (a_protocol ?app) (ci_oidc inp)
                 then store_created_oidc srnd (t_slug t) i oi d1 else (Inr [], d1)
    | None \<Rightarrow> (Inr [], d1)) = (Inr [], d1)" for i d1
    using saml_not_oidc [OF is_saml] by (simp add: stores_oidc_def split: option.split)
  obtain i d1 secret d2 created where cr: "app_create rnd now (t_slug t) ?app
      (Some (created_saml_config (ci_saml inp))) d = (Inr i, d1)"
    and sd: "(Inr [], d1) = (Inr secret :: string api, d2)" and d': "d' = mapped (t_slug t) i inp d2"
    and get: "app_get (t_slug t) i d' = Inr created"
    and out: "out = app_output_of (t_slug t) i created True (equal_fold (a_protocol created) ''oidc'') secret d'"
    using create_application_ok [OF cx c] unfolding none if_P [OF is_saml] by (auto simp: is_saml)
  have d2: "d2 = d1" "secret = []" using sd by simp_all
  let ?a = "?app\<lparr>a_id := i, a_tenant_slug := t_slug t, a_created_at := now, a_updated_at := now\<rparr>"
  note row = app_create_ok [OF cr rnd slug]
  have nf': "\<forall>op. \<not> fault d' op"
    using row nf by (simp add: d' d2)
  have g: "app_get (t_slug t) i d' = Inr ?a"
    using row app_get_row_at [OF _ nf', of "t_slug t" i] by (simp add: d' d2)
  moreover have sc: "get_saml_config (t_slug t) i d' = Inr (created_saml_config (ci_saml inp))"
    using row nf' get_saml_config_at [of d' "t_slug t" i
      "cfg_row (tenant_pk (t_slug t)) (app_saml_sk i) (SamlItem (created_saml_config (ci_saml inp)))"]
    by (simp add: d' d2 cfg_row_def)
  ultimately show ?thesis
    using row get out d2 saml by (simp add: app_output_of_def ignoring_error_def proto)
qed

text \<open>C38: Reading back a SAML application that was created, with a working backend, returns exactly
  what the create answered: the application as requested under its new id and the requested
  settings with the defaults filled in, whatever mappings were stored with it.\<close>

theorem saml_create_roundtrip:
  assumes "cx_tenant cx = Some t" and "no_hash (t_slug t)" and "rnd_ok rnd" and "\<forall>op. \<not> fault d op"
    and "create_application now rnd srnd cx inp d = (Inr out, d')"
    and "equal_fold (set_string_default (ci_protocol inp) ''saml'') ''saml''"
  shows "get_application cx (a_id (ao_application out)) d' = (Inr out, d') \<and>
    ao_saml out = Some (created_saml_config (ci_saml inp)) \<and>
    a_display_name (ao_application out) = ci_display_name inp \<and> a_status (ao_application out) = ''active''"
proof -
  have proto: "a_protocol (new_application inp) = set_string_default (ci_protocol inp) ''saml''"
    by (simp add: new_application_def)
  show ?thesis
    using saml_created [OF assms] assms(1,6)
    by (auto simp: get_application_def with_slug_def tenant_slug_from_context_def or_404_def
        app_output_of_def ignoring_error_def proto) (simp_all add: new_application_def)
qed

lemma saml_create_roundtrip_witness:
  "\<exists>out d'. demo_create demo_saml_app = (Inr out, d') \<and>
     get_application demo_cx (a_id (ao_application out)) d' = (Inr out, d')"
  using demo_created(1) saml_create_roundtrip [OF demo_tenant(1,2) demo_draws(1) booted_fault _ demo_protocol(1)]
  unfolding demo_create_def by blast

text \<open>A canonical format is a URN or an unknown text, never one of the short codes the validator knows.\<close>

lemma short_key:
  "map_of name_id_format_by_key ''email'' = Some nif_email"
  "map_of name_id_format_by_key ''persistent'' = Some nif_persistent"
  "map_of name_id_format_by_key ''transient'' = Some nif_transient"
  "map_of name_id_format_by_key ''unspecified'' = Some nif_unspecified"
  by (simp_all add: name_id_format_by_key_def)

lemma short_lower:
  "to_lower (trim_space ''email'') = ''email''" "to_lower (trim_space ''persistent'') = ''persistent''"
  "to_lower (trim_space ''transient'') = ''transient''"
  "to_lower (trim_space ''unspecified'') = ''unspecified''"
  by code_simp+

lemma canonical_short:
  "canonical_name_id_format [] = nif_unspecified"
  "canonical_name_id_format ''email'' = nif_email"
  "canonical_name_id_format ''persistent'' = nif_persistent"
  "canonical_name_id_format ''transient'' = nif_transient"
  "canonical_name_id_format ''unspecified'' = nif_unspecified"
  by (simp_all only: canonical_name_id_format_def short_lower short_key Let_def option.case trim_space_Nil
      list.distinct if_False) (simp add: to_lower_def)

lemma urn_not_short:
  "nif_unspecified \<noteq> []" "nif_email \<noteq> ''email''" "nif_persistent \<noteq> ''persistent''"
  "nif_transient \<noteq> ''transient''" "nif_unspecified \<noteq> ''unspecified''"
  by (simp_all add: nif_defs)

lemma fixpoint_avoids: "f (f v) = f v \<Longrightarrow> list_all (\<lambda>k. f k \<noteq> k) ks \<Longrightarrow> f v \<notin> set ks"
  by (auto simp: list_all_iff)

lemma canonical_not_known:
  "canonical_name_id_format v \<noteq> [] \<and> canonical_name_id_format v \<notin> set known_name_id_formats"
proof -
  have "canonical_name_id_format v \<notin> set ([] # known_name_id_formats)"
    by (rule fixpoint_avoids)
      (use canonical_name_id_format_idem [of v] in blast,
       simp only: known_name_id_formats_def list.pred_inject canonical_short urn_not_short simp_thms)
  then show ?thesis by simp
qed

text \<open>The validation endpoint never accepts a SAML application that was created through the API:
  creation stores the format of the subject as a URN, which the validator does not know, so it
  reports an unrecognized format for every such application.\<close>

lemma created_never_valid:
  assumes "cx_tenant cx = Some t" and "no_hash (t_slug t)" and "rnd_ok rnd" and "\<forall>op. \<not> fault d op"
    and "create_application now rnd srnd cx inp d = (Inr out, d')"
    and "equal_fold (set_string_default (ci_protocol inp) ''saml'') ''saml''"
  shows "\<exists>errors warnings.
    validate_application read_cert later cx (a_id (ao_application out)) d' = (Inr (False, errors, warnings), d') \<and>
    ''unrecognized nameIdFormat'' \<in> set errors"
proof -
  let ?c = "created_saml_config (ci_saml inp)"
  have proto: "a_protocol (new_application inp) = set_string_default (ci_protocol inp) ''saml''"
    by (simp add: new_application_def)
  obtain errs warns where v: "validate_saml_config read_cert later ?c = (errs, warns)" by fastforce
  have "sc_name_id_format ?c \<noteq> [] \<and> sc_name_id_format ?c \<notin> set known_name_id_formats"
    using canonical_not_known by (simp add: created_saml_config_def input_saml_config_def Let_def)
  then have "''unrecognized nameIdFormat'' \<in> set (fst (validate_saml_config read_cert later ?c))"
    by (simp add: validate_saml_config_def Let_def)
  then have err: "''unrecognized nameIdFormat'' \<in> set errs" "errs \<noteq> []" by (auto simp: v)
  have "validate_application read_cert later cx (a_id (ao_application out)) d' = (Inr (False, errs, warns), d')"
    using saml_created [OF assms] assms(1,6) err v
    by (auto simp: validate_application_def with_slug_def tenant_slug_from_context_def or_404_def or_500_def
        Let_def proto)
  then show ?thesis using err by blast
qed

lemma created_never_valid_witness:
  "\<exists>out d' errors warnings. demo_create demo_saml_app = (Inr out, d') \<and>
     validate_application (\<lambda>_. None) 9 demo_cx (a_id (ao_application out)) d' =
       (Inr (False, errors, warnings), d')"
  using demo_created(1) created_never_valid [OF demo_tenant(1,2) demo_draws(1) booted_fault _ demo_protocol(1)]
  unfolding demo_create_def by blast

subsection \<open>OpenID clients\<close>

lemma app_create_client:
  assumes "app_create rnd now slug app None d = (Inr i, d')" and "rnd_ok rnd"
  shows "generate_id rnd = Inr i \<and> no_hash i \<and> i \<noteq> [] \<and> fault d' = fault d \<and>
    lookup d' (mkey (tenant_pk slug) (app_sk i)) = Some (app_row (tenant_pk slug) (app_sk i)
      (''CLIENTID#'' @ i) (tenant_pk slug) []
      (app\<lparr>a_id := i, a_tenant_slug := slug, a_created_at := now, a_updated_at := now\<rparr>))"
proof -
  have g: "generate_id rnd = Inr i"
    and p: "db_put (app_row (tenant_pk slug) (app_sk i) (''CLIENTID#'' @ i) (tenant_pk slug) []
      (app\<lparr>a_id := i, a_tenant_slug := slug, a_created_at := now, a_updated_at := now\<rparr>)) d = (Inr (), d')"
    using assms(1) by (auto simp: app_create_def Let_def split: sum.splits prod.splits)
  have "fault d' = fault d"
    using p db_put_fault by (metis snd_conv)
  then show ?thesis
    using g generate_id_ok [OF g assms(2)] db_put_ok [OF p, of "mkey (tenant_pk slug) (app_sk i)"]
    by (simp add: app_row_def row_key_def)
qed

lemma update_oidc_config_Inr:
  assumes "update_oidc_config slug i c d = (Inr u, d')"
  shows "fault d' = fault d \<and>
    lookup d' (mkey (tenant_pk slug) (app_oidc_sk i)) = Some (cfg_row (tenant_pk slug) (app_oidc_sk i) (OidcItem c)) \<and>
    lookup d' (mkey (tenant_pk slug) (app_sk i)) = lookup d (mkey (tenant_pk slug) (app_sk i))"
proof -
  have p: "db_put (cfg_row (tenant_pk slug) (app_oidc_sk i) (OidcItem c)) d = (Inr (), d')"
    using assms by (auto simp: update_oidc_config_def split: sum.splits prod.splits)
  have "fault d' = fault d"
    using p db_put_fault by (metis snd_conv)
  then show ?thesis
    using db_put_ok [OF p, of "mkey (tenant_pk slug) (app_oidc_sk i)"]
      db_put_ok [OF p, of "mkey (tenant_pk slug) (app_sk i)"]
    by (simp add: cfg_row_def row_key_def key_simps) (simp add: sk_defs)
qed

text \<open>The settings a create stores for a client, and the secret it returns.\<close>

lemma store_created_oidc_Inr:
  assumes "store_created_oidc srnd slug i oi d = (Inr secret, d')" and "secret_ok srnd"
  shows "\<exists>c u. update_oidc_config slug i c d = (Inr u, d') \<and> oc_client_secret c = secret \<and>
    oc_token_endpoint_auth_method c = oi_token_endpoint_auth_method oi \<and>
    (secret \<noteq> [] \<longleftrightarrow> is_confidential_auth_method (oi_token_endpoint_auth_method oi))"
proof (cases "is_confidential_auth_method (oi_token_endpoint_auth_method oi)")
  case True
  then have "is_confidential_auth_method (oc_token_endpoint_auth_method (input_oidc_config oi))"
    by (simp add: input_oidc_config_def)
  then obtain s u where s: "generate_client_secret srnd = Inr s" "secret = s"
    and u: "update_oidc_config slug i ((input_oidc_config oi)\<lparr>oc_client_secret := s\<rparr>) d = (Inr u, d')"
    using assms(1) by (auto simp: store_created_oidc_def Let_def or_500_Inr)
  then show ?thesis
    using True client_secret_nonempty [OF s(1) assms(2)]
    by (intro exI [of _ "(input_oidc_config oi)\<lparr>oc_client_secret := s\<rparr>"] exI [of _ u])
       (simp add: input_oidc_config_def)
next
  case False
  then show ?thesis
    using assms(1)
    by (intro exI [of _ "input_oidc_config oi"])
       (auto simp: store_created_oidc_def Let_def or_500_Inr input_oidc_config_def)
qed

text \<open>The index finds a client when no other row carries its id.\<close>

lemma client_gsi_single:
  assumes inv: "store_inv d" and nf: "\<forall>op. \<not> fault d op"
    and r: "lookup d k = Some r" "r_gsi1pk r = Some (''CLIENTID#'' @ i)"
    and only: "\<And>k' r'. lookup d k' = Some r' \<Longrightarrow> r_gsi1pk r' = Some (''CLIENTID#'' @ i) \<Longrightarrow> k' = k"
  shows "gsi_or_empty (''CLIENTID#'' @ i) d = Inr [r]"
proof -
  have wf: "db_wf d" using inv by (simp add: store_inv_def cfg_inv_def)
  obtain rs where rs: "db_query_gsi (''CLIENTID#'' @ i) d = Inr rs"
    using nf by (auto simp: db_query_gsi_def)
  have "r \<in> set rs"
    using db_query_gsi_set [OF wf rs] r lookup_row_key [OF wf r(1)] by auto
  moreover have "r' = r" if "r' \<in> set rs" for r'
    using db_query_gsi_set [OF wf rs] that only [of "row_key r'" r'] r(1) by auto
  ultimately have "rs = [r]"
    by (rule distinct_singleton [OF db_query_gsi_distinct [OF wf rs]])
  then show ?thesis using rs by (simp add: gsi_or_empty_def)
qed

lemma client_gsi_row:
  assumes "store_inv d" and "lookup d k = Some r" and "r_gsi1pk r = Some (''CLIENTID#'' @ i)"
  shows "k = mkey (tenant_pk (row_slug r)) (app_sk i) \<and> no_hash (row_slug r)"
proof -
  have inv: "cfg_inv d" "app_inv d" using assms(1) by (simp_all add: store_inv_def)
  have ok: "cfg_row_ok r" "k = row_key r" using cfg_inv_row [OF inv(1) assms(2)] by auto
  then obtain e a where a: "r_item r = AppItem e a"
    using assms(3) by (cases "r_item r") (auto simp: cfg_row_ok_def)
  have "a_id a = i"
    using app_invD [OF inv(2) assms(2) a] assms(3) by (auto simp: gsi_ok_def entity_gsi_pk_def)
  then show ?thesis
    using ok a by (auto simp: cfg_row_ok_def item_ok_def row_key_def)
qed

lemma oidc_not_saml: "equal_fold p ''oidc'' \<Longrightarrow> \<not> equal_fold p ''saml''"
  using saml_not_oidc by blast

lemma oidc_created:
  assumes cx: "cx_tenant cx = Some t" and slug: "no_hash (t_slug t)" and rnd: "rnd_ok rnd" "secret_ok srnd"
    and nf: "\<forall>op. \<not> fault d op"
    and c: "create_application now rnd srnd cx inp d = (Inr out, d')"
    and oidc: "equal_fold (set_string_default (ci_protocol inp) ''saml'') ''oidc''"
    and oi: "ci_oidc inp = Some oi" "oi_redirect_uris oi \<noteq> []"
  shows "\<exists>i r cfg. generate_id rnd = Inr i \<and> no_hash i \<and> a_id (ao_application out) = i \<and> (\<forall>op. \<not> fault d' op) \<and>
    lookup d' (mkey (tenant_pk (t_slug t)) (app_sk i)) = Some r \<and> r_gsi1pk r = Some (''CLIENTID#'' @ i) \<and>
    r_gsi1sk r = tenant_pk (t_slug t) \<and>
    r_item r = AppItem [] ((new_application inp)\<lparr>a_id := i, a_tenant_slug := t_slug t,
      a_created_at := now, a_updated_at := now\<rparr>) \<and>
    get_oidc_config (t_slug t) i d' = Inr cfg \<and> oc_client_secret cfg = ao_client_secret out \<and>
    oc_token_endpoint_auth_method cfg = oi_token_endpoint_auth_method oi \<and>
    (oc_client_secret cfg \<noteq> [] \<longleftrightarrow> is_confidential_auth_method (oi_token_endpoint_auth_method oi))"
proof -
  let ?app = "new_application inp"
  let ?slug = "t_slug t"
  have proto: "equal_fold (a_protocol ?app) ''oidc''"
    using oidc by (simp add: new_application_def)
  have st: "stores_oidc (a_protocol ?app) (Some oi)"
    using proto oi by (simp add: stores_oidc_def)
  obtain i d1 secret d2 created where cr: "app_create rnd now ?slug ?app None d = (Inr i, d1)"
    and so: "store_created_oidc srnd ?slug i oi d1 = (Inr secret, d2)"
    and d': "d' = mapped ?slug i inp d2" and get: "app_get ?slug i d' = Inr created"
    and out: "out = app_output_of ?slug i created False (equal_fold (a_protocol created) ''oidc'') secret d'"
    using create_application_ok [OF cx c] oidc_not_saml [OF proto] st oi(1) by auto
  obtain cfg where cfg: "update_oidc_config ?slug i cfg d1 = (Inr (), d2)" "oc_client_secret cfg = secret"
    "oc_token_endpoint_auth_method cfg = oi_token_endpoint_auth_method oi"
    "secret \<noteq> [] \<longleftrightarrow> is_confidential_auth_method (oi_token_endpoint_auth_method oi)"
    using store_created_oidc_Inr [OF so rnd(2)] by auto
  let ?a = "?app\<lparr>a_id := i, a_tenant_slug := ?slug, a_created_at := now, a_updated_at := now\<rparr>"
  let ?r = "app_row (tenant_pk ?slug) (app_sk i) (''CLIENTID#'' @ i) (tenant_pk ?slug) [] ?a"
  have i: "generate_id rnd = Inr i" "no_hash i" and f1: "fault d1 = fault d"
    and l1: "lookup d1 (mkey (tenant_pk ?slug) (app_sk i)) = Some ?r"
    using app_create_client [OF cr rnd(1)] by blast+
  note u = update_oidc_config_Inr [OF cfg(1)]
  have nf': "\<forall>op. \<not> fault d' op"
    using f1 u nf by (simp add: d')
  have row: "lookup d' (mkey (tenant_pk ?slug) (app_sk i)) = Some ?r"
    using l1 u by (simp add: d')
  then have "created = ?a"
    using app_get_row_at [OF row nf'] get by simp
  moreover have "get_oidc_config ?slug i d' = Inr cfg"
    using u nf' by (simp add: d' get_oidc_config_def get_as_def db_get_def as_oidc_def cfg_row_def)
  ultimately show ?thesis
    using i nf' row cfg out
    by (intro exI [of _ i] exI [of _ ?r] exI [of _ cfg]) (simp add: app_output_of_def app_row_def)
qed

text \<open>C39: An OpenID client created through the API, with a fresh id and at least one redirect address,
  authenticates at the token endpoint with exactly the secret the create returned when its method is
  confidential, and without one when its method is the text \<^verbatim>\<open>none\<close>; with any other method, the empty
  one included, no secret is generated and the client never authenticates.\<close>

theorem created_client_authenticates:
  assumes "api_reach d" and "cx_tenant cx = Some t" and "no_hash (t_slug t)" and "rnd_ok rnd"
    and "secret_ok srnd" and "\<forall>op. \<not> fault d op"
    and "create_application now rnd srnd cx inp d = (Inr out, d')"
    and "equal_fold (set_string_default (ci_protocol inp) ''saml'') ''oidc''"
    and "ci_oidc inp = Some oi" and "oi_redirect_uris oi \<noteq> []"
    and fresh: "\<forall>k r i. lookup d k = Some r \<longrightarrow> generate_id rnd = Inr i \<longrightarrow> r_gsi1pk r \<noteq> Some (''CLIENTID#'' @ i)"
    and issuer: "tenant_slug_from_issuer issuer \<in> {[], t_slug t}"
  shows "authorize_client_id_secret issuer d' (a_id (ao_application out)) secret = Inr () \<longleftrightarrow>
    oi_token_endpoint_auth_method oi = ''none'' \<or>
    (is_confidential_auth_method (oi_token_endpoint_auth_method oi) \<and> secret = ao_client_secret out)"
proof -
  let ?slug = "t_slug t"
  obtain i r cfg where i: "generate_id rnd = Inr i" "no_hash i" "a_id (ao_application out) = i"
    and nf: "\<forall>op. \<not> fault d' op"
    and r: "lookup d' (mkey (tenant_pk ?slug) (app_sk i)) = Some r" "r_gsi1pk r = Some (''CLIENTID#'' @ i)"
      "r_gsi1sk r = tenant_pk ?slug"
      "r_item r = AppItem [] ((new_application inp)\<lparr>a_id := i, a_tenant_slug := ?slug,
        a_created_at := now, a_updated_at := now\<rparr>)"
    and cfg: "get_oidc_config ?slug i d' = Inr cfg" "oc_client_secret cfg = ao_client_secret out"
      "oc_token_endpoint_auth_method cfg = oi_token_endpoint_auth_method oi"
      "oc_client_secret cfg \<noteq> [] \<longleftrightarrow> is_confidential_auth_method (oi_token_endpoint_auth_method oi)"
    using oidc_created [OF assms(2-10)] by blast
  have h: "handled ?slug d d'"
    using create_application_handled [OF assms(2,3) conjunct1 [OF api_reach_ok [OF assms(1)]] assms(4,5), of now inp]
      assms(7) by simp
  have only: "k' = mkey (tenant_pk ?slug) (app_sk i)"
    if k': "lookup d' k' = Some r'" "r_gsi1pk r' = Some (''CLIENTID#'' @ i)" for k' r'
  proof -
    have at: "k' = mkey (tenant_pk (row_slug r')) (app_sk i)" "no_hash (row_slug r')"
      using client_gsi_row [OF handledD(3) [OF h] k'] by auto
    have "in_partition (tenant_pk ?slug) k'"
      using pwrites_frame [OF handledD(4) [OF h], of k'] k' fresh i(1) by fastforce
    then obtain x where "k' = mkey (tenant_pk ?slug) x"
      by (auto simp: in_partition_def has_prefix_iff mkey_def)
    then show ?thesis
      using at mkey_tenant_inject [OF at(2) assms(3)] by simp
  qed
  have gsi: "gsi_or_empty (''CLIENTID#'' @ i) d' = Inr [r]"
    by (rule client_gsi_single [OF handledD(3) [OF h] nf r(1,2) only])
  have ne: "i \<noteq> []"
    using generate_id_ok [OF i(1) assms(4)] by auto
  have "app_get ?slug i d' = Inr ((new_application inp)\<lparr>a_id := i, a_tenant_slug := ?slug,
      a_created_at := now, a_updated_at := now\<rparr>)"
    using app_get_at [OF r(1,4)] nf by simp
  then have found: "get_by_client_id i d' = Inr (?slug, (new_application inp)\<lparr>a_id := i, a_tenant_slug := ?slug,
      a_created_at := now, a_updated_at := now\<rparr>, Some cfg)"
    using gsi r cfg(1) ne
    by (simp add: get_by_client_id_def row_app_id_def as_app_def tenant_pk_def has_prefix_iff Let_def)
  have active: "a_status ((new_application inp)\<lparr>a_id := i, a_tenant_slug := ?slug, a_created_at := now,
      a_updated_at := now\<rparr>) = ''active''"
    by (simp add: new_application_def)
  show ?thesis
    using issuer active cfg(2-4) unfolding i(3)
    by (auto simp: authorize_client_id_secret_def get_client_by_client_id_def client_auth_method_def Let_def found
        split: if_splits)
qed

lemma booted_fresh:
  "\<forall>k r i. lookup booted k = Some r \<longrightarrow> generate_id rnd = Inr i \<longrightarrow> r_gsi1pk r \<noteq> Some (''CLIENTID#'' @ i)"
proof -
  have "list_all (\<lambda>kr. r_gsi1pk (snd kr) = None) (data booted)" by code_simp
  then have "r_gsi1pk r = None" if "lookup booted k = Some r" for k r
    using in_data_lookup [of booted k r] api_reach_inv [OF booted_reach] that
    by (auto simp: list_all_iff cfg_inv_def)
  then show ?thesis by fastforce
qed

lemma created_client_authenticates_witness:
  "\<exists>out d'. demo_create (demo_oidc_app ''client_secret_basic'') = (Inr out, d') \<and>
     authorize_client_id_secret [] d' (a_id (ao_application out)) (ao_client_secret out) = Inr () \<and>
     authorize_client_id_secret [] d' (a_id (ao_application out)) ''guess'' \<noteq> Inr ()"
proof -
  obtain out d' where c: "demo_create (demo_oidc_app ''client_secret_basic'') = (Inr out, d')"
    and s: "ao_client_secret out = concat (map hex_byte (replicate 32 1))"
    using demo_created(2) by blast
  have iff: "authorize_client_id_secret [] d' (a_id (ao_application out)) secret = Inr () \<longleftrightarrow>
    ''client_secret_basic'' = ''none'' \<or>
    (is_confidential_auth_method ''client_secret_basic'' \<and> secret = ao_client_secret out)" for secret
    using created_client_authenticates [OF booted_reach demo_tenant(1,2) demo_draws booted_fault
        c [unfolded demo_create_def] demo_protocol(2-4) booted_fresh, of "[]" secret]
    by (simp add: demo_protocol tenant_slug_from_issuer_def)
  have "is_confidential_auth_method ''client_secret_basic''"
    "concat (map hex_byte (replicate 32 1)) \<noteq> ''guess''" by code_simp+
  then show ?thesis
    using c s iff by simp
qed

subsection \<open>The management API and the store\<close>



end
