(* ===== verification/Onboarding.thy ===== *)
theory Onboarding
  imports ApiTypes AuditStore Codec
begin

text \<open>
  \<^verbatim>\<open>internal/service/onboarding\<close>: the six steps of the onboarding wizard over the tenants, the identity
  sources, the wizard's own row and the audit trail, and the seven endpoints of
  \<^verbatim>\<open>internal/api/onboarding_handlers.go\<close>. The renderer and the publisher of the templates, the role
  assumption and the policy simulator are fields of the service, absent or a function; so are the
  random bytes and the clock of a call.
\<close>

subsection \<open>The service\<close>

record renderer_input =
  ri_tenant_slug :: string
  ri_external_id :: string
  ri_saas_account_id :: string
  ri_saas_principal_name :: string
  ri_region :: string
  ri_want_user_directory :: bool
  ri_want_user_lifecycle :: bool

text \<open>The decisions of a simulation: the role, the actions, the resources; an absent entry is false.\<close>

type_synonym capability_prober = "string \<Rightarrow> string list \<Rightarrow> string list \<Rightarrow> (string \<Rightarrow> bool) res"

record 'c onb_service =
  ob_has_sources :: bool
  ob_renderer :: "(string \<Rightarrow> renderer_input \<Rightarrow> string res) option"
  ob_publisher :: "(string \<Rightarrow> string \<Rightarrow> string \<Rightarrow> string res) option"
  ob_sts_assumer :: "(identity_source \<Rightarrow> 'c res) option"
  ob_prober_factory :: "('c \<Rightarrow> capability_prober) option"
  ob_saas_account_id :: string
  ob_saas_principal_name :: string
  ob_region :: string
  ob_allow_unprobed_capabilities :: bool

text \<open>The tables a step acts on, and what it draws from outside.\<close>

record onb_world =
  ow_cfg :: cfg_db
  ow_ses :: ses_db
  ow_audit :: audit_state

record onb_draws =
  od_now :: gotime
  od_rnd :: "8 word list option"
  od_step :: "8 word list option"
  od_scoped_reversed :: bool

definition step_create_tenant :: int where "step_create_tenant = 1"
definition step_capabilities :: int where "step_capabilities = 2"
definition step_iac :: int where "step_iac = 3"
definition step_identity :: int where "step_identity = 4"
definition step_probe :: int where "step_probe = 5"

lemmas wizard_steps = step_create_tenant_def step_capabilities_def step_iac_def step_identity_def step_probe_def

subsection \<open>Calls\<close>

text \<open>A call of a store on its table, a call whose error is returned, and one whose error is wrapped.\<close>

definition on_cfg :: "(cfg_db \<Rightarrow> 'a res \<times> cfg_db) \<Rightarrow> onb_world \<Rightarrow> 'a res \<times> onb_world" where
  "on_cfg f w = (let p = f (ow_cfg w) in (fst p, w\<lparr>ow_cfg := snd p\<rparr>))"

definition on_ses :: "(ses_db \<Rightarrow> 'a res \<times> ses_db) \<Rightarrow> onb_world \<Rightarrow> 'a res \<times> onb_world" where
  "on_ses f w = (let p = f (ow_ses w) in (fst p, w\<lparr>ow_ses := snd p\<rparr>))"

definition and_then ::
  "'a res \<times> onb_world \<Rightarrow> ('a \<Rightarrow> onb_world \<Rightarrow> 'b res \<times> onb_world) \<Rightarrow> 'b res \<times> onb_world" where
  "and_then p k = (case p of (Inl e, w) \<Rightarrow> (Inl e, w) | (Inr x, w) \<Rightarrow> k x w)"

definition failing_as :: "string \<Rightarrow> 'a res \<times> onb_world \<Rightarrow> 'a res \<times> onb_world" where
  "failing_as m p = (wrap_res m (fst p), snd p)"

definition flow_id_of :: "string \<Rightarrow> string" where
  "flow_id_of slug = ''onboarding-'' @ slug"

text \<open>The audit trail: an entry that cannot be written is only logged.\<close>

definition audited ::
  "onb_draws \<Rightarrow> string \<Rightarrow> string \<Rightarrow> string \<Rightarrow> (string \<times> string) list \<Rightarrow> onb_world \<Rightarrow> onb_world" where
  "audited dw slug ty user payload w =
     w\<lparr>ow_audit := snd (log_step (od_now dw) (od_step dw) slug (flow_id_of slug) ty [] user payload (ow_audit w))\<rparr>"

text \<open>\<^verbatim>\<open>%v\<close> of a list of packs and of a capability map, whose keys Go prints in order.\<close>

definition joined :: "string list \<Rightarrow> string" where
  "joined xs = (case xs of [] \<Rightarrow> [] | y # ys \<Rightarrow> y @ concat (map (\<lambda>z. '' '' @ z) ys))"

definition show_packs :: "string list \<Rightarrow> string" where
  "show_packs packs = ''['' @ joined packs @ '']''"

subsection \<open>Capability packs\<close>

definition pack_core :: string where "pack_core = ''core''"
definition pack_user_directory :: string where "pack_user_directory = ''user_directory''"
definition pack_user_lifecycle :: string where "pack_user_lifecycle = ''user_lifecycle''"

lemmas pack_defs = pack_core_def pack_user_directory_def pack_user_lifecycle_def

definition allowed_packs :: "string list" where
  "allowed_packs = [pack_core, pack_user_directory, pack_user_lifecycle]"

definition show_capability_map :: "(string \<times> bool) list \<Rightarrow> string" where
  "show_capability_map m =
     ''map['' @ joined (List.map_filter (\<lambda>p. map_option (\<lambda>b. p @ '':'' @ (if b then ''true'' else ''false''))
                 (map_of m p)) allowed_packs) @ '']''"

definition normalize_packs :: "string list \<Rightarrow> string list res" where
  "normalize_packs packs =
     (if \<exists>p\<in>set packs. p \<notin> set allowed_packs then Inl (ErrMsg ''onboarding: unknown capability pack'')
      else Inr (pack_core # filter (\<lambda>p. p \<in> set packs) [pack_user_directory, pack_user_lifecycle]))"

definition pack_actions :: "string \<Rightarrow> string list option" where
  "pack_actions pack =
     (if pack = pack_core then Some
        [''cognito-idp:DescribeUserPool'', ''cognito-idp:DescribeUserPoolClient'',
         ''cognito-idp:DescribeUserPoolDomain'', ''cognito-idp:ListIdentityProviders'']
      else if pack = pack_user_directory then Some
        [''cognito-idp:ListUsers'', ''cognito-idp:AdminGetUser'', ''cognito-idp:ListGroups'',
         ''cognito-idp:ListUsersInGroup'', ''cognito-idp:AdminListGroupsForUser'']
      else if pack = pack_user_lifecycle then Some
        [''cognito-idp:AdminCreateUser'', ''cognito-idp:AdminDisableUser'', ''cognito-idp:AdminEnableUser'',
         ''cognito-idp:AdminAddUserToGroup'', ''cognito-idp:AdminRemoveUserFromGroup'',
         ''cognito-idp:AdminResetUserPassword'', ''cognito-idp:CreateGroup'']
      else None)"

definition scoped_actions_for_core :: "identity_source \<Rightarrow> (string \<times> string list) list" where
  "scoped_actions_for_core src =
     [(''secretsmanager:GetSecretValue'', [s_secret_arn src]), (''kms:Decrypt'', [''*''])]"

definition all_allowed :: "(string \<Rightarrow> bool) \<Rightarrow> string list \<Rightarrow> bool" where
  "all_allowed decisions actions = list_all decisions actions"

subsection \<open>Step 1: the tenant\<close>

definition valid_slug :: "string \<Rightarrow> bool" where
  "valid_slug s \<longleftrightarrow>
     (case s of
        [] \<Rightarrow> False
      | c # cs \<Rightarrow> c \<in> set ''abcdefghijklmnopqrstuvwxyz'' \<and> 2 \<le> length cs \<and> length cs \<le> 30 \<and>
          set cs \<subseteq> set ''abcdefghijklmnopqrstuvwxyz0123456789-'')"

record wizard_tenant =
  wt_slug :: string
  wt_display_name :: string
  wt_domain :: string
  wt_created_by :: string

definition pending_tenant :: "wizard_tenant \<Rightarrow> tenant" where
  "pending_tenant inp =
     \<lparr>t_slug = wt_slug inp, t_display_name = wt_display_name inp, t_plan = ''standard'',
      t_domain = wt_domain inp, t_status = ''active'', t_max_apps = 10, t_max_auths_per_month = 10000,
      t_kms_key_id = [], t_kms_key_arn = [], t_created_at = zero_time, t_updated_at = zero_time,
      t_default_session_duration_sec = 0, t_default_sign_response = False,
      t_default_sign_assertion = False, t_default_name_id_format = [],
      t_default_id_token_lifetime_sec = 0, t_default_access_token_lifetime_sec = 0,
      t_default_scopes = [], t_onboarding_state = ''pending'', t_capability_map = []\<rparr>"

definition initial_wizard :: "string \<Rightarrow> onboarding_state" where
  "initial_wizard slug =
     \<lparr>os_tenant_slug = slug, os_current_step = step_create_tenant, os_capabilities = [], os_external_id = [],
      os_iac_version = 0, os_capability_map = [], os_updated_at = zero_time\<rparr>"

definition wizard_create_tenant ::
  "onb_draws \<Rightarrow> wizard_tenant \<Rightarrow> onb_world \<Rightarrow> onboarding_state res \<times> onb_world" where
  "wizard_create_tenant dw inp w =
     (if \<not> valid_slug (wt_slug inp) then (Inl (ErrMsg ''onboarding: invalid slug''), w)
      else if wt_display_name inp = [] then (Inl (ErrMsg ''onboarding: displayName is required''), w)
      else
        and_then (failing_as ''onboarding: create tenant''
                   (on_cfg (tenant_create (od_now dw) (pending_tenant inp)) w)) (\<lambda>_ w1.
        let st = initial_wizard (wt_slug inp) in
        and_then (failing_as ''onboarding: init state''
                   (on_ses (onboarding_put (od_now dw) (Some st)) w1)) (\<lambda>_ w2.
          (Inr (st\<lparr>os_updated_at := od_now dw\<rparr>),
           audited dw (wt_slug inp) ''onboarding.tenant_created'' (wt_created_by inp)
             [(''tenant'', wt_slug inp)] w2))))"

subsection \<open>Step 2: the packs\<close>

definition set_capabilities ::
  "onb_draws \<Rightarrow> string \<Rightarrow> string list \<Rightarrow> onb_world \<Rightarrow> unit res \<times> onb_world" where
  "set_capabilities dw slug packs w =
     and_then (failing_as ''onboarding: no state'' (onboarding_get slug (ow_ses w), w)) (\<lambda>st w1.
       if os_current_step st \<ge> step_identity
       then (Inl (ErrMsg ''onboarding: cannot change capabilities after identity is registered''), w1)
       else and_then (normalize_packs packs, w1) (\<lambda>normalized w2.
         and_then (failing_as ''onboarding: persist capabilities''
             (on_ses (onboarding_put (od_now dw)
               (Some (st\<lparr>os_capabilities := normalized, os_current_step := step_capabilities\<rparr>))) w2)) (\<lambda>_ w3.
           (Inr (), audited dw slug ''onboarding.capabilities_selected'' []
              [(''packs'', show_packs normalized)] w3))))"

subsection \<open>Step 3: the template\<close>

text \<open>Base32 without padding: the bits of the bytes in groups of five, the last one filled with zeros.\<close>

definition byte_bits :: "8 word \<Rightarrow> bool list" where
  "byte_bits b = map (bit b) [7, 6, 5, 4, 3, 2, 1, 0]"

definition base32_digit :: "bool list \<Rightarrow> char" where
  "base32_digit bs =
     ''ABCDEFGHIJKLMNOPQRSTUVWXYZ234567'' ! foldl (\<lambda>n b. 2 * n + of_bool b) 0 (take 5 (bs @ replicate 4 False))"

fun base32_groups :: "bool list \<Rightarrow> string" where
  "base32_groups [] = []"
| "base32_groups (b # bs) = base32_digit (b # bs) # base32_groups (drop 4 bs)"

definition base32_encode :: "8 word list \<Rightarrow> string" where
  "base32_encode bytes = base32_groups (concat (map byte_bits bytes))"

definition generate_external_id :: "8 word list option \<Rightarrow> string res" where
  "generate_external_id rnd =
     (case rnd of
        None \<Rightarrow> Inl (Wrap ''onboarding: generate ExternalID'' (ErrMsg ''rand''))
      | Some bytes \<Rightarrow> Inr (base32_encode bytes))"

record iac_artifact =
  ia_format :: string
  ia_external_id :: string
  ia_bytes :: string
  ia_download_url :: string
  ia_quick_create_url :: string

definition build_quick_create_url :: "string \<Rightarrow> string \<Rightarrow> string \<Rightarrow> string \<Rightarrow> string" where
  "build_quick_create_url region slug template_url external_id =
     ''https://'' @ region @ ''.console.aws.amazon.com/cloudformation/home?region='' @ region @
     ''#/stacks/quickCreate?templateURL='' @ query_escape template_url @
     ''&stackName=identity-gateway-'' @ slug @ ''&param_ExternalId='' @ query_escape external_id"

definition contains_pack :: "string list \<Rightarrow> string \<Rightarrow> bool" where
  "contains_pack packs target = list_ex (\<lambda>p. p = target) packs"

text \<open>What the renderer and the publisher, where there are any, make of the wizard's state.\<close>

definition render_artifact ::
  "'c onb_service \<Rightarrow> string \<Rightarrow> string \<Rightarrow> onboarding_state \<Rightarrow> iac_artifact res" where
  "render_artifact svc slug format st =
     (let art = \<lparr>ia_format = format, ia_external_id = os_external_id st, ia_bytes = [],
                 ia_download_url = [], ia_quick_create_url = []\<rparr>
      in case ob_renderer svc of
          None \<Rightarrow> Inr art
        | Some render \<Rightarrow>
            (case render format
               \<lparr>ri_tenant_slug = slug, ri_external_id = os_external_id st,
                ri_saas_account_id = ob_saas_account_id svc,
                ri_saas_principal_name = ob_saas_principal_name svc, ri_region = ob_region svc,
                ri_want_user_directory = contains_pack (os_capabilities st) pack_user_directory,
                ri_want_user_lifecycle = contains_pack (os_capabilities st) pack_user_lifecycle\<rparr> of
               Inl e \<Rightarrow> Inl (Wrap ''onboarding: render IaC'' e)
             | Inr rendered \<Rightarrow>
                 (case ob_publisher svc of
                    None \<Rightarrow> Inr (art\<lparr>ia_bytes := rendered\<rparr>)
                  | Some publish \<Rightarrow>
                      (case publish slug format rendered of
                         Inl e \<Rightarrow> Inl (Wrap ''onboarding: publish IaC'' e)
                       | Inr url \<Rightarrow>
                           Inr (art\<lparr>ia_bytes := rendered, ia_download_url := url,
                                   ia_quick_create_url :=
                                     (if format = ''cfn''
                                      then build_quick_create_url (ob_region svc) slug url (os_external_id st)
                                      else [])\<rparr>)))))"

text \<open>Version numbers are counted from one and printed in decimal.\<close>

fun decimal :: "nat \<Rightarrow> string" where
  "decimal n = (if n < 10 then [] else decimal (n div 10)) @ [char_of (48 + n mod 10)]"

declare decimal.simps [simp del]

text \<open>The external id is drawn once; every template after that carries the same one.\<close>

definition wizard_external_id :: "onb_draws \<Rightarrow> onboarding_state \<Rightarrow> string res" where
  "wizard_external_id dw st =
     (if os_external_id st = [] then generate_external_id (od_rnd dw) else Inr (os_external_id st))"

definition template_state :: "onboarding_state \<Rightarrow> string \<Rightarrow> onboarding_state" where
  "template_state st ext =
     st\<lparr>os_external_id := ext, os_iac_version := os_iac_version st + 1, os_current_step := step_iac\<rparr>"

definition generate_iac ::
  "'c onb_service \<Rightarrow> onb_draws \<Rightarrow> string \<Rightarrow> string \<Rightarrow> onb_world \<Rightarrow> iac_artifact res \<times> onb_world" where
  "generate_iac svc dw slug format w =
     (if format \<notin> {''cfn'', ''tf'', ''cli''} then (Inl (ErrMsg ''onboarding: unknown format''), w)
      else and_then (onboarding_get slug (ow_ses w), w) (\<lambda>st w1.
        if os_capabilities st = []
        then (Inl (ErrMsg ''onboarding: capabilities must be set before generating IaC''), w1)
        else and_then (wizard_external_id dw st, w1) (\<lambda>ext w2.
          let st' = template_state st ext in
          and_then (on_ses (onboarding_put (od_now dw) (Some st')) w2) (\<lambda>_ w3.
          and_then (render_artifact svc slug format st', w3) (\<lambda>art w4.
            (Inr art, audited dw slug ''onboarding.iac_generated'' []
               [(''format'', format), (''iacVersion'', decimal (nat (os_iac_version st')))] w4))))))"

subsection \<open>Step 4: the identity\<close>

record identity_input =
  ii_role_arn :: string
  ii_pool_id :: string
  ii_client_id :: string
  ii_secret_arn :: string
  ii_region :: string
  ii_domain :: string

definition onboarded_source :: "string \<Rightarrow> string \<Rightarrow> identity_input \<Rightarrow> identity_source" where
  "onboarded_source slug ext inp =
     \<lparr>s_id = [], s_tenant_slug = [], s_display_name = ''Primary pool (onboarded '' @ slug @ '')'',
      s_type = ''cognito'', s_pool_id = ii_pool_id inp, s_region = ii_region inp,
      s_domain = ii_domain inp, s_client_id = ii_client_id inp, s_status = ''active'',
      s_created_at = zero_time, s_updated_at = zero_time, s_role_arn = ii_role_arn inp,
      s_external_id = ext, s_secret_arn = ii_secret_arn inp\<rparr>"

definition register_identity ::
  "'c onb_service \<Rightarrow> onb_draws \<Rightarrow> string \<Rightarrow> identity_input \<Rightarrow> onb_world \<Rightarrow> unit res \<times> onb_world" where
  "register_identity svc dw slug inp w =
     and_then (onboarding_get slug (ow_ses w), w) (\<lambda>st w1.
       if os_external_id st = []
       then (Inl (ErrMsg ''onboarding: cannot register identity before GenerateIaC''), w1)
       else and_then
         (if ob_has_sources svc
          then failing_as ''onboarding: create identity source''
                 (on_cfg (\<lambda>d. source_create (od_rnd dw) (od_now dw) slug
                    (onboarded_source slug (os_external_id st) inp) d) w1)
          else (Inr [], w1)) (\<lambda>_ w2.
         and_then (tenant_get slug (ow_cfg w2), w2) (\<lambda>tnt w3.
         and_then (on_cfg (tenant_update (od_now dw) (tnt\<lparr>t_onboarding_state := ''in_progress''\<rparr>)) w3) (\<lambda>_ w4.
         and_then (on_ses (onboarding_put (od_now dw) (Some (st\<lparr>os_current_step := step_identity\<rparr>))) w4) (\<lambda>_ w5.
           (Inr (), audited dw slug ''onboarding.identity_registered'' []
              [(''roleArn'', ii_role_arn inp), (''poolId'', ii_pool_id inp)] w5))))))"

subsection \<open>Step 5: the probe\<close>

definition finalize_probe ::
  "onb_draws \<Rightarrow> string \<Rightarrow> onboarding_state \<Rightarrow> (string \<times> bool) list \<Rightarrow> onb_world
     \<Rightarrow> (string \<times> bool) list res \<times> onb_world" where
  "finalize_probe dw slug st result w =
     and_then (on_ses (onboarding_put (od_now dw)
         (Some (st\<lparr>os_capability_map := result, os_current_step := step_probe\<rparr>))) w) (\<lambda>_ w1.
       (Inr result, audited dw slug ''onboarding.capabilities_probed'' []
          [(''capabilities'', show_capability_map result)] w1))"

definition find_identity_source :: "string \<Rightarrow> cfg_db \<Rightarrow> identity_source res" where
  "find_identity_source slug d =
     (case source_list slug d of
        Inl e \<Rightarrow> Inl e
      | Inr [] \<Rightarrow> Inl (ErrMsg ''no identity sources for tenant'')
      | Inr (s # _) \<Rightarrow> Inr s)"

text \<open>The scoped actions, in the order the map iteration happened to choose; the first refusal ends it.\<close>

fun probe_scoped :: "capability_prober \<Rightarrow> string \<Rightarrow> (string \<times> string list) list \<Rightarrow> bool res" where
  "probe_scoped sim role [] = Inr True"
| "probe_scoped sim role ((action, resources) # rest) =
     (case sim role [action] resources of
        Inl e \<Rightarrow> Inl (Wrap ''onboarding: simulate'' e)
      | Inr decisions \<Rightarrow> if \<not> decisions action then Inr False else probe_scoped sim role rest)"

definition probe_pack :: "capability_prober \<Rightarrow> bool \<Rightarrow> identity_source \<Rightarrow> string \<Rightarrow> bool res" where
  "probe_pack sim reversed src pack =
     (case pack_actions pack of
        None \<Rightarrow> Inr False
      | Some actions \<Rightarrow>
          (case sim (s_role_arn src) actions [] of
             Inl e \<Rightarrow> Inl (Wrap ''onboarding: simulate'' e)
           | Inr decisions \<Rightarrow>
               if pack = pack_core \<and> all_allowed decisions actions
               then probe_scoped sim (s_role_arn src)
                      ((if reversed then rev else id) (scoped_actions_for_core src))
               else Inr (all_allowed decisions actions)))"

fun probe_packs ::
  "capability_prober \<Rightarrow> bool \<Rightarrow> identity_source \<Rightarrow> string list \<Rightarrow> (string \<times> bool) list
     \<Rightarrow> (string \<times> bool) list res" where
  "probe_packs sim reversed src [] acc = Inr acc"
| "probe_packs sim reversed src (pack # packs) acc =
     (case probe_pack sim reversed src pack of
        Inl e \<Rightarrow> Inl e
      | Inr pass \<Rightarrow> probe_packs sim reversed src packs (AList.update pack pass acc))"

text \<open>The report without a probe, for local development: every pack is granted.\<close>

definition unprobed_report :: "string list \<Rightarrow> (string \<times> bool) list" where
  "unprobed_report packs = fold (\<lambda>p. AList.update p True) packs []"

definition probe_capabilities ::
  "'c onb_service \<Rightarrow> onb_draws \<Rightarrow> string \<Rightarrow> onb_world \<Rightarrow> (string \<times> bool) list res \<times> onb_world" where
  "probe_capabilities svc dw slug w =
     and_then (onboarding_get slug (ow_ses w), w) (\<lambda>st w1.
       if os_current_step st < step_identity
       then (Inl (ErrMsg ''onboarding: cannot probe before RegisterIdentity''), w1)
       else case (ob_has_sources svc, ob_sts_assumer svc, ob_prober_factory svc) of
           (True, Some assume_role, Some prober) \<Rightarrow>
             and_then (failing_as ''onboarding: load identity source''
                        (find_identity_source slug (ow_cfg w1), w1)) (\<lambda>src w2.
             and_then (failing_as ''onboarding: assume tenant role'' (assume_role src, w2)) (\<lambda>creds w3.
             and_then (probe_packs (prober creds) (od_scoped_reversed dw) src (os_capabilities st) [], w3)
               (\<lambda>result w4. finalize_probe dw slug st result w4)))
         | _ \<Rightarrow>
             if \<not> ob_allow_unprobed_capabilities svc
             then (Inl (ErrMsg ''onboarding: the capability prober is not configured''), w1)
             else finalize_probe dw slug st (unprobed_report (os_capabilities st)) w1)"

subsection \<open>Step 6 and resume\<close>

definition complete_onboarding :: "onb_draws \<Rightarrow> string \<Rightarrow> onb_world \<Rightarrow> unit res \<times> onb_world" where
  "complete_onboarding dw slug w =
     and_then (onboarding_get slug (ow_ses w), w) (\<lambda>st w1.
       if os_current_step st < step_probe then (Inl (ErrMsg ''onboarding: cannot complete''), w1)
       else
         and_then (tenant_get slug (ow_cfg w1), w1) (\<lambda>tnt w2.
         and_then (on_cfg (tenant_update (od_now dw)
             (tnt\<lparr>t_onboarding_state := ''active'', t_capability_map := os_capability_map st\<rparr>)) w2) (\<lambda>_ w3.
         and_then (on_ses (onboarding_delete slug) w3) (\<lambda>_ w4.
           (Inr (), audited dw slug ''onboarding.completed'' [] [(''tenant'', slug)] w4)))))"

definition get_state :: "string \<Rightarrow> onb_world \<Rightarrow> onboarding_state res \<times> onb_world" where
  "get_state slug w =
     and_then (onboarding_get slug (ow_ses w), w) (\<lambda>st w1. (Inr (st\<lparr>os_external_id := []\<rparr>), w1))"

subsection \<open>The endpoints\<close>

definition map_service_error :: "err \<Rightarrow> refusal" where
  "map_service_error e =
     (if errors_is e ErrNotFound then (404, ''onboarding session not found (expired or never started)'')
      else (400, ''onboarding request could not be processed''))"

definition require_onboarding_tenant :: "request_ctx \<Rightarrow> string \<Rightarrow> unit api" where
  "require_onboarding_tenant cx slug =
     require_tenant_match cx slug ''forbidden: cannot onboard a different tenant''"

datatype onb_op =
    OnbCreate wizard_tenant
  | OnbGet string
  | OnbSetCapabilities string "string list"
  | OnbGenerateIaC string string
  | OnbRegisterIdentity string identity_input
  | OnbProbe string
  | OnbComplete string

datatype onb_reply =
    OnbState onboarding_state
  | OnbArtifact iac_artifact
  | OnbMap "(string \<times> bool) list"
  | OnbDone

fun onb_target :: "onb_op \<Rightarrow> string" where
  "onb_target (OnbCreate inp) = wt_slug inp"
| "onb_target (OnbGet slug) = slug"
| "onb_target (OnbSetCapabilities slug packs) = slug"
| "onb_target (OnbGenerateIaC slug format) = slug"
| "onb_target (OnbRegisterIdentity slug inp) = slug"
| "onb_target (OnbProbe slug) = slug"
| "onb_target (OnbComplete slug) = slug"

definition replying :: "('a \<Rightarrow> onb_reply) \<Rightarrow> (err \<Rightarrow> refusal) \<Rightarrow> 'a res \<times> onb_world \<Rightarrow> onb_reply api \<times> onb_world" where
  "replying f g p = (case fst p of Inl e \<Rightarrow> Inl (g e) | Inr x \<Rightarrow> Inr (f x), snd p)"

text \<open>The endpoint leaves the creator empty, and hides the rendered bytes from the reply.\<close>

fun onb_call :: "'c onb_service \<Rightarrow> onb_draws \<Rightarrow> onb_op \<Rightarrow> onb_world \<Rightarrow> onb_reply api \<times> onb_world" where
  "onb_call svc dw (OnbCreate inp) w =
     replying OnbState map_service_error (wizard_create_tenant dw (inp\<lparr>wt_created_by := []\<rparr>) w)"
| "onb_call svc dw (OnbGet slug) w =
     replying OnbState (\<lambda>_. (404, ''onboarding state not found'')) (get_state slug w)"
| "onb_call svc dw (OnbSetCapabilities slug packs) w =
     replying (\<lambda>_. OnbDone) map_service_error (set_capabilities dw slug packs w)"
| "onb_call svc dw (OnbGenerateIaC slug format) w =
     replying (\<lambda>art. OnbArtifact (art\<lparr>ia_bytes := []\<rparr>)) map_service_error (generate_iac svc dw slug format w)"
| "onb_call svc dw (OnbRegisterIdentity slug inp) w =
     replying (\<lambda>_. OnbDone) map_service_error (register_identity svc dw slug inp w)"
| "onb_call svc dw (OnbProbe slug) w =
     replying OnbMap map_service_error (probe_capabilities svc dw slug w)"
| "onb_call svc dw (OnbComplete slug) w =
     replying (\<lambda>_. OnbDone) map_service_error (complete_onboarding dw slug w)"

definition onb_serve ::
  "'c onb_service \<Rightarrow> onb_draws \<Rightarrow> request_ctx \<Rightarrow> onb_op \<Rightarrow> onb_world \<Rightarrow> onb_reply api \<times> onb_world" where
  "onb_serve svc dw cx op w =
     (case require_onboarding_tenant cx (onb_target op) of
        Inl r \<Rightarrow> (Inl r, w)
      | Inr _ \<Rightarrow> onb_call svc dw op w)"

end
