(* ===== verification/OnboardingRuns.thy ===== *)
theory OnboardingRuns
  imports Onboarding ApiHandlers
begin

text \<open>
  The wizard as a state machine: the log of its successful steps, the invariant that ties a wizard's
  row to the log.
\<close>

subsection \<open>Calls that succeed, calls that fail\<close>

lemma and_then_Inr: "and_then p k = (Inr y, w') \<longleftrightarrow> (\<exists>x w. p = (Inr x, w) \<and> k x w = (Inr y, w'))"
  by (auto simp: and_then_def split: prod.split sum.split)

lemma and_then_Inl:
  "and_then p k = (Inl e, w') \<longleftrightarrow> p = (Inl e, w') \<or> (\<exists>x w. p = (Inr x, w) \<and> k x w = (Inl e, w'))"
  by (auto simp: and_then_def split: prod.split sum.split)

lemma failing_as_iff:
  "failing_as m p = (Inr x, w) \<longleftrightarrow> p = (Inr x, w)"
  "failing_as m p = (Inl e, w) \<longleftrightarrow> (\<exists>e'. e = Wrap m e' \<and> p = (Inl e', w))"
  by (cases p; cases "fst p"; auto simp: failing_as_def)+

lemma on_cfg_iff: "on_cfg f w = (r, w') \<longleftrightarrow> (\<exists>d. f (ow_cfg w) = (r, d) \<and> w' = w\<lparr>ow_cfg := d\<rparr>)"
  by (cases "f (ow_cfg w)") (auto simp: on_cfg_def Let_def)

lemma on_ses_iff: "on_ses f w = (r, w') \<longleftrightarrow> (\<exists>d. f (ow_ses w) = (r, d) \<and> w' = w\<lparr>ow_ses := d\<rparr>)"
  by (cases "f (ow_ses w)") (auto simp: on_ses_def Let_def)

lemma audited_sel [simp]:
  "ow_cfg (audited dw slug ty user pl w) = ow_cfg w" "ow_ses (audited dw slug ty user pl w) = ow_ses w"
  by (simp_all add: audited_def)

lemmas call_simps = and_then_Inr and_then_Inl failing_as_iff on_cfg_iff on_ses_iff

subsection \<open>The wizard's row\<close>

definition wizard :: "ses_db \<Rightarrow> string \<Rightarrow> onboarding_state option" where
  "wizard d slug =
     (case lookup d (mkey (tenant_pk slug) onboarding_state_sk) of None \<Rightarrow> None | Some r \<Rightarrow> as_onboarding r)"

lemma wizard_key [simp]:
  "mkey (tenant_pk a) onboarding_state_sk = mkey (tenant_pk b) onboarding_state_sk \<longleftrightarrow> a = b"
  by (simp add: mkey_def tenant_pk_def)

lemma onboarding_get_Inr:
  "onboarding_get slug d = Inr st \<Longrightarrow> \<exists>s. wizard d slug = Some s \<and> st = s\<lparr>os_tenant_slug := slug\<rparr>"
  by (fastforce simp: onboarding_get_def get_as_def db_get_def wizard_def split: sum.splits if_splits option.splits)

lemma onboarding_put_Inr:
  assumes "onboarding_put now (Some st) d = (Inr u, d')"
  shows "wizard d' slug = (if slug = os_tenant_slug st then Some (st\<lparr>os_updated_at := now\<rparr>) else wizard d slug)"
proof -
  let ?r = "ses_row (tenant_pk (os_tenant_slug st)) onboarding_state_sk
    (OnboardingItem (unix (now + onboarding_state_ttl)) (st\<lparr>os_updated_at := now\<rparr>))"
  have "db_put ?r d = (Inr (), d')"
    using assms by (auto simp: onboarding_put_def split: sum.splits prod.splits if_splits)
  from db_put_ok [OF this, of "mkey (tenant_pk slug) onboarding_state_sk"] show ?thesis
    by (auto simp: wizard_def ses_row_def row_key_def as_onboarding_def)
qed

lemma onboarding_put_Inl: "onboarding_put now (Some st) d = (Inl e, d') \<Longrightarrow> d' = d"
  by (auto simp: onboarding_put_def dest: db_put_err split: sum.splits prod.splits if_splits)

lemma onboarding_delete_Inr:
  "onboarding_delete slug d = (Inr u, d') \<Longrightarrow> wizard d' s = (if s = slug then None else wizard d s)"
  by (auto simp: onboarding_delete_def wizard_def db_delete_ok split: sum.splits prod.splits)

lemma onboarding_delete_Inl: "onboarding_delete slug d = (Inl e, d') \<Longrightarrow> d' = d"
  by (auto simp: onboarding_delete_def dest: db_delete_err split: sum.splits prod.splits)

subsection \<open>What each step does to the row\<close>

lemma create_row:
  assumes "wizard_create_tenant dw inp w = (Inr st, w')"
  shows "wizard (ow_ses w') s =
    (if s = wt_slug inp then Some ((initial_wizard (wt_slug inp))\<lparr>os_updated_at := od_now dw\<rparr>) else wizard (ow_ses w) s)"
  using assms onboarding_put_Inr
  by (fastforce simp: wizard_create_tenant_def Let_def call_simps initial_wizard_def split: if_splits)

lemma set_capabilities_row:
  assumes "set_capabilities dw slug packs w = (Inr (), w')"
  shows "\<exists>st ns. wizard (ow_ses w) slug = Some st \<and> os_current_step st < step_identity \<and>
    normalize_packs packs = Inr ns \<and>
    (\<forall>s. wizard (ow_ses w') s = (if s = slug
       then Some (st\<lparr>os_tenant_slug := slug, os_capabilities := ns, os_current_step := step_capabilities,
              os_updated_at := od_now dw\<rparr>)
       else wizard (ow_ses w) s))"
proof -
  obtain st ns d where g: "onboarding_get slug (ow_ses w) = Inr st" "\<not> os_current_step st \<ge> step_identity"
    "normalize_packs packs = Inr ns"
    and put: "onboarding_put (od_now dw) (Some (st\<lparr>os_capabilities := ns, os_current_step := step_capabilities\<rparr>))
      (ow_ses w) = (Inr (), d)" and w': "ow_ses w' = d"
    using assms by (auto simp: set_capabilities_def call_simps split: if_splits)
  obtain s0 where "wizard (ow_ses w) slug = Some s0" "st = s0\<lparr>os_tenant_slug := slug\<rparr>"
    using onboarding_get_Inr [OF g(1)] by blast
  then show ?thesis
    using g onboarding_put_Inr [OF put] w' by (auto simp: not_le)
qed

lemma generate_iac_row:
  assumes "generate_iac svc dw slug format w = (r, w')"
  shows "(\<exists>e. r = Inl e \<and> ow_ses w' = ow_ses w) \<or>
    (\<exists>st ext v. wizard (ow_ses w) slug = Some st \<and> os_capabilities st \<noteq> [] \<and>
       (os_external_id st \<noteq> [] \<longrightarrow> ext = os_external_id st) \<and>
       (\<forall>art. r = Inr art \<longrightarrow> ia_external_id art = ext) \<and>
       (\<forall>s. wizard (ow_ses w') s = (if s = slug
          then Some (st\<lparr>os_tenant_slug := slug, os_external_id := ext, os_iac_version := v,
                 os_current_step := step_iac, os_updated_at := od_now dw\<rparr>)
          else wizard (ow_ses w) s)))"
proof (cases "\<exists>e. r = Inl e \<and> ow_ses w' = ow_ses w")
  case False
  obtain st ext d where g: "onboarding_get slug (ow_ses w) = Inr st" "os_capabilities st \<noteq> []"
    and ext: "wizard_external_id dw st = Inr ext"
    and put: "onboarding_put (od_now dw) (Some (template_state st ext)) (ow_ses w) = (Inr (), d)" and w': "ow_ses w' = d"
    and r: "\<forall>a. r = Inr a \<longrightarrow> render_artifact svc slug format (template_state st ext) = Inr a"
    using assms False
    by (cases r) (auto simp: generate_iac_def call_simps Let_def dest: onboarding_put_Inl split: if_splits)
  have art: "ia_external_id a = ext" if "r = Inr a" for a
    using r that by (auto simp: render_artifact_def template_state_def Let_def split: option.splits sum.splits)
  obtain s0 where s0: "wizard (ow_ses w) slug = Some s0" "st = s0\<lparr>os_tenant_slug := slug\<rparr>"
    using onboarding_get_Inr [OF g(1)] by blast
  have "os_external_id s0 \<noteq> [] \<longrightarrow> ext = os_external_id s0"
    using ext s0(2) by (auto simp: wizard_external_id_def)
  then show ?thesis
    using g s0 art onboarding_put_Inr [OF put] w'
    by (intro disjI2 exI [of _ s0] exI [of _ ext] exI [of _ "os_iac_version s0 + 1"])
       (auto simp: template_state_def)
qed blast

lemma register_identity_row:
  assumes "register_identity svc dw slug inp w = (Inr (), w')"
  shows "\<exists>st. wizard (ow_ses w) slug = Some st \<and> os_external_id st \<noteq> [] \<and>
    (\<forall>s. wizard (ow_ses w') s = (if s = slug
       then Some (st\<lparr>os_tenant_slug := slug, os_current_step := step_identity, os_updated_at := od_now dw\<rparr>)
       else wizard (ow_ses w) s))"
proof -
  obtain st d where g: "onboarding_get slug (ow_ses w) = Inr st" "os_external_id st \<noteq> []"
    and put: "onboarding_put (od_now dw) (Some (st\<lparr>os_current_step := step_identity\<rparr>)) (ow_ses w) = (Inr (), d)"
    and w': "ow_ses w' = d"
    using assms by (auto simp: register_identity_def call_simps split: if_splits)
  then show ?thesis
    using onboarding_get_Inr [OF g(1)] onboarding_put_Inr [OF put] by auto
qed

lemma finalize_probe_row:
  assumes "finalize_probe dw slug st result w = (Inr m, w')" and "os_tenant_slug st = slug"
  shows "m = result \<and>
    (\<forall>s. wizard (ow_ses w') s = (if s = slug
       then Some (st\<lparr>os_capability_map := m, os_current_step := step_probe, os_updated_at := od_now dw\<rparr>)
       else wizard (ow_ses w) s))"
  using assms onboarding_put_Inr by (fastforce simp: finalize_probe_def call_simps)

lemma update_keys: "map fst (AList.update k v acc) = (if k \<in> set (map fst acc) then map fst acc else map fst acc @ [k])"
  by (induction acc) auto

lemma probe_packs_map:
  assumes "probe_packs sim reversed src packs acc = Inr m"
  shows "map_of m p = (if p \<in> set packs then Some (probe_pack sim reversed src p = Inr True) else map_of acc p)"
  using assms
proof (induction packs arbitrary: acc)
  case (Cons q qs)
  then obtain b where b: "probe_pack sim reversed src q = Inr b"
    and rest: "probe_packs sim reversed src qs (AList.update q b acc) = Inr m"
    by (auto split: sum.splits)
  show ?case
    using Cons.IH [OF rest] b by (auto simp: update_conv')
qed simp

lemma probe_packs_keys:
  "probe_packs sim reversed src packs acc = Inr m \<Longrightarrow> set (map fst m) = set packs \<union> set (map fst acc)"
proof (induction packs arbitrary: acc)
  case (Cons q qs)
  then obtain b where "probe_packs sim reversed src qs (AList.update q b acc) = Inr m"
    by (auto split: sum.splits)
  from Cons.IH [OF this] show ?case
    by (auto simp: update_keys simp del: set_map)
qed simp

lemma unprobed_keys: "set (map fst (unprobed_report packs)) = set packs"
proof -
  have "set (map fst (fold (\<lambda>p. AList.update p True) packs acc)) = set packs \<union> set (map fst acc)" for acc
    by (induction packs arbitrary: acc) (auto simp: update_keys simp del: set_map)
  then show ?thesis by (simp add: unprobed_report_def)
qed

lemma probe_row:
  assumes "probe_capabilities svc dw slug w = (Inr m, w')"
  shows "\<exists>st. wizard (ow_ses w) slug = Some st \<and> step_identity \<le> os_current_step st \<and>
    set (map fst m) = set (os_capabilities st) \<and>
    (\<forall>s. wizard (ow_ses w') s = (if s = slug
       then Some (st\<lparr>os_tenant_slug := slug, os_capability_map := m, os_current_step := step_probe,
              os_updated_at := od_now dw\<rparr>)
       else wizard (ow_ses w) s))"
proof -
  obtain st result where g: "onboarding_get slug (ow_ses w) = Inr st" "step_identity \<le> os_current_step st"
    and f: "finalize_probe dw slug st result w = (Inr m, w')"
    and keys: "set (map fst result) = set (os_capabilities st)"
    using assms unprobed_keys probe_packs_keys
    by (auto simp: probe_capabilities_def call_simps not_less simp del: set_map
        split: if_splits option.splits bool.splits)
  obtain s0 where s0: "wizard (ow_ses w) slug = Some s0" "st = s0\<lparr>os_tenant_slug := slug\<rparr>"
    using onboarding_get_Inr [OF g(1)] by blast
  then show ?thesis
    using g keys finalize_probe_row [OF f] by (intro exI [of _ s0]) auto
qed

lemma complete_row:
  assumes "complete_onboarding dw slug w = (Inr (), w')"
  shows "\<exists>st tnt d. wizard (ow_ses w) slug = Some st \<and> step_probe \<le> os_current_step st \<and>
    tenant_get slug (ow_cfg w) = Inr tnt \<and>
    tenant_update (od_now dw) (tnt\<lparr>t_onboarding_state := ''active'', t_capability_map := os_capability_map st\<rparr>)
      (ow_cfg w) = (Inr (), ow_cfg w') \<and>
    (\<forall>s. wizard (ow_ses w') s = (if s = slug then None else wizard (ow_ses w) s))"
proof -
  obtain st tnt d where g: "onboarding_get slug (ow_ses w) = Inr st" "step_probe \<le> os_current_step st"
    "tenant_get slug (ow_cfg w) = Inr tnt"
    "tenant_update (od_now dw) (tnt\<lparr>t_onboarding_state := ''active'', t_capability_map := os_capability_map st\<rparr>)
      (ow_cfg w) = (Inr (), ow_cfg w')"
    and del: "onboarding_delete slug (ow_ses w) = (Inr (), d)" and w': "ow_ses w' = d"
    using assms by (auto simp: complete_onboarding_def call_simps not_less split: if_splits)
  then show ?thesis
    using onboarding_get_Inr [OF g(1)] onboarding_delete_Inr [OF del] by auto
qed

text \<open>A failing step leaves the row, but for a template that was not rendered.\<close>

lemma failing_rows:
  "fst (wizard_create_tenant dw inp w) = Inl e \<Longrightarrow> ow_ses (snd (wizard_create_tenant dw inp w)) = ow_ses w"
  "fst (set_capabilities dw slug packs w) = Inl e \<Longrightarrow> ow_ses (snd (set_capabilities dw slug packs w)) = ow_ses w"
  "fst (register_identity svc dw slug idn w) = Inl e \<Longrightarrow> ow_ses (snd (register_identity svc dw slug idn w)) = ow_ses w"
  "fst (probe_capabilities svc dw slug w) = Inl e \<Longrightarrow> ow_ses (snd (probe_capabilities svc dw slug w)) = ow_ses w"
  "fst (complete_onboarding dw slug w) = Inl e \<Longrightarrow> ow_ses (snd (complete_onboarding dw slug w)) = ow_ses w"
proof -
  have "wizard_create_tenant dw inp w = (Inl e, w') \<Longrightarrow> ow_ses w' = ow_ses w"
    "set_capabilities dw slug packs w = (Inl e, w') \<Longrightarrow> ow_ses w' = ow_ses w"
    "register_identity svc dw slug idn w = (Inl e, w') \<Longrightarrow> ow_ses w' = ow_ses w"
    "probe_capabilities svc dw slug w = (Inl e, w') \<Longrightarrow> ow_ses w' = ow_ses w"
    "complete_onboarding dw slug w = (Inl e, w') \<Longrightarrow> ow_ses w' = ow_ses w" for w'
    by (auto simp: wizard_create_tenant_def set_capabilities_def register_identity_def probe_capabilities_def
      finalize_probe_def complete_onboarding_def call_simps Let_def
      dest: onboarding_put_Inl onboarding_delete_Inl split: if_splits option.splits bool.splits)
  then show "fst (wizard_create_tenant dw inp w) = Inl e \<Longrightarrow> ow_ses (snd (wizard_create_tenant dw inp w)) = ow_ses w"
    "fst (set_capabilities dw slug packs w) = Inl e \<Longrightarrow> ow_ses (snd (set_capabilities dw slug packs w)) = ow_ses w"
    "fst (register_identity svc dw slug idn w) = Inl e \<Longrightarrow> ow_ses (snd (register_identity svc dw slug idn w)) = ow_ses w"
    "fst (probe_capabilities svc dw slug w) = Inl e \<Longrightarrow> ow_ses (snd (probe_capabilities svc dw slug w)) = ow_ses w"
    "fst (complete_onboarding dw slug w) = Inl e \<Longrightarrow> ow_ses (snd (complete_onboarding dw slug w)) = ow_ses w"
    by (metis prod.collapse)+
qed

subsection \<open>Runs of the wizard\<close>

text \<open>The steps that succeeded, the latest first.\<close>

datatype onb_event =
    EvCreated string
  | EvSelected string "string list"
  | EvTemplate string string
  | EvIdentity string
  | EvProbed string "(string \<times> bool) list"
  | EvCompleted string

primrec event_slug :: "onb_event \<Rightarrow> string" where
  "event_slug (EvCreated s) = s"
| "event_slug (EvSelected s _) = s"
| "event_slug (EvTemplate s _) = s"
| "event_slug (EvIdentity s) = s"
| "event_slug (EvProbed s _) = s"
| "event_slug (EvCompleted s) = s"

text \<open>
  Any interleaving of the steps of any tenants, refused calls, and other users of the tables, who
  leave the wizards' rows or remove them, as their expiry does.
\<close>

inductive onb_run :: "'c onb_service \<Rightarrow> onb_event list \<Rightarrow> onb_world \<Rightarrow> bool" for svc where
  run_start: "(\<forall>s. wizard (ow_ses w) s = None) \<Longrightarrow> onb_run svc [] w"
| run_create: "onb_run svc log w \<Longrightarrow> wizard_create_tenant dw inp w = (Inr st, w') \<Longrightarrow>
    onb_run svc (EvCreated (wt_slug inp) # log) w'"
| run_select: "onb_run svc log w \<Longrightarrow> set_capabilities dw slug packs w = (Inr (), w') \<Longrightarrow>
    onb_run svc (EvSelected slug packs # log) w'"
| run_template: "onb_run svc log w \<Longrightarrow> generate_iac svc dw slug format w = (Inr art, w') \<Longrightarrow>
    onb_run svc (EvTemplate slug (ia_external_id art) # log) w'"
| run_identity: "onb_run svc log w \<Longrightarrow> register_identity svc dw slug idn w = (Inr (), w') \<Longrightarrow>
    onb_run svc (EvIdentity slug # log) w'"
| run_probe: "onb_run svc log w \<Longrightarrow> probe_capabilities svc dw slug w = (Inr m, w') \<Longrightarrow>
    onb_run svc (EvProbed slug m # log) w'"
| run_complete: "onb_run svc log w \<Longrightarrow> complete_onboarding dw slug w = (Inr (), w') \<Longrightarrow>
    onb_run svc (EvCompleted slug # log) w'"
| run_refused: "onb_run svc log w \<Longrightarrow> onb_call svc dw op w = (Inl r, w') \<Longrightarrow> onb_run svc log w'"
| run_other: "onb_run svc log w \<Longrightarrow>
    (\<forall>s. wizard (ow_ses w') s = None \<or> wizard (ow_ses w') s = wizard (ow_ses w) s) \<Longrightarrow> onb_run svc log w'"

definition last_event :: "onb_event list \<Rightarrow> string \<Rightarrow> onb_event option" where
  "last_event log slug = (case filter (\<lambda>e. event_slug e = slug) log of [] \<Rightarrow> None | e # _ \<Rightarrow> Some e)"

fun selected :: "onb_event list \<Rightarrow> string \<Rightarrow> string list option" where
  "selected [] slug = None"
| "selected (e # log) slug =
     (case e of EvSelected s packs \<Rightarrow> if s = slug then Some packs else selected log slug | _ \<Rightarrow> selected log slug)"

text \<open>
  The invariant of a wizard: past the probe, the probe was the last step and reported on the selected
  packs; there is an external id only with packs, and an identity only with an external id.
\<close>

definition wizard_ok :: "onb_event list \<Rightarrow> string \<Rightarrow> onboarding_state \<Rightarrow> bool" where
  "wizard_ok log slug st \<longleftrightarrow>
     (step_probe \<le> os_current_step st \<longrightarrow>
        last_event log slug = Some (EvProbed slug (os_capability_map st)) \<and>
        set (map fst (os_capability_map st)) = set (os_capabilities st)) \<and>
     (os_capabilities st \<noteq> [] \<longrightarrow>
        (\<exists>packs. selected log slug = Some packs \<and> normalize_packs packs = Inr (os_capabilities st))) \<and>
     (os_external_id st \<noteq> [] \<longrightarrow> os_capabilities st \<noteq> []) \<and>
     (step_identity \<le> os_current_step st \<longrightarrow> os_external_id st \<noteq> [])"

lemma last_event_Cons [simp]:
  "last_event (e # log) slug = (if event_slug e = slug then Some e else last_event log slug)"
  by (simp add: last_event_def)

lemma selected_other [simp]: "event_slug e \<noteq> slug \<Longrightarrow> selected (e # log) slug = selected log slug"
  by (cases e) simp_all

lemma wizard_ok_other: "event_slug e \<noteq> slug \<Longrightarrow> wizard_ok (e # log) slug st = wizard_ok log slug st"
  by (simp add: wizard_ok_def del: selected.simps)

definition wizards_ok :: "onb_event list \<Rightarrow> onb_world \<Rightarrow> bool" where
  "wizards_ok log w \<longleftrightarrow> (\<forall>s st. wizard (ow_ses w) s = Some st \<longrightarrow> wizard_ok log s st)"

text \<open>A step writes one row, which must satisfy the invariant with its event.\<close>

lemma wizards_ok_step:
  assumes "wizards_ok log w" and "event_slug e = slug"
    and "\<And>s. wizard (ow_ses w') s = (if s = slug then r else wizard (ow_ses w) s)"
    and "\<And>st. r = Some st \<Longrightarrow> wizard_ok (e # log) slug st"
  shows "wizards_ok (e # log) w'"
  using assms wizard_ok_other [of e] by (auto simp: wizards_ok_def split: if_splits)

lemma normalize_nonempty: "normalize_packs packs = Inr ns \<Longrightarrow> ns \<noteq> []"
  by (auto simp: normalize_packs_def split: if_splits)

lemma refused_rows:
  assumes "onb_call svc dw op w = (Inl r, w')"
  shows "ow_ses w' = ow_ses w \<or> (\<exists>slug st ext v. wizard (ow_ses w) slug = Some st \<and> os_capabilities st \<noteq> [] \<and>
    (\<forall>s. wizard (ow_ses w') s = (if s = slug
       then Some (st\<lparr>os_tenant_slug := slug, os_external_id := ext, os_iac_version := v,
              os_current_step := step_iac, os_updated_at := od_now dw\<rparr>)
       else wizard (ow_ses w) s)))"
proof (cases op)
  case (OnbGenerateIaC slug format)
  then obtain e where "generate_iac svc dw slug format w = (Inl e, w')"
    using assms by (cases "generate_iac svc dw slug format w") (auto simp: replying_def split: sum.splits)
  from generate_iac_row [OF this] show ?thesis by blast
next
  case (OnbGet slug)
  then show ?thesis
    using assms by (auto simp: replying_def get_state_def and_then_def split: sum.splits)
qed (use assms in \<open>auto simp: replying_def dest: failing_rows split: sum.splits\<close>)

lemma run_wizards_ok: "onb_run svc log w \<Longrightarrow> wizards_ok log w"
proof (induction rule: onb_run.induct)
  case (run_start w)
  then show ?case by (simp add: wizards_ok_def)
next
  case (run_create log w dw inp st w')
  show ?case
    by (rule wizards_ok_step [OF run_create.IH _ create_row [OF run_create.hyps(2)]])
       (auto simp: wizard_ok_def initial_wizard_def wizard_steps)
next
  case (run_select log w dw slug packs w')
  obtain st ns where st: "normalize_packs packs = Inr ns"
    "\<And>s. wizard (ow_ses w') s = (if s = slug
       then Some (st\<lparr>os_tenant_slug := slug, os_capabilities := ns, os_current_step := step_capabilities,
              os_updated_at := od_now dw\<rparr>) else wizard (ow_ses w) s)"
    using set_capabilities_row [OF run_select.hyps(2)] by blast
  show ?case
    by (rule wizards_ok_step [OF run_select.IH _ st(2)])
       (use st(1) normalize_nonempty [OF st(1)] in \<open>auto simp: wizard_ok_def wizard_steps\<close>)
next
  case (run_template log w dw slug format art w')
  obtain st v where st: "wizard (ow_ses w) slug = Some st" "os_capabilities st \<noteq> []"
    "\<And>s. wizard (ow_ses w') s = (if s = slug
       then Some (st\<lparr>os_tenant_slug := slug, os_external_id := ia_external_id art, os_iac_version := v,
              os_current_step := step_iac, os_updated_at := od_now dw\<rparr>) else wizard (ow_ses w) s)"
    using generate_iac_row [OF run_template.hyps(2)] by auto
  have "wizard_ok log slug st" using run_template.IH st(1) by (simp add: wizards_ok_def)
  then show ?case
    by (intro wizards_ok_step [OF run_template.IH _ st(3)]) (use st(2) in \<open>auto simp: wizard_ok_def wizard_steps\<close>)
next
  case (run_identity log w dw slug idn w')
  obtain st where st: "wizard (ow_ses w) slug = Some st" "os_external_id st \<noteq> []"
    "\<And>s. wizard (ow_ses w') s = (if s = slug
       then Some (st\<lparr>os_tenant_slug := slug, os_current_step := step_identity, os_updated_at := od_now dw\<rparr>)
       else wizard (ow_ses w) s)"
    using register_identity_row [OF run_identity.hyps(2)] by blast
  have "wizard_ok log slug st" using run_identity.IH st(1) by (simp add: wizards_ok_def)
  then show ?case
    by (intro wizards_ok_step [OF run_identity.IH _ st(3)]) (use st(2) in \<open>auto simp: wizard_ok_def wizard_steps\<close>)
next
  case (run_probe log w dw slug m w')
  obtain st where st: "wizard (ow_ses w) slug = Some st" "step_identity \<le> os_current_step st"
    "set (map fst m) = set (os_capabilities st)"
    "\<And>s. wizard (ow_ses w') s = (if s = slug
       then Some (st\<lparr>os_tenant_slug := slug, os_capability_map := m, os_current_step := step_probe,
              os_updated_at := od_now dw\<rparr>) else wizard (ow_ses w) s)"
    using probe_row [OF run_probe.hyps(2)] by blast
  have "wizard_ok log slug st" using run_probe.IH st(1) by (simp add: wizards_ok_def)
  then show ?case
    by (intro wizards_ok_step [OF run_probe.IH _ st(4)])
       (use st(2,3) in \<open>auto simp: wizard_ok_def wizard_steps simp del: set_map\<close>)
next
  case (run_complete log w dw slug w')
  have gone: "wizard (ow_ses w') s = (if s = slug then None else wizard (ow_ses w) s)" for s
    using complete_row [OF run_complete.hyps(2)] by auto
  show ?case by (rule wizards_ok_step [OF run_complete.IH _ gone]) simp_all
next
  case (run_refused log w dw op r w')
  from refused_rows [OF run_refused.hyps(2)] consider "ow_ses w' = ow_ses w"
    | slug st ext v where "wizard (ow_ses w) slug = Some st" "os_capabilities st \<noteq> []"
      "\<And>s. wizard (ow_ses w') s = (if s = slug
         then Some (st\<lparr>os_tenant_slug := slug, os_external_id := ext, os_iac_version := v,
                os_current_step := step_iac, os_updated_at := od_now dw\<rparr>) else wizard (ow_ses w) s)"
    by blast
  then show ?case
  proof cases
    case 1
    then show ?thesis using run_refused.IH by (simp add: wizards_ok_def)
  next
    case (2 slug st ext v)
    have "wizard_ok log slug st" using run_refused.IH 2(1) by (simp add: wizards_ok_def)
    then have "wizard_ok log slug (st\<lparr>os_tenant_slug := slug, os_external_id := ext, os_iac_version := v,
        os_current_step := step_iac, os_updated_at := od_now dw\<rparr>)"
      using 2(2) by (simp add: wizard_ok_def wizard_steps)
    then show ?thesis
      using run_refused.IH 2(3) by (simp add: wizards_ok_def)
  qed
next
  case (run_other log w w')
  then show ?case unfolding wizards_ok_def by (metis option.distinct(1))
qed

end
