(* ===== verification/OnboardingLive.thy ===== *)
theory OnboardingLive
  imports OnboardingRuns
begin

text \<open>
  Progress of the wizard: on tables without faults, with services that answer, each step succeeds in
  the state the step before it leaves.
\<close>

subsection \<open>Working tables\<close>

definition calm :: "'i db \<Rightarrow> bool" where
  "calm d \<longleftrightarrow> (\<forall>op. \<not> fault d op)"

definition ready :: "onb_world \<Rightarrow> string \<Rightarrow> onboarding_state \<Rightarrow> bool" where
  "ready w slug st \<longleftrightarrow> calm (ow_cfg w) \<and> calm (ow_ses w) \<and> cfg_inv (ow_cfg w) \<and>
     (\<exists>t. tenant_get slug (ow_cfg w) = Inr t) \<and> onboarding_get slug (ow_ses w) = Inr st \<and> slug \<noteq> []"

lemma ready_slug:
  assumes "ready w slug st"
  shows "os_tenant_slug st = slug \<and> no_hash slug"
proof -
  have "no_hash slug"
    using assms tenant_get_slug by (auto simp: ready_def)
  then show ?thesis
    using assms by (auto simp: ready_def onboarding_get_def split: sum.splits)
qed

lemma calm_put: "calm d \<Longrightarrow> r_pk r \<noteq> [] \<Longrightarrow> \<exists>d'. db_put r d = (Inr (), d') \<and> calm d'"
  by (auto simp: calm_def db_put_def)

lemma onboarding_put_progress:
  assumes "calm d" and "os_tenant_slug st = slug" and "slug \<noteq> []"
  shows "\<exists>d'. onboarding_put now (Some st) d = (Inr (), d') \<and> calm d' \<and>
    onboarding_get slug d' = Inr (st\<lparr>os_updated_at := now\<rparr>)"
proof -
  let ?r = "ses_row (tenant_pk slug) onboarding_state_sk
    (OnboardingItem (unix (now + onboarding_state_ttl)) (st\<lparr>os_updated_at := now\<rparr>))"
  have "r_pk ?r \<noteq> []" by (simp add: ses_row_def)
  then obtain d' where d': "db_put ?r d = (Inr (), d')" "calm d'"
    using calm_put assms(1) by blast
  have "lookup d' (mkey (tenant_pk slug) onboarding_state_sk) = Some ?r"
    using db_put_ok [OF d'(1)] by (simp add: ses_row_def row_key_def)
  moreover have "r_item ?r = OnboardingItem (unix (now + onboarding_state_ttl)) (st\<lparr>os_updated_at := now\<rparr>)"
    by (simp add: ses_row_def)
  ultimately have "onboarding_get slug d' = Inr (st\<lparr>os_updated_at := now\<rparr>)"
    using d'(2) assms(2) by (simp add: onboarding_get_def get_as_def db_get_def calm_def as_onboarding_def)
  then show ?thesis
    using d' assms by (simp add: onboarding_put_def)
qed

lemma tenant_update_progress:
  assumes "calm d" and "cfg_inv d" and "tenant_get slug d = Inr t0" and "t_slug t = slug" and "slug \<noteq> []"
  shows "\<exists>d'. tenant_update now t d = (Inr (), d') \<and> calm d' \<and> cfg_inv d' \<and> (\<exists>t'. tenant_get slug d' = Inr t') \<and>
    (\<forall>k. k \<noteq> mkey (tenant_pk slug) tenant_sk \<longrightarrow> lookup d' k = lookup d k)"
proof -
  let ?t = "t\<lparr>t_created_at := t_created_at t0, t_updated_at := now\<rparr>"
  let ?r = "cfg_row (tenant_pk slug) tenant_sk (TenantItem ?t)"
  have "r_pk ?r \<noteq> []" by (simp add: cfg_row_def)
  then obtain d' where d': "db_put ?r d = (Inr (), d')" "calm d'"
    using calm_put assms(1) by blast
  have upd: "tenant_update now t d = (Inr (), d')"
    using assms d'(1) by (simp add: tenant_update_def Let_def)
  have "no_hash (t_slug t)" using tenant_get_slug [OF assms(2,3)] assms(4) by simp
  then have "cfg_inv d'" using tenant_update_inv [OF assms(2), of t now] upd by simp
  moreover have "tenant_get slug d' = Inr ?t"
    using db_put_ok [OF d'(1), of "mkey (tenant_pk slug) tenant_sk"] d'(2)
    by (simp add: tenant_get_def get_as_def db_get_def calm_def as_tenant_def cfg_row_def row_key_def)
  moreover have "\<forall>k. k \<noteq> mkey (tenant_pk slug) tenant_sk \<longrightarrow> lookup d' k = lookup d k"
    using db_put_ok [OF d'(1)] by (simp add: cfg_row_def row_key_def)
  ultimately show ?thesis using upd d'(2) by blast
qed

subsection \<open>The steps\<close>

lemma and_then_step: "p = (Inr x, w) \<Longrightarrow> and_then p k = k x w"
  by (simp add: and_then_def)

lemma create_progress:
  assumes "valid_slug slug" and "name \<noteq> []" and "calm (ow_cfg w)" and "calm (ow_ses w)" and "cfg_inv (ow_cfg w)"
    and "lookup (ow_cfg w) (mkey (tenant_pk slug) tenant_sk) = None"
  shows "\<exists>st w'. wizard_create_tenant dw \<lparr>wt_slug = slug, wt_display_name = name, wt_domain = domain,
      wt_created_by = by\<rparr> w = (Inr st, w') \<and> ready w' slug ((initial_wizard slug)\<lparr>os_updated_at := od_now dw\<rparr>)"
proof -
  let ?inp = "\<lparr>wt_slug = slug, wt_display_name = name, wt_domain = domain, wt_created_by = by\<rparr>"
  let ?t = "(pending_tenant ?inp)\<lparr>t_created_at := od_now dw, t_updated_at := od_now dw\<rparr>"
  let ?r = "cfg_row (tenant_pk slug) tenant_sk (TenantItem ?t)"
  have ne: "slug \<noteq> []" using assms(1) by (auto simp: valid_slug_def)
  have hash: "no_hash slug" using assms(1) by (auto simp: valid_slug_def split: list.splits)
  obtain d where d: "db_put_new ?r (ow_cfg w) = (Inr (), d)" "calm d"
    "lookup d (mkey (tenant_pk slug) tenant_sk) = Some ?r"
    using assms(3,6) by (auto simp: db_put_new_def calm_def cfg_row_def row_key_def lookup_def update_conv')
  have c: "tenant_create (od_now dw) (pending_tenant ?inp) (ow_cfg w) = (Inr (), d)"
    using d(1) ne by (simp add: tenant_create_def pending_tenant_def Let_def)
  have "cfg_inv d"
    using tenant_create_inv [OF assms(5), of "pending_tenant ?inp" "od_now dw"] c hash
    by (simp add: pending_tenant_def)
  moreover have "tenant_get slug d = Inr ?t"
    using d(2,3) by (simp add: tenant_get_def get_as_def db_get_def calm_def as_tenant_def cfg_row_def)
  moreover obtain d' where d': "onboarding_put (od_now dw) (Some (initial_wizard slug)) (ow_ses w) = (Inr (), d')"
    "calm d'" "onboarding_get slug d' = Inr ((initial_wizard slug)\<lparr>os_updated_at := od_now dw\<rparr>)"
    using onboarding_put_progress [OF assms(4) _ ne, of "initial_wizard slug" "od_now dw"]
    by (auto simp: initial_wizard_def)
  ultimately show ?thesis
    using assms(1,2) c d(2) ne
    by (simp add: wizard_create_tenant_def and_then_def failing_as_def on_cfg_def on_ses_def Let_def ready_def)
qed

lemma select_progress:
  assumes r: "ready w slug st" and "os_current_step st < step_identity" and "normalize_packs packs = Inr ns"
  shows "\<exists>w'. set_capabilities dw slug packs w = (Inr (), w') \<and>
    ready w' slug (st\<lparr>os_capabilities := ns, os_current_step := step_capabilities, os_updated_at := od_now dw\<rparr>)"
proof -
  let ?st = "st\<lparr>os_capabilities := ns, os_current_step := step_capabilities\<rparr>"
  obtain d where d: "onboarding_put (od_now dw) (Some ?st) (ow_ses w) = (Inr (), d)" "calm d"
    "onboarding_get slug d = Inr (?st\<lparr>os_updated_at := od_now dw\<rparr>)"
    using onboarding_put_progress [of "ow_ses w" ?st slug "od_now dw"] r ready_slug [OF r]
    by (auto simp: ready_def)
  then show ?thesis
    using r assms(2,3)
    by (simp add: set_capabilities_def and_then_def failing_as_def on_ses_def Let_def ready_def)
qed

lemma template_progress:
  assumes r: "ready w slug st" and "os_capabilities st \<noteq> []" and "wizard_external_id dw st = Inr ext"
    and "format \<in> {''cfn'', ''tf'', ''cli''}" and "\<And>s. \<exists>art. render_artifact svc slug format s = Inr art"
  shows "\<exists>art w'. generate_iac svc dw slug format w = (Inr art, w') \<and>
    ready w' slug ((template_state st ext)\<lparr>os_updated_at := od_now dw\<rparr>)"
proof -
  let ?st = "template_state st ext"
  obtain d where d: "onboarding_put (od_now dw) (Some ?st) (ow_ses w) = (Inr (), d)" "calm d"
    "onboarding_get slug d = Inr (?st\<lparr>os_updated_at := od_now dw\<rparr>)"
    using onboarding_put_progress [of "ow_ses w" ?st slug "od_now dw"] r ready_slug [OF r]
    by (auto simp: ready_def template_state_def)
  obtain art where "render_artifact svc slug format ?st = Inr art"
    using assms(5) by blast
  then show ?thesis
    using r d assms(2-4)
    by (auto simp: generate_iac_def and_then_def on_ses_def Let_def ready_def)
qed

lemma source_create_progress:
  assumes "calm d" and "cfg_inv d" and "no_hash slug" and "generate_id rnd = Inr i"
  shows "\<exists>d' r. source_create rnd now slug src d = (Inr i, d') \<and> calm d' \<and> cfg_inv d' \<and>
    lookup d' (mkey (tenant_pk slug) (source_sk i)) = Some r \<and> (\<exists>s. r_item r = SourceItem s) \<and>
    (\<forall>k. k \<noteq> mkey (tenant_pk slug) (source_sk i) \<longrightarrow> lookup d' k = lookup d k)"
proof -
  let ?s = "src\<lparr>s_id := i, s_tenant_slug := slug, s_created_at := now, s_updated_at := now\<rparr>"
  let ?r = "cfg_row (tenant_pk slug) (source_sk i) (SourceItem ?s)"
  have "r_pk ?r \<noteq> []" by (simp add: cfg_row_def)
  then obtain d' where d': "db_put ?r d = (Inr (), d')" "calm d'"
    using calm_put assms(1) by blast
  have c: "source_create rnd now slug src d = (Inr i, d')"
    using assms(4) d'(1) by (simp add: source_create_def Let_def)
  have "cfg_inv d'" using source_create_inv [OF assms(2,3), of rnd now src] c by simp
  moreover have "lookup d' k = (if k = mkey (tenant_pk slug) (source_sk i) then Some ?r else lookup d k)" for k
    using db_put_ok [OF d'(1)] by (simp add: cfg_row_def row_key_def)
  ultimately show ?thesis
    using c d'(2) by (intro exI [of _ d'] exI [of _ ?r]) (simp add: cfg_row_def)
qed

lemma source_list_found:
  assumes "calm d" and "cfg_inv d" and "no_hash slug"
    and r: "lookup d (mkey (tenant_pk slug) (source_sk i)) = Some r" "r_item r = SourceItem s"
  shows "\<exists>src srcs. source_list slug d = Inr (src # srcs)"
proof -
  obtain rs where rs: "db_query (tenant_pk slug) ''SOURCE#'' d = Inr rs"
    using assms(1) by (auto simp: db_query_def calm_def)
  have at: "cfg_row_ok r" "r_pk r = tenant_pk slug" "r_sk r = source_sk i"
    "row_key r = mkey (tenant_pk slug) (source_sk i)"
    using cfg_lookup_row [OF assms(2) r(1) assms(3)] cfg_inv_row [OF assms(2) r(1)] by auto
  have "r \<in> set rs"
    using db_query_set [OF cfg_inv_wf [OF assms(2)] rs, of r] at r(1)
    by (simp add: has_prefix_iff mkey_def source_sk_def)
  then have "s \<in> set (List.map_filter as_source rs)"
    using r(2) by (auto simp: set_map_filter_iff as_source_def intro!: bexI [of _ r])
  then show ?thesis
    using rs by (cases "List.map_filter as_source rs") (auto simp: source_list_def)
qed

lemma identity_progress:
  assumes r: "ready w slug st" and "os_external_id st \<noteq> []" and "generate_id (od_rnd dw) = Inr i"
    and "ob_has_sources svc"
  shows "\<exists>w' src srcs. register_identity svc dw slug inp w = (Inr (), w') \<and>
    ready w' slug (st\<lparr>os_current_step := step_identity, os_updated_at := od_now dw\<rparr>) \<and>
    source_list slug (ow_cfg w') = Inr (src # srcs)"
proof -
  have w: "calm (ow_cfg w)" "calm (ow_ses w)" "cfg_inv (ow_cfg w)" "onboarding_get slug (ow_ses w) = Inr st" "slug \<noteq> []"
    and slug: "no_hash slug" "os_tenant_slug st = slug"
    using r ready_slug [OF r] by (auto simp: ready_def)
  obtain t0 where t0: "tenant_get slug (ow_cfg w) = Inr t0" using r by (auto simp: ready_def)
  let ?src = "onboarded_source slug (os_external_id st) inp"
  obtain d1 row s where d1: "source_create (od_rnd dw) (od_now dw) slug ?src (ow_cfg w) = (Inr i, d1)"
      "calm d1" "cfg_inv d1" "lookup d1 (mkey (tenant_pk slug) (source_sk i)) = Some row" "r_item row = SourceItem s"
    and keep1: "\<And>k. k \<noteq> mkey (tenant_pk slug) (source_sk i) \<Longrightarrow> lookup d1 k = lookup (ow_cfg w) k"
    using source_create_progress [OF w(1,3) slug(1) assms(3), of "od_now dw" ?src] by blast
  have "lookup d1 (mkey (tenant_pk slug) tenant_sk) = lookup (ow_cfg w) (mkey (tenant_pk slug) tenant_sk)"
    by (rule keep1) (simp add: key_simps)
  then have t1: "tenant_get slug d1 = Inr t0"
    using t0 w(1) d1(2) by (simp add: tenant_get_def get_as_def db_get_def calm_def)
  have ts: "t_slug t0 = slug" using tenant_get_slug [OF w(3) t0] by simp
  obtain d2 where d2: "tenant_update (od_now dw) (t0\<lparr>t_onboarding_state := ''in_progress''\<rparr>) d1 = (Inr (), d2)"
      "calm d2" "cfg_inv d2" "\<exists>t'. tenant_get slug d2 = Inr t'"
    and keep2: "\<And>k. k \<noteq> mkey (tenant_pk slug) tenant_sk \<Longrightarrow> lookup d2 k = lookup d1 k"
    using tenant_update_progress [OF d1(2,3) t1 _ w(5), of "t0\<lparr>t_onboarding_state := ''in_progress''\<rparr>" "od_now dw"] ts
    by auto
  have "lookup d2 (mkey (tenant_pk slug) (source_sk i)) = Some row"
    using keep2 [of "mkey (tenant_pk slug) (source_sk i)"] d1(4) by (simp add: key_simps not_sym [OF sk_distinct(1)])
  then obtain src srcs where found: "source_list slug d2 = Inr (src # srcs)"
    using source_list_found [OF d2(2,3) slug(1) _ d1(5)] by blast
  let ?st = "st\<lparr>os_current_step := step_identity\<rparr>"
  obtain d' where d': "onboarding_put (od_now dw) (Some ?st) (ow_ses w) = (Inr (), d')" "calm d'"
    "onboarding_get slug d' = Inr (?st\<lparr>os_updated_at := od_now dw\<rparr>)"
    using onboarding_put_progress [of "ow_ses w" ?st slug "od_now dw"] w slug by auto
  show ?thesis
    using w d1(1) t1 d2 d' found assms(2,4)
    by (simp add: register_identity_def and_then_def failing_as_def on_cfg_def on_ses_def Let_def ready_def)
qed

lemma probe_packs_answer:
  assumes sim: "\<forall>role actions resources. \<exists>f. sim role actions resources = Inr f"
  shows "\<exists>m. probe_packs sim reversed src packs acc = Inr m"
proof -
  have scoped: "\<exists>b. probe_scoped sim role xs = Inr b" for role xs
  proof (induction xs)
    case Nil
    show ?case by (intro exI [of _ True]) simp
  next
    case (Cons x xs)
    obtain f where "sim role [fst x] (snd x) = Inr f" using sim by blast
    then show ?case using Cons by (cases x; cases "f (fst x)") auto
  qed
  have pack: "\<exists>b. probe_pack sim reversed src p = Inr b" for p
  proof (cases "pack_actions p")
    case (Some acts)
    obtain f where "sim (s_role_arn src) acts [] = Inr f" using sim by blast
    then show ?thesis using Some scoped by (simp add: probe_pack_def)
  next
    case None
    then show ?thesis by (intro exI [of _ False]) (simp add: probe_pack_def)
  qed
  show ?thesis
  proof (induction packs arbitrary: acc)
    case (Cons p ps)
    then show ?case using pack [of p] by auto
  qed simp
qed

text \<open>The services a deployed wizard needs, and that they answer.\<close>

definition answering :: "'c onb_service \<Rightarrow> bool" where
  "answering svc \<longleftrightarrow> ob_has_sources svc \<and>
     (\<exists>assume_role. ob_sts_assumer svc = Some assume_role \<and> (\<forall>src. \<exists>creds. assume_role src = Inr creds)) \<and>
     (\<exists>prober. ob_prober_factory svc = Some prober \<and>
        (\<forall>creds role actions resources. \<exists>f. prober creds role actions resources = Inr f)) \<and>
     (\<forall>slug format st. \<exists>art. render_artifact svc slug format st = Inr art)"

lemma probe_progress:
  assumes r: "ready w slug st" and "step_identity \<le> os_current_step st" and svc: "answering svc"
    and src: "source_list slug (ow_cfg w) = Inr (src # srcs)"
  shows "\<exists>m w'. probe_capabilities svc dw slug w = (Inr m, w') \<and>
    ready w' slug (st\<lparr>os_capability_map := m, os_current_step := step_probe, os_updated_at := od_now dw\<rparr>)"
proof -
  obtain assume_role prober creds where plumbing: "ob_has_sources svc" "ob_sts_assumer svc = Some assume_role"
    "assume_role src = Inr creds" "ob_prober_factory svc = Some prober"
    and sim: "\<forall>role actions resources. \<exists>f. prober creds role actions resources = Inr f"
    using svc unfolding answering_def by metis
  obtain m where m: "probe_packs (prober creds) (od_scoped_reversed dw) src (os_capabilities st) [] = Inr m"
    using probe_packs_answer [OF sim] by blast
  let ?st = "st\<lparr>os_capability_map := m, os_current_step := step_probe\<rparr>"
  obtain d where d: "onboarding_put (od_now dw) (Some ?st) (ow_ses w) = (Inr (), d)" "calm d"
    "onboarding_get slug d = Inr (?st\<lparr>os_updated_at := od_now dw\<rparr>)"
    using onboarding_put_progress [of "ow_ses w" ?st slug "od_now dw"] r ready_slug [OF r]
    by (auto simp: ready_def)
  show ?thesis
    using r plumbing m src d assms(2)
    by (simp add: probe_capabilities_def find_identity_source_def finalize_probe_def and_then_def failing_as_def
        on_ses_def Let_def ready_def)
qed

lemma complete_progress:
  assumes r: "ready w slug st" and "step_probe \<le> os_current_step st"
  shows "\<exists>w'. complete_onboarding dw slug w = (Inr (), w')"
proof -
  obtain t0 where t0: "tenant_get slug (ow_cfg w) = Inr t0" using r by (auto simp: ready_def)
  have w: "calm (ow_cfg w)" "calm (ow_ses w)" "cfg_inv (ow_cfg w)" "onboarding_get slug (ow_ses w) = Inr st" "slug \<noteq> []"
    using r by (auto simp: ready_def)
  have ts: "t_slug t0 = slug" using tenant_get_slug [OF w(3) t0] by simp
  obtain d where d: "tenant_update (od_now dw) (t0\<lparr>t_onboarding_state := ''active'',
      t_capability_map := os_capability_map st\<rparr>) (ow_cfg w) = (Inr (), d)"
    using tenant_update_progress [OF w(1,3) t0 _ w(5), of "t0\<lparr>t_onboarding_state := ''active'',
      t_capability_map := os_capability_map st\<rparr>" "od_now dw"] ts by auto
  obtain d' where "onboarding_delete slug (ow_ses w) = (Inr (), d')"
    using w(2) by (auto simp: onboarding_delete_def db_delete_def calm_def)
  then show ?thesis
    using w(4) assms(2) t0 d
    by (simp add: complete_onboarding_def and_then_def on_cfg_def on_ses_def Let_def)
qed

lemma base32_nonempty: "bytes \<noteq> [] \<Longrightarrow> base32_encode bytes \<noteq> []"
  by (cases bytes) (simp_all add: base32_encode_def byte_bits_def)

lemma external_id_progress:
  assumes "od_rnd dw = Some bytes" and "bytes \<noteq> []"
  shows "\<exists>ext. wizard_external_id dw st = Inr ext \<and> ext \<noteq> []"
  using assms base32_nonempty by (auto simp: wizard_external_id_def generate_external_id_def)

text \<open>The six steps in their order, each with its own draws.\<close>

definition good_draws :: "onb_draws \<Rightarrow> bool" where
  "good_draws dw \<longleftrightarrow> (case od_rnd dw of None \<Rightarrow> False | Some bytes \<Rightarrow> bytes \<noteq> [])"

lemma good_draws_id: "good_draws dw \<Longrightarrow> \<exists>i. generate_id (od_rnd dw) = Inr i"
  by (auto simp: good_draws_def generate_id_def split: option.splits)

lemma wizard_goes_through:
  assumes slug: "valid_slug slug" "name \<noteq> []" and tables: "calm (ow_cfg w)" "calm (ow_ses w)" "cfg_inv (ow_cfg w)"
    and fresh: "lookup (ow_cfg w) (mkey (tenant_pk slug) tenant_sk) = None"
    and packs: "normalize_packs packs = Inr ns" and format: "format \<in> {''cfn'', ''tf'', ''cli''}"
    and svc: "answering svc" and draws: "good_draws d3" "good_draws d4"
  shows "\<exists>st w1 w2 art w3 w4 m w5 w6.
    wizard_create_tenant d1 \<lparr>wt_slug = slug, wt_display_name = name, wt_domain = domain, wt_created_by = by\<rparr> w = (Inr st, w1) \<and>
    set_capabilities d2 slug packs w1 = (Inr (), w2) \<and>
    generate_iac svc d3 slug format w2 = (Inr art, w3) \<and>
    register_identity svc d4 slug idn w3 = (Inr (), w4) \<and>
    probe_capabilities svc d5 slug w4 = (Inr m, w5) \<and>
    complete_onboarding d6 slug w5 = (Inr (), w6) \<and> cfg_inv (ow_cfg w5) \<and> calm (ow_ses w4) \<and>
    (\<exists>st4. onboarding_get slug (ow_ses w4) = Inr st4 \<and> os_current_step st4 = step_identity \<and>
       os_capabilities st4 = ns \<and> os_external_id st4 \<noteq> [])"
proof -
  obtain st w1 where 1: "wizard_create_tenant d1 \<lparr>wt_slug = slug, wt_display_name = name, wt_domain = domain,
      wt_created_by = by\<rparr> w = (Inr st, w1)" "ready w1 slug ((initial_wizard slug)\<lparr>os_updated_at := od_now d1\<rparr>)"
    using create_progress [OF slug tables fresh] by blast
  obtain w2 st2 where 2: "set_capabilities d2 slug packs w1 = (Inr (), w2)" "ready w2 slug st2"
    "os_capabilities st2 = ns"
    using select_progress [OF 1(2) _ packs, of d2] by (auto simp: initial_wizard_def wizard_steps)
  obtain bytes where bytes: "od_rnd d3 = Some bytes" "bytes \<noteq> []"
    using draws(1) by (auto simp: good_draws_def split: option.splits)
  obtain ext where ext: "wizard_external_id d3 st2 = Inr ext" "ext \<noteq> []"
    using external_id_progress [OF bytes] by blast
  have "\<And>s. \<exists>art. render_artifact svc slug format s = Inr art" using svc by (simp add: answering_def)
  then obtain art w3 where 3: "generate_iac svc d3 slug format w2 = (Inr art, w3)"
    "ready w3 slug ((template_state st2 ext)\<lparr>os_updated_at := od_now d3\<rparr>)"
    using template_progress [OF 2(2) _ ext(1) format, of svc] 2(3) normalize_nonempty [OF packs] by blast
  obtain i where "generate_id (od_rnd d4) = Inr i" using good_draws_id [OF draws(2)] by blast
  then obtain w4 src srcs st4 where 4: "register_identity svc d4 slug idn w3 = (Inr (), w4)" "ready w4 slug st4"
    "os_current_step st4 = step_identity" "os_capabilities st4 = ns" "os_external_id st4 \<noteq> []" "source_list slug (ow_cfg w4) = Inr (src # srcs)"
    using identity_progress [OF 3(2) _ _, of d4 i svc idn] ext(2) 2(3) svc
    by (auto simp: template_state_def answering_def)
  obtain m w5 where 5: "probe_capabilities svc d5 slug w4 = (Inr m, w5)"
    "ready w5 slug (st4\<lparr>os_capability_map := m, os_current_step := step_probe, os_updated_at := od_now d5\<rparr>)"
    using probe_progress [OF 4(2) _ svc 4(6), of d5] 4(3) by auto
  obtain w6 where 6: "complete_onboarding d6 slug w5 = (Inr (), w6)"
    using complete_progress [OF 5(2), of d6] by auto
  have "cfg_inv (ow_cfg w5)" using 5(2) by (simp add: ready_def)
  moreover have "calm (ow_ses w4)" "onboarding_get slug (ow_ses w4) = Inr st4"
    using 4(2) by (simp_all add: ready_def)
  ultimately show ?thesis using 1(1) 2(1) 3(1) 4(1,3-5) 5(1) 6 by blast
qed

subsection \<open>A wizard from start to end\<close>

definition demo_prober :: capability_prober where
  "demo_prober role actions resources = Inr (\<lambda>a. a \<noteq> ''cognito-idp:ListUsers'')"

definition demo_service :: "unit onb_service" where
  "demo_service = \<lparr>ob_has_sources = True, ob_renderer = None, ob_publisher = None,
     ob_sts_assumer = Some (\<lambda>_. Inr ()), ob_prober_factory = Some (\<lambda>_. demo_prober),
     ob_saas_account_id = ''123456789012'', ob_saas_principal_name = ''gateway'', ob_region = ''eu-west-1'',
     ob_allow_unprobed_capabilities = False\<rparr>"

definition demo_draw :: onb_draws where
  "demo_draw = \<lparr>od_now = 5, od_rnd = Some (replicate 16 7), od_step = Some [1], od_scoped_reversed = False\<rparr>"

definition demo_identity :: identity_input where
  "demo_identity = \<lparr>ii_role_arn = ''arn:aws:iam::1:role/gw'', ii_pool_id = ''p_1'', ii_client_id = ''c1'',
     ii_secret_arn = ''arn:s'', ii_region = ''eu-west-1'', ii_domain = []\<rparr>"

definition demo_start :: onb_world where
  "demo_start = \<lparr>ow_cfg = empty_db, ow_ses = empty_db, ow_audit = \<lparr>seq_num = 0, audit_db = empty_db\<rparr>\<rparr>"

lemma demo_conditions:
  "valid_slug ''acme''" "normalize_packs [pack_user_directory] = Inr [pack_core, pack_user_directory]"
  "good_draws demo_draw" "\<not> ob_allow_unprobed_capabilities demo_service" "ob_renderer demo_service = None"
  "calm (ow_cfg demo_start)" "calm (ow_ses demo_start)" "cfg_inv (ow_cfg demo_start)"
  "lookup (ow_cfg demo_start) (mkey (tenant_pk ''acme'') tenant_sk) = None"
  "answering demo_service" "onb_run demo_service [] demo_start"
proof -
  show "calm (ow_cfg demo_start)" "calm (ow_ses demo_start)"
    by (simp_all add: demo_start_def calm_def empty_db_def)
  show "cfg_inv (ow_cfg demo_start)" by (simp add: demo_start_def)
  show "lookup (ow_cfg demo_start) (mkey (tenant_pk ''acme'') tenant_sk) = None"
    by (simp add: demo_start_def empty_db_def lookup_def)
  show "onb_run demo_service [] demo_start"
    by (rule run_start) (simp add: demo_start_def wizard_def empty_db_def lookup_def)
qed (simp_all add: valid_slug_def normalize_packs_def allowed_packs_def pack_defs good_draws_def demo_draw_def
    demo_service_def answering_def render_artifact_def demo_prober_def)

lemma demo_run:
  "\<exists>w4 m w5 w6 ext st4.
     probe_capabilities demo_service demo_draw ''acme'' w4 = (Inr m, w5) \<and>
     complete_onboarding demo_draw ''acme'' w5 = (Inr (), w6) \<and>
     onb_run demo_service [EvProbed ''acme'' m, EvIdentity ''acme'', EvTemplate ''acme'' ext,
       EvSelected ''acme'' [pack_user_directory], EvCreated ''acme''] w5 \<and> cfg_inv (ow_cfg w5) \<and> calm (ow_ses w4) \<and>
     onboarding_get ''acme'' (ow_ses w4) = Inr st4 \<and> os_current_step st4 = step_identity \<and>
     os_capabilities st4 = [pack_core, pack_user_directory] \<and> os_external_id st4 \<noteq> []"
proof -
  obtain st w1 w2 art w3 w4 m w5 w6 st4 where
    s1: "wizard_create_tenant demo_draw \<lparr>wt_slug = ''acme'', wt_display_name = ''Acme'', wt_domain = [],
      wt_created_by = []\<rparr> demo_start = (Inr st, w1)"
    and s2: "set_capabilities demo_draw ''acme'' [pack_user_directory] w1 = (Inr (), w2)"
    and s3: "generate_iac demo_service demo_draw ''acme'' ''cfn'' w2 = (Inr art, w3)"
    and s4: "register_identity demo_service demo_draw ''acme'' demo_identity w3 = (Inr (), w4)"
    and s5: "probe_capabilities demo_service demo_draw ''acme'' w4 = (Inr m, w5)"
    and s6: "complete_onboarding demo_draw ''acme'' w5 = (Inr (), w6)" "cfg_inv (ow_cfg w5)" "calm (ow_ses w4)"
      "onboarding_get ''acme'' (ow_ses w4) = Inr st4" "os_current_step st4 = step_identity"
      "os_capabilities st4 = [pack_core, pack_user_directory]" "os_external_id st4 \<noteq> []"
    using wizard_goes_through [OF demo_conditions(1) _ demo_conditions(6-9,2) _ demo_conditions(10,3,3),
        of "''Acme''" "''cfn''" demo_draw "[]" "[]" demo_draw demo_identity demo_draw demo_draw] by blast
  note r1 = run_create [OF demo_conditions(11) s1, simplified]
  note r5 = run_probe [OF run_identity [OF run_template [OF run_select [OF r1 s2] s3] s4] s5]
  show ?thesis using s5 s6 r5 by blast
qed

end
