(* ===== verification/OnboardingProps.thy ===== *)
theory OnboardingProps
  imports OnboardingLive
begin

text \<open>
  What a completed onboarding and a probe are worth, that a wizard can be carried to its end, and where
  the order of the steps is weaker than the guard of the second step means it to be.
\<close>

subsection \<open>Properties\<close>

lemma tenant_update_row:
  assumes "tenant_update now t d = (Inr u, d')"
  shows "\<exists>r c. lookup d' (mkey (tenant_pk (t_slug t)) tenant_sk) = Some r \<and>
    r_item r = TenantItem (t\<lparr>t_created_at := c, t_updated_at := now\<rparr>)"
proof -
  obtain c where "db_put (cfg_row (tenant_pk (t_slug t)) tenant_sk
      (TenantItem (t\<lparr>t_created_at := c, t_updated_at := now\<rparr>))) d = (Inr (), d')"
    using assms by (auto simp: tenant_update_def Let_def split: if_splits sum.splits prod.splits)
  from db_put_ok [OF this, of "mkey (tenant_pk (t_slug t)) tenant_sk"] show ?thesis
    by (auto simp: cfg_row_def row_key_def)
qed

text \<open>C32: However the wizards of all tenants were driven, when one completes, its last step was a probe,
  and the tenant becomes active with exactly the report of that probe, which covers the packs that
  were selected last and no others; the wizard is gone.\<close>

theorem completed_was_probed:
  assumes run: "onb_run svc log w" and inv: "cfg_inv (ow_cfg w)"
    and c: "complete_onboarding dw slug w = (Inr (), w')"
  shows "\<exists>m packs caps r t. last_event log slug = Some (EvProbed slug m) \<and>
    selected log slug = Some packs \<and> normalize_packs packs = Inr caps \<and> set (map fst m) = set caps \<and>
    lookup (ow_cfg w') (mkey (tenant_pk slug) tenant_sk) = Some r \<and> r_item r = TenantItem t \<and>
    t_onboarding_state t = ''active'' \<and> t_capability_map t = m \<and> wizard (ow_ses w') slug = None"
proof -
  obtain st tnt where st: "wizard (ow_ses w) slug = Some st" "step_probe \<le> os_current_step st"
    and tnt: "tenant_get slug (ow_cfg w) = Inr tnt"
    and upd: "tenant_update (od_now dw) (tnt\<lparr>t_onboarding_state := ''active'',
      t_capability_map := os_capability_map st\<rparr>) (ow_cfg w) = (Inr (), ow_cfg w')"
    and gone: "wizard (ow_ses w') slug = None"
    using complete_row [OF c] by auto
  have ok: "wizard_ok log slug st"
    using run_wizards_ok [OF run] st(1) by (simp add: wizards_ok_def)
  have "step_identity \<le> os_current_step st" using st(2) by (simp add: wizard_steps)
  then obtain packs where "selected log slug = Some packs" "normalize_packs packs = Inr (os_capabilities st)"
    using ok by (auto simp: wizard_ok_def)
  moreover have "last_event log slug = Some (EvProbed slug (os_capability_map st))"
    "set (map fst (os_capability_map st)) = set (os_capabilities st)"
    using ok st(2) by (auto simp: wizard_ok_def)
  moreover have "t_slug tnt = slug" using tenant_get_slug [OF inv tnt] by simp
  ultimately show ?thesis
    using tenant_update_row [OF upd] gone by auto
qed

lemma completed_was_probed_witness:
  "\<exists>w w' m r t. complete_onboarding demo_draw ''acme'' w = (Inr (), w') \<and>
     lookup (ow_cfg w') (mkey (tenant_pk ''acme'') tenant_sk) = Some r \<and> r_item r = TenantItem t \<and>
     t_capability_map t = m \<and> set (map fst m) = {pack_core, pack_user_directory}"
proof -
  obtain m w5 w6 ext where r: "complete_onboarding demo_draw ''acme'' w5 = (Inr (), w6)" "cfg_inv (ow_cfg w5)"
    "onb_run demo_service [EvProbed ''acme'' m, EvIdentity ''acme'', EvTemplate ''acme'' ext,
       EvSelected ''acme'' [pack_user_directory], EvCreated ''acme''] w5"
    using demo_run by blast
  show ?thesis
    using completed_was_probed [OF r(3,2,1)] r(1) demo_conditions(2) by fastforce
qed

text \<open>The reference: what the simulator allows the role, asked for all actions of a pack at once and, for
  the core pack, for each of the scoped actions on its resource.\<close>

definition allows :: "capability_prober \<Rightarrow> string \<Rightarrow> string list \<Rightarrow> string list \<Rightarrow> bool" where
  "allows sim role actions resources =
     (case sim role actions resources of Inl _ \<Rightarrow> False | Inr decisions \<Rightarrow> list_all decisions actions)"

definition pack_granted :: "capability_prober \<Rightarrow> identity_source \<Rightarrow> string \<Rightarrow> bool" where
  "pack_granted sim src pack \<longleftrightarrow>
     (case pack_actions pack of
        None \<Rightarrow> False
      | Some actions \<Rightarrow> allows sim (s_role_arn src) actions [] \<and>
          (pack = pack_core \<longrightarrow>
             list_all (\<lambda>(a, rs). allows sim (s_role_arn src) [a] rs) (scoped_actions_for_core src)))"

lemma probe_scoped_allows:
  "probe_scoped sim role xs = Inr b \<Longrightarrow> b \<longleftrightarrow> list_all (\<lambda>(a, rs). allows sim role [a] rs) xs"
  by (induction sim role xs rule: probe_scoped.induct) (auto simp: allows_def split: sum.splits if_splits)

lemma probe_pack_granted:
  assumes "probe_pack sim reversed src pack = Inr b"
  shows "b \<longleftrightarrow> pack_granted sim src pack"
proof -
  have both: "list_all P ((if reversed then rev else id) xs) = list_all P xs" for P and xs :: "(string \<times> string list) list"
    by simp
  show ?thesis
    using assms probe_scoped_allows [of sim "s_role_arn src" "(if reversed then rev else id) (scoped_actions_for_core src)"]
    by (auto simp: probe_pack_def pack_granted_def allows_def all_allowed_def both
        split: option.splits sum.splits if_splits)
qed

text \<open>C33: In a deployed gateway, whose unprobed report is off, a probe that answers has assumed the role
  of the tenant's first identity source, and reports a selected pack as granted exactly when the
  policy simulator allows the role everything the pack needs, whatever the order the scoped actions
  were asked in; it reports nothing about other packs.\<close>

theorem probe_reports_simulation:
  assumes probe: "probe_capabilities svc dw slug w = (Inr m, w')"
    and deployed: "\<not> ob_allow_unprobed_capabilities svc"
  shows "\<exists>st src sources assume_role prober creds.
    onboarding_get slug (ow_ses w) = Inr st \<and> source_list slug (ow_cfg w) = Inr (src # sources) \<and>
    ob_sts_assumer svc = Some assume_role \<and> assume_role src = Inr creds \<and>
    ob_prober_factory svc = Some prober \<and>
    (\<forall>p. map_of m p =
       (if p \<in> set (os_capabilities st) then Some (pack_granted (prober creds) src p) else None))"
proof -
  obtain st src sources assume_role prober creds where
    p: "onboarding_get slug (ow_ses w) = Inr st" "source_list slug (ow_cfg w) = Inr (src # sources)"
      "ob_sts_assumer svc = Some assume_role" "assume_role src = Inr creds" "ob_prober_factory svc = Some prober"
    and m: "probe_packs (prober creds) (od_scoped_reversed dw) src (os_capabilities st) [] = Inr m"
    using probe deployed
    by (auto simp: probe_capabilities_def find_identity_source_def finalize_probe_def call_simps
        split: if_splits option.splits bool.splits sum.splits list.splits)
  have all: "\<exists>b. probe_pack sim reversed src q = Inr b"
    if "probe_packs sim reversed src packs acc = Inr m'" "q \<in> set packs" for sim reversed packs acc m' q
    using that by (induction packs arbitrary: acc) (auto split: sum.splits)
  have "map_of m q = (if q \<in> set (os_capabilities st) then Some (pack_granted (prober creds) src q) else None)" for q
    using probe_packs_map [OF m, of q] all [OF m, of q] probe_pack_granted by fastforce
  then show ?thesis using p by blast
qed

lemma probe_reports_simulation_witness:
  "\<exists>w m w'. probe_capabilities demo_service demo_draw ''acme'' w = (Inr m, w') \<and>
     map_of m pack_user_directory \<noteq> Some True"
proof -
  obtain w m w' where p: "probe_capabilities demo_service demo_draw ''acme'' w = (Inr m, w')"
    using demo_run by blast
  have refused: "\<not> pack_granted demo_prober src pack_user_directory" for src
    by (simp add: pack_granted_def pack_actions_def pack_defs allows_def demo_prober_def)
  have sim: "prober creds = demo_prober"
    if "ob_prober_factory demo_service = Some prober" for prober and creds :: unit
    using that by (auto simp: demo_service_def)
  show ?thesis
    using probe_reports_simulation [OF p demo_conditions(4)] p sim refused
    by (metis option.distinct(1) option.inject)
qed



text \<open>C34: A wizard can be carried through. For a slug of the permitted form that no tenant has, on tables
  that work, with a simulator, a role assumption and a renderer that answer, the six steps in their
  order all succeed, and the tenant ends active with the report of the probe.\<close>

theorem wizard_completes:
  assumes "valid_slug slug" and "name \<noteq> []" and "calm (ow_cfg w)" and "calm (ow_ses w)" and "cfg_inv (ow_cfg w)"
    and "lookup (ow_cfg w) (mkey (tenant_pk slug) tenant_sk) = None"
    and "normalize_packs packs = Inr ns" and "format \<in> {''cfn'', ''tf'', ''cli''}"
    and "answering svc" and "good_draws d3" and "good_draws d4"
  shows "\<exists>st w1 w2 art w3 w4 m w5 w6 r t.
    wizard_create_tenant d1 \<lparr>wt_slug = slug, wt_display_name = name, wt_domain = domain, wt_created_by = by\<rparr> w = (Inr st, w1) \<and>
    set_capabilities d2 slug packs w1 = (Inr (), w2) \<and>
    generate_iac svc d3 slug format w2 = (Inr art, w3) \<and>
    register_identity svc d4 slug idn w3 = (Inr (), w4) \<and>
    probe_capabilities svc d5 slug w4 = (Inr m, w5) \<and>
    complete_onboarding d6 slug w5 = (Inr (), w6) \<and>
    lookup (ow_cfg w6) (mkey (tenant_pk slug) tenant_sk) = Some r \<and> r_item r = TenantItem t \<and>
    t_onboarding_state t = ''active'' \<and> t_capability_map t = m"
proof -
  obtain st w1 w2 art w3 w4 m w5 w6 where
    s: "wizard_create_tenant d1 \<lparr>wt_slug = slug, wt_display_name = name, wt_domain = domain, wt_created_by = by\<rparr> w = (Inr st, w1)"
      "set_capabilities d2 slug packs w1 = (Inr (), w2)" "generate_iac svc d3 slug format w2 = (Inr art, w3)"
      "register_identity svc d4 slug idn w3 = (Inr (), w4)" "probe_capabilities svc d5 slug w4 = (Inr m, w5)"
      "complete_onboarding d6 slug w5 = (Inr (), w6)" "cfg_inv (ow_cfg w5)"
    using wizard_goes_through [OF assms, of d1 domain "by" d2 idn d5 d6] by blast
  obtain st5 tnt where c: "wizard (ow_ses w5) slug = Some st5" "tenant_get slug (ow_cfg w5) = Inr tnt"
    "tenant_update (od_now d6) (tnt\<lparr>t_onboarding_state := ''active'', t_capability_map := os_capability_map st5\<rparr>)
      (ow_cfg w5) = (Inr (), ow_cfg w6)"
    using complete_row [OF s(6)] by metis
  have "os_capability_map st5 = m" using probe_row [OF s(5)] c(1) by auto
  moreover have "t_slug tnt = slug" using tenant_get_slug [OF s(7) c(2)] by simp
  ultimately obtain r t where "lookup (ow_cfg w6) (mkey (tenant_pk slug) tenant_sk) = Some r" "r_item r = TenantItem t"
    "t_onboarding_state t = ''active''" "t_capability_map t = m"
    using tenant_update_row [OF c(3)] by auto
  then show ?thesis using s by blast
qed

lemma wizard_completes_witness:
  "\<exists>w5 w6 r t. complete_onboarding demo_draw ''acme'' w5 = (Inr (), w6) \<and>
     lookup (ow_cfg w6) (mkey (tenant_pk ''acme'') tenant_sk) = Some r \<and> r_item r = TenantItem t \<and>
     t_onboarding_state t = ''active''"
  using wizard_completes [OF demo_conditions(1) _ demo_conditions(6-9,2) _ demo_conditions(10,3,3),
      of "''Acme''" "''cfn''" demo_draw "[]" "[]" demo_draw demo_identity demo_draw demo_draw] by blast

end
