(* ===== verification/Certificates.thy ===== *)
theory Certificates
  imports Table
begin

text \<open>
  The signing certificates of \<^verbatim>\<open>internal/crypto\<close>: the signer over a KMS key (\<^verbatim>\<open>kms_signer.go\<close>), the
  certificates and requests it produces (\<^verbatim>\<open>certificate.go\<close>, \<^verbatim>\<open>csr.go\<close>), the three slots of the
  configuration table that hold them (\<^verbatim>\<open>cert_store.go\<close>), the choice of the signing key
  (\<^verbatim>\<open>cert_signer.go\<close>) and the rotation (\<^verbatim>\<open>cert_rotation.go\<close>).

  The PEM and X.509 codecs of the standard library are the fields of \<open>x509_env\<close>; the laws the code
  relies on are \<open>x509_ok\<close>. The certificate rows live under a partition key of their own, so they form
  a table of their own here. A serial number stands for its decimal text.
\<close>

subsection \<open>Keys and certificates\<close>

type_synonym modulus_exponent = "int \<times> int"

datatype cert_key = RsaKey modulus_exponent | OtherKey string

record certificate =
  x_raw :: string
  x_serial :: int
  x_subject :: string
  x_issuer :: string
  x_not_before :: gotime
  x_not_after :: gotime
  x_key :: cert_key

record cert_template =
  tp_serial :: int
  tp_common_name :: string
  tp_not_before :: gotime
  tp_not_after :: gotime
  tp_digital_signature :: bool
  tp_basic_constraints_valid :: bool

text \<open>
  A signer is the outcome of its first \<^verbatim>\<open>PublicKey\<close> call, which it caches: the RSA key, or nothing
  when KMS failed.
\<close>

type_synonym kms_signer = "modulus_exponent option"

text \<open>
  \<open>pem_next\<close> finds the first PEM block of a non-empty text: its type, its bytes, and one less than
  the number of bytes read. \<open>create_certificate\<close> self-signs a template with the key of a signer;
  it and \<open>create_request\<close> fail without a key or when KMS refuses to sign.
\<close>

record x509_env =
  pem_next :: "string \<Rightarrow> (string \<times> string \<times> nat) option"
  pem_encode :: "string \<Rightarrow> string \<Rightarrow> string"
  parse_certificate :: "string \<Rightarrow> certificate option"
  create_certificate :: "cert_template \<Rightarrow> kms_signer \<Rightarrow> string option"
  create_request :: "string \<Rightarrow> kms_signer \<Rightarrow> string option"

definition pem_decode :: "x509_env \<Rightarrow> string \<Rightarrow> (string \<times> string \<times> string) option" where
  "pem_decode E text =
     (if text = [] then None
      else map_option (\<lambda>(kind, body, n). (kind, body, drop (Suc n) text)) (pem_next E text))"

text \<open>
  The laws: an encoded block is read back and leaves nothing; a certificate is parsed from its raw
  bytes, which are those parsed; a created certificate has the fields of its template, the times cut to
  the second, and the key of its signer.
\<close>

definition whole_second :: "gotime \<Rightarrow> gotime" where
  "whole_second t = seconds (unix t)"

definition x509_ok :: "x509_env \<Rightarrow> bool" where
  "x509_ok E \<longleftrightarrow>
     (\<forall>kind body. pem_decode E (pem_encode E kind body) = Some (kind, body, [])) \<and>
     (\<forall>der c. parse_certificate E der = Some c \<longrightarrow> x_raw c = der) \<and>
     (\<forall>tmpl sg der. create_certificate E tmpl sg = Some der \<longrightarrow>
        (\<exists>k c. sg = Some k \<and> parse_certificate E der = Some c \<and> x_key c = RsaKey k \<and>
           x_serial c = tp_serial tmpl \<and> x_subject c = tp_common_name tmpl \<and>
           x_issuer c = tp_common_name tmpl \<and>
           x_not_before c = whole_second (tp_not_before tmpl) \<and>
           x_not_after c = whole_second (tp_not_after tmpl)))"

subsection \<open>Certificates and requests\<close>

definition days :: "int \<Rightarrow> duration" where
  "days n = hours (24 * n)"

definition self_signed_template :: "int \<Rightarrow> string \<Rightarrow> gotime \<Rightarrow> cert_template" where
  "self_signed_template serial entity now =
     \<lparr>tp_serial = serial, tp_common_name = entity, tp_not_before = now,
      tp_not_after = now + hours (2 * 365 * 24), tp_digital_signature = True,
      tp_basic_constraints_valid = True\<rparr>"

definition generate_self_signed_cert ::
  "x509_env \<Rightarrow> int option \<Rightarrow> gotime \<Rightarrow> kms_signer \<Rightarrow> string \<Rightarrow> certificate res" where
  "generate_self_signed_cert E rnd now sg entity =
     (case rnd of
        None \<Rightarrow> Inl (Wrap ''failed to generate serial number'' (ErrMsg ''rand''))
      | Some serial \<Rightarrow>
          (case create_certificate E (self_signed_template serial entity now) sg of
             None \<Rightarrow> Inl (Wrap ''failed to create certificate'' (ErrMsg ''x509''))
           | Some der \<Rightarrow>
               (case parse_certificate E der of
                  None \<Rightarrow> Inl (Wrap ''failed to parse certificate'' (ErrMsg ''x509''))
                | Some c \<Rightarrow> Inr c)))"

definition cert_to_pem :: "x509_env \<Rightarrow> certificate \<Rightarrow> string" where
  "cert_to_pem E c = pem_encode E ''CERTIFICATE'' (x_raw c)"

definition pem_to_cert :: "x509_env \<Rightarrow> string \<Rightarrow> certificate res" where
  "pem_to_cert E text =
     (case pem_decode E text of
        None \<Rightarrow> Inl (ErrMsg ''failed to decode PEM block'')
      | Some (kind, body, rest) \<Rightarrow>
          if kind \<noteq> ''CERTIFICATE''
          then Inl (ErrMsg (''PEM block type is '' @ kind @ '', expected CERTIFICATE''))
          else case parse_certificate E body of
              None \<Rightarrow> Inl (Wrap ''failed to parse certificate'' (ErrMsg ''x509''))
            | Some c \<Rightarrow> Inr c)"

definition source_self_signed :: string where "source_self_signed = ''self-signed''"
definition source_ca_issued :: string where "source_ca_issued = ''ca-issued''"

definition generate_csr :: "x509_env \<Rightarrow> kms_signer option \<Rightarrow> string \<Rightarrow> string res" where
  "generate_csr E sg entity =
     (case sg of
        None \<Rightarrow> Inl (ErrMsg ''signer is nil'')
      | Some pub \<Rightarrow>
          if pub = None then Inl (ErrMsg ''signer public key unavailable'')
          else case create_request E entity pub of
              None \<Rightarrow> Inl (Wrap ''failed to create certificate request'' (ErrMsg ''x509''))
            | Some der \<Rightarrow> Inr (pem_encode E ''CERTIFICATE REQUEST'' der))"

text \<open>The certificate blocks of a text in order; every block read shortens the rest.\<close>

function parse_cert_blocks :: "x509_env \<Rightarrow> string \<Rightarrow> certificate list res" where
  "parse_cert_blocks E rest =
     (case pem_decode E rest of
        None \<Rightarrow> Inr []
      | Some (kind, body, rest') \<Rightarrow>
          if kind \<noteq> ''CERTIFICATE'' then parse_cert_blocks E rest'
          else case parse_certificate E body of
              None \<Rightarrow> Inl (Wrap ''failed to parse certificate'' (ErrMsg ''x509''))
            | Some c \<Rightarrow>
                (case parse_cert_blocks E rest' of
                   Inl e \<Rightarrow> Inl e
                 | Inr cs \<Rightarrow> Inr (c # cs)))"
  by pat_completeness auto
termination
  by (relation "measure (\<lambda>(E, rest). length rest)")
    (auto simp: pem_decode_def split: if_splits)

declare parse_cert_blocks.simps [simp del]

definition parse_cert_chain_pem :: "x509_env \<Rightarrow> string \<Rightarrow> certificate list res" where
  "parse_cert_chain_pem E text =
     (case parse_cert_blocks E text of
        Inl e \<Rightarrow> Inl e
      | Inr certs \<Rightarrow>
          if certs = [] then Inl (ErrMsg ''no CERTIFICATE PEM block found'') else Inr certs)"

definition public_key_matches_signer :: "certificate option \<Rightarrow> kms_signer option \<Rightarrow> bool res" where
  "public_key_matches_signer cert sg =
     (case cert of
        None \<Rightarrow> Inl (ErrMsg ''certificate is nil'')
      | Some c \<Rightarrow>
          (case sg of
             None \<Rightarrow> Inl (ErrMsg ''signer is nil'')
           | Some pub \<Rightarrow>
               (case x_key c of
                  OtherKey k \<Rightarrow> Inl (ErrMsg ''certificate public key is not RSA'')
                | RsaKey (n, e) \<Rightarrow>
                    (case pub of
                       None \<Rightarrow> Inl (ErrMsg ''signer public key is not RSA'')
                     | Some (n', e') \<Rightarrow> Inr (n = n' \<and> e = e')))))"

subsection \<open>The certificate store\<close>

record cert_item =
  ci_pem :: string
  ci_not_before :: gotime
  ci_not_after :: gotime
  ci_serial :: int
  ci_created_at :: gotime
  ci_source :: string
  ci_kms_key_id :: string

type_synonym cert_db = "cert_item db"

definition cert_pk :: string where "cert_pk = ''SYSTEM#CONFIG''"
definition cert_active_sk :: string where "cert_active_sk = ''SYSTEM#SIGNING_CERT''"
definition cert_next_sk :: string where "cert_next_sk = ''SYSTEM#SIGNING_CERT_NEXT''"
definition cert_backup_sk :: string where "cert_backup_sk = ''SYSTEM#SIGNING_CERT_BACKUP''"

record cert_meta =
  cm_source :: string
  cm_kms_key_id :: string

record cert_record =
  cr_certificate :: certificate
  cr_source :: string
  cr_kms_key_id :: string

definition self_signed_meta :: cert_meta where
  "self_signed_meta = \<lparr>cm_source = source_self_signed, cm_kms_key_id = []\<rparr>"

definition get_cert_record :: "x509_env \<Rightarrow> string \<Rightarrow> cert_db \<Rightarrow> cert_record res" where
  "get_cert_record E sk d =
     (case db_get cert_pk sk d of
        Inl e \<Rightarrow> Inl e
      | Inr r \<Rightarrow>
          let it = r_item r in
          if ci_pem it = [] then Inl (ErrMsg ''cert PEM is empty'')
          else case pem_to_cert E (ci_pem it) of
              Inl e \<Rightarrow> Inl e
            | Inr c \<Rightarrow> Inr \<lparr>cr_certificate = c, cr_source = ci_source it,
                            cr_kms_key_id = ci_kms_key_id it\<rparr>)"

definition get_cert :: "x509_env \<Rightarrow> string \<Rightarrow> cert_db \<Rightarrow> certificate res" where
  "get_cert E sk d =
     (case get_cert_record E sk d of Inl e \<Rightarrow> Inl e | Inr rec \<Rightarrow> Inr (cr_certificate rec))"

definition cert_row :: "x509_env \<Rightarrow> gotime \<Rightarrow> string \<Rightarrow> certificate \<Rightarrow> cert_meta \<Rightarrow> cert_item row" where
  "cert_row E now sk c meta =
     \<lparr>r_pk = cert_pk, r_sk = sk, r_gsi1pk = None, r_gsi1sk = [],
      r_item = \<lparr>ci_pem = cert_to_pem E c, ci_not_before = x_not_before c, ci_not_after = x_not_after c,
                ci_serial = x_serial c, ci_created_at = now,
                ci_source = (if cm_source meta = [] then source_self_signed else cm_source meta),
                ci_kms_key_id = cm_kms_key_id meta\<rparr>\<rparr>"

definition store_cert ::
  "x509_env \<Rightarrow> gotime \<Rightarrow> string \<Rightarrow> certificate \<Rightarrow> cert_meta \<Rightarrow> cert_db \<Rightarrow> unit res \<times> cert_db" where
  "store_cert E now sk c meta d = db_put (cert_row E now sk c meta) d"

definition get_active_cert_expiry :: "cert_db \<Rightarrow> gotime res" where
  "get_active_cert_expiry d =
     (case db_get cert_pk cert_active_sk d of
        Inl e \<Rightarrow> Inl (Wrap ''no active cert'' e)
      | Inr r \<Rightarrow> Inr (ci_not_after (r_item r)))"

text \<open>The distinct certificates by serial number, active first; a slot that cannot be read is skipped.\<close>

fun add_certs :: "int list \<Rightarrow> certificate res list \<Rightarrow> certificate list" where
  "add_certs seen [] = []"
| "add_certs seen (Inl e # rs) = add_certs seen rs"
| "add_certs seen (Inr c # rs) =
     (if x_serial c \<in> set seen then add_certs seen rs
      else c # add_certs (x_serial c # seen) rs)"

definition get_all_certs :: "x509_env \<Rightarrow> cert_db \<Rightarrow> certificate list" where
  "get_all_certs E d =
     add_certs [] [get_cert E cert_active_sk d, get_cert E cert_next_sk d, get_cert E cert_backup_sk d]"

definition delete_next :: "cert_db \<Rightarrow> unit res \<times> cert_db" where
  "delete_next d = db_delete cert_pk cert_next_sk d"

definition delete_backup :: "cert_db \<Rightarrow> unit res \<times> cert_db" where
  "delete_backup d = db_delete cert_pk cert_backup_sk d"

definition promote_next_to_active :: "x509_env \<Rightarrow> gotime \<Rightarrow> cert_db \<Rightarrow> unit res \<times> cert_db" where
  "promote_next_to_active E now d =
     (case get_cert_record E cert_next_sk d of
        Inl e \<Rightarrow> (Inl (Wrap ''no next cert to promote'' e), d)
      | Inr rec \<Rightarrow>
          (case store_cert E now cert_active_sk (cr_certificate rec)
                  \<lparr>cm_source = cr_source rec, cm_kms_key_id = cr_kms_key_id rec\<rparr> d of
             (Inl e, d') \<Rightarrow> (Inl (Wrap ''failed to promote cert'' e), d')
           | (Inr _, d') \<Rightarrow> delete_next d'))"

definition promote_backup_to_active :: "x509_env \<Rightarrow> gotime \<Rightarrow> cert_db \<Rightarrow> unit res \<times> cert_db" where
  "promote_backup_to_active E now d =
     (case get_cert_record E cert_backup_sk d of
        Inl e \<Rightarrow> (Inl (Wrap ''no backup cert to promote'' e), d)
      | Inr rec \<Rightarrow>
          (case store_cert E now cert_active_sk (cr_certificate rec)
                  \<lparr>cm_source = cr_source rec, cm_kms_key_id = cr_kms_key_id rec\<rparr> d of
             (Inl e, d') \<Rightarrow> (Inl (Wrap ''failed to promote backup cert'' e), d')
           | (Inr _, d') \<Rightarrow> delete_backup d'))"

subsection \<open>The signing key\<close>

text \<open>\<^verbatim>\<open>SelectActiveSigner\<close>: the signer of the active certificate's key, the certificate, the key id.\<close>

definition select_active_signer ::
  "x509_env \<Rightarrow> string \<Rightarrow> (string \<Rightarrow> kms_signer) \<Rightarrow> cert_db \<Rightarrow> (kms_signer \<times> certificate \<times> string) res"
where
  "select_active_signer E primary new_signer d =
     (case get_cert_record E cert_active_sk d of
        Inl e \<Rightarrow> Inl e
      | Inr rec \<Rightarrow>
          let key = (if cr_kms_key_id rec \<noteq> [] then cr_kms_key_id rec else primary)
          in Inr (new_signer key, cr_certificate rec, key))"

subsection \<open>Rotation\<close>

record rotation_config =
  rc_window_days :: int
  rc_delay_days :: int

definition default_rotation_config :: rotation_config where
  "default_rotation_config = \<lparr>rc_window_days = 30, rc_delay_days = 14\<rparr>"

text \<open>
  The remaining time is kept in nanoseconds, where the code divides it into days of type
  \<^verbatim>\<open>float64\<close>; for windows below 341 days the conversion does not change the comparisons.
\<close>

record rotation_result =
  rr_remaining :: duration
  rr_action :: string

definition no_rotation :: "duration \<Rightarrow> rotation_result" where
  "no_rotation rem = \<lparr>rr_remaining = rem, rr_action = []\<rparr>"

text \<open>
  One check. \<open>later\<close> is the fault environment after the first read: a backend that answered it can
  fail afterwards. The result carries the error next to the report, as the code returns both.
\<close>

definition check_cert_rotation ::
  "x509_env \<Rightarrow> (dbop \<Rightarrow> bool) \<Rightarrow> gotime \<Rightarrow> int option \<Rightarrow> kms_signer \<Rightarrow> string \<Rightarrow> rotation_config \<Rightarrow> cert_db \<Rightarrow>
   (rotation_result \<times> unit res) \<times> cert_db" where
  "check_cert_rotation E later now rnd sg entity cfg d0 =
     (let d = d0\<lparr>fault := later\<rparr> in
      case get_active_cert_expiry d0 of
        Inl e \<Rightarrow>
          if \<not> errors_is e ErrNotFound
          then ((no_rotation 0, Inl (Wrap ''failed to read active cert expiry'' e)), d)
          else
            (case generate_self_signed_cert E rnd now sg entity of
               Inl g \<Rightarrow> ((no_rotation 0, Inl (Wrap ''failed to generate initial cert'' g)), d)
             | Inr c \<Rightarrow>
                 (case store_cert E now cert_active_sk c self_signed_meta d of
                    (Inl s, d') \<Rightarrow> ((no_rotation 0, Inl (Wrap ''failed to store initial cert'' s)), d')
                  | (Inr _, d') \<Rightarrow>
                      ((\<lparr>rr_remaining = x_not_after c - now, rr_action = ''generated_initial''\<rparr>,
                        Inr ()), d')))
      | Inr expiry \<Rightarrow>
          let rem = expiry - now;
              report = (\<lambda>action. \<lparr>rr_remaining = rem, rr_action = action\<rparr>)
          in if rem > days (rc_window_days cfg) then ((report ''no_action'', Inr ()), d)
          else if (case get_cert_record E cert_active_sk d of
                     Inl _ \<Rightarrow> False | Inr rec \<Rightarrow> cr_source rec = source_ca_issued)
          then ((report ''import_required'', Inr ()), d)
          else
            (case get_cert E cert_next_sk d of
               Inl e \<Rightarrow>
                 if \<not> errors_is e ErrNotFound
                 then ((no_rotation rem, Inl (Wrap ''failed to read staged next cert'' e)), d)
                 else
                   (case generate_self_signed_cert E rnd now sg entity of
                      Inl g \<Rightarrow> ((no_rotation rem, Inl (Wrap ''failed to generate next cert'' g)), d)
                    | Inr c \<Rightarrow>
                        (case store_cert E now cert_next_sk c self_signed_meta d of
                           (Inl s, d') \<Rightarrow> ((no_rotation rem, Inl (Wrap ''failed to store next cert'' s)), d')
                         | (Inr _, d') \<Rightarrow> ((report ''staged_next'', Inr ()), d')))
             | Inr _ \<Rightarrow>
                 if rem \<le> days (rc_window_days cfg - rc_delay_days cfg)
                 then
                   (case promote_next_to_active E now d of
                      (Inl p, d') \<Rightarrow> ((no_rotation rem, Inl (Wrap ''failed to promote cert'' p)), d')
                    | (Inr _, d') \<Rightarrow>
                        ((\<lparr>rr_remaining = (case get_active_cert_expiry d' of
                                               Inl _ \<Rightarrow> zero_time | Inr t \<Rightarrow> t) - now,
                           rr_action = ''promoted''\<rparr>, Inr ()), d'))
                 else ((report ''waiting_for_promotion'', Inr ()), d)))"

end
