(* ===== verification/CertManager.thy ===== *)
theory CertManager
  imports Certificates ApiTypes Codec
begin

text \<open>
  The certificate lifecycle of the management interface: \<^verbatim>\<open>internal/service/cert_manager.go\<close>, the
  description of a certificate (\<^verbatim>\<open>internal/service/certificate.go\<close>) and the endpoints of
  \<^verbatim>\<open>internal/api/health_handlers.go\<close>.
\<close>

subsection \<open>The description of a certificate\<close>

record cert_info =
  ct_subject :: string
  ct_issuer :: string
  ct_not_before :: gotime
  ct_not_after :: gotime
  ct_fingerprint :: string
  ct_days_remaining :: int
  ct_is_expired :: bool
  ct_pem_base64 :: string

definition hex_upper :: "char \<Rightarrow> string" where
  "hex_upper c =
     [''0123456789ABCDEF'' ! (of_char c div 16), ''0123456789ABCDEF'' ! (of_char c mod 16)]"

fun format_fingerprint :: "string \<Rightarrow> string" where
  "format_fingerprint [] = []"
| "format_fingerprint [b] = hex_upper b"
| "format_fingerprint (b # bs) = hex_upper b @ '':'' @ format_fingerprint bs"

text \<open>
  The conversion of a \<^verbatim>\<open>float64\<close> number of days to an integer drops the fraction; the rounding of the
  float near a whole number of days is not modelled. \<open>sha256\<close> is the hash function.
\<close>

definition whole_days :: "duration \<Rightarrow> int" where
  "whole_days t = (if t \<ge> 0 then t div days 1 else - ((- t) div days 1))"

definition build_cert_info :: "(string \<Rightarrow> string) \<Rightarrow> gotime \<Rightarrow> certificate \<Rightarrow> cert_info" where
  "build_cert_info sha256 now c =
     \<lparr>ct_subject = x_subject c, ct_issuer = x_issuer c, ct_not_before = x_not_before c,
      ct_not_after = x_not_after c, ct_fingerprint = format_fingerprint (sha256 (x_raw c)),
      ct_days_remaining = whole_days (x_not_after c - now), ct_is_expired = (x_not_after c < now),
      ct_pem_base64 = b64_encode StdAlphabet True (x_raw c)\<rparr>"

text \<open>The certificate service over the PEM text of the start-up certificate.\<close>

definition get_info :: "x509_env \<Rightarrow> (string \<Rightarrow> string) \<Rightarrow> gotime \<Rightarrow> string \<Rightarrow> cert_info res" where
  "get_info E sha256 now pem =
     (if pem = [] then Inl (ErrMsg ''certificate not available'')
      else case pem_decode E pem of
          None \<Rightarrow> Inl (ErrMsg ''failed to decode PEM certificate'')
        | Some (kind, body, rest) \<Rightarrow>
            (case parse_certificate E body of
               None \<Rightarrow> Inl (Wrap ''failed to parse certificate'' (ErrMsg ''x509''))
             | Some c \<Rightarrow> Inr (build_cert_info sha256 now c)))"

subsection \<open>The manager\<close>

record cert_manager =
  mg_primary :: "kms_signer option"
  mg_backup :: "kms_signer option"
  mg_primary_key_id :: string
  mg_backup_key_id :: string
  mg_entity_id :: string

record managed_cert =
  mc_role :: string
  mc_source :: string
  mc_kms_key_id :: string
  mc_info :: cert_info

definition role_active :: string where "role_active = ''active''"
definition role_backup :: string where "role_backup = ''backup''"

definition signer_for_role :: "cert_manager \<Rightarrow> string \<Rightarrow> (kms_signer option \<times> string) res" where
  "signer_for_role m role =
     (if role = role_active then Inr (mg_primary m, mg_primary_key_id m)
      else if role = role_backup
        then (if mg_backup m \<noteq> None then Inr (mg_backup m, mg_backup_key_id m)
              else Inr (mg_primary m, mg_primary_key_id m))
      else Inl (ErrMsg (''invalid certificate role '' @ role)))"

definition manager_generate_csr :: "x509_env \<Rightarrow> cert_manager \<Rightarrow> string \<Rightarrow> string res" where
  "manager_generate_csr E m role =
     (case signer_for_role m role of
        Inl e \<Rightarrow> Inl e
      | Inr (sg, key) \<Rightarrow>
          if sg = None then Inl (ErrMsg (''no signing key available for role '' @ role))
          else generate_csr E sg (mg_entity_id m))"

definition manager_import ::
  "x509_env \<Rightarrow> (string \<Rightarrow> string) \<Rightarrow> gotime \<Rightarrow> cert_manager \<Rightarrow> string \<Rightarrow> string \<Rightarrow> cert_db \<Rightarrow>
   managed_cert res \<times> cert_db" where
  "manager_import E sha256 now m role pem d =
     (case signer_for_role m role of
        Inl e \<Rightarrow> (Inl e, d)
      | Inr (sg, key) \<Rightarrow>
          if sg = None then (Inl (ErrMsg (''no signing key available for role '' @ role)), d)
          else
            (case parse_cert_chain_pem E pem of
               Inl e \<Rightarrow> (Inl (Wrap ''invalid certificate'' e), d)
             | Inr chain \<Rightarrow>
                 let leaf = hd chain in
                 (case public_key_matches_signer (Some leaf) sg of
                    Inl e \<Rightarrow> (Inl (Wrap ''cannot verify certificate key'' e), d)
                  | Inr matched \<Rightarrow>
                      if \<not> matched
                      then (Inl (ErrMsg (''certificate public key does not match the '' @ role @
                              '' signing key; the CA must sign the CSR generated for this key'')), d)
                      else
                        let meta = \<lparr>cm_source = source_ca_issued, cm_kms_key_id = key\<rparr>;
                            done = (Inr \<lparr>mc_role = role, mc_source = source_ca_issued,
                                     mc_kms_key_id = key, mc_info = build_cert_info sha256 now leaf\<rparr>)
                        in if role = role_active then
                             (case store_cert E now cert_active_sk leaf meta d of
                                (Inl e, d') \<Rightarrow> (Inl (Wrap ''failed to store active certificate'' e), d')
                              | (Inr _, d') \<Rightarrow> (done, d'))
                           else if role = role_backup then
                             (case store_cert E now cert_backup_sk leaf meta d of
                                (Inl e, d') \<Rightarrow> (Inl (Wrap ''failed to store backup certificate'' e), d')
                              | (Inr _, d') \<Rightarrow> (done, d'))
                           else (done, d))))"

definition default_source :: "string \<Rightarrow> string" where
  "default_source s = (if s = [] then source_self_signed else s)"

definition manager_list ::
  "x509_env \<Rightarrow> (string \<Rightarrow> string) \<Rightarrow> gotime \<Rightarrow> cert_db \<Rightarrow> managed_cert list" where
  "manager_list E sha256 now d =
     (let entry = (\<lambda>role sk.
        (case get_cert_record E sk d of
           Inl e \<Rightarrow> []
         | Inr rec \<Rightarrow>
             [\<lparr>mc_role = role, mc_source = default_source (cr_source rec),
               mc_kms_key_id = cr_kms_key_id rec,
               mc_info = build_cert_info sha256 now (cr_certificate rec)\<rparr>]))
      in entry role_active cert_active_sk @ entry role_backup cert_backup_sk)"

definition has_backup_key :: "cert_manager \<Rightarrow> bool" where
  "has_backup_key m \<longleftrightarrow> mg_backup m \<noteq> None \<and> mg_backup_key_id m \<noteq> []"

subsection \<open>The endpoints\<close>

record cert_entry =
  ce_id :: string
  ce_role :: string
  ce_status :: string
  ce_source :: string
  ce_kms_key_id :: string
  ce_info :: cert_info

definition cert_id_from_fingerprint :: "string \<Rightarrow> string" where
  "cert_id_from_fingerprint fp = take 8 (filter (\<lambda>c. c \<noteq> CHR '':'') fp)"

definition managed_to_entry :: "managed_cert \<Rightarrow> cert_entry" where
  "managed_to_entry mc =
     \<lparr>ce_id = cert_id_from_fingerprint (ct_fingerprint (mc_info mc)), ce_role = mc_role mc,
      ce_status = (if mc_role mc = role_backup then ''backup'' else ''active''),
      ce_source = mc_source mc, ce_kms_key_id = mc_kms_key_id mc, ce_info = mc_info mc\<rparr>"

definition normalize_role :: "string \<Rightarrow> string" where
  "normalize_role role = (if role = role_backup then role_backup else role_active)"

text \<open>The manager is absent where certificate management is not configured.\<close>

definition list_certificates ::
  "x509_env \<Rightarrow> (string \<Rightarrow> string) \<Rightarrow> gotime \<Rightarrow> cert_manager option \<Rightarrow> string \<Rightarrow> cert_db \<Rightarrow>
   cert_entry list api" where
  "list_certificates E sha256 now mgr start_pem d =
     (let entries = (case mgr of None \<Rightarrow> []
                     | Some m \<Rightarrow> map managed_to_entry (manager_list E sha256 now d)) in
      if entries \<noteq> [] then Inr entries
      else
        (case get_info E sha256 now start_pem of
           Inl e \<Rightarrow> Inl (503, ''certificate not available'')
         | Inr info \<Rightarrow>
             Inr [\<lparr>ce_id = cert_id_from_fingerprint (ct_fingerprint info), ce_role = role_active,
                   ce_status = ''active'', ce_source = ''self-signed'', ce_kms_key_id = [],
                   ce_info = info\<rparr>]))"

definition no_cert_management :: refusal where
  "no_cert_management = (501, ''certificate management not configured'')"

definition handle_csr ::
  "x509_env \<Rightarrow> cert_manager option \<Rightarrow> request_ctx \<Rightarrow> string \<Rightarrow> (string \<times> string) api" where
  "handle_csr E mgr cx role0 =
     (case require_global_operator cx
             ''forbidden: certificate signing is a gateway-global operation reserved for global operators'' of
        Inl e \<Rightarrow> Inl e
      | Inr _ \<Rightarrow>
          (case mgr of
             None \<Rightarrow> Inl no_cert_management
           | Some m \<Rightarrow>
               let role = normalize_role role0 in
               (case manager_generate_csr E m role of
                  Inl e \<Rightarrow> Inl (400, ''failed to generate CSR'')
                | Inr pem \<Rightarrow> Inr (role, pem))))"

record cert_action =
  ca_role :: string
  ca_status :: string
  ca_message :: string
  ca_fingerprint :: string
  ca_not_after :: "gotime option"

definition handle_import ::
  "x509_env \<Rightarrow> (string \<Rightarrow> string) \<Rightarrow> gotime \<Rightarrow> cert_manager option \<Rightarrow> request_ctx \<Rightarrow> string \<Rightarrow> string \<Rightarrow>
   cert_db \<Rightarrow> cert_action api \<times> cert_db" where
  "handle_import E sha256 now mgr cx role0 pem d =
     (case require_global_operator cx
             ''forbidden: certificate import is a gateway-global operation reserved for global operators'' of
        Inl e \<Rightarrow> (Inl e, d)
      | Inr _ \<Rightarrow>
          (case mgr of
             None \<Rightarrow> (Inl no_cert_management, d)
           | Some m \<Rightarrow>
               (case manager_import E sha256 now m (normalize_role role0) pem d of
                  (Inl e, d') \<Rightarrow> (Inl (400, ''failed to import certificate''), d')
                | (Inr mc, d') \<Rightarrow>
                    (Inr \<lparr>ca_role = mc_role mc, ca_status = ''imported'',
                       ca_message = ''Certificate imported successfully'',
                       ca_fingerprint = ct_fingerprint (mc_info mc),
                       ca_not_after = Some (ct_not_after (mc_info mc))\<rparr>, d'))))"

definition handle_promote_backup ::
  "x509_env \<Rightarrow> gotime \<Rightarrow> cert_manager option \<Rightarrow> request_ctx \<Rightarrow> cert_db \<Rightarrow> cert_action api \<times> cert_db"
where
  "handle_promote_backup E now mgr cx d =
     (case require_global_operator cx
             ''forbidden: certificate promotion is a gateway-global operation reserved for global operators'' of
        Inl e \<Rightarrow> (Inl e, d)
      | Inr _ \<Rightarrow>
          (case mgr of
             None \<Rightarrow> (Inl no_cert_management, d)
           | Some m \<Rightarrow>
               (case promote_backup_to_active E now d of
                  (Inl e, d') \<Rightarrow> (Inl (400, ''failed to promote backup certificate''), d')
                | (Inr _, d') \<Rightarrow>
                    (Inr \<lparr>ca_role = role_active, ca_status = ''promoted'',
                       ca_message = ''Backup certificate promoted to active'',
                       ca_fingerprint = [], ca_not_after = None\<rparr>, d'))))"

end
