(* ===== verification/CertReach.thy ===== *)
theory CertReach
  imports CertManager
begin

text \<open>
  What the operations on the signing certificates keep: every stored certificate reads back and wraps
  the public key of the key id recorded with it, in every table the lifecycle can produce.
\<close>

subsection \<open>The lifecycle\<close>

text \<open>
  The keys of KMS are a function of their id. The manager is wired as \<^verbatim>\<open>cmd/management-api\<close> does: the
  primary signer always, the backup signer exactly when its key id is set.
\<close>

definition manager_wired :: "(string \<Rightarrow> kms_signer) \<Rightarrow> cert_manager \<Rightarrow> bool" where
  "manager_wired keys m \<longleftrightarrow>
     mg_primary m = Some (keys (mg_primary_key_id m)) \<and>
     mg_backup m = (if mg_backup_key_id m = [] then None else Some (keys (mg_backup_key_id m)))"

datatype cert_op =
    Rotate "dbop \<Rightarrow> bool" gotime "int option" rotation_config
  | Import request_ctx gotime string string
  | PromoteBackup request_ctx gotime
  | Faults "dbop \<Rightarrow> bool"

definition apply_cert_op ::
  "x509_env \<Rightarrow> (string \<Rightarrow> string) \<Rightarrow> (string \<Rightarrow> kms_signer) \<Rightarrow> cert_manager \<Rightarrow> cert_op \<Rightarrow> cert_db \<Rightarrow> cert_db"
where
  "apply_cert_op E sha256 keys m op d =
     (case op of
        Rotate later now rnd cfg \<Rightarrow>
          snd (check_cert_rotation E later now rnd (keys (mg_primary_key_id m)) (mg_entity_id m) cfg d)
      | Import cx now role pem \<Rightarrow> snd (handle_import E sha256 now (Some m) cx role pem d)
      | PromoteBackup cx now \<Rightarrow> snd (handle_promote_backup E now (Some m) cx d)
      | Faults f \<Rightarrow> d\<lparr>fault := f\<rparr>)"

inductive cert_reach ::
  "x509_env \<Rightarrow> (string \<Rightarrow> string) \<Rightarrow> (string \<Rightarrow> kms_signer) \<Rightarrow> cert_manager \<Rightarrow> cert_db \<Rightarrow> bool"
  for E sha256 keys m where
  cert_reach_empty: "cert_reach E sha256 keys m empty_db"
| cert_reach_op: "cert_reach E sha256 keys m d \<Longrightarrow>
    cert_reach E sha256 keys m (apply_cert_op E sha256 keys m op d)"

subsection \<open>Reading back\<close>

definition key_of :: "(string \<Rightarrow> kms_signer) \<Rightarrow> string \<Rightarrow> string \<Rightarrow> kms_signer" where
  "key_of keys primary key = keys (if key = [] then primary else key)"

definition cert_item_ok :: "x509_env \<Rightarrow> (string \<Rightarrow> kms_signer) \<Rightarrow> string \<Rightarrow> cert_item \<Rightarrow> bool" where
  "cert_item_ok E keys primary it \<longleftrightarrow>
     (\<exists>c k. ci_pem it \<noteq> [] \<and> pem_to_cert E (ci_pem it) = Inr c \<and> ci_not_after it = x_not_after c \<and>
        parse_certificate E (x_raw c) = Some c \<and> ci_source it \<noteq> [] \<and>
        key_of keys primary (ci_kms_key_id it) = Some k \<and> x_key c = RsaKey k)"

definition cert_inv :: "x509_env \<Rightarrow> (string \<Rightarrow> kms_signer) \<Rightarrow> string \<Rightarrow> cert_db \<Rightarrow> bool" where
  "cert_inv E keys primary d \<longleftrightarrow>
     (\<forall>k r. lookup d k = Some r \<longrightarrow> cert_item_ok E keys primary (r_item r))"

definition slot_key :: "string \<Rightarrow> string" where
  "slot_key sk = mkey cert_pk sk"

lemma slot_key_inject [simp]: "slot_key a = slot_key b \<longleftrightarrow> a = b"
  by (simp add: slot_key_def mkey_def)

lemma slots_distinct [simp]:
  "cert_active_sk \<noteq> cert_next_sk" "cert_next_sk \<noteq> cert_active_sk"
  "cert_active_sk \<noteq> cert_backup_sk" "cert_backup_sk \<noteq> cert_active_sk"
  "cert_next_sk \<noteq> cert_backup_sk" "cert_backup_sk \<noteq> cert_next_sk"
  by (simp_all add: cert_active_sk_def cert_next_sk_def cert_backup_sk_def)

lemma pem_round:
  assumes "x509_ok E" and "parse_certificate E (x_raw c) = Some c"
  shows "pem_to_cert E (cert_to_pem E c) = Inr c" and "cert_to_pem E c \<noteq> []"
proof -
  have "pem_decode E (cert_to_pem E c) = Some (''CERTIFICATE'', x_raw c, [])"
    using assms(1) by (simp add: x509_ok_def cert_to_pem_def)
  then show "pem_to_cert E (cert_to_pem E c) = Inr c" and "cert_to_pem E c \<noteq> []"
    using assms(2) by (auto simp: pem_to_cert_def pem_decode_def)
qed

lemma parsed_raw: "x509_ok E \<Longrightarrow> parse_certificate E der = Some c \<Longrightarrow> parse_certificate E (x_raw c) = Some c"
  by (auto simp: x509_ok_def)

lemma pem_to_cert_parsed:
  "x509_ok E \<Longrightarrow> pem_to_cert E pem = Inr c \<Longrightarrow> parse_certificate E (x_raw c) = Some c"
  by (auto simp: pem_to_cert_def parsed_raw split: option.splits prod.splits if_splits)

lemma chain_parsed:
  "x509_ok E \<Longrightarrow> parse_cert_blocks E pem = Inr cs \<Longrightarrow> c \<in> set cs \<Longrightarrow>
   parse_certificate E (x_raw c) = Some c"
proof (induction E pem arbitrary: cs rule: parse_cert_blocks.induct)
  case (1 E rest)
  show ?case
  proof (cases "pem_decode E rest")
    case None
    with 1 show ?thesis by (simp add: parse_cert_blocks.simps [of E rest])
  next
    case (Some b)
    obtain kind body rest' where b: "b = (kind, body, rest')" by (cases b) auto
    note eq = parse_cert_blocks.simps [of E rest] Some b
    show ?thesis
    proof (cases "kind = ''CERTIFICATE''")
      case False
      with 1 Some b show ?thesis by (simp add: eq)
    next
      case True
      with 1(4) obtain x xs where "parse_certificate E body = Some x"
        and "parse_cert_blocks E rest' = Inr xs" and "cs = x # xs"
        by (auto simp: eq split: option.splits sum.splits)
      with 1 Some b True show ?thesis by (auto simp: parsed_raw)
    qed
  qed
qed

lemma record_at:
  "get_cert_record E sk d = Inr rec \<longleftrightarrow>
     (\<exists>r c. lookup d (slot_key sk) = Some r \<and> \<not> fault d (OpGet (slot_key sk)) \<and>
        ci_pem (r_item r) \<noteq> [] \<and> pem_to_cert E (ci_pem (r_item r)) = Inr c \<and>
        rec = \<lparr>cr_certificate = c, cr_source = ci_source (r_item r),
               cr_kms_key_id = ci_kms_key_id (r_item r)\<rparr>)"
  by (auto simp: get_cert_record_def db_get_def slot_key_def Let_def
      split: option.splits sum.splits if_splits)

lemma cert_at:
  "get_cert E sk d = Inr c \<longleftrightarrow> (\<exists>rec. get_cert_record E sk d = Inr rec \<and> cr_certificate rec = c)"
  by (auto simp: get_cert_def split: sum.splits)

lemma stored_key [simp]: "row_key (cert_row E now sk c meta) = slot_key sk"
  by (simp add: row_key_def cert_row_def slot_key_def)

lemma store_cert_lookup:
  "lookup (snd (store_cert E now sk c meta d)) k =
     (if k = slot_key sk \<and> fst (store_cert E now sk c meta d) = Inr ()
      then Some (cert_row E now sk c meta) else lookup d k)"
proof (cases "store_cert E now sk c meta d")
  case (Pair v d')
  then show ?thesis
    using db_put_ok [of _ d d' k] db_put_err [of _ d _ d']
    by (cases v) (auto simp: store_cert_def)
qed

lemma delete_lookup:
  "lookup (snd (db_delete cert_pk sk d)) k =
     (if k = slot_key sk \<and> fst (db_delete cert_pk sk d) = Inr () then None else lookup d k)"
  by (auto simp: db_delete_def slot_key_def)

subsection \<open>The invariant\<close>

lemma cert_inv_empty: "cert_inv E keys primary empty_db"
  by (simp add: cert_inv_def)

lemma cert_inv_frame:
  "cert_inv E keys primary d \<Longrightarrow> (\<And>k. lookup d' k = lookup d k \<or> lookup d' k = None) \<Longrightarrow>
   cert_inv E keys primary d'"
  unfolding cert_inv_def by (metis option.distinct(1))

lemma cert_inv_fault [simp]: "cert_inv E keys primary (d\<lparr>fault := f\<rparr>) = cert_inv E keys primary d"
  by (simp add: cert_inv_def lookup_def)

lemma cert_inv_delete: "cert_inv E keys primary d \<Longrightarrow> cert_inv E keys primary (snd (db_delete cert_pk sk d))"
  by (erule cert_inv_frame) (simp add: delete_lookup)

lemma cert_inv_store:
  assumes "x509_ok E" and "cert_inv E keys primary d" and "parse_certificate E (x_raw c) = Some c"
    and "key_of keys primary (cm_kms_key_id meta) = Some k" and "x_key c = RsaKey k"
  shows "cert_inv E keys primary (snd (store_cert E now sk c meta d))"
proof -
  have "cert_item_ok E keys primary (r_item (cert_row E now sk c meta))"
    using pem_round [OF assms(1,3)] assms(3-5)
    by (auto simp: cert_item_ok_def cert_row_def source_self_signed_def)
  with assms(2) show ?thesis
    by (simp add: cert_inv_def store_cert_lookup)
qed

lemma record_matches:
  assumes "cert_inv E keys primary d" and "get_cert_record E sk d = Inr rec"
  obtains k where "key_of keys primary (cr_kms_key_id rec) = Some k"
    and "x_key (cr_certificate rec) = RsaKey k"
    and "parse_certificate E (x_raw (cr_certificate rec)) = Some (cr_certificate rec)"
proof -
  obtain r c where r: "lookup d (slot_key sk) = Some r" "pem_to_cert E (ci_pem (r_item r)) = Inr c"
    "rec = \<lparr>cr_certificate = c, cr_source = ci_source (r_item r),
            cr_kms_key_id = ci_kms_key_id (r_item r)\<rparr>"
    using assms(2) by (auto simp: record_at)
  then have "cert_item_ok E keys primary (r_item r)"
    using assms(1) by (auto simp: cert_inv_def)
  with r that show thesis by (auto simp: cert_item_ok_def)
qed

lemma generated_key:
  assumes "x509_ok E" and "generate_self_signed_cert E rnd now sg entity = Inr c"
  shows "parse_certificate E (x_raw c) = Some c" and "\<exists>k. sg = Some k \<and> x_key c = RsaKey k"
    and "x_not_after c = whole_second (now + hours (2 * 365 * 24))"
proof -
  obtain n der where g: "create_certificate E (self_signed_template n entity now) sg = Some der"
    "parse_certificate E der = Some c"
    using assms(2) by (auto simp: generate_self_signed_cert_def split: option.splits)
  from assms(1) g(1) have "\<exists>k c'. sg = Some k \<and> parse_certificate E der = Some c' \<and> x_key c' = RsaKey k \<and>
     x_not_after c' = whole_second (tp_not_after (self_signed_template n entity now))"
    unfolding x509_ok_def by blast
  with g(2) show "\<exists>k. sg = Some k \<and> x_key c = RsaKey k"
    and "x_not_after c = whole_second (now + hours (2 * 365 * 24))"
    by (auto simp: self_signed_template_def)
  show "parse_certificate E (x_raw c) = Some c"
    using parsed_raw [OF assms(1) g(2)] .
qed

lemma promote_inv:
  assumes "x509_ok E" and "cert_inv E keys primary d"
  shows "cert_inv E keys primary (snd (promote_next_to_active E now d))"
    and "cert_inv E keys primary (snd (promote_backup_to_active E now d))"
proof -
  have store: "cert_inv E keys primary (snd (store_cert E now cert_active_sk (cr_certificate rec)
      \<lparr>cm_source = cr_source rec, cm_kms_key_id = cr_kms_key_id rec\<rparr> d))"
    if "get_cert_record E sk d = Inr rec" for sk rec
    by (rule record_matches [OF assms(2) that]) (simp add: cert_inv_store [OF assms])
  show "cert_inv E keys primary (snd (promote_next_to_active E now d))"
    using assms(2) store [of cert_next_sk]
    by (auto simp: promote_next_to_active_def delete_next_def cert_inv_delete
        split: sum.splits prod.splits dest: spec)
  show "cert_inv E keys primary (snd (promote_backup_to_active E now d))"
    using assms(2) store [of cert_backup_sk]
    by (auto simp: promote_backup_to_active_def delete_backup_def cert_inv_delete
        split: sum.splits prod.splits dest: spec)
qed

lemma generate_store_inv:
  assumes "x509_ok E" and "cert_inv E keys primary d"
    and "generate_self_signed_cert E rnd now (keys primary) entity = Inr c"
  shows "cert_inv E keys primary (snd (store_cert E now' sk c self_signed_meta d))"
  using generated_key [OF assms(1,3)]
  by (auto intro!: cert_inv_store [OF assms(1,2)] simp: self_signed_meta_def key_of_def)

lemma rotation_inv:
  assumes "x509_ok E" and "cert_inv E keys primary d"
  shows "cert_inv E keys primary (snd (check_cert_rotation E later now rnd (keys primary) entity cfg d))"
proof -
  have d: "cert_inv E keys primary (d\<lparr>fault := later\<rparr>)" using assms(2) by simp
  have stored: "cert_inv E keys primary d'"
    if "generate_self_signed_cert E rnd now (keys primary) entity = Inr c"
      and "store_cert E now sk c self_signed_meta (d\<lparr>fault := later\<rparr>) = (v, d')" for c sk v d'
    using generate_store_inv [OF assms(1) d that(1), of now sk] that(2) by simp
  have promoted: "cert_inv E keys primary d'"
    if "promote_next_to_active E now (d\<lparr>fault := later\<rparr>) = (v, d')" for v d'
    using promote_inv(1) [OF assms(1) d, of now] that by simp
  show ?thesis
    using d by (auto simp: check_cert_rotation_def Let_def
        split: sum.split prod.split intro: stored promoted)
qed

lemma import_cases:
  assumes "manager_import E sha256 now m role pem d = (res, d')"
  obtains "d' = d" | sg key leaf chain sk where
    "signer_for_role m role = Inr (Some sg, key)" and "parse_cert_chain_pem E pem = Inr (leaf # chain)"
    and "public_key_matches_signer (Some leaf) (Some sg) = Inr True"
    and "sk = (if role = role_active then cert_active_sk else cert_backup_sk)"
    and "d' = snd (store_cert E now sk leaf \<lparr>cm_source = source_ca_issued, cm_kms_key_id = key\<rparr> d)"
proof (cases "d' = d")
  case False
  have role: "role = role_active \<or> role = role_backup"
    using assms False by (auto simp: manager_import_def signer_for_role_def split: if_splits)
  obtain sg key where s: "signer_for_role m role = Inr (Some sg, key)"
    using assms False by (auto simp: manager_import_def split: sum.splits prod.splits if_splits)
  obtain chain where c: "parse_cert_chain_pem E pem = Inr chain"
    using assms False s by (auto simp: manager_import_def split: sum.splits)
  then obtain leaf more where chain: "chain = leaf # more"
    by (cases chain) (auto simp: parse_cert_chain_pem_def split: sum.splits if_splits)
  have ok: "public_key_matches_signer (Some leaf) (Some sg) = Inr True"
    using assms False s c chain by (auto simp: manager_import_def split: sum.splits if_splits)
  have "d' = snd (store_cert E now (if role = role_active then cert_active_sk else cert_backup_sk) leaf
      \<lparr>cm_source = source_ca_issued, cm_kms_key_id = key\<rparr> d)"
    using assms role by (auto simp: manager_import_def s c chain ok Let_def split: sum.splits prod.splits if_splits)
  with that(2) s c chain ok show thesis by blast
qed

lemma signer_for_role_key:
  assumes "manager_wired keys m" and "signer_for_role m role = Inr (Some sg, key)"
  shows "key_of keys (mg_primary_key_id m) key = sg"
  using assms by (auto simp: manager_wired_def signer_for_role_def key_of_def split: if_splits)

lemma matches_key:
  "public_key_matches_signer (Some c) (Some sg) = Inr True \<Longrightarrow> \<exists>k. sg = Some k \<and> x_key c = RsaKey k"
  by (auto simp: public_key_matches_signer_def split: cert_key.splits prod.splits option.splits)

lemma chain_leaf_parsed:
  "x509_ok E \<Longrightarrow> parse_cert_chain_pem E pem = Inr (leaf # chain) \<Longrightarrow>
   parse_certificate E (x_raw leaf) = Some leaf"
  by (auto simp: parse_cert_chain_pem_def chain_parsed split: sum.splits if_splits)

lemma import_inv:
  assumes "x509_ok E" and "manager_wired keys m" and "cert_inv E keys (mg_primary_key_id m) d"
  shows "cert_inv E keys (mg_primary_key_id m) (snd (manager_import E sha256 now m role pem d))"
proof (cases "manager_import E sha256 now m role pem d")
  case (Pair res d')
  from Pair show ?thesis
  proof (cases rule: import_cases)
    case 1
    with Pair assms(3) show ?thesis by simp
  next
    case (2 sg key leaf chain sk)
    obtain k where "sg = Some k" and "x_key leaf = RsaKey k" using matches_key [OF 2(3)] by auto
    then have "cert_inv E keys (mg_primary_key_id m)
        (snd (store_cert E now sk leaf \<lparr>cm_source = source_ca_issued, cm_kms_key_id = key\<rparr> d))"
      using signer_for_role_key [OF assms(2) 2(1)]
      by (intro cert_inv_store [OF assms(1,3) chain_leaf_parsed [OF assms(1) 2(2)]]) simp_all
    with Pair 2(5) show ?thesis by simp
  qed
qed

lemma handler_state:
  "snd (handle_import E sha256 now (Some m) cx role pem d) \<in>
     {d, snd (manager_import E sha256 now m (normalize_role role) pem d)}"
  "snd (handle_promote_backup E now (Some m) cx d) \<in> {d, snd (promote_backup_to_active E now d)}"
  by (auto simp: handle_import_def handle_promote_backup_def split: sum.splits prod.splits)

lemma cert_reach_inv:
  assumes "x509_ok E" and "manager_wired keys m" and "cert_reach E sha256 keys m d"
  shows "cert_inv E keys (mg_primary_key_id m) d"
  using assms(3)
proof induction
  case cert_reach_empty
  then show ?case by (rule cert_inv_empty)
next
  case (cert_reach_op d op)
  note inv = cert_reach_op.IH
  show ?case
  proof (cases op)
    case (Rotate later now rnd cfg)
    then show ?thesis by (simp add: apply_cert_op_def rotation_inv [OF assms(1) inv])
  next
    case (Import cx now role pem)
    then show ?thesis
      using handler_state(1) [of E sha256 now m cx role pem d] inv import_inv [OF assms(1,2) inv]
      by (auto simp: apply_cert_op_def)
  next
    case (PromoteBackup cx now)
    then show ?thesis
      using handler_state(2) [of E now m cx d] inv promote_inv(2) [OF assms(1) inv]
      by (auto simp: apply_cert_op_def)
  next
    case (Faults f)
    then show ?thesis using inv by (simp add: apply_cert_op_def)
  qed
qed

end
