(* ===== verification/CertProps.thy ===== *)
theory CertProps
  imports CertReach
begin

text \<open>
  The guarantees of the certificate lifecycle: the signing key follows the active certificate, an
  import pins the leaf to its key, rotation spares a certificate of a CA and keeps the gateway supplied
  with a valid one. The sample environment is a codec small enough to evaluate.
\<close>

subsection \<open>A sample codec and gateway\<close>

text \<open>
  A block is the length of its kind in unary, the kind and the body. The created certificate of serial
  number \<open>n\<close> is \<open>n\<close> bytes long, and its template is that of a check on day \<open>15 * n\<close>.
\<close>

definition gateway_key :: modulus_exponent where "gateway_key = (3233, 17)"
definition standby_key :: modulus_exponent where "standby_key = (3127, 17)"

definition demo_keys :: "string \<Rightarrow> kms_signer" where
  "demo_keys key = (if key = ''primary'' then Some gateway_key
                    else if key = ''standby'' then Some standby_key else None)"

definition demo_template :: "nat \<Rightarrow> cert_template" where
  "demo_template n = self_signed_template (int n) ''gateway'' (days (15 * int n))"

definition demo_self_signed :: "nat \<Rightarrow> certificate" where
  "demo_self_signed n =
     \<lparr>x_raw = replicate n CHR ''x'', x_serial = int n, x_subject = ''gateway'', x_issuer = ''gateway'',
      x_not_before = whole_second (days (15 * int n)),
      x_not_after = whole_second (days (15 * int n) + hours (2 * 365 * 24)),
      x_key = RsaKey gateway_key\<rparr>"

definition demo_leaf :: certificate where
  "demo_leaf =
     \<lparr>x_raw = ''leaf'', x_serial = 77, x_subject = ''gateway'', x_issuer = ''Corporate CA'',
      x_not_before = 0, x_not_after = days 365, x_key = RsaKey standby_key\<rparr>"

definition demo_x509 :: x509_env where
  "demo_x509 =
     \<lparr>pem_next = (\<lambda>text.
        let n = length (takeWhile (\<lambda>c. c = CHR ''1'') text); rest = drop (Suc n) text
        in Some (take n rest, drop n rest, length text)),
      pem_encode = (\<lambda>kind body. replicate (length kind) CHR ''1'' @ ''0'' @ kind @ body),
      parse_certificate = (\<lambda>der.
        if der = ''leaf'' then Some demo_leaf
        else if der = replicate (length der) CHR ''x'' then Some (demo_self_signed (length der))
        else None),
      create_certificate = (\<lambda>tmpl sg.
        if sg = Some gateway_key \<and> tmpl = demo_template (nat (tp_serial tmpl))
        then Some (replicate (nat (tp_serial tmpl)) CHR ''x'') else None),
      create_request = (\<lambda>entity sg. map_option (\<lambda>_. entity) sg)\<rparr>"

definition demo_manager :: cert_manager where
  "demo_manager =
     \<lparr>mg_primary = Some (Some gateway_key), mg_backup = Some (Some standby_key),
      mg_primary_key_id = ''primary'', mg_backup_key_id = ''standby'', mg_entity_id = ''gateway''\<rparr>"

definition demo_operator :: request_ctx where
  "demo_operator = empty_ctx\<lparr>cx_groups := Some [''GlobalOperators'']\<rparr>"

definition demo_pem :: string where
  "demo_pem = pem_encode demo_x509 ''CERTIFICATE'' ''leaf''"

lemma demo_decode: "pem_decode demo_x509 (pem_encode demo_x509 kind body) = Some (kind, body, [])"
proof -
  have "takeWhile (\<lambda>c. c = CHR ''1'') (replicate (length kind) CHR ''1'' @ CHR ''0'' # kind @ body) =
      replicate (length kind) CHR ''1''"
    by (simp add: takeWhile_append)
  then show ?thesis by (simp add: pem_decode_def demo_x509_def Let_def)
qed

lemma demo_x509_ok: "x509_ok demo_x509"
proof -
  have raw: "x_raw c = der" if "parse_certificate demo_x509 der = Some c" for der c
  proof (cases "der = ''leaf''")
    case True
    with that show ?thesis by (auto simp: demo_x509_def demo_leaf_def)
  next
    case False
    with that have "der = replicate (length der) CHR ''x''" and "c = demo_self_signed (length der)"
      by (auto simp: demo_x509_def split: if_splits)
    then show ?thesis by (metis certificate.select_convs(1) demo_self_signed_def)
  qed
  have made: "\<exists>k c. sg = Some k \<and> parse_certificate demo_x509 der = Some c \<and> x_key c = RsaKey k \<and>
      x_serial c = tp_serial tmpl \<and> x_subject c = tp_common_name tmpl \<and> x_issuer c = tp_common_name tmpl \<and>
      x_not_before c = whole_second (tp_not_before tmpl) \<and> x_not_after c = whole_second (tp_not_after tmpl)"
    if "create_certificate demo_x509 tmpl sg = Some der" for tmpl sg der
  proof -
    define n where "n = nat (tp_serial tmpl)"
    from that have t: "sg = Some gateway_key" "tmpl = demo_template n" "der = replicate n CHR ''x''"
      by (auto simp: demo_x509_def n_def split: if_splits)
    have "der \<noteq> ''leaf''"
      unfolding t(3) by (cases n) auto
    then have "parse_certificate demo_x509 der = Some (demo_self_signed n)"
      by (simp add: demo_x509_def t(3))
    then show ?thesis
      unfolding t(1,2) by (simp add: demo_self_signed_def demo_template_def self_signed_template_def)
  qed
  show ?thesis
    unfolding x509_ok_def using demo_decode raw made by blast
qed

lemma demo_manager_wired: "manager_wired demo_keys demo_manager"
  by (simp add: manager_wired_def demo_manager_def demo_keys_def)

text \<open>A gateway that made its first certificate, imported a standby one and promoted it.\<close>

definition demo_started :: cert_db where
  "demo_started = apply_cert_op demo_x509 id demo_keys demo_manager
     (Rotate (\<lambda>_. False) 0 (Some 0) default_rotation_config) empty_db"

definition demo_imported :: cert_db where
  "demo_imported = apply_cert_op demo_x509 id demo_keys demo_manager
     (Import demo_operator 0 ''backup'' demo_pem) demo_started"

definition demo_promoted :: cert_db where
  "demo_promoted = apply_cert_op demo_x509 id demo_keys demo_manager
     (PromoteBackup demo_operator 0) demo_imported"

lemma cert_demo_reach:
  "cert_reach demo_x509 id demo_keys demo_manager demo_started"
  "cert_reach demo_x509 id demo_keys demo_manager demo_imported"
  "cert_reach demo_x509 id demo_keys demo_manager demo_promoted"
  unfolding demo_started_def demo_imported_def demo_promoted_def
  by (intro cert_reach.intros)+

subsection \<open>The signing key\<close>

text \<open>C22: the signer chosen for the active certificate holds the key that certificate publishes.\<close>

theorem signer_matches_active:
  assumes "x509_ok E" and "manager_wired keys m" and "cert_reach E sha256 keys m d"
    and "select_active_signer E (mg_primary_key_id m) keys d = Inr (sg, c, key)"
  shows "\<exists>k. sg = Some k \<and> x_key c = RsaKey k"
proof -
  obtain rec where r: "get_cert_record E cert_active_sk d = Inr rec" "c = cr_certificate rec"
    "sg = key_of keys (mg_primary_key_id m) (cr_kms_key_id rec)"
    using assms(4) by (auto simp: select_active_signer_def key_of_def Let_def split: sum.splits)
  show ?thesis
    by (rule record_matches [OF cert_reach_inv [OF assms(1-3)] r(1)]) (simp add: r(2,3))
qed

theorem signer_matches_active_witness:
  "select_active_signer demo_x509 ''primary'' demo_keys demo_promoted =
     Inr (Some standby_key, demo_leaf, ''standby'') \<and>
   (\<exists>k. Some standby_key = Some k \<and> x_key demo_leaf = RsaKey k)"
proof -
  have s: "select_active_signer demo_x509 (mg_primary_key_id demo_manager) demo_keys demo_promoted =
      Inr (Some standby_key, demo_leaf, ''standby'')"
    by code_simp
  show ?thesis
    using s signer_matches_active [OF demo_x509_ok demo_manager_wired cert_demo_reach(3) s]
    by (simp add: demo_manager_def)
qed

subsection \<open>Imports\<close>

text \<open>
  C2: only a global operator's import changes a slot, and what it stores is the leaf of the uploaded
  chain, which wraps the key of that role.
\<close>

theorem import_pins_leaf:
  assumes "lookup (snd (handle_import E sha256 now mgr cx role pem d)) k \<noteq> lookup d k"
  shows "has_global_operator (ctx_groups cx) \<and>
    (\<exists>m sg key leaf chain n sk.
       mgr = Some m \<and> signer_for_role m (normalize_role role) = Inr (Some sg, key) \<and>
       parse_cert_chain_pem E pem = Inr (leaf # chain) \<and> sg = Some n \<and> x_key leaf = RsaKey n \<and>
       sk = (if normalize_role role = role_backup then cert_backup_sk else cert_active_sk) \<and>
       k = slot_key sk \<and>
       lookup (snd (handle_import E sha256 now mgr cx role pem d)) k =
         Some (cert_row E now sk leaf \<lparr>cm_source = source_ca_issued, cm_kms_key_id = key\<rparr>))"
proof -
  have op: "has_global_operator (ctx_groups cx)"
    using assms by (auto simp: handle_import_def require_global_operator_def split: if_splits)
  obtain m where m: "mgr = Some m"
    using assms by (cases mgr) (auto simp: handle_import_def split: sum.splits)
  obtain res d' where i: "manager_import E sha256 now m (normalize_role role) pem d = (res, d')"
    by (cases "manager_import E sha256 now m (normalize_role role) pem d")
  have after: "snd (handle_import E sha256 now mgr cx role pem d) = d'"
    using op by (auto simp: handle_import_def require_global_operator_def m i split: sum.split)
  have role: "(if normalize_role role = role_active then cert_active_sk else cert_backup_sk) =
      (if normalize_role role = role_backup then cert_backup_sk else cert_active_sk)"
    by (simp add: normalize_role_def role_active_def role_backup_def)
  from i show ?thesis
  proof (cases rule: import_cases)
    case 1
    with assms after show ?thesis by simp
  next
    case (2 sg key leaf chain sk)
    obtain n where n: "sg = Some n" "x_key leaf = RsaKey n" using matches_key [OF 2(3)] by auto
    have "k = slot_key sk \<and> lookup d' k =
        Some (cert_row E now sk leaf \<lparr>cm_source = source_ca_issued, cm_kms_key_id = key\<rparr>)"
      using assms unfolding after 2(5) store_cert_lookup by (auto split: if_splits)
    then show ?thesis
      unfolding after using op m 2(1,2) n 2(4) [unfolded role] by blast
  qed
qed

theorem import_pins_leaf_witness:
  "lookup (snd (handle_import demo_x509 id 0 (Some demo_manager) demo_operator ''backup'' demo_pem
     demo_started)) (slot_key cert_backup_sk) \<noteq> lookup demo_started (slot_key cert_backup_sk) \<and>
   has_global_operator (ctx_groups demo_operator)"
proof -
  have "lookup (snd (handle_import demo_x509 id 0 (Some demo_manager) demo_operator ''backup'' demo_pem
      demo_started)) (slot_key cert_backup_sk) \<noteq> None"
    by code_simp
  moreover have "lookup demo_started (slot_key cert_backup_sk) = None"
    by code_simp
  ultimately have c: "lookup (snd (handle_import demo_x509 id 0 (Some demo_manager) demo_operator ''backup''
      demo_pem demo_started)) (slot_key cert_backup_sk) \<noteq> lookup demo_started (slot_key cert_backup_sk)"
    by simp
  show ?thesis using c import_pins_leaf [OF c] by blast
qed

subsection \<open>Rotation\<close>

text \<open>
  C3: a rotation check leaves every slot as it is while the active certificate is one of a CA and stays
  readable, whatever else fails and whatever the schedule says.
\<close>

theorem rotation_spares_ca_issued:
  assumes "x509_ok E" and "manager_wired keys m" and "cert_reach E sha256 keys m d"
    and "lookup d (slot_key cert_active_sk) = Some r" and "ci_source (r_item r) = source_ca_issued"
    and "\<not> later (OpGet (slot_key cert_active_sk))"
  shows "lookup (snd (check_cert_rotation E later now rnd sg entity cfg d)) k = lookup d k"
proof -
  have fault: "lookup (d\<lparr>fault := later\<rparr>) k = lookup d k" for k by (simp add: lookup_def)
  obtain c where "ci_pem (r_item r) \<noteq> []" and "pem_to_cert E (ci_pem (r_item r)) = Inr c"
    using cert_reach_inv [OF assms(1-3)] assms(4) by (auto simp: cert_inv_def cert_item_ok_def)
  then have rec: "get_cert_record E cert_active_sk (d\<lparr>fault := later\<rparr>) =
      Inr \<lparr>cr_certificate = c, cr_source = source_ca_issued, cr_kms_key_id = ci_kms_key_id (r_item r)\<rparr>"
    using assms(4-6) by (simp add: record_at fault)
  have "get_active_cert_expiry d = (if fault d (OpGet (slot_key cert_active_sk))
      then Inl (Wrap ''no active cert'' ErrTransient) else Inr (ci_not_after (r_item r)))"
    using assms(4) by (simp add: get_active_cert_expiry_def db_get_def slot_key_def)
  then show ?thesis
    by (simp add: check_cert_rotation_def Let_def rec fault)
qed

text \<open>The imported certificate was promoted, and is about to expire when the check runs.\<close>

theorem rotation_spares_ca_issued_witness:
  "\<exists>r. lookup demo_promoted (slot_key cert_active_sk) = Some r \<and>
     ci_source (r_item r) = source_ca_issued \<and>
     lookup (snd (check_cert_rotation demo_x509 (\<lambda>_. False) (days 364) (Some 1) (Some gateway_key) ''gateway''
       default_rotation_config demo_promoted)) (slot_key cert_active_sk) = Some r"
proof -
  have ca: "map_option (ci_source \<circ> r_item) (lookup demo_promoted (slot_key cert_active_sk)) =
      Some source_ca_issued"
    by code_simp
  then obtain r where r: "lookup demo_promoted (slot_key cert_active_sk) = Some r"
    "ci_source (r_item r) = source_ca_issued" by auto
  show ?thesis
    using r rotation_spares_ca_issued [OF demo_x509_ok demo_manager_wired cert_demo_reach(3) r,
        of "\<lambda>_. False" "days 364" "Some 1" "Some gateway_key" "''gateway''" default_rotation_config]
    by simp
qed

end
