(* ===== verification/CertRotation.thy ===== *)
theory CertRotation
  imports CertProps
begin

text \<open>
  Rotation over time: a gateway whose table answers and whose key signs, checked at least every fifteen
  days, always has a valid signing certificate, and its successor is staged before it is needed.
\<close>

subsection \<open>Runs of checks\<close>

definition steady :: "cert_db \<Rightarrow> bool" where
  "steady d \<longleftrightarrow> fault d = (\<lambda>_. False)"

fun rotation_checks ::
  "x509_env \<Rightarrow> kms_signer \<Rightarrow> string \<Rightarrow> (gotime \<times> int option) list \<Rightarrow> cert_db \<Rightarrow> cert_db" where
  "rotation_checks E sg entity [] d = d"
| "rotation_checks E sg entity ((now, rnd) # cs) d =
     rotation_checks E sg entity cs
       (snd (check_cert_rotation E (\<lambda>_. False) now rnd sg entity default_rotation_config d))"

fun well_spaced :: "gotime \<Rightarrow> (gotime \<times> int option) list \<Rightarrow> bool" where
  "well_spaced t [] = True"
| "well_spaced t ((now, rnd) # cs) \<longleftrightarrow> t \<le> now \<and> now \<le> t + days 15 \<and> well_spaced now cs"

fun last_check :: "gotime \<Rightarrow> (gotime \<times> int option) list \<Rightarrow> gotime" where
  "last_check t [] = t"
| "last_check t ((now, rnd) # cs) = last_check now cs"

text \<open>The random source answers a check and the key signs the certificate it may need.\<close>

definition can_certify :: "x509_env \<Rightarrow> kms_signer \<Rightarrow> string \<Rightarrow> gotime \<times> int option \<Rightarrow> bool" where
  "can_certify E sg entity check \<longleftrightarrow>
     (case check of
        (now, None) \<Rightarrow> False
      | (now, Some n) \<Rightarrow> create_certificate E (self_signed_template n entity now) sg \<noteq> None)"

subsection \<open>One check\<close>

definition self_signed_at :: "x509_env \<Rightarrow> string \<Rightarrow> cert_db \<Rightarrow> gotime \<Rightarrow> bool" where
  "self_signed_at E sk d t \<longleftrightarrow>
     (\<exists>r c. lookup d (slot_key sk) = Some r \<and> ci_pem (r_item r) \<noteq> [] \<and>
        pem_to_cert E (ci_pem (r_item r)) = Inr c \<and> ci_not_after (r_item r) = t \<and> x_not_after c = t \<and>
        parse_certificate E (x_raw c) = Some c \<and>
        ci_source (r_item r) = source_self_signed)"

text \<open>What holds after a check: a staged successor outlives the active certificate by far.\<close>

definition supplied :: "x509_env \<Rightarrow> gotime \<Rightarrow> cert_db \<Rightarrow> bool" where
  "supplied E now d \<longleftrightarrow> steady d \<and>
     (\<exists>t. self_signed_at E cert_active_sk d t \<and> now + days 15 < t \<and>
        (lookup d (slot_key cert_next_sk) = None \<and> now + days 30 < t \<or>
         (\<exists>t'. self_signed_at E cert_next_sk d t' \<and> t + days 699 \<le> t')))"

lemma steady_fault: "steady d \<Longrightarrow> d\<lparr>fault := (\<lambda>_. False)\<rparr> = d"
  by (cases d) (simp add: steady_def)

lemma steady_get: "steady d \<Longrightarrow> db_get pk sk d =
    (case lookup d (mkey pk sk) of None \<Rightarrow> Inl ErrNotFound | Some r \<Rightarrow> Inr r)"
  by (simp add: steady_def db_get_def)

lemma steady_store:
  assumes "steady d"
  obtains d' where "store_cert E now sk c meta d = (Inr (), d')" and "steady d'"
    and "\<And>k. lookup d' k = (if k = slot_key sk then Some (cert_row E now sk c meta) else lookup d k)"
proof
  let ?r = "cert_row E now sk c meta"
  let ?d = "d\<lparr>data := AList.update (row_key ?r) ?r (data d)\<rparr>"
  have "r_pk ?r \<noteq> []" by (simp add: cert_row_def cert_pk_def)
  with assms show "store_cert E now sk c meta d = (Inr (), ?d)"
    by (simp add: store_cert_def db_put_def steady_def)
  show "steady ?d" using assms by (simp add: steady_def)
  show "lookup ?d k = (if k = slot_key sk then Some ?r else lookup d k)" for k by simp
qed

lemma steady_delete:
  assumes "steady d"
  obtains d' where "db_delete cert_pk sk d = (Inr (), d')" and "steady d'"
    and "\<And>k. lookup d' k = (if k = slot_key sk then None else lookup d k)"
proof
  let ?d = "d\<lparr>data := AList.delete (slot_key sk) (data d)\<rparr>"
  show "db_delete cert_pk sk d = (Inr (), ?d)" using assms by (simp add: db_delete_def steady_def slot_key_def)
  show "steady ?d" using assms by (simp add: steady_def)
  show "lookup ?d k = (if k = slot_key sk then None else lookup d k)" for k by simp
qed

lemma whole_second_bounds: "t - seconds 1 < whole_second t" "whole_second t \<le> t"
proof -
  have "nanos_per_sec * (t div nanos_per_sec) + t mod nanos_per_sec = t" by simp
  moreover have "0 \<le> t mod nanos_per_sec" "t mod nanos_per_sec < nanos_per_sec" by simp_all
  ultimately show "t - seconds 1 < whole_second t" "whole_second t \<le> t"
    by (simp_all only: whole_second_def seconds_def unix_def)
qed

lemma days_eq: "days n = 86400000000000 * n"
  by (simp add: days_def hours_def)

lemma generated:
  assumes "x509_ok E" and "can_certify E sg entity (now, rnd)"
  obtains c where "generate_self_signed_cert E rnd now sg entity = Inr c"
    and "parse_certificate E (x_raw c) = Some c" and "now + days 729 < x_not_after c"
proof -
  obtain n der where n: "rnd = Some n"
    "create_certificate E (self_signed_template n entity now) sg = Some der"
    using assms(2) by (auto simp: can_certify_def split: option.splits)
  then obtain c where "parse_certificate E der = Some c" using assms(1) unfolding x509_ok_def by blast
  with n have g: "generate_self_signed_cert E rnd now sg entity = Inr c"
    by (simp add: generate_self_signed_cert_def)
  have "now + days 729 < x_not_after c"
    using generated_key(3) [OF assms(1) g] whole_second_bounds(1) [of "now + hours (2 * 365 * 24)"]
    by (simp add: days_eq hours_def seconds_def)
  with that g generated_key(1) [OF assms(1) g] show thesis by blast
qed

lemma stored_self_signed:
  assumes "x509_ok E" and "parse_certificate E (x_raw c) = Some c"
    and "lookup d (slot_key sk) = Some (cert_row E now sk c meta)"
    and "cm_source meta = source_self_signed"
  shows "self_signed_at E sk d (x_not_after c)"
  using pem_round [OF assms(1,2)] assms(2-4)
  by (auto simp: self_signed_at_def cert_row_def)

lemma self_signed_frame:
  "self_signed_at E sk d t \<Longrightarrow> lookup d' (slot_key sk) = lookup d (slot_key sk) \<Longrightarrow> self_signed_at E sk d' t"
  by (simp add: self_signed_at_def)

lemma self_signed_record:
  assumes "steady d" and "self_signed_at E sk d t"
  obtains c key where "get_cert_record E sk d =
      Inr \<lparr>cr_certificate = c, cr_source = source_self_signed, cr_kms_key_id = key\<rparr>"
    and "get_cert E sk d = Inr c" and "x_not_after c = t"
    and "parse_certificate E (x_raw c) = Some c"
proof -
  obtain r c where r: "lookup d (slot_key sk) = Some r" "ci_pem (r_item r) \<noteq> []"
    "pem_to_cert E (ci_pem (r_item r)) = Inr c" "x_not_after c = t"
    "parse_certificate E (x_raw c) = Some c" "ci_source (r_item r) = source_self_signed"
    using assms(2) by (auto simp: self_signed_at_def)
  then have "get_cert_record E sk d =
      Inr \<lparr>cr_certificate = c, cr_source = source_self_signed, cr_kms_key_id = ci_kms_key_id (r_item r)\<rparr>"
    using assms(1) by (simp add: record_at steady_def)
  with that [of c "ci_kms_key_id (r_item r)"] r show thesis by (simp add: get_cert_def)
qed

lemma active_expiry:
  "steady d \<Longrightarrow> self_signed_at E cert_active_sk d t \<Longrightarrow> get_active_cert_expiry d = Inr t"
  by (auto simp: self_signed_at_def get_active_cert_expiry_def steady_get slot_key_def)

lemma promoted_supplied:
  assumes "x509_ok E" and "steady d" and "self_signed_at E cert_next_sk d t" and "now + days 30 < t"
  obtains d' where "promote_next_to_active E now d = (Inr (), d')" and "supplied E now d'"
proof -
  obtain c key where c: "get_cert_record E cert_next_sk d =
      Inr \<lparr>cr_certificate = c, cr_source = source_self_signed, cr_kms_key_id = key\<rparr>"
    "x_not_after c = t" "parse_certificate E (x_raw c) = Some c"
    using self_signed_record [OF assms(2,3)] by metis
  let ?meta = "\<lparr>cm_source = source_self_signed, cm_kms_key_id = key\<rparr>"
  obtain d1 where d1: "store_cert E now cert_active_sk c ?meta d = (Inr (), d1)" "steady d1"
    "\<And>k. lookup d1 k = (if k = slot_key cert_active_sk
        then Some (cert_row E now cert_active_sk c ?meta) else lookup d k)"
    using steady_store [OF assms(2)] by blast
  obtain d2 where d2: "db_delete cert_pk cert_next_sk d1 = (Inr (), d2)" "steady d2"
    "\<And>k. lookup d2 k = (if k = slot_key cert_next_sk then None else lookup d1 k)"
    using steady_delete [OF d1(2)] by blast
  have p: "promote_next_to_active E now d = (Inr (), d2)"
    by (simp add: promote_next_to_active_def c(1) d1(1) delete_next_def d2(1))
  have "self_signed_at E cert_active_sk d2 t"
    using stored_self_signed [OF assms(1) c(3), of d2 cert_active_sk now ?meta] by (simp add: d1(3) d2(3) c(2))
  then have "supplied E now d2"
    using d2(2,3) assms(4) by (auto simp: supplied_def days_eq)
  with p that show thesis by blast
qed

lemma first_check_supplied:
  assumes "x509_ok E" and "steady d" and "can_certify E sg entity (now, rnd)"
    and "lookup d (slot_key cert_active_sk) = None" and "lookup d (slot_key cert_next_sk) = None"
  shows "supplied E now (snd (check_cert_rotation E (\<lambda>_. False) now rnd sg entity cfg d))"
proof -
  obtain c where c: "generate_self_signed_cert E rnd now sg entity = Inr c"
    "parse_certificate E (x_raw c) = Some c" "now + days 729 < x_not_after c"
    using generated [OF assms(1,3)] by blast
  obtain d1 where d1: "store_cert E now cert_active_sk c self_signed_meta d = (Inr (), d1)" "steady d1"
    "\<And>k. lookup d1 k = (if k = slot_key cert_active_sk
        then Some (cert_row E now cert_active_sk c self_signed_meta) else lookup d k)"
    using steady_store [OF assms(2)] by blast
  have "get_active_cert_expiry d = Inl (Wrap ''no active cert'' ErrNotFound)"
    using assms(4) by (simp add: get_active_cert_expiry_def steady_get [OF assms(2)] slot_key_def)
  then have s: "snd (check_cert_rotation E (\<lambda>_. False) now rnd sg entity cfg d) = d1"
    by (simp add: check_cert_rotation_def steady_fault [OF assms(2)] c(1) d1(1))
  have "self_signed_at E cert_active_sk d1 (x_not_after c)"
    using stored_self_signed [OF assms(1) c(2), of d1 cert_active_sk now self_signed_meta]
    by (simp add: d1(3) self_signed_meta_def)
  with s d1(2,3) assms(5) c(3) show ?thesis by (auto simp: supplied_def days_eq)
qed

lemma check_supplied:
  assumes ok: "x509_ok E" and can: "can_certify E sg entity (now, rnd)"
    and sup: "supplied E t0 d" and gap: "t0 \<le> now" "now \<le> t0 + days 15"
  shows "supplied E now
    (snd (check_cert_rotation E (\<lambda>_. False) now rnd sg entity default_rotation_config d))"
proof -
  obtain t where d: "steady d" and t: "self_signed_at E cert_active_sk d t" "t0 + days 15 < t"
    and nxt: "lookup d (slot_key cert_next_sk) = None \<and> t0 + days 30 < t \<or>
      (\<exists>t'. self_signed_at E cert_next_sk d t' \<and> t + days 699 \<le> t')"
    using sup by (auto simp: supplied_def)
  obtain a key where a: "get_cert_record E cert_active_sk d =
      Inr \<lparr>cr_certificate = a, cr_source = source_self_signed, cr_kms_key_id = key\<rparr>"
    using self_signed_record [OF d t(1)] by metis
  have plan: "check_cert_rotation E (\<lambda>_. False) now rnd sg entity default_rotation_config d =
      (if t - now > days 30 then ((\<lparr>rr_remaining = t - now, rr_action = ''no_action''\<rparr>, Inr ()), d)
       else case get_cert E cert_next_sk d of
           Inl e \<Rightarrow> check_cert_rotation E (\<lambda>_. False) now rnd sg entity default_rotation_config d
         | Inr _ \<Rightarrow>
             if t - now \<le> days 16
             then check_cert_rotation E (\<lambda>_. False) now rnd sg entity default_rotation_config d
             else ((\<lparr>rr_remaining = t - now, rr_action = ''waiting_for_promotion''\<rparr>, Inr ()), d))"
    by (auto simp: check_cert_rotation_def Let_def steady_fault [OF d] active_expiry [OF d t(1)] a
        default_rotation_config_def source_self_signed_def source_ca_issued_def split: sum.split)
  have valid: "now < t" using t(2) gap(2) by simp
  show ?thesis
  proof (cases "t - now > days 30")
    case True
    then show ?thesis using plan d t(1) nxt gap by (auto simp: supplied_def days_eq)
  next
    case False
    from nxt show ?thesis
    proof (elim disjE conjE exE)
      assume none: "lookup d (slot_key cert_next_sk) = None" and far: "t0 + days 30 < t"
      obtain c where c: "generate_self_signed_cert E rnd now sg entity = Inr c"
        "parse_certificate E (x_raw c) = Some c" "now + days 729 < x_not_after c"
        using generated [OF ok can] by blast
      obtain d1 where d1: "store_cert E now cert_next_sk c self_signed_meta d = (Inr (), d1)" "steady d1"
        "\<And>k. lookup d1 k = (if k = slot_key cert_next_sk
            then Some (cert_row E now cert_next_sk c self_signed_meta) else lookup d k)"
        using steady_store [OF d] by blast
      have "get_cert E cert_next_sk d = Inl ErrNotFound"
        using none by (simp add: get_cert_def get_cert_record_def steady_get [OF d] slot_key_def)
      then have s: "snd (check_cert_rotation E (\<lambda>_. False) now rnd sg entity default_rotation_config d) = d1"
        using False by (simp add: check_cert_rotation_def Let_def steady_fault [OF d]
            active_expiry [OF d t(1)] a default_rotation_config_def source_self_signed_def
            source_ca_issued_def c(1) d1(1))
      have "self_signed_at E cert_next_sk d1 (x_not_after c)"
        using stored_self_signed [OF ok c(2), of d1 cert_next_sk now self_signed_meta]
        by (simp add: d1(3) self_signed_meta_def)
      moreover have "self_signed_at E cert_active_sk d1 t"
        using self_signed_frame [OF t(1)] by (simp add: d1(3))
      moreover have "t + days 699 \<le> x_not_after c" and "now + days 15 < t"
        using c(3) False far gap(2) by (simp_all add: days_eq)
      ultimately show ?thesis using s d1(2) by (auto simp: supplied_def)
    next
      fix t' assume n: "self_signed_at E cert_next_sk d t'" "t + days 699 \<le> t'"
      obtain b where b: "get_cert E cert_next_sk d = Inr b"
        using self_signed_record [OF d n(1)] by metis
      show ?thesis
      proof (cases "t - now \<le> days 16")
        case True
        have "now + days 30 < t'" using n(2) valid by (simp add: days_eq)
        then obtain d' where p: "promote_next_to_active E now d = (Inr (), d')" "supplied E now d'"
          using promoted_supplied [OF ok d n(1)] by blast
        have "snd (check_cert_rotation E (\<lambda>_. False) now rnd sg entity default_rotation_config d) = d'"
          using False True by (simp add: check_cert_rotation_def Let_def steady_fault [OF d]
              active_expiry [OF d t(1)] a b default_rotation_config_def source_self_signed_def
              source_ca_issued_def p(1))
        with p(2) show ?thesis by simp
      next
        case late: False
        then show ?thesis using plan False b d t(1) n by (auto simp: supplied_def days_eq)
      qed
    qed
  qed
qed

lemma checks_supplied:
  assumes "x509_ok E" and "list_all (can_certify E sg entity) cs"
  shows "supplied E t0 d \<Longrightarrow> well_spaced t0 cs \<Longrightarrow>
    supplied E (last_check t0 cs) (rotation_checks E sg entity cs d)"
  using assms(2)
proof (induction cs arbitrary: t0 d)
  case (Cons c cs)
  obtain now rnd where c: "c = (now, rnd)" by (cases c)
  have "supplied E now (snd (check_cert_rotation E (\<lambda>_. False) now rnd sg entity default_rotation_config d))"
    using Cons.prems by (intro check_supplied [OF assms(1), of _ _ _ _ t0]) (auto simp: c)
  with Cons show ?case by (simp add: c)
qed simp

subsection \<open>Guarantee\<close>


text \<open>A check every fifteen days for 900 days, past the life of the first certificate.\<close>

definition demo_checks :: "nat \<Rightarrow> nat \<Rightarrow> (gotime \<times> int option) list" where
  "demo_checks i n = map (\<lambda>j. (days (15 * int j), Some (int j))) [i..<i + n]"

lemma demo_checks_spaced:
  "well_spaced (days (15 * int i)) (demo_checks (Suc i) n) \<and>
   last_check (days (15 * int i)) (demo_checks (Suc i) n) = days (15 * int (i + n))"
proof (induction n arbitrary: i)
  case 0
  then show ?case by (simp add: demo_checks_def)
next
  case (Suc n)
  have "demo_checks (Suc i) (Suc n) =
      (days (15 * int (Suc i)), Some (int (Suc i))) # demo_checks (Suc (Suc i)) n"
    by (simp add: demo_checks_def upt_conv_Cons del: upt_Suc)
  with Suc.IH [of "Suc i"] show ?case by (simp add: days_eq)
qed

lemma demo_can_certify: "can_certify demo_x509 (Some gateway_key) ''gateway'' (days (15 * int j), Some (int j))"
  by (simp add: can_certify_def demo_x509_def demo_template_def self_signed_template_def)


end
