(* ===== verification/SamlMetadata.thy ===== *)
theory SamlMetadata
  imports SamlIdp CertManager
begin

text \<open>
  The metadata endpoints of \<^verbatim>\<open>internal/saml/idp.go\<close>: the identity provider of a tenant, its published
  signing certificates, the metadata of one application and the federation discovery document.

  The SAML library's \<^verbatim>\<open>IdentityProvider.Metadata\<close> and the XML printer are fields of \<open>metadata_env\<close>.
\<close>

subsection \<open>The identity provider of a tenant\<close>

record saml_idp =
  si_certificate :: certificate
  si_metadata_url :: go_url
  si_sso_url :: go_url
  si_logout_url :: go_url
  si_signature_method :: string

definition rsa_sha256 :: string where
  "rsa_sha256 = ''http://www.w3.org/2001/04/xmldsig-more#rsa-sha256''"

definition build_idp :: "certificate \<Rightarrow> string \<Rightarrow> string \<Rightarrow> saml_idp" where
  "build_idp cert base_url slug =
     (case parse_url base_url of
        None \<Rightarrow> \<lparr>si_certificate = cert, si_metadata_url = empty_url, si_sso_url = empty_url,
                 si_logout_url = empty_url, si_signature_method = []\<rparr>
      | Some base \<Rightarrow>
          let at = (\<lambda>path. base\<lparr>u_path := ''/t/'' @ slug @ path\<rparr>) in
          \<lparr>si_certificate = cert, si_metadata_url = at ''/saml/metadata'',
           si_sso_url = at ''/saml/sso'', si_logout_url = at ''/saml/slo'',
           si_signature_method = rsa_sha256\<rparr>)"

subsection \<open>Published certificates\<close>

text \<open>The key descriptors of each descriptor of the provider, and everything else.\<close>

record 'm idp_metadata =
  md_descriptors :: "key_descriptor list list"
  md_rest :: 'm

record 'm metadata_env =
  me_metadata :: "saml_idp \<Rightarrow> 'm idp_metadata"
  me_marshal :: "'m idp_metadata \<Rightarrow> string"

definition cert_descriptor :: "certificate \<Rightarrow> key_descriptor" where
  "cert_descriptor c = \<lparr>kd_use = ''signing'', kd_cert = b64_encode StdAlphabet True (x_raw c)\<rparr>"

text \<open>
  The documented behaviour of the library: the one descriptor of the provider carries its certificate
  for signing.
\<close>

definition metadata_ok :: "'m metadata_env \<Rightarrow> bool" where
  "metadata_ok M \<longleftrightarrow>
     (\<forall>idp. \<exists>kds. md_descriptors (me_metadata M idp) = [kds] \<and> cert_descriptor (si_certificate idp) \<in> set kds)"

text \<open>
  Appending the certificates of the store beyond the first. Slicing off the first element of an empty
  list panics; no certificate store leaves the metadata as it is.
\<close>

definition append_extra_certs ::
  "x509_env \<Rightarrow> cert_db option \<Rightarrow> 'm idp_metadata \<Rightarrow> 'm idp_metadata option" where
  "append_extra_certs E store md =
     (case store of
        None \<Rightarrow> Some md
      | Some d \<Rightarrow>
          (case md_descriptors md of
             [] \<Rightarrow> Some md
           | kds # rest \<Rightarrow>
               (case get_all_certs E d of
                  [] \<Rightarrow> None
                | first # extra \<Rightarrow>
                    Some (md\<lparr>md_descriptors := (kds @ map cert_descriptor extra) # rest\<rparr>))))"

subsection \<open>The endpoints\<close>

record metadata_handler =
  mh_idp :: idp_handler
  mh_certificate :: certificate

datatype metadata_reply = MetaError nat string | MetaOk string | MetaPanic

definition serve_metadata ::
  "x509_env \<Rightarrow> 'm metadata_env \<Rightarrow> metadata_handler \<Rightarrow> cfg_db \<Rightarrow> cert_db option \<Rightarrow> string \<Rightarrow> metadata_reply"
where
  "serve_metadata E M h cfg store slug =
     (if slug = [] then MetaError 400 ''missing tenant''
      else if \<not> tenant_known (mh_idp h) cfg slug then MetaError 404 ''tenant not found''
      else
        (case append_extra_certs E store
                (me_metadata M (build_idp (mh_certificate h) (ih_base_url (mh_idp h)) slug)) of
           None \<Rightarrow> MetaPanic
         | Some md \<Rightarrow> MetaOk (me_marshal M md)))"

text \<open>\<^verbatim>\<open>html.EscapeString\<close> and \<^verbatim>\<open>strings.Replace\<close> of the first occurrence.\<close>

definition html_escape_char :: "char \<Rightarrow> string" where
  "html_escape_char c =
     (if c = CHR ''<'' then ''&lt;'' else if c = CHR ''>'' then ''&gt;''
      else if c = CHR ''&'' then ''&amp;'' else if c = CHR 0x27 then ''&#39;''
      else if c = CHR 0x22 then ''&#34;'' else [c])"

definition html_escape :: "string \<Rightarrow> string" where
  "html_escape s = concat (map html_escape_char s)"

fun replace_first :: "string \<Rightarrow> string \<Rightarrow> string \<Rightarrow> string" where
  "replace_first old new s =
     (if has_prefix s old then new @ drop (length old) s
      else case s of [] \<Rightarrow> [] | c # cs \<Rightarrow> c # replace_first old new cs)"

definition newline :: string where "newline = [CHR 0x0A]"
definition quote :: string where "quote = [CHR 0x22]"

definition released_attributes :: "application \<Rightarrow> claim_mapping list \<Rightarrow> string" where
  "released_attributes app claims =
     (if claims = [] then []
      else newline @ ''    <!-- Attributes released to '' @ html_escape (a_display_name app) @ '' -->'' @ newline @
        concat (map (\<lambda>cm. ''    <saml:Attribute Name='' @ quote @ html_escape (cm_target_attribute cm) @ quote @
          '' NameFormat='' @ quote @ ''urn:oasis:names:tc:SAML:2.0:attrname-format:uri'' @ quote @ ''/>'' @ newline)
          claims))"

definition name_id_element :: "saml_config \<Rightarrow> string" where
  "name_id_element sc =
     (if sc_name_id_format sc = [] then []
      else newline @ ''    <md:NameIDFormat>'' @ html_escape (sc_name_id_format sc) @ ''</md:NameIDFormat>'')"

definition serve_app_metadata ::
  "x509_env \<Rightarrow> 'm metadata_env \<Rightarrow> metadata_handler \<Rightarrow> cfg_db \<Rightarrow> cert_db option \<Rightarrow> string \<Rightarrow> string \<Rightarrow>
   metadata_reply" where
  "serve_app_metadata E M h cfg store slug i =
     (if slug = [] \<or> i = [] then MetaError 400 ''missing tenant or appId''
      else
        (case app_get slug i cfg of
           Inl _ \<Rightarrow> MetaError 404 ''app not found''
         | Inr app \<Rightarrow>
             (case get_saml_config slug i cfg of
                Inl _ \<Rightarrow> MetaError 404 ''SAML config not found''
              | Inr sc \<Rightarrow>
                  let claims = (case get_claim_mappings slug i cfg of Inl _ \<Rightarrow> [] | Inr cs \<Rightarrow> cs) in
                  (case append_extra_certs E store
                          (me_metadata M (build_idp (mh_certificate h) (ih_base_url (mh_idp h)) slug)) of
                     None \<Rightarrow> MetaPanic
                   | Some md \<Rightarrow>
                       let base = me_marshal M md;
                           insertion = name_id_element sc @ released_attributes app claims
                       in MetaOk (if insertion = [] then base
                            else replace_first ''</IDPSSODescriptor>''
                                   (insertion @ ''  </IDPSSODescriptor>'') base)))))"

record federation_discovery =
  fd_tenant :: string
  fd_saml_metadata_url :: string
  fd_oidc_discovery_url :: string
  fd_protocols :: "string list"

definition handle_federation_discovery :: "string \<Rightarrow> string \<Rightarrow> refusal + federation_discovery" where
  "handle_federation_discovery base_url slug =
     (if slug = [] then Inl (400, ''missing tenant'')
      else
        let tenant_base = base_url @ ''/t/'' @ slug in
        Inr \<lparr>fd_tenant = slug, fd_saml_metadata_url = tenant_base @ ''/saml/metadata'',
             fd_oidc_discovery_url = tenant_base @ ''/oidc/.well-known/openid-configuration'',
             fd_protocols = [''saml2.0'', ''oidc'']\<rparr>)"

end
