(* ===== verification/CertPublish.thy ===== *)
theory CertPublish
  imports SamlMetadata CertProps
begin

text \<open>
  What the published metadata promises to a service provider: every certificate of a readable slot is
  in it, so that the certificate a promotion makes active was published before.
\<close>

subsection \<open>The certificates of the store\<close>

lemma add_certs_sub: "set (add_certs seen rs) \<subseteq> {c. Inr c \<in> set rs}"
  by (induction seen rs rule: add_certs.induct) auto

lemma add_certs_covers:
  "Inr c \<in> set rs \<Longrightarrow> x_serial c \<in> set seen \<or> (\<exists>p\<in>set (add_certs seen rs). x_serial p = x_serial c)"
  by (induction seen rs rule: add_certs.induct) auto

lemma all_certs_active:
  "get_cert E cert_active_sk d = Inr a \<Longrightarrow> \<exists>extra. get_all_certs E d = a # extra"
  by (simp add: get_all_certs_def)

lemma all_certs_covers:
  "sk \<in> {cert_active_sk, cert_next_sk, cert_backup_sk} \<Longrightarrow> get_cert E sk d = Inr c \<Longrightarrow>
   \<exists>p\<in>set (get_all_certs E d). x_serial p = x_serial c"
  using add_certs_covers [of c "[get_cert E cert_active_sk d, get_cert E cert_next_sk d,
      get_cert E cert_backup_sk d]" "[]"]
  by (auto simp: get_all_certs_def)

definition publishes :: "'m idp_metadata \<Rightarrow> certificate \<Rightarrow> bool" where
  "publishes md c \<longleftrightarrow> cert_descriptor c \<in> set (concat (md_descriptors md))"

text \<open>A handler started with the active certificate publishes every slot it can read.\<close>

lemma metadata_publishes:
  assumes "metadata_ok M" and "get_cert E cert_active_sk d = Inr (mh_certificate h)"
    and "slug \<noteq> []" and "tenant_known (mh_idp h) cfg slug"
  obtains md where "serve_metadata E M h cfg (Some d) slug = MetaOk (me_marshal M md)"
    and "\<And>sk c. sk \<in> {cert_active_sk, cert_next_sk, cert_backup_sk} \<Longrightarrow> get_cert E sk d = Inr c \<Longrightarrow>
      \<exists>p. x_serial p = x_serial c \<and> publishes md p"
proof -
  let ?md = "me_metadata M (build_idp (mh_certificate h) (ih_base_url (mh_idp h)) slug)"
  have si: "si_certificate (build_idp (mh_certificate h) (ih_base_url (mh_idp h)) slug) = mh_certificate h"
    by (simp add: build_idp_def Let_def split: option.split)
  obtain kds where kds: "md_descriptors ?md = [kds]" "cert_descriptor (mh_certificate h) \<in> set kds"
    using assms(1) unfolding metadata_ok_def by (metis si)
  obtain extra where all: "get_all_certs E d = mh_certificate h # extra"
    using all_certs_active [OF assms(2)] by blast
  let ?md' = "?md\<lparr>md_descriptors := [kds @ map cert_descriptor extra]\<rparr>"
  have reply: "serve_metadata E M h cfg (Some d) slug = MetaOk (me_marshal M ?md')"
    by (simp add: serve_metadata_def assms(3,4) append_extra_certs_def kds(1) all)
  have pub: "publishes ?md' p" if "p \<in> set (get_all_certs E d)" for p
    using that kds(2) by (auto simp: publishes_def all)
  show thesis
    by (rule that [OF reply]) (metis all_certs_covers pub)
qed

subsection \<open>Promotion\<close>

lemma promote_backup_active:
  assumes "promote_backup_to_active E now d = (Inr (), d')"
  obtains rec d1 where "get_cert_record E cert_backup_sk d = Inr rec"
    and "lookup d' (slot_key cert_active_sk) = Some (cert_row E now cert_active_sk (cr_certificate rec)
      \<lparr>cm_source = cr_source rec, cm_kms_key_id = cr_kms_key_id rec\<rparr>)"
    and "lookup d' (slot_key cert_backup_sk) = None"
proof -
  obtain rec d1 where r: "get_cert_record E cert_backup_sk d = Inr rec"
    and s: "store_cert E now cert_active_sk (cr_certificate rec)
      \<lparr>cm_source = cr_source rec, cm_kms_key_id = cr_kms_key_id rec\<rparr> d = (Inr (), d1)"
    and del: "db_delete cert_pk cert_backup_sk d1 = (Inr (), d')"
    using assms by (auto simp: promote_backup_to_active_def delete_backup_def split: sum.splits prod.splits)
  show thesis
    using that [OF r] delete_lookup [of cert_backup_sk d1] del s
      store_cert_lookup [of E now cert_active_sk "cr_certificate rec"
        "\<lparr>cm_source = cr_source rec, cm_kms_key_id = cr_kms_key_id rec\<rparr>" d "slot_key cert_active_sk"]
    by simp
qed


text \<open>
  The handler of a warm process keeps its start-up certificate: once the backup is active and no
  successor is staged, that certificate is all it publishes besides what the library puts in.
\<close>

lemma warm_metadata:
  fixes M :: "'m metadata_env"
  assumes "promote_backup_to_active E now d = (Inr (), d')" and "slug \<noteq> []"
    and "tenant_known (mh_idp h) cfg slug"
    and "get_cert E cert_active_sk d' = Inr c" and "lookup d' (slot_key cert_next_sk) = None"
  shows "serve_metadata E M h cfg (Some d') slug =
    MetaOk (me_marshal M (me_metadata M (build_idp (mh_certificate h) (ih_base_url (mh_idp h)) slug)))"
proof -
  have "lookup d' (slot_key cert_backup_sk) = None"
    by (rule promote_backup_active [OF assms(1)])
  then have "get_cert E cert_next_sk d' \<noteq> Inr x" "get_cert E cert_backup_sk d' \<noteq> Inr x" for x
    using assms(5) by (auto simp: cert_at record_at)
  then have "get_all_certs E d' = [c]"
    by (cases "get_cert E cert_next_sk d'"; cases "get_cert E cert_backup_sk d'")
      (auto simp: get_all_certs_def assms(4))
  then have "append_extra_certs E (Some d') md = Some md" for md :: "'m idp_metadata"
    by (cases "md_descriptors md") (auto simp: append_extra_certs_def)
  then show ?thesis using assms(2,3) by (simp add: serve_metadata_def)
qed

definition demo_metadata_env :: "saml_idp metadata_env" where
  "demo_metadata_env =
     \<lparr>me_metadata = (\<lambda>idp. \<lparr>md_descriptors = [[cert_descriptor (si_certificate idp)]], md_rest = idp\<rparr>),
      me_marshal = (\<lambda>md. concat (map kd_cert (concat (md_descriptors md))))\<rparr>"

definition demo_metadata_handler :: metadata_handler where
  "demo_metadata_handler =
     \<lparr>mh_idp = \<lparr>ih_tenants = False, ih_base_url = ''https://gateway.example''\<rparr>,
      mh_certificate = demo_self_signed 0\<rparr>"


end
