(* ===== verification/SafeHttp.thy ===== *)
theory SafeHttp
  imports Url "HOL-Library.Word"
begin

unbundle bit_operations_syntax

text \<open>
  \<^verbatim>\<open>internal/safehttp/safehttp.go\<close>: the client for outbound requests that refuses addresses inside the
  network, checking the address it is about to dial and the URL of every redirect. The address parser
  and predicates of the library are written out; the name resolution, the servers and their redirects
  are arbitrary.
\<close>

subsection \<open>Addresses\<close>

text \<open>Sixteen bytes, an IPv4 address in its mapped form, as \<^verbatim>\<open>net.IP\<close> holds it.\<close>

type_synonym ip = "8 word list"

definition v4_mapped :: "8 word list \<Rightarrow> ip" where
  "v4_mapped bs = replicate 10 0 @ [255, 255] @ bs"

definition to4 :: "ip \<Rightarrow> 8 word list option" where
  "to4 ip = (if take 12 ip = replicate 10 0 @ [255, 255] then Some (drop 12 ip) else None)"

definition dec_value :: "string \<Rightarrow> nat" where
  "dec_value s = foldl (\<lambda>n c. n * 10 + (of_char c - 48)) 0 s"

definition hex_value :: "string \<Rightarrow> nat" where
  "hex_value s = foldl (\<lambda>n c. n * 16 + (case unhex c of Some d \<Rightarrow> d | None \<Rightarrow> 0)) 0 s"

definition v4_bytes :: "string \<Rightarrow> 8 word list" where
  "v4_bytes s = map (of_nat \<circ> dec_value) (split_on (CHR ''.'') s)"

definition v6_group_bytes :: "string \<Rightarrow> 8 word list" where
  "v6_group_bytes g = [of_nat (hex_value g div 256), of_nat (hex_value g mod 256)]"

definition v6_side_bytes :: "bool \<Rightarrow> string \<Rightarrow> 8 word list option" where
  "v6_side_bytes v4ok s =
     (if s = [] then Some []
      else let gs = split_on (CHR '':'') s in
        if list_all v6_group gs then Some (concat (map v6_group_bytes gs))
        else if v4ok \<and> list_all v6_group (butlast gs) \<and> v4_addr (last gs)
          then Some (concat (map v6_group_bytes (butlast gs)) @ v4_bytes (last gs))
        else None)"

definition parse_v6 :: "string \<Rightarrow> ip option" where
  "parse_v6 s =
     (case ellipsis_cut s of
        None \<Rightarrow>
          (case v6_side_bytes True s of
             Some bs \<Rightarrow> if length bs = 16 then Some bs else None
           | None \<Rightarrow> None)
      | Some (l, r) \<Rightarrow>
          (case (v6_side_bytes False l, v6_side_bytes True r) of
             (Some bl, Some br) \<Rightarrow>
               if length bl + length br \<le> 14
               then Some (bl @ replicate (16 - length bl - length br) 0 @ br) else None
           | _ \<Rightarrow> None))"

text \<open>\<^verbatim>\<open>net.ParseIP\<close>: the first dot or colon decides the family; a zone is refused.\<close>

definition parse_ip :: "string \<Rightarrow> ip option" where
  "parse_ip s =
     (case dropWhile (\<lambda>c. c \<noteq> CHR ''.'' \<and> c \<noteq> CHR '':'' \<and> c \<noteq> CHR ''%'') s of
        [] \<Rightarrow> None
      | c # _ \<Rightarrow>
          if c = CHR ''.'' then (if v4_addr s then Some (v4_mapped (v4_bytes s)) else None)
          else if c = CHR '':'' \<and> CHR ''%'' \<notin> set s then parse_v6 s
          else None)"

subsection \<open>Refused addresses\<close>

definition v6_loopback :: ip where "v6_loopback = replicate 15 0 @ [1]"
definition v6_unspecified :: ip where "v6_unspecified = replicate 16 0"

definition is_loopback :: "ip \<Rightarrow> bool" where
  "is_loopback ip = (case to4 ip of Some q \<Rightarrow> q ! 0 = 127 | None \<Rightarrow> ip = v6_loopback)"

definition is_private :: "ip \<Rightarrow> bool" where
  "is_private ip =
     (case to4 ip of
        Some q \<Rightarrow> q ! 0 = 10 \<or> (q ! 0 = 172 \<and> q ! 1 AND 0xF0 = 16) \<or> (q ! 0 = 192 \<and> q ! 1 = 168)
      | None \<Rightarrow> length ip = 16 \<and> ip ! 0 AND 0xFE = 0xFC)"

definition is_unspecified :: "ip \<Rightarrow> bool" where
  "is_unspecified ip \<longleftrightarrow> ip = v4_mapped [0, 0, 0, 0] \<or> ip = v6_unspecified"

definition is_link_local_unicast :: "ip \<Rightarrow> bool" where
  "is_link_local_unicast ip =
     (case to4 ip of
        Some q \<Rightarrow> q ! 0 = 169 \<and> q ! 1 = 254
      | None \<Rightarrow> length ip = 16 \<and> ip ! 0 = 0xFE \<and> ip ! 1 AND 0xC0 = 0x80)"

definition is_link_local_multicast :: "ip \<Rightarrow> bool" where
  "is_link_local_multicast ip =
     (case to4 ip of
        Some q \<Rightarrow> q ! 0 = 224 \<and> q ! 1 = 0 \<and> q ! 2 = 0
      | None \<Rightarrow> length ip = 16 \<and> ip ! 0 = 0xFF \<and> ip ! 1 AND 0x0F = 2)"

definition is_multicast :: "ip \<Rightarrow> bool" where
  "is_multicast ip =
     (case to4 ip of
        Some q \<Rightarrow> q ! 0 AND 0xF0 = 0xE0
      | None \<Rightarrow> length ip = 16 \<and> ip ! 0 = 0xFF)"

definition is_interface_local_multicast :: "ip \<Rightarrow> bool" where
  "is_interface_local_multicast ip \<longleftrightarrow> length ip = 16 \<and> ip ! 0 = 0xFF \<and> ip ! 1 AND 0x0F = 1"

definition cgnat_contains :: "8 word list \<Rightarrow> bool" where
  "cgnat_contains q \<longleftrightarrow> q ! 0 = 100 \<and> q ! 1 AND 0xC0 = 64"

definition is_disallowed_ip :: "ip option \<Rightarrow> bool" where
  "is_disallowed_ip ip_opt =
     (case ip_opt of
        None \<Rightarrow> True
      | Some ip \<Rightarrow>
          is_loopback ip \<or> is_private ip \<or> is_unspecified ip \<or> is_link_local_unicast ip \<or>
          is_link_local_multicast ip \<or> is_multicast ip \<or> is_interface_local_multicast ip \<or>
          (case to4 ip of Some q \<Rightarrow> cgnat_contains q | None \<Rightarrow> False))"

subsection \<open>URLs\<close>

text \<open>\<^verbatim>\<open>URL.Hostname\<close>: the host without its port and the brackets of a literal.\<close>

definition strip_port :: "string \<Rightarrow> string" where
  "strip_port host =
     (case last_cut (CHR '':'') host of
        None \<Rightarrow> host
      | Some (h, port) \<Rightarrow> if list_all (\<lambda>d. is_digit d) port then h else host)"

definition url_hostname :: "go_url \<Rightarrow> string" where
  "url_hostname u =
     (let h = strip_port (u_host u) in
      if has_prefix h ''['' \<and> has_suffix h '']'' then take (length h - 2) (tl h) else h)"

type_synonym blocked = "string + unit"

definition validate_url :: "string \<Rightarrow> bool \<Rightarrow> blocked" where
  "validate_url raw require_https =
     (case parse_url raw of
        None \<Rightarrow> Inl ''unparseable URL''
      | Some u \<Rightarrow>
          if u_scheme u \<noteq> ''https'' \<and> u_scheme u \<noteq> ''http''
          then Inl (''scheme not allowed: '' @ u_scheme u)
          else if u_scheme u = ''http'' \<and> require_https
          then Inl ''scheme not allowed for trust material; https is required''
          else
            let host = url_hostname u in
            if host = [] then Inl ''missing host''
            else (case parse_ip host of
                None \<Rightarrow> Inr ()
              | Some ip \<Rightarrow>
                  if is_disallowed_ip (Some ip) then Inl ''destination is not a public address'' else Inr ()))"

definition validate_plain_url :: "string \<Rightarrow> blocked" where
  "validate_plain_url raw = validate_url raw False"

definition validate_trust_url :: "string \<Rightarrow> blocked" where
  "validate_trust_url raw = validate_url raw True"

subsection \<open>Dialling\<close>

text \<open>\<^verbatim>\<open>net.SplitHostPort\<close>.\<close>

definition split_host_port :: "string \<Rightarrow> (string \<times> string) option" where
  "split_host_port hp =
     (case last_cut (CHR '':'') hp of
        None \<Rightarrow> None
      | Some (front, port) \<Rightarrow>
          if has_prefix hp ''['' then
            (case cut (CHR '']'') hp of (inside, after, found) \<Rightarrow>
               if \<not> found \<or> after = [] \<or> front \<noteq> inside @ '']'' then None
               else if CHR ''['' \<in> set (tl hp) \<or> CHR '']'' \<in> set after then None
               else Some (tl inside, port))
          else if CHR '':'' \<in> set front \<or> CHR ''['' \<in> set hp \<or> CHR '']'' \<in> set hp then None
          else Some (front, port))"

definition control_conn :: "string \<Rightarrow> blocked" where
  "control_conn address =
     (case split_host_port address of
        None \<Rightarrow> Inl ''cannot parse dial address''
      | Some (host, port) \<Rightarrow>
          if is_disallowed_ip (parse_ip host) then Inl ''destination is not a public address'' else Inr ())"

text \<open>
  What a client may connect to while it serves one request, in order: the URL of each hop and the
  resolved address dialled for it. \<open>https_only\<close> is what the client was built with.
\<close>

inductive client_run :: "bool \<Rightarrow> go_url \<Rightarrow> (go_url \<times> string) list \<Rightarrow> bool" for https_only u where
  run_first: "control_conn address = Inr () \<Longrightarrow> client_run https_only u [(u, address)]"
| run_retry: "client_run https_only u tr \<Longrightarrow> control_conn address = Inr () \<Longrightarrow>
    client_run https_only u (tr @ [(fst (last tr), address)])"
| run_redirect: "client_run https_only u tr \<Longrightarrow> parse_url target = Some v \<Longrightarrow>
    validate_url target https_only = Inr () \<Longrightarrow> control_conn address = Inr () \<Longrightarrow>
    client_run https_only u (tr @ [(v, address)])"

text \<open>
  The two users: \<^verbatim>\<open>HTTPMetadataFetcher.Fetch\<close> of \<^verbatim>\<open>internal/service/import.go\<close> and \<^verbatim>\<open>probeSafe\<close> of
  \<^verbatim>\<open>internal/api/source_handlers.go\<close>. \<open>send\<close> stands for the request through the client: the status and
  the body it ends with.
\<close>

definition fetch_metadata :: "(string \<Rightarrow> (nat \<times> string) res) \<Rightarrow> string \<Rightarrow> string res" where
  "fetch_metadata send url =
     (case validate_trust_url url of
        Inl reason \<Rightarrow> Inl (Wrap ''metadata URL rejected'' (ErrMsg reason))
      | Inr _ \<Rightarrow>
          (case send url of
             Inl e \<Rightarrow> Inl (Wrap ''failed to fetch metadata'' e)
           | Inr (status, body) \<Rightarrow>
               if status \<noteq> 200 then Inl (ErrMsg ''metadata URL returned an error status'')
               else Inr (take (2 ^ 20) body)))"

definition probe_safe :: "(string \<Rightarrow> (nat \<times> string) res) \<Rightarrow> string \<Rightarrow> (nat \<times> string) res" where
  "probe_safe send url =
     (case validate_plain_url url of Inl reason \<Rightarrow> Inl (ErrMsg reason) | Inr _ \<Rightarrow> send url)"

subsection \<open>The refused blocks\<close>

text \<open>A block in CIDR form: its first address and the length of the prefix.\<close>

definition byte_bits :: "8 word \<Rightarrow> bool list" where
  "byte_bits b = map (bit b) [7, 6, 5, 4, 3, 2, 1, 0]"

definition in_block :: "8 word list \<Rightarrow> 8 word list \<times> nat \<Rightarrow> bool" where
  "in_block q blk \<longleftrightarrow>
     take (snd blk) (concat (map byte_bits q)) = take (snd blk) (concat (map byte_bits (fst blk)))"

definition v4_blocks :: "(8 word list \<times> nat) list" where
  "v4_blocks =
     [([0, 0, 0, 0], 32), ([10, 0, 0, 0], 8), ([100, 64, 0, 0], 10), ([127, 0, 0, 0], 8),
      ([169, 254, 0, 0], 16), ([172, 16, 0, 0], 12), ([192, 168, 0, 0], 16), ([224, 0, 0, 0], 4)]"

definition v6_blocks :: "(8 word list \<times> nat) list" where
  "v6_blocks =
     [(v6_unspecified, 128), (v6_loopback, 128), (0xFC # replicate 15 0, 7),
      (0xFE # 0x80 # replicate 14 0, 10), (0xFF # replicate 15 0, 8)]"

definition non_public :: "ip \<Rightarrow> bool" where
  "non_public ip =
     (case to4 ip of Some q \<Rightarrow> list_ex (in_block q) v4_blocks | None \<Rightarrow> list_ex (in_block ip) v6_blocks)"

lemma byte_eq_iff: "b = c \<longleftrightarrow> (\<forall>n\<in>{0, 1, 2, 3, 4, 5, 6, 7}. bit b n = bit c n)" for b c :: "8 word"
proof
  assume a: "\<forall>n\<in>{0, 1, 2, 3, 4, 5, 6, 7}. bit b n = bit c n"
  show "b = c"
  proof (rule bit_word_eqI)
    fix n assume "n < LENGTH(8)"
    then have "n \<in> {0, 1, 2, 3, 4, 5, 6, 7}" by auto
    then show "bit b n = bit c n" using a by blast
  qed
qed simp

lemma mask_prefix:
  "b AND 0xF0 = 16 \<longleftrightarrow> take 4 (byte_bits b) = take 4 (byte_bits 16)"
  "b AND 0xF0 = 0xE0 \<longleftrightarrow> take 4 (byte_bits b) = take 4 (byte_bits 224)"
  "b AND 0xFE = 0xFC \<longleftrightarrow> take 7 (byte_bits b) = take 7 (byte_bits 0xFC)"
  "b AND 0xC0 = 0x80 \<longleftrightarrow> take 2 (byte_bits b) = take 2 (byte_bits 0x80)"
  "b AND 0xC0 = 64 \<longleftrightarrow> take 2 (byte_bits b) = take 2 (byte_bits 64)"
  "byte_bits b = byte_bits c \<longleftrightarrow> b = c"
  for b c :: "8 word"
  by (auto simp: byte_eq_iff byte_bits_def bit_simps)

lemma bits_length [simp]: "length (byte_bits b) = 8"
  by (simp add: byte_bits_def)

lemma take_bits [simp]: "take (Suc (Suc (Suc (Suc (Suc (Suc (Suc (Suc n)))))))) (byte_bits b @ l) = byte_bits b @ take n l"
  by simp

lemma bits_concat_length: "length (concat (map byte_bits q)) = 8 * length q"
  by (induction q) auto

lemma bits_inject:
  "length q = length q' \<Longrightarrow> concat (map byte_bits q) = concat (map byte_bits q') \<longleftrightarrow> q = q'"
  by (induction q q' rule: list_induct2) (auto simp: mask_prefix(6))

text \<open>A prefix of whole bytes and a prefix within the second byte.\<close>

lemma block_first: "n \<le> 8 \<Longrightarrow> in_block (a # q) (b # q', n) \<longleftrightarrow> take n (byte_bits a) = take n (byte_bits b)"
  by (simp add: in_block_def)

lemma block_second:
  "n \<le> 8 \<Longrightarrow> in_block (a # c # q) (b # d # q', 8 + n) \<longleftrightarrow>
     a = b \<and> take n (byte_bits c) = take n (byte_bits d)"
  by (simp add: in_block_def mask_prefix(6))

lemma block_all:
  "length q = length q' \<Longrightarrow> n = 8 * length q \<Longrightarrow> in_block q (q', n) \<longleftrightarrow> q = q'"
  by (simp add: in_block_def bits_concat_length bits_inject)

lemma v4_disallowed:
  "is_disallowed_ip (Some (v4_mapped [a, b, c, d])) \<longleftrightarrow> list_ex (in_block [a, b, c, d]) v4_blocks"
proof -
  have t: "to4 (v4_mapped [a, b, c, d]) = Some [a, b, c, d]"
    by (simp add: to4_def v4_mapped_def)
  have u: "is_unspecified (v4_mapped [a, b, c, d]) \<longleftrightarrow> [a, b, c, d] = [0, 0, 0, 0]"
  proof -
    have "v4_mapped [a, b, c, d] ! 10 \<noteq> v6_unspecified ! 10"
      by (simp add: v4_mapped_def v6_unspecified_def nth_append)
    then have "v4_mapped [a, b, c, d] \<noteq> v6_unspecified" by metis
    then show ?thesis by (simp add: is_unspecified_def v4_mapped_def)
  qed
  have m: "\<not> is_interface_local_multicast (v4_mapped [a, b, c, d])"
    by (simp add: is_interface_local_multicast_def v4_mapped_def nth_append)
  note first = block_first [of 8] block_first [of 4] block_second [of 2, simplified]
    block_second [of 8, simplified] block_second [of 4, simplified]
  show ?thesis
    unfolding is_disallowed_ip_def v4_blocks_def
    by (auto simp: is_loopback_def is_private_def u m t is_link_local_unicast_def
        is_link_local_multicast_def is_multicast_def cgnat_contains_def mask_prefix first
        block_all [of "[a, b, c, d]" "[0, 0, 0, 0]" 32])
qed

lemma length_16:
  "length ip = 16 \<Longrightarrow> \<exists>a b r. ip = a # b # r \<and> length r = 14"
  by (cases ip; cases "tl ip") auto

lemma to4_mapped: "length ip = 16 \<Longrightarrow> to4 ip = Some q \<Longrightarrow> ip = v4_mapped q \<and> length q = 4"
proof -
  assume l: "length ip = 16" and t: "to4 ip = Some q"
  from t have p: "take 12 ip = replicate 10 0 @ [255, 255]" and q: "q = drop 12 ip"
    by (auto simp: to4_def split: if_splits)
  have "ip = take 12 ip @ drop 12 ip" by simp
  then have "ip = (replicate 10 0 @ [255, 255]) @ q" unfolding p q .
  then show ?thesis using l q by (simp add: v4_mapped_def)
qed

lemma v6_disallowed:
  assumes "length ip = 16" and "to4 ip = None"
  shows "is_disallowed_ip (Some ip) \<longleftrightarrow> list_ex (in_block ip) v6_blocks"
proof -
  obtain a b r where ip: "ip = a # b # r" "length r = 14" using length_16 [OF assms(1)] by blast
  have l: "length v6_loopback = 16" "length v6_unspecified = 16"
    by (simp_all add: v6_loopback_def v6_unspecified_def)
  have m: "ip \<noteq> v4_mapped [0, 0, 0, 0]"
    using assms(2) by (auto simp: to4_def v4_mapped_def)
  have "list_ex (in_block ip) v6_blocks \<longleftrightarrow>
      ip = v6_unspecified \<or> ip = v6_loopback \<or> a AND 0xFE = 0xFC \<or> (a = 0xFE \<and> b AND 0xC0 = 0x80) \<or> a = 0xFF"
    using assms(1) l block_second [of 2, simplified]
    by (simp add: v6_blocks_def block_all ip block_first mask_prefix)
  then show ?thesis
    using assms m by (auto simp: is_disallowed_ip_def is_loopback_def is_private_def is_unspecified_def
        is_link_local_unicast_def is_link_local_multicast_def is_multicast_def
        is_interface_local_multicast_def ip)
qed

lemma disallowed_non_public:
  assumes "length ip = 16"
  shows "is_disallowed_ip (Some ip) \<longleftrightarrow> non_public ip"
proof (cases "to4 ip")
  case None
  then show ?thesis using v6_disallowed [OF assms] by (simp add: non_public_def)
next
  case (Some q)
  obtain a b c d where q: "q = [a, b, c, d]"
    using to4_mapped [OF assms Some] by (auto simp: length_Suc_conv eval_nat_numeral)
  show ?thesis
    using to4_mapped [OF assms Some] v4_disallowed [of a b c d] Some by (simp add: non_public_def q)
qed

subsection \<open>Parsed addresses\<close>

lemma v4_bytes_length: "v4_addr s \<Longrightarrow> length (v4_bytes s) = 4"
  by (simp add: v4_addr_def v4_bytes_def Let_def)

lemma parse_v6_length: "parse_v6 s = Some ip \<Longrightarrow> length ip = 16"
  by (auto simp: parse_v6_def split: option.splits prod.splits if_splits)

lemma parse_ip_length: "parse_ip s = Some ip \<Longrightarrow> length ip = 16"
  by (auto simp: parse_ip_def v4_mapped_def v4_bytes_length parse_v6_length split: list.splits if_splits)

lemma control_conn_public:
  assumes "control_conn address = Inr ()"
  obtains host port ip where "split_host_port address = Some (host, port)" and "parse_ip host = Some ip"
    and "length ip = 16" and "\<not> non_public ip"
proof -
  obtain host port where h: "split_host_port address = Some (host, port)"
    and ok: "\<not> is_disallowed_ip (parse_ip host)"
    using assms by (auto simp: control_conn_def split: option.splits prod.splits if_splits)
  then obtain ip where ip: "parse_ip host = Some ip"
    by (cases "parse_ip host") (auto simp: is_disallowed_ip_def)
  with that h ok disallowed_non_public [OF parse_ip_length [OF ip]] parse_ip_length [OF ip]
  show thesis by auto
qed

lemma validate_url_scheme:
  "validate_url raw https_only = Inr () \<Longrightarrow> parse_url raw = Some u \<Longrightarrow>
   u_scheme u = ''https'' \<or> (\<not> https_only \<and> u_scheme u = ''http'')"
  by (auto simp: validate_url_def Let_def split: if_splits option.splits)

lemma run_nonempty: "client_run https_only u tr \<Longrightarrow> tr \<noteq> []"
  by (induction rule: client_run.induct) auto

subsection \<open>Guarantee\<close>

text \<open>
  C1: whatever names resolve to and wherever servers redirect, every address a client dials for a
  validated URL parses to one outside the refused blocks, and every hop of a client for trust material
  uses TLS.
\<close>

theorem fetch_stays_public:
  assumes "validate_url raw https_only = Inr ()" and "parse_url raw = Some u"
    and "client_run https_only u tr" and "(v, address) \<in> set tr"
  shows "(u_scheme v = ''https'' \<or> \<not> https_only \<and> u_scheme v = ''http'') \<and>
    (\<exists>host port ip. split_host_port address = Some (host, port) \<and> parse_ip host = Some ip \<and>
       length ip = 16 \<and> \<not> non_public ip)"
proof -
  let ?ok = "\<lambda>(v, address). (u_scheme v = ''https'' \<or> \<not> https_only \<and> u_scheme v = ''http'') \<and>
    (\<exists>host port ip. split_host_port address = Some (host, port) \<and> parse_ip host = Some ip \<and>
       length ip = 16 \<and> \<not> non_public ip)"
  have "list_all ?ok tr"
    using assms(3)
  proof induction
    case (run_first address)
    show ?case
      using validate_url_scheme [OF assms(1,2)] by (rule_tac control_conn_public [OF run_first]) auto
  next
    case (run_retry tr address)
    obtain w b where w: "last tr = (w, b)" by (cases "last tr")
    then have "(w, b) \<in> set tr" using run_nonempty [OF run_retry(1)] by (metis last_in_set)
    with run_retry w show ?case
      by (rule_tac control_conn_public [OF run_retry(2)]) (auto simp: list_all_iff)
  next
    case (run_redirect tr target v address)
    show ?case
      using validate_url_scheme [OF run_redirect(3,2)] run_redirect.IH
      by (rule_tac control_conn_public [OF run_redirect(4)]) auto
  qed
  with assms(4) show ?thesis by (auto simp: list_all_iff)
qed

text \<open>A fetch that is redirected once.\<close>

definition demo_hop :: go_url where
  "demo_hop = empty_url\<lparr>u_scheme := ''https'', u_host := ''sp.example'', u_path := ''/metadata''\<rparr>"

lemmas address_simps = split_host_port_def last_cut_def parse_ip_def v4_addr_def v4_octet_def
  is_digit_def v4_bytes_def dec_value_def parse_v6_def v6_side_bytes_def v6_group_def
  v6_group_bytes_def hex_value_def unhex_def

lemmas block_simps = is_disallowed_ip_def is_loopback_def is_private_def is_unspecified_def
  is_link_local_unicast_def is_link_local_multicast_def is_multicast_def
  is_interface_local_multicast_def cgnat_contains_def to4_def v4_mapped_def v6_loopback_def
  v6_unspecified_def

lemma zero_bytes:
  "replicate 6 (0 :: 8 word) = [0, 0, 0, 0, 0, 0]"
  "replicate 8 (0 :: 8 word) = [0, 0, 0, 0, 0, 0, 0, 0]"
  "replicate 10 (0 :: 8 word) = [0, 0, 0, 0, 0, 0, 0, 0, 0, 0]"
  "replicate 12 (0 :: 8 word) = [0, 0, 0, 0, 0, 0, 0, 0, 0, 0, 0, 0]"
  "replicate 16 (0 :: 8 word) = [0, 0, 0, 0, 0, 0, 0, 0, 0, 0, 0, 0, 0, 0, 0, 0]"
  by (simp_all add: eval_nat_numeral)

lemma demo_urls:
  "parse_url ''https://sp.example/metadata'' = Some demo_hop"
  "validate_url ''https://sp.example/metadata'' True = Inr ()"
  by code_simp+

lemma demo_dials:
  "control_conn ''93.184.216.34:443'' = Inr ()"
  "control_conn ''[2606:2800:220:1::5]:443'' = Inr ()"
  by (simp_all add: control_conn_def address_simps block_simps zero_bytes Let_def)

text \<open>The instance metadata service, private networks and a zone are refused.\<close>

lemma demo_refused:
  "control_conn ''169.254.169.254:80'' \<noteq> Inr ()" "control_conn ''[::ffff:10.0.0.7]:443'' \<noteq> Inr ()"
  "control_conn ''[fd00::1]:443'' \<noteq> Inr ()" "control_conn ''[fe80::1%eth0]:443'' \<noteq> Inr ()"
  by (simp_all add: control_conn_def address_simps block_simps zero_bytes Let_def)

theorem fetch_stays_public_witness:
  "client_run True demo_hop [(demo_hop, ''93.184.216.34:443''), (demo_hop, ''[2606:2800:220:1::5]:443'')] \<and>
   (\<exists>host port ip. split_host_port ''[2606:2800:220:1::5]:443'' = Some (host, port) \<and>
      parse_ip host = Some ip \<and> length ip = 16 \<and> \<not> non_public ip)"
proof -
  have "client_run True demo_hop ([(demo_hop, ''93.184.216.34:443'')] @ [(demo_hop, ''[2606:2800:220:1::5]:443'')])"
    by (rule run_redirect [OF run_first [OF demo_dials(1)] demo_urls(1) demo_urls(2) demo_dials(2)])
  then have r: "client_run True demo_hop [(demo_hop, ''93.184.216.34:443''), (demo_hop, ''[2606:2800:220:1::5]:443'')]"
    by simp
  show ?thesis
    using r fetch_stays_public [OF demo_urls(2,1) r, of demo_hop "''[2606:2800:220:1::5]:443''"] by simp
qed

text \<open>The IPv6 forms that embed an IPv4 address by translation are not among the refused blocks.\<close>

lemma translated_metadata_address_allowed: "control_conn ''[64:ff9b::a9fe:a9fe]:80'' = Inr ()"
  by (simp add: control_conn_def address_simps block_simps zero_bytes Let_def)

end
