(* ===== verification/ClaimPreview.thy ===== *)
theory ClaimPreview
  imports SamlRelease ApiTypes
begin

text \<open>
  The dry run of the claim mappings: \<^verbatim>\<open>internal/service/preview.go\<close> and its endpoint
  \<^verbatim>\<open>internal/api/app_preview.go\<close>, with the theorem that a SAML preview shows what the assertion would
  carry.

  Text is UTF-8 without invalid sequences; the JSON printer is an argument.
\<close>

subsection \<open>Escaping\<close>

text \<open>\<^verbatim>\<open>xml.EscapeText\<close> on bytes: a control character other than tab, newline and return is replaced.\<close>

definition xml_escape_char :: "char \<Rightarrow> string" where
  "xml_escape_char c =
     (if c = CHR 0x22 then ''&#34;'' else if c = CHR 0x27 then ''&#39;''
      else if c = CHR ''&'' then ''&amp;'' else if c = CHR ''<'' then ''&lt;''
      else if c = CHR ''>'' then ''&gt;'' else if c = CHR 0x09 then ''&#x9;''
      else if c = CHR 0x0A then ''&#xA;'' else if c = CHR 0x0D then ''&#xD;''
      else if (of_char c :: nat) < 32 then [CHR 0xEF, CHR 0xBF, CHR 0xBD] else [c])"

definition xml_escape_text :: "string \<Rightarrow> string" where
  "xml_escape_text s = concat (map xml_escape_char s)"

subsection \<open>The service\<close>

record test_user =
  tu_sub :: string
  tu_email :: string
  tu_groups :: "string list"

definition test_user_data :: "test_user \<Rightarrow> (string \<times> string) list" where
  "test_user_data u = [(''sub'', tu_sub u), (''email'', tu_email u)]"

definition resolve_test_user_field :: "string \<Rightarrow> (string \<times> string) list \<Rightarrow> string" where
  "resolve_test_user_field source d = (case map_of d source of Some v \<Rightarrow> v | None \<Rightarrow> [])"

definition preview_values ::
  "(string \<times> string) list \<Rightarrow> (string \<times> string) list \<Rightarrow> string list \<Rightarrow> claim_mapping \<Rightarrow> string list" where
  "preview_values role_map d groups cm =
     (if is_cognito_source (cm_source_type cm) then
        (let v = resolve_test_user_field (cm_source_attribute cm) d;
             v' = (if v = [] \<and> cm_default_value cm \<noteq> [] then cm_default_value cm else v)
         in if v' \<noteq> [] then [v'] else [])
      else if cm_source_type cm = ''groupMapping'' then List.map_filter (map_of role_map) groups
      else if cm_source_type cm = ''static'' then
        (if cm_default_value cm \<noteq> [] then [cm_default_value cm] else [])
      else [])"

definition line :: "nat \<Rightarrow> string \<Rightarrow> string" where
  "line indent s = CHR 0x0A # replicate indent CHR '' '' @ s"

definition quoted :: "string \<Rightarrow> string" where
  "quoted s = CHR 0x22 # s @ [CHR 0x22]"

definition saml_attribute_element :: "string \<Rightarrow> string list \<Rightarrow> string" where
  "saml_attribute_element name values =
     line 4 (''<saml:Attribute Name='' @ quoted (xml_escape_text name) @ ''>'') @
     concat (map (\<lambda>v. line 6 (''<saml:AttributeValue>'' @ xml_escape_text v @ ''</saml:AttributeValue>''))
       values) @
     line 4 ''</saml:Attribute>''"

definition saml_document :: "(string \<times> string list) list \<Rightarrow> string" where
  "saml_document attrs =
     ''<saml:Assertion xmlns:saml='' @ quoted ''urn:oasis:names:tc:SAML:2.0:assertion'' @ ''>'' @
     line 2 ''<saml:AttributeStatement>'' @
     concat (map (\<lambda>(name, values). saml_attribute_element name values) attrs) @
     line 2 ''</saml:AttributeStatement>'' @ line 0 ''</saml:Assertion>''"

definition preview_attributes ::
  "claim_mapping list \<Rightarrow> (string \<times> string) list \<Rightarrow> (string \<times> string) list \<Rightarrow> string list \<Rightarrow>
   (string \<times> string list) list" where
  "preview_attributes cms role_map d groups =
     filter (\<lambda>(name, values). values \<noteq> [])
       (map (\<lambda>cm. (cm_target_attribute cm, preview_values role_map d groups cm)) cms)"

definition build_saml_preview ::
  "claim_mapping list \<Rightarrow> (string \<times> string) list \<Rightarrow> (string \<times> string) list \<Rightarrow> string list \<Rightarrow> string" where
  "build_saml_preview cms role_map d groups =
     saml_document (preview_attributes cms role_map d groups)"

definition preview_claim ::
  "(string \<times> string) list \<Rightarrow> (string \<times> string) list \<Rightarrow> string list \<Rightarrow> claim_mapping \<Rightarrow> private_value option"
where
  "preview_claim role_map d groups cm =
     (case preview_values role_map d groups cm of
        [] \<Rightarrow> None
      | v # vs \<Rightarrow>
          if \<not> is_cognito_source (cm_source_type cm) \<and> cm_source_type cm = ''groupMapping''
          then Some (PList (v # vs)) else Some (PStr v))"

definition preview_claims ::
  "claim_mapping list \<Rightarrow> (string \<times> string) list \<Rightarrow> (string \<times> string) list \<Rightarrow> string list \<Rightarrow>
   (string \<times> private_value) list" where
  "preview_claims cms role_map d groups =
     fold (\<lambda>cm m. case preview_claim role_map d groups cm of
             None \<Rightarrow> m | Some v \<Rightarrow> AList.update (cm_target_attribute cm) v m) cms []"

definition build_oidc_preview ::
  "((string \<times> private_value) list \<Rightarrow> string) \<Rightarrow> claim_mapping list \<Rightarrow> (string \<times> string) list \<Rightarrow>
   (string \<times> string) list \<Rightarrow> string list \<Rightarrow> string" where
  "build_oidc_preview json cms role_map d groups = json (preview_claims cms role_map d groups)"

definition claim_preview ::
  "((string \<times> private_value) list \<Rightarrow> string) \<Rightarrow> string \<Rightarrow> string \<Rightarrow> test_user \<Rightarrow> cfg_db \<Rightarrow>
   (string \<times> string) res" where
  "claim_preview json slug i user cfg =
     (case app_get slug i cfg of
        Inl e \<Rightarrow> Inl (Wrap ''failed to get application'' e)
      | Inr app \<Rightarrow>
          (case get_claim_mappings slug i cfg of
             Inl e \<Rightarrow> Inl (Wrap ''failed to get claim mappings'' e)
           | Inr cms \<Rightarrow>
               (case get_role_mappings slug i cfg of
                  Inl e \<Rightarrow> Inl (Wrap ''failed to get role mappings'' e)
                | Inr rms \<Rightarrow>
                    Inr (a_protocol app,
                      if equal_fold (a_protocol app) ''saml''
                      then build_saml_preview cms (role_map_of rms) (test_user_data user) (tu_groups user)
                      else build_oidc_preview json cms (role_map_of rms) (test_user_data user)
                             (tu_groups user)))))"

definition preview_claim_mappings ::
  "((string \<times> private_value) list \<Rightarrow> string) \<Rightarrow> request_ctx \<Rightarrow> string \<Rightarrow> test_user \<Rightarrow> cfg_db \<Rightarrow>
   (string \<times> string) api" where
  "preview_claim_mappings json cx i user cfg =
     (case tenant_slug_from_context cx of
        None \<Rightarrow> Inl no_tenant
      | Some slug \<Rightarrow>
          (case claim_preview json slug i user cfg of
             Inl e \<Rightarrow> Inl (500, ''preview failed'')
           | Inr r \<Rightarrow> Inr r))"

subsection \<open>Escaped text is inert\<close>

lemma xml_escape_char_safe: "x \<in> set (xml_escape_char c) \<Longrightarrow> x \<notin> {CHR ''<'', CHR ''>'', CHR 0x22, CHR 0x27}"
  by (auto simp: xml_escape_char_def split: if_splits)

lemma xml_escape_text_safe: "set (xml_escape_text s) \<inter> {CHR ''<'', CHR ''>'', CHR 0x22, CHR 0x27} = {}"
  using xml_escape_char_safe by (fastforce simp: xml_escape_text_def)

subsection \<open>The preview against the assertion\<close>

text \<open>A session that carries exactly what the test user has.\<close>

definition session_of_test_user :: "test_user \<Rightarrow> saml_session \<Rightarrow> bool" where
  "session_of_test_user u s \<longleftrightarrow>
     ss_subject_id s = tu_sub u \<and> ss_user_email s = tu_email u \<and> ss_groups s = tu_groups u \<and>
     ss_user_given_name s = [] \<and> ss_user_surname s = [] \<and> ss_user_common_name s = [] \<and>
     ss_user_name s = [] \<and> ss_custom_attributes s = []"

lemma resolve_same:
  "session_of_test_user u s \<Longrightarrow>
   resolve_session_field s source (session_custom s) = resolve_test_user_field source (test_user_data u)"
  by (simp add: session_of_test_user_def resolve_session_field_def resolve_test_user_field_def
      test_user_data_def session_custom_def)

lemma values_same:
  "session_of_test_user u s \<Longrightarrow>
   map snd (attr_values role_map (session_custom s) s cm) =
     preview_values role_map (test_user_data u) (tu_groups u) cm"
  by (simp add: attr_values_def preview_values_def resolve_same Let_def comp_def)
    (simp add: session_of_test_user_def)

lemma attributes_same:
  assumes "session_of_test_user u s"
  shows "map (\<lambda>a. (sa_name a, map snd (sa_values a)))
      (List.map_filter (mapped_attribute role_map (session_custom s) s) cms) =
    preview_attributes cms role_map (test_user_data u) (tu_groups u)"
proof (induction cms)
  case Nil
  then show ?case by (simp add: preview_attributes_def List.map_filter_def)
next
  case (Cons cm cms)
  have "attr_values role_map (session_custom s) s cm = [] \<longleftrightarrow>
      preview_values role_map (test_user_data u) (tu_groups u) cm = []"
    using values_same [OF assms, of role_map cm] by (metis map_is_Nil_conv)
  with Cons values_same [OF assms, of role_map cm] show ?case
    by (simp add: preview_attributes_def List.map_filter_def mapped_attribute_def Let_def)
qed

text \<open>
  C1: the preview of a SAML application lists, in order and with the same values, the attributes the
  assertion maker would put in the assertion of a session with the test user's data.
\<close>

theorem preview_matches_assertion:
  assumes "claim_preview json slug i user cfg = Inr (protocol, doc)" and "equal_fold protocol ''saml''"
    and "session_of_test_user user s" and "a_id app = i"
  shows "doc = saml_document (map (\<lambda>a. (sa_name a, map snd (sa_values a))) (mapped_attributes cfg s slug app))"
proof -
  obtain cms rms where m: "get_claim_mappings slug i cfg = Inr cms" "get_role_mappings slug i cfg = Inr rms"
    and doc: "doc = build_saml_preview cms (role_map_of rms) (test_user_data user) (tu_groups user)"
    using assms(1,2) by (auto simp: claim_preview_def split: sum.splits)
  show ?thesis
    unfolding doc build_saml_preview_def mapped_attributes_def assms(4) m
    by (simp add: attributes_same [OF assms(3)])
qed

text \<open>An application that releases the address and the roles of a member of one group.\<close>

definition preview_mappings :: "claim_mapping list" where
  "preview_mappings =
     [\<lparr>cm_name = ''mail'', cm_source_type = ''attribute'', cm_source_attribute = ''email'',
       cm_target_attribute = ''mail'', cm_required = False, cm_default_value = []\<rparr>,
      \<lparr>cm_name = ''role'', cm_source_type = ''groupMapping'', cm_source_attribute = [],
       cm_target_attribute = ''role'', cm_required = False, cm_default_value = []\<rparr>]"

definition preview_config :: cfg_db where
  "preview_config =
     snd (put_role_mappings ''acme'' sample_id [\<lparr>rm_cognito_group = ''admins'', rm_mapped_value = ''A&B''\<rparr>]
       (snd (put_claim_mappings ''acme'' sample_id preview_mappings sample_db)))"

definition preview_user :: test_user where
  "preview_user = \<lparr>tu_sub = ''u1'', tu_email = ''ada@x'', tu_groups = [''admins'']\<rparr>"

definition preview_session :: saml_session where
  "preview_session = demo_session\<lparr>ss_subject_id := ''u1'', ss_user_email := ''ada@x'',
     ss_groups := [''admins''], ss_user_given_name := [], ss_user_surname := [],
     ss_user_common_name := [], ss_user_name := [], ss_custom_attributes := []\<rparr>"

lemma preview_lookups:
  "app_get ''acme'' sample_id preview_config = Inr demo_app"
  "get_claim_mappings ''acme'' sample_id preview_config = Inr preview_mappings"
  "get_role_mappings ''acme'' sample_id preview_config =
     Inr [\<lparr>rm_cognito_group = ''admins'', rm_mapped_value = ''A&B''\<rparr>]"
  by code_simp+

theorem preview_matches_assertion_witness:
  "\<exists>doc. claim_preview (\<lambda>_. []) ''acme'' sample_id preview_user preview_config = Inr (''saml'', doc) \<and>
     doc = saml_document (map (\<lambda>a. (sa_name a, map snd (sa_values a)))
       (mapped_attributes preview_config preview_session ''acme'' demo_app)) \<and>
     mapped_attributes preview_config preview_session ''acme'' demo_app \<noteq> []"
proof -
  have app: "a_protocol demo_app = ''saml''" "a_id demo_app = sample_id"
    by code_simp+
  have s: "session_of_test_user preview_user preview_session"
    by (simp add: session_of_test_user_def preview_user_def preview_session_def)
  obtain doc where d: "claim_preview (\<lambda>_. []) ''acme'' sample_id preview_user preview_config = Inr (''saml'', doc)"
    by (simp add: claim_preview_def preview_lookups app)
  have "mapped_attributes preview_config preview_session ''acme'' demo_app \<noteq> []"
    by (simp add: mapped_attributes_def app preview_lookups preview_mappings_def mapped_attribute_def
        attr_values_def is_cognito_source_def resolve_session_field_def preview_session_def
        List.map_filter_def Let_def)
  then show ?thesis
    using d preview_matches_assertion [OF d _ s app(2)] by simp
qed

text \<open>
  An OpenID preview does not drop reserved claim names, which the provider does: it shows a claim the
  token will not carry from a mapping.
\<close>

lemma preview_shows_reserved:
  "map_of (preview_claims [\<lparr>cm_name = ''n'', cm_source_type = ''static'', cm_source_attribute = [],
     cm_target_attribute = ''sub'', cm_required = False, cm_default_value = ''root''\<rparr>] [] [] []) ''sub'' =
     Some (PStr ''root'')"
  "''sub'' \<in> set reserved_claim_names"
  by code_simp+

end
