(* ===== verification/CloudAdapters.thy ===== *)
theory CloudAdapters
  imports SessionItems AuditStore Onboarding
begin

text \<open>
  The adapters between the gateway and the cloud services: the policy simulator of
  \<^verbatim>\<open>internal/aws/iam/prober.go\<close>, the credentials of \<^verbatim>\<open>internal/aws/sts/provider.go\<close>, the template
  publisher of \<^verbatim>\<open>internal/iac/publisher/s3.go\<close>, the secrets of \<^verbatim>\<open>internal/crypto/edge_secret.go\<close>,
  \<^verbatim>\<open>oidc_crypto_key.go\<close>, \<^verbatim>\<open>cookie_key.go\<close> and \<^verbatim>\<open>internal/aws/secrets/client.go\<close>, the pool discovery of
  \<^verbatim>\<open>internal/cognito/discovery.go\<close>, and the audit logger of \<^verbatim>\<open>internal/audit/logger.go\<close>. Each
  service is an argument.
\<close>

subsection \<open>The policy simulator\<close>

text \<open>A page: the evaluated actions, whether more follows, and the marker of the next page.\<close>

record simulation_page =
  sp_results :: "(string option \<times> bool) list"
  sp_truncated :: bool
  sp_marker :: "string option"

type_synonym simulator =
  "string \<Rightarrow> string list \<Rightarrow> string list \<Rightarrow> string option \<Rightarrow> simulation_page res"

definition add_decisions :: "(string option \<times> bool) list \<Rightarrow> (string \<times> bool) list \<Rightarrow> (string \<times> bool) list" where
  "add_decisions rs m =
     fold (\<lambda>(name, allowed) acc. case name of None \<Rightarrow> acc | Some a \<Rightarrow> AList.update a allowed acc) rs m"

text \<open>The loop over the pages ends only when the service says so: not returning is None.\<close>

partial_function (option) simulate_pages ::
  "(string option \<Rightarrow> simulation_page res) \<Rightarrow> string option \<Rightarrow> (string \<times> bool) list \<Rightarrow>
   (string \<times> bool) list res option" where
  "simulate_pages page marker acc =
     (case page marker of
        Inl e \<Rightarrow> Some (Inl (Wrap ''iam: SimulatePrincipalPolicy'' e))
      | Inr pg \<Rightarrow>
          let acc' = add_decisions (sp_results pg) acc in
          if \<not> sp_truncated pg \<or> sp_marker pg = None then Some (Inr acc')
          else simulate_pages page (sp_marker pg) acc')"

definition simulate ::
  "simulator \<Rightarrow> string \<Rightarrow> string list \<Rightarrow> string list \<Rightarrow> (string \<times> bool) list res option" where
  "simulate api role actions resources =
     (if role = [] then Some (Inl (ErrMsg ''iam: PolicySourceArn is required''))
      else if actions = [] then Some (Inl (ErrMsg ''iam: actions must be non-empty''))
      else simulate_pages (api role actions resources) None [])"

subsection \<open>Credentials\<close>

text \<open>
  A provider of credentials is the assumption it was built for: the role, the external id and the name of
  the session. The cache maps the tenant and the role to one.
\<close>

record assume_provider =
  as_role :: string
  as_external_id :: string
  as_session_name :: string

type_synonym sts_cache = "(string \<times> assume_provider) list"

definition cache_key :: "string \<Rightarrow> string \<Rightarrow> string" where
  "cache_key slug role = slug @ CHR 0x00 # role"

definition role_session_name :: "string \<Rightarrow> string" where
  "role_session_name slug = ''identity-gateway-'' @ take 47 slug"

definition assume_for_tenant ::
  "identity_source option \<Rightarrow> sts_cache \<Rightarrow> assume_provider res \<times> sts_cache" where
  "assume_for_tenant src cache =
     (case src of
        None \<Rightarrow> (Inl (ErrMsg ''sts: source must not be nil''), cache)
      | Some s \<Rightarrow>
          if s_role_arn s = [] then (Inl (ErrMsg (''sts: RoleArn is required on identity source '' @ s_id s)), cache)
          else if s_external_id s = []
          then (Inl (ErrMsg (''sts: ExternalID is required on identity source '' @ s_id s)), cache)
          else let key = cache_key (s_tenant_slug s) (s_role_arn s) in
            (case map_of cache key of
               Some p \<Rightarrow> (Inr p, cache)
             | None \<Rightarrow>
                 let p = \<lparr>as_role = s_role_arn s, as_external_id = s_external_id s,
                          as_session_name = role_session_name (s_tenant_slug s)\<rparr>
                 in (Inr p, AList.update key p cache)))"

subsection \<open>Templates\<close>

definition template_extension :: "string \<Rightarrow> string option" where
  "template_extension fmt = map_of [(''cfn'', ''.yaml''), (''tf'', ''.tf''), (''cli'', ''.sh'')] fmt"

definition template_content_type :: "string \<Rightarrow> string" where
  "template_content_type fmt =
     (case map_of [(''cfn'', ''application/x-yaml''), (''tf'', ''text/plain''),
        (''cli'', ''text/x-shellscript'')] fmt of Some t \<Rightarrow> t | None \<Rightarrow> [])"

text \<open>\<^verbatim>\<open>strings.TrimRight\<close> of slashes.\<close>

definition trim_slashes :: "string \<Rightarrow> string" where
  "trim_slashes s = rev (dropWhile (\<lambda>c. c = CHR ''/'') (rev s))"

record s3_publisher =
  s3_bucket :: string
  s3_base_url :: string

definition new_s3 :: "string \<Rightarrow> string \<Rightarrow> s3_publisher" where
  "new_s3 bucket base = \<lparr>s3_bucket = bucket, s3_base_url = trim_slashes base\<rparr>"

text \<open>\<open>put_object\<close> takes the bucket, the key, the content type and the body.\<close>

definition publish_template ::
  "(string \<Rightarrow> string \<Rightarrow> string \<Rightarrow> string \<Rightarrow> unit res) \<Rightarrow> s3_publisher \<Rightarrow> 8 word list option \<Rightarrow>
   string \<Rightarrow> string \<Rightarrow> string \<Rightarrow> string res" where
  "publish_template put_object p rnd slug fmt body =
     (case template_extension fmt of
        None \<Rightarrow> Inl (ErrMsg (''publisher: unknown format '' @ fmt))
      | Some ext \<Rightarrow>
          (case rnd of
             None \<Rightarrow> Inl (Wrap ''publisher: random id'' (ErrMsg ''rand''))
           | Some bs \<Rightarrow>
               let key = ''templates/'' @ slug @ ''/'' @ concat (map hex_byte bs) @ ext in
               (case put_object (s3_bucket p) key (template_content_type fmt) body of
                  Inl e \<Rightarrow> Inl (Wrap ''publisher: PutObject'' e)
                | Inr _ \<Rightarrow> Inr (s3_base_url p @ ''/'' @ key))))"

subsection \<open>Secrets\<close>

text \<open>What the secret store answers: the string value and the binary value, either of them absent.\<close>

record secret_value =
  sv_string :: "string option"
  sv_binary :: "8 word list option"

definition fetch_edge_secret :: "(string \<Rightarrow> secret_value res) \<Rightarrow> string \<Rightarrow> string res" where
  "fetch_edge_secret get arn =
     (if arn = [] then Inr []
      else case get arn of
          Inl e \<Rightarrow> Inl (Wrap ''failed to fetch edge secret from Secrets Manager'' e)
        | Inr out \<Rightarrow>
            (case sv_string out of
               None \<Rightarrow> Inl (ErrMsg ''edge secret has no string value'')
             | Some s \<Rightarrow>
                 let v = trim_space s in
                 if v = [] then Inl (ErrMsg ''edge secret resolved to an empty string'') else Inr v))"

definition fetch_secret_key_32 :: "(string \<Rightarrow> secret_value res) \<Rightarrow> string \<Rightarrow> string \<Rightarrow> 8 word list res" where
  "fetch_secret_key_32 get arn label =
     (case get arn of
        Inl e \<Rightarrow> Inl (Wrap (''failed to fetch '' @ label @ '' from Secrets Manager'') e)
      | Inr out \<Rightarrow>
          (case sv_binary out of
             None \<Rightarrow> Inl (ErrMsg (label @ '' secret has no binary value''))
           | Some bs \<Rightarrow>
               if length bs \<noteq> 32 then Inl (ErrMsg (label @ '' secret has wrong length'')) else Inr bs))"

definition fetch_oidc_crypto_key :: "(string \<Rightarrow> secret_value res) \<Rightarrow> string \<Rightarrow> 8 word list res" where
  "fetch_oidc_crypto_key get arn = fetch_secret_key_32 get arn ''OIDC crypto key''"

definition fetch_cookie_key :: "(string \<Rightarrow> secret_value res) \<Rightarrow> string \<Rightarrow> 8 word list res" where
  "fetch_cookie_key get arn = fetch_secret_key_32 get arn ''cookie key''"

text \<open>The client secret of a source, read with the credentials of the tenant's own account.\<close>

definition get_secret :: "(string \<Rightarrow> secret_value res) \<Rightarrow> string \<Rightarrow> string res" where
  "get_secret get arn =
     (if arn = [] then Inl (ErrMsg ''secrets: secret ARN is required'')
      else case get arn of
          Inl e \<Rightarrow> Inl (Wrap (''secrets: GetSecretValue '' @ arn) e)
        | Inr out \<Rightarrow>
            (case sv_string out of
               None \<Rightarrow> Inl (ErrMsg (''secrets: SecretString is empty for '' @ arn))
             | Some s \<Rightarrow>
                 if s = [] then Inl (ErrMsg (''secrets: SecretString is empty for '' @ arn)) else Inr s))"

subsection \<open>The pool\<close>

text \<open>What the service describes of a pool: its domain prefix and the names of its attributes.\<close>

record user_pool =
  up_domain :: "string option"
  up_attributes :: "string option list"

record pool_info =
  pi_domain :: string
  pi_attributes :: "string list"

definition discover_pool :: "(string \<Rightarrow> string \<Rightarrow> user_pool res) \<Rightarrow> string \<Rightarrow> string \<Rightarrow> pool_info res" where
  "discover_pool describe pool region =
     (case describe pool region of
        Inl e \<Rightarrow> Inl (Wrap ''DescribeUserPool failed'' e)
      | Inr up \<Rightarrow>
          Inr \<lparr>pi_domain =
                 (case up_domain up of
                    None \<Rightarrow> []
                  | Some d \<Rightarrow> if d = [] then [] else d @ ''.auth.'' @ region @ ''.amazoncognito.com''),
               pi_attributes = List.map_filter id (up_attributes up)\<rparr>)"

subsection \<open>The audit logger\<close>

record audit_event =
  ev_tenant :: string
  ev_flow_id :: string
  ev_step :: string
  ev_user :: string
  ev_application :: string
  ev_status :: string
  ev_timestamp :: gotime
  ev_metadata :: "(string \<times> string) list"

text \<open>Whether a log client and a step store are wired.\<close>

record audit_logger =
  al_client :: bool
  al_store :: bool

definition new_logger :: "environment \<Rightarrow> bool \<Rightarrow> bool \<Rightarrow> audit_logger res" where
  "new_logger env client store =
     (if \<not> client \<and> \<not> is_local env then Inl (ErrMsg ''audit: CloudWatch Logs client is required'')
      else Inr \<lparr>al_client = client, al_store = store\<rparr>)"

definition audit_event_of ::
  "gotime \<Rightarrow> string \<Rightarrow> string \<Rightarrow> string \<Rightarrow> string \<Rightarrow> string \<Rightarrow> (string \<times> string) list \<Rightarrow> audit_event" where
  "audit_event_of now slug flow stp sp user payload =
     \<lparr>ev_tenant = (if slug = [] then (case map_of payload ''tenant'' of Some t \<Rightarrow> t | None \<Rightarrow> []) else slug),
      ev_flow_id = flow, ev_step = stp, ev_user = user, ev_application = sp,
      ev_status = (case map_of payload ''status'' of Some s \<Rightarrow> s | None \<Rightarrow> ''info''),
      ev_timestamp = now, ev_metadata = payload\<rparr>"

text \<open>
  The stream of a day; \<open>put_events\<close> takes the stream, the message and the time in milliseconds. Creating
  the stream is tried every time and its outcome ignored.
\<close>

definition stream_name :: "gotime \<Rightarrow> string" where
  "stream_name t =
     (case civil (unix t div 86400) of (y, mo, dd) \<Rightarrow>
        dec_digits 4 (nat y) @ ''/'' @ dec_digits 2 (nat mo) @ ''/'' @ dec_digits 2 (nat dd))"

definition write_to_cw_logs ::
  "(audit_event \<Rightarrow> string option) \<Rightarrow> (string \<Rightarrow> string \<Rightarrow> int \<Rightarrow> unit res) \<Rightarrow> audit_event \<Rightarrow> unit res" where
  "write_to_cw_logs json put_events ev =
     (case json ev of
        None \<Rightarrow> Inl (Wrap ''marshal event'' (ErrMsg ''json''))
      | Some msg \<Rightarrow> put_events (stream_name (ev_timestamp ev)) msg (ev_timestamp ev div 1000000))"

text \<open>
  One step: the events that reached the log, the number of failure metrics, and the outcome of the store,
  which gets the effective tenant.
\<close>

definition logger_log_step ::
  "(audit_event \<Rightarrow> string option) \<Rightarrow> (string \<Rightarrow> string \<Rightarrow> int \<Rightarrow> unit res) \<Rightarrow> audit_logger \<Rightarrow> gotime \<Rightarrow>
   8 word list option \<Rightarrow> string \<Rightarrow> string \<Rightarrow> string \<Rightarrow> string \<Rightarrow> string \<Rightarrow> (string \<times> string) list \<Rightarrow>
   audit_state \<Rightarrow> (audit_event list \<times> nat \<times> unit res) \<times> audit_state" where
  "logger_log_step json put_events lg now rnd slug flow stp sp user payload st =
     (let ev = audit_event_of now slug flow stp sp user payload;
          sent = (if al_client lg then write_to_cw_logs json put_events ev else Inl ErrTransient);
          events = (if sent = Inr () then [ev] else []);
          metrics = (if al_client lg \<and> sent \<noteq> Inr () then 1 else 0)
      in if al_store lg then
           (case log_step now rnd (ev_tenant ev) flow stp sp user payload st of
              (Inl e, st') \<Rightarrow> ((events, metrics, Inl (Wrap ''audit ddb write'' e)), st')
            | (Inr _, st') \<Rightarrow> ((events, metrics, Inr ()), st'))
         else ((events, metrics, Inr ()), st))"

definition logger_get_flow :: "audit_logger \<Rightarrow> string \<Rightarrow> string \<Rightarrow> ses_db \<Rightarrow> flow_step list res" where
  "logger_get_flow lg slug flow d = (if al_store lg then get_flow slug flow d else Inr [])"

definition logger_get_recent_steps :: "audit_logger \<Rightarrow> string \<Rightarrow> int \<Rightarrow> ses_db \<Rightarrow> flow_step list res" where
  "logger_get_recent_steps lg slug limit d =
     (if al_store lg then get_recent_steps slug limit d else Inr [])"

subsection \<open>The simulation ends with the pages\<close>

text \<open>The pages the service serves from a marker on, the last of them not truncated.\<close>

fun page_chain ::
  "(string option \<Rightarrow> simulation_page res) \<Rightarrow> string option \<Rightarrow> simulation_page list \<Rightarrow> bool" where
  "page_chain page marker [] = False"
| "page_chain page marker (pg # pgs) \<longleftrightarrow>
     page marker = Inr pg \<and>
     (if \<not> sp_truncated pg \<or> sp_marker pg = None then pgs = [] else page_chain page (sp_marker pg) pgs)"

definition all_decisions :: "simulation_page list \<Rightarrow> (string \<times> bool) list \<Rightarrow> (string \<times> bool) list" where
  "all_decisions pgs acc = fold (\<lambda>pg m. add_decisions (sp_results pg) m) pgs acc"

lemma chain_returns:
  "page_chain page marker pgs \<Longrightarrow> simulate_pages page marker acc = Some (Inr (all_decisions pgs acc))"
proof (induction pgs arbitrary: marker acc)
  case (Cons pg pgs)
  then show ?case
    by (auto simp: simulate_pages.simps [of page marker acc] all_decisions_def Let_def split: if_splits)
qed simp

lemma returned_chain:
  assumes "simulate_pages page marker acc = Some r"
  shows "r = Inr m \<Longrightarrow> \<exists>pgs. page_chain page marker pgs \<and> m = all_decisions pgs acc"
proof (rule simulate_pages.raw_induct [OF _ assms,
    of "\<lambda>page marker acc r. r = Inr m \<longrightarrow> (\<exists>pgs. page_chain page marker pgs \<and> m = all_decisions pgs acc)",
    THEN mp], goal_cases)
  case (1 rec page marker acc r)
  show ?case
  proof
    assume m: "r = Inr m"
    obtain pg where pg: "page marker = Inr pg"
      using 1(3) m by (cases "page marker") auto
    show "\<exists>pgs. page_chain page marker pgs \<and> m = all_decisions pgs acc"
    proof (cases "\<not> sp_truncated pg \<or> sp_marker pg = None")
      case True
      with 1(3) m pg have "page_chain page marker [pg] \<and> m = all_decisions [pg] acc"
        by (auto simp: all_decisions_def Let_def)
      then show ?thesis ..
    next
      case False
      with 1(3) pg have "rec page (sp_marker pg) (add_decisions (sp_results pg) acc) = Some r"
        by (auto simp: Let_def split: if_splits)
      from 1(2) [OF this] m obtain pgs where
        "page_chain page (sp_marker pg) pgs" "m = all_decisions pgs (add_decisions (sp_results pg) acc)" by auto
      with False pg have "page_chain page marker (pg # pgs) \<and> m = all_decisions (pg # pgs) acc"
        by (auto simp: all_decisions_def)
      then show ?thesis ..
    qed
  qed
qed simp

text \<open>
  C1: a simulation returns decisions exactly when the pages of the service come to an end, and then
  they are those of all the pages, a later page overriding an earlier one.
\<close>

theorem simulate_returns:
  assumes "role \<noteq> []" and "actions \<noteq> []"
  shows "simulate api role actions resources = Some (Inr m) \<longleftrightarrow>
    (\<exists>pgs. page_chain (api role actions resources) None pgs \<and> m = all_decisions pgs [])"
  using assms chain_returns [of "api role actions resources" None]
    returned_chain [of "api role actions resources" None "[]"]
  by (auto simp: simulate_def)

definition demo_simulator :: simulator where
  "demo_simulator role actions resources marker =
     (if marker = None
      then Inr \<lparr>sp_results = [(Some ''iam:PassRole'', True), (None, True)], sp_truncated = True,
                sp_marker = Some ''2''\<rparr>
      else Inr \<lparr>sp_results = [(Some ''cognito-idp:ListUsers'', False)], sp_truncated = False,
                sp_marker = None\<rparr>)"

theorem simulate_returns_witness:
  "simulate demo_simulator ''role'' [''a''] [] =
     Some (Inr [(''iam:PassRole'', True), (''cognito-idp:ListUsers'', False)])"
proof -
  have "\<exists>pgs. page_chain (demo_simulator ''role'' [''a''] []) None pgs \<and>
      [(''iam:PassRole'', True), (''cognito-idp:ListUsers'', False)] = all_decisions pgs []"
    by (rule exI [of _ "[\<lparr>sp_results = [(Some ''iam:PassRole'', True), (None, True)], sp_truncated = True,
          sp_marker = Some ''2''\<rparr>, \<lparr>sp_results = [(Some ''cognito-idp:ListUsers'', False)],
          sp_truncated = False, sp_marker = None\<rparr>]"])
      (simp add: demo_simulator_def all_decisions_def add_decisions_def)
  then show ?thesis by (simp add: simulate_returns)
qed

subsection \<open>Credentials stay with their tenant\<close>

definition assume_all :: "identity_source list \<Rightarrow> sts_cache" where
  "assume_all srcs = fold (\<lambda>s c. snd (assume_for_tenant (Some s) c)) srcs []"

definition nul_free :: "identity_source \<Rightarrow> bool" where
  "nul_free s \<longleftrightarrow> CHR 0x00 \<notin> set (s_tenant_slug s)"

definition assumed_for :: "identity_source \<Rightarrow> identity_source list \<Rightarrow> assume_provider \<Rightarrow> bool" where
  "assumed_for s srcs p \<longleftrightarrow>
     as_role p = s_role_arn s \<and> as_session_name p = role_session_name (s_tenant_slug s) \<and>
     (\<exists>t\<in>set srcs. s_tenant_slug t = s_tenant_slug s \<and> s_role_arn t = s_role_arn s \<and>
        as_external_id p = s_external_id t)"

lemma cache_key_inject:
  "nul_free s \<Longrightarrow> nul_free t \<Longrightarrow>
   cache_key (s_tenant_slug s) (s_role_arn s) = cache_key (s_tenant_slug t) (s_role_arn t) \<longleftrightarrow>
     s_tenant_slug s = s_tenant_slug t \<and> s_role_arn s = s_role_arn t"
  by (simp add: cache_key_def nul_free_def append_sep_inject)

lemma assumed_for_mono: "assumed_for s srcs p \<Longrightarrow> set srcs \<subseteq> set srcs' \<Longrightarrow> assumed_for s srcs' p"
  by (auto simp: assumed_for_def)

lemma assume_cases:
  obtains (refused) "snd (assume_for_tenant (Some s) c) = c" "\<And>p. fst (assume_for_tenant (Some s) c) \<noteq> Inr p"
  | (cached) p where "map_of c (cache_key (s_tenant_slug s) (s_role_arn s)) = Some p"
      "assume_for_tenant (Some s) c = (Inr p, c)"
  | (built) p where
      "p = \<lparr>as_role = s_role_arn s, as_external_id = s_external_id s,
            as_session_name = role_session_name (s_tenant_slug s)\<rparr>"
      "assume_for_tenant (Some s) c = (Inr p, AList.update (cache_key (s_tenant_slug s) (s_role_arn s)) p c)"
  by (cases "s_role_arn s = []"; cases "s_external_id s = []";
      cases "map_of c (cache_key (s_tenant_slug s) (s_role_arn s))")
    (auto simp: assume_for_tenant_def Let_def)

definition cache_ok :: "identity_source list \<Rightarrow> sts_cache \<Rightarrow> bool" where
  "cache_ok srcs c \<longleftrightarrow>
     (\<forall>t p. nul_free t \<longrightarrow> map_of c (cache_key (s_tenant_slug t) (s_role_arn t)) = Some p \<longrightarrow>
        assumed_for t srcs p)"

lemma assume_step:
  assumes inv: "cache_ok srcs c" and s: "nul_free s"
  shows "cache_ok (srcs @ [s]) (snd (assume_for_tenant (Some s) c)) \<and>
    (\<forall>p. fst (assume_for_tenant (Some s) c) = Inr p \<longrightarrow> assumed_for s (srcs @ [s]) p)"
proof -
  have kept: "cache_ok (srcs @ [s]) c"
    using inv assumed_for_mono [of _ srcs _ "srcs @ [s]"] unfolding cache_ok_def by fastforce
  show ?thesis
  proof (cases rule: assume_cases [of s c])
    case refused
    with kept show ?thesis by simp
  next
    case (cached p)
    with kept s show ?thesis by (simp add: cache_ok_def)
  next
    case (built p)
    have own: "assumed_for t (srcs @ [s]) p"
      if "s_tenant_slug t = s_tenant_slug s" and "s_role_arn t = s_role_arn s" for t
      using that by (simp add: assumed_for_def built(1))
    have "assumed_for t (srcs @ [s]) q" if t: "nul_free t"
      and q: "map_of (AList.update (cache_key (s_tenant_slug s) (s_role_arn s)) p c)
        (cache_key (s_tenant_slug t) (s_role_arn t)) = Some q" for t q
    proof (cases "cache_key (s_tenant_slug t) (s_role_arn t) = cache_key (s_tenant_slug s) (s_role_arn s)")
      case True
      with q own cache_key_inject [OF t s] show ?thesis by (simp add: update_conv')
    next
      case False
      with q kept t show ?thesis by (simp add: update_conv' cache_ok_def)
    qed
    with own show ?thesis by (simp add: cache_ok_def built(2))
  qed
qed

lemma assume_all_ok: "list_all nul_free srcs \<Longrightarrow> cache_ok srcs (assume_all srcs)"
proof (induction srcs rule: rev_induct)
  case Nil
  then show ?case by (simp add: assume_all_def cache_ok_def)
next
  case (snoc s srcs)
  then have "cache_ok srcs (assume_all srcs)" "nul_free s" by auto
  from assume_step [OF this] show ?case by (simp add: assume_all_def)
qed

text \<open>
  C2: whatever sources were probed before, a source gets credentials for its own role, under a session
  name of its own tenant that fits the limit of 64 characters, with the external id of a source of the
  same tenant and role.
\<close>

theorem assumed_role_is_own:
  assumes "list_all nul_free srcs" and "nul_free s"
    and "fst (assume_for_tenant (Some s) (assume_all srcs)) = Inr p"
  shows "as_role p = s_role_arn s \<and> as_session_name p = role_session_name (s_tenant_slug s) \<and>
    length (as_session_name p) \<le> 64 \<and>
    (\<exists>t\<in>set (srcs @ [s]). s_tenant_slug t = s_tenant_slug s \<and> s_role_arn t = s_role_arn s \<and>
       as_external_id p = s_external_id t)"
  using assume_step [OF assume_all_ok [OF assms(1)] assms(2)] assms(3)
  by (auto simp: assumed_for_def role_session_name_def)

definition demo_role_source :: "string \<Rightarrow> string \<Rightarrow> identity_source" where
  "demo_role_source slug ext =
     \<lparr>s_id = ''s'', s_tenant_slug = slug, s_display_name = [], s_type = ''cognito'', s_pool_id = [],
      s_region = [], s_domain = [], s_client_id = [], s_status = [], s_created_at = 0, s_updated_at = 0,
      s_role_arn = ''arn:role'', s_external_id = ext, s_secret_arn = []\<rparr>"

text \<open>The cache key leaves out the external id: after it changed, the former one is still used.\<close>

theorem assumed_role_is_own_witness:
  "fst (assume_for_tenant (Some (demo_role_source ''acme'' ''new'')) (assume_all [demo_role_source ''acme'' ''old''])) =
     Inr \<lparr>as_role = ''arn:role'', as_external_id = ''old'', as_session_name = ''identity-gateway-acme''\<rparr> \<and>
   (\<exists>t\<in>set ([demo_role_source ''acme'' ''old''] @ [demo_role_source ''acme'' ''new'']).
      s_tenant_slug t = ''acme'' \<and> s_external_id t = ''old'')"
proof -
  have a: "fst (assume_for_tenant (Some (demo_role_source ''acme'' ''new''))
      (assume_all [demo_role_source ''acme'' ''old''])) =
      Inr \<lparr>as_role = ''arn:role'', as_external_id = ''old'', as_session_name = ''identity-gateway-acme''\<rparr>"
    by code_simp
  show ?thesis
    using a assumed_role_is_own [OF _ _ a]
    by (auto simp: nul_free_def demo_role_source_def)
qed

subsection \<open>Secrets fail closed\<close>

text \<open>With a secret configured, the edge gate is never off and lets only the secret through.\<close>

lemma edge_gate_closed:
  assumes "arn \<noteq> []" and "fetch_edge_secret get arn = Inr secret"
    and "require_edge_secret secret rq cx = Inr cx'"
  shows "secret \<noteq> [] \<and> hr_header rq edge_verify_header = secret"
  using assms
  by (auto simp: fetch_edge_secret_def require_edge_secret_def Let_def
      split: sum.splits option.splits if_splits)

lemma fetched_key_length:
  "fetch_oidc_crypto_key get arn = Inr key \<Longrightarrow> length key = 32"
  "fetch_cookie_key get arn = Inr key \<Longrightarrow> length key = 32"
  by (auto simp: fetch_oidc_crypto_key_def fetch_cookie_key_def fetch_secret_key_32_def
      split: sum.splits option.splits if_splits)

text \<open>A deployed logger always has its log client, so a step is in the log or counted as lost.\<close>

lemma deployed_step_logged_or_counted:
  assumes "\<not> is_local env" and "new_logger env client store = Inr lg"
    and "logger_log_step json put_events lg now rnd slug flow stp sp user payload st = ((events, metrics, r), st')"
  shows "events = [audit_event_of now slug flow stp sp user payload] \<or> metrics = 1"
  using assms
  by (auto simp: new_logger_def logger_log_step_def Let_def split: if_splits sum.splits prod.splits)

end
