(* ===== verification/ApiReports.thy ===== *)
theory ApiReports
  imports ApiProps CertManager AuditStore
begin

text \<open>
  The reporting endpoints of the management interface: \<^verbatim>\<open>internal/api/integration_handlers.go\<close>,
  \<^verbatim>\<open>debug_handlers.go\<close> and \<^verbatim>\<open>analytics_handlers.go\<close>. The quick-start snippets of the integration page,
  constant texts with the URLs filled in, are left out. The theory ends with the type soundness of the
  tables the interface produces.
\<close>

subsection \<open>Integration\<close>

record saml_integration =
  si_metadata_url :: string
  si_app_metadata_url :: string
  si_entity_id :: string
  si_sso_url :: string
  si_slo_url :: string
  si_certificate_fingerprint :: string
  si_name_id_format :: string

record oidc_integration =
  oi_discovery_url :: string
  oi_client_id :: string
  oi_authorization_url :: string
  oi_token_url :: string
  oi_jwks_url :: string
  oi_userinfo_url :: string
  oi_scopes :: "string list"

record integration_info =
  in_id :: string
  in_display_name :: string
  in_protocol :: string
  in_saml :: "saml_integration option"
  in_oidc :: "oidc_integration option"

definition tenant_base_url :: "string \<Rightarrow> string \<Rightarrow> string" where
  "tenant_base_url base_url slug = trim_suffix base_url ''/'' @ ''/t/'' @ slug"

definition oidc_integration_of :: "string \<Rightarrow> string \<Rightarrow> oidc_integration" where
  "oidc_integration_of base client =
     \<lparr>oi_discovery_url = base @ ''/oidc/.well-known/openid-configuration'', oi_client_id = client,
      oi_authorization_url = base @ ''/oidc/authorize'', oi_token_url = base @ ''/oidc/token'',
      oi_jwks_url = base @ ''/oidc/.well-known/jwks.json'', oi_userinfo_url = base @ ''/oidc/userinfo'',
      oi_scopes = [''openid'', ''profile'', ''email'']\<rparr>"

definition saml_integration_of :: "string \<Rightarrow> string \<Rightarrow> cert_info \<Rightarrow> saml_config \<Rightarrow> saml_integration" where
  "saml_integration_of base i cert sc =
     \<lparr>si_metadata_url = base @ ''/saml/metadata'', si_app_metadata_url = base @ ''/saml/metadata/'' @ i,
      si_entity_id = base @ ''/saml/metadata'', si_sso_url = base @ ''/saml/sso'',
      si_slo_url = base @ ''/saml/slo'', si_certificate_fingerprint = ct_fingerprint cert,
      si_name_id_format = sc_name_id_format sc\<rparr>"

text \<open>\<open>cert\<close> is the answer of the certificate service.\<close>

definition get_integration_info ::
  "cert_info res \<Rightarrow> string \<Rightarrow> request_ctx \<Rightarrow> string \<Rightarrow> cfg_db \<Rightarrow> integration_info api" where
  "get_integration_info cert base_url cx i d =
     (case tenant_slug_from_context cx of
        None \<Rightarrow> Inl no_tenant
      | Some slug \<Rightarrow>
          (case app_get slug i d of
             Inl e \<Rightarrow>
               Inl (if is_not_found e then (404, ''application not found'')
                    else (500, ''failed to get application''))
           | Inr app \<Rightarrow>
               let out = \<lparr>in_id = a_id app, in_display_name = a_display_name app,
                          in_protocol = a_protocol app, in_saml = None, in_oidc = None\<rparr>;
                   base = tenant_base_url base_url slug
               in if equal_fold (a_protocol app) ''saml'' then
                    (case get_saml_config slug i d of
                       Inl e \<Rightarrow> Inl (500, ''failed to get SAML config'')
                     | Inr sc \<Rightarrow>
                         (case cert of
                            Inl e \<Rightarrow> Inl (500, ''failed to get certificate info'')
                          | Inr info \<Rightarrow> Inr (out\<lparr>in_saml := Some (saml_integration_of base i info sc)\<rparr>)))
                  else if equal_fold (a_protocol app) ''oidc''
                  then Inr (out\<lparr>in_oidc := Some (oidc_integration_of base (a_id app))\<rparr>)
                  else Inr out))"

subsection \<open>Debugging\<close>

definition decode_assertion :: "string \<Rightarrow> string api" where
  "decode_assertion text =
     (case b64_decode StdAlphabet True text of
        None \<Rightarrow> Inl (400, ''invalid base64 encoding'') | Some xml \<Rightarrow> Inr xml)"

definition scoped_slug :: "request_ctx \<Rightarrow> string option" where
  "scoped_slug cx =
     (case tenant_slug_from_context cx of None \<Rightarrow> None | Some s \<Rightarrow> if s = [] then None else Some s)"

definition get_audit_log :: "request_ctx \<Rightarrow> ses_db \<Rightarrow> flow_step list api" where
  "get_audit_log cx d =
     (case scoped_slug cx of
        None \<Rightarrow> Inl no_tenant
      | Some slug \<Rightarrow>
          (case get_recent_steps slug 100 d of
             Inl e \<Rightarrow> Inl (500, ''failed to retrieve audit log'') | Inr steps \<Rightarrow> Inr steps))"

definition get_flow_detail :: "request_ctx \<Rightarrow> string \<Rightarrow> ses_db \<Rightarrow> (string \<times> flow_step list) api" where
  "get_flow_detail cx flow d =
     (case scoped_slug cx of
        None \<Rightarrow> Inl no_tenant
      | Some slug \<Rightarrow>
          (case get_flow slug flow d of
             Inl e \<Rightarrow> Inl (500, ''failed to retrieve flow'')
           | Inr steps \<Rightarrow> if steps = [] then Inl (404, ''flow not found'') else Inr (flow, steps)))"

subsection \<open>Analytics\<close>

record analytics =
  an_total_apps :: nat
  an_total_auths :: nat

definition get_analytics_overview :: "request_ctx \<Rightarrow> cfg_db \<Rightarrow> ses_db \<Rightarrow> analytics" where
  "get_analytics_overview cx cfg d =
     (case scoped_slug cx of
        None \<Rightarrow> \<lparr>an_total_apps = 0, an_total_auths = 0\<rparr>
      | Some slug \<Rightarrow>
          \<lparr>an_total_apps = (case app_list slug cfg of Inl _ \<Rightarrow> 0 | Inr apps \<Rightarrow> length apps),
           an_total_auths = (case get_recent_steps slug 10000 d of Inl _ \<Rightarrow> 0 | Inr steps \<Rightarrow> length steps)\<rparr>)"

subsection \<open>Type soundness\<close>

lemma get_as_wrong_kind:
  "get_as f pk sk d = Inl wrong_kind \<Longrightarrow> \<exists>r. lookup d (mkey pk sk) = Some r \<and> f r = None"
  by (auto simp: get_as_def db_get_def wrong_kind_def split: option.splits if_splits)

lemma kind_of_key:
  assumes "cfg_row_ok r" and "no_hash i" and "i \<noteq> []"
  shows "r_sk r = tenant_sk \<Longrightarrow> as_tenant r \<noteq> None"
    and "r_sk r = source_sk i \<Longrightarrow> as_source r \<noteq> None"
    and "r_sk r = app_sk i \<Longrightarrow> as_app r \<noteq> None"
    and "r_sk r = app_saml_sk i \<Longrightarrow> as_saml r \<noteq> None"
    and "r_sk r = app_oidc_sk i \<Longrightarrow> as_oidc r \<noteq> None"
  using assms
  by (auto simp: cfg_row_ok_def item_ok_def as_defs sk_distinct sk_distinct_sym app_sk_hash
      app_sk_hash [THEN conjunct1, symmetric] app_sk_hash [THEN conjunct2, THEN conjunct1, symmetric]
      sub_sk_distinct sub_sk_distinct [THEN conjunct1, symmetric]
      split: cfg_item.splits)



text \<open>The reports of a tenant hold its own steps only.\<close>

lemma audit_log_own_steps:
  assumes "audit_inv d" and "get_audit_log cx d = Inr steps" and "tenant_slug_from_context cx = Some slug"
    and "no_hash slug"
  shows "\<forall>s\<in>set steps. \<exists>r ttl g h. lookup d (row_key r) = Some r \<and> r_item r = FlowStepItem ttl g h s \<and>
    r_pk r = flow_pk slug (fs_flow_id s)"
proof -
  have "get_recent_steps slug 100 d = Inr steps"
    using assms(2,3) by (auto simp: get_audit_log_def scoped_slug_def
        split: if_splits sum.splits option.splits)
  with recent_steps_tenant [OF assms(1,4)] show ?thesis by blast
qed

end
