(* ===== verification/Spec2Isabelle.thy ===== *)
theory Spec2Isabelle
  imports SamlSloProps CognitoTrust SamlHandoff OidcLoginProps ApiCreate OnboardingProps
    CertRotation CertPublish SafeHttp ClaimPreview CloudAdapters ApiReports
begin

text \<open>
  A verification development of the federation proxy: a gateway that puts a SAML identity provider and
  an OpenID provider in front of Amazon Cognito user pools, for many tenants. The model is a shallow
  embedding of the Go code under \<^verbatim>\<open>src/internal\<close>: a function per Go function, a record per struct, a
  branch per early return.

  \<^bold>\<open>The program and the theories.\<close>

  A request reaches the gateway through the edge gate (a shared secret header), is resolved to a tenant,
  and goes to one of three fronts: the SAML endpoints, the OpenID endpoints or the management API. The
  fronts share two tables. The configuration table holds tenants, identity sources, applications with
  their settings and mappings, and the signing certificates; the session table holds what a login or a
  token leaves behind, the replay records and the audit trail. Both fronts send a user to Cognito and
  take the verified ID token back; cookies that only the gateway can make tie the two halves of a login
  to one browser.

  \<^item> Foundations. \<open>Prelude\<close> has time, the string functions of Go, the error values and the lemma
    collections. \<open>Url\<close> and \<open>Codec\<close> are \<^verbatim>\<open>net/url\<close>, percent and base64 coding as far as the gateway uses
    them. \<open>Table\<close> is \<^verbatim>\<open>store/memorydb.go\<close> with a fault environment; its locale \<open>table_api\<close> is the
    contract the stores rely on.
  \<^item> Configuration. \<open>TenantModel\<close> (\<^verbatim>\<open>tenant/\<close>): the data and the two allow-list checks.
    \<open>ConfigItems\<close>: the rows of the table, their keys, and the invariant that a key determines the kind
    of its row. \<open>TenantStore\<close>, \<open>ClaimStore\<close>, \<open>AppStore\<close>, \<open>AppLookup\<close> (\<^verbatim>\<open>store/\<close>): the stores, the
    replacement of mappings as one contract (locale \<open>mapping_kind\<close>), the uniqueness of entity ids.
  \<^item> Sessions. \<open>SessionItems\<close>, \<open>SessionStore\<close>, \<open>AuditStore\<close> (\<^verbatim>\<open>store/\<close>): the rows of the session table,
    marks that expire (locale \<open>expiring_marks\<close>), the ordered audit trail.
  \<^item> OpenID provider. \<open>OidcClient\<close>, \<open>OidcStorage\<close>, \<open>OidcClaims\<close> (\<^verbatim>\<open>oidc/client.go\<close>, \<^verbatim>\<open>storage.go\<close>): what
    the provider library calls back. \<open>OidcLifecycle\<close>, \<open>OidcReach\<close>, \<open>OidcSessions\<close>, \<open>OidcTokens\<close>: the
    session table as a state machine, and what logout, rotation, revocation and the code flow achieve
    in every state it can reach. \<open>OidcLogin\<close>, \<open>OidcLoginProps\<close> (\<^verbatim>\<open>oidc/login.go\<close>, \<^verbatim>\<open>handler.go\<close>): the
    bridge to Cognito.
  \<^item> SAML. \<open>SamlAssertion\<close>, \<open>SamlRelease\<close> (\<^verbatim>\<open>saml/assertion_maker.go\<close>, \<^verbatim>\<open>nameid.go\<close>, \<^verbatim>\<open>durations.go\<close>,
    \<^verbatim>\<open>sp_provider.go\<close>): what a service provider learns and for how long. \<open>SamlCookies\<close>, \<open>SamlFlow\<close>,
    \<open>SamlIdp\<close>, \<open>SamlFlowProps\<close>, \<open>SamlHandoff\<close> (\<^verbatim>\<open>saml/session_provider.go\<close>, \<^verbatim>\<open>idp.go\<close>): the login flows
    up to the session handed to the SAML library; \<open>SamlExample\<close> is the installation their witnesses
    run on. \<open>SamlSlo\<close>, \<open>SamlSloProps\<close> (\<^verbatim>\<open>saml/slo.go\<close>): single logout. \<open>SamlMetadata\<close> (\<^verbatim>\<open>idp.go\<close>): the
    published metadata.
  \<^item> Trust. \<open>SignedCookie\<close> (\<^verbatim>\<open>crypto/signed_cookie.go\<close>), \<open>Cognito\<close>, \<open>CognitoTrust\<close> (\<^verbatim>\<open>cognito/\<close>): cookies
    and the verifier of ID tokens with its key cache. \<open>Certificates\<close>, \<open>CertManager\<close>, \<open>CertReach\<close>,
    \<open>CertProps\<close>, \<open>CertRotation\<close>, \<open>CertPublish\<close> (\<^verbatim>\<open>crypto/cert_*.go\<close>, \<^verbatim>\<open>service/cert_manager.go\<close>): the
    signing certificates, their imports, promotions, rotation and publication.
  \<^item> Management. \<open>GatewayConfig\<close> (\<^verbatim>\<open>config/\<close>), \<open>Middleware\<close> (\<^verbatim>\<open>middleware/\<close>), \<open>ApiTypes\<close>, \<open>ApiApps\<close>,
    \<open>ApiTenants\<close>, \<open>ApiRouter\<close> (\<^verbatim>\<open>api/\<close>): the API as one program. \<open>ApiWrites\<close>, \<open>ApiHandlers\<close>, \<open>ApiProps\<close>,
    \<open>ApiSettings\<close>, \<open>ApiCreate\<close>: what its handlers write, who may make them write, and what the stored
    settings are worth to the fronts. \<open>ApiReports\<close>: the read-only reports. \<open>Onboarding\<close>,
    \<open>OnboardingRuns\<close>, \<open>OnboardingLive\<close>, \<open>OnboardingProps\<close> (\<^verbatim>\<open>service/onboarding/\<close>): the wizard.
    \<open>ClaimPreview\<close> (\<^verbatim>\<open>service/preview.go\<close>): the dry run of the mappings.
  \<^item> Outside calls. \<open>SafeHttp\<close> (\<^verbatim>\<open>safehttp/\<close>): the hardened client. \<open>CloudAdapters\<close> (\<^verbatim>\<open>aws/\<close>, \<^verbatim>\<open>audit/\<close>,
    \<^verbatim>\<open>iac/publisher/\<close>, the secrets of \<^verbatim>\<open>crypto/\<close>): the cloud services.

  \<^bold>\<open>How state and effects are modelled.\<close>

  A table is an association list from the joined key to a typed row. A store operation returns its
  result and the table, also on an error path, so that a write that came before a failure stays in the
  table; every operation names what it asks of the backend, and \<open>fault\<close> decides which of these requests
  fail. An error is a value (\<open>err\<close>); a handler's refusal is a status and a text, without the parts Go
  interpolates. Time is the number of nanoseconds since the epoch as an integer. A call reads the clock
  once, and its random bytes are arguments, \<open>None\<close> where the source of randomness fails. Instants after
  the year 2262, at which Go's durations would overflow, are not treated; the sequence counter of the
  audit trail is a 64 bit word and wraps.

  Nothing runs on fuel: recursion is over lists, and the one loop whose end depends on a service, over
  the pages of the policy simulator, is a \<open>partial_function\<close> whose divergence is \<open>None\<close>.

  \<^bold>\<open>What is assumed of code outside the repository.\<close>

  Each such piece is a parameter: \<open>crypto_env\<close> (hashes and the cipher), \<open>cognito_env\<close> (HTTP, JSON and
  the JWT library), \<open>slo_env\<close> (DEFLATE, XML, X.509 and signatures), \<open>sso_env\<close> (the environment of the login
  flows), \<open>x509_env\<close> (PEM and X.509), \<open>metadata_env\<close> (the SAML library), \<open>api_env\<close> and \<open>onb_service\<close> (the
  services behind the handlers), and functions for the secret store, the log service, the template bucket
  and the policy simulator. A law the code relies on is a named predicate on the environment, and a theorem
  that uses one has a witness with a concrete environment.

  \<^bold>\<open>What the theorems show.\<close>

  Invariants hold in every table that arbitrary sequences of operations can produce, faults included:
  entity ids are unique, keys determine kinds, live tokens are indexed, the signing key belongs to the
  active certificate, stored settings are in the bounds the fronts honour. Safety theorems say who can
  cause an effect: a write of the management API needs the edge secret, a verified token and the role; a
  single logout needs a fresh signed request of a registered provider; a login can be finished only by
  the browser and for the request that began it; a fetch never leaves for an address inside the network.
  Functional theorems and round trips say what an operation achieves; refinements and equivalences
  compare the management API with the operations of the stores, the claims of the two protocols, the
  preview with the assertion, the client authentication with its specification. Liveness theorems show
  that a login, an onboarding, a created client and a rotation come to their end when the services answer.

  \<^bold>\<open>Not modelled.\<close>

  The SAML and OpenID libraries themselves, beyond the calls they make into the gateway; concurrency
  within one process (the state of a call is its own; the conditional writes that order processes are
  modelled as the table has them); the DynamoDB client, whose source is not in the repository; the
  serving of provider requests by the OpenID library; logging, metrics and constant headers; the entry
  points, which wire the parts together; the quick-start snippets and the template texts; the
  terminal tool, the test providers, the dashboard and the infrastructure code.
\<close>

end
